(* ===== verification/Prelude.thy ===== *)
theory Prelude
  imports Main "HOL-Library.List_Lexorder" "HOL-Library.Char_ord" "HOL-Library.Multiset"
    "HOL-Library.Signed_Division" "HOL-Library.Sublist"
begin

text \<open>
  Shared vocabulary of the development.

  \<^item> Go's \<open>int64\<close> (and \<open>int\<close>, which is 64 bits wide on every platform the
    program ships for) as \<open>int\<close> with the wrap-around written out by \<open>wrap64\<close>.
  \<^item> \<open>sort.SliceStable\<close> and \<open>sort.Slice\<close> as \<open>stable_sort\<close>, and the contract of
    a comparison function as the locale \<open>less_order\<close>, in which the lemmas of every sort of
    the program are proved once.
  \<^item> The byte-string operations of the package \<open>strings\<close> the sources call, and decimal
    printing (\<open>%d\<close>).
  \<^item> The collections of rewrite rules the component theories share.
\<close>

named_theorems go_simps \<open>unfolding rules of the modelled Go library functions\<close>

section \<open>64-bit integers\<close>

type_synonym i64 = int

definition wrap64 :: "int \<Rightarrow> i64" where
  "wrap64 x = (x + 2 ^ 63) mod 2 ^ 64 - 2 ^ 63"

definition in_i64 :: "int \<Rightarrow> bool" where
  "in_i64 x \<longleftrightarrow> - (2 ^ 63) \<le> x \<and> x < 2 ^ 63"

lemma wrap64_id [simp]: "in_i64 x \<Longrightarrow> wrap64 x = x"
  by (simp add: wrap64_def in_i64_def mod_pos_pos_trivial)

lemma in_i64_small: "0 \<le> x \<Longrightarrow> x < 2 ^ 53 \<Longrightarrow> in_i64 x"
  by (simp add: in_i64_def)

lemma in_i64_wrap64 [simp]: "in_i64 (wrap64 x)"
proof -
  have "0 \<le> (x + 2 ^ 63) mod 2 ^ 64" and "(x + 2 ^ 63) mod 2 ^ 64 < 2 ^ 64"
    by (rule pos_mod_sign pos_mod_bound, simp)+
  then show ?thesis by (simp add: wrap64_def in_i64_def)
qed

lemma wrap64_cong: "(wrap64 x - x) mod 2 ^ 64 = 0"
proof -
  have "(wrap64 x - x) mod 2 ^ 64 = ((x + 2 ^ 63) mod 2 ^ 64 - (x + 2 ^ 63)) mod 2 ^ 64"
    by (simp add: wrap64_def algebra_simps)
  also have "\<dots> = 0" by (simp add: mod_diff_left_eq)
  finally show ?thesis .
qed

lemma wrap64_add_left [simp]: "wrap64 (wrap64 x + y) = wrap64 (x + y)"
proof -
  have "(x + 2 ^ 63) mod 2 ^ 64 - 2 ^ 63 + y + 2 ^ 63 = (x + 2 ^ 63) mod 2 ^ 64 + y" by simp
  then have "wrap64 (wrap64 x + y) = ((x + 2 ^ 63) mod 2 ^ 64 + y) mod 2 ^ 64 - 2 ^ 63"
    by (simp add: wrap64_def)
  also have "((x + 2 ^ 63) mod 2 ^ 64 + y) mod 2 ^ 64 = (x + 2 ^ 63 + y) mod 2 ^ 64"
    by (rule mod_add_left_eq)
  also have "x + 2 ^ 63 + y = x + y + 2 ^ 63" by simp
  also have "(x + y + 2 ^ 63) mod 2 ^ 64 - 2 ^ 63 = wrap64 (x + y)" by (simp only: wrap64_def)
  finally show ?thesis .
qed

lemma wrap64_add_right [simp]: "wrap64 (y + wrap64 x) = wrap64 (y + x)"
  using wrap64_add_left[of x y] by (simp add: add.commute)

text \<open>
  Go's integer division truncates towards zero, as \<open>sdiv\<close> of
  \<^verbatim>\<open>HOL-Library.Signed_Division\<close> does; on non-negative operands it is \<open>div\<close>.
\<close>

lemma sdiv_nonneg [simp]: "0 \<le> (a::int) \<Longrightarrow> 0 \<le> b \<Longrightarrow> a sdiv b = a div b"
  by (cases "a = 0"; cases "b = 0") (auto simp: signed_divide_int_def sgn_if)

lemma smod_nonneg [simp]: "0 \<le> (a::int) \<Longrightarrow> 0 \<le> b \<Longrightarrow> a smod b = a mod b"
  by (cases "a = 0") (auto simp: signed_modulo_int_def minus_mult_div_eq_mod)

lemma sdiv_minus: "(- a) sdiv b = - (a sdiv (b::int))"
  by (simp add: signed_divide_int_def sgn_if)

lemma abs_sdiv: "0 < b \<Longrightarrow> \<bar>a sdiv b\<bar> = \<bar>a\<bar> div (b::int)"
  by (cases "a = 0") (auto simp: signed_divide_int_def abs_mult abs_sgn_eq pos_imp_zdiv_nonneg_iff)

section \<open>Sorting with a comparison function\<close>

text \<open>
  \<open>sort.SliceStable\<close> keeps the order of elements neither of which is less than the
  other. The order \<open>sort.Slice\<close> gives to such elements is not specified; the model keeps
  them in place too, and \<open>less_order.stable_sort_unique\<close> shows that every sorted
  permutation is this one as soon as the elements are pairwise comparable.
\<close>

fun insert_by :: "('a \<Rightarrow> 'a \<Rightarrow> bool) \<Rightarrow> 'a \<Rightarrow> 'a list \<Rightarrow> 'a list" where
  "insert_by lt x [] = [x]"
| "insert_by lt x (y # ys) = (if lt y x then y # insert_by lt x ys else x # y # ys)"

definition stable_sort :: "('a \<Rightarrow> 'a \<Rightarrow> bool) \<Rightarrow> 'a list \<Rightarrow> 'a list" where
  "stable_sort lt xs = foldr (insert_by lt) xs []"

lemma stable_sort_simps [simp]:
  "stable_sort lt [] = []"
  "stable_sort lt (x # xs) = insert_by lt x (stable_sort lt xs)"
  by (simp_all add: stable_sort_def)

lemma mset_insert_by [simp]: "mset (insert_by lt x xs) = add_mset x (mset xs)"
  by (induction xs) auto

lemma mset_stable_sort [simp]: "mset (stable_sort lt xs) = mset xs"
  by (induction xs) auto

lemma set_stable_sort [simp]: "set (stable_sort lt xs) = set xs"
  by (rule mset_eq_setD) simp

lemma length_stable_sort [simp]: "length (stable_sort lt xs) = length xs"
  by (rule mset_eq_length) simp

lemma distinct_map_stable_sort [simp]: "distinct (map f (stable_sort lt xs)) = distinct (map f xs)"
proof -
  have "mset (map f (stable_sort lt xs)) = mset (map f xs)" unfolding mset_map mset_stable_sort ..
  then show ?thesis by (rule mset_eq_imp_distinct_iff)
qed

definition sorted_by :: "('a \<Rightarrow> 'a \<Rightarrow> bool) \<Rightarrow> 'a list \<Rightarrow> bool" where
  "sorted_by lt xs \<longleftrightarrow> sorted_wrt (\<lambda>x y. \<not> lt y x) xs"

lemma sorted_by_simps [simp]:
  "sorted_by lt []"
  "sorted_by lt (x # xs) \<longleftrightarrow> (\<forall>y \<in> set xs. \<not> lt y x) \<and> sorted_by lt xs"
  by (simp_all add: sorted_by_def)

text \<open>
  The contract of a comparison function handed to \<open>sort\<close>: asymmetric, and what is
  below \<open>z\<close> or not below \<open>y\<close> is consistently so (a strict weak order).
\<close>

locale less_order =
  fixes lt :: "'a \<Rightarrow> 'a \<Rightarrow> bool"
  assumes asym: "lt x y \<Longrightarrow> \<not> lt y x"
    and neg_trans: "lt x z \<Longrightarrow> lt x y \<or> lt y z"
begin

lemma irrefl: "\<not> lt x x"
  using asym by blast

lemma trans: "lt x y \<Longrightarrow> lt y z \<Longrightarrow> lt x z"
  using asym neg_trans by blast

lemma set_insert_by: "set (insert_by lt x xs) = insert x (set xs)"
  by (induction xs) auto

lemma sorted_insert_by: "sorted_by lt xs \<Longrightarrow> sorted_by lt (insert_by lt x xs)"
proof (induction xs)
  case (Cons y ys)
  show ?case
  proof (cases "lt y x")
    case True
    with Cons asym show ?thesis by (auto simp: set_insert_by)
  next
    case False
    have "\<not> lt z x" if "z \<in> set ys" for z
      using that Cons.prems False neg_trans by (metis sorted_by_simps(2))
    with False Cons.prems show ?thesis by auto
  qed
qed simp

lemma sorted_stable_sort: "sorted_by lt (stable_sort lt xs)"
  by (induction xs) (auto simp: sorted_insert_by)

lemma stable_sort_sorted: "sorted_by lt xs \<Longrightarrow> stable_sort lt xs = xs"
proof (induction xs)
  case (Cons x xs)
  then show ?case by (cases xs) auto
qed simp

lemma stable_sort_idem: "stable_sort lt (stable_sort lt xs) = stable_sort lt xs"
  by (rule stable_sort_sorted) (rule sorted_stable_sort)

lemma insert_by_stable:
  assumes "\<not> lt x a" "\<not> lt a x"
  shows "filter (\<lambda>z. \<not> lt z a \<and> \<not> lt a z) (insert_by lt x ys)
    = x # filter (\<lambda>z. \<not> lt z a \<and> \<not> lt a z) ys"
proof (induction ys)
  case Nil
  with assms show ?case by simp
next
  case (Cons y ys)
  have "lt y x \<Longrightarrow> lt y a"
    using assms neg_trans by blast
  with Cons assms show ?case by auto
qed

lemma insert_by_other:
  assumes "lt x a \<or> lt a x"
  shows "filter (\<lambda>z. \<not> lt z a \<and> \<not> lt a z) (insert_by lt x ys)
    = filter (\<lambda>z. \<not> lt z a \<and> \<not> lt a z) ys"
  using assms by (induction ys) auto

text \<open>Elements that compare equal to \<open>a\<close> keep their order: the sort is stable.\<close>

lemma stable_sort_stable:
  "filter (\<lambda>z. \<not> lt z a \<and> \<not> lt a z) (stable_sort lt xs)
    = filter (\<lambda>z. \<not> lt z a \<and> \<not> lt a z) xs"
  by (induction xs) (auto simp: insert_by_stable insert_by_other)

text \<open>Where different elements are comparable there is one sorted permutation only.\<close>

lemma sorted_by_unique:
  assumes "sorted_by lt xs" "sorted_by lt ys" "mset xs = mset ys"
    and "\<And>x y. x \<in> set xs \<Longrightarrow> y \<in> set xs \<Longrightarrow> x \<noteq> y \<Longrightarrow> lt x y \<or> lt y x"
  shows "xs = ys"
  using assms
proof (induction xs arbitrary: ys)
  case Nil
  then show ?case by simp
next
  case (Cons x xs)
  from Cons.prems(3) have set_eq: "set ys = set (x # xs)"
    by (metis mset_eq_setD)
  then obtain y ys' where ys: "ys = y # ys'" by (cases ys) auto
  have "x = y"
  proof (rule ccontr)
    assume "x \<noteq> y"
    moreover from this ys set_eq have "y \<in> set xs" by auto
    moreover from \<open>x \<noteq> y\<close> ys set_eq have "x \<in> set ys'" by auto
    ultimately show False
      using Cons.prems(1,2) Cons.prems(4)[of x y] ys by auto
  qed
  moreover from this ys Cons.prems(3) have "mset xs = mset ys'" by simp
  then have "xs = ys'"
    using Cons.prems ys by (intro Cons.IH) auto
  ultimately show ?case using ys by simp
qed

lemma stable_sort_unique:
  assumes "sorted_by lt ys" "mset ys = mset xs"
    and "\<And>x y. x \<in> set xs \<Longrightarrow> y \<in> set xs \<Longrightarrow> x \<noteq> y \<Longrightarrow> lt x y \<or> lt y x"
  shows "stable_sort lt xs = ys"
  by (rule sorted_by_unique) (use assms sorted_stable_sort in auto)

end

text \<open>Comparing by a key into a linear order is such a contract.\<close>

interpretation key_order: less_order "\<lambda>x y. (f x :: 'k::linorder) < f y" for f
  by unfold_locales auto

section \<open>Byte strings\<close>

definition has_suffix :: "string \<Rightarrow> string \<Rightarrow> bool" where
  "has_suffix s suf \<longleftrightarrow> length suf \<le> length s \<and> drop (length s - length suf) s = suf"

definition trim_suffix :: "string \<Rightarrow> string \<Rightarrow> string" where
  "trim_suffix s suf = (if has_suffix s suf then take (length s - length suf) s else s)"

definition trim_prefix :: "string \<Rightarrow> string \<Rightarrow> string" where
  "trim_prefix s pre = (if take (length pre) s = pre then drop (length pre) s else s)"

text \<open>A text is determined by its parts before and after the first separator.\<close>

lemma append_sep_inj:
  "c \<notin> set a \<Longrightarrow> c \<notin> set a' \<Longrightarrow> a @ c # b = a' @ c # b' \<longleftrightarrow> a = a' \<and> b = b'"
proof (induction a arbitrary: a')
  case Nil
  then show ?case by (cases a') auto
next
  case (Cons x xs)
  then show ?case by (cases a') auto
qed

lemma has_suffix_append [simp]: "has_suffix (s @ suf) suf"
  by (simp add: has_suffix_def)

lemma trim_suffix_append [simp]: "trim_suffix (s @ suf) suf = s"
  by (simp add: trim_suffix_def)

lemma has_suffixD: "has_suffix s suf \<Longrightarrow> s = trim_suffix s suf @ suf"
  by (metis append_take_drop_id has_suffix_def trim_suffix_def)

text \<open>
  \<open>strings.TrimSpace\<close> cuts Unicode white space, which is the following list of UTF-8
  sequences: the six ASCII blanks, U+0085, U+00A0, U+1680, U+2000 to U+200A, U+2028,
  U+2029, U+202F, U+205F and U+3000.
\<close>

definition space_seqs :: "string list" where
  "space_seqs =
     [[CHR 0x09], [CHR 0x0A], [CHR 0x0B], [CHR 0x0C], [CHR 0x0D], [CHR 0x20],
      [CHR 0xC2, CHR 0x85], [CHR 0xC2, CHR 0xA0], [CHR 0xE1, CHR 0x9A, CHR 0x80],
      [CHR 0xE2, CHR 0x80, CHR 0x80], [CHR 0xE2, CHR 0x80, CHR 0x81],
      [CHR 0xE2, CHR 0x80, CHR 0x82], [CHR 0xE2, CHR 0x80, CHR 0x83],
      [CHR 0xE2, CHR 0x80, CHR 0x84], [CHR 0xE2, CHR 0x80, CHR 0x85],
      [CHR 0xE2, CHR 0x80, CHR 0x86], [CHR 0xE2, CHR 0x80, CHR 0x87],
      [CHR 0xE2, CHR 0x80, CHR 0x88], [CHR 0xE2, CHR 0x80, CHR 0x89],
      [CHR 0xE2, CHR 0x80, CHR 0x8A], [CHR 0xE2, CHR 0x80, CHR 0xA8],
      [CHR 0xE2, CHR 0x80, CHR 0xA9], [CHR 0xE2, CHR 0x80, CHR 0xAF],
      [CHR 0xE2, CHR 0x81, CHR 0x9F], [CHR 0xE3, CHR 0x80, CHR 0x80]]"

definition strip_one :: "string list \<Rightarrow> string \<Rightarrow> string option" where
  "strip_one ps s =
     map_option (\<lambda>p. drop (length p) s)
       (find (\<lambda>p. p \<noteq> [] \<and> take (length p) s = p) ps)"

lemma strip_one_shorter: "strip_one ps s = Some t \<Longrightarrow> length t < length s"
  by (auto simp: strip_one_def find_Some_iff) (metis diff_less length_greater_0_conv take_eq_Nil)

function strip_all :: "string list \<Rightarrow> string \<Rightarrow> string" where
  "strip_all ps s = (case strip_one ps s of None \<Rightarrow> s | Some t \<Rightarrow> strip_all ps t)"
  by pat_completeness auto
termination
  by (relation "measure (length \<circ> snd)") (auto dest: strip_one_shorter)

declare strip_all.simps [simp del]

definition trim_space :: "string \<Rightarrow> string" where
  "trim_space s =
     rev (strip_all (map rev space_seqs) (rev (strip_all space_seqs s)))"

lemma strip_all_None: "strip_one ps s = None \<Longrightarrow> strip_all ps s = s"
  by (simp add: strip_all.simps[of ps s])

lemma strip_one_strip_all: "strip_one ps (strip_all ps s) = None"
proof (induction ps s rule: strip_all.induct)
  case (1 ps s)
  then show ?case
    by (cases "strip_one ps s") (simp_all add: strip_all.simps[of ps s])
qed

lemma strip_all_idem [simp]: "strip_all ps (strip_all ps s) = strip_all ps s"
  by (rule strip_all_None) (rule strip_one_strip_all)

lemma strip_all_Nil [simp]: "strip_all ps [] = []"
  by (rule strip_all_None) (auto simp: strip_one_def find_None_iff)

lemma trim_space_Nil [simp]: "trim_space [] = []"
  by (simp add: trim_space_def)

lemma strip_one_disjoint: "(\<And>p. p \<in> set ps \<Longrightarrow> \<not> set p \<subseteq> set s) \<Longrightarrow> strip_one ps s = None"
  by (auto simp: strip_one_def find_None_iff) (metis set_take_subset)

text \<open>A text without the first byte of any space is not changed by \<^const>\<open>trim_space\<close>.\<close>

lemma trim_space_id:
  assumes "set s \<inter> set (map hd space_seqs) = {}"
  shows "trim_space s = s"
proof -
  have "\<not> set p \<subseteq> set s" if "p \<in> set space_seqs" for p
  proof -
    have "p \<noteq> []" using that by (auto simp: space_seqs_def)
    then have "hd p \<in> set p" by simp
    with assms that show ?thesis by auto
  qed
  then have "strip_all space_seqs s = s" "strip_all (map rev space_seqs) (rev s) = rev s"
    by (auto intro!: strip_all_None strip_one_disjoint)
  then show ?thesis by (simp add: trim_space_def)
qed

section \<open>Decimal printing\<close>

definition digit_char :: "nat \<Rightarrow> char" where
  "digit_char d = char_of (48 + d)"

fun show_nat :: "nat \<Rightarrow> string" where
  "show_nat n = (if n < 10 then [digit_char n] else show_nat (n div 10) @ [digit_char (n mod 10)])"

declare show_nat.simps [simp del]

definition show_int :: "int \<Rightarrow> string" where
  "show_int i = (if i < 0 then ''-'' @ show_nat (nat (- i)) else show_nat (nat i))"

text \<open>\<open>fmt\<close>'s \<^verbatim>\<open>%02d\<close>.\<close>

definition pad2 :: "int \<Rightarrow> string" where
  "pad2 c = (if 0 \<le> c \<and> c < 10 then CHR ''0'' # show_int c else show_int c)"

definition is_digit :: "char \<Rightarrow> bool" where
  "is_digit c \<longleftrightarrow> 48 \<le> (of_char c :: nat) \<and> (of_char c :: nat) \<le> 57"

definition digit_val :: "char \<Rightarrow> int" where
  "digit_val c = int (of_char c) - 48"

lemma digit_char_digit [simp]: "d < 10 \<Longrightarrow> is_digit (digit_char d)"
  by (simp add: is_digit_def digit_char_def)

lemma digit_val_digit_char [simp]: "d < 10 \<Longrightarrow> digit_val (digit_char d) = int d"
  by (simp add: digit_val_def digit_char_def of_char_of)

lemma show_nat_digits: "c \<in> set (show_nat n) \<Longrightarrow> is_digit c"
proof (induction n rule: show_nat.induct)
  case (1 n)
  then show ?case by (cases "n < 10") (auto simp: show_nat.simps[of n])
qed

lemma show_nat_0: "show_nat 0 = ''0''"
  by code_simp

lemma show_nat_nonempty [simp]: "show_nat n \<noteq> []"
  by (simp add: show_nat.simps[of n])

text \<open>The value of a digit string, most significant digit first, on unbounded integers.\<close>

definition digits_val :: "string \<Rightarrow> int" where
  "digits_val s = foldl (\<lambda>v c. v * 10 + digit_val c) 0 s"

lemma digits_val_show_nat [simp]: "digits_val (show_nat n) = int n"
proof (induction n rule: show_nat.induct)
  case (1 n)
  show ?case
  proof (cases "n < 10")
    case True
    then show ?thesis by (simp add: show_nat.simps[of n] digits_val_def)
  next
    case False
    with 1 have "digits_val (show_nat (n div 10)) = int (n div 10)" by simp
    with False show ?thesis
      by (simp add: show_nat.simps[of n] digits_val_def zdiv_int zmod_int)
  qed
qed

text \<open>The dash the report texts use, U+2014 in UTF-8.\<close>

definition em_dash :: string where
  "em_dash = [CHR 0xE2, CHR 0x80, CHR 0x94]"

end
