(* ===== verification/Go_Float.thy ===== *)
theory Go_Float
  imports Complex_Main Prelude "HOL-Library.Log_Nat"
begin

text \<open>
  Go's \<open>float64\<close>: IEEE 754 binary64 with rounding to nearest, ties to even.

  A finite value is kept as the rational number it denotes (the sign of a zero, which no
  comparison or conversion of the program can observe, is not kept). Every operation is the
  exact rational operation followed by \<open>to_f64\<close>, as the standard prescribes. The lemmas say
  where the rounding cannot be seen: integers below \<open>2 ^ 53\<close> convert exactly, and the
  quotient of two of them compares with a power of two as the exact quotient does.
\<close>

datatype f64 = Fin rat | PInf | NInf | NaN

section \<open>Rounding\<close>

definition rne :: "rat \<Rightarrow> int" where
  "rne x =
     (let n = \<lfloor>x\<rfloor>; d = x - of_int n
      in if d < 1 / 2 then n else if 1 / 2 < d then n + 1 else if even n then n else n + 1)"

definition ilog2 :: "rat \<Rightarrow> int" where
  "ilog2 x =
     (let (p, q) = quotient_of x; e = bitlen p - bitlen q
      in if 2 powi e \<le> x then e else e - 1)"

definition round64 :: "rat \<Rightarrow> rat" where
  "round64 x =
     (if x = 0 then 0
      else let u = 2 powi (max (ilog2 \<bar>x\<bar> - 52) (- 1074)) in of_int (rne (x / u)) * u)"

definition to_f64 :: "rat \<Rightarrow> f64" where
  "to_f64 x =
     (let r = round64 x
      in if 2 ^ 1024 \<le> r then PInf else if r \<le> - (2 ^ 1024) then NInf else Fin r)"

section \<open>Operations\<close>

definition f64_of_int :: "int \<Rightarrow> f64" where
  "f64_of_int n = to_f64 (of_int n)"

fun f64_neg :: "f64 \<Rightarrow> bool" where
  "f64_neg (Fin x) \<longleftrightarrow> x < 0"
| "f64_neg NInf \<longleftrightarrow> True"
| "f64_neg _ \<longleftrightarrow> False"

definition f64_inf :: "bool \<Rightarrow> f64" where
  "f64_inf neg = (if neg then NInf else PInf)"

fun f64_mul :: "f64 \<Rightarrow> f64 \<Rightarrow> f64" where
  "f64_mul NaN _ = NaN"
| "f64_mul _ NaN = NaN"
| "f64_mul (Fin x) (Fin y) = to_f64 (x * y)"
| "f64_mul (Fin x) y = (if x = 0 then NaN else f64_inf (f64_neg (Fin x) \<noteq> f64_neg y))"
| "f64_mul x (Fin y) = (if y = 0 then NaN else f64_inf (f64_neg x \<noteq> f64_neg (Fin y)))"
| "f64_mul x y = f64_inf (f64_neg x \<noteq> f64_neg y)"

fun f64_div :: "f64 \<Rightarrow> f64 \<Rightarrow> f64" where
  "f64_div NaN _ = NaN"
| "f64_div _ NaN = NaN"
| "f64_div (Fin x) (Fin y) =
     (if y = 0 then if x = 0 then NaN else f64_inf (x < 0) else to_f64 (x / y))"
| "f64_div (Fin x) _ = Fin 0"
| "f64_div x (Fin y) = f64_inf (f64_neg x \<noteq> f64_neg (Fin y))"
| "f64_div _ _ = NaN"

fun f64_add :: "f64 \<Rightarrow> f64 \<Rightarrow> f64" where
  "f64_add NaN _ = NaN"
| "f64_add _ NaN = NaN"
| "f64_add (Fin x) (Fin y) = to_f64 (x + y)"
| "f64_add (Fin _) y = y"
| "f64_add x (Fin _) = x"
| "f64_add x y = (if x = y then x else NaN)"

definition f64_sub :: "f64 \<Rightarrow> f64 \<Rightarrow> f64" where
  "f64_sub x y = f64_add x (case y of Fin r \<Rightarrow> Fin (- r) | PInf \<Rightarrow> NInf | NInf \<Rightarrow> PInf | NaN \<Rightarrow> NaN)"

fun f64_lt :: "f64 \<Rightarrow> f64 \<Rightarrow> bool" where
  "f64_lt NaN _ \<longleftrightarrow> False"
| "f64_lt _ NaN \<longleftrightarrow> False"
| "f64_lt (Fin x) (Fin y) \<longleftrightarrow> x < y"
| "f64_lt (Fin _) y \<longleftrightarrow> y = PInf"
| "f64_lt x (Fin _) \<longleftrightarrow> x = NInf"
| "f64_lt x y \<longleftrightarrow> x = NInf \<and> y = PInf"

definition f64_le :: "f64 \<Rightarrow> f64 \<Rightarrow> bool" where
  "f64_le x y \<longleftrightarrow> f64_lt x y \<or> (x = y \<and> x \<noteq> NaN)"

text \<open>
  \<open>int64(f)\<close> drops the fraction. What it gives for a value outside the range of
  \<open>int64\<close>, an infinity or a NaN is left to the implementation by the language, so it is the
  argument \<open>conv\<close>. Two instances: the conversion instruction of amd64 gives the least
  integer, the one of arm64 saturates and takes NaN to 0.
\<close>

definition rat_trunc :: "rat \<Rightarrow> int" where
  "rat_trunc x = (if x < 0 then \<lceil>x\<rceil> else \<lfloor>x\<rfloor>)"

definition f64_to_i64 :: "(f64 \<Rightarrow> i64) \<Rightarrow> f64 \<Rightarrow> i64" where
  "f64_to_i64 conv f =
     (case f of Fin x \<Rightarrow> if in_i64 (rat_trunc x) then rat_trunc x else conv f | _ \<Rightarrow> conv f)"

definition amd64_conv :: "f64 \<Rightarrow> i64" where
  "amd64_conv f = - (2 ^ 63)"

definition arm64_conv :: "f64 \<Rightarrow> i64" where
  "arm64_conv f = (case f of NaN \<Rightarrow> 0 | _ \<Rightarrow> if f64_neg f then - (2 ^ 63) else 2 ^ 63 - 1)"

text \<open>\<open>Duration.Seconds\<close>.\<close>

definition seconds_of :: "i64 \<Rightarrow> f64" where
  "seconds_of d =
     f64_add (f64_of_int (d sdiv 1000000000)) (f64_div (f64_of_int (d smod 1000000000)) (Fin 1000000000))"

text \<open>\<open>%.0f\<close> and \<open>%.1f\<close> of a finite value: the exact value rounded half to even.\<close>

definition show_fixed :: "nat \<Rightarrow> rat \<Rightarrow> string" where
  "show_fixed prec x =
     (let n = rne (\<bar>x\<bar> * 10 ^ prec); whole = n div 10 ^ prec; frac = show_nat (nat (n mod 10 ^ prec))
      in (if x < 0 then ''-'' else []) @ show_nat (nat whole)
         @ (if prec = 0 then [] else CHR ''.'' # replicate (prec - length frac) (CHR ''0'') @ frac))"

definition f64_show :: "nat \<Rightarrow> f64 \<Rightarrow> string" where
  "f64_show prec f =
     (case f of Fin x \<Rightarrow> show_fixed prec x | PInf \<Rightarrow> ''+Inf'' | NInf \<Rightarrow> ''-Inf'' | NaN \<Rightarrow> ''NaN'')"

section \<open>Rounding to an integer\<close>

lemma rne_of_int [simp]: "rne (of_int n) = n"
  by (simp add: rne_def)

lemma rne_bounds: "\<lfloor>x\<rfloor> \<le> rne x" "rne x \<le> \<lfloor>x\<rfloor> + 1"
  by (auto simp: rne_def Let_def)

lemma rne_mono: "x \<le> y \<Longrightarrow> rne x \<le> rne y"
proof (cases "\<lfloor>x\<rfloor> = \<lfloor>y\<rfloor>")
  case True
  then show "x \<le> y \<Longrightarrow> rne x \<le> rne y" by (auto simp: rne_def Let_def)
next
  case False
  assume "x \<le> y"
  with False have "\<lfloor>x\<rfloor> + 1 \<le> \<lfloor>y\<rfloor>" using floor_mono[of x y] by linarith
  then show "rne x \<le> rne y" using rne_bounds[of x] rne_bounds[of y] by linarith
qed

lemma rne_le_int: "x \<le> of_int n \<Longrightarrow> rne x \<le> n"
  using rne_mono[of x "of_int n"] by simp

lemma rne_ge_int: "of_int n \<le> x \<Longrightarrow> n \<le> rne x"
  using rne_mono[of "of_int n" x] by simp

lemma rne_gt_int: "of_int n + 1 / 2 < x \<Longrightarrow> n < rne x"
proof -
  assume h: "of_int n + 1 / 2 < x"
  then have "n \<le> \<lfloor>x\<rfloor>" by (simp add: le_floor_iff)
  show "n < rne x"
  proof (cases "\<lfloor>x\<rfloor> = n")
    case True
    with h show ?thesis by (simp add: rne_def Let_def)
  next
    case False
    with \<open>n \<le> \<lfloor>x\<rfloor>\<close> show ?thesis using rne_bounds(1)[of x] by linarith
  qed
qed

section \<open>The binary exponent\<close>

lemma powi_nat_diff: "2 powi (int m - int n) = (2 ^ m / 2 ^ n :: rat)"
  by (simp add: power_int_diff)

lemma ilog2_bounds:
  assumes "0 < x"
  shows "2 powi (ilog2 x) \<le> x" "x < 2 powi (ilog2 x + 1)"
proof -
  obtain p q where pq: "quotient_of x = (p, q)" by (cases "quotient_of x")
  then have q: "0 < q" and x: "x = of_int p / of_int q"
    by (rule quotient_of_denom_pos, rule quotient_of_div)
  from assms x q have p: "0 < p" by (simp add: zero_less_divide_iff)
  define m where "m = nat (bitlen p) - 1"
  define n where "n = nat (bitlen q) - 1"
  have bp: "bitlen p = int (Suc m)" and bq: "bitlen q = int (Suc n)"
    using p q bitlen_eq_zero_iff[of p] bitlen_eq_zero_iff[of q] bitlen_nonneg[of p]
      bitlen_nonneg[of q] by (auto simp: m_def n_def)
  have P: "2 ^ m \<le> p" "p < 2 ^ Suc m"
    using bitlen_bounds[OF p, unfolded bp nat_int] by auto
  have Q: "2 ^ n \<le> q" "q < 2 ^ Suc n"
    using bitlen_bounds[OF q, unfolded bq nat_int] by auto
  have Pr: "(2::rat) ^ m \<le> of_int p" "of_int p < (2::rat) ^ Suc m"
    using P by (metis of_int_le_iff of_int_less_iff of_int_numeral of_int_power)+
  have Qr: "(2::rat) ^ n \<le> of_int q" "of_int q < (2::rat) ^ Suc n"
    using Q by (metis of_int_le_iff of_int_less_iff of_int_numeral of_int_power)+
  define e where "e = int m - int n"
  have e: "bitlen p - bitlen q = e" by (simp add: bp bq e_def)
  have up: "x < 2 powi (e + 1)"
  proof -
    have "of_int p * 2 ^ n < 2 ^ Suc m * (of_int q :: rat)"
      using Pr Qr q p by (intro mult_less_le_imp_less) auto
    then have "of_int p / of_int q < 2 ^ Suc m / (2::rat) ^ n" using q by (simp add: field_simps)
    moreover have "2 powi (e + 1) = (2 ^ Suc m / 2 ^ n :: rat)"
      using powi_nat_diff[of "Suc m" n] by (simp add: e_def algebra_simps)
    ultimately show ?thesis by (simp only: x)
  qed
  have lo: "2 powi (e - 1) \<le> x"
  proof -
    have "2 ^ m * of_int q \<le> of_int p * (2::rat) ^ Suc n"
      using Pr Qr q p by (intro mult_mono) auto
    then have "2 ^ m / 2 ^ Suc n \<le> of_int p / (of_int q :: rat)" using q by (simp add: field_simps)
    moreover have "2 powi (e - 1) = (2 ^ m / 2 ^ Suc n :: rat)"
      using powi_nat_diff[of m "Suc n"] by (simp add: e_def algebra_simps)
    ultimately show ?thesis by (simp only: x)
  qed
  show "2 powi (ilog2 x) \<le> x" "x < 2 powi (ilog2 x + 1)"
    using up lo by (auto simp: ilog2_def pq e Let_def)
qed

lemma powi2_less_iff [simp]: "(2::rat) powi m < 2 powi n \<longleftrightarrow> m < n"
  by (meson linorder_not_less one_less_numeral_iff power_int_increasing
      power_int_strict_increasing semiring_norm(76) one_le_numeral)

lemma powi2_le_iff [simp]: "(2::rat) powi m \<le> 2 powi n \<longleftrightarrow> m \<le> n"
  using powi2_less_iff[of n m] by (simp add: not_less[symmetric] del: powi2_less_iff)

lemma ilog2_less: "0 < x \<Longrightarrow> x < 2 powi k \<Longrightarrow> ilog2 x < k"
  using ilog2_bounds(1)[of x] powi2_less_iff[of "ilog2 x" k] by linarith

lemma ilog2_ge: "2 powi k \<le> x \<Longrightarrow> k \<le> ilog2 x"
proof -
  assume h: "2 powi k \<le> x"
  have "(0::rat) < 2 powi k" by simp
  with h have "0 < x" by linarith
  with h have "2 powi k < (2::rat) powi (ilog2 x + 1)" using ilog2_bounds(2)[of x] by linarith
  then show ?thesis by simp
qed

lemma powi2_integral: "0 \<le> k \<Longrightarrow> \<exists>n. (2::rat) powi k = of_int n"
  by (rule exI[of _ "2 ^ nat k"]) (simp add: power_int_def)


section \<open>Rounding to binary64\<close>

lemma rne_uminus: "rne (- x) = - rne x"
proof (cases "x = of_int \<lfloor>x\<rfloor>")
  case True
  then show ?thesis by (metis of_int_minus rne_of_int)
next
  case False
  then have "\<lfloor>- x\<rfloor> = - \<lfloor>x\<rfloor> - 1"
    by (metis add_diff_cancel_right' ceiling_altdef ceiling_def minus_diff_eq diff_minus_eq_add
        minus_add_distrib minus_minus)
  then show ?thesis by (auto simp: rne_def Let_def)
qed

lemma round64_uminus: "round64 (- x) = - round64 x"
  by (simp add: round64_def Let_def rne_uminus)

lemma powi2_split: "(2::rat) powi k = 2 powi (k - e) * 2 powi e"
  by (simp flip: power_int_add)

lemma round64_le_pow2:
  assumes "0 < x" "x \<le> 2 powi k" "- 1074 \<le> k"
  shows "round64 x \<le> 2 powi k"
proof -
  define e where "e = max (ilog2 x - 52) (- 1074)"
  have "2 powi (ilog2 x) \<le> (2::rat) powi k"
    using ilog2_bounds(1)[OF assms(1)] assms(2) by linarith
  then have "e \<le> k" using assms(3) by (simp add: e_def)
  then obtain n where n: "(2::rat) powi (k - e) = of_int n" using powi2_integral[of "k - e"] by auto
  have "x / 2 powi e \<le> of_int n"
    using assms(2) powi2_split[of k e] by (simp add: n field_simps)
  then have "of_int (rne (x / 2 powi e)) \<le> (of_int n :: rat)" using rne_le_int by simp
  then have "of_int (rne (x / 2 powi e)) * 2 powi e \<le> of_int n * (2 powi e :: rat)"
    by (intro mult_right_mono) auto
  then have "of_int (rne (x / 2 powi e)) * 2 powi e \<le> (2::rat) powi k"
    by (metis n powi2_split)
  moreover have "round64 x = of_int (rne (x / 2 powi e)) * 2 powi e"
    using assms(1) by (simp add: round64_def Let_def e_def)
  ultimately show ?thesis by simp
qed

lemma round64_ge_pow2:
  assumes "2 powi k \<le> x" "- 1022 \<le> k"
  shows "2 powi k \<le> round64 x"
proof -
  define e where "e = ilog2 x - 52"
  have x0: "0 < x" using assms(1) by (meson less_le_trans zero_less_numeral zero_less_power_int)
  have ke: "k \<le> ilog2 x" by (rule ilog2_ge[OF assms(1)])
  then have e: "max (ilog2 x - 52) (- 1074) = e" using assms(2) by (simp add: e_def)
  obtain n where n: "(2::rat) powi (ilog2 x - e) = of_int n"
    using powi2_integral[of "ilog2 x - e"] by (auto simp: e_def)
  have "of_int n \<le> x / 2 powi e"
    using ilog2_bounds(1)[OF x0] powi2_split[of "ilog2 x" e] by (simp add: n field_simps)
  then have "of_int n \<le> (of_int (rne (x / 2 powi e)) :: rat)" using rne_ge_int by simp
  then have "of_int n * 2 powi e \<le> of_int (rne (x / 2 powi e)) * (2 powi e :: rat)"
    by (intro mult_right_mono) auto
  then have "2 powi (ilog2 x) \<le> round64 x"
    using x0 powi2_split[of "ilog2 x" e] by (simp add: round64_def Let_def e n)
  moreover have "(2::rat) powi k \<le> 2 powi (ilog2 x)" using ke by simp
  ultimately show ?thesis by linarith
qed

lemma round64_gt_pow2:
  assumes "2 powi k * (1 + 1 / 2 ^ 53) < x" "- 1022 \<le> k"
  shows "2 powi k < round64 x"
proof -
  have "(0::rat) < 2 powi k" by simp
  then have kx: "2 powi k < x"
    using assms(1) less_trans[of "2 powi k" "2 powi k * (1 + 1 / 2 ^ 53)" x] by simp
  then have x0: "0 < x" using \<open>0 < 2 powi k\<close> by linarith
  have ke: "k \<le> ilog2 x" using kx by (intro ilog2_ge) simp
  show ?thesis
  proof (cases "ilog2 x = k")
    case False
    have "(2::rat) powi k < 2 powi (k + 1)" by (simp only: powi2_less_iff)
    also have "\<dots> \<le> 2 powi (ilog2 x)" using ke False by simp
    also have "\<dots> \<le> round64 x"
      using assms(2) ke by (intro round64_ge_pow2 ilog2_bounds(1)[OF x0]) auto
    finally show ?thesis .
  next
    case True
    define u where "u = (2::rat) powi (k - 52)"
    have u: "0 < u" "2 powi k = 2 ^ 52 * u"
      using powi2_split[of k "k - 52"] by (simp_all add: u_def)
    have "of_int (2 ^ 52) + 1 / 2 < x / u"
      using assms(1) u by (simp add: field_simps)
    then have "2 ^ 52 < rne (x / u)" by (rule rne_gt_int)
    then have "2 ^ 52 * u < of_int (rne (x / u)) * u"
      using u(1) by (metis mult_strict_right_mono of_int_less_iff of_int_numeral of_int_power)
    moreover have "round64 x = of_int (rne (x / u)) * u"
      using True x0 assms(2) by (simp add: round64_def Let_def u_def)
    ultimately show ?thesis by (simp add: u(2))
  qed
qed

text \<open>
  A number of at most 53 significant bits is represented exactly; the integers below
  \<open>2 ^ 53\<close> are such numbers.
\<close>

lemma of_int_abs_less: "\<bar>n\<bar> < 2 ^ k \<Longrightarrow> \<bar>of_int n :: rat\<bar> < 2 powi int k"
  by (metis of_int_abs of_int_less_iff of_int_numeral of_int_power power_int_of_nat)

lemma round64_exact:
  assumes "\<bar>m\<bar> < 2 ^ 53" "- 1074 \<le> e"
  shows "round64 (of_int m * 2 powi e) = of_int m * 2 powi e"
proof (cases "m = 0")
  case False
  define x where "x = (of_int m * 2 powi e :: rat)"
  define d where "d = max (ilog2 \<bar>x\<bar> - 52) (- 1074)"
  have "\<bar>x\<bar> < 2 powi (53 + e)"
    using of_int_abs_less[OF assms(1)] by (simp add: x_def abs_mult power_int_add)
  then have "ilog2 \<bar>x\<bar> < 53 + e" using False by (intro ilog2_less) (auto simp: x_def)
  then have "d \<le> e" using assms(2) by (simp add: d_def)
  then obtain n where n: "(2::rat) powi (e - d) = of_int n" using powi2_integral[of "e - d"] by auto
  have split: "x = of_int (m * n) * 2 powi d"
    using powi2_split[of e d] by (simp add: x_def n)
  then have "rne (x / 2 powi d) = m * n" by (metis nonzero_mult_div_cancel_right power_int_not_zero
      rne_of_int zero_neq_numeral)
  moreover have "round64 x = of_int (rne (x / 2 powi d)) * 2 powi d"
    using False by (simp add: round64_def Let_def d_def x_def)
  ultimately have "round64 x = x" using split by simp
  then show ?thesis by (simp add: x_def)
qed (simp add: round64_def)

lemma round64_of_int [simp]: "\<bar>n\<bar> < 2 ^ 53 \<Longrightarrow> round64 (of_int n) = of_int n"
  using round64_exact[of n 0] by simp

lemma round64_abs_le_pow2:
  assumes "\<bar>x\<bar> \<le> 2 powi k" "- 1074 \<le> k"
  shows "\<bar>round64 x\<bar> \<le> 2 powi k"
proof -
  have pos: "0 \<le> round64 y \<and> round64 y \<le> 2 powi k" if "0 < y" "y \<le> 2 powi k" for y
    using that assms(2) round64_le_pow2[of y k]
    by (auto simp: round64_def Let_def intro!: mult_nonneg_nonneg rne_ge_int[of 0, simplified])
  show ?thesis
  proof (cases x "0 :: rat" rule: linorder_cases)
    case less
    then show ?thesis using assms(1) pos[of "- x"] by (simp add: round64_uminus)
  next
    case greater
    then show ?thesis using assms(1) pos[of x] by simp
  qed (simp add: round64_def)
qed

lemma to_f64_Fin:
  assumes "\<bar>x\<bar> \<le> 2 powi 1000"
  shows "to_f64 x = Fin (round64 x)"
proof -
  have "(2::rat) powi 1000 < 2 ^ 1024"
    using powi2_less_iff[of 1000 1024] by (simp only: power_int_numeral)
  then show ?thesis using round64_abs_le_pow2[OF assms] by (auto simp: to_f64_def Let_def)
qed

lemma to_f64_bounded:
  assumes "\<bar>x\<bar> \<le> 2 powi k" "- 1074 \<le> k" "k \<le> 1000"
  obtains r where "to_f64 x = Fin r" "\<bar>r\<bar> \<le> 2 powi k"
proof -
  have "(2::rat) powi k \<le> 2 powi 1000" using assms(3) by (simp only: powi2_le_iff)
  then have "to_f64 x = Fin (round64 x)" using assms(1) by (intro to_f64_Fin) linarith
  then show thesis using round64_abs_le_pow2[OF assms(1,2)] that by blast
qed

lemma f64_of_int_exact [simp]:
  assumes "\<bar>n\<bar> < 2 ^ 53"
  shows "f64_of_int n = Fin (of_int n)"
proof -
  have "\<bar>of_int n :: rat\<bar> < 2 powi 53" using of_int_abs_less[OF assms] by simp
  also have "\<dots> \<le> 2 powi 1000" by (simp only: powi2_le_iff)
  finally show ?thesis using assms by (simp add: f64_of_int_def to_f64_Fin)
qed

text \<open>
  A quotient of two such integers, rounded, is at most a power of two exactly where the exact
  quotient is: rounding never moves it across the threshold.
\<close>

lemma quot_gap:
  assumes a: "0 \<le> a" "a < 2 ^ 53" and b: "0 < b" "b < 2 ^ 53"
    and gt: "(2::rat) powi k < of_int a / of_int b"
  shows "2 powi k * (1 + 1 / 2 ^ 53) < (of_int a / of_int b :: rat)"
proof -
  have br: "(0::rat) < of_int b" using b by simp
  have "\<exists>s. 0 \<le> s \<and> s < 2 ^ 53 \<and> (2::rat) powi k * (1 + 1 / of_int s) \<le> of_int a / of_int b \<and> 0 < s"
  proof (cases "0 \<le> k")
    case True
    then obtain m where m: "(2::rat) powi k = of_int m" using powi2_integral by auto
    have m0: "0 < m" using m by (metis of_int_0_less_iff zero_less_numeral zero_less_power_int)
    from gt have "of_int (m * b) < (of_int a :: rat)" using br by (simp add: m field_simps)
    then have ab: "m * b + 1 \<le> a" by (simp only: of_int_less_iff)
    then have "(of_int (m * b + 1) :: rat) \<le> of_int a" by (simp only: of_int_le_iff)
    then have "of_int (m * b + 1) / of_int b \<le> (of_int a / of_int b :: rat)"
      using br by (intro divide_right_mono) auto
    then have "(2::rat) powi k * (1 + 1 / of_int (m * b)) \<le> of_int a / of_int b"
      using br m0 by (simp add: m distrib_left add_divide_distrib)
    moreover have "0 < m * b" using m0 b by simp
    moreover have "m * b < 2 ^ 53" using ab a by simp
    ultimately show ?thesis by (intro exI[of _ "m * b"]) simp
  next
    case False
    then obtain m where m: "(2::rat) powi (- k) = of_int m" using powi2_integral[of "- k"] by auto
    have m0: "0 < m" using m by (metis of_int_0_less_iff zero_less_numeral zero_less_power_int)
    have k: "(2::rat) powi k = 1 / of_int m"
      using m m0 by (simp add: power_int_minus inverse_eq_divide field_simps)
    from gt have "(of_int b :: rat) < of_int (m * a)" using br m0 by (simp add: k field_simps)
    then have "b + 1 \<le> m * a" by (simp only: of_int_less_iff)
    then have "(of_int (b + 1) :: rat) \<le> of_int (m * a)" by (simp only: of_int_le_iff)
    then have "of_int (b + 1) / (of_int m * of_int b) \<le> (of_int (m * a) / (of_int m * of_int b) :: rat)"
      using br m0 by (intro divide_right_mono) auto
    then have "(2::rat) powi k * (1 + 1 / of_int b) \<le> of_int a / of_int b"
      using br m0 by (simp add: k distrib_left add_divide_distrib)
    then show ?thesis using b by (intro exI[of _ b]) simp
  qed
  then obtain s where s: "0 < s" "s < 2 ^ 53"
    "(2::rat) powi k * (1 + 1 / of_int s) \<le> of_int a / of_int b" by blast
  have "(of_int s :: rat) < 2 ^ 53" using s(2) by (metis of_int_less_iff of_int_numeral of_int_power)
  then have "(1::rat) / 2 ^ 53 < 1 / of_int s" using s(1) by (intro divide_strict_left_mono) auto
  then have "(2::rat) powi k * (1 + 1 / 2 ^ 53) < 2 powi k * (1 + 1 / of_int s)" by simp
  with s(3) show ?thesis by (rule less_le_trans[rotated])
qed

lemma round64_quot_le_pow2:
  assumes "0 \<le> a" "a < 2 ^ 53" "0 < b" "b < 2 ^ 53" "- 1022 \<le> k"
  shows "round64 (of_int a / of_int b) \<le> 2 powi k \<longleftrightarrow> of_int a / of_int b \<le> (2::rat) powi k"
proof (cases "a = 0")
  case False
  with assms have pos: "(0::rat) < of_int a / of_int b" by simp
  show ?thesis
  proof
    assume "of_int a / of_int b \<le> (2::rat) powi k"
    with pos assms(5) show "round64 (of_int a / of_int b) \<le> 2 powi k"
      by (intro round64_le_pow2) auto
  next
    assume le: "round64 (of_int a / of_int b) \<le> 2 powi k"
    show "of_int a / of_int b \<le> (2::rat) powi k"
    proof (rule ccontr)
      assume "\<not> ?thesis"
      then have "2 powi k * (1 + 1 / 2 ^ 53) < (of_int a / of_int b :: rat)"
        using assms by (intro quot_gap) auto
      then have "2 powi k < round64 (of_int a / of_int b)"
        using assms(5) by (rule round64_gt_pow2)
      with le show False by simp
    qed
  qed
qed (simp add: round64_def)

lemma f64_quot:
  assumes "0 \<le> a" "a < 2 ^ 53" "0 < b" "b < 2 ^ 53"
  shows "f64_div (f64_of_int a) (f64_of_int b) = Fin (round64 (of_int a / of_int b))"
proof -
  have "(of_int a :: rat) / of_int b \<le> of_int a"
    using assms divide_left_mono[of 1 "of_int b :: rat" "of_int a"] by simp
  also have "\<dots> < 2 powi 53"
    using assms by (metis of_int_less_iff of_int_numeral of_int_power power_int_numeral)
  also have "\<dots> \<le> 2 powi 1000" by (simp only: powi2_le_iff)
  finally have "\<bar>(of_int a :: rat) / of_int b\<bar> \<le> 2 powi 1000" using assms by simp
  with assms show ?thesis by (simp add: to_f64_Fin)
qed

text \<open>The two thresholds of the rule engine, \<open>0.5\<close> and \<open>4\<close>.\<close>

lemma f64_quot_le_half:
  assumes "0 \<le> a" "a < 2 ^ 53" "0 < b" "b < 2 ^ 53"
  shows "f64_le (f64_div (f64_of_int a) (f64_of_int b)) (Fin (1 / 2)) \<longleftrightarrow> 2 * a \<le> b"
proof -
  have "(of_int a / of_int b \<le> (1 / 2 :: rat)) \<longleftrightarrow> of_int (2 * a) \<le> (of_int b :: rat)"
    using assms by (simp add: field_simps)
  also have "\<dots> \<longleftrightarrow> 2 * a \<le> b" by (simp only: of_int_le_iff)
  finally show ?thesis
    using round64_quot_le_pow2[OF assms, of "- 1"] assms
    by (auto simp: f64_quot f64_le_def power_int_minus simp del: f64_of_int_exact)
qed

lemma f64_quot_le_four:
  assumes "0 \<le> a" "a < 2 ^ 53" "0 < b" "b < 2 ^ 53"
  shows "f64_le (f64_div (f64_of_int a) (f64_of_int b)) (Fin 4) \<longleftrightarrow> a \<le> 4 * b"
proof -
  have "(of_int a / of_int b \<le> (4 :: rat)) \<longleftrightarrow> of_int a \<le> (of_int (4 * b) :: rat)"
    using assms by (simp add: field_simps)
  also have "\<dots> \<longleftrightarrow> a \<le> 4 * b" by (simp only: of_int_le_iff)
  finally show ?thesis
    using round64_quot_le_pow2[OF assms, of 2] assms
    by (auto simp: f64_quot f64_le_def simp del: f64_of_int_exact)
qed


text \<open>
  Rounding is monotone and moves a number by at most half a unit in its last place. So a quotient
  of integers compares with any rational threshold as the exact quotient does, as long as the
  denominators are small enough for the two roundings not to meet.
\<close>

lemma ilog2_mono: "0 < x \<Longrightarrow> x \<le> y \<Longrightarrow> ilog2 x \<le> ilog2 y"
  using ilog2_bounds(1)[of x] by (intro ilog2_ge) auto

lemma round64_mono:
  assumes "0 < x" "x \<le> y" "- 1022 \<le> ilog2 x"
  shows "round64 x \<le> round64 y"
proof -
  have e: "ilog2 x \<le> ilog2 y" using assms(1,2) by (rule ilog2_mono)
  have y: "0 < y" using assms(1,2) by linarith
  show ?thesis
  proof (cases "ilog2 x = ilog2 y")
    case True
    define u where "u = (2::rat) powi (max (ilog2 x - 52) (- 1074))"
    have u: "0 < u" by (simp add: u_def)
    have "x / u \<le> y / u" using assms(2) u by (intro divide_right_mono) auto
    then have "rne (x / u) \<le> rne (y / u)" by (rule rne_mono)
    then have "of_int (rne (x / u)) * u \<le> of_int (rne (y / u)) * u" using u by simp
    then show ?thesis using True assms(1) y by (simp add: round64_def Let_def u_def)
  next
    case False
    have "round64 x \<le> 2 powi (ilog2 x + 1)"
      using assms(1,3) ilog2_bounds(2)[OF assms(1)] by (intro round64_le_pow2) auto
    also have "\<dots> \<le> 2 powi (ilog2 y)" using e False by simp
    also have "\<dots> \<le> round64 y"
      using assms(3) e by (intro round64_ge_pow2 ilog2_bounds(1)[OF y]) auto
    finally show ?thesis .
  qed
qed

lemma rne_error: "\<bar>of_int (rne x) - x\<bar> \<le> (1 / 2 :: rat)"
proof -
  define n where "n = \<lfloor>x\<rfloor>"
  have "of_int n \<le> x" "x < of_int n + 1" unfolding n_def by linarith+
  then show ?thesis unfolding rne_def Let_def n_def[symmetric] by auto
qed

lemma round64_error:
  assumes "0 < x" "- 1022 \<le> ilog2 x"
  shows "\<bar>round64 x - x\<bar> \<le> 2 powi (ilog2 x - 53)"
proof -
  define u where "u = (2::rat) powi (ilog2 x - 52)"
  have u: "0 < u" by (simp add: u_def)
  have half: "2 powi (ilog2 x - 53) = 1 / 2 * u"
    using powi2_split[of "ilog2 x - 53" "ilog2 x - 52"] by (simp add: u_def power_int_minus)
  have "round64 x = of_int (rne (x / u)) * u" using assms by (simp add: round64_def Let_def u_def)
  then have "round64 x - x = (of_int (rne (x / u)) - x / u) * u" using u by (simp add: field_simps)
  then have "\<bar>round64 x - x\<bar> = \<bar>of_int (rne (x / u)) - x / u\<bar> * u" using u by (simp add: abs_mult)
  also have "\<dots> \<le> 1 / 2 * u" using u rne_error[of "x / u"] by (intro mult_right_mono) auto
  finally show ?thesis by (simp only: half)
qed

lemma round64_quot_ge:
  assumes "0 < p" "0 < d" "0 < a" "0 < b"
    and normal: "- 1022 \<le> ilog2 (of_int a / of_int b)" "- 1022 \<le> ilog2 (of_int p / of_int d)"
    and small: "2 powi (ilog2 (of_int p / of_int d) - 52) * of_int (b * d) < (1::rat)"
  shows "round64 (of_int p / of_int d) \<le> round64 (of_int a / of_int b) \<longleftrightarrow> p * b \<le> a * d"
proof -
  let ?t = "of_int p / of_int d :: rat" and ?q = "of_int a / of_int b :: rat"
  have pos: "0 < ?t" "0 < ?q" "(0::rat) < of_int (b * d)" "(0::rat) < of_int b" "(0::rat) < of_int d"
    using assms(1-4) by simp_all
  have "?t \<le> ?q \<longleftrightarrow> (of_int (p * b) :: rat) \<le> of_int (a * d)" using pos by (simp add: field_simps)
  then have le_iff: "?t \<le> ?q \<longleftrightarrow> p * b \<le> a * d" by (simp only: of_int_le_iff)
  have "round64 ?q < round64 ?t" if "\<not> p * b \<le> a * d"
  proof -
    have lt: "?q < ?t" using that le_iff by linarith
    have "a * d + 1 \<le> p * b" using that by linarith
    then have "(of_int (a * d + 1) :: rat) \<le> of_int (p * b)" by (simp only: of_int_le_iff)
    then have "1 / of_int (b * d) \<le> ?t - ?q" using pos by (simp add: field_simps)
    moreover have "2 powi (ilog2 ?t - 52) < 1 / (of_int (b * d) :: rat)" using small pos(3) by (simp add: field_simps)
    ultimately have gap: "2 powi (ilog2 ?t - 52) < ?t - ?q" by linarith
    have "ilog2 ?q \<le> ilog2 ?t" using pos lt by (intro ilog2_mono) auto
    then have "(2::rat) powi (ilog2 ?q - 53) \<le> 2 powi (ilog2 ?t - 53)" by simp
    moreover have "(2::rat) powi (ilog2 ?t - 52) = 2 * 2 powi (ilog2 ?t - 53)"
      using powi2_split[of "ilog2 ?t - 52" "ilog2 ?t - 53"] by simp
    ultimately show ?thesis
      using round64_error[OF pos(2) normal(1)] round64_error[OF pos(1) normal(2)] gap by linarith
  qed
  moreover have "round64 ?t \<le> round64 ?q" if "?t \<le> ?q" using pos(1) that normal(2) by (rule round64_mono)
  ultimately show ?thesis using le_iff by fastforce
qed

end
