(* ===== verification/Go_Strconv.thy ===== *)
theory Go_Strconv
  imports Go_Float
begin

text \<open>
  The two parsers of Go's package \<open>strconv\<close> that the sources call: \<open>ParseInt(s, 10, 64)\<close>
  and \<open>ParseFloat(s, 64)\<close>, with their two errors. \<open>ParseFloat\<close> accepts decimal and
  hexadecimal literals, digit-separating underscores, and the names of the infinities and of
  NaN; a well-formed literal denotes the exact number rounded to binary64, and one whose
  rounded value is infinite is a range error.
\<close>

datatype num_error = ErrSyntax | ErrRange

section \<open>ParseInt\<close>

fun parse_uint_loop :: "nat \<Rightarrow> string \<Rightarrow> num_error + nat" where
  "parse_uint_loop n [] = Inr n"
| "parse_uint_loop n (c # cs) =
     (if \<not> is_digit c then Inl ErrSyntax
      else let n' = n * 10 + nat (digit_val c)
           in if 2 ^ 64 \<le> n' then Inl ErrRange else parse_uint_loop n' cs)"

definition parse_uint :: "string \<Rightarrow> num_error + nat" where
  "parse_uint s = (if s = [] then Inl ErrSyntax else parse_uint_loop 0 s)"

definition split_sign :: "string \<Rightarrow> bool \<times> string" where
  "split_sign s =
     (case s of
        c # cs \<Rightarrow> if c = CHR ''-'' then (True, cs) else if c = CHR ''+'' then (False, cs) else (False, s)
      | [] \<Rightarrow> (False, s))"

definition parse_int :: "string \<Rightarrow> num_error + i64" where
  "parse_int s =
     (if s = [] then Inl ErrSyntax
      else let (neg, rest) = split_sign s
           in case parse_uint rest of
                Inl e \<Rightarrow> Inl e
              | Inr un \<Rightarrow>
                  if \<not> neg \<and> 2 ^ 63 \<le> un then Inl ErrRange
                  else if neg \<and> 2 ^ 63 < un then Inl ErrRange
                  else Inr (if neg then - int un else int un))"

section \<open>ParseFloat\<close>

definition lower :: "char \<Rightarrow> char" where
  "lower c = (if 65 \<le> (of_char c :: nat) \<and> (of_char c :: nat) \<le> 90
              then char_of ((of_char c :: nat) + 32) else c)"

definition hex_letter :: "char \<Rightarrow> bool" where
  "hex_letter c \<longleftrightarrow> 97 \<le> (of_char (lower c) :: nat) \<and> (of_char (lower c) :: nat) \<le> 102"

definition digit_of :: "bool \<Rightarrow> char \<Rightarrow> nat option" where
  "digit_of hex c =
     (if is_digit c then Some (nat (digit_val c))
      else if hex \<and> hex_letter c then Some (of_char (lower c) - 87) else None)"

text \<open>
  The digit loop of \<open>readFloat\<close>: the mantissa read so far, how many of its digits stand
  after the point, whether a point and whether a digit was seen.
\<close>

fun scan_mant :: "bool \<Rightarrow> nat \<Rightarrow> nat \<Rightarrow> bool \<Rightarrow> bool \<Rightarrow> string \<Rightarrow> nat \<times> nat \<times> bool \<times> string" where
  "scan_mant hex m fr dot dig [] = (m, fr, dig, [])"
| "scan_mant hex m fr dot dig (c # cs) =
     (if c = CHR ''_'' then scan_mant hex m fr dot dig cs
      else if c = CHR ''.'' then (if dot then (m, fr, dig, c # cs) else scan_mant hex m fr True dig cs)
      else case digit_of hex c of
             Some d \<Rightarrow> scan_mant hex (m * (if hex then 16 else 10) + d)
                         (if dot then Suc fr else fr) dot True cs
           | None \<Rightarrow> (m, fr, dig, c # cs))"

fun scan_exp :: "int \<Rightarrow> string \<Rightarrow> int \<times> string" where
  "scan_exp e [] = (e, [])"
| "scan_exp e (c # cs) =
     (if c = CHR ''_'' then scan_exp e cs
      else if is_digit c then scan_exp (if e < 10000 then e * 10 + digit_val c else e) cs
      else (e, c # cs))"

definition underscore_step :: "bool \<Rightarrow> char \<Rightarrow> char option \<Rightarrow> char option" where
  "underscore_step hex c st =
     (case st of
        None \<Rightarrow> None
      | Some saw \<Rightarrow>
          if is_digit c \<or> hex \<and> hex_letter c then Some (CHR ''0'')
          else if c = CHR ''_'' then if saw \<noteq> CHR ''0'' then None else Some (CHR ''_'')
          else if saw = CHR ''_'' then None else Some (CHR ''!''))"

definition underscore_ok :: "string \<Rightarrow> bool" where
  "underscore_ok s =
     (let t = snd (split_sign s);
          prefixed = (case t of c # d # _ \<Rightarrow> c = CHR ''0'' \<and> lower d \<in> set ''box'' | _ \<Rightarrow> False);
          hex = (case t of c # d # _ \<Rightarrow> c = CHR ''0'' \<and> lower d = CHR ''x'' | _ \<Rightarrow> False);
          st = (if prefixed then fold (underscore_step hex) (drop 2 t) (Some (CHR ''0''))
                else fold (underscore_step hex) t (Some (CHR ''^'')))
      in st \<noteq> None \<and> st \<noteq> Some (CHR ''_''))"

definition special :: "string \<Rightarrow> f64 option" where
  "special s =
     (let (neg, rest) = split_sign s; low = map lower rest
      in if low = ''inf'' \<or> low = ''infinity'' then Some (f64_inf neg)
         else if map lower s = ''nan'' then Some NaN else None)"

definition read_float :: "string \<Rightarrow> (bool \<times> bool \<times> nat \<times> nat \<times> int) option" where
  "read_float s =
     (let (neg, s1) = split_sign s;
          hex = (case s1 of c # d # _ # _ \<Rightarrow> c = CHR ''0'' \<and> lower d = CHR ''x'' | _ \<Rightarrow> False);
          s2 = (if hex then drop 2 s1 else s1);
          (m, fr, dig, s3) = scan_mant hex 0 0 False False s2
      in if \<not> dig then None
         else case s3 of
           c # s4 \<Rightarrow>
             if lower c = (if hex then CHR ''p'' else CHR ''e'')
             then let (eneg, s5) = split_sign s4
                  in case s5 of
                       d # _ \<Rightarrow>
                         if is_digit d
                         then let (e, s6) = scan_exp 0 s5
                              in if s6 = [] \<and> (CHR ''_'' \<in> set s \<longrightarrow> underscore_ok s)
                                 then Some (hex, neg, m, fr, if eneg then - e else e) else None
                         else None
                     | [] \<Rightarrow> None
             else None
         | [] \<Rightarrow>
             if hex \<or> (CHR ''_'' \<in> set s \<and> \<not> underscore_ok s) then None
             else Some (hex, neg, m, fr, 0))"

definition literal_value :: "bool \<Rightarrow> bool \<Rightarrow> nat \<Rightarrow> nat \<Rightarrow> int \<Rightarrow> rat" where
  "literal_value hex neg m fr e =
     (if neg then - 1 else 1) * of_nat m
       * (if hex then 2 powi (e - 4 * int fr) else 10 powi (e - int fr))"

definition parse_float :: "string \<Rightarrow> num_error + f64" where
  "parse_float s =
     (case special s of
        Some f \<Rightarrow> Inr f
      | None \<Rightarrow>
          (case read_float s of
             None \<Rightarrow> Inl ErrSyntax
           | Some (hex, neg, m, fr, e) \<Rightarrow>
               (case to_f64 (literal_value hex neg m fr e) of
                  Fin x \<Rightarrow> Inr (Fin x)
                | _ \<Rightarrow> Inl ErrRange)))"

section \<open>Decimal numerals parse to their value\<close>

definition all_digits :: "string \<Rightarrow> bool" where
  "all_digits s \<longleftrightarrow> s \<noteq> [] \<and> list_all is_digit s"

lemma all_digits_show_nat [simp]: "all_digits (show_nat n)"
  by (auto simp: all_digits_def list_all_iff dest: show_nat_digits)

lemma digit_val_bounds: "is_digit c \<Longrightarrow> 0 \<le> digit_val c \<and> digit_val c \<le> 9"
  by (auto simp: is_digit_def digit_val_def)

lemma is_digit_not [simp]:
  "\<not> is_digit CHR ''-''" "\<not> is_digit CHR ''+''" "\<not> is_digit CHR ''_''" "\<not> is_digit CHR ''.''"
  "\<not> is_digit CHR ''m''" "\<not> is_digit CHR ''i''" "\<not> is_digit CHR ''k''"
  "\<not> is_digit CHR ''n''"
  by (simp_all add: is_digit_def)

lemma foldl_digits:
  "foldl (\<lambda>v c. v * 10 + digit_val c) v s = v * 10 ^ length s + digits_val s"
proof (induction s arbitrary: v)
  case (Cons c s)
  have "foldl (\<lambda>v c. v * 10 + digit_val c) v (c # s)
    = (v * 10 + digit_val c) * 10 ^ length s + digits_val s"
    by (simp only: foldl_Cons Cons.IH)
  moreover have "digits_val (c # s) = (0 * 10 + digit_val c) * 10 ^ length s + digits_val s"
    unfolding digits_val_def[of "c # s"] by (simp only: foldl_Cons Cons.IH)
  ultimately show ?case by (simp add: algebra_simps)
qed (simp add: digits_val_def)

lemma digits_val_Cons: "digits_val (c # s) = digit_val c * 10 ^ length s + digits_val s"
  using foldl_digits[of "digit_val c" s] by (simp add: digits_val_def)

lemma digits_val_nonneg: "list_all is_digit s \<Longrightarrow> 0 \<le> digits_val s"
proof (induction s)
  case (Cons c s)
  then show ?case
    using digit_val_bounds[of c] by (simp add: digits_val_Cons)
qed (simp add: digits_val_def)

lemma parse_uint_loop_digits:
  assumes "list_all is_digit s" "int n * 10 ^ length s + digits_val s < 2 ^ 64"
  shows "parse_uint_loop n s = Inr (nat (int n * 10 ^ length s + digits_val s))"
  using assms
proof (induction s arbitrary: n)
  case Nil
  then show ?case by (simp add: digits_val_def)
next
  case (Cons c s)
  define n' where "n' = n * 10 + nat (digit_val c)"
  from Cons.prems have c: "is_digit c" and s: "list_all is_digit s" by simp_all
  have n': "int n' = int n * 10 + digit_val c" using digit_val_bounds[OF c] by (simp add: n'_def)
  have sum: "int n * 10 ^ length (c # s) + digits_val (c # s) = int n' * 10 ^ length s + digits_val s"
    by (simp add: digits_val_Cons n' algebra_simps)
  have "int n' * 1 \<le> int n' * 10 ^ length s" by (intro mult_left_mono) auto
  then have "int n' < 2 ^ 64" using Cons.prems(2) digits_val_nonneg[OF s] sum by linarith
  then have "n' < 2 ^ 64" by simp
  then have "parse_uint_loop n (c # s) = parse_uint_loop n' s" using c by (simp add: n'_def)
  also have "\<dots> = Inr (nat (int n' * 10 ^ length s + digits_val s))"
    using Cons.prems(2) sum s by (intro Cons.IH) auto
  finally show ?case by (simp only: sum)
qed

lemma split_sign_digits [simp]: "all_digits s \<Longrightarrow> split_sign s = (False, s)"
  by (cases s) (auto simp: split_sign_def all_digits_def)

lemma parse_int_digits:
  assumes "all_digits s" "digits_val s < 2 ^ 63"
  shows "parse_int s = Inr (digits_val s)"
proof -
  have "0 \<le> digits_val s" using assms(1) by (simp add: all_digits_def digits_val_nonneg)
  moreover have "parse_uint s = Inr (nat (digits_val s))"
    using assms parse_uint_loop_digits[of s 0] by (simp add: all_digits_def parse_uint_def)
  ultimately show ?thesis using assms by (auto simp: parse_int_def all_digits_def)
qed

lemma parse_int_in_i64: "parse_int s = Inr n \<Longrightarrow> in_i64 n"
  by (auto simp: parse_int_def in_i64_def Let_def split: if_splits sum.splits prod.splits)

lemma scan_mant_digits:
  "list_all is_digit s \<Longrightarrow> s \<noteq> [] \<or> dig \<Longrightarrow>
    scan_mant False m fr False dig s = (nat (int m * 10 ^ length s + digits_val s), fr, True, [])"
proof (induction s arbitrary: m dig)
  case Nil
  then show ?case by (simp add: digits_val_def)
next
  case (Cons c s)
  from Cons.prems have c: "is_digit c" and s: "list_all is_digit s" by simp_all
  have ne: "c \<noteq> CHR ''_''" "c \<noteq> CHR ''.''" using c by auto
  have "int (m * 10 + nat (digit_val c)) = int m * 10 + digit_val c"
    using digit_val_bounds[OF c] by simp
  then have "int (m * 10 + nat (digit_val c)) * 10 ^ length s + digits_val s
    = int m * 10 ^ length (c # s) + digits_val (c # s)"
    by (simp add: digits_val_Cons algebra_simps)
  with c s ne show ?case by (simp add: Cons.IH digit_of_def)
qed

lemma lower_digit [simp]: "is_digit c \<Longrightarrow> lower c = c"
  by (auto simp: lower_def is_digit_def)

lemma special_digits: "all_digits s \<Longrightarrow> special s = None"
  by (cases s) (auto simp: special_def all_digits_def)

lemma read_float_digits:
  assumes "all_digits s"
  shows "read_float s = Some (False, False, nat (digits_val s), 0, 0)"
proof -
  have no_hex: "\<not> (case s of c # d # e # t \<Rightarrow> c = CHR ''0'' \<and> lower d = CHR ''x'' | _ \<Rightarrow> False)"
    using assms by (auto simp: all_digits_def is_digit_def split: list.splits)
  have no_us: "CHR ''_'' \<notin> set s"
    using assms is_digit_not(3) by (auto simp: all_digits_def list_all_iff)
  have "scan_mant False 0 0 False False s = (nat (digits_val s), 0, True, [])"
    using assms scan_mant_digits[of s False 0 0] by (simp add: all_digits_def)
  with no_hex no_us assms show ?thesis by (simp add: read_float_def)
qed

lemma parse_float_digits:
  assumes "all_digits s" "digits_val s < 2 ^ 53"
  shows "parse_float s = Inr (Fin (of_int (digits_val s)))"
proof -
  have nonneg: "0 \<le> digits_val s" using assms(1) by (simp add: all_digits_def digits_val_nonneg)
  then have "(of_nat (nat (digits_val s)) :: rat) = of_int (digits_val s)" by simp
  then have "to_f64 (literal_value False False (nat (digits_val s)) 0 0) = f64_of_int (digits_val s)"
    by (simp add: literal_value_def f64_of_int_def)
  also have "\<dots> = Fin (of_int (digits_val s))" using nonneg assms(2) by simp
  finally show ?thesis
    using assms by (simp add: parse_float_def special_digits read_float_digits)
qed

end
