(* ===== verification/Quantity.thy ===== *)
theory Quantity
  imports Go_Strconv
begin

text \<open>
  \<^verbatim>\<open>pkg/parser/quantity.go\<close>: Kubernetes resource quantities. CPU is kept in millicores, memory
  in bytes. The argument \<open>conv\<close> of the two parsers is what \<open>int64(f)\<close> gives for a float
  no \<open>int64\<close> can represent (\<open>Go_Float.f64_to_i64\<close>).
\<close>

record quantity =
  q_Value :: i64
  q_Set :: bool
  q_Original :: string

definition zero_quantity :: quantity where
  "zero_quantity = \<lparr>q_Value = 0, q_Set = False, q_Original = []\<rparr>"

definition Quantity_String :: "quantity \<Rightarrow> string" where
  "Quantity_String q = (if \<not> q_Set q then ''(unset)'' else q_Original q)"

datatype quantity_error =
    BadCPU string num_error
  | NegativeCPU string
  | BadMemory string num_error
  | NegativeMemory string
  | MemoryOverflow

definition ParseCPU :: "(f64 \<Rightarrow> i64) \<Rightarrow> string \<Rightarrow> quantity_error + quantity" where
  "ParseCPU conv s0 =
     (let s = trim_space s0
      in if s = [] then Inr zero_quantity
         else if has_suffix s ''m''
         then (case parse_int (trim_suffix s ''m'') of
                 Inl e \<Rightarrow> Inl (BadCPU s e)
               | Inr n \<Rightarrow>
                   if n < 0 then Inl (NegativeCPU s)
                   else Inr \<lparr>q_Value = n, q_Set = True, q_Original = s\<rparr>)
         else (case parse_float s of
                 Inl e \<Rightarrow> Inl (BadCPU s e)
               | Inr f \<Rightarrow>
                   if f64_lt f (Fin 0) then Inl (NegativeCPU s)
                   else Inr \<lparr>q_Value = f64_to_i64 conv (f64_mul f (Fin 1000)), q_Set = True,
                              q_Original = s\<rparr>))"

definition memory_suffixes :: "(string \<times> i64) list" where
  "memory_suffixes =
     [(''Ki'', 1024), (''Mi'', 1024 * 1024), (''Gi'', 1024 * 1024 * 1024),
      (''Ti'', 1024 * 1024 * 1024 * 1024), (''Pi'', 1024 * 1024 * 1024 * 1024 * 1024),
      (''k'', 1000), (''M'', 1000000), (''G'', 1000000000), (''T'', 1000000000000),
      (''P'', 1000000000000000)]"

definition splitMemorySuffix :: "string \<Rightarrow> i64 \<times> string" where
  "splitMemorySuffix s =
     (case find (\<lambda>(suf, mul). has_suffix s suf) memory_suffixes of
        Some (suf, mul) \<Rightarrow> (mul, trim_suffix s suf)
      | None \<Rightarrow> (1, s))"

definition ParseMemory :: "(f64 \<Rightarrow> i64) \<Rightarrow> string \<Rightarrow> quantity_error + quantity" where
  "ParseMemory conv s0 =
     (let s = trim_space s0
      in if s = [] then Inr zero_quantity
         else let (mul, raw) = splitMemorySuffix s
              in case parse_float raw of
                   Inl e \<Rightarrow> Inl (BadMemory s e)
                 | Inr f \<Rightarrow>
                     if f64_lt f (Fin 0) then Inl (NegativeMemory s)
                     else let v = f64_to_i64 conv (f64_mul f (f64_of_int mul))
                          in if v < 0 then Inl MemoryOverflow
                             else Inr \<lparr>q_Value = v, q_Set = True, q_Original = s\<rparr>)"

definition FormatCPU :: "quantity \<Rightarrow> string" where
  "FormatCPU q =
     (if \<not> q_Set q then ''(unset)''
      else if q_Value q smod 1000 = 0 then show_int (q_Value q sdiv 1000)
      else show_int (q_Value q) @ ''m'')"

definition FormatMemory :: "quantity \<Rightarrow> string" where
  "FormatMemory q =
     (if \<not> q_Set q then ''(unset)''
      else let v = q_Value q
           in if 1024 * 1024 * 1024 * 1024 \<le> v
              then f64_show 1 (f64_div (f64_of_int v) (Fin (1024 * 1024 * 1024 * 1024))) @ ''Ti''
              else if 1024 * 1024 * 1024 \<le> v
              then f64_show 1 (f64_div (f64_of_int v) (Fin (1024 * 1024 * 1024))) @ ''Gi''
              else if 1024 * 1024 \<le> v
              then f64_show 1 (f64_div (f64_of_int v) (Fin (1024 * 1024))) @ ''Mi''
              else if 1024 \<le> v
              then f64_show 1 (f64_div (f64_of_int v) (Fin 1024)) @ ''Ki''
              else show_int v @ ''B'')"

section \<open>Trimming leaves printable text alone\<close>

definition graphic :: "char \<Rightarrow> bool" where
  "graphic c \<longleftrightarrow> 33 \<le> (of_char c :: nat) \<and> (of_char c :: nat) \<le> 126"

lemma is_digit_graphic [simp]: "is_digit c \<Longrightarrow> graphic c"
  by (auto simp: is_digit_def graphic_def)

lemma strip_one_graphic:
  assumes "graphic c" "list_all (\<lambda>p. p \<noteq> [] \<longrightarrow> \<not> graphic (hd p)) ps"
  shows "strip_one ps (c # s) = None"
  using assms by (fastforce simp: strip_one_def find_None_iff list_all_iff neq_Nil_conv)

lemma trim_space_graphic:
  assumes "s \<noteq> []" "graphic (hd s)" "graphic (last s)"
  shows "trim_space s = s"
proof -
  have front: "list_all (\<lambda>p. p \<noteq> [] \<longrightarrow> \<not> graphic (hd p)) space_seqs"
    and rear: "list_all (\<lambda>p. p \<noteq> [] \<longrightarrow> \<not> graphic (hd p)) (map rev space_seqs)"
    by (simp_all add: space_seqs_def graphic_def)
  obtain c t where "s = c # t" using assms(1) by (cases s) auto
  with assms(2) have "strip_all space_seqs s = s"
    using strip_one_graphic[OF _ front] by (simp add: strip_all_None)
  moreover have "rev s = last s # rev (butlast s)" using assms(1) by (cases s rule: rev_cases) auto
  then have "strip_all (map rev space_seqs) (rev s) = rev s"
    using strip_one_graphic[OF assms(3) rear] by (simp only: strip_all_None)
  ultimately show ?thesis by (simp add: trim_space_def)
qed

lemma all_digits_graphic:
  assumes "all_digits s"
  shows "graphic (hd s)" "graphic (last s)"
  using assms by (auto simp: all_digits_def list_all_iff)

lemma trim_space_digits:
  assumes "all_digits s" "list_all graphic suf"
  shows "trim_space (s @ suf) = s @ suf"
proof (rule trim_space_graphic)
  show "graphic (hd (s @ suf))"
    using assms(1) all_digits_graphic(1)[of s] by (simp add: all_digits_def hd_append)
  show "graphic (last (s @ suf))"
    using assms all_digits_graphic(2)[of s] by (cases "suf = []") (auto simp: list_all_iff)
  show "s @ suf \<noteq> []" using assms(1) by (simp add: all_digits_def)
qed

lemma no_suffix_digits: "all_digits s \<Longrightarrow> suf \<noteq> [] \<Longrightarrow> \<not> is_digit (last suf) \<Longrightarrow> \<not> has_suffix s suf"
  by (metis all_digits_def has_suffixD last_appendR last_in_set list_all_iff)

lemma has_suffix_last: "has_suffix s suf \<Longrightarrow> suf \<noteq> [] \<Longrightarrow> last s = last suf"
  by (metis has_suffixD last_appendR)

section \<open>CPU quantities\<close>

lemma ParseCPU_milli:
  assumes "all_digits s" "digits_val s < 2 ^ 63"
  shows "ParseCPU conv (s @ ''m'')
    = Inr \<lparr>q_Value = digits_val s, q_Set = True, q_Original = s @ ''m''\<rparr>"
proof -
  have "0 \<le> digits_val s" using assms(1) by (simp add: all_digits_def digits_val_nonneg)
  moreover have "trim_space (s @ ''m'') = s @ ''m''"
    using assms(1) by (intro trim_space_digits) (simp_all add: graphic_def)
  ultimately show ?thesis using assms by (simp add: ParseCPU_def parse_int_digits)
qed

lemma ParseCPU_cores:
  assumes "all_digits s" "digits_val s * 1000 < 2 ^ 53"
  shows "ParseCPU conv s
    = Inr \<lparr>q_Value = digits_val s * 1000, q_Set = True, q_Original = s\<rparr>"
proof -
  define n where "n = digits_val s"
  have n: "0 \<le> n" "n * 1000 < 2 ^ 53" "n < 2 ^ 53"
    using assms by (auto simp: n_def all_digits_def dest: digits_val_nonneg)
  have "trim_space s = s" using assms(1) trim_space_digits[of s "[]"] by simp
  moreover have "\<not> has_suffix s ''m''" using assms(1) by (intro no_suffix_digits) auto
  moreover have "f64_mul (Fin (of_int n)) (Fin 1000) = Fin (of_int (n * 1000))"
    using f64_of_int_exact[of "n * 1000"] n by (simp add: f64_of_int_def)
  moreover have "rat_trunc (of_int (n * 1000)) = n * 1000"
    unfolding rat_trunc_def by (metis ceiling_of_int floor_of_int)
  ultimately show ?thesis
    using assms n parse_float_digits[OF assms(1)]
    by (simp add: ParseCPU_def f64_to_i64_def in_i64_def all_digits_def flip: n_def)
qed

lemma show_int_nonneg: "0 \<le> v \<Longrightarrow> show_int v = show_nat (nat v)"
  by (simp add: show_int_def)

text \<open>
  Every CPU value below \<open>2 ^ 53\<close> millicores that is printed parses back to itself,
  whether it is printed in whole cores or in millicores.
\<close>

lemma ParseCPU_FormatCPU:
  assumes "q_Set q" "0 \<le> q_Value q" "q_Value q < 2 ^ 53"
  shows "ParseCPU conv (FormatCPU q)
    = Inr \<lparr>q_Value = q_Value q, q_Set = True, q_Original = FormatCPU q\<rparr>"
proof (cases "q_Value q mod 1000 = 0")
  case True
  then have "q_Value q = q_Value q div 1000 * 1000"
    using dvd_div_mult_self[of 1000 "q_Value q"] by (simp add: mod_eq_0_iff_dvd)
  moreover have "FormatCPU q = show_nat (nat (q_Value q div 1000))"
    using assms True by (simp add: FormatCPU_def show_int_nonneg)
  ultimately show ?thesis
    using assms ParseCPU_cores[of "FormatCPU q"] by simp
next
  case False
  then have "FormatCPU q = show_nat (nat (q_Value q)) @ ''m''"
    using assms by (simp add: FormatCPU_def show_int_nonneg)
  then show ?thesis
    using assms ParseCPU_milli[of "show_nat (nat (q_Value q))"] by simp
qed

section \<open>Memory quantities\<close>

lemma splitMemorySuffix_digits: "all_digits s \<Longrightarrow> splitMemorySuffix s = (1, s)"
  by (simp add: splitMemorySuffix_def memory_suffixes_def no_suffix_digits is_digit_def)

lemma has_suffix_unit:
  assumes "all_digits s"
  shows "has_suffix (s @ [c]) [d] \<longleftrightarrow> c = d"
    and "has_suffix (s @ [c]) [d, e] \<longleftrightarrow> last s = d \<and> c = e"
    and "has_suffix (s @ [b, c]) [d] \<longleftrightarrow> c = d"
    and "has_suffix (s @ [b, c]) [d, e] \<longleftrightarrow> b = d \<and> c = e"
  using assms by (cases s rule: rev_cases; auto simp: has_suffix_def all_digits_def Suc_diff_le)+

lemma splitMemorySuffix_unit:
  assumes "all_digits s" "(suf, mul) \<in> set memory_suffixes"
  shows "splitMemorySuffix (s @ suf) = (mul, s)"
proof -
  have "is_digit (last s)" using assms(1) by (auto simp: all_digits_def list_all_iff)
  then have ne: "last s \<noteq> CHR ''K''" "last s \<noteq> CHR ''M''" "last s \<noteq> CHR ''G''"
    "last s \<noteq> CHR ''T''" "last s \<noteq> CHR ''P''" by (auto simp: is_digit_def)
  have "find (\<lambda>(u, m). has_suffix (s @ suf) u) memory_suffixes = Some (suf, mul)"
    using assms(2) unfolding memory_suffixes_def list.set insert_iff empty_iff prod.inject
    by (elim disjE conjE; simp add: has_suffix_unit assms(1) ne)
  then show ?thesis by (simp add: splitMemorySuffix_def)
qed

lemma unit_mult_pos: "(suf, mul) \<in> set memory_suffixes \<Longrightarrow> 0 < mul \<and> mul < 2 ^ 53"
  by (auto simp: memory_suffixes_def)

lemma memory_exact:
  assumes "0 \<le> n" "0 < mul" "mul < 2 ^ 53" "n * mul < 2 ^ 53"
  shows "f64_to_i64 conv (f64_mul (Fin (of_int n)) (f64_of_int mul)) = n * mul" "n < 2 ^ 53"
proof -
  have "0 \<le> n * mul" using assms by simp
  then have range: "in_i64 (n * mul)" using assms(4) by (rule in_i64_small)
  have "n * 1 \<le> n * mul" using assms by (intro mult_left_mono) auto
  then show "n < 2 ^ 53" using assms(4) by linarith
  have "rat_trunc (of_int (n * mul)) = n * mul"
    unfolding rat_trunc_def by (metis ceiling_of_int floor_of_int)
  moreover have "f64_mul (Fin (of_int n)) (Fin (of_int mul)) = Fin (of_int (n * mul))"
    using f64_of_int_exact[of "n * mul"] assms by (simp add: f64_of_int_def)
  ultimately show "f64_to_i64 conv (f64_mul (Fin (of_int n)) (f64_of_int mul)) = n * mul"
    using assms range by (simp add: f64_to_i64_def)
qed

lemma ParseMemory_split:
  assumes "trim_space t = t" "t \<noteq> []" "splitMemorySuffix t = (mul, s)" "all_digits s"
    and "0 < mul" "mul < 2 ^ 53" "digits_val s * mul < 2 ^ 53"
  shows "ParseMemory conv t = Inr \<lparr>q_Value = digits_val s * mul, q_Set = True, q_Original = t\<rparr>"
proof -
  have n: "0 \<le> digits_val s" using assms(4) by (simp add: all_digits_def digits_val_nonneg)
  note exact = memory_exact[OF n assms(5-7)]
  have "parse_float s = Inr (Fin (of_int (digits_val s)))"
    using exact(2) assms(4) by (intro parse_float_digits)
  with assms n exact(1)[of conv] show ?thesis
    by (simp add: ParseMemory_def Let_def not_less mult_nonneg_nonneg del: f64_mul.simps)
qed

text \<open>
  A whole number with a unit suffix denotes the number times the unit, exactly, as long as the
  product is below \<open>2 ^ 53\<close> bytes.
\<close>

lemma ParseMemory_unit:
  assumes "(suf, mul) \<in> set memory_suffixes" "int n * mul < 2 ^ 53"
  shows "ParseMemory conv (show_nat n @ suf)
    = Inr \<lparr>q_Value = int n * mul, q_Set = True, q_Original = show_nat n @ suf\<rparr>"
proof -
  have "list_all graphic suf" using assms(1) by (auto simp: memory_suffixes_def graphic_def)
  then have "trim_space (show_nat n @ suf) = show_nat n @ suf"
    by (intro trim_space_digits) simp_all
  then show ?thesis
    using ParseMemory_split[of "show_nat n @ suf" mul "show_nat n" conv] assms
      splitMemorySuffix_unit[of "show_nat n" suf mul] unit_mult_pos[of suf mul] by simp
qed

lemma ParseMemory_bytes:
  assumes "int n < 2 ^ 53"
  shows "ParseMemory conv (show_nat n)
    = Inr \<lparr>q_Value = int n, q_Set = True, q_Original = show_nat n\<rparr>"
  using ParseMemory_split[of "show_nat n" 1 "show_nat n" conv] assms
    trim_space_digits[of "show_nat n" "[]"] by (simp add: splitMemorySuffix_digits)

section \<open>Ranges\<close>

text \<open>The conversion parameter is a function into \<open>int64\<close>.\<close>

definition conv_i64 :: "(f64 \<Rightarrow> i64) \<Rightarrow> bool" where
  "conv_i64 conv \<longleftrightarrow> (\<forall>f. in_i64 (conv f))"

lemma conv_i64_amd64 [simp]: "conv_i64 amd64_conv"
  by (simp add: conv_i64_def amd64_conv_def in_i64_def)

lemma conv_i64_arm64 [simp]: "conv_i64 arm64_conv"
  by (simp add: conv_i64_def arm64_conv_def in_i64_def split: f64.split)

lemma f64_to_i64_range: "conv_i64 conv \<Longrightarrow> in_i64 (f64_to_i64 conv f)"
  by (auto simp: f64_to_i64_def conv_i64_def split: f64.split)

lemma ParseMemory_nonneg:
  "ParseMemory conv s = Inr q \<Longrightarrow> 0 \<le> q_Value q"
  by (auto simp: ParseMemory_def zero_quantity_def Let_def split: if_splits sum.splits prod.splits)

lemma ParseMemory_range:
  "conv_i64 conv \<Longrightarrow> ParseMemory conv s = Inr q \<Longrightarrow> in_i64 (q_Value q)"
  by (auto simp: ParseMemory_def zero_quantity_def Let_def f64_to_i64_range in_i64_def[of 0]
      split: if_splits sum.splits prod.splits)

lemma ParseCPU_range:
  "conv_i64 conv \<Longrightarrow> ParseCPU conv s = Inr q \<Longrightarrow> in_i64 (q_Value q)"
  by (auto simp: ParseCPU_def zero_quantity_def Let_def f64_to_i64_range in_i64_def[of 0]
      parse_int_in_i64 split: if_splits sum.splits)

text \<open>
  \<open>ParseCPU\<close> checks the sign of the number it read, not of the value it stores: where the
  conversion wraps to a negative number, so does the stored quantity.
\<close>

lemma ParseCPU_inf: "ParseCPU conv ''inf'' = Inr \<lparr>q_Value = conv PInf, q_Set = True, q_Original = ''inf''\<rparr>"
proof -
  have "trim_space ''inf'' = ''inf''" by (rule trim_space_graphic) (simp_all add: graphic_def)
  moreover have "parse_float ''inf'' = Inr PInf"
    by (simp add: parse_float_def special_def split_sign_def lower_def f64_inf_def)
  ultimately show ?thesis
    by (simp add: ParseCPU_def has_suffix_def f64_to_i64_def f64_inf_def)
qed

lemma ParseMemory_inf:
  "ParseMemory conv ''inf'' =
    (if conv PInf < 0 then Inl MemoryOverflow
     else Inr \<lparr>q_Value = conv PInf, q_Set = True, q_Original = ''inf''\<rparr>)"
proof -
  have "trim_space ''inf'' = ''inf''" by (rule trim_space_graphic) (simp_all add: graphic_def)
  moreover have "splitMemorySuffix ''inf'' = (1, ''inf'')"
    by (simp add: splitMemorySuffix_def memory_suffixes_def has_suffix_def)
  moreover have "parse_float ''inf'' = Inr PInf"
    by (simp add: parse_float_def special_def split_sign_def lower_def f64_inf_def)
  ultimately show ?thesis
    by (simp add: ParseMemory_def f64_to_i64_def f64_inf_def)
qed

section \<open>Properties of quantities\<close>

text \<open>
  C11. Printing a CPU quantity and reading it back is the identity on every set, non-negative number
  of millicores that \<open>float64\<close> represents exactly, whichever of the two formats is printed.
\<close>

theorem cpu_print_parse:
  assumes "q_Set q" "0 \<le> q_Value q" "q_Value q < 2 ^ 53"
  shows "ParseCPU conv (FormatCPU q)
    = Inr \<lparr>q_Value = q_Value q, q_Set = True, q_Original = FormatCPU q\<rparr>"
  using assms by (rule ParseCPU_FormatCPU)

theorem cpu_print_parse_witness:
  "ParseCPU amd64_conv (FormatCPU \<lparr>q_Value = 2500, q_Set = True, q_Original = ''2.5''\<rparr>)
     = Inr \<lparr>q_Value = 2500, q_Set = True,
            q_Original = FormatCPU \<lparr>q_Value = 2500, q_Set = True, q_Original = ''2.5''\<rparr>\<rparr>"
  using cpu_print_parse[of "\<lparr>q_Value = 2500, q_Set = True, q_Original = ''2.5''\<rparr>" amd64_conv] by simp

text \<open>
  A whole number of any of the ten memory units is read as exactly that many bytes, as long as
  the product is below \<open>2 ^ 53\<close>; the text is kept for display.
\<close>

lemma memory_units_exact:
  assumes "(suf, mul) \<in> set memory_suffixes" "int n * mul < 2 ^ 53"
  shows "ParseMemory conv (show_nat n @ suf)
    = Inr \<lparr>q_Value = int n * mul, q_Set = True, q_Original = show_nat n @ suf\<rparr>"
  using assms by (rule ParseMemory_unit)

theorem memory_units_exact_witness:
  "ParseMemory arm64_conv (show_nat 512 @ ''Mi'')
     = Inr \<lparr>q_Value = 536870912, q_Set = True, q_Original = show_nat 512 @ ''Mi''\<rparr>"
  using memory_units_exact[of "''Mi''" "1024 * 1024" 512 arm64_conv] by (simp add: memory_suffixes_def)

text \<open>
  The overflow check of memory has no counterpart for CPU: where the platform converts an
  out-of-range float to the least \<open>int64\<close> (amd64), an infinite amount of CPU is accepted as a
  negative number of millicores, while an infinite amount of memory is an error; where it
  saturates (arm64) both are accepted as the greatest \<open>int64\<close>.
\<close>

lemma infinite_quantities:
  "ParseCPU amd64_conv ''inf'' = Inr \<lparr>q_Value = - (2 ^ 63), q_Set = True, q_Original = ''inf''\<rparr>
   \<and> ParseMemory amd64_conv ''inf'' = Inl MemoryOverflow
   \<and> ParseCPU arm64_conv ''inf'' = Inr \<lparr>q_Value = 2 ^ 63 - 1, q_Set = True, q_Original = ''inf''\<rparr>
   \<and> ParseMemory arm64_conv ''inf'' = Inr \<lparr>q_Value = 2 ^ 63 - 1, q_Set = True, q_Original = ''inf''\<rparr>"
  by (simp add: ParseCPU_inf ParseMemory_inf amd64_conv_def arm64_conv_def)

end
