(* ===== verification/Helm.thy ===== *)
theory Helm
  imports Quantity
begin

text \<open>
  \<^verbatim>\<open>pkg/parser/helm.go\<close>: from a decoded Helm values document to the list of workloads.

  The YAML decoder is third-party code: \<open>yaml.Unmarshal\<close> into a \<open>yaml.Node\<close> is the
  argument \<open>unmarshal\<close> of \<open>ParseValues\<close>. The node tree it fills is modelled as the
  datatype \<open>node\<close> with the three fields the parser reads.
\<close>

datatype node_kind = ZeroKind | DocumentNode | SequenceNode | MappingNode | ScalarNode | AliasNode

datatype node = Node (n_Kind: node_kind) (n_Value: string) (n_Content: "node list")

record ResourceList =
  rl_CPU :: quantity
  rl_Memory :: quantity

record ImageRef =
  i_Repository :: string
  i_Tag :: string
  i_Set :: bool

record SecurityContext =
  sc_RunAsNonRoot :: "bool option"
  sc_RunAsUser :: "i64 option"
  sc_Privileged :: "bool option"
  sc_ReadOnlyRootFilesystem :: "bool option"
  sc_HostNetwork :: "bool option"
  sc_HostPID :: "bool option"
  sc_HostIPC :: "bool option"
  sc_HostPath :: "bool option"
  sc_AllowPrivilegeEscalation :: "bool option"
  sc_AutomountServiceAccountToken :: "bool option"
  sc_CapabilitiesAdd :: "string list"
  sc_CapabilitiesDrop :: "string list"

record Workload =
  w_Name :: string
  w_Kind :: string
  w_Requests :: ResourceList
  w_Limits :: ResourceList
  w_Image :: ImageRef
  w_Replicas :: i64
  w_HasHPA :: bool
  w_Security :: SecurityContext

definition empty_resources :: ResourceList where
  "empty_resources = \<lparr>rl_CPU = zero_quantity, rl_Memory = zero_quantity\<rparr>"

definition empty_image :: ImageRef where
  "empty_image = \<lparr>i_Repository = [], i_Tag = [], i_Set = False\<rparr>"

definition empty_security :: SecurityContext where
  "empty_security =
     \<lparr>sc_RunAsNonRoot = None, sc_RunAsUser = None, sc_Privileged = None,
      sc_ReadOnlyRootFilesystem = None, sc_HostNetwork = None, sc_HostPID = None,
      sc_HostIPC = None, sc_HostPath = None, sc_AllowPrivilegeEscalation = None,
      sc_AutomountServiceAccountToken = None, sc_CapabilitiesAdd = [], sc_CapabilitiesDrop = []\<rparr>"

definition ImageRef_String :: "ImageRef \<Rightarrow> string" where
  "ImageRef_String i =
     (if \<not> i_Set i then []
      else if i_Tag i = [] then i_Repository i
      else i_Repository i @ '':'' @ i_Tag i)"

section \<open>Reading nodes\<close>

text \<open>
  The loop \<^verbatim>\<open>for i := 0; i+1 < len(n.Content); i += 2\<close> over the alternating keys and values
  of a mapping; an odd last element is not visited.
\<close>

fun pairs :: "'a list \<Rightarrow> ('a \<times> 'a) list" where
  "pairs (k # v # rest) = (k, v) # pairs rest"
| "pairs _ = []"

definition findChild :: "node \<Rightarrow> string \<Rightarrow> node option" where
  "findChild n key =
     (if n_Kind n \<noteq> MappingNode then None
      else map_option snd
             (find (\<lambda>(k, v). n_Kind k = ScalarNode \<and> n_Value k = key) (pairs (n_Content n))))"

text \<open>The idiom \<^verbatim>\<open>v := findChild(n, key); v != nil && v.Kind == yaml.ScalarNode\<close>.\<close>

definition scalarChild :: "node \<Rightarrow> string \<Rightarrow> string option" where
  "scalarChild n key =
     (case findChild n key of
        Some v \<Rightarrow> if n_Kind v = ScalarNode then Some (n_Value v) else None
      | None \<Rightarrow> None)"

definition joinPath :: "string \<Rightarrow> string \<Rightarrow> string" where
  "joinPath parent child = (if parent = [] then child else parent @ ''.'' @ child)"

definition readResourceEntry :: "(f64 \<Rightarrow> i64) \<Rightarrow> node \<times> node \<Rightarrow> ResourceList \<Rightarrow> ResourceList" where
  "readResourceEntry conv kv rl =
     (let (k, v) = kv
      in if n_Kind k \<noteq> ScalarNode \<or> n_Kind v \<noteq> ScalarNode then rl
         else if n_Value k = ''cpu''
         then (case ParseCPU conv (n_Value v) of Inr q \<Rightarrow> rl\<lparr>rl_CPU := q\<rparr> | Inl _ \<Rightarrow> rl)
         else if n_Value k = ''memory''
         then (case ParseMemory conv (n_Value v) of Inr q \<Rightarrow> rl\<lparr>rl_Memory := q\<rparr> | Inl _ \<Rightarrow> rl)
         else rl)"

definition readResourceList :: "(f64 \<Rightarrow> i64) \<Rightarrow> node \<Rightarrow> ResourceList" where
  "readResourceList conv n =
     (if n_Kind n \<noteq> MappingNode then empty_resources
      else fold (readResourceEntry conv) (pairs (n_Content n)) empty_resources)"

text \<open>The scan of \<open>splitImage\<close> remembers the position of the last colon seen.\<close>

fun last_colon :: "nat \<Rightarrow> nat option \<Rightarrow> string \<Rightarrow> nat option" where
  "last_colon i idx [] = idx"
| "last_colon i idx (c # cs) = last_colon (Suc i) (if c = CHR '':'' then Some i else idx) cs"

definition splitImage :: "string \<Rightarrow> string \<times> string" where
  "splitImage s =
     (case last_colon 0 None s of
        None \<Rightarrow> (s, [])
      | Some idx \<Rightarrow> (take idx s, drop (idx + 1) s))"

definition readImageEntry :: "node \<times> node \<Rightarrow> ImageRef \<Rightarrow> ImageRef" where
  "readImageEntry kv ref =
     (let (k, v) = kv
      in if n_Kind k \<noteq> ScalarNode \<or> n_Kind v \<noteq> ScalarNode then ref
         else if n_Value k = ''repository'' \<or> n_Value k = ''name''
         then ref\<lparr>i_Repository := n_Value v, i_Set := True\<rparr>
         else if n_Value k = ''tag'' then ref\<lparr>i_Tag := n_Value v, i_Set := True\<rparr>
         else ref)"

definition readImage :: "node \<Rightarrow> ImageRef" where
  "readImage n =
     (case n_Kind n of
        ScalarNode \<Rightarrow>
          if n_Value n = [] then empty_image
          else let (repo, tag) = splitImage (n_Value n)
               in \<lparr>i_Repository = repo, i_Tag = tag, i_Set = True\<rparr>
      | MappingNode \<Rightarrow> fold readImageEntry (pairs (n_Content n)) empty_image
      | _ \<Rightarrow> empty_image)"

text \<open>
  Decimal digits accumulated in an \<open>int\<close>; the arithmetic wraps, a byte that is no digit
  stops the scan.
\<close>

fun digit_loop :: "i64 \<Rightarrow> string \<Rightarrow> i64 option" where
  "digit_loop v [] = Some v"
| "digit_loop v (c # cs) =
     (if \<not> is_digit c then None else digit_loop (wrap64 (v * 10 + digit_val c)) cs)"

definition readReplicas :: "node \<Rightarrow> i64" where
  "readReplicas n =
     (case List.map_filter (scalarChild n) [''replicas'', ''replicaCount''] of
        v # _ \<Rightarrow> (case digit_loop 0 v of Some r \<Rightarrow> r | None \<Rightarrow> 0)
      | [] \<Rightarrow> 0)"

definition hpaVerdict :: "node \<Rightarrow> bool" where
  "hpaVerdict c =
     (case scalarChild c ''enabled'' of
        Some en \<Rightarrow>
          if en = ''true'' \<or> en = ''yes'' \<or> en = ''1'' then True
          else if en = ''false'' \<or> en = ''no'' \<or> en = ''0'' then False
          else True
      | None \<Rightarrow> True)"

fun readHasHPA_loop :: "node \<Rightarrow> string list \<Rightarrow> bool" where
  "readHasHPA_loop n [] = False"
| "readHasHPA_loop n (key # keys) =
     (case findChild n key of
        None \<Rightarrow> readHasHPA_loop n keys
      | Some c \<Rightarrow> if n_Kind c \<noteq> MappingNode then readHasHPA_loop n keys else hpaVerdict c)"

definition readHasHPA :: "node \<Rightarrow> bool" where
  "readHasHPA n = readHasHPA_loop n [''autoscaling'', ''hpa'', ''horizontalPodAutoscaler'']"

definition boolValue :: "string \<Rightarrow> bool" where
  "boolValue s \<longleftrightarrow> s \<in> set [''true'', ''True'', ''TRUE'', ''yes'', ''Yes'', ''1'']"

definition parseInt64 :: "string \<Rightarrow> i64 option" where
  "parseInt64 s =
     (if s = [] then None
      else let negative = (hd s = CHR ''-'')
           in map_option (\<lambda>v. if negative then wrap64 (- v) else v)
                (digit_loop 0 (if negative then tl s else s)))"

definition readStringList :: "node option \<Rightarrow> string list" where
  "readStringList n =
     (case n of
        None \<Rightarrow> []
      | Some n \<Rightarrow>
          if n_Kind n \<noteq> SequenceNode then []
          else map n_Value (filter (\<lambda>c. n_Kind c = ScalarNode \<and> n_Value c \<noteq> []) (n_Content n)))"

text \<open>Write a field only when the child is present.\<close>

definition upd_some :: "('v \<Rightarrow> 's \<Rightarrow> 's) \<Rightarrow> 'v option \<Rightarrow> 's \<Rightarrow> 's" where
  "upd_some f v s = (case v of Some x \<Rightarrow> f x s | None \<Rightarrow> s)"

definition applySecFields :: "node \<Rightarrow> SecurityContext \<Rightarrow> SecurityContext" where
  "applySecFields ctx out =
     (let out = upd_some (\<lambda>v s. s\<lparr>sc_RunAsNonRoot := Some (boolValue v)\<rparr>)
                  (scalarChild ctx ''runAsNonRoot'') out;
          out = upd_some (\<lambda>n s. s\<lparr>sc_RunAsUser := Some n\<rparr>)
                  (Option.bind (scalarChild ctx ''runAsUser'') parseInt64) out;
          out = upd_some (\<lambda>v s. s\<lparr>sc_Privileged := Some (boolValue v)\<rparr>)
                  (scalarChild ctx ''privileged'') out;
          out = upd_some (\<lambda>v s. s\<lparr>sc_ReadOnlyRootFilesystem := Some (boolValue v)\<rparr>)
                  (scalarChild ctx ''readOnlyRootFilesystem'') out;
          out = upd_some (\<lambda>v s. s\<lparr>sc_AllowPrivilegeEscalation := Some (boolValue v)\<rparr>)
                  (scalarChild ctx ''allowPrivilegeEscalation'') out
      in case findChild ctx ''capabilities'' of
           Some caps \<Rightarrow>
             if n_Kind caps = MappingNode
             then out\<lparr>sc_CapabilitiesAdd := readStringList (findChild caps ''add''),
                      sc_CapabilitiesDrop := readStringList (findChild caps ''drop'')\<rparr>
             else out
         | None \<Rightarrow> out)"

definition mountsHostPath :: "node \<Rightarrow> bool" where
  "mountsHostPath n =
     (case findChild n ''volumes'' of
        Some vols \<Rightarrow> n_Kind vols = SequenceNode \<and>
          list_ex (\<lambda>v. n_Kind v = MappingNode \<and> findChild v ''hostPath'' \<noteq> None) (n_Content vols)
      | None \<Rightarrow> False)"

definition applySecContext :: "node \<Rightarrow> string \<Rightarrow> SecurityContext \<Rightarrow> SecurityContext" where
  "applySecContext n key sec =
     (case findChild n key of
        Some ctx \<Rightarrow> if n_Kind ctx \<noteq> MappingNode then sec else applySecFields ctx sec
      | None \<Rightarrow> sec)"

definition readSecurity :: "node \<Rightarrow> SecurityContext" where
  "readSecurity n =
     (let sec = empty_security;
          sec = upd_some (\<lambda>v s. s\<lparr>sc_HostNetwork := Some (boolValue v)\<rparr>)
                  (scalarChild n ''hostNetwork'') sec;
          sec = upd_some (\<lambda>v s. s\<lparr>sc_HostPID := Some (boolValue v)\<rparr>) (scalarChild n ''hostPID'') sec;
          sec = upd_some (\<lambda>v s. s\<lparr>sc_HostIPC := Some (boolValue v)\<rparr>) (scalarChild n ''hostIPC'') sec;
          sec = upd_some (\<lambda>v s. s\<lparr>sc_AutomountServiceAccountToken := Some (boolValue v)\<rparr>)
                  (scalarChild n ''automountServiceAccountToken'') sec;
          sec = (if mountsHostPath n then sec\<lparr>sc_HostPath := Some True\<rparr> else sec)
      in fold (applySecContext n)
           [''securityContext'', ''podSecurityContext'', ''containerSecurityContext''] sec)"

section \<open>Walking the document\<close>

text \<open>The workload a mapping with a \<open>resources\<close> mapping declares.\<close>

definition readWorkload :: "(f64 \<Rightarrow> i64) \<Rightarrow> string \<Rightarrow> node \<Rightarrow> node \<Rightarrow> Workload" where
  "readWorkload conv childPath v res =
     \<lparr>w_Name = childPath, w_Kind = ''Deployment'',
      w_Requests = (case findChild res ''requests'' of
                      Some reqs \<Rightarrow> readResourceList conv reqs | None \<Rightarrow> empty_resources),
      w_Limits = (case findChild res ''limits'' of
                    Some lims \<Rightarrow> readResourceList conv lims | None \<Rightarrow> empty_resources),
      w_Image = (case findChild v ''image'' of Some img \<Rightarrow> readImage img | None \<Rightarrow> empty_image),
      w_Replicas = readReplicas v, w_HasHPA = readHasHPA v, w_Security = readSecurity v\<rparr>"

definition workloadAt :: "(f64 \<Rightarrow> i64) \<Rightarrow> string \<Rightarrow> node \<Rightarrow> Workload list" where
  "workloadAt conv childPath v =
     (case findChild v ''resources'' of
        Some res \<Rightarrow> if n_Kind res = MappingNode then [readWorkload conv childPath v res] else []
      | None \<Rightarrow> [])"

lemma size_pairs:
  assumes "(k, v) \<in> set (pairs xs)"
  shows "size k < Suc (size_list size xs)" and "size v < Suc (size_list size xs)"
  using assms by (induction xs rule: pairs.induct) auto

function walk :: "(f64 \<Rightarrow> i64) \<Rightarrow> node \<Rightarrow> string \<Rightarrow> Workload list" where
  "walk conv n path =
     (if n_Kind n \<noteq> MappingNode then []
      else concat (map (\<lambda>(k, v).
             if n_Kind k \<noteq> ScalarNode then []
             else if n_Kind v = MappingNode
             then workloadAt conv (joinPath path (n_Value k)) v
                    @ walk conv v (joinPath path (n_Value k))
             else []) (pairs (n_Content n))))"
  by pat_completeness auto
termination
proof (relation "measure (\<lambda>(conv, n, path). size n)", goal_cases)
  case (2 conv n path kv k v)
  then have "(k, v) \<in> set (pairs (n_Content n))" by simp
  then have "size v < Suc (size_list size (n_Content n))" by (rule size_pairs)
  then show ?case by (cases n) simp
qed simp

declare walk.simps [simp del]

datatype parse_error = ReadError string | YamlError string | EmptyDocument | TopLevelNotMap

definition name_less :: "Workload \<Rightarrow> Workload \<Rightarrow> bool" where
  "name_less a b \<longleftrightarrow> w_Name a < w_Name b"

definition ParseValues ::
  "(string \<Rightarrow> string + node) \<Rightarrow> (f64 \<Rightarrow> i64) \<Rightarrow> string + string \<Rightarrow> parse_error + Workload list" where
  "ParseValues unmarshal conv r =
     (case r of
        Inl e \<Rightarrow> Inl (ReadError e)
      | Inr raw \<Rightarrow>
          (case unmarshal raw of
             Inl e \<Rightarrow> Inl (YamlError e)
           | Inr doc \<Rightarrow>
               if n_Kind doc \<noteq> DocumentNode \<or> n_Content doc = [] then Inl EmptyDocument
               else if n_Kind (hd (n_Content doc)) \<noteq> MappingNode then Inl TopLevelNotMap
               else Inr (stable_sort name_less (walk conv (hd (n_Content doc)) []))))"

interpretation by_name: less_order name_less
  by unfold_locales (auto simp: name_less_def)


section \<open>Which workloads are found\<close>

text \<open>
  \<open>declares n path p v\<close>: below the mapping \<open>n\<close>, which stands at \<open>path\<close>, the mapping
  \<open>v\<close> stands at the dotted path \<open>p\<close>, all keys on the way being scalars and all
  nodes on the way being mappings.
\<close>

inductive declares :: "node \<Rightarrow> string \<Rightarrow> string \<Rightarrow> node \<Rightarrow> bool" where
  here: "n_Kind n = MappingNode \<Longrightarrow> (k, v) \<in> set (pairs (n_Content n)) \<Longrightarrow> n_Kind k = ScalarNode \<Longrightarrow>
    n_Kind v = MappingNode \<Longrightarrow> declares n path (joinPath path (n_Value k)) v"
| below: "n_Kind n = MappingNode \<Longrightarrow> (k, v) \<in> set (pairs (n_Content n)) \<Longrightarrow> n_Kind k = ScalarNode \<Longrightarrow>
    n_Kind v = MappingNode \<Longrightarrow> declares v (joinPath path (n_Value k)) p u \<Longrightarrow> declares n path p u"

lemma declares_not_mapping [simp]: "n_Kind n \<noteq> MappingNode \<Longrightarrow> \<not> declares n path p v"
  by (auto elim: declares.cases)

lemma walk_sound:
  "w \<in> set (walk conv n path) \<Longrightarrow> \<exists>p v. declares n path p v \<and> w \<in> set (workloadAt conv p v)"
proof (induction conv n path rule: walk.induct)
  case (1 conv n path)
  from "1.prems" obtain k v where kv: "n_Kind n = MappingNode" "(k, v) \<in> set (pairs (n_Content n))"
      "n_Kind k = ScalarNode" "n_Kind v = MappingNode"
    and w: "w \<in> set (workloadAt conv (joinPath path (n_Value k)) v)
      \<or> w \<in> set (walk conv v (joinPath path (n_Value k)))"
    by (subst (asm) walk.simps) (auto split: if_splits)
  from w show ?case
  proof
    assume "w \<in> set (workloadAt conv (joinPath path (n_Value k)) v)"
    with kv show ?thesis by (blast intro: declares.here)
  next
    assume "w \<in> set (walk conv v (joinPath path (n_Value k)))"
    with "1.IH"[OF _ kv(2) refl] kv obtain p u
      where "declares v (joinPath path (n_Value k)) p u" "w \<in> set (workloadAt conv p u)" by auto
    with kv show ?thesis by (blast intro: declares.below)
  qed
qed

lemma walk_step:
  assumes "n_Kind n = MappingNode" "(k, v) \<in> set (pairs (n_Content n))" "n_Kind k = ScalarNode"
    "n_Kind v = MappingNode"
  shows "set (workloadAt conv (joinPath path (n_Value k)) v) \<subseteq> set (walk conv n path)"
    and "set (walk conv v (joinPath path (n_Value k))) \<subseteq> set (walk conv n path)"
  using assms by (force simp: walk.simps[of conv n path])+

lemma walk_complete:
  "declares n path p v \<Longrightarrow> w \<in> set (workloadAt conv p v) \<Longrightarrow> w \<in> set (walk conv n path)"
proof (induction rule: declares.induct)
  case (here n k v path)
  then show ?case using walk_step(1) by blast
next
  case (below n k v path p u)
  then show ?case using walk_step(2) by blast
qed

lemma set_walk:
  "set (walk conv n path) = {w. \<exists>p v. declares n path p v \<and> w \<in> set (workloadAt conv p v)}"
  using walk_sound walk_complete by blast

lemma workloadAt_iff:
  "w \<in> set (workloadAt conv p v) \<longleftrightarrow>
    (\<exists>res. findChild v ''resources'' = Some res \<and> n_Kind res = MappingNode
      \<and> w = readWorkload conv p v res)"
  by (cases "findChild v ''resources''") (auto simp: workloadAt_def)

text \<open>
  \<open>locate n path is\<close>: the mapping that is reached from \<open>n\<close>, which stands at \<open>path\<close>, by taking the entries
  numbered \<open>is\<close> one after the other, with its dotted path. A position is one place of the document.
\<close>

fun locate :: "node \<Rightarrow> string \<Rightarrow> nat list \<Rightarrow> (string \<times> node) option" where
  "locate n path [] = None"
| "locate n path (i # is) =
     (if n_Kind n = MappingNode \<and> i < length (pairs (n_Content n))
      then let (k, v) = pairs (n_Content n) ! i
           in if n_Kind k = ScalarNode \<and> n_Kind v = MappingNode
              then if is = [] then Some (joinPath path (n_Value k), v) else locate v (joinPath path (n_Value k)) is
              else None
      else None)"

definition has_resources :: "node \<Rightarrow> bool" where
  "has_resources v \<longleftrightarrow> (\<exists>res. findChild v ''resources'' = Some res \<and> n_Kind res = MappingNode)"

definition workload_positions :: "node \<Rightarrow> nat list set" where
  "workload_positions doc = {is. \<exists>p v. locate doc [] is = Some (p, v) \<and> has_resources v}"

text \<open>The workload at a position.\<close>

definition read_at :: "(f64 \<Rightarrow> i64) \<Rightarrow> node \<Rightarrow> string \<Rightarrow> nat list \<Rightarrow> Workload" where
  "read_at conv n path is =
     (case locate n path is of Some (p, v) \<Rightarrow> readWorkload conv p v (the (findChild v ''resources'')) | None \<Rightarrow> undefined)"

function positions :: "node \<Rightarrow> nat list list" where
  "positions n =
     (if n_Kind n \<noteq> MappingNode then []
      else concat (map (\<lambda>(i, k, v).
             if n_Kind k \<noteq> ScalarNode \<or> n_Kind v \<noteq> MappingNode then []
             else (if has_resources v then [[i]] else []) @ map (Cons i) (positions v))
           (enumerate 0 (pairs (n_Content n)))))"
  by pat_completeness auto
termination
proof (relation "measure size", goal_cases)
  case (2 n ikv i kv k v)
  then have "(k, v) \<in> set (pairs (n_Content n))" by (auto simp: in_set_enumerate_eq) (metis nth_mem)
  then have "size v < Suc (size_list size (n_Content n))" by (rule size_pairs)
  then show ?case by (cases n) simp
qed simp

declare positions.simps [simp del]

lemma positions_no_Nil: "[] \<notin> set (positions n)"
  by (subst positions.simps) auto

lemma positions_iff: "is \<in> set (positions n) \<longleftrightarrow> (\<exists>p v. locate n path is = Some (p, v) \<and> has_resources v)"
proof (induction n arbitrary: path "is" rule: positions.induct)
  case (1 n)
  show ?case
  proof (cases "n_Kind n = MappingNode \<and> is \<noteq> []")
    case False
    then show ?thesis using positions_no_Nil[of n] by (cases "is") (auto simp: positions.simps[of n])
  next
    case True
    then obtain i js where "is": "is = i # js" by (cases "is") auto
    let ?ps = "pairs (n_Content n)"
    show ?thesis
    proof (cases "i < length ?ps")
      case False
      then show ?thesis using True by (auto simp: "is" positions.simps[of n] in_set_enumerate_eq split: if_splits)
    next
      case i: True
      obtain k v where kv: "?ps ! i = (k, v)" by fastforce
      have "is \<in> set (positions n) \<longleftrightarrow> n_Kind k = ScalarNode \<and> n_Kind v = MappingNode \<and>
          (js = [] \<and> has_resources v \<or> js \<in> set (positions v))"
        using True i kv by (auto simp: "is" positions.simps[of n] in_set_enumerate_eq split: if_splits)
          (force simp: in_set_enumerate_eq)+
      moreover have "js \<in> set (positions v) \<longleftrightarrow>
          (\<exists>p u. locate v (joinPath path (n_Value k)) js = Some (p, u) \<and> has_resources u)"
        if "n_Kind k = ScalarNode" "n_Kind v = MappingNode"
        using "1"[of "(i, k, v)" i "(k, v)" k v js "joinPath path (n_Value k)"] True i kv that
        by (auto simp: in_set_enumerate_eq)
      moreover have "[] \<notin> set (positions v)" by (rule positions_no_Nil)
      ultimately show ?thesis using True i kv by (auto simp: "is")
    qed
  qed
qed

lemma distinct_by_head:
  assumes "\<And>x. x \<in> set xs \<Longrightarrow> distinct (f x)" "distinct (map fst xs)"
    and "\<And>x js. x \<in> set xs \<Longrightarrow> js \<in> set (f x) \<Longrightarrow> js \<noteq> [] \<and> hd js = fst x"
  shows "distinct (concat (map f xs))"
  using assms
proof (induction xs)
  case (Cons x xs)
  then have "set (f x) \<inter> set (concat (map f xs)) = {}"
    by (auto simp: image_iff) (metis fst_conv prod.collapse)
  moreover have "distinct (concat (map f xs))"
  proof (rule Cons.IH)
    show "distinct (f y)" if "y \<in> set xs" for y using Cons.prems(1) that by simp
    show "distinct (map fst xs)" using Cons.prems(2) by simp
    show "js \<noteq> [] \<and> hd js = fst y" if "y \<in> set xs" "js \<in> set (f y)" for y js
      using Cons.prems(3)[of y js] that by simp
  qed
  ultimately show ?case using Cons.prems by simp
qed simp

lemma distinct_positions: "distinct (positions n)"
proof (induction n rule: positions.induct)
  case (1 n)
  note IH = 1
  have "distinct (concat (map (\<lambda>(i, k, v).
      if n_Kind k \<noteq> ScalarNode \<or> n_Kind v \<noteq> MappingNode then []
      else (if has_resources v then [[i]] else []) @ map (Cons i) (positions v)) (enumerate 0 (pairs (n_Content n)))))"
    if m: "n_Kind n = MappingNode"
  proof (rule distinct_by_head, goal_cases)
    case (1 x)
    obtain i k v where x: "x = (i, k, v)" by (metis prod.collapse)
    have "distinct (positions v)" if "n_Kind k = ScalarNode" "n_Kind v = MappingNode"
      using IH[OF _ 1, of i "(k, v)" k v] m that x by simp
    then show ?case using positions_no_Nil[of v] by (auto simp: x distinct_map)
  qed (auto split: if_splits)
  then show ?case by (subst positions.simps) simp
qed

lemma concat_enumerate:
  assumes "\<And>i. i < length xs \<Longrightarrow> g (xs ! i) = map h (f (k + i, xs ! i))"
  shows "concat (map g xs) = map h (concat (map f (enumerate k xs)))"
  using assms
proof (induction xs arbitrary: k)
  case (Cons x xs)
  have "g x = map h (f (k, x))" using Cons.prems[of 0] by simp
  moreover have "concat (map g xs) = map h (concat (map f (enumerate (Suc k) xs)))"
    using Cons.prems[of "Suc i" for i] by (intro Cons.IH) auto
  ultimately show ?case by simp
qed simp

lemma walk_positions: "walk conv n path = map (read_at conv n path) (positions n)"
proof (induction conv n path rule: walk.induct)
  case (1 conv n path)
  have "concat (map (\<lambda>(k, v). if n_Kind k \<noteq> ScalarNode then []
        else if n_Kind v = MappingNode then workloadAt conv (joinPath path (n_Value k)) v @ walk conv v (joinPath path (n_Value k))
        else []) (pairs (n_Content n))) =
      map (read_at conv n path) (concat (map (\<lambda>(i, k, v).
        if n_Kind k \<noteq> ScalarNode \<or> n_Kind v \<noteq> MappingNode then []
        else (if has_resources v then [[i]] else []) @ map (Cons i) (positions v)) (enumerate 0 (pairs (n_Content n)))))"
    if m: "n_Kind n = MappingNode"
  proof (rule concat_enumerate)
    fix i
    assume i: "i < length (pairs (n_Content n))"
    obtain k v where kv: "pairs (n_Content n) ! i = (k, v)" by fastforce
    then have "(k, v) \<in> set (pairs (n_Content n))" using i by (metis nth_mem)
    then have IH: "walk conv v (joinPath path (n_Value k)) = map (read_at conv v (joinPath path (n_Value k))) (positions v)"
      if "n_Kind k = ScalarNode" "n_Kind v = MappingNode" using 1[OF _ _ refl, of k v] m that by simp
    have "read_at conv n path (i # js) = read_at conv v (joinPath path (n_Value k)) js"
      if "n_Kind k = ScalarNode" "n_Kind v = MappingNode" "js \<in> set (positions v)" for js
      using that m i kv positions_no_Nil[of v] by (auto simp: read_at_def)
    moreover have "workloadAt conv (joinPath path (n_Value k)) v =
        map (read_at conv n path) (if has_resources v then [[i]] else [])"
      if "n_Kind k = ScalarNode" "n_Kind v = MappingNode"
      using that m i kv by (auto simp: workloadAt_def has_resources_def read_at_def split: option.splits)
    ultimately show "(case pairs (n_Content n) ! i of (k, v) \<Rightarrow> if n_Kind k \<noteq> ScalarNode then []
        else if n_Kind v = MappingNode then workloadAt conv (joinPath path (n_Value k)) v @ walk conv v (joinPath path (n_Value k))
        else []) =
      map (read_at conv n path) (case (0 + i, pairs (n_Content n) ! i) of (i, k, v) \<Rightarrow>
        if n_Kind k \<noteq> ScalarNode \<or> n_Kind v \<noteq> MappingNode then []
        else (if has_resources v then [[i]] else []) @ map (Cons i) (positions v))"
      using IH by (simp add: kv)
  qed
  then show ?case by (subst walk.simps, subst positions.simps) simp
qed

lemma mset_walk:
  "finite (workload_positions doc) \<and>
   mset (walk conv doc []) = image_mset (read_at conv doc []) (mset_set (workload_positions doc))"
proof -
  have "workload_positions doc = set (positions doc)"
    using positions_iff[of _ doc "[]"] by (auto simp: workload_positions_def)
  then show ?thesis
    using distinct_positions[of doc] by (simp add: walk_positions mset_set_set)
qed

section \<open>Scalars\<close>

lemma digit_loop_digits:
  assumes "list_all is_digit s" "0 \<le> v" "v * 10 ^ length s + digits_val s < 2 ^ 63"
  shows "digit_loop v s = Some (v * 10 ^ length s + digits_val s)"
  using assms
proof (induction s arbitrary: v)
  case Nil
  then show ?case by (simp add: digits_val_def)
next
  case (Cons c s)
  define v' where "v' = v * 10 + digit_val c"
  from Cons.prems have c: "is_digit c" and s: "list_all is_digit s" by simp_all
  have v': "0 \<le> v'" using Cons.prems(2) digit_val_bounds[OF c] by (simp add: v'_def)
  have sum: "v * 10 ^ length (c # s) + digits_val (c # s) = v' * 10 ^ length s + digits_val s"
    by (simp add: digits_val_Cons v'_def algebra_simps)
  have "v' * 1 \<le> v' * 10 ^ length s" using v' by (intro mult_left_mono) auto
  then have "v' < 2 ^ 63" using Cons.prems(3) digits_val_nonneg[OF s] sum by linarith
  then have "wrap64 v' = v'" using v' by (intro wrap64_id) (simp add: in_i64_def)
  then have "digit_loop v (c # s) = digit_loop v' s" using c by (simp add: v'_def)
  also have "\<dots> = Some (v' * 10 ^ length s + digits_val s)"
    using Cons.prems(3) sum s v' by (intro Cons.IH) auto
  finally show ?case by (simp only: sum)
qed

lemma digit_loop_show_nat [simp]: "int n < 2 ^ 63 \<Longrightarrow> digit_loop 0 (show_nat n) = Some (int n)"
  using digit_loop_digits[of "show_nat n" 0] all_digits_show_nat[of n] by (simp add: all_digits_def)

lemma in_i64_digit_loop: "in_i64 v \<Longrightarrow> digit_loop v s = Some r \<Longrightarrow> in_i64 r"
  by (induction v s rule: digit_loop.induct) (auto split: if_splits)

lemma parseInt64_show_nat: "int n < 2 ^ 63 \<Longrightarrow> parseInt64 (show_nat n) = Some (int n)"
proof -
  assume n: "int n < 2 ^ 63"
  have "hd (show_nat n) \<noteq> CHR ''-''"
    using show_nat_digits[of "hd (show_nat n)" n] by auto
  with n show ?thesis by (simp add: parseInt64_def)
qed

lemma last_colon_append:
  "last_colon i idx (s @ t) = last_colon (i + length s) (last_colon i idx s) t"
  by (induction s arbitrary: i idx) auto

lemma last_colon_none: "CHR '':'' \<notin> set s \<Longrightarrow> last_colon i idx s = idx"
  by (induction s arbitrary: i idx) auto

lemma splitImage_tag: "CHR '':'' \<notin> set tag \<Longrightarrow> splitImage (repo @ CHR '':'' # tag) = (repo, tag)"
  by (simp add: splitImage_def last_colon_append last_colon_none)

lemma splitImage_no_tag: "CHR '':'' \<notin> set s \<Longrightarrow> splitImage s = (s, [])"
  by (simp add: splitImage_def last_colon_none)

text \<open>The scalar form of an image is printed back as it was written, unless its tag is empty.\<close>

lemma readImage_String:
  assumes "s \<noteq> []" "last s \<noteq> CHR '':''"
  shows "ImageRef_String (readImage (Node ScalarNode s cs)) = s"
proof (cases "CHR '':'' \<in> set s")
  case True
  then obtain repo tag where s: "s = repo @ CHR '':'' # tag" and tag: "CHR '':'' \<notin> set tag"
    using split_list_last by fastforce
  with assms(2) have "tag \<noteq> []" by (cases tag) auto
  with s tag show ?thesis by (simp add: readImage_def splitImage_tag ImageRef_String_def)
next
  case False
  with assms(1) show ?thesis by (simp add: readImage_def splitImage_no_tag ImageRef_String_def)
qed

section \<open>Properties of the values reader\<close>

text \<open>
  C8. From a values file whose top level is a mapping, the reader returns, sorted by name, exactly one
  workload for each place of the document, at any depth, where a mapping has a \<open>resources\<close> mapping,
  read from that place under its dotted path; it does not fail. An empty \<open>resources\<close> mapping is enough,
  where the comments of the reader ask for \<open>requests\<close> or \<open>limits\<close> in it.
\<close>

theorem parse_values_exact:
  assumes "unmarshal raw = Inr (Node DocumentNode txt (doc # rest))" "n_Kind doc = MappingNode"
  shows "\<exists>ws. ParseValues unmarshal conv (Inr raw) = Inr ws \<and> sorted_by name_less ws \<and>
    finite (workload_positions doc) \<and>
    mset ws = image_mset (read_at conv doc []) (mset_set (workload_positions doc)) \<and>
    set ws = {readWorkload conv p v res | p v res.
      declares doc [] p v \<and> findChild v ''resources'' = Some res \<and> n_Kind res = MappingNode}"
proof (intro exI conjI)
  let ?ws = "stable_sort name_less (walk conv doc [])"
  show "ParseValues unmarshal conv (Inr raw) = Inr ?ws"
    using assms by (simp add: ParseValues_def)
  show "sorted_by name_less ?ws" by (rule by_name.sorted_stable_sort)
  show "finite (workload_positions doc)"
    "mset ?ws = image_mset (read_at conv doc []) (mset_set (workload_positions doc))"
    using mset_walk by simp_all
  show "set ?ws = {readWorkload conv p v res | p v res.
      declares doc [] p v \<and> findChild v ''resources'' = Some res \<and> n_Kind res = MappingNode}"
    by (auto simp: set_walk workloadAt_iff)
qed

text \<open>The values file \<open>web: {resources: {}}\<close>.\<close>

definition example_top :: node where
  "example_top = Node MappingNode []
     [Node ScalarNode ''web'' [],
      Node MappingNode [] [Node ScalarNode ''resources'' [], Node MappingNode [] []]]"

theorem parse_values_exact_witness:
  "\<exists>ws. ParseValues (\<lambda>_. Inr (Node DocumentNode [] [example_top])) amd64_conv (Inr ''web: {resources: {}}'') = Inr ws \<and>
    sorted_by name_less ws \<and>
    set ws = {readWorkload amd64_conv p v res | p v res. declares example_top [] p v \<and>
      findChild v ''resources'' = Some res \<and> n_Kind res = MappingNode}"
  using parse_values_exact[of "\<lambda>_. Inr (Node DocumentNode [] [example_top])" "''web: {resources: {}}''" "[]" example_top "[]" amd64_conv]
  by (auto simp: example_top_def)

text \<open>That file has one workload, without any request or limit.\<close>

lemma empty_resources_is_workload:
  "ParseValues (\<lambda>_. Inr (Node DocumentNode [] [example_top])) conv (Inr raw) =
   Inr [\<lparr>w_Name = ''web'', w_Kind = ''Deployment'', w_Requests = empty_resources, w_Limits = empty_resources,
         w_Image = empty_image, w_Replicas = 0, w_HasHPA = False, w_Security = empty_security\<rparr>]"
  by (simp add: ParseValues_def example_top_def walk.simps workloadAt_def readWorkload_def findChild_def joinPath_def
      readReplicas_def readHasHPA_def readSecurity_def scalarChild_def mountsHostPath_def upd_some_def applySecContext_def
      stable_sort_def)

text \<open>
  The error branches of the reader: a failing reader, a YAML error, an empty document and a top
  level that is not a mapping each give their own error, and nothing else fails.
\<close>

theorem parse_values_errors:
  "ParseValues unmarshal conv (Inl fault) = Inl (ReadError fault) \<and>
   (ParseValues unmarshal conv (Inr raw) = Inl err \<longleftrightarrow>
    (\<exists>e. unmarshal raw = Inl e \<and> err = YamlError e) \<or>
    (\<exists>doc. unmarshal raw = Inr doc \<and>
      (if n_Kind doc = DocumentNode \<and> n_Content doc \<noteq> []
       then n_Kind (hd (n_Content doc)) \<noteq> MappingNode \<and> err = TopLevelNotMap
       else err = EmptyDocument)))"
  by (auto simp: ParseValues_def split: sum.splits if_splits)

text \<open>
  An image reference written as one string is split at its last colon and printed back
  unchanged, registry ports included, unless it ends in a colon.
\<close>

lemma image_string_roundtrip:
  assumes "s \<noteq> []" "last s \<noteq> CHR '':''"
  shows "ImageRef_String (readImage (Node ScalarNode s cs)) = s"
  using assms by (rule readImage_String)

theorem image_string_roundtrip_witness:
  "ImageRef_String (readImage (Node ScalarNode ''localhost:5000/web:1.2'' [])) = ''localhost:5000/web:1.2''"
  by (rule image_string_roundtrip) simp_all

end
