(* ===== verification/Rules_Types.thy ===== *)
theory Rules_Types
  imports Helm
begin

text \<open>
  \<^verbatim>\<open>pkg/rules/types.go\<close>: findings, detectors and the engine that runs every detector on every
  workload. \<open>Severity\<close>, \<open>Confidence\<close> and \<open>Category\<close> are string types in the source and
  stay strings here, since the command line turns user input into a \<open>Severity\<close> unchecked.
\<close>

type_synonym Severity = string
type_synonym Confidence = string
type_synonym Category = string

definition SeverityHigh :: Severity where "SeverityHigh = ''HIGH''"
definition SeverityMed :: Severity where "SeverityMed = ''MED''"
definition SeverityLow :: Severity where "SeverityLow = ''LOW''"
definition SeverityInfo :: Severity where "SeverityInfo = ''INFO''"

definition ConfidenceHigh :: Confidence where "ConfidenceHigh = ''high''"
definition ConfidenceMed :: Confidence where "ConfidenceMed = ''medium''"
definition ConfidenceLow :: Confidence where "ConfidenceLow = ''low''"

definition CategoryCost :: Category where "CategoryCost = ''cost''"
definition CategorySecurity :: Category where "CategorySecurity = ''security''"

lemmas rule_consts = SeverityHigh_def SeverityMed_def SeverityLow_def SeverityInfo_def
  ConfidenceHigh_def ConfidenceMed_def ConfidenceLow_def CategoryCost_def CategorySecurity_def

record Signal =
  s_Label :: string
  s_Have :: f64
  s_Want :: f64
  s_HaveDisplay :: string
  s_WantDisplay :: string
  s_Note :: string

record Finding =
  f_DetectorID :: string
  f_Workload :: string
  f_Title :: string
  f_Detail :: string
  f_MonthlyUSDCents :: i64
  f_Severity :: Severity
  f_Confidence :: Confidence
  f_Category :: Category
  f_Signal :: "Signal option"

text \<open>
  A composite literal that names the identifying fields and leaves savings, category and
  signal at their zero values.
\<close>

definition finding ::
  "string \<Rightarrow> string \<Rightarrow> string \<Rightarrow> string \<Rightarrow> Severity \<Rightarrow> Confidence \<Rightarrow> Finding" where
  "finding det wl title detail sev conf =
     \<lparr>f_DetectorID = det, f_Workload = wl, f_Title = title, f_Detail = detail,
      f_MonthlyUSDCents = 0, f_Severity = sev, f_Confidence = conf, f_Category = [],
      f_Signal = None\<rparr>"

lemma finding_sel [simp]:
  "f_DetectorID (finding d w t e s c) = d" "f_Workload (finding d w t e s c) = w"
  "f_Title (finding d w t e s c) = t" "f_Detail (finding d w t e s c) = e"
  "f_MonthlyUSDCents (finding d w t e s c) = 0" "f_Severity (finding d w t e s c) = s"
  "f_Confidence (finding d w t e s c) = c" "f_Category (finding d w t e s c) = []"
  "f_Signal (finding d w t e s c) = None"
  by (simp_all add: finding_def)

text \<open>The interface \<open>Detector\<close>: the record of its four methods.\<close>

record Detector =
  d_ID :: string
  d_Name :: string
  d_Category :: Category
  d_Run :: "Workload \<Rightarrow> Finding list"

definition severityRank :: "Severity \<Rightarrow> int" where
  "severityRank s =
     (if s = SeverityHigh then 3 else if s = SeverityMed then 2 else if s = SeverityLow then 1 else 0)"

definition stampCategory :: "Category \<Rightarrow> Finding \<Rightarrow> Finding" where
  "stampCategory cat f = (if f_Category f = [] then f\<lparr>f_Category := cat\<rparr> else f)"

definition finding_less :: "Finding \<Rightarrow> Finding \<Rightarrow> bool" where
  "finding_less a b =
     (if f_Workload a \<noteq> f_Workload b then f_Workload a < f_Workload b
      else if severityRank (f_Severity a) \<noteq> severityRank (f_Severity b)
      then severityRank (f_Severity a) > severityRank (f_Severity b)
      else f_DetectorID a < f_DetectorID b)"

text \<open>What the three nested loops of \<open>Run\<close> append, before the sort.\<close>

definition runAll :: "Workload list \<Rightarrow> Detector list \<Rightarrow> Finding list" where
  "runAll workloads dets =
     concat (map (\<lambda>w. concat (map (\<lambda>d. map (stampCategory (d_Category d)) (d_Run d w)) dets))
       workloads)"

definition Run :: "Workload list \<Rightarrow> Detector list \<Rightarrow> Finding list" where
  "Run workloads dets = stable_sort finding_less (runAll workloads dets)"

interpretation finding_order: less_order finding_less
  by unfold_locales (auto simp: finding_less_def split: if_splits)

lemma stampCategory_sel [simp]:
  "f_DetectorID (stampCategory cat f) = f_DetectorID f" "f_Workload (stampCategory cat f) = f_Workload f"
  "f_Title (stampCategory cat f) = f_Title f" "f_Detail (stampCategory cat f) = f_Detail f"
  "f_MonthlyUSDCents (stampCategory cat f) = f_MonthlyUSDCents f"
  "f_Severity (stampCategory cat f) = f_Severity f"
  "f_Confidence (stampCategory cat f) = f_Confidence f" "f_Signal (stampCategory cat f) = f_Signal f"
  by (simp_all add: stampCategory_def)

lemma set_Run: "set (Run ws ds) = set (runAll ws ds)"
  by (simp add: Run_def)

lemma set_runAll:
  "f \<in> set (runAll ws ds) \<longleftrightarrow>
    (\<exists>w \<in> set ws. \<exists>d \<in> set ds. \<exists>g \<in> set (d_Run d w). f = stampCategory (d_Category d) g)"
  by (auto simp: runAll_def)

section \<open>The contract of a detector\<close>

text \<open>
  What every detector promises the engine: it reports at most once per workload, under its own
  identifier and the workload's name, with one of the three severities the gates rank, and leaves
  the category to the engine.
\<close>

definition sound_detector :: "Detector \<Rightarrow> bool" where
  "sound_detector d \<longleftrightarrow>
     d_Category d \<in> {CategoryCost, CategorySecurity} \<and>
     (\<forall>w. length (d_Run d w) \<le> 1 \<and>
        (\<forall>f \<in> set (d_Run d w).
           f_DetectorID f = d_ID d \<and> f_Workload f = w_Name w \<and> f_Category f = [] \<and>
           f_Severity f \<in> {SeverityHigh, SeverityMed, SeverityLow}))"

lemma sound_detectorD:
  assumes "sound_detector d" "f \<in> set (d_Run d w)"
  shows "f_DetectorID f = d_ID d" "f_Workload f = w_Name w" "f_Category f = []"
    "f_Severity f \<in> {SeverityHigh, SeverityMed, SeverityLow}" "d_Run d w = [f]"
proof -
  have "length (d_Run d w) \<le> 1" using assms(1) by (simp add: sound_detector_def)
  with assms(2) show "d_Run d w = [f]" by (cases "d_Run d w") auto
qed (use assms in \<open>auto simp: sound_detector_def\<close>)

locale detector_suite =
  fixes dets :: "Detector list"
  assumes sound: "d \<in> set dets \<Longrightarrow> sound_detector d"
    and distinct_ids: "distinct (map d_ID dets)"
begin

lemma same_id: "d \<in> set dets \<Longrightarrow> e \<in> set dets \<Longrightarrow> d_ID d = d_ID e \<Longrightarrow> d = e"
  using distinct_ids by (metis distinct_map inj_onD)

lemma runAll_origin:
  assumes "f \<in> set (runAll ws dets)"
  obtains w d g where "w \<in> set ws" "d \<in> set dets" "d_Run d w = [g]"
    "f = g\<lparr>f_Category := d_Category d\<rparr>" "f_DetectorID f = d_ID d" "f_Workload f = w_Name w"
    "f_Category f = d_Category d"
proof -
  from assms obtain w d g where *: "w \<in> set ws" "d \<in> set dets" "g \<in> set (d_Run d w)"
      "f = stampCategory (d_Category d) g" by (auto simp: set_runAll)
  note g = sound_detectorD[OF sound[OF *(2)] *(3)]
  have "f = g\<lparr>f_Category := d_Category d\<rparr>" using *(4) g(3) by (simp add: stampCategory_def)
  with * g that show thesis by auto
qed

lemma runAll_stamped:
  assumes "w \<in> set ws" "d \<in> set dets" "g \<in> set (d_Run d w)"
  shows "g\<lparr>f_Category := d_Category d\<rparr> \<in> set (runAll ws dets)"
proof -
  have "f_Category g = []" using sound_detectorD(3)[OF sound[OF assms(2)] assms(3)] .
  then have "g\<lparr>f_Category := d_Category d\<rparr> = stampCategory (d_Category d) g"
    by (simp add: stampCategory_def)
  with assms show ?thesis by (auto simp: set_runAll)
qed

text \<open>A finding is determined by its workload and its detector.\<close>

lemma finding_key:
  assumes "distinct (map w_Name ws)" "f \<in> set (runAll ws dets)" "g \<in> set (runAll ws dets)"
    "f_Workload f = f_Workload g" "f_DetectorID f = f_DetectorID g"
  shows "f = g"
proof -
  obtain w d f0 where f: "w \<in> set ws" "d \<in> set dets" "d_Run d w = [f0]"
      "f = f0\<lparr>f_Category := d_Category d\<rparr>" "f_DetectorID f = d_ID d" "f_Workload f = w_Name w"
    using assms(2) by (rule runAll_origin)
  obtain v e g0 where g: "v \<in> set ws" "e \<in> set dets" "d_Run e v = [g0]"
      "g = g0\<lparr>f_Category := d_Category e\<rparr>" "f_DetectorID g = d_ID e" "f_Workload g = w_Name v"
    using assms(3) by (rule runAll_origin)
  have "w = v" using assms(1,4) f g by (metis distinct_map inj_onD)
  moreover have "d = e" using assms(5) f g by (intro same_id) auto
  ultimately show ?thesis using f g by simp
qed

lemma findings_comparable:
  assumes "distinct (map w_Name ws)" "f \<in> set (runAll ws dets)" "g \<in> set (runAll ws dets)" "f \<noteq> g"
  shows "finding_less f g \<or> finding_less g f"
proof -
  have "f_Workload f \<noteq> f_Workload g \<or> f_DetectorID f \<noteq> f_DetectorID g"
    using finding_key[OF assms(1-3)] assms(4) by blast
  then show ?thesis by (auto simp: finding_less_def)
qed

text \<open>The report does not depend on the order in which workloads and detectors are visited.\<close>

lemma mset_runAll:
  "mset (runAll ws ds)
    = (\<Sum>w \<in># mset ws. \<Sum>d \<in># mset ds. mset (map (stampCategory (d_Category d)) (d_Run d w)))"
  unfolding runAll_def
  by (induction ws) (simp_all add: mset_concat image_mset.compositionality comp_def
      sum_mset_sum_list flip: mset_map sum_mset_sum_list)

lemma Run_order_independent:
  assumes "distinct (map w_Name ws)" "mset vs = mset ws" "mset ds = mset dets"
  shows "Run vs ds = Run ws dets"
proof -
  have "mset (runAll vs ds) = mset (runAll ws dets)"
    using assms(2,3) by (simp add: mset_runAll)
  then have "mset (Run vs ds) = mset (runAll ws dets)" by (simp add: Run_def)
  then show ?thesis
    unfolding Run_def[of ws]
    using finding_order.sorted_stable_sort findings_comparable[OF assms(1)]
    by (intro finding_order.stable_sort_unique[symmetric]) (auto simp: Run_def)
qed

lemma length_runAll: "length (runAll ws dets) \<le> length ws * length dets"
proof -
  have "length (concat (map (\<lambda>d. map (stampCategory (d_Category d)) (d_Run d w)) ds)) \<le> length ds"
    if "set ds \<subseteq> set dets" for w ds
    using that
  proof (induction ds)
    case (Cons d ds)
    then have "length (d_Run d w) \<le> 1" using sound[of d] by (simp add: sound_detector_def)
    with Cons show ?case by simp
  qed simp
  then have one: "length (concat (map (\<lambda>d. map (stampCategory (d_Category d)) (d_Run d w)) dets))
      \<le> length dets" for w by simp
  show ?thesis
  proof (induction ws)
    case (Cons w ws)
    then show ?case using one[of w] by (simp add: runAll_def)
  qed (simp add: runAll_def)
qed

text \<open>A workload and a detector identify at most one finding of a report.\<close>

lemma runAll_Cons:
  "runAll (w # ws) ds = runAll [w] ds @ runAll ws ds"
  by (simp add: runAll_def)

lemma distinct_ids_one:
  assumes "set ds \<subseteq> set dets" "distinct (map d_ID ds)"
  shows "distinct (map f_DetectorID (runAll [w] ds))"
  using assms
proof (induction ds)
  case (Cons d ds)
  have "sound_detector d" using Cons.prems(1) sound by simp
  then have "length (d_Run d w) \<le> 1" "set (map f_DetectorID (d_Run d w)) \<subseteq> {d_ID d}"
    by (auto simp: sound_detector_def)
  moreover have "set (map f_DetectorID (runAll [w] ds)) \<subseteq> d_ID ` set ds"
    using Cons.prems(1) sound by (fastforce simp: set_runAll dest: sound_detectorD(1))
  moreover have "runAll [w] (d # ds) = map (stampCategory (d_Category d)) (d_Run d w) @ runAll [w] ds"
    by (simp add: runAll_def)
  ultimately show ?case
    using Cons by (cases "d_Run d w") (auto simp: comp_def)
qed (simp add: runAll_def)

lemma distinct_keys_runAll:
  assumes "distinct (map w_Name ws)"
  shows "distinct (map (\<lambda>f. (f_Workload f, f_DetectorID f)) (runAll ws dets))"
  using assms
proof (induction ws)
  case (Cons w ws)
  have wl: "f_Workload f \<in> w_Name ` set vs" if "f \<in> set (runAll vs dets)" for f vs
    using that by (auto elim!: runAll_origin)
  have "distinct (map f_DetectorID (runAll [w] dets))"
    by (rule distinct_ids_one) (simp_all add: distinct_ids)
  then have "distinct (map (\<lambda>f. (f_Workload f, f_DetectorID f)) (runAll [w] dets))"
    by (auto simp: distinct_map inj_on_def)
  then show ?case
    using Cons wl[of _ "[w]"] wl[of _ ws] by (subst runAll_Cons) fastforce
qed (simp add: runAll_def)

lemma distinct_keys_Run:
  assumes "distinct (map w_Name ws)"
  shows "distinct (map (\<lambda>f. (f_Workload f, f_DetectorID f)) (Run ws dets))"
  unfolding Run_def distinct_map_stable_sort using assms by (rule distinct_keys_runAll)

text \<open>A category is absent from a report when its detectors are silent on every workload.\<close>

lemma category_silent_iff:
  "filter (\<lambda>f. f_Category f = c) (Run ws dets) = [] \<longleftrightarrow>
    (\<forall>w \<in> set ws. \<forall>d \<in> set dets. d_Category d = c \<longrightarrow> d_Run d w = [])"
proof
  assume none: "filter (\<lambda>f. f_Category f = c) (Run ws dets) = []"
  show "\<forall>w \<in> set ws. \<forall>d \<in> set dets. d_Category d = c \<longrightarrow> d_Run d w = []"
  proof (intro ballI impI, rule ccontr)
    fix w d
    assume d: "w \<in> set ws" "d \<in> set dets" "d_Category d = c" "d_Run d w \<noteq> []"
    then have "(hd (d_Run d w))\<lparr>f_Category := c\<rparr> \<in> set (runAll ws dets)"
      using runAll_stamped[of w ws d "hd (d_Run d w)"] by simp
    with none show False by (simp add: filter_empty_conv set_Run) force
  qed
next
  assume silent: "\<forall>w \<in> set ws. \<forall>d \<in> set dets. d_Category d = c \<longrightarrow> d_Run d w = []"
  have "f_Category f \<noteq> c" if "f \<in> set (runAll ws dets)" for f
    using that silent by (auto elim!: runAll_origin)
  then show "filter (\<lambda>f. f_Category f = c) (Run ws dets) = []"
    by (simp add: filter_empty_conv set_Run)
qed

end

end
