(* ===== verification/Rules_Cost.thy ===== *)
theory Rules_Cost
  imports Rules_Types
begin

text \<open>
  The sixteen cost detectors of \<^verbatim>\<open>pkg/rules\<close>, one group per source file: the report text, the
  method \<open>Run\<close> with its early returns, and the detector with its identifier, name and
  category. The lemmas at the end state when the quantitative ones fire, in integers.
\<close>

section \<open>Overprovisioned requests\<close>

definition cpuOverprovRatio :: f64 where "cpuOverprovRatio = Fin (1 / 2)"
definition cpuOverprovMonthlyHours :: i64 where "cpuOverprovMonthlyHours = 730"
definition cpuPricePerCoreHourCents :: i64 where "cpuPricePerCoreHourCents = 4"

definition overprovisioned_detail :: "string \<Rightarrow> string \<Rightarrow> string" where
  "overprovisioned_detail req limit =
     ''Request '' @ req @ '' vs limit '' @ limit @ '' '' @ em_dash @
     '' typical utilization rarely justifies this ratio. Consider halving the request.''"

definition cpuSavings :: "i64 \<Rightarrow> i64" where
  "cpuSavings reqValue =
     (let excessMillicores = reqValue sdiv 2
      in wrap64 (wrap64 (excessMillicores * cpuOverprovMonthlyHours) * cpuPricePerCoreHourCents)
           sdiv 1000)"

definition ratioSignal :: "string \<Rightarrow> quantity \<Rightarrow> quantity \<Rightarrow> string \<Rightarrow> Signal" where
  "ratioSignal label req limit note =
     \<lparr>s_Label = label, s_Have = f64_of_int (q_Value req), s_Want = f64_of_int (q_Value limit),
      s_HaveDisplay = Quantity_String req, s_WantDisplay = Quantity_String limit, s_Note = note\<rparr>"

definition ofLimitNote :: "quantity \<Rightarrow> quantity \<Rightarrow> string" where
  "ofLimitNote req limit =
     f64_show 0 (f64_div (f64_mul (f64_of_int (q_Value req)) (Fin 100)) (f64_of_int (q_Value limit)))
       @ ''% of limit''"

definition cpuOverprovisioned_Run :: "Workload \<Rightarrow> Finding list" where
  "cpuOverprovisioned_Run w =
     (let req = rl_CPU (w_Requests w); lim = rl_CPU (w_Limits w)
      in if \<not> q_Set req \<or> \<not> q_Set lim then []
         else if q_Value lim = 0 then []
         else if f64_le (f64_div (f64_of_int (q_Value req)) (f64_of_int (q_Value lim))) cpuOverprovRatio
         then []
         else [(finding ''cpu-overprovisioned'' (w_Name w) ''CPU request appears overprovisioned''
                  (overprovisioned_detail (Quantity_String req) (Quantity_String lim))
                  SeverityMed ConfidenceMed)
                 \<lparr>f_MonthlyUSDCents := cpuSavings (q_Value req),
                  f_Signal := Some (ratioSignal ''CPU'' req lim (ofLimitNote req lim))\<rparr>])"

definition cpuOverprovisioned :: Detector where
  "cpuOverprovisioned =
     \<lparr>d_ID = ''cpu-overprovisioned'', d_Name = ''CPU request overprovisioned'',
      d_Category = CategoryCost, d_Run = cpuOverprovisioned_Run\<rparr>"

definition memOverprovRatio :: f64 where "memOverprovRatio = Fin (1 / 2)"
definition memPricePerGiBMonthCents :: i64 where "memPricePerGiBMonthCents = 350"

text \<open>
  The value converted back to \<open>int64\<close> is far inside its range for every request
  (\<open>memorySavings_any_conv\<close> below), so the conversion's platform-dependent part is never used.
\<close>

definition memorySavings :: "i64 \<Rightarrow> i64" where
  "memorySavings reqValue =
     (let excessBytes = reqValue sdiv 2;
          excessGiB = f64_div (f64_of_int excessBytes) (Fin (1024 * 1024 * 1024))
      in f64_to_i64 amd64_conv (f64_mul excessGiB (f64_of_int memPricePerGiBMonthCents)))"

definition memoryOverprovisioned_Run :: "Workload \<Rightarrow> Finding list" where
  "memoryOverprovisioned_Run w =
     (let req = rl_Memory (w_Requests w); lim = rl_Memory (w_Limits w)
      in if \<not> q_Set req \<or> \<not> q_Set lim \<or> q_Value lim = 0 then []
         else if f64_le (f64_div (f64_of_int (q_Value req)) (f64_of_int (q_Value lim))) memOverprovRatio
         then []
         else [(finding ''memory-overprovisioned'' (w_Name w) ''Memory request appears overprovisioned''
                  (overprovisioned_detail (Quantity_String req) (Quantity_String lim))
                  SeverityMed ConfidenceMed)
                 \<lparr>f_MonthlyUSDCents := memorySavings (q_Value req),
                  f_Signal := Some (ratioSignal ''memory'' req lim (ofLimitNote req lim))\<rparr>])"

definition memoryOverprovisioned :: Detector where
  "memoryOverprovisioned =
     \<lparr>d_ID = ''memory-overprovisioned'', d_Name = ''Memory request overprovisioned'',
      d_Category = CategoryCost, d_Run = memoryOverprovisioned_Run\<rparr>"

section \<open>Limits far above requests\<close>

definition limitBurstRatio :: f64 where "limitBurstRatio = Fin 4"

definition cpuLimitFarAboveRequest_detail :: "string \<Rightarrow> string \<Rightarrow> f64 \<Rightarrow> string" where
  "cpuLimitFarAboveRequest_detail req limit ratio =
     ''Request '' @ req @ '' vs limit '' @ limit @ '' '' @ em_dash @ '' a '' @ f64_show 1 ratio @
     ''x burst window. The scheduler reserves only the request, so the pod can suddenly consume far more than its node-allocation suggests. Tighten the limit or raise the request to match observed P95.''"

definition cpuLimitFarAboveRequest_Run :: "Workload \<Rightarrow> Finding list" where
  "cpuLimitFarAboveRequest_Run w =
     (let req = rl_CPU (w_Requests w); lim = rl_CPU (w_Limits w)
      in if \<not> q_Set req \<or> \<not> q_Set lim \<or> q_Value req = 0 then []
         else let ratio = f64_div (f64_of_int (q_Value lim)) (f64_of_int (q_Value req))
              in if f64_le ratio limitBurstRatio then []
                 else [(finding ''cpu-limit-far-above-request'' (w_Name w)
                          ''CPU limit is many multiples of the request''
                          (cpuLimitFarAboveRequest_detail (Quantity_String req) (Quantity_String lim) ratio)
                          SeverityMed ConfidenceMed)
                         \<lparr>f_Signal := Some (ratioSignal ''CPU'' req lim
                                        (f64_show 1 ratio @ ''x burst''))\<rparr>])"

definition cpuLimitFarAboveRequest :: Detector where
  "cpuLimitFarAboveRequest =
     \<lparr>d_ID = ''cpu-limit-far-above-request'', d_Name = ''CPU limit far above request'',
      d_Category = CategoryCost, d_Run = cpuLimitFarAboveRequest_Run\<rparr>"

definition memoryLimitFarAboveRequest_detail :: "string \<Rightarrow> string \<Rightarrow> f64 \<Rightarrow> string" where
  "memoryLimitFarAboveRequest_detail req limit ratio =
     ''Request '' @ req @ '' vs limit '' @ limit @ '' '' @ em_dash @ '' a '' @ f64_show 1 ratio @
     ''x burst window. Memory limits aren't elastic the way CPU is: a pod that climbs to its limit will OOM, taking neighbours down via node memory pressure. Tighten the limit toward observed P95.''"

definition memoryLimitFarAboveRequest_Run :: "Workload \<Rightarrow> Finding list" where
  "memoryLimitFarAboveRequest_Run w =
     (let req = rl_Memory (w_Requests w); lim = rl_Memory (w_Limits w)
      in if \<not> q_Set req \<or> \<not> q_Set lim \<or> q_Value req = 0 then []
         else let ratio = f64_div (f64_of_int (q_Value lim)) (f64_of_int (q_Value req))
              in if f64_le ratio limitBurstRatio then []
                 else [(finding ''memory-limit-far-above-request'' (w_Name w)
                          ''Memory limit is many multiples of the request''
                          (memoryLimitFarAboveRequest_detail (Quantity_String req) (Quantity_String lim) ratio)
                          SeverityMed ConfidenceMed)
                         \<lparr>f_Signal := Some (ratioSignal ''memory'' req lim
                                        (f64_show 1 ratio @ ''x burst''))\<rparr>])"

definition memoryLimitFarAboveRequest :: Detector where
  "memoryLimitFarAboveRequest =
     \<lparr>d_ID = ''memory-limit-far-above-request'', d_Name = ''Memory limit far above request'',
      d_Category = CategoryCost, d_Run = memoryLimitFarAboveRequest_Run\<rparr>"

section \<open>Oversized limits\<close>

definition oversizedCPULimitMillicores :: i64 where "oversizedCPULimitMillicores = 4000"
definition oversizedMemoryLimitBytes :: i64 where "oversizedMemoryLimitBytes = 16 * 1024 * 1024 * 1024"

definition oversizedCPULimit_detail :: "string \<Rightarrow> string" where
  "oversizedCPULimit_detail limit =
     ''CPU limit is '' @ limit @
     ''. Above 4 vCPU, the pod can only land on large nodes; smaller / Spot instance types are excluded from bin-packing. Either split the workload or confirm the high limit is justified by P99.''"

definition oversizedCPULimit_Run :: "Workload \<Rightarrow> Finding list" where
  "oversizedCPULimit_Run w =
     (if \<not> q_Set (rl_CPU (w_Limits w)) \<or> q_Value (rl_CPU (w_Limits w)) < oversizedCPULimitMillicores then []
      else [finding ''oversized-cpu-limit'' (w_Name w) ''CPU limit forces large-node scheduling''
              (oversizedCPULimit_detail (Quantity_String (rl_CPU (w_Limits w)))) SeverityMed ConfidenceMed])"

definition oversizedCPULimit :: Detector where
  "oversizedCPULimit =
     \<lparr>d_ID = ''oversized-cpu-limit'', d_Name = ''Oversized CPU limit'',
      d_Category = CategoryCost, d_Run = oversizedCPULimit_Run\<rparr>"

definition oversizedMemoryLimit_detail :: "string \<Rightarrow> string" where
  "oversizedMemoryLimit_detail limit =
     ''Memory limit is '' @ limit @
     ''. Above 16 GiB, the pod can only land on memory-class nodes; balanced / Spot bin-packing is excluded. Confirm the workload genuinely uses this much, or split the workload.''"

definition oversizedMemoryLimit_Run :: "Workload \<Rightarrow> Finding list" where
  "oversizedMemoryLimit_Run w =
     (if \<not> q_Set (rl_Memory (w_Limits w)) \<or> q_Value (rl_Memory (w_Limits w)) < oversizedMemoryLimitBytes then []
      else [finding ''oversized-memory-limit'' (w_Name w) ''Memory limit forces large-node scheduling''
              (oversizedMemoryLimit_detail (Quantity_String (rl_Memory (w_Limits w)))) SeverityMed ConfidenceMed])"

definition oversizedMemoryLimit :: Detector where
  "oversizedMemoryLimit =
     \<lparr>d_ID = ''oversized-memory-limit'', d_Name = ''Oversized memory limit'',
      d_Category = CategoryCost, d_Run = oversizedMemoryLimit_Run\<rparr>"

section \<open>Replicas\<close>

definition replicasThreshold :: i64 where "replicasThreshold = 5"

definition replicasTooHigh_detail :: "i64 \<Rightarrow> string" where
  "replicasTooHigh_detail n =
     ''Replicas set to '' @ show_int n @
     '' without an HPA. Static high replica counts pay for unused capacity 24/7. Either enable autoscaling.enabled=true or right-size the static count to your observed P95.''"

definition replicasTooHigh_Run :: "Workload \<Rightarrow> Finding list" where
  "replicasTooHigh_Run w =
     (if w_Replicas w \<le> replicasThreshold then []
      else if w_HasHPA w then []
      else let suggested = replicasThreshold
           in [(finding ''replicas-too-high'' (w_Name w)
                  ''High static replica count without an autoscaler''
                  (replicasTooHigh_detail (w_Replicas w)) SeverityMed ConfidenceMed)
                 \<lparr>f_Signal := Some
                    \<lparr>s_Label = ''replicas'', s_Have = f64_of_int suggested,
                     s_Want = f64_of_int (w_Replicas w), s_HaveDisplay = show_int suggested,
                     s_WantDisplay = show_int (w_Replicas w),
                     s_Note = show_int (w_Replicas w sdiv suggested) @ ''x target''\<rparr>\<rparr>])"

definition replicasTooHigh :: Detector where
  "replicasTooHigh =
     \<lparr>d_ID = ''replicas-too-high'', d_Name = ''Replicas without HPA'',
      d_Category = CategoryCost, d_Run = replicasTooHigh_Run\<rparr>"

definition excessiveReplicaThreshold :: i64 where "excessiveReplicaThreshold = 20"

definition excessiveReplicaCount_detail :: "i64 \<Rightarrow> string" where
  "excessiveReplicaCount_detail n =
     ''Replicas set to '' @ show_int n @
     ''. Past ~20 replicas the cost grows linearly while the marginal availability gain approaches zero '' @
     em_dash @
     '' most cloud zones can't fit that many across enough fault domains. Cap the HPA's maxReplicas or split the workload across multiple deployments.''"

definition excessiveReplicaCount_Run :: "Workload \<Rightarrow> Finding list" where
  "excessiveReplicaCount_Run w =
     (if w_Replicas w \<le> excessiveReplicaThreshold then []
      else [finding ''excessive-replica-count'' (w_Name w) ''Replica count past the HA inflection point''
              (excessiveReplicaCount_detail (w_Replicas w)) SeverityMed ConfidenceMed])"

definition excessiveReplicaCount :: Detector where
  "excessiveReplicaCount =
     \<lparr>d_ID = ''excessive-replica-count'', d_Name = ''Excessive replica count'',
      d_Category = CategoryCost, d_Run = excessiveReplicaCount_Run\<rparr>"

section \<open>Floating image tags\<close>

definition floatingTags :: "string list" where
  "floatingTags =
     [''main'', ''master'', ''stable'', ''production'', ''prod'', ''staging'', ''dev'', ''edge'', ''current'', ''head'', ''trunk'']"

definition unboundedImageTag_detail :: "string \<Rightarrow> string" where
  "unboundedImageTag_detail tag =
     ''Image tag '' @ [CHR 0x27] @ tag @ [CHR 0x27] @
     '' is a floating reference: upstream re-points it whenever they publish. The same Helm release can therefore land different bytes on consecutive deploys, and rollbacks become ambiguous. Pin to an immutable digest or version tag.''"

definition unboundedImageTag_Run :: "Workload \<Rightarrow> Finding list" where
  "unboundedImageTag_Run w =
     (if \<not> i_Set (w_Image w) then []
      else if i_Tag (w_Image w) \<notin> set floatingTags then []
      else [finding ''unbounded-image-tag'' (w_Name w)
              ''Floating image tag prevents reproducible deploys''
              (unboundedImageTag_detail (i_Tag (w_Image w))) SeverityMed ConfidenceHigh])"

definition unboundedImageTag :: Detector where
  "unboundedImageTag =
     \<lparr>d_ID = ''unbounded-image-tag'', d_Name = ''Floating image tag'',
      d_Category = CategoryCost, d_Run = unboundedImageTag_Run\<rparr>"

section \<open>Half-declared requests\<close>

definition cpuWithoutMemoryRequest_detail :: "string" where
  "cpuWithoutMemoryRequest_detail =
     ''requests.cpu is set but requests.memory is not. The scheduler can't reserve memory accurately, so the pod is BestEffort for memory '' @
     em_dash @ '' first to evict under pressure. Add a memory request matching observed P95.''"

definition cpuWithoutMemoryRequest_Run :: "Workload \<Rightarrow> Finding list" where
  "cpuWithoutMemoryRequest_Run w =
     (if \<not> q_Set (rl_CPU (w_Requests w)) \<or> q_Set (rl_Memory (w_Requests w)) then []
      else [finding ''cpu-without-memory-request'' (w_Name w) ''CPU request set without memory request''
              cpuWithoutMemoryRequest_detail SeverityLow ConfidenceHigh])"

definition cpuWithoutMemoryRequest :: Detector where
  "cpuWithoutMemoryRequest =
     \<lparr>d_ID = ''cpu-without-memory-request'', d_Name = ''CPU request set without memory'',
      d_Category = CategoryCost, d_Run = cpuWithoutMemoryRequest_Run\<rparr>"

definition memoryWithoutCPURequest_detail :: "string" where
  "memoryWithoutCPURequest_detail =
     ''requests.memory is set but requests.cpu is not. The scheduler can't reserve CPU, so bin-packing assumes zero '' @
     em_dash @
     '' pods can stack onto a single node and starve each other. Add a CPU request matching observed P95.''"

definition memoryWithoutCPURequest_Run :: "Workload \<Rightarrow> Finding list" where
  "memoryWithoutCPURequest_Run w =
     (if \<not> q_Set (rl_Memory (w_Requests w)) \<or> q_Set (rl_CPU (w_Requests w)) then []
      else [finding ''memory-without-cpu-request'' (w_Name w) ''Memory request set without CPU request''
              memoryWithoutCPURequest_detail SeverityLow ConfidenceHigh])"

definition memoryWithoutCPURequest :: Detector where
  "memoryWithoutCPURequest =
     \<lparr>d_ID = ''memory-without-cpu-request'', d_Name = ''Memory request set without CPU'',
      d_Category = CategoryCost, d_Run = memoryWithoutCPURequest_Run\<rparr>"

section \<open>Guaranteed quality of service\<close>

definition cpuRequestEqualsLimit_detail :: "string \<Rightarrow> string" where
  "cpuRequestEqualsLimit_detail req =
     ''Request and limit both set to '' @ req @ '', putting the pod in Guaranteed QoS '' @ em_dash @
     '' top eviction priority but zero burst headroom. Confirm this is intentional for an SLO-bound workload; otherwise lower the request to allow the scheduler to bin-pack more densely.''"

definition cpuRequestEqualsLimit_Run :: "Workload \<Rightarrow> Finding list" where
  "cpuRequestEqualsLimit_Run w =
     (let req = rl_CPU (w_Requests w); lim = rl_CPU (w_Limits w)
      in if \<not> q_Set req \<or> \<not> q_Set lim then []
         else if q_Value req \<noteq> q_Value lim then []
         else [(finding ''cpu-request-equals-limit'' (w_Name w)
                  ''CPU request equals limit (Guaranteed QoS)'' (cpuRequestEqualsLimit_detail (Quantity_String req))
                  SeverityLow ConfidenceMed)
                 \<lparr>f_Signal := Some (ratioSignal ''CPU'' req lim ''Guaranteed QoS'')\<rparr>])"

definition cpuRequestEqualsLimit :: Detector where
  "cpuRequestEqualsLimit =
     \<lparr>d_ID = ''cpu-request-equals-limit'', d_Name = ''CPU request equals limit (Guaranteed QoS)'',
      d_Category = CategoryCost, d_Run = cpuRequestEqualsLimit_Run\<rparr>"

definition memoryRequestEqualsLimit_detail :: "string \<Rightarrow> string" where
  "memoryRequestEqualsLimit_detail req =
     ''Memory request and limit both set to '' @ req @
     ''. Memory is non-burstable anyway, so this only affects QoS class; for SLO-bound workloads it's correct, otherwise lower the request to ~P95 to free node capacity for other pods.''"

definition memoryRequestEqualsLimit_Run :: "Workload \<Rightarrow> Finding list" where
  "memoryRequestEqualsLimit_Run w =
     (let req = rl_Memory (w_Requests w); lim = rl_Memory (w_Limits w)
      in if \<not> q_Set req \<or> \<not> q_Set lim then []
         else if q_Value req \<noteq> q_Value lim then []
         else [(finding ''memory-request-equals-limit'' (w_Name w)
                  ''Memory request equals limit (Guaranteed QoS)'' (memoryRequestEqualsLimit_detail (Quantity_String req))
                  SeverityLow ConfidenceMed)
                 \<lparr>f_Signal := Some (ratioSignal ''memory'' req lim ''Guaranteed QoS'')\<rparr>])"

definition memoryRequestEqualsLimit :: Detector where
  "memoryRequestEqualsLimit =
     \<lparr>d_ID = ''memory-request-equals-limit'', d_Name = ''Memory request equals limit (Guaranteed QoS)'',
      d_Category = CategoryCost, d_Run = memoryRequestEqualsLimit_Run\<rparr>"

section \<open>Placeholder requests\<close>

definition tinyCPUMillicores :: i64 where "tinyCPUMillicores = 10"
definition tinyMemoryBytes :: i64 where "tinyMemoryBytes = 32 * 1024 * 1024"

definition tinyCPURequest_detail :: "string \<Rightarrow> string" where
  "tinyCPURequest_detail req =
     ''requests.cpu is '' @ req @ '' '' @ em_dash @
     '' below the 10m threshold most charts use as a sentinel. Probably a placeholder from a Helm scaffold. Set it to your observed P95 (or remove the limit-without-request asymmetry the scheduler is currently dealing with).''"

definition tinyCPURequest_Run :: "Workload \<Rightarrow> Finding list" where
  "tinyCPURequest_Run w =
     (if \<not> q_Set (rl_CPU (w_Requests w)) then []
      else if q_Value (rl_CPU (w_Requests w)) = 0 \<or> tinyCPUMillicores \<le> q_Value (rl_CPU (w_Requests w)) then []
      else [finding ''tiny-cpu-request'' (w_Name w) ''CPU request below the placeholder threshold''
              (tinyCPURequest_detail (Quantity_String (rl_CPU (w_Requests w)))) SeverityLow ConfidenceHigh])"

definition tinyCPURequest :: Detector where
  "tinyCPURequest =
     \<lparr>d_ID = ''tiny-cpu-request'', d_Name = ''Suspiciously small CPU request'',
      d_Category = CategoryCost, d_Run = tinyCPURequest_Run\<rparr>"

definition tinyMemoryRequest_detail :: "string \<Rightarrow> string" where
  "tinyMemoryRequest_detail req =
     ''requests.memory is '' @ req @ '' '' @ em_dash @
     '' below 32 MiB. A workload that genuinely needs less memory is a rarity; most charts setting tiny memory requests are using a placeholder. Set it to your observed P95.''"

definition tinyMemoryRequest_Run :: "Workload \<Rightarrow> Finding list" where
  "tinyMemoryRequest_Run w =
     (if \<not> q_Set (rl_Memory (w_Requests w)) then []
      else if q_Value (rl_Memory (w_Requests w)) = 0 \<or> tinyMemoryBytes \<le> q_Value (rl_Memory (w_Requests w)) then []
      else [finding ''tiny-memory-request'' (w_Name w) ''Memory request below the placeholder threshold''
              (tinyMemoryRequest_detail (Quantity_String (rl_Memory (w_Requests w)))) SeverityLow ConfidenceHigh])"

definition tinyMemoryRequest :: Detector where
  "tinyMemoryRequest =
     \<lparr>d_ID = ''tiny-memory-request'', d_Name = ''Suspiciously small memory request'',
      d_Category = CategoryCost, d_Run = tinyMemoryRequest_Run\<rparr>"

section \<open>Idle workloads\<close>

definition idleWorkloadAssumedReplicas :: i64 where "idleWorkloadAssumedReplicas = 2"
definition idleWorkloadAssumedCPURequestMilli :: i64 where "idleWorkloadAssumedCPURequestMilli = 250"

definition workloadDisplay :: "Workload \<Rightarrow> string" where
  "workloadDisplay w = (if w_Name w = [] then ''this workload'' else w_Name w)"

definition idleWorkload_detail :: "string \<Rightarrow> string" where
  "idleWorkload_detail name =
     name @
     '' ships with replicas=0 and no HPA. In a live cluster this is the chart pattern that correlates with abandoned workloads '' @
     em_dash @
     '' declared but never scheduled. If this is intentional (e.g. feature-flagged deployment), dismiss. Otherwise the chart can be slimmer: remove the workload entirely, or document the activation path.''"

definition idleWorkload_Run :: "Workload \<Rightarrow> Finding list" where
  "idleWorkload_Run w =
     (if w_Replicas w \<noteq> 0 then []
      else if w_HasHPA w then []
      else [(finding ''idle-workload'' (w_Name w) ''Workload declared with replicas=0 and no autoscaler''
               (idleWorkload_detail (workloadDisplay w)) SeverityLow ConfidenceLow)
              \<lparr>f_MonthlyUSDCents :=
                 wrap64 (wrap64 (wrap64 (idleWorkloadAssumedReplicas * idleWorkloadAssumedCPURequestMilli)
                   * cpuOverprovMonthlyHours) * cpuPricePerCoreHourCents) sdiv 1000\<rparr>])"

definition idleWorkload :: Detector where
  "idleWorkload =
     \<lparr>d_ID = ''idle-workload'', d_Name = ''Workload appears idle'',
      d_Category = CategoryCost, d_Run = idleWorkload_Run\<rparr>"

section \<open>When the ratio detectors fire\<close>

text \<open>
  Quantities in the range in which \<open>float64\<close> is exact: all the values a cluster can hold
  (\<open>2 ^ 53\<close> bytes are eight pebibytes).
\<close>

definition exact_quantity :: "quantity \<Rightarrow> bool" where
  "exact_quantity q \<longleftrightarrow> 0 \<le> q_Value q \<and> q_Value q < 2 ^ 53"

abbreviation cpu_req :: "Workload \<Rightarrow> quantity" where "cpu_req w \<equiv> rl_CPU (w_Requests w)"
abbreviation cpu_lim :: "Workload \<Rightarrow> quantity" where "cpu_lim w \<equiv> rl_CPU (w_Limits w)"
abbreviation mem_req :: "Workload \<Rightarrow> quantity" where "mem_req w \<equiv> rl_Memory (w_Requests w)"
abbreviation mem_lim :: "Workload \<Rightarrow> quantity" where "mem_lim w \<equiv> rl_Memory (w_Limits w)"

definition exact_workload :: "Workload \<Rightarrow> bool" where
  "exact_workload w \<longleftrightarrow>
     exact_quantity (cpu_req w) \<and> exact_quantity (cpu_lim w) \<and>
     exact_quantity (mem_req w) \<and> exact_quantity (mem_lim w)"

lemma over_half:
  assumes "exact_quantity req" "exact_quantity lmt" "q_Value lmt \<noteq> 0"
  shows "f64_le (f64_div (f64_of_int (q_Value req)) (f64_of_int (q_Value lmt))) (Fin (1 / 2))
    \<longleftrightarrow> 2 * q_Value req \<le> q_Value lmt"
  using assms unfolding exact_quantity_def by (intro f64_quot_le_half) auto

lemma over_four:
  assumes "exact_quantity req" "exact_quantity lmt" "q_Value req \<noteq> 0"
  shows "f64_le (f64_div (f64_of_int (q_Value lmt)) (f64_of_int (q_Value req))) (Fin 4)
    \<longleftrightarrow> q_Value lmt \<le> 4 * q_Value req"
  using assms unfolding exact_quantity_def by (intro f64_quot_le_four) auto

lemma cpuOverprovisioned_fires:
  assumes "exact_quantity (cpu_req w)" "exact_quantity (cpu_lim w)"
  shows "cpuOverprovisioned_Run w \<noteq> [] \<longleftrightarrow>
    q_Set (cpu_req w) \<and> q_Set (cpu_lim w) \<and> q_Value (cpu_lim w) \<noteq> 0 \<and>
    q_Value (cpu_lim w) < 2 * q_Value (cpu_req w)"
  using over_half[OF assms]
  by (auto simp: cpuOverprovisioned_Run_def cpuOverprovRatio_def Let_def not_le
      simp del: f64_of_int_exact)

lemma memoryOverprovisioned_fires:
  assumes "exact_quantity (mem_req w)" "exact_quantity (mem_lim w)"
  shows "memoryOverprovisioned_Run w \<noteq> [] \<longleftrightarrow>
    q_Set (mem_req w) \<and> q_Set (mem_lim w) \<and> q_Value (mem_lim w) \<noteq> 0 \<and>
    q_Value (mem_lim w) < 2 * q_Value (mem_req w)"
  using over_half[OF assms]
  by (auto simp: memoryOverprovisioned_Run_def memOverprovRatio_def Let_def not_le
      simp del: f64_of_int_exact)

lemma cpuLimitFarAboveRequest_fires:
  assumes "exact_quantity (cpu_req w)" "exact_quantity (cpu_lim w)"
  shows "cpuLimitFarAboveRequest_Run w \<noteq> [] \<longleftrightarrow>
    q_Set (cpu_req w) \<and> q_Set (cpu_lim w) \<and> q_Value (cpu_req w) \<noteq> 0 \<and>
    4 * q_Value (cpu_req w) < q_Value (cpu_lim w)"
  using over_four[OF assms]
  by (auto simp: cpuLimitFarAboveRequest_Run_def limitBurstRatio_def Let_def not_le
      simp del: f64_of_int_exact)

lemma memoryLimitFarAboveRequest_fires:
  assumes "exact_quantity (mem_req w)" "exact_quantity (mem_lim w)"
  shows "memoryLimitFarAboveRequest_Run w \<noteq> [] \<longleftrightarrow>
    q_Set (mem_req w) \<and> q_Set (mem_lim w) \<and> q_Value (mem_req w) \<noteq> 0 \<and>
    4 * q_Value (mem_req w) < q_Value (mem_lim w)"
  using over_four[OF assms]
  by (auto simp: memoryLimitFarAboveRequest_Run_def limitBurstRatio_def Let_def not_le
      simp del: f64_of_int_exact)

section \<open>Savings\<close>

lemma cpuSavings_exact:
  assumes "0 \<le> v" "v < 2 ^ 52"
  shows "cpuSavings v = (v div 2) * 2920 div 1000"
proof -
  have "0 \<le> v div 2" "v div 2 < 2 ^ 51" using assms by auto
  then have "in_i64 (v div 2 * 730)" "in_i64 (v div 2 * 730 * 4)" by (auto simp: in_i64_def)
  with assms show ?thesis
    by (simp add: cpuSavings_def cpuOverprovMonthlyHours_def cpuPricePerCoreHourCents_def)
qed

text \<open>
  The savings estimate for memory is a number below \<open>2 ^ 42\<close> for every request an
  \<open>int64\<close> can hold, so converting it back never leaves the range.
\<close>

lemma memory_estimate_bounded:
  assumes "in_i64 v"
  obtains r where "f64_mul (f64_div (f64_of_int (v sdiv 2)) (Fin (1024 * 1024 * 1024)))
      (f64_of_int memPricePerGiBMonthCents) = Fin r" "\<bar>r\<bar> \<le> 2 powi 42"
proof -
  have "\<bar>v sdiv 2\<bar> \<le> 2 ^ 62"
    using assms by (auto simp: in_i64_def signed_divide_int_def abs_mult sgn_if)
  then have "\<bar>of_int (v sdiv 2) :: rat\<bar> \<le> of_int (2 ^ 62)" by (simp only: flip: of_int_abs)
  then have "\<bar>of_int (v sdiv 2) :: rat\<bar> \<le> 2 powi 62" by simp
  then obtain a where a: "f64_of_int (v sdiv 2) = Fin a" "\<bar>a\<bar> \<le> 2 powi 62"
    unfolding f64_of_int_def by (rule to_f64_bounded) auto
  then have "\<bar>a / (1024 * 1024 * 1024)\<bar> \<le> 2 powi 32" by simp
  then obtain b where b: "to_f64 (a / (1024 * 1024 * 1024)) = Fin b" "\<bar>b\<bar> \<le> 2 powi 32"
    by (rule to_f64_bounded) auto
  then have "\<bar>b * 350\<bar> \<le> 2 powi 42" by simp
  then obtain r where r: "to_f64 (b * 350) = Fin r" "\<bar>r\<bar> \<le> 2 powi 42"
    by (rule to_f64_bounded) auto
  show thesis
    using a b r that[of r] by (simp add: memPricePerGiBMonthCents_def)
qed

lemma rat_trunc_in_i64:
  assumes "\<bar>r\<bar> \<le> 2 powi 42"
  shows "in_i64 (rat_trunc r)"
proof -
  have "- of_int (2 ^ 42) \<le> r" "r \<le> of_int (2 ^ 42)" using assms by auto
  then have "- (2 ^ 42) \<le> \<lfloor>r\<rfloor>" "\<lceil>r\<rceil> \<le> 2 ^ 42" "\<lfloor>r\<rfloor> \<le> \<lceil>r\<rceil>"
    by (simp_all add: le_floor_iff ceiling_le_iff floor_le_ceiling)
  then show ?thesis by (auto simp: rat_trunc_def in_i64_def)
qed

lemma memorySavings_any_conv:
  assumes "in_i64 v"
  shows "memorySavings v = f64_to_i64 conv (f64_mul (f64_div (f64_of_int (v sdiv 2))
    (Fin (1024 * 1024 * 1024))) (f64_of_int memPricePerGiBMonthCents))"
proof -
  obtain r where r: "f64_mul (f64_div (f64_of_int (v sdiv 2)) (Fin (1024 * 1024 * 1024)))
      (f64_of_int memPricePerGiBMonthCents) = Fin r" "\<bar>r\<bar> \<le> 2 powi 42"
    using assms by (rule memory_estimate_bounded)
  then show ?thesis
    unfolding memorySavings_def Let_def r(1) by (simp add: f64_to_i64_def rat_trunc_in_i64)
qed

lemma memorySavings_exact:
  assumes "0 \<le> v" "(v div 2) * 350 < 2 ^ 53"
  shows "memorySavings v = (v div 2) * 350 div 2 ^ 30"
proof -
  define n where "n = v div 2"
  have n: "0 \<le> n" "n * 350 < 2 ^ 53" "n < 2 ^ 53" using assms by (auto simp: n_def)
  have half: "v sdiv 2 = n" using assms(1) by (simp add: n_def)
  have small: "\<bar>(of_int m :: rat) / 2 ^ 30\<bar> \<le> 2 powi 1000" if "0 \<le> m" "m < 2 ^ 53" for m :: int
  proof -
    have "\<bar>(of_int m :: rat) / 2 ^ 30\<bar> \<le> \<bar>of_int m\<bar>" using that by (simp add: field_simps)
    also have "\<dots> \<le> 2 powi 53" using of_int_abs_less[of m 53] that by simp
    also have "\<dots> \<le> 2 powi 1000" by (simp only: powi2_le_iff)
    finally show ?thesis .
  qed
  have scaled: "to_f64 (of_int m / 2 ^ 30) = Fin (of_int m / 2 ^ 30)" if "0 \<le> m" "m < 2 ^ 53" for m :: int
  proof -
    have eq: "(of_int m :: rat) / 2 ^ 30 = of_int m * 2 powi (- 30)"
      by (simp add: power_int_def field_simps)
    have "round64 (of_int m / 2 ^ 30) = of_int m / 2 ^ 30"
      unfolding eq using that by (intro round64_exact) auto
    then show ?thesis by (simp only: to_f64_Fin[OF small[OF that]])
  qed
  have "f64_mul (f64_div (f64_of_int n) (Fin (1024 * 1024 * 1024))) (f64_of_int 350)
      = to_f64 (of_int (n * 350) / 2 ^ 30)"
    using n scaled[of n] by simp
  also have "\<dots> = Fin (of_int (n * 350) / 2 ^ 30)" using n by (intro scaled) auto
  finally have est: "f64_mul (f64_div (f64_of_int n) (Fin (1024 * 1024 * 1024))) (f64_of_int 350)
      = Fin (of_int (n * 350) / 2 ^ 30)" .
  have "\<lfloor>(of_int (n * 350) :: rat) / of_int (2 ^ 30)\<rfloor> = n * 350 div 2 ^ 30"
    by (rule floor_divide_of_int_eq)
  then have "rat_trunc (of_int (n * 350) / 2 ^ 30) = n * 350 div 2 ^ 30"
    using n by (simp add: rat_trunc_def)
  moreover have "in_i64 (n * 350 div 2 ^ 30)"
    using n by (simp add: in_i64_def) linarith
  ultimately show ?thesis
    unfolding memorySavings_def half memPricePerGiBMonthCents_def Let_def est f64_to_i64_def n_def[symmetric]
    by simp
qed

section \<open>Properties of the cost detectors\<close>

text \<open>
  C9. The CPU over-provisioning detector, computed in floating point, decides the exact integer
  question: it reports a workload with both quantities declared and a non-zero limit exactly when
  twice the request exceeds the limit; and the saving it then claims is half of the request, in
  whole millicores, at 730 hours and four cents per core hour.
\<close>

theorem cpu_overprovisioned_exact:
  assumes "exact_quantity (cpu_req w)" "exact_quantity (cpu_lim w)" "q_Value (cpu_req w) < 2 ^ 52"
  shows "map f_MonthlyUSDCents (cpuOverprovisioned_Run w) =
    (if q_Set (cpu_req w) \<and> q_Set (cpu_lim w) \<and> q_Value (cpu_lim w) \<noteq> 0 \<and>
        q_Value (cpu_lim w) < 2 * q_Value (cpu_req w)
     then [(q_Value (cpu_req w) div 2) * 2920 div 1000] else [])"
proof (cases "cpuOverprovisioned_Run w = []")
  case True
  then show ?thesis using cpuOverprovisioned_fires[OF assms(1,2)] by auto
next
  case False
  then have "map f_MonthlyUSDCents (cpuOverprovisioned_Run w) = [cpuSavings (q_Value (cpu_req w))]"
    by (auto simp: cpuOverprovisioned_Run_def Let_def split: if_splits)
  then show ?thesis
    using False cpuOverprovisioned_fires[OF assms(1,2)] cpuSavings_exact assms
    by (simp add: exact_quantity_def)
qed

definition sized_workload :: "i64 \<Rightarrow> i64 \<Rightarrow> i64 \<Rightarrow> i64 \<Rightarrow> Workload" where
  "sized_workload cr cl mr ml =
     (let q = \<lambda>v. \<lparr>q_Value = v, q_Set = True, q_Original = []\<rparr>
      in \<lparr>w_Name = ''web'', w_Kind = ''Deployment'',
          w_Requests = \<lparr>rl_CPU = q cr, rl_Memory = q mr\<rparr>, w_Limits = \<lparr>rl_CPU = q cl, rl_Memory = q ml\<rparr>,
          w_Image = empty_image, w_Replicas = 1, w_HasHPA = False, w_Security = empty_security\<rparr>)"

theorem cpu_overprovisioned_exact_witness:
  "map f_MonthlyUSDCents (cpuOverprovisioned_Run (sized_workload 1500 2000 0 0)) = [2190]"
  using cpu_overprovisioned_exact[of "sized_workload 1500 2000 0 0"]
  by (simp add: sized_workload_def exact_quantity_def)

text \<open>
  The memory over-provisioning detector likewise: twice the request against the limit, and a
  saving of half the request at 350 cents per gibibyte month, rounded down to a cent.
\<close>

lemma memory_overprovisioned_exact:
  assumes "exact_quantity (mem_req w)" "exact_quantity (mem_lim w)"
    "(q_Value (mem_req w) div 2) * 350 < 2 ^ 53"
  shows "map f_MonthlyUSDCents (memoryOverprovisioned_Run w) =
    (if q_Set (mem_req w) \<and> q_Set (mem_lim w) \<and> q_Value (mem_lim w) \<noteq> 0 \<and>
        q_Value (mem_lim w) < 2 * q_Value (mem_req w)
     then [(q_Value (mem_req w) div 2) * 350 div 2 ^ 30] else [])"
proof (cases "memoryOverprovisioned_Run w = []")
  case True
  then show ?thesis using memoryOverprovisioned_fires[OF assms(1,2)] by auto
next
  case False
  then have "map f_MonthlyUSDCents (memoryOverprovisioned_Run w) = [memorySavings (q_Value (mem_req w))]"
    by (auto simp: memoryOverprovisioned_Run_def Let_def split: if_splits)
  then show ?thesis
    using False memoryOverprovisioned_fires[OF assms(1,2)] memorySavings_exact assms
    by (simp add: exact_quantity_def)
qed

theorem memory_overprovisioned_exact_witness:
  "map f_MonthlyUSDCents (memoryOverprovisioned_Run (sized_workload 0 0 4294967296 4294967296)) = [700]"
  using memory_overprovisioned_exact[of "sized_workload 0 0 4294967296 4294967296"]
  by (simp add: sized_workload_def exact_quantity_def)

text \<open>
  A workload is never told both that its request is too large for its limit and that its limit
  is far above its request, for CPU and for memory.
\<close>

lemma request_advice_consistent:
  assumes "exact_workload w"
  shows "(cpuOverprovisioned_Run w = [] \<or> cpuLimitFarAboveRequest_Run w = []) \<and>
    (memoryOverprovisioned_Run w = [] \<or> memoryLimitFarAboveRequest_Run w = [])"
proof -
  from assms have e: "exact_quantity (cpu_req w)" "exact_quantity (cpu_lim w)"
    "exact_quantity (mem_req w)" "exact_quantity (mem_lim w)" by (auto simp: exact_workload_def)
  then have "0 \<le> q_Value (cpu_req w)" "0 \<le> q_Value (mem_req w)" by (auto simp: exact_quantity_def)
  then show ?thesis
    using cpuOverprovisioned_fires[OF e(1,2)] cpuLimitFarAboveRequest_fires[OF e(1,2)]
      memoryOverprovisioned_fires[OF e(3,4)] memoryLimitFarAboveRequest_fires[OF e(3,4)] by linarith
qed

theorem request_advice_consistent_witness:
  "(cpuOverprovisioned_Run (sized_workload 1500 2000 0 0) = []
     \<or> cpuLimitFarAboveRequest_Run (sized_workload 1500 2000 0 0) = []) \<and>
   (memoryOverprovisioned_Run (sized_workload 1500 2000 0 0) = []
     \<or> memoryLimitFarAboveRequest_Run (sized_workload 1500 2000 0 0) = [])"
  by (rule request_advice_consistent) (simp add: sized_workload_def exact_workload_def exact_quantity_def)

end
