(* ===== verification/Go_Strings.thy ===== *)
theory Go_Strings
  imports Prelude
begin

text \<open>
  The functions of Go's \<^verbatim>\<open>strings\<close> package that more than one component calls: joining and
  splitting, lower case, searching and cutting.
\<close>

fun join :: "string \<Rightarrow> string list \<Rightarrow> string" where
  "join sep [] = []"
| "join sep [x] = x"
| "join sep (x # y # ys) = x @ sep @ join sep (y # ys)"

fun split_on :: "char \<Rightarrow> string \<Rightarrow> string list" where
  "split_on d [] = [[]]"
| "split_on d (c # s) =
     (if c = d then [] # split_on d s
      else case split_on d s of [] \<Rightarrow> [[c]] | p # ps \<Rightarrow> (c # p) # ps)"

definition lines_of :: "string \<Rightarrow> string list" where
  "lines_of s = split_on (CHR 0x0A) s"

definition unlines :: "string list \<Rightarrow> string" where
  "unlines ls = join [CHR 0x0A] ls"

text \<open>Splitting a text into lines and joining lines are inverse on lines without a line feed.\<close>

definition clean_line :: "string \<Rightarrow> bool" where
  "clean_line s \<longleftrightarrow> CHR 0x0A \<notin> set s"

lemma split_on_no_sep: "d \<notin> set s \<Longrightarrow> split_on d s = [s]"
  by (induction s) auto

lemma split_on_append: "d \<notin> set s \<Longrightarrow> split_on d (s @ d # t) = s # split_on d t"
  by (induction s) auto

lemma lines_unlines: "list_all clean_line ls \<Longrightarrow> ls \<noteq> [] \<Longrightarrow> lines_of (unlines ls) = ls"
proof (induction ls rule: induct_list012)
  case (3 x y zs)
  then show ?case by (simp add: lines_of_def unlines_def clean_line_def split_on_append)
qed (simp_all add: lines_of_def unlines_def clean_line_def split_on_no_sep)

lemma split_on_pieces: "x \<in> set (split_on d s) \<Longrightarrow> d \<notin> set x"
  by (induction s arbitrary: x) (auto split: if_splits list.splits)

lemma split_on_nonempty [simp]: "split_on d s \<noteq> []"
  by (induction s) (auto split: list.splits)

lemma join_split_on: "join [d] (split_on d s) = s"
proof (induction s)
  case (Cons c s)
  obtain p ps where "split_on d s = p # ps" using split_on_nonempty by (cases "split_on d s") auto
  with Cons show ?case by (cases ps) auto
qed simp

lemma lines_of_nonempty [simp]: "lines_of s \<noteq> []"
  by (simp add: lines_of_def)

lemma lines_of_clean: "list_all clean_line (lines_of s)"
  by (auto simp: list_all_iff lines_of_def clean_line_def dest: split_on_pieces)

lemma lines_of_cons: "clean_line a \<Longrightarrow> lines_of (a @ CHR 0x0A # s) = a # lines_of s"
  by (simp add: lines_of_def clean_line_def split_on_append)

lemma split_on_snoc: "d \<notin> set t \<Longrightarrow> split_on d (s @ d # t) = split_on d s @ [t]"
  by (induction s) (auto simp: split_on_no_sep split: list.splits)

lemma lines_of_snoc: "clean_line t \<Longrightarrow> lines_of (s @ CHR 0x0A # t) = lines_of s @ [t]"
  by (simp add: lines_of_def clean_line_def split_on_snoc)

lemma clean_line_take: "clean_line s \<Longrightarrow> clean_line (take n s)"
  by (auto simp: clean_line_def dest: in_set_takeD)

lemma unlines_terminated: "ls \<noteq> [] \<Longrightarrow> concat (map (\<lambda>l. l @ [CHR 0x0A]) ls) = unlines ls @ [CHR 0x0A]"
  by (induction ls rule: induct_list012) (simp_all add: unlines_def)

text \<open>
  \<open>strings.ToLower\<close>, as far as a comparison with an ASCII text can see it: ASCII letters, and the
  two other runes whose lower case is ASCII (U+0130, a dotted capital I, and U+212A, the Kelvin
  sign). The lower case of every other rune is not ASCII; it is kept as it is.
\<close>

fun to_lower :: "string \<Rightarrow> string" where
  "to_lower [] = []"
| "to_lower (c # s) =
     (if c = CHR 0xC4 \<and> take 1 s = [CHR 0xB0] then CHR ''i'' # to_lower (drop 1 s)
      else if c = CHR 0xE2 \<and> take 2 s = [CHR 0x84, CHR 0xAA] then CHR ''k'' # to_lower (drop 2 s)
      else if 65 \<le> (of_char c :: nat) \<and> (of_char c :: nat) \<le> 90
      then char_of ((of_char c :: nat) + 32) # to_lower s
      else c # to_lower s)"

text \<open>\<open>strings.Index\<close>; \<open>None\<close> is the result -1.\<close>

fun index_of :: "string \<Rightarrow> string \<Rightarrow> nat option" where
  "index_of sub [] = (if sub = [] then Some 0 else None)"
| "index_of sub (c # s) =
     (if take (length sub) (c # s) = sub then Some 0 else map_option Suc (index_of sub s))"

definition contains :: "string \<Rightarrow> string \<Rightarrow> bool" where
  "contains s sub \<longleftrightarrow> index_of sub s \<noteq> None"

text \<open>\<open>strings.TrimRight\<close> with a cutset of ASCII characters.\<close>

definition trim_right :: "char set \<Rightarrow> string \<Rightarrow> string" where
  "trim_right cs s = rev (dropWhile (\<lambda>c. c \<in> cs) (rev s))"

lemma index_of_SomeD:
  "index_of sub s = Some i \<Longrightarrow> s = take i s @ sub @ drop (i + length sub) s"
proof (induction s arbitrary: i)
  case (Cons c s)
  show ?case
  proof (cases "take (length sub) (c # s) = sub")
    case True
    with Cons.prems show ?thesis by (simp del: take.simps) (metis append_take_drop_id)
  next
    case False
    with Cons.prems obtain j where "i = Suc j" "index_of sub s = Some j" by auto
    with Cons.IH[of j] show ?thesis by simp
  qed
qed (simp split: if_splits)

lemma index_of_append: "index_of sub (s @ sub @ t) \<noteq> None"
proof (induction s)
  case Nil
  have "take (length sub) (sub @ t) = sub" by simp
  then show ?case by (cases "sub @ t") simp_all
qed simp

lemma contains_iff: "contains s sub \<longleftrightarrow> (\<exists>a b. s = a @ sub @ b)"
  unfolding contains_def using index_of_SomeD index_of_append by (metis option.exhaust)

lemma index_of_first:
  "index_of sub s = Some i \<Longrightarrow> j < i \<Longrightarrow> take (length sub) (drop j s) \<noteq> sub"
proof (induction s arbitrary: i j)
  case (Cons c s)
  then show ?case by (cases j) (auto split: if_splits)
qed (simp split: if_splits)

end
