(* ===== verification/Rules_Security.thy ===== *)
theory Rules_Security
  imports Rules_Types Go_Strings
begin

text \<open>
  The fifteen security detectors of \<^verbatim>\<open>pkg/rules\<close>, one group per source file.
\<close>

section \<open>Missing limits\<close>

definition missingCPULimit_detail :: "string" where
  "missingCPULimit_detail =
     ''This workload declares a CPU request but no limit. Some teams omit CPU limits intentionally to avoid throttling; others expect predictable scheduling. Confirm this is the intended posture.''"

definition missingCPULimit_Run :: "Workload \<Rightarrow> Finding list" where
  "missingCPULimit_Run w =
     (if \<not> q_Set (rl_CPU (w_Requests w)) \<or> q_Set (rl_CPU (w_Limits w)) then []
      else [finding ''missing-cpu-limit'' (w_Name w) ''CPU limit not set''
              missingCPULimit_detail SeverityLow ConfidenceMed])"

definition missingCPULimit :: Detector where
  "missingCPULimit =
     \<lparr>d_ID = ''missing-cpu-limit'', d_Name = ''Missing CPU limit'',
      d_Category = CategorySecurity, d_Run = missingCPULimit_Run\<rparr>"

definition missingMemoryLimit_detail :: "string" where
  "missingMemoryLimit_detail =
     ''This workload declares a memory request but no limit. Without a limit it can consume node memory unbounded and evict neighbours under pressure. Set a limit at or above your observed P95.''"

definition missingMemoryLimit_Run :: "Workload \<Rightarrow> Finding list" where
  "missingMemoryLimit_Run w =
     (if \<not> q_Set (rl_Memory (w_Requests w)) then []
      else if q_Set (rl_Memory (w_Limits w)) then []
      else [finding ''missing-memory-limit'' (w_Name w) ''Memory limit not set''
              missingMemoryLimit_detail SeverityHigh ConfidenceHigh])"

definition missingMemoryLimit :: Detector where
  "missingMemoryLimit =
     \<lparr>d_ID = ''missing-memory-limit'', d_Name = ''Missing memory limit'',
      d_Category = CategorySecurity, d_Run = missingMemoryLimit_Run\<rparr>"

section \<open>Images\<close>

definition imagePinnedLatest_detail :: "string \<Rightarrow> string \<Rightarrow> string" where
  "imagePinnedLatest_detail displayed tagSuffix =
     ''Image '' @ displayed @ '' uses '' @ tagSuffix @
     ''. The same tag can resolve to different bytes across deploys; rollback becomes ambiguous. Pin to an immutable digest or version tag.''"

definition imagePinnedLatest_Run :: "Workload \<Rightarrow> Finding list" where
  "imagePinnedLatest_Run w =
     (if \<not> i_Set (w_Image w) then []
      else if i_Tag (w_Image w) \<noteq> [] \<and> i_Tag (w_Image w) \<noteq> ''latest'' then []
      else let displayed = ImageRef_String (w_Image w);
               displayed = (if displayed = [] then ''(no image tag)'' else displayed);
               tagSuffix = (if i_Tag (w_Image w) = ''latest'' then '':latest'' else ''(no tag)'')
           in [finding ''image-pinned-latest'' (w_Name w) ''Image not pinned to a stable tag''
                 (imagePinnedLatest_detail displayed tagSuffix) SeverityMed ConfidenceHigh])"

definition imagePinnedLatest :: Detector where
  "imagePinnedLatest =
     \<lparr>d_ID = ''image-pinned-latest'', d_Name = ''Image pinned to :latest'',
      d_Category = CategorySecurity, d_Run = imagePinnedLatest_Run\<rparr>"

section \<open>Users\<close>

definition runAsRoot_explicit :: "string" where
  "runAsRoot_explicit =
     ''securityContext.runAsNonRoot is set to false. Running as UID 0 expands the blast radius of any container escape. Set runAsNonRoot=true and runAsUser to a non-zero UID.''"

definition runAsRoot_undeclared :: "string" where
  "runAsRoot_undeclared =
     ''securityContext.runAsNonRoot is not declared. Without it, Kubernetes defers to the image's USER directive '' @
     em_dash @ '' which is UID 0 for most public images. Set runAsNonRoot=true to make the intent explicit.''"

definition runAsRoot_Run :: "Workload \<Rightarrow> Finding list" where
  "runAsRoot_Run w =
     (if sc_RunAsNonRoot (w_Security w) = Some False
      then [finding ''run-as-root'' (w_Name w) ''Container runs as root''
              runAsRoot_explicit SeverityHigh ConfidenceHigh]
      else if sc_RunAsNonRoot (w_Security w) = None
      then [finding ''run-as-root'' (w_Name w) ''runAsNonRoot not declared''
              runAsRoot_undeclared SeverityMed ConfidenceMed]
      else [])"

definition runAsRoot :: Detector where
  "runAsRoot =
     \<lparr>d_ID = ''run-as-root'', d_Name = ''Container runs as root'',
      d_Category = CategorySecurity, d_Run = runAsRoot_Run\<rparr>"

definition runsAsUIDZero_detail :: "string" where
  "runsAsUIDZero_detail =
     ''securityContext.runAsUser is set to 0. This forces the container to run as UID 0 (root) regardless of the image's USER directive '' @
     em_dash @
     '' a hard override that's almost always wrong for application workloads. Set runAsUser to a non-zero UID (1000+) and runAsNonRoot=true.''"

definition runsAsUIDZero_Run :: "Workload \<Rightarrow> Finding list" where
  "runsAsUIDZero_Run w =
     (if sc_RunAsUser (w_Security w) \<noteq> Some 0 then []
      else [finding ''runs-as-uid-zero'' (w_Name w) ''runAsUser explicitly set to 0''
              runsAsUIDZero_detail SeverityHigh ConfidenceHigh])"

definition runsAsUIDZero :: Detector where
  "runsAsUIDZero =
     \<lparr>d_ID = ''runs-as-uid-zero'', d_Name = ''runAsUser is 0 (root)'',
      d_Category = CategorySecurity, d_Run = runsAsUIDZero_Run\<rparr>"

section \<open>Privileges and host namespaces\<close>

definition privilegedContainer_detail :: "string" where
  "privilegedContainer_detail =
     ''securityContext.privileged=true bypasses every Linux capability check. Privileged is correct only for node-level agents (CSI drivers, node exporters); application workloads should set privileged=false and request the specific capabilities they actually need.''"

definition privilegedContainer_Run :: "Workload \<Rightarrow> Finding list" where
  "privilegedContainer_Run w =
     (if sc_Privileged (w_Security w) \<noteq> Some True then []
      else [finding ''privileged-container'' (w_Name w) ''Container declared privileged''
              privilegedContainer_detail SeverityHigh ConfidenceHigh])"

definition privilegedContainer :: Detector where
  "privilegedContainer =
     \<lparr>d_ID = ''privileged-container'', d_Name = ''Privileged container'',
      d_Category = CategorySecurity, d_Run = privilegedContainer_Run\<rparr>"

definition hostNetwork_detail :: "string" where
  "hostNetwork_detail =
     ''hostNetwork=true puts the pod in the node's network namespace, bypassing NetworkPolicy and exposing localhost services on the host. Required for some CNI plugins and ingress controllers; otherwise leave it unset.''"

definition hostNetwork_Run :: "Workload \<Rightarrow> Finding list" where
  "hostNetwork_Run w =
     (if sc_HostNetwork (w_Security w) \<noteq> Some True then []
      else [finding ''host-network'' (w_Name w) ''Pod uses host network''
              hostNetwork_detail SeverityHigh ConfidenceHigh])"

definition hostNetwork :: Detector where
  "hostNetwork =
     \<lparr>d_ID = ''host-network'', d_Name = ''hostNetwork enabled'',
      d_Category = CategorySecurity, d_Run = hostNetwork_Run\<rparr>"

definition hostPID_detail :: "string" where
  "hostPID_detail =
     ''hostPID=true gives the pod's processes visibility into every other process on the node '' @ em_dash @
     '' including kubelet, the container runtime, and every co-tenant pod. Required for a tiny set of node-level agents (debuggers, profilers); never appropriate for application workloads.''"

definition hostPID_Run :: "Workload \<Rightarrow> Finding list" where
  "hostPID_Run w =
     (if sc_HostPID (w_Security w) \<noteq> Some True then []
      else [finding ''host-pid'' (w_Name w) ''Pod shares the host PID namespace''
              hostPID_detail SeverityHigh ConfidenceHigh])"

definition hostPID :: Detector where
  "hostPID =
     \<lparr>d_ID = ''host-pid'', d_Name = ''hostPID enabled'',
      d_Category = CategorySecurity, d_Run = hostPID_Run\<rparr>"

definition hostIPC_detail :: "string" where
  "hostIPC_detail =
     ''hostIPC=true puts the pod in the node's IPC namespace, so it can read and write SysV shared memory and POSIX message queues used by other pods on the same node. Almost never required; turn it off unless the workload's documented dependency demands it.''"

definition hostIPC_Run :: "Workload \<Rightarrow> Finding list" where
  "hostIPC_Run w =
     (if sc_HostIPC (w_Security w) \<noteq> Some True then []
      else [finding ''host-ipc'' (w_Name w) ''Pod shares the host IPC namespace''
              hostIPC_detail SeverityHigh ConfidenceHigh])"

definition hostIPC :: Detector where
  "hostIPC =
     \<lparr>d_ID = ''host-ipc'', d_Name = ''hostIPC enabled'',
      d_Category = CategorySecurity, d_Run = hostIPC_Run\<rparr>"

definition hostPathVolume_detail :: "string" where
  "hostPathVolume_detail =
     ''A volume of type hostPath exposes the node's filesystem to the pod. Required for some node-level agents (log collectors, CNI helpers) but a sharp edge for application workloads '' @
     em_dash @
     '' a path-traversal bug suddenly becomes a node compromise. Replace with PVC, configMap, or downward API where possible.''"

definition hostPathVolume_Run :: "Workload \<Rightarrow> Finding list" where
  "hostPathVolume_Run w =
     (if sc_HostPath (w_Security w) \<noteq> Some True then []
      else [finding ''host-path-volume'' (w_Name w) ''Pod mounts a hostPath volume''
              hostPathVolume_detail SeverityHigh ConfidenceHigh])"

definition hostPathVolume :: Detector where
  "hostPathVolume =
     \<lparr>d_ID = ''host-path-volume'', d_Name = ''hostPath volume mounted'',
      d_Category = CategorySecurity, d_Run = hostPathVolume_Run\<rparr>"

definition allowPrivilegeEscalation_explicit :: "string" where
  "allowPrivilegeEscalation_explicit =
     ''securityContext.allowPrivilegeEscalation=true lets a process gain capabilities its parent didn't have (setuid, file capabilities). Set allowPrivilegeEscalation=false unless you're running an init system or known-good legacy binary that requires it.''"

definition allowPrivilegeEscalation_undeclared :: "string" where
  "allowPrivilegeEscalation_undeclared =
     ''securityContext.allowPrivilegeEscalation is undeclared; Kubernetes defaults it to true. Set allowPrivilegeEscalation=false to make the no_new_privs bit explicit.''"

definition allowPrivilegeEscalation_Run :: "Workload \<Rightarrow> Finding list" where
  "allowPrivilegeEscalation_Run w =
     (if sc_AllowPrivilegeEscalation (w_Security w) = Some True
      then [finding ''allow-privilege-escalation'' (w_Name w) ''allowPrivilegeEscalation explicitly enabled''
              allowPrivilegeEscalation_explicit SeverityHigh ConfidenceHigh]
      else if sc_AllowPrivilegeEscalation (w_Security w) = None
      then [finding ''allow-privilege-escalation'' (w_Name w) ''allowPrivilegeEscalation not declared''
              allowPrivilegeEscalation_undeclared SeverityMed ConfidenceMed]
      else [])"

definition allowPrivilegeEscalation :: Detector where
  "allowPrivilegeEscalation =
     \<lparr>d_ID = ''allow-privilege-escalation'', d_Name = ''Privilege escalation allowed'',
      d_Category = CategorySecurity, d_Run = allowPrivilegeEscalation_Run\<rparr>"

definition readOnlyRootFSMissing_explicit :: "string" where
  "readOnlyRootFSMissing_explicit =
     ''securityContext.readOnlyRootFilesystem is set to false. A writable rootfs lets an attacker persist files after a container escape. Set readOnlyRootFilesystem=true and mount tmpfs volumes for any directories the app legitimately writes to.''"

definition readOnlyRootFSMissing_undeclared :: "string" where
  "readOnlyRootFSMissing_undeclared =
     ''securityContext.readOnlyRootFilesystem is not declared. Declare readOnlyRootFilesystem=true to make hardening explicit; mount tmpfs volumes for legitimate write paths.''"

definition readOnlyRootFSMissing_Run :: "Workload \<Rightarrow> Finding list" where
  "readOnlyRootFSMissing_Run w =
     (if sc_ReadOnlyRootFilesystem (w_Security w) = Some False
      then [finding ''read-only-root-fs-missing'' (w_Name w) ''Container root filesystem is writable''
              readOnlyRootFSMissing_explicit SeverityMed ConfidenceHigh]
      else if sc_ReadOnlyRootFilesystem (w_Security w) = None
      then [finding ''read-only-root-fs-missing'' (w_Name w) ''readOnlyRootFilesystem not declared''
              readOnlyRootFSMissing_undeclared SeverityLow ConfidenceMed]
      else [])"

definition readOnlyRootFSMissing :: Detector where
  "readOnlyRootFSMissing =
     \<lparr>d_ID = ''read-only-root-fs-missing'', d_Name = ''Root filesystem not read-only'',
      d_Category = CategorySecurity, d_Run = readOnlyRootFSMissing_Run\<rparr>"

section \<open>Capabilities\<close>

definition dangerousCaps :: "(string \<times> string) list" where
  "dangerousCaps =
     [(''SYS_ADMIN'', ''near-root: lets the container mount filesystems, change kernel parameters, etc.''),
      (''NET_ADMIN'', ''configure network interfaces, manipulate routing tables, intercept traffic''),
      (''NET_RAW'', ''craft raw packets '' @ em_dash @ '' useful for ARP spoofing and other L2 attacks''),
      (''SYS_PTRACE'', ''attach to other processes' memory; can read secrets out of co-tenant pods''),
      (''SYS_MODULE'', ''load kernel modules; effectively root on the node''),
      (''DAC_READ_SEARCH'', ''bypass DAC permission checks on file reads''),
      (''DAC_OVERRIDE'', ''bypass DAC permission checks on file writes''),
      (''SYS_BOOT'', ''reboot the node''),
      (''SYS_TIME'', ''change system time; breaks timing-based security guarantees''),
      (''BPF'', ''load BPF programs; can read kernel memory''),
      (''PERFMON'', ''perf_events syscall; can leak kernel address layouts'')]"

text \<open>
  \<open>strings.ToUpper\<close> on UTF-8. Besides the ASCII letters, the long s (U+017F) and the dotless
  i (U+0131) are the only letters whose upper case is ASCII; every other multi-byte sequence
  has a non-ASCII image, which no key of the table below can equal, and is left as it is.
\<close>

fun to_upper :: "string \<Rightarrow> string" where
  "to_upper [] = []"
| "to_upper (c # cs) =
     (if c = CHR 0xC5 \<and> cs \<noteq> [] \<and> hd cs = CHR 0xBF then CHR ''S'' # to_upper (tl cs)
      else if c = CHR 0xC4 \<and> cs \<noteq> [] \<and> hd cs = CHR 0xB1 then CHR ''I'' # to_upper (tl cs)
      else if 97 \<le> (of_char c :: nat) \<and> (of_char c :: nat) \<le> 122
      then char_of ((of_char c :: nat) - 32) # to_upper cs
      else c # to_upper cs)"

definition normaliseCap :: "string \<Rightarrow> string" where
  "normaliseCap c = trim_prefix (to_upper (trim_space c)) ''CAP_''"

definition dangerousHits :: "string list \<Rightarrow> string list" where
  "dangerousHits add =
     List.map_filter (\<lambda>c. map_option (\<lambda>reason. c @ '' ('' @ reason @ '')'')
       (map_of dangerousCaps (normaliseCap c))) add"

definition dangerousCapabilityAdded_detail :: "string list \<Rightarrow> string" where
  "dangerousCapabilityAdded_detail hits =
     ''securityContext.capabilities.add includes '' @ show_nat (length hits) @
     '' escalation-class capability(s): '' @ join ''; '' hits @
     ''. Each grants abilities far beyond what an application workload should need. Drop them and reach for a sidecar / DaemonSet that runs in a more privileged ServiceAccount if the underlying need is legitimate.''"

definition dangerousCapabilityAdded_Run :: "Workload \<Rightarrow> Finding list" where
  "dangerousCapabilityAdded_Run w =
     (if sc_CapabilitiesAdd (w_Security w) = [] then []
      else let hits = dangerousHits (sc_CapabilitiesAdd (w_Security w))
           in if hits = [] then []
              else [finding ''dangerous-capability-added'' (w_Name w) ''Dangerous Linux capability added''
                      (dangerousCapabilityAdded_detail hits) SeverityHigh ConfidenceHigh])"

definition dangerousCapabilityAdded :: Detector where
  "dangerousCapabilityAdded =
     \<lparr>d_ID = ''dangerous-capability-added'', d_Name = ''Dangerous Linux capability added'',
      d_Category = CategorySecurity, d_Run = dangerousCapabilityAdded_Run\<rparr>"

definition capabilitiesNotDroppedAll_detail :: "string" where
  "capabilitiesNotDroppedAll_detail =
     ''Best-practice baseline (CIS 5.2.8) is securityContext.capabilities.drop: [ALL] with add: [...] re-granting only the specific capabilities required. The current chart does not drop ALL, so the container inherits the default capability set including CHOWN, SETUID, SETGID, NET_BIND_SERVICE, etc.''"

definition capabilitiesNotDroppedAll_Run :: "Workload \<Rightarrow> Finding list" where
  "capabilitiesNotDroppedAll_Run w =
     (if list_ex (\<lambda>c. normaliseCap c = ''ALL'') (sc_CapabilitiesDrop (w_Security w)) then []
      else [finding ''capabilities-not-dropped-all'' (w_Name w) ''capabilities.drop does not include ALL''
              capabilitiesNotDroppedAll_detail SeverityMed ConfidenceHigh])"

definition capabilitiesNotDroppedAll :: Detector where
  "capabilitiesNotDroppedAll =
     \<lparr>d_ID = ''capabilities-not-dropped-all'', d_Name = ''capabilities.drop does not include ALL'',
      d_Category = CategorySecurity, d_Run = capabilitiesNotDroppedAll_Run\<rparr>"

section \<open>Service account tokens\<close>

definition serviceAccountTokenAutomount_undeclared :: "string" where
  "serviceAccountTokenAutomount_undeclared =
     ''automountServiceAccountToken is undeclared, so Kubernetes auto-mounts a service-account credential at /var/run/secrets/kubernetes.io/serviceaccount/. Most application workloads never read it; an attacker on the pod gets a free pivot to the K8s API. Set automountServiceAccountToken=false unless the workload genuinely calls the API.''"

definition serviceAccountTokenAutomount_explicit :: "string" where
  "serviceAccountTokenAutomount_explicit =
     ''automountServiceAccountToken is explicitly true. The pod gets a service-account credential at /var/run/secrets/kubernetes.io/serviceaccount/; an attacker who lands on the pod gets a free pivot to the K8s API. Confirm the workload genuinely needs the API; otherwise set automountServiceAccountToken=false.''"

definition serviceAccountTokenAutomount_Run :: "Workload \<Rightarrow> Finding list" where
  "serviceAccountTokenAutomount_Run w =
     (if sc_AutomountServiceAccountToken (w_Security w) = Some False then []
      else let explicit = (sc_AutomountServiceAccountToken (w_Security w) = Some True);
               severity = (if explicit then SeverityHigh else SeverityMed);
               confidence = (if explicit then ConfidenceHigh else ConfidenceMed);
               detail = (if explicit then serviceAccountTokenAutomount_explicit
                         else serviceAccountTokenAutomount_undeclared)
           in [finding ''service-account-token-automount'' (w_Name w)
                 ''ServiceAccount token automatically mounted'' detail severity confidence])"

definition serviceAccountTokenAutomount :: Detector where
  "serviceAccountTokenAutomount =
     \<lparr>d_ID = ''service-account-token-automount'', d_Name = ''ServiceAccount token auto-mount not disabled'',
      d_Category = CategorySecurity, d_Run = serviceAccountTokenAutomount_Run\<rparr>"

end
