(* ===== verification/Rules.thy ===== *)
theory Rules
  imports Rules_Cost Rules_Security
begin

text \<open>
  The registered detectors (\<open>All\<close> of \<^verbatim>\<open>pkg/rules/types.go\<close>) keep the contract of the
  engine, so the engine's lemmas hold of every report.
\<close>

definition All :: "Detector list" where
  "All =
     [cpuOverprovisioned, memoryOverprovisioned, cpuLimitFarAboveRequest,
      memoryLimitFarAboveRequest, oversizedCPULimit, oversizedMemoryLimit, replicasTooHigh,
      excessiveReplicaCount, unboundedImageTag, cpuWithoutMemoryRequest, memoryWithoutCPURequest,
      cpuRequestEqualsLimit, memoryRequestEqualsLimit, tinyCPURequest, tinyMemoryRequest,
      idleWorkload,
      missingCPULimit, missingMemoryLimit, imagePinnedLatest, runAsRoot, runsAsUIDZero,
      privilegedContainer, hostNetwork, hostPID, hostIPC, readOnlyRootFSMissing,
      allowPrivilegeEscalation, hostPathVolume, dangerousCapabilityAdded,
      capabilitiesNotDroppedAll, serviceAccountTokenAutomount]"

lemmas cost_detector_defs =
  cpuOverprovisioned_def memoryOverprovisioned_def cpuLimitFarAboveRequest_def
  memoryLimitFarAboveRequest_def oversizedCPULimit_def oversizedMemoryLimit_def
  replicasTooHigh_def excessiveReplicaCount_def unboundedImageTag_def
  cpuWithoutMemoryRequest_def memoryWithoutCPURequest_def cpuRequestEqualsLimit_def
  memoryRequestEqualsLimit_def tinyCPURequest_def tinyMemoryRequest_def idleWorkload_def

lemmas security_detector_defs =
  missingCPULimit_def missingMemoryLimit_def imagePinnedLatest_def runAsRoot_def
  runsAsUIDZero_def privilegedContainer_def hostNetwork_def hostPID_def hostIPC_def
  readOnlyRootFSMissing_def allowPrivilegeEscalation_def hostPathVolume_def
  dangerousCapabilityAdded_def capabilitiesNotDroppedAll_def serviceAccountTokenAutomount_def

lemmas cost_run_defs =
  cpuOverprovisioned_Run_def memoryOverprovisioned_Run_def cpuLimitFarAboveRequest_Run_def
  memoryLimitFarAboveRequest_Run_def oversizedCPULimit_Run_def oversizedMemoryLimit_Run_def
  replicasTooHigh_Run_def excessiveReplicaCount_Run_def unboundedImageTag_Run_def
  cpuWithoutMemoryRequest_Run_def memoryWithoutCPURequest_Run_def cpuRequestEqualsLimit_Run_def
  memoryRequestEqualsLimit_Run_def tinyCPURequest_Run_def tinyMemoryRequest_Run_def
  idleWorkload_Run_def

lemmas security_run_defs =
  missingCPULimit_Run_def missingMemoryLimit_Run_def imagePinnedLatest_Run_def runAsRoot_Run_def
  runsAsUIDZero_Run_def privilegedContainer_Run_def hostNetwork_Run_def hostPID_Run_def
  hostIPC_Run_def readOnlyRootFSMissing_Run_def allowPrivilegeEscalation_Run_def
  hostPathVolume_Run_def dangerousCapabilityAdded_Run_def capabilitiesNotDroppedAll_Run_def
  serviceAccountTokenAutomount_Run_def

section \<open>Every registered detector keeps the contract\<close>

lemma sound_cost_detectors:
  "sound_detector cpuOverprovisioned" "sound_detector memoryOverprovisioned"
  "sound_detector cpuLimitFarAboveRequest" "sound_detector memoryLimitFarAboveRequest"
  "sound_detector oversizedCPULimit" "sound_detector oversizedMemoryLimit"
  "sound_detector replicasTooHigh" "sound_detector excessiveReplicaCount"
  "sound_detector unboundedImageTag" "sound_detector cpuWithoutMemoryRequest"
  "sound_detector memoryWithoutCPURequest" "sound_detector cpuRequestEqualsLimit"
  "sound_detector memoryRequestEqualsLimit" "sound_detector tinyCPURequest"
  "sound_detector tinyMemoryRequest" "sound_detector idleWorkload"
  unfolding sound_detector_def cost_detector_defs cost_run_defs Let_def
  by simp_all

lemma sound_security_detectors:
  "sound_detector missingCPULimit" "sound_detector missingMemoryLimit"
  "sound_detector imagePinnedLatest" "sound_detector runAsRoot" "sound_detector runsAsUIDZero"
  "sound_detector privilegedContainer" "sound_detector hostNetwork" "sound_detector hostPID"
  "sound_detector hostIPC" "sound_detector readOnlyRootFSMissing"
  "sound_detector allowPrivilegeEscalation" "sound_detector hostPathVolume"
  "sound_detector dangerousCapabilityAdded" "sound_detector capabilitiesNotDroppedAll"
  "sound_detector serviceAccountTokenAutomount"
  unfolding sound_detector_def security_detector_defs security_run_defs Let_def
  by simp_all

lemma sound_All: "d \<in> set All \<Longrightarrow> sound_detector d"
  using sound_cost_detectors sound_security_detectors by (auto simp: All_def)

lemma category_All: "d \<in> set All \<Longrightarrow> d_Category d = CategoryCost \<or> d_Category d = CategorySecurity"
  using sound_All by (auto simp: sound_detector_def)

lemma ids_All:
  "map d_ID All =
     [''cpu-overprovisioned'', ''memory-overprovisioned'', ''cpu-limit-far-above-request'',
      ''memory-limit-far-above-request'', ''oversized-cpu-limit'', ''oversized-memory-limit'',
      ''replicas-too-high'', ''excessive-replica-count'', ''unbounded-image-tag'',
      ''cpu-without-memory-request'', ''memory-without-cpu-request'', ''cpu-request-equals-limit'',
      ''memory-request-equals-limit'', ''tiny-cpu-request'', ''tiny-memory-request'',
      ''idle-workload'', ''missing-cpu-limit'', ''missing-memory-limit'', ''image-pinned-latest'',
      ''run-as-root'', ''runs-as-uid-zero'', ''privileged-container'', ''host-network'',
      ''host-pid'', ''host-ipc'', ''read-only-root-fs-missing'', ''allow-privilege-escalation'',
      ''host-path-volume'', ''dangerous-capability-added'', ''capabilities-not-dropped-all'',
      ''service-account-token-automount'']"
  by (simp add: All_def cost_detector_defs security_detector_defs)

lemma distinct_ids_All: "distinct (map d_ID All)"
  unfolding ids_All by simp

interpretation registry: detector_suite All
  by unfold_locales (auto simp: sound_All distinct_ids_All)

section \<open>The categories of the registry\<close>

lemma category_cost_detectors:
  "d_Category cpuOverprovisioned = CategoryCost" "d_Category memoryOverprovisioned = CategoryCost"
  "d_Category cpuLimitFarAboveRequest = CategoryCost"
  "d_Category memoryLimitFarAboveRequest = CategoryCost"
  "d_Category oversizedCPULimit = CategoryCost" "d_Category oversizedMemoryLimit = CategoryCost"
  "d_Category replicasTooHigh = CategoryCost" "d_Category excessiveReplicaCount = CategoryCost"
  "d_Category unboundedImageTag = CategoryCost" "d_Category cpuWithoutMemoryRequest = CategoryCost"
  "d_Category memoryWithoutCPURequest = CategoryCost"
  "d_Category cpuRequestEqualsLimit = CategoryCost"
  "d_Category memoryRequestEqualsLimit = CategoryCost" "d_Category tinyCPURequest = CategoryCost"
  "d_Category tinyMemoryRequest = CategoryCost" "d_Category idleWorkload = CategoryCost"
  by (simp_all add: cost_detector_defs)

lemma category_security_detectors:
  "d_Category missingCPULimit = CategorySecurity" "d_Category missingMemoryLimit = CategorySecurity"
  "d_Category imagePinnedLatest = CategorySecurity" "d_Category runAsRoot = CategorySecurity"
  "d_Category runsAsUIDZero = CategorySecurity" "d_Category privilegedContainer = CategorySecurity"
  "d_Category hostNetwork = CategorySecurity" "d_Category hostPID = CategorySecurity"
  "d_Category hostIPC = CategorySecurity" "d_Category readOnlyRootFSMissing = CategorySecurity"
  "d_Category allowPrivilegeEscalation = CategorySecurity"
  "d_Category hostPathVolume = CategorySecurity"
  "d_Category dangerousCapabilityAdded = CategorySecurity"
  "d_Category capabilitiesNotDroppedAll = CategorySecurity"
  "d_Category serviceAccountTokenAutomount = CategorySecurity"
  by (simp_all add: security_detector_defs)

lemma cost_not_security [simp]: "CategoryCost \<noteq> CategorySecurity" "CategorySecurity \<noteq> CategoryCost"
  by (simp_all add: rule_consts)

lemma All_by_category:
  "length (filter (\<lambda>d. d_Category d = CategoryCost) All) = 16"
  "length (filter (\<lambda>d. d_Category d = CategorySecurity) All) = 15"
  by (simp_all add: All_def category_cost_detectors category_security_detectors)

section \<open>What a clean security report means\<close>

text \<open>
  The hardening baseline the security detectors enforce together, as a condition on the
  declared workload.
\<close>

definition hardened :: "Workload \<Rightarrow> bool" where
  "hardened w \<longleftrightarrow>
     (let sc = w_Security w
      in (q_Set (rl_CPU (w_Requests w)) \<longrightarrow> q_Set (rl_CPU (w_Limits w))) \<and>
         (q_Set (rl_Memory (w_Requests w)) \<longrightarrow> q_Set (rl_Memory (w_Limits w))) \<and>
         (i_Set (w_Image w) \<longrightarrow> i_Tag (w_Image w) \<noteq> [] \<and> i_Tag (w_Image w) \<noteq> ''latest'') \<and>
         sc_RunAsNonRoot sc = Some True \<and> sc_RunAsUser sc \<noteq> Some 0 \<and>
         sc_Privileged sc \<noteq> Some True \<and> sc_HostNetwork sc \<noteq> Some True \<and>
         sc_HostPID sc \<noteq> Some True \<and> sc_HostIPC sc \<noteq> Some True \<and>
         sc_ReadOnlyRootFilesystem sc = Some True \<and> sc_AllowPrivilegeEscalation sc = Some False \<and>
         sc_HostPath sc \<noteq> Some True \<and>
         (\<forall>c \<in> set (sc_CapabilitiesAdd sc). normaliseCap c \<notin> fst ` set dangerousCaps) \<and>
         (\<exists>c \<in> set (sc_CapabilitiesDrop sc). normaliseCap c = ''ALL'') \<and>
         sc_AutomountServiceAccountToken sc = Some False)"

lemma map_filter_Nil: "List.map_filter f xs = [] \<longleftrightarrow> (\<forall>x \<in> set xs. f x = None)"
  by (induction xs) (auto simp: List.map_filter_def)

lemma dangerousHits_Nil:
  "dangerousHits cs = [] \<longleftrightarrow> (\<forall>c \<in> set cs. normaliseCap c \<notin> fst ` set dangerousCaps)"
  by (simp add: dangerousHits_def map_filter_Nil map_of_eq_None_iff)

lemma security_silent:
  "missingCPULimit_Run w = [] \<longleftrightarrow> (q_Set (rl_CPU (w_Requests w)) \<longrightarrow> q_Set (rl_CPU (w_Limits w)))"
  "missingMemoryLimit_Run w = []
    \<longleftrightarrow> (q_Set (rl_Memory (w_Requests w)) \<longrightarrow> q_Set (rl_Memory (w_Limits w)))"
  "imagePinnedLatest_Run w = []
    \<longleftrightarrow> (i_Set (w_Image w) \<longrightarrow> i_Tag (w_Image w) \<noteq> [] \<and> i_Tag (w_Image w) \<noteq> ''latest'')"
  "runAsRoot_Run w = [] \<longleftrightarrow> sc_RunAsNonRoot (w_Security w) = Some True"
  "runsAsUIDZero_Run w = [] \<longleftrightarrow> sc_RunAsUser (w_Security w) \<noteq> Some 0"
  "privilegedContainer_Run w = [] \<longleftrightarrow> sc_Privileged (w_Security w) \<noteq> Some True"
  "hostNetwork_Run w = [] \<longleftrightarrow> sc_HostNetwork (w_Security w) \<noteq> Some True"
  "hostPID_Run w = [] \<longleftrightarrow> sc_HostPID (w_Security w) \<noteq> Some True"
  "hostIPC_Run w = [] \<longleftrightarrow> sc_HostIPC (w_Security w) \<noteq> Some True"
  "readOnlyRootFSMissing_Run w = [] \<longleftrightarrow> sc_ReadOnlyRootFilesystem (w_Security w) = Some True"
  "allowPrivilegeEscalation_Run w = [] \<longleftrightarrow> sc_AllowPrivilegeEscalation (w_Security w) = Some False"
  "hostPathVolume_Run w = [] \<longleftrightarrow> sc_HostPath (w_Security w) \<noteq> Some True"
  "dangerousCapabilityAdded_Run w = []
    \<longleftrightarrow> (\<forall>c \<in> set (sc_CapabilitiesAdd (w_Security w)). normaliseCap c \<notin> fst ` set dangerousCaps)"
  "capabilitiesNotDroppedAll_Run w = []
    \<longleftrightarrow> (\<exists>c \<in> set (sc_CapabilitiesDrop (w_Security w)). normaliseCap c = ''ALL'')"
  "serviceAccountTokenAutomount_Run w = []
    \<longleftrightarrow> sc_AutomountServiceAccountToken (w_Security w) = Some False"
  unfolding security_run_defs Let_def
  by (auto simp: dangerousHits_Nil list_ex_iff)

lemma security_clean_iff:
  "(\<forall>d \<in> set All. d_Category d = CategorySecurity \<longrightarrow> d_Run d w = []) \<longleftrightarrow> hardened w"
  by (simp add: All_def category_cost_detectors category_security_detectors security_silent
      security_detector_defs hardened_def Let_def)


lemma no_security_finding:
  "filter (\<lambda>f. f_Category f = CategorySecurity) (Run ws All) = [] \<longleftrightarrow> (\<forall>w \<in> set ws. hardened w)"
  unfolding registry.category_silent_iff security_clean_iff ..

section \<open>Properties of the engine on the registry\<close>

text \<open>
  C1. A report does not depend on the order in which the chart lists its workloads nor on the order
  in which the detectors are registered: any permutation of either gives the same list of
  findings, element by element (workload names are distinct, as in every values file without
  repeated keys).
\<close>

theorem report_order_independent:
  assumes "distinct (map w_Name ws)" "mset vs = mset ws" "mset ds = mset All"
  shows "Run vs ds = Run ws All"
  using assms by (rule registry.Run_order_independent)

definition bare_workload :: "string \<Rightarrow> Workload" where
  "bare_workload name = readWorkload amd64_conv name (Node MappingNode [] []) (Node MappingNode [] [])"

lemma bare_workload_Name [simp]: "w_Name (bare_workload name) = name"
  by (simp add: bare_workload_def readWorkload_def)

text \<open>Witness: two workloads listed in either order, the registry reversed.\<close>

theorem report_order_independent_witness:
  "Run [bare_workload ''web'', bare_workload ''api''] (rev All)
     = Run [bare_workload ''api'', bare_workload ''web''] All"
  by (rule report_order_independent) simp_all

text \<open>
  C2. The report is complete, sound and sorted: it holds exactly what the detectors report on the
  workloads, each finding stamped with the category of its detector, in the documented order
  (workload, then descending severity, then detector).
\<close>

theorem report_exact:
  "sorted_by finding_less (Run ws All) \<and>
   set (Run ws All) = {g\<lparr>f_Category := d_Category d\<rparr> | g d w. w \<in> set ws \<and> d \<in> set All \<and> d_Run d w = [g]}"
    (is "?sorted \<and> _ = ?rhs")
proof
  show ?sorted unfolding Run_def by (rule finding_order.sorted_stable_sort)
  show "set (Run ws All) = ?rhs"
  proof
    show "set (Run ws All) \<subseteq> ?rhs"
      unfolding set_Run by (auto elim!: registry.runAll_origin)
    show "?rhs \<subseteq> set (Run ws All)"
      by (auto simp: set_Run intro!: registry.runAll_stamped)
  qed
qed

text \<open>
  C3. No finding is reported twice: in the report of workloads with distinct names, a workload and a
  detector identify at most one finding.
\<close>

theorem report_no_duplicates:
  assumes "distinct (map w_Name ws)"
  shows "distinct (map (\<lambda>f. (f_Workload f, f_DetectorID f)) (Run ws All))"
  using registry.distinct_keys_Run[OF assms] .

theorem report_no_duplicates_witness:
  "distinct (map (\<lambda>f. (f_Workload f, f_DetectorID f))
     (Run [bare_workload ''web'', bare_workload ''api''] All))"
  by (rule report_no_duplicates) simp

text \<open>
  C4. A chart comes through without a security finding exactly when each of its workloads meets the
  hardening baseline: limits wherever there are requests, a pinned tag, a non-root user, no privilege, no
  host namespace or path, a read-only root, no escalation, no dangerous capability, \<open>ALL\<close>
  dropped, no mounted token.
\<close>

theorem no_security_finding_iff_hardened:
  "filter (\<lambda>f. f_Category f = CategorySecurity) (Run ws All) = [] \<longleftrightarrow> list_all hardened ws"
  unfolding list_all_iff by (rule no_security_finding)

end
