(* ===== verification/Report.thy ===== *)
theory Report
  imports Rules
begin

text \<open>
  The renderer's view of an analysis run and its arithmetic
  (\<^verbatim>\<open>internal/render/text.go\<close>): the savings total, the order in which cost findings are
  shown, the split into the two sections, and the number formats.
\<close>

record Report =
  r_Source :: string
  r_Workloads :: i64
  r_Findings :: "Finding list"

definition MonthlySavingsUSDCents :: "Report \<Rightarrow> i64" where
  "MonthlySavingsUSDCents r = foldl (\<lambda>sum f. wrap64 (sum + f_MonthlyUSDCents f)) 0 (r_Findings r)"

text \<open>The comparison of \<open>sortCostForDisplay\<close>; \<open>severityRank\<close> is the same function as the engine's.\<close>

definition display_less :: "Finding \<Rightarrow> Finding \<Rightarrow> bool" where
  "display_less a b =
     (if (f_MonthlyUSDCents a > 0) \<noteq> (f_MonthlyUSDCents b > 0)
      then f_MonthlyUSDCents a > f_MonthlyUSDCents b
      else if f_MonthlyUSDCents a \<noteq> f_MonthlyUSDCents b
      then f_MonthlyUSDCents a > f_MonthlyUSDCents b
      else if f_Severity a \<noteq> f_Severity b
      then severityRank (f_Severity a) > severityRank (f_Severity b)
      else if f_Workload a \<noteq> f_Workload b then f_Workload a < f_Workload b
      else f_DetectorID a < f_DetectorID b)"

definition sortCostForDisplay :: "Finding list \<Rightarrow> Finding list" where
  "sortCostForDisplay xs = stable_sort display_less xs"

fun splitLoop :: "Finding list \<Rightarrow> Finding list \<Rightarrow> Finding list \<Rightarrow> Finding list \<times> Finding list" where
  "splitLoop cost security [] = (cost, security)"
| "splitLoop cost security (f # fs) =
     (if f_Category f = CategorySecurity then splitLoop cost (security @ [f]) fs
      else splitLoop (cost @ [f]) security fs)"

definition splitByCategory :: "Finding list \<Rightarrow> Finding list \<times> Finding list" where
  "splitByCategory findings = splitLoop [] [] findings"

definition formatCents :: "i64 \<Rightarrow> string" where
  "formatCents c =
     (let dollars = c sdiv 100; cents = c smod 100
      in if cents = 0 then show_int dollars else show_int dollars @ ''.'' @ pad2 cents)"

definition plural :: "i64 \<Rightarrow> string \<Rightarrow> string \<Rightarrow> string" where
  "plural n singular pluralForm =
     (if n = 1 then show_int n @ '' '' @ singular else show_int n @ '' '' @ pluralForm)"

section \<open>Sections and order\<close>

lemma splitLoop_filter:
  "splitLoop cost security fs =
     (cost @ filter (\<lambda>f. f_Category f \<noteq> CategorySecurity) fs,
      security @ filter (\<lambda>f. f_Category f = CategorySecurity) fs)"
  by (induction fs arbitrary: cost security) auto

lemma splitByCategory_filter:
  "splitByCategory fs = (filter (\<lambda>f. f_Category f \<noteq> CategorySecurity) fs,
     filter (\<lambda>f. f_Category f = CategorySecurity) fs)"
  by (simp add: splitByCategory_def splitLoop_filter)

text \<open>
  On the severities the detectors use, the comparison is the lexicographic one on savings
  (descending), rank (descending), workload and detector. On other strings it is not a strict
  weak order: two different severities of rank 0 compare equal whatever the workloads are.
\<close>

definition display_key :: "Finding \<Rightarrow> Finding \<Rightarrow> bool" where
  "display_key a b \<longleftrightarrow>
     f_MonthlyUSDCents b < f_MonthlyUSDCents a \<or>
     f_MonthlyUSDCents a = f_MonthlyUSDCents b \<and>
       (severityRank (f_Severity b) < severityRank (f_Severity a) \<or>
        severityRank (f_Severity a) = severityRank (f_Severity b) \<and>
          (f_Workload a < f_Workload b \<or> f_Workload a = f_Workload b \<and> f_DetectorID a < f_DetectorID b))"

interpretation display_order: less_order display_key
  by unfold_locales (auto simp: display_key_def)

definition ranked :: "Finding \<Rightarrow> bool" where
  "ranked f \<longleftrightarrow> f_Severity f \<in> {SeverityHigh, SeverityMed, SeverityLow}"

lemma severityRank_inject:
  assumes "ranked a" "ranked b"
  shows "severityRank (f_Severity a) = severityRank (f_Severity b) \<longleftrightarrow> f_Severity a = f_Severity b"
  using assms by (auto simp: ranked_def severityRank_def rule_consts)

lemma display_less_key: "ranked a \<Longrightarrow> ranked b \<Longrightarrow> display_less a b \<longleftrightarrow> display_key a b"
  using severityRank_inject[of a b] by (auto simp: display_less_def display_key_def)

lemma insert_by_cong:
  assumes "\<And>y. y \<in> set ys \<Longrightarrow> lt y x = lt' y x"
  shows "insert_by lt x ys = insert_by lt' x ys"
  using assms by (induction ys) auto

lemma stable_sort_cong:
  assumes "\<And>x y. x \<in> set xs \<Longrightarrow> y \<in> set xs \<Longrightarrow> lt x y = lt' x y"
  shows "stable_sort lt xs = stable_sort lt' xs"
  using assms
proof (induction xs)
  case (Cons x xs)
  have "stable_sort lt xs = stable_sort lt' xs" by (rule Cons.IH) (simp add: Cons.prems)
  then show ?case using insert_by_cong[of "stable_sort lt' xs" lt x lt'] Cons.prems by simp
qed simp

lemma sortCostForDisplay_key:
  assumes "\<And>f. f \<in> set fs \<Longrightarrow> ranked f"
  shows "sortCostForDisplay fs = stable_sort display_key fs"
  unfolding sortCostForDisplay_def using assms display_less_key by (intro stable_sort_cong) auto

lemma ranked_Run: "f \<in> set (Run ws All) \<Longrightarrow> ranked f"
  using sound_All by (fastforce simp: set_Run set_runAll ranked_def dest: sound_detectorD(4))

section \<open>Savings\<close>

lemma foldl_wrap64:
  "in_i64 s \<Longrightarrow> foldl (\<lambda>sum f. wrap64 (sum + g f)) s fs = wrap64 (s + (\<Sum>f \<leftarrow> fs. g f))"
proof (induction fs arbitrary: s)
  case (Cons f fs)
  show ?case
    using Cons.IH[of "wrap64 (s + g f)"] by (simp add: add.assoc)
qed simp

lemma MonthlySavings_sum:
  "MonthlySavingsUSDCents r = wrap64 (\<Sum>f \<leftarrow> r_Findings r. f_MonthlyUSDCents f)"
  using foldl_wrap64[of 0 f_MonthlyUSDCents "r_Findings r"]
  by (simp add: MonthlySavingsUSDCents_def in_i64_def)

section \<open>Properties of a rendered report\<close>

text \<open>
  The two sections of a report together hold every finding exactly once, each section keeps the
  order of the engine, and the cost section, in the order in which it is shown, is a permutation
  of itself sorted by descending savings, then severity, workload and detector.
\<close>

lemma sections_of_report:
  "case splitByCategory (Run ws All) of (cost, security) \<Rightarrow>
     mset cost + mset security = mset (Run ws All) \<and>
     cost = filter (\<lambda>f. f_Category f = CategoryCost) (Run ws All) \<and>
     security = filter (\<lambda>f. f_Category f = CategorySecurity) (Run ws All) \<and>
     mset (sortCostForDisplay cost) = mset cost \<and> sorted_by display_key (sortCostForDisplay cost)"
proof -
  have cat: "f_Category f \<noteq> CategorySecurity \<longleftrightarrow> f_Category f = CategoryCost"
    if "f \<in> set (Run ws All)" for f
    using that by (auto simp: set_Run elim!: registry.runAll_origin dest: category_All)
  have cost: "filter (\<lambda>f. f_Category f \<noteq> CategorySecurity) (Run ws All)
      = filter (\<lambda>f. f_Category f = CategoryCost) (Run ws All)"
    by (rule filter_cong) (simp_all add: cat)
  have "sortCostForDisplay (filter (\<lambda>f. f_Category f = CategoryCost) (Run ws All))
      = stable_sort display_key (filter (\<lambda>f. f_Category f = CategoryCost) (Run ws All))"
    by (rule sortCostForDisplay_key) (auto intro: ranked_Run)
  moreover have "mset (filter (\<lambda>f. f_Category f \<noteq> CategorySecurity) (Run ws All))
      + mset (filter (\<lambda>f. f_Category f = CategorySecurity) (Run ws All)) = mset (Run ws All)"
    using multiset_partition[of "mset (Run ws All)" "\<lambda>f. f_Category f \<noteq> CategorySecurity"] by simp
  ultimately show ?thesis
    by (simp add: splitByCategory_filter cost display_order.sorted_stable_sort)
qed

text \<open>
  An amount of money is printed so that it can be read back: the digits before the point are the
  dollars and the two digits after it, left out when they are both zero, the cents.
\<close>

lemma formatCents_shape:
  "formatCents (int c) =
     show_nat (c div 100) @
     (if c mod 100 = 0 then [] else CHR ''.'' # show_nat (c mod 100 div 10) @ show_nat (c mod 10))"
proof -
  have split: "int c sdiv 100 = int (c div 100)" "int c smod 100 = int (c mod 100)"
    by (simp_all add: zdiv_int zmod_int)
  have two: "show_nat n = show_nat (n div 10) @ show_nat (n mod 10)" if "10 \<le> n" for n
    using that by (subst show_nat.simps) (simp add: show_nat.simps[of "n mod 10"])
  have last: "c mod 100 mod 10 = c mod 10" by (simp add: mod_mod_cancel)
  have "pad2 (int (c mod 100)) = show_nat (c mod 100 div 10) @ show_nat (c mod 10)"
  proof (cases "c mod 100 < 10")
    case True
    then have "c mod 10 = c mod 100" "c mod 100 div 10 = 0" using last by auto
    with True show ?thesis
      by (simp add: pad2_def show_int_def show_nat_0)
  next
    case False
    then have "pad2 (int (c mod 100)) = show_nat (c mod 100)" by (simp add: pad2_def show_int_def)
    also have "\<dots> = show_nat (c mod 100 div 10) @ show_nat (c mod 100 mod 10)"
      using False by (intro two) simp
    finally show ?thesis by (simp only: last)
  qed
  then show ?thesis unfolding formatCents_def split Let_def by (simp add: show_int_def)
qed

end
