(* ===== verification/Analyze.thy ===== *)
theory Analyze
  imports Report "HOL-Library.AList"
begin

text \<open>
  \<^verbatim>\<open>internal/analyze\<close>: one run of the pipeline, the filter behind the command-line flags, the
  efficiency score with its grade, and the comparison of two values files.
\<close>

section \<open>The pipeline (\<^verbatim>\<open>analyze.go\<close>)\<close>

record Options =
  o_Source :: string
  o_Detectors :: "Detector list option"

definition analyze_Run ::
  "(string \<Rightarrow> string + node) \<Rightarrow> (f64 \<Rightarrow> i64) \<Rightarrow> string + string \<Rightarrow> Options \<Rightarrow> parse_error + Report" where
  "analyze_Run unmarshal conv r opts =
     (case ParseValues unmarshal conv r of
        Inl e \<Rightarrow> Inl e
      | Inr wls \<Rightarrow>
          let dets = (case o_Detectors opts of None \<Rightarrow> All | Some ds \<Rightarrow> ds)
          in Inr \<lparr>r_Source = o_Source opts, r_Workloads = int (length wls),
                  r_Findings = Run wls dets\<rparr>)"

section \<open>The filter (\<^verbatim>\<open>filter.go\<close>)\<close>

record FilterOptions =
  fo_MinSeverity :: Severity
  fo_DetectorIDs :: "string list"
  fo_SecurityOnly :: bool

definition filter_severityRank :: "Severity \<Rightarrow> int" where
  "filter_severityRank s =
     (if s = SeverityHigh then 3 else if s = SeverityMed then 2
      else if s = SeverityLow then 1 else if s = SeverityInfo then 0 else 0)"

fun filterLoop :: "FilterOptions \<Rightarrow> string set \<Rightarrow> Finding list \<Rightarrow> Finding list" where
  "filterLoop opts allowed [] = []"
| "filterLoop opts allowed (f # fs) =
     (if fo_SecurityOnly opts \<and> f_Category f \<noteq> CategorySecurity then filterLoop opts allowed fs
      else if allowed \<noteq> {} \<and> f_DetectorID f \<notin> allowed then filterLoop opts allowed fs
      else if fo_MinSeverity opts \<noteq> [] \<and>
              filter_severityRank (f_Severity f) < filter_severityRank (fo_MinSeverity opts)
      then filterLoop opts allowed fs
      else f # filterLoop opts allowed fs)"

definition Filter :: "Report \<Rightarrow> FilterOptions \<Rightarrow> Report" where
  "Filter r opts =
     (if fo_MinSeverity opts = [] \<and> fo_DetectorIDs opts = [] \<and> \<not> fo_SecurityOnly opts then r
      else let allowed = set (map trim_space (fo_DetectorIDs opts))
           in r\<lparr>r_Findings := filterLoop opts allowed (r_Findings r)\<rparr>)"

section \<open>The grade (\<^verbatim>\<open>grade.go\<close>)\<close>

record Grade =
  g_Letter :: string
  g_PercentileRank :: i64
  g_Sample :: i64

definition letterFor :: "i64 \<Rightarrow> string" where
  "letterFor score =
     (if score \<ge> 95 then ''A+'' else if score \<ge> 90 then ''A'' else if score \<ge> 85 then ''A-''
      else if score \<ge> 80 then ''B+'' else if score \<ge> 75 then ''B'' else if score \<ge> 70 then ''B-''
      else if score \<ge> 65 then ''C+'' else if score \<ge> 60 then ''C'' else if score \<ge> 55 then ''C-''
      else if score \<ge> 50 then ''D'' else ''F'')"

text \<open>The loop of \<open>sort.Search\<close>: \<open>j - i\<close> shrinks in each round.\<close>

function search_loop :: "(nat \<Rightarrow> bool) \<Rightarrow> nat \<Rightarrow> nat \<Rightarrow> nat" where
  "search_loop f i j =
     (if i < j
      then let h = (i + j) div 2 in if \<not> f h then search_loop f (h + 1) j else search_loop f i h
      else i)"
  by pat_completeness auto
termination
  by (relation "measure (\<lambda>(f, i, j). j - i)") auto

declare search_loop.simps [simp del]

definition search :: "nat \<Rightarrow> (nat \<Rightarrow> bool) \<Rightarrow> nat" where
  "search n f = search_loop f 0 n"

definition percentileRank :: "i64 \<Rightarrow> i64 list \<Rightarrow> i64" where
  "percentileRank score population =
     (if population = [] then 0
      else let below = search (length population) (\<lambda>i. population ! i \<ge> score);
               rank = int below * 100 div int (length population)
           in if rank > 100 then 100 else rank)"

definition calibrationScores :: "i64 list" where
  "calibrationScores =
     [18, 22, 24, 26, 28, 30, 31, 33, 34, 35,
      37, 38, 39, 40, 41, 42, 43, 44, 45, 46,
      47, 48, 49, 50, 51, 52, 53, 54, 55, 56,
      57, 58, 59, 60, 61, 62, 63, 64, 65, 66,
      66, 67, 67, 68, 68, 69, 69, 70, 70, 70,
      71, 71, 72, 72, 73, 73, 74, 74, 75, 75,
      76, 76, 77, 77, 78, 78, 79, 79, 80, 80,
      81, 82, 83, 84, 85, 85, 86, 87, 88, 88,
      89, 90, 90, 91, 91, 92, 92, 93, 93, 94,
      94, 95, 95, 96, 96, 97, 97, 98, 99, 100]"

definition GradeFor :: "i64 \<Rightarrow> Grade" where
  "GradeFor score =
     \<lparr>g_Letter = letterFor score, g_PercentileRank = percentileRank score calibrationScores,
      g_Sample = int (length calibrationScores)\<rparr>"

section \<open>The score (\<^verbatim>\<open>score.go\<close>)\<close>

record Score =
  sc_Workloads :: i64
  sc_Source :: string
  sc_Value :: i64
  sc_Band :: Confidence
  sc_Grade :: Grade
  sc_Penalties :: "string \<rightharpoonup> i64"
  sc_Findings :: "Finding list"

definition penaltyHigh :: i64 where "penaltyHigh = 25"
definition penaltyMed :: i64 where "penaltyMed = 10"
definition penaltyLow :: i64 where "penaltyLow = 3"
definition penaltyInfo :: i64 where "penaltyInfo = 1"
definition penaltyCap :: i64 where "penaltyCap = 100"

lemmas penalty_consts = penaltyHigh_def penaltyMed_def penaltyLow_def penaltyInfo_def penaltyCap_def

definition penaltyFor :: "Severity \<Rightarrow> i64" where
  "penaltyFor s =
     (if s = SeverityHigh then penaltyHigh else if s = SeverityMed then penaltyMed
      else if s = SeverityLow then penaltyLow else penaltyInfo)"

definition bandFor :: "i64 \<Rightarrow> Confidence" where
  "bandFor score =
     (if score \<ge> 85 then ConfidenceHigh else if score \<ge> 60 then ConfidenceMed else ConfidenceLow)"

text \<open>Reading a missing key of the map gives 0.\<close>

fun penaltyLoop ::
  "(string \<rightharpoonup> i64) \<Rightarrow> i64 \<Rightarrow> Finding list \<Rightarrow> (string \<rightharpoonup> i64) \<times> i64" where
  "penaltyLoop penalties tot [] = (penalties, tot)"
| "penaltyLoop penalties tot (f # fs) =
     (let p = penaltyFor (f_Severity f);
          old = (case penalties (f_DetectorID f) of Some v \<Rightarrow> v | None \<Rightarrow> 0)
      in penaltyLoop (penalties(f_DetectorID f \<mapsto> old + p)) (tot + p) fs)"

definition Compute :: "string \<Rightarrow> i64 \<Rightarrow> Finding list \<Rightarrow> Score" where
  "Compute source workloads findings =
     (let (penalties, tot) = penaltyLoop Map.empty 0 findings;
          tot = (if tot > penaltyCap then penaltyCap else tot);
          value = 100 - tot;
          value = (if value < 0 then 0 else value)
      in \<lparr>sc_Workloads = workloads, sc_Source = source, sc_Value = value, sc_Band = bandFor value,
          sc_Grade = GradeFor value, sc_Penalties = penalties, sc_Findings = findings\<rparr>)"

section \<open>The comparison of two files (\<^verbatim>\<open>diff.go\<close>)\<close>

record DiffEntry =
  e_Name :: string
  e_NewWorkload :: bool
  e_RemovedWorkload :: bool
  e_CPURequestDelta :: i64
  e_CPULimitDelta :: i64
  e_MemoryRequestDelta :: i64
  e_MemoryLimitDelta :: i64
  e_MonthlyUSDCentsDelta :: i64

record DiffReport =
  dr_A :: string
  dr_B :: string
  dr_Entries :: "DiffEntry list"

datatype diff_error = DiffParse string parse_error

definition cpuPriceCentsPerCoreHour :: i64 where "cpuPriceCentsPerCoreHour = 4"
definition cpuMonthlyHours :: i64 where "cpuMonthlyHours = 730"
definition memPriceCentsPerGiBMonth :: i64 where "memPriceCentsPerGiBMonth = 350"

record workload_pair =
  p_a :: "Workload option"
  p_b :: "Workload option"

datatype which = reqCPU | limCPU | reqMem | limMem

definition get :: "Workload option \<Rightarrow> which \<Rightarrow> quantity" where
  "get wo k =
     (case wo of
        None \<Rightarrow> zero_quantity
      | Some w \<Rightarrow>
          (case k of
             reqCPU \<Rightarrow> rl_CPU (w_Requests w)
           | limCPU \<Rightarrow> rl_CPU (w_Limits w)
           | reqMem \<Rightarrow> rl_Memory (w_Requests w)
           | limMem \<Rightarrow> rl_Memory (w_Limits w)))"

definition qDelta :: "quantity \<Rightarrow> quantity \<Rightarrow> i64" where
  "qDelta a b =
     (let av = (if q_Set a then q_Value a else 0);
          bv = (if q_Set b then q_Value b else 0)
      in wrap64 (bv - av))"

text \<open>
  The float of the memory part stays far inside \<open>int64\<close>, so that its conversion does not
  depend on the platform.
\<close>

definition monthlyDelta :: "DiffEntry \<Rightarrow> i64" where
  "monthlyDelta e =
     (let cpuMillicoreDelta = e_CPURequestDelta e;
          memBytesDelta = e_MemoryRequestDelta e;
          cpuCents = wrap64 (wrap64 (cpuMillicoreDelta * cpuMonthlyHours) * cpuPriceCentsPerCoreHour)
                       sdiv 1000;
          memCents = f64_to_i64 amd64_conv
                       (f64_mul (f64_div (f64_of_int memBytesDelta) (Fin (1024 * 1024 * 1024)))
                          (f64_of_int memPriceCentsPerGiBMonth))
      in wrap64 (cpuCents + memCents))"

text \<open>
  \<open>byName\<close> as an association list with one entry per name. Go ranges over the map in an
  unspecified order; since the names are the keys, the sort that follows makes the result
  independent of that order.
\<close>

definition byName_a :: "Workload list \<Rightarrow> (string \<times> workload_pair) list" where
  "byName_a wlA = fold (\<lambda>w m. AList.update (w_Name w) \<lparr>p_a = Some w, p_b = None\<rparr> m) wlA []"

definition byName_b ::
  "Workload list \<Rightarrow> (string \<times> workload_pair) list \<Rightarrow> (string \<times> workload_pair) list" where
  "byName_b wlB m0 =
     fold (\<lambda>w m. case map_of m (w_Name w) of
              Some p \<Rightarrow> AList.update (w_Name w) (p\<lparr>p_b := Some w\<rparr>) m
            | None \<Rightarrow> AList.update (w_Name w) \<lparr>p_a = None, p_b = Some w\<rparr> m) wlB m0"

definition diffEntry :: "string \<times> workload_pair \<Rightarrow> DiffEntry" where
  "diffEntry np =
     (let (name, p) = np;
          e = \<lparr>e_Name = name, e_NewWorkload = (p_a p = None),
               e_RemovedWorkload = (p_a p \<noteq> None \<and> p_b p = None),
               e_CPURequestDelta = qDelta (get (p_a p) reqCPU) (get (p_b p) reqCPU),
               e_CPULimitDelta = qDelta (get (p_a p) limCPU) (get (p_b p) limCPU),
               e_MemoryRequestDelta = qDelta (get (p_a p) reqMem) (get (p_b p) reqMem),
               e_MemoryLimitDelta = qDelta (get (p_a p) limMem) (get (p_b p) limMem),
               e_MonthlyUSDCentsDelta = 0\<rparr>
      in e\<lparr>e_MonthlyUSDCentsDelta := monthlyDelta e\<rparr>)"

definition noop_entry :: "DiffEntry \<Rightarrow> bool" where
  "noop_entry e \<longleftrightarrow>
     \<not> e_NewWorkload e \<and> \<not> e_RemovedWorkload e \<and>
     e_CPURequestDelta e = 0 \<and> e_CPULimitDelta e = 0 \<and>
     e_MemoryRequestDelta e = 0 \<and> e_MemoryLimitDelta e = 0"

definition entry_less :: "DiffEntry \<Rightarrow> DiffEntry \<Rightarrow> bool" where
  "entry_less x y \<longleftrightarrow> e_Name x < e_Name y"

definition diff_entries :: "Workload list \<Rightarrow> Workload list \<Rightarrow> DiffEntry list" where
  "diff_entries wlA wlB =
     stable_sort entry_less
       (filter (\<lambda>e. \<not> noop_entry e) (map diffEntry (byName_b wlB (byName_a wlA))))"

definition Diff ::
  "(string \<Rightarrow> string + node) \<Rightarrow> (f64 \<Rightarrow> i64) \<Rightarrow> string + string \<Rightarrow> string + string \<Rightarrow>
   string \<Rightarrow> string \<Rightarrow> diff_error + DiffReport" where
  "Diff unmarshal conv a b aLabel bLabel =
     (case ParseValues unmarshal conv a of
        Inl e \<Rightarrow> Inl (DiffParse aLabel e)
      | Inr wlA \<Rightarrow>
          (case ParseValues unmarshal conv b of
             Inl e \<Rightarrow> Inl (DiffParse bLabel e)
           | Inr wlB \<Rightarrow> Inr \<lparr>dr_A = aLabel, dr_B = bLabel, dr_Entries = diff_entries wlA wlB\<rparr>))"

definition MonthlyUSDCentsDelta :: "DiffReport \<Rightarrow> i64" where
  "MonthlyUSDCentsDelta r = foldl (\<lambda>sum e. wrap64 (sum + e_MonthlyUSDCentsDelta e)) 0 (dr_Entries r)"

definition absInt :: "i64 \<Rightarrow> i64" where
  "absInt x = (if x < 0 then wrap64 (- x) else x)"

section \<open>The filter keeps what the flags ask for\<close>

definition keeps :: "FilterOptions \<Rightarrow> Finding \<Rightarrow> bool" where
  "keeps opts f \<longleftrightarrow>
     (fo_SecurityOnly opts \<longrightarrow> f_Category f = CategorySecurity) \<and>
     (fo_DetectorIDs opts = [] \<or> f_DetectorID f \<in> trim_space ` set (fo_DetectorIDs opts)) \<and>
     (fo_MinSeverity opts = [] \<or> filter_severityRank (fo_MinSeverity opts) \<le> filter_severityRank (f_Severity f))"

lemma filterLoop_filter:
  "filterLoop opts (trim_space ` set (fo_DetectorIDs opts)) fs = filter (keeps opts) fs"
  by (induction fs) (auto simp: keeps_def)

lemma Findings_Filter: "r_Findings (Filter r opts) = filter (keeps opts) (r_Findings r)"
proof (cases "fo_MinSeverity opts = [] \<and> fo_DetectorIDs opts = [] \<and> \<not> fo_SecurityOnly opts")
  case True
  then have "keeps opts = (\<lambda>f. True)" by (auto simp: keeps_def)
  with True show ?thesis by (simp add: Filter_def)
next
  case False
  then show ?thesis by (auto simp: Filter_def filterLoop_filter Let_def)
qed

lemma Filter_eq: "Filter r opts = r\<lparr>r_Findings := filter (keeps opts) (r_Findings r)\<rparr>"
proof -
  have "r_Source (Filter r opts) = r_Source r" "r_Workloads (Filter r opts) = r_Workloads r"
    by (simp_all add: Filter_def Let_def)
  then show ?thesis using Findings_Filter[of r opts] by simp
qed

section \<open>Binary search\<close>

text \<open>The interval always has a failing index (or nothing) before it and a passing one (or the end) after it.\<close>

lemma search_loop_inv:
  assumes "i \<le> j" "i = 0 \<or> \<not> f (i - 1)" "j = n \<or> f j"
  shows "search_loop f i j \<le> j \<and> (search_loop f i j = 0 \<or> \<not> f (search_loop f i j - 1)) \<and>
    (search_loop f i j = n \<or> f (search_loop f i j))"
  using assms
proof (induction f i j rule: search_loop.induct)
  case (1 f i j)
  define h where "h = (i + j) div 2"
  consider "\<not> i < j" | "i < j" "f h" | "i < j" "\<not> f h" by blast
  then show ?case
  proof cases
    assume no: "\<not> i < j"
    then have "i = j" using "1.prems"(1) by simp
    moreover have "search_loop f i j = i" using no by (simp add: search_loop.simps)
    ultimately show ?thesis using "1.prems" by simp
  next
    assume h: "i < j" "f h"
    then have "search_loop f i j = search_loop f i h" by (simp add: search_loop.simps[of f i j] h_def Let_def)
    moreover have "h \<le> j" "i \<le> h" using h by (auto simp: h_def)
    ultimately show ?thesis using "1.IH"(2)[OF h(1) h_def] h "1.prems" by auto
  next
    assume h: "i < j" "\<not> f h"
    then have "search_loop f i j = search_loop f (h + 1) j"
      by (simp add: search_loop.simps[of f i j] h_def Let_def)
    moreover have "h + 1 \<le> j" using h by (auto simp: h_def)
    ultimately show ?thesis using "1.IH"(1)[OF h(1) h_def] h "1.prems" by auto
  qed
qed

lemma search_sorted:
  fixes xs :: "i64 list"
  assumes "sorted xs"
  shows "search (length xs) (\<lambda>i. xs ! i \<ge> s) = length (filter (\<lambda>x. x < s) xs)"
proof -
  define r where "r = search (length xs) (\<lambda>i. xs ! i \<ge> s)"
  have r: "r \<le> length xs" "r = 0 \<or> xs ! (r - 1) < s" "r = length xs \<or> s \<le> xs ! r"
    using search_loop_inv[of 0 "length xs" "\<lambda>i. xs ! i \<ge> s" "length xs"]
    by (auto simp: r_def search_def not_le)
  have low: "x < s" if "x \<in> set (take r xs)" for x
  proof -
    from that obtain k where k: "k < r" "x = xs ! k" using r(1) by (auto simp: in_set_conv_nth)
    then have "xs ! k \<le> xs ! (r - 1)" using assms r(1) by (intro sorted_nth_mono) auto
    with k r(2) show ?thesis by auto
  qed
  have high: "\<not> x < s" if "x \<in> set (drop r xs)" for x
  proof -
    from that obtain k where "k < length (drop r xs)" "x = drop r xs ! k"
      by (auto simp: in_set_conv_nth)
    then have k: "r + k < length xs" "x = xs ! (r + k)" by auto
    then have "xs ! r \<le> xs ! (r + k)" using assms by (intro sorted_nth_mono) auto
    with k r(3) show ?thesis by auto
  qed
  have "filter (\<lambda>x. x < s) xs = filter (\<lambda>x. x < s) (take r xs) @ filter (\<lambda>x. x < s) (drop r xs)"
    by (simp flip: filter_append)
  also have "\<dots> = take r xs"
    using low high by (simp add: filter_id_conv filter_empty_conv)
  finally show ?thesis using r(1) by (simp add: r_def)
qed

lemma sorted_calibrationScores: "sorted calibrationScores"
  by (simp add: calibrationScores_def)

lemma length_calibrationScores: "length calibrationScores = 100"
  by (simp add: calibrationScores_def)

lemma percentileRank_calibration:
  "percentileRank score calibrationScores = int (length (filter (\<lambda>x. x < score) calibrationScores))"
proof -
  have "calibrationScores \<noteq> []" by (simp add: calibrationScores_def)
  moreover have "length (filter (\<lambda>x. x < score) calibrationScores) \<le> 100"
    using length_filter_le[of _ calibrationScores] by (simp add: length_calibrationScores)
  ultimately show ?thesis
    by (simp add: percentileRank_def search_sorted[OF sorted_calibrationScores, of score, unfolded length_calibrationScores]
        length_calibrationScores Let_def)
qed

section \<open>The score\<close>

lemma penaltyLoop_sums:
  "penaltyLoop m t fs =
    ((\<lambda>d. if d \<in> f_DetectorID ` set fs
          then Some ((case m d of Some v \<Rightarrow> v | None \<Rightarrow> 0)
                + (\<Sum>f \<leftarrow> filter (\<lambda>f. f_DetectorID f = d) fs. penaltyFor (f_Severity f)))
          else m d),
     t + (\<Sum>f \<leftarrow> fs. penaltyFor (f_Severity f)))"
proof (induction fs arbitrary: m t)
  case (Cons f fs)
  show ?case
    unfolding penaltyLoop.simps Let_def Cons.IH
    by (auto simp: fun_eq_iff image_iff split: option.split) (subst filter_False, auto)
qed (simp add: fun_eq_iff)

abbreviation penalty_sum :: "Finding list \<Rightarrow> int" where
  "penalty_sum fs \<equiv> (\<Sum>f \<leftarrow> fs. penaltyFor (f_Severity f))"

lemma penaltyFor_pos: "0 < penaltyFor s"
  by (simp add: penaltyFor_def penalty_consts)

lemma penalty_sum_nonneg: "0 \<le> penalty_sum fs"
  by (rule sum_list_nonneg) (auto intro: less_imp_le penaltyFor_pos)

lemma Value_Compute: "sc_Value (Compute src n fs) = max 0 (100 - penalty_sum fs)"
  using penalty_sum_nonneg[of fs]
  by (auto simp: Compute_def penaltyLoop_sums penalty_consts Let_def)

lemma Grade_Compute: "sc_Grade (Compute src n fs) = GradeFor (sc_Value (Compute src n fs))"
  by (simp add: Compute_def Let_def split: prod.split)

lemma Penalties_Compute:
  "sc_Penalties (Compute src n fs) =
    (\<lambda>d. if d \<in> f_DetectorID ` set fs then Some (penalty_sum (filter (\<lambda>f. f_DetectorID f = d) fs)) else None)"
  by (auto simp: Compute_def penaltyLoop_sums Let_def fun_eq_iff)

lemma penalty_sum_mono:
  assumes "mset fs \<subseteq># mset gs"
  shows "penalty_sum fs \<le> penalty_sum gs"
proof -
  obtain A where A: "mset gs = mset fs + A" using assms by (metis subset_mset.add_diff_inverse)
  have "(\<Sum>f \<in># mset gs. penaltyFor (f_Severity f))
      = (\<Sum>f \<in># mset fs. penaltyFor (f_Severity f)) + (\<Sum>f \<in># A. penaltyFor (f_Severity f))"
    by (simp add: A)
  moreover have "0 \<le> (\<Sum>f \<in># A. penaltyFor (f_Severity f))"
    by (induction A) (auto intro: add_nonneg_nonneg less_imp_le[OF penaltyFor_pos])
  ultimately show ?thesis by (simp add: sum_mset_sum_list flip: mset_map)
qed

section \<open>The comparison\<close>

interpretation entry_order: less_order entry_less
  by unfold_locales (auto simp: entry_less_def)

text \<open>The workload a name stands for: the last one of the file, as later ones overwrite earlier ones.\<close>

definition named :: "string \<Rightarrow> Workload list \<Rightarrow> Workload option" where
  "named n ws = find (\<lambda>w. w_Name w = n) (rev ws)"

lemma named_Nil [simp]: "named n [] = None"
  by (simp add: named_def)

lemma find_append: "find P (xs @ ys) = (case find P xs of None \<Rightarrow> find P ys | Some x \<Rightarrow> Some x)"
  by (induction xs) auto

lemma named_snoc [simp]: "named n (ws @ [w]) = (if w_Name w = n then Some w else named n ws)"
  by (simp add: named_def)

lemma named_None: "named n ws = None \<longleftrightarrow> n \<notin> w_Name ` set ws"
  by (auto simp: named_def find_None_iff)

lemma map_of_byName_a:
  "map_of (byName_a ws) n = map_option (\<lambda>w. \<lparr>p_a = Some w, p_b = None\<rparr>) (named n ws)"
  unfolding byName_a_def by (induction ws rule: rev_induct) (auto simp: update_conv)

lemma map_of_byName_b:
  "map_of (byName_b wlB m) n =
    (case named n wlB of
       None \<Rightarrow> map_of m n
     | Some w \<Rightarrow> Some (case map_of m n of Some p \<Rightarrow> p\<lparr>p_b := Some w\<rparr> | None \<Rightarrow> \<lparr>p_a = None, p_b = Some w\<rparr>))"
  unfolding byName_b_def
  by (induction wlB rule: rev_induct) (auto simp: update_conv split: option.splits)

definition pair_of :: "Workload list \<Rightarrow> Workload list \<Rightarrow> string \<Rightarrow> workload_pair" where
  "pair_of wlA wlB n = \<lparr>p_a = named n wlA, p_b = named n wlB\<rparr>"

lemma map_of_byName:
  "map_of (byName_b wlB (byName_a wlA)) n =
    (if n \<in> w_Name ` set wlA \<union> w_Name ` set wlB then Some (pair_of wlA wlB n) else None)"
  using named_None[of n wlA] named_None[of n wlB]
  by (auto simp: map_of_byName_a map_of_byName_b pair_of_def split: option.splits)

lemma distinct_byName_a: "distinct (map fst (byName_a ws))"
  unfolding byName_a_def by (induction ws rule: rev_induct) (auto simp: distinct_update)

lemma distinct_byName: "distinct (map fst (byName_b wlB (byName_a wlA)))"
  unfolding byName_b_def
  by (induction wlB rule: rev_induct) (auto simp: distinct_update distinct_byName_a split: option.split)

lemma set_byName:
  "set (byName_b wlB (byName_a wlA)) =
    (\<lambda>n. (n, pair_of wlA wlB n)) ` (w_Name ` set wlA \<union> w_Name ` set wlB)"
proof -
  have "(n, p) \<in> set (byName_b wlB (byName_a wlA)) \<longleftrightarrow>
      n \<in> w_Name ` set wlA \<union> w_Name ` set wlB \<and> p = pair_of wlA wlB n" for n p
    using map_of_eq_Some_iff[OF distinct_byName, of wlB wlA n p]
    by (auto simp: map_of_byName split: if_splits)
  then show ?thesis by auto
qed

definition change :: "Workload list \<Rightarrow> Workload list \<Rightarrow> string \<Rightarrow> DiffEntry" where
  "change wlA wlB n = diffEntry (n, pair_of wlA wlB n)"

lemma Name_diffEntry [simp]: "e_Name (diffEntry (n, p)) = n"
  by (simp add: diffEntry_def Let_def)

lemma set_diff_entries:
  "set (diff_entries wlA wlB) =
    change wlA wlB ` {n \<in> w_Name ` set wlA \<union> w_Name ` set wlB. \<not> noop_entry (change wlA wlB n)}"
  by (auto simp: diff_entries_def set_byName change_def)

lemma distinct_names_entries:
  assumes "distinct (map fst ps)"
  shows "distinct (map e_Name (filter P (map diffEntry ps)))"
  using assms by (induction ps) (force simp: image_iff)+

lemma distinct_diff_entries: "distinct (map e_Name (diff_entries wlA wlB))"
  unfolding diff_entries_def distinct_map_stable_sort
  by (rule distinct_names_entries) (rule distinct_byName)

lemma sorted_diff_entries: "sorted_by entry_less (diff_entries wlA wlB)"
  unfolding diff_entries_def by (rule entry_order.sorted_stable_sort)

text \<open>A list of entries with distinct names is determined by its set once it is sorted by name.\<close>

lemma entries_unique:
  assumes "sorted_by entry_less xs" "sorted_by entry_less ys"
    "distinct (map e_Name xs)" "distinct (map e_Name ys)" "set xs = set ys"
  shows "xs = ys"
proof (rule entry_order.sorted_by_unique[OF assms(1,2)])
  show "mset xs = mset ys"
    using assms(3-5) by (simp add: distinct_map set_eq_iff_mset_eq_distinct)
  show "entry_less x y \<or> entry_less y x" if "x \<in> set xs" "y \<in> set xs" "x \<noteq> y" for x y
    using that assms(3) neq_iff[of "e_Name x" "e_Name y"]
    by (auto simp: entry_less_def distinct_map inj_on_def)
qed

lemma qDelta_same [simp]: "qDelta q q = 0"
  by (simp add: qDelta_def in_i64_def)

lemma diff_entries_same: "diff_entries ws ws = []"
proof -
  have "noop_entry (change ws ws n)" if "n \<in> w_Name ` set ws" for n
    using that named_None[of n ws] by (auto simp: change_def pair_of_def diffEntry_def noop_entry_def Let_def)
  then have "set (diff_entries ws ws) = {}" by (auto simp: set_diff_entries)
  then show ?thesis by simp
qed

subsection \<open>Exchanging the two files\<close>

fun f64_minus :: "f64 \<Rightarrow> f64" where
  "f64_minus (Fin x) = Fin (- x)"
| "f64_minus PInf = NInf"
| "f64_minus NInf = PInf"
| "f64_minus NaN = NaN"

lemma to_f64_minus: "to_f64 (- x) = f64_minus (to_f64 x)"
proof -
  have big: "(0::rat) < 2 ^ 1024" by (rule zero_less_power) simp
  then have "\<not> (2 ^ 1024 \<le> round64 x \<and> round64 x \<le> - (2 ^ 1024))" by linarith
  with big show ?thesis
    unfolding to_f64_def Let_def round64_uminus
    by (cases "2 ^ 1024 \<le> round64 x"; cases "round64 x \<le> - (2 ^ 1024)")
      (auto simp only: le_minus_iff minus_le_iff if_True if_False f64_minus.simps minus_minus neg_le_iff_le
        intro: le_less_trans)
qed

definition mem_cents :: "int \<Rightarrow> f64" where
  "mem_cents n = f64_mul (f64_div (f64_of_int n) (Fin (1024 * 1024 * 1024))) (f64_of_int memPriceCentsPerGiBMonth)"

lemma mem_cents_bounded:
  assumes "\<bar>n\<bar> < 2 ^ 62"
  obtains r where "mem_cents n = Fin r" "\<bar>r\<bar> \<le> 2 powi 42"
proof -
  have "in_i64 (2 * n)" using assms by (auto simp: in_i64_def)
  moreover have "(2 * n) sdiv 2 = n" by (simp add: signed_divide_int_def sgn_mult abs_mult sgn_mult_abs)
  ultimately show thesis
    using that memory_estimate_bounded[of "2 * n"]
    by (auto simp: mem_cents_def memPricePerGiBMonthCents_def memPriceCentsPerGiBMonth_def)
qed

lemma f64_div_minus: "0 < c \<Longrightarrow> f64_div (f64_minus x) (Fin c) = f64_minus (f64_div x (Fin c))"
  by (cases x) (auto simp: f64_inf_def to_f64_minus)

lemma f64_mul_minus: "0 < c \<Longrightarrow> f64_mul (f64_minus x) (Fin c) = f64_minus (f64_mul x (Fin c))"
  by (cases x) (auto simp: f64_inf_def to_f64_minus)

lemma mem_cents_minus: "mem_cents (- n) = f64_minus (mem_cents n)"
proof -
  have "f64_of_int (- n) = f64_minus (f64_of_int n)" by (simp add: f64_of_int_def to_f64_minus)
  then show ?thesis
    by (simp add: mem_cents_def f64_div_minus f64_mul_minus memPriceCentsPerGiBMonth_def)
qed

lemma rat_trunc_minus: "rat_trunc (- r) = - rat_trunc r"
  by (auto simp: rat_trunc_def ceiling_minus floor_minus)

lemma mem_cents_conv:
  assumes "\<bar>n\<bar> < 2 ^ 62"
  shows "f64_to_i64 conv (mem_cents (- n)) = - f64_to_i64 conv (mem_cents n)"
    and "\<bar>f64_to_i64 conv (mem_cents n)\<bar> \<le> 2 ^ 42"
proof -
  obtain r where r: "mem_cents n = Fin r" "\<bar>r\<bar> \<le> 2 powi 42"
    using assms by (rule mem_cents_bounded)
  have "in_i64 (rat_trunc r)" "in_i64 (rat_trunc (- r))" using r(2) by (simp_all add: rat_trunc_in_i64)
  then show "f64_to_i64 conv (mem_cents (- n)) = - f64_to_i64 conv (mem_cents n)"
    by (simp add: mem_cents_minus r f64_to_i64_def rat_trunc_minus)
  have "- of_int (2 ^ 42) \<le> r" "r \<le> of_int (2 ^ 42)" using r(2) by auto
  then have "- (2 ^ 42) \<le> \<lfloor>r\<rfloor>" "\<lceil>r\<rceil> \<le> 2 ^ 42" "\<lfloor>r\<rfloor> \<le> \<lceil>r\<rceil>"
    by (simp_all add: le_floor_iff ceiling_le_iff floor_le_ceiling)
  moreover have "rat_trunc r = \<lfloor>r\<rfloor> \<or> rat_trunc r = \<lceil>r\<rceil>" by (simp add: rat_trunc_def)
  ultimately have "\<bar>rat_trunc r\<bar> \<le> 2 ^ 42" by linarith
  with \<open>in_i64 (rat_trunc r)\<close> show "\<bar>f64_to_i64 conv (mem_cents n)\<bar> \<le> 2 ^ 42"
    by (simp add: r f64_to_i64_def)
qed

text \<open>
  Amounts in the range in which nothing wraps: less than \<open>2 ^ 53\<close> bytes and less than
  \<open>2 ^ 50\<close> millicores.
\<close>

definition modest_workload :: "Workload \<Rightarrow> bool" where
  "modest_workload w \<longleftrightarrow> exact_workload w \<and> q_Value (cpu_req w) < 2 ^ 50"

definition mirror :: "DiffEntry \<Rightarrow> DiffEntry" where
  "mirror e = \<lparr>e_Name = e_Name e, e_NewWorkload = e_RemovedWorkload e,
     e_RemovedWorkload = e_NewWorkload e, e_CPURequestDelta = - e_CPURequestDelta e,
     e_CPULimitDelta = - e_CPULimitDelta e, e_MemoryRequestDelta = - e_MemoryRequestDelta e,
     e_MemoryLimitDelta = - e_MemoryLimitDelta e, e_MonthlyUSDCentsDelta = - e_MonthlyUSDCentsDelta e\<rparr>"

lemma qDelta_diff:
  assumes "exact_quantity a" "exact_quantity b"
  shows "qDelta a b = (if q_Set b then q_Value b else 0) - (if q_Set a then q_Value a else 0)"
  using assms by (auto simp: qDelta_def exact_quantity_def Let_def in_i64_def intro!: wrap64_id)

lemma qDelta_swap:
  assumes "exact_quantity a" "exact_quantity b"
  shows "qDelta b a = - qDelta a b" "\<bar>qDelta a b\<bar> < 2 ^ 53"
  using assms qDelta_diff[OF assms] qDelta_diff[OF assms(2,1)] by (auto simp: exact_quantity_def)

lemma exact_zero [simp]: "exact_quantity zero_quantity"
  by (simp add: exact_quantity_def zero_quantity_def)

lemma exact_get: "(\<And>w. wo = Some w \<Longrightarrow> exact_workload w) \<Longrightarrow> exact_quantity (get wo k)"
  by (auto simp: get_def exact_workload_def split: option.split which.split)

lemma cpuCents_minus:
  fixes d :: int
  assumes "\<bar>d\<bar> < 2 ^ 51"
  shows "wrap64 (wrap64 (d * 730) * 4) = d * 2920" "\<bar>d * 2920 sdiv 1000\<bar> \<le> 2 ^ 60"
    "(- d * 2920) sdiv 1000 = - (d * 2920 sdiv 1000)"
proof -
  have "in_i64 (d * 730)" "in_i64 (d * 730 * 4)" using assms by (auto simp: in_i64_def)
  then show "wrap64 (wrap64 (d * 730) * 4) = d * 2920" by simp
  have "\<bar>d * 2920\<bar> \<le> 2 ^ 60 * 1000" using assms by (simp add: abs_mult)
  then have "\<bar>d * 2920\<bar> div 1000 \<le> 2 ^ 60" by linarith
  then show "\<bar>d * 2920 sdiv 1000\<bar> \<le> 2 ^ 60" by (simp only: abs_sdiv zero_less_numeral)
  show "(- d * 2920) sdiv 1000 = - (d * 2920 sdiv 1000)"
    by (simp add: sdiv_minus)
qed

lemma monthlyDelta_minus:
  assumes "\<bar>e_CPURequestDelta e\<bar> < 2 ^ 51" "\<bar>e_MemoryRequestDelta e\<bar> < 2 ^ 53"
    "e_CPURequestDelta e' = - e_CPURequestDelta e" "e_MemoryRequestDelta e' = - e_MemoryRequestDelta e"
  shows "monthlyDelta e' = - monthlyDelta e"
proof -
  define d m where "d = e_CPURequestDelta e" and "m = e_MemoryRequestDelta e"
  have dm: "\<bar>d\<bar> < 2 ^ 51" "\<bar>m\<bar> < 2 ^ 53" using assms(1,2) by (auto simp: d_def m_def)
  define c where "c = f64_to_i64 amd64_conv (mem_cents m)"
  have m62: "\<bar>m\<bar> < 2 ^ 62" using dm(2) by simp
  have c: "f64_to_i64 amd64_conv (mem_cents (- m)) = - c" "\<bar>c\<bar> \<le> 2 ^ 42"
    using mem_cents_conv[OF m62, of amd64_conv] by (auto simp: c_def)
  have e: "monthlyDelta e = wrap64 (d * 2920 sdiv 1000 + c)"
    using cpuCents_minus(1)[OF dm(1)]
    by (simp add: monthlyDelta_def cpuMonthlyHours_def cpuPriceCentsPerCoreHour_def
        d_def m_def c_def mem_cents_def Let_def)
  have "monthlyDelta e' = wrap64 ((- d * 2920) sdiv 1000 + f64_to_i64 amd64_conv (mem_cents (- m)))"
    using cpuCents_minus(1)[of "- d"] dm(1) assms(3,4)
    by (simp add: monthlyDelta_def cpuMonthlyHours_def cpuPriceCentsPerCoreHour_def
        d_def m_def mem_cents_def Let_def)
  then have e': "monthlyDelta e' = wrap64 (- (d * 2920 sdiv 1000 + c))"
    using cpuCents_minus(3)[OF dm(1)] c(1) by simp
  have "in_i64 (d * 2920 sdiv 1000 + c)" "in_i64 (- (d * 2920 sdiv 1000 + c))"
    using cpuCents_minus(2)[OF dm(1)] c(2) by (auto simp: in_i64_def)
  then show ?thesis by (simp add: e e')
qed

lemma named_Some: "named n ws = Some w \<Longrightarrow> w \<in> set ws"
  by (induction ws rule: rev_induct) (auto split: if_splits)

lemma change_swap:
  assumes "\<And>w. w \<in> set wlA \<union> set wlB \<Longrightarrow> modest_workload w" "n \<in> w_Name ` set wlA \<union> w_Name ` set wlB"
  shows "change wlB wlA n = mirror (change wlA wlB n)"
proof -
  define a b where "a = named n wlA" and "b = named n wlB"
  have mod: "modest_workload w" if "a = Some w \<or> b = Some w" for w
    using that assms(1) by (auto simp: a_def b_def dest: named_Some)
  then have ex: "exact_quantity (get a k)" "exact_quantity (get b k)" for k
    by (auto simp: modest_workload_def intro: exact_get)
  have "q_Value (get a reqCPU) < 2 ^ 50" "q_Value (get b reqCPU) < 2 ^ 50"
    using mod by (auto simp: modest_workload_def get_def zero_quantity_def split: option.split)
  then have cpu: "\<bar>qDelta (get a reqCPU) (get b reqCPU)\<bar> < 2 ^ 51"
    using qDelta_diff[OF ex] ex[of reqCPU] by (auto simp: exact_quantity_def)
  have some: "a \<noteq> None \<or> b \<noteq> None"
    using assms(2) named_None[of n wlA] named_None[of n wlB] by (auto simp: a_def b_def)
  define e where "e = change wlA wlB n"
  define e' where "e' = change wlB wlA n"
  have fields: "e_CPURequestDelta e' = - e_CPURequestDelta e" "e_CPULimitDelta e' = - e_CPULimitDelta e"
    "e_MemoryRequestDelta e' = - e_MemoryRequestDelta e" "e_MemoryLimitDelta e' = - e_MemoryLimitDelta e"
    using qDelta_swap(1)[OF ex]
    by (simp_all add: e_def e'_def change_def diffEntry_def pair_of_def Let_def flip: a_def b_def)
  have small: "\<bar>e_CPURequestDelta e\<bar> < 2 ^ 51" "\<bar>e_MemoryRequestDelta e\<bar> < 2 ^ 53"
    using cpu qDelta_swap(2)[OF ex, of reqMem reqMem]
    by (simp_all add: e_def change_def diffEntry_def pair_of_def Let_def flip: a_def b_def)
  have money: "e_MonthlyUSDCentsDelta e = monthlyDelta e" "e_MonthlyUSDCentsDelta e' = monthlyDelta e'"
    by (simp_all add: e_def e'_def change_def diffEntry_def monthlyDelta_def Let_def)
  have flags: "e_Name e' = e_Name e" "e_NewWorkload e' = e_RemovedWorkload e"
    "e_RemovedWorkload e' = e_NewWorkload e"
    using some by (auto simp: e_def e'_def change_def diffEntry_def pair_of_def Let_def simp flip: a_def b_def)
  have "e' = mirror e"
    using fields flags money monthlyDelta_minus[OF small fields(1,3)] by (simp add: mirror_def)
  then show ?thesis by (simp add: e_def e'_def)
qed

lemma noop_mirror [simp]: "noop_entry (mirror e) \<longleftrightarrow> noop_entry e"
  by (auto simp: noop_entry_def mirror_def)

lemma Name_mirror [simp]: "e_Name (mirror e) = e_Name e"
  by (simp add: mirror_def)

lemma sorted_map_mirror: "sorted_by entry_less (map mirror es) \<longleftrightarrow> sorted_by entry_less es"
  by (induction es) (auto simp: entry_less_def)

lemma diff_entries_swap:
  assumes "\<And>w. w \<in> set wlA \<union> set wlB \<Longrightarrow> modest_workload w"
  shows "diff_entries wlB wlA = map mirror (diff_entries wlA wlB)"
proof (rule entries_unique)
  show "sorted_by entry_less (diff_entries wlB wlA)" by (rule sorted_diff_entries)
  show "sorted_by entry_less (map mirror (diff_entries wlA wlB))"
    by (simp add: sorted_map_mirror sorted_diff_entries)
  show "distinct (map e_Name (diff_entries wlB wlA))" by (rule distinct_diff_entries)
  show "distinct (map e_Name (map mirror (diff_entries wlA wlB)))"
    using distinct_diff_entries[of wlA wlB] by (simp add: comp_def)
  let ?N = "w_Name ` set wlA \<union> w_Name ` set wlB"
  have swap: "change wlB wlA n = mirror (change wlA wlB n)" if "n \<in> ?N" for n
    using assms that by (rule change_swap)
  have "set (map mirror (diff_entries wlA wlB))
      = (\<lambda>n. mirror (change wlA wlB n)) ` {n \<in> ?N. \<not> noop_entry (change wlA wlB n)}"
    by (simp add: set_diff_entries image_image)
  also have "\<dots> = change wlB wlA ` {n \<in> ?N. \<not> noop_entry (change wlB wlA n)}"
    by (rule image_cong) (auto simp: swap)
  also have "\<dots> = set (diff_entries wlB wlA)" by (simp add: set_diff_entries Un_commute)
  finally show "set (diff_entries wlB wlA) = set (map mirror (diff_entries wlA wlB))" ..
qed

section \<open>Properties of the analysis\<close>

text \<open>
  The filter keeps exactly the findings the flags ask for (security findings only, one of the
  listed detectors after trimming, at least the given severity), in their order, and nothing else
  of the report changes; filtering twice with the same flags is filtering once.
\<close>

lemma filter_exact:
  "Filter r opts = r\<lparr>r_Findings := filter (keeps opts) (r_Findings r)\<rparr> \<and>
   Filter (Filter r opts) opts = Filter r opts"
  by (simp add: Filter_eq)

text \<open>
  The score is 100 less the penalties of all findings and never below zero; the penalty table has
  one row per detector that reported, with the sum of that detector's penalties; and the
  grade is the one of the score.
\<close>

lemma score_exact:
  "sc_Value (Compute src n fs) = max 0 (100 - (\<Sum>f \<leftarrow> fs. penaltyFor (f_Severity f))) \<and>
   sc_Value (Compute src n fs) \<in> {0..100} \<and>
   sc_Penalties (Compute src n fs) =
     (\<lambda>d. if d \<in> f_DetectorID ` set fs
          then Some (\<Sum>f \<leftarrow> filter (\<lambda>f. f_DetectorID f = d) fs. penaltyFor (f_Severity f)) else None) \<and>
   sc_Grade (Compute src n fs) = GradeFor (sc_Value (Compute src n fs))"
  using penalty_sum_nonneg[of fs] by (simp add: Value_Compute Penalties_Compute Grade_Compute)

text \<open>
  More findings never give a better score nor a better percentile: if the findings of one report
  are among those of another (with multiplicity), the other's score is at most as high.
\<close>

lemma score_antitone:
  assumes "mset fs \<subseteq># mset gs"
  shows "sc_Value (Compute src' m gs) \<le> sc_Value (Compute src n fs) \<and>
    g_PercentileRank (sc_Grade (Compute src' m gs)) \<le> g_PercentileRank (sc_Grade (Compute src n fs))"
proof -
  have le: "sc_Value (Compute src' m gs) \<le> sc_Value (Compute src n fs)"
    using penalty_sum_mono[OF assms] by (simp add: Value_Compute)
  have "length (filter (\<lambda>x. x < s) xs) \<le> length (filter (\<lambda>x. x < t) xs)"
    if "s \<le> t" for s t :: int and xs using that by (induction xs) auto
  with le show ?thesis
    unfolding Grade_Compute GradeFor_def by (simp add: percentileRank_calibration)
qed

theorem score_antitone_witness:
  "sc_Value (Compute ''a'' 1 [finding ''d'' ''w'' [] [] SeverityMed ConfidenceLow,
       finding ''e'' ''w'' [] [] SeverityHigh ConfidenceLow])
     \<le> sc_Value (Compute ''b'' 1 [finding ''e'' ''w'' [] [] SeverityHigh ConfidenceLow]) \<and>
   g_PercentileRank (sc_Grade (Compute ''a'' 1 [finding ''d'' ''w'' [] [] SeverityMed ConfidenceLow,
       finding ''e'' ''w'' [] [] SeverityHigh ConfidenceLow]))
     \<le> g_PercentileRank (sc_Grade (Compute ''b'' 1 [finding ''e'' ''w'' [] [] SeverityHigh ConfidenceLow]))"
  by (rule score_antitone) simp

text \<open>
  C10. The binary search over a sorted population returns what the comment promises: the
  percentage, rounded down, of the population that scored strictly less.
\<close>

theorem percentile_exact:
  assumes "sorted population" "population \<noteq> []"
  shows "percentileRank score population
    = int (length (filter (\<lambda>x. x < score) population)) * 100 div int (length population)"
proof -
  let ?b = "int (length (filter (\<lambda>x. x < score) population))"
  have "0 < int (length population)" using assms(2) by simp
  moreover have "?b \<le> int (length population)" using length_filter_le[of _ population] by simp
  ultimately have "?b * 100 div int (length population) \<le> 100"
    using zdiv_mono1[of "?b * 100" "int (length population) * 100" "int (length population)"] by simp
  then show ?thesis
    using assms(2) by (simp add: percentileRank_def search_sorted[OF assms(1)] Let_def)
qed

theorem percentile_exact_witness:
  "percentileRank 70 [40, 60, 70, 90] = 50"
  using percentile_exact[of "[40, 60, 70, 90]" 70] by simp

text \<open>
  Comparing a values file with itself reports no change and no cost.
\<close>

lemma diff_self:
  assumes "ParseValues unmarshal conv r = Inr ws"
  shows "\<exists>d. Diff unmarshal conv r r aLabel bLabel = Inr d \<and> dr_Entries d = [] \<and> MonthlyUSDCentsDelta d = 0"
  using assms by (simp add: Diff_def diff_entries_same MonthlyUSDCentsDelta_def)

theorem diff_self_witness:
  "\<exists>d. Diff (\<lambda>_. Inr (Node DocumentNode [] [example_top])) amd64_conv (Inr ''f'') (Inr ''f'') ''a'' ''b''
      = Inr d \<and> dr_Entries d = [] \<and> MonthlyUSDCentsDelta d = 0"
  using diff_self[of "\<lambda>_. Inr (Node DocumentNode [] [example_top])" amd64_conv "Inr ''f''"
      "stable_sort name_less (walk amd64_conv example_top [])" "''a''" "''b''"]
  by (simp add: ParseValues_def example_top_def)

text \<open>
  Exchanging the two files mirrors the comparison: the same workloads in the same order, added and
  removed exchanged, and every delta, the monthly cost included, with the opposite sign (for
  workloads below \<open>2 ^ 53\<close> bytes and \<open>2 ^ 50\<close> millicores, where no arithmetic wraps).
\<close>

lemma diff_mirror:
  assumes "\<And>w. w \<in> set wlA \<union> set wlB \<Longrightarrow> modest_workload w"
  shows "diff_entries wlB wlA = map mirror (diff_entries wlA wlB)"
  using assms by (rule diff_entries_swap)

theorem diff_mirror_witness:
  "diff_entries [sized_workload 500 1000 0 0] [sized_workload 1500 2000 1024 2048]
     = map mirror (diff_entries [sized_workload 1500 2000 1024 2048] [sized_workload 500 1000 0 0])"
  by (rule diff_mirror)
    (auto simp: modest_workload_def exact_workload_def exact_quantity_def sized_workload_def)

text \<open>
  The comparison is complete and ordered: strictly sorted by name, it has one entry for each
  workload of either file, except for those declared on both sides with the same four amounts.
\<close>

lemma diff_exact:
  "sorted_wrt (<) (map e_Name (diff_entries wlA wlB)) \<and>
   set (diff_entries wlA wlB) =
     change wlA wlB ` {n \<in> w_Name ` set wlA \<union> w_Name ` set wlB. \<not> noop_entry (change wlA wlB n)}"
proof -
  have "sorted (map e_Name (diff_entries wlA wlB))"
    using sorted_diff_entries[of wlA wlB]
    by (simp add: sorted_by_def entry_less_def sorted_wrt_map not_less)
  then show ?thesis
    using distinct_diff_entries[of wlA wlB] by (simp add: strict_sorted_iff set_diff_entries)
qed

end
