(* ===== verification/Roast.thy ===== *)
theory Roast
  imports Report
begin

text \<open>
  \<^verbatim>\<open>internal/roast/roast.go\<close>: the tone pass of \<open>--roast\<close>. A static table of titles keyed by
  detector; everything else of a report must stay as it is.
\<close>

definition titles :: "(string \<times> string) list" where
  "titles =
     [(''cpu-overprovisioned'', ''CPU on a buffet plan, eating air''),
      (''memory-overprovisioned'', ''RAM hoarder spotted''),
      (''cpu-limit-far-above-request'', ''CPU limit cosplaying as the request''),
      (''memory-limit-far-above-request'', ''Memory limit set to '' @ [CHR 0xE2, CHR 0x80, CHR 0x98] @ ''yes'' @ [CHR 0xE2, CHR 0x80, CHR 0x99]),
      (''oversized-cpu-limit'', ''CPU limit thinks it'' @ [CHR 0xE2, CHR 0x80, CHR 0x99] @ ''s a mainframe''),
      (''oversized-memory-limit'', ''Memory limit measured in optimism''),
      (''replicas-too-high'', ''Replicas: more is more, allegedly''),
      (''excessive-replica-count'', ''Counting replicas like sheep, but billed''),
      (''unbounded-image-tag'', ''Image tag :latest, the eternal mystery''),
      (''cpu-without-memory-request'', ''CPU set, memory hopes for the best''),
      (''memory-without-cpu-request'', ''Memory set, CPU left to vibes''),
      (''cpu-request-equals-limit'', ''Guaranteed QoS, guaranteed bill''),
      (''memory-request-equals-limit'', ''Memory request equals limit, equals waste''),
      (''tiny-cpu-request'', ''CPU request smaller than a tweet''),
      (''tiny-memory-request'', ''Memory request: '' @ [CHR 0xE2, CHR 0x80, CHR 0x98] @ ''ehh, should be fine'' @ [CHR 0xE2, CHR 0x80, CHR 0x99]),
      (''idle-workload'', ''replicas: 0, a Deployment in witness protection''),
      (''missing-cpu-limit'', ''No CPU limit '' @ em_dash @ '' let it cook''),
      (''missing-memory-limit'', ''OOM is just a feature flag now''),
      (''image-pinned-latest'', ''Pinned to :latest, prayed to gods''),
      (''run-as-root'', ''runAsNonRoot=false, runAsBoldness=true''),
      (''runs-as-uid-zero'', ''UID 0 because regulations are a suggestion''),
      (''privileged-container'', ''privileged=true, consequences=later''),
      (''host-network'', ''hostNetwork '' @ em_dash @ '' sharing is caring''),
      (''host-pid'', ''hostPID enabled, neighbors visible''),
      (''host-ipc'', ''hostIPC enabled, gossip enabled''),
      (''read-only-root-fs-missing'', ''rootfs read-write, regrets read-only''),
      (''allow-privilege-escalation'', ''allowPrivilegeEscalation: yolo''),
      (''host-path-volume'', ''hostPath mount, host'' @ [CHR 0xE2, CHR 0x80, CHR 0x99] @ ''s problem''),
      (''dangerous-capability-added'', ''Adding caps like party hats''),
      (''capabilities-not-dropped-all'', ''drop ALL? Couldn'' @ [CHR 0xE2, CHR 0x80, CHR 0x99] @ ''t be us''),
      (''service-account-token-automount'', ''SA token auto-mounted, attacker auto-pivots'')]"

definition titleFor :: "Finding \<Rightarrow> string" where
  "titleFor f = (case map_of titles (f_DetectorID f) of Some alt \<Rightarrow> alt | None \<Rightarrow> f_Title f)"

definition roast_Apply :: "Report \<Rightarrow> Report" where
  "roast_Apply r = r\<lparr>r_Findings := map (\<lambda>f. f\<lparr>f_Title := titleFor f\<rparr>) (r_Findings r)\<rparr>"

lemma titles_All: "map fst titles = map d_ID All"
  by (simp add: titles_def ids_All)

lemma titles_nonempty: "(k, t) \<in> set titles \<Longrightarrow> t \<noteq> []"
  by (auto simp: titles_def em_dash_def)

lemma titleFor_registered:
  assumes "f_DetectorID f \<in> d_ID ` set All"
  shows "(f_DetectorID f, titleFor f) \<in> set titles"
proof -
  have "f_DetectorID f \<in> fst ` set titles"
    using assms titles_All by (metis list.set_map)
  then obtain t where "map_of titles (f_DetectorID f) = Some t"
    by (metis map_of_eq_None_iff option.exhaust)
  then show ?thesis by (simp add: titleFor_def map_of_SomeD)
qed

text \<open>
  Roasting a report of the registered detectors rewrites titles only: source, workload count and
  order stay, each finding keeps workload, detail, savings, severity, confidence, category and
  signal, the savings total stays, and every finding gets a non-empty title of the table, the table
  having exactly one line per registered detector in the order of the registry.
\<close>

lemma roast_titles_only:
  "(let r' = roast_Apply r
    in r_Source r' = r_Source r \<and> r_Workloads r' = r_Workloads r \<and>
       map (\<lambda>f. f\<lparr>f_Title := []\<rparr>) (r_Findings r') = map (\<lambda>f. f\<lparr>f_Title := []\<rparr>) (r_Findings r) \<and>
       MonthlySavingsUSDCents r' = MonthlySavingsUSDCents r) \<and>
   map fst titles = map d_ID All \<and>
   list_all (\<lambda>f. (f_DetectorID f, f_Title f) \<in> set titles \<and> f_Title f \<noteq> [])
     (r_Findings (roast_Apply \<lparr>r_Source = src, r_Workloads = n, r_Findings = Run ws All\<rparr>))"
proof -
  have "f_DetectorID f \<in> d_ID ` set All" if "f \<in> set (Run ws All)" for f
    using that by (auto simp: set_Run elim!: registry.runAll_origin)
  then have "(f_DetectorID f, titleFor f) \<in> set titles" if "f \<in> set (Run ws All)" for f
    using that by (intro titleFor_registered)
  then have "list_all (\<lambda>f. (f_DetectorID f, f_Title f) \<in> set titles \<and> f_Title f \<noteq> [])
      (r_Findings (roast_Apply \<lparr>r_Source = src, r_Workloads = n, r_Findings = Run ws All\<rparr>))"
    using titles_nonempty by (auto simp: roast_Apply_def list_all_iff)
  then show ?thesis
    by (simp add: roast_Apply_def MonthlySavingsUSDCents_def foldl_map Let_def titles_All comp_def)
qed

end
