(* ===== verification/Cli.thy ===== *)
theory Cli
  imports Analyze Roast
begin

text \<open>
  The command line: the configuration file (\<^verbatim>\<open>internal/config/config.go\<close>), the commands and the
  exit codes (\<^verbatim>\<open>cmd/optiqor/main.go\<close>), and the functions of \<^verbatim>\<open>internal/analyze\<close> that open
  files. The operating system is a parameter: the environment, the working directory, \<open>stat\<close>
  and \<open>open\<close> as a record of functions, and what becomes of each write as a function from the
  action to an error. The flag parser (cobra) is outside: a command is modelled with its
  parsed flags and arguments.
\<close>

record os =
  os_getenv :: "string \<Rightarrow> string"
  os_getwd :: "string + string"
  os_stat :: "string \<Rightarrow> string + bool"
  os_open :: "string \<Rightarrow> string + (string + string)"

section \<open>Paths (\<open>path/filepath\<close> on Unix)\<close>

fun split_slash :: "string \<Rightarrow> string list" where
  "split_slash [] = [[]]"
| "split_slash (c # s) =
     (if c = CHR ''/'' then [] # split_slash s
      else case split_slash s of [] \<Rightarrow> [[c]] | p # ps \<Rightarrow> (c # p) # ps)"

text \<open>The elements kept so far, the last one first.\<close>

fun clean_loop :: "bool \<Rightarrow> string list \<Rightarrow> string list \<Rightarrow> string list" where
  "clean_loop rooted acc [] = rev acc"
| "clean_loop rooted acc (p # ps) =
     (if p = [] \<or> p = ''.'' then clean_loop rooted acc ps
      else if p = ''..''
      then (case acc of
              q # qs \<Rightarrow> if q = ''..'' then clean_loop rooted (p # acc) ps else clean_loop rooted qs ps
            | [] \<Rightarrow> if rooted then clean_loop rooted [] ps else clean_loop rooted [p] ps)
      else clean_loop rooted (p # acc) ps)"

definition is_abs :: "string \<Rightarrow> bool" where
  "is_abs p \<longleftrightarrow> p \<noteq> [] \<and> hd p = CHR ''/''"

definition path_clean :: "string \<Rightarrow> string" where
  "path_clean p =
     (if p = [] then ''.''
      else let s = join ''/'' (clean_loop (is_abs p) [] (split_slash p))
           in if is_abs p then CHR ''/'' # s else if s = [] then ''.'' else s)"

definition path_join :: "string \<Rightarrow> string \<Rightarrow> string" where
  "path_join a b =
     (case filter (\<lambda>p. p \<noteq> []) [a, b] of [] \<Rightarrow> [] | ps \<Rightarrow> path_clean (join ''/'' ps))"

definition path_abs :: "os \<Rightarrow> string \<Rightarrow> string + string" where
  "path_abs sys p =
     (if is_abs p then Inr (path_clean p)
      else case os_getwd sys of Inl e \<Rightarrow> Inl e | Inr wd \<Rightarrow> Inr (path_join wd p))"

section \<open>The configuration file\<close>

record Config =
  c_MinSeverity :: string
  c_Detectors :: "string list"
  c_FailOn :: string
  c_NoColor :: bool

definition zero_Config :: Config where
  "zero_Config = \<lparr>c_MinSeverity = [], c_Detectors = [], c_FailOn = [], c_NoColor = False\<rparr>"

definition ConfigName :: string where "ConfigName = ''.optiqor.yaml''"

definition lower_byte :: "char \<Rightarrow> char" where
  "lower_byte c = (if 65 \<le> (of_char c :: nat) \<and> (of_char c :: nat) \<le> 90 then char_of ((of_char c :: nat) + 32) else c)"

definition toLower :: "string \<Rightarrow> string" where
  "toLower s = map lower_byte s"

datatype config_error =
  ConfigOpen string string | ConfigRead string | ConfigYaml string | ConfigSeverity string string

definition Validate :: "Config \<Rightarrow> config_error option" where
  "Validate c =
     (case filter (\<lambda>(name, v). v \<noteq> [] \<and> toLower v \<notin> {''low'', ''med'', ''medium'', ''high''})
             [(''min_severity'', c_MinSeverity c), (''fail_on'', c_FailOn c)] of
        [] \<Rightarrow> None
      | (name, v) # _ \<Rightarrow> Some (ConfigSeverity name v))"

definition Decode :: "(string \<Rightarrow> string + Config) \<Rightarrow> string + string \<Rightarrow> config_error + Config" where
  "Decode yaml r =
     (case r of
        Inl e \<Rightarrow> Inl (ConfigRead e)
      | Inr raw \<Rightarrow>
          if raw = [] then Inr zero_Config
          else case yaml raw of
                 Inl e \<Rightarrow> Inl (ConfigYaml e)
               | Inr c \<Rightarrow> (case Validate c of Some e \<Rightarrow> Inl e | None \<Rightarrow> Inr c))"

definition readFile :: "os \<Rightarrow> (string \<Rightarrow> string + Config) \<Rightarrow> string \<Rightarrow> config_error + Config" where
  "readFile sys yaml path =
     (case os_open sys path of Inl e \<Rightarrow> Inl (ConfigOpen path e) | Inr f \<Rightarrow> Decode yaml f)"

definition Load :: "os \<Rightarrow> (string \<Rightarrow> string + Config) \<Rightarrow> string \<Rightarrow> config_error + Config" where
  "Load sys yaml explicit =
     (if explicit \<noteq> [] then readFile sys yaml explicit
      else let env = os_getenv sys ''OPTIQOR_CONFIG''
           in if env \<noteq> [] then readFile sys yaml env
              else case os_getwd sys of
                     Inl _ \<Rightarrow> Inr zero_Config
                   | Inr cwd \<Rightarrow>
                       let candidate = path_join cwd ConfigName
                       in case os_stat sys candidate of
                            Inr _ \<Rightarrow> readFile sys yaml candidate
                          | Inl _ \<Rightarrow> Inr zero_Config)"

section \<open>Errors and exit codes\<close>

datatype cli_error =
    ErrFindings
  | ConfigFailed config_error
  | AbsFailed string
  | StatFailed string string
  | OpenFailed string string
  | ParseFailed parse_error
  | DiffFailed diff_error
  | InvalidFailOn string
  | WriteFailed string
  | NotYetImplemented string

definition exitSuccess :: int where "exitSuccess = 0"
definition exitFindings :: int where "exitFindings = 1"
definition exitInvocation :: int where "exitInvocation = 2"
definition exitInternal :: int where "exitInternal = 3"

lemmas exit_consts = exitSuccess_def exitFindings_def exitInvocation_def exitInternal_def

definition main_exit :: "cli_error option \<Rightarrow> int" where
  "main_exit err =
     (case err of
        None \<Rightarrow> exitSuccess
      | Some e \<Rightarrow> if e = ErrFindings then exitFindings else exitInvocation)"

section \<open>Opening charts (\<^verbatim>\<open>analyze.go\<close>, \<^verbatim>\<open>diff.go\<close>)\<close>

definition RunPath ::
  "os \<Rightarrow> (string \<Rightarrow> string + node) \<Rightarrow> (f64 \<Rightarrow> i64) \<Rightarrow> string \<Rightarrow> cli_error + Report" where
  "RunPath sys unmarshal conv path =
     (case os_stat sys path of
        Inl e \<Rightarrow> Inl (StatFailed path e)
      | Inr isDir \<Rightarrow>
          let target = (if isDir then path_join path ''values.yaml'' else path)
          in case os_open sys target of
               Inl e \<Rightarrow> Inl (OpenFailed target e)
             | Inr f \<Rightarrow>
                 (case analyze_Run unmarshal conv f \<lparr>o_Source = target, o_Detectors = None\<rparr> of
                    Inl e \<Rightarrow> Inl (ParseFailed e)
                  | Inr rep \<Rightarrow> Inr rep))"

definition openValues :: "os \<Rightarrow> string \<Rightarrow> cli_error + (string + string)" where
  "openValues sys path =
     (case path_abs sys path of
        Inl e \<Rightarrow> Inl (AbsFailed e)
      | Inr abs_path \<Rightarrow>
          (case os_stat sys abs_path of
             Inl e \<Rightarrow> Inl (StatFailed abs_path e)
           | Inr isDir \<Rightarrow>
               let target = (if isDir then path_join abs_path ''values.yaml'' else abs_path)
               in case os_open sys target of Inl e \<Rightarrow> Inl (OpenFailed target e) | Inr f \<Rightarrow> Inr f))"

definition DiffPaths ::
  "os \<Rightarrow> (string \<Rightarrow> string + node) \<Rightarrow> (f64 \<Rightarrow> i64) \<Rightarrow> string \<Rightarrow> string \<Rightarrow> cli_error + DiffReport" where
  "DiffPaths sys unmarshal conv a b =
     (case openValues sys a of
        Inl e \<Rightarrow> Inl e
      | Inr fa \<Rightarrow>
          (case openValues sys b of
             Inl e \<Rightarrow> Inl e
           | Inr fb \<Rightarrow>
               (case Diff unmarshal conv fa fb a b of Inl e \<Rightarrow> Inl (DiffFailed e) | Inr d \<Rightarrow> Inr d)))"

section \<open>Severity thresholds\<close>

definition upper_byte :: "char \<Rightarrow> char" where
  "upper_byte c = (if 97 \<le> (of_char c :: nat) \<and> (of_char c :: nat) \<le> 122 then char_of ((of_char c :: nat) - 32) else c)"

definition toUpper :: "string \<Rightarrow> string" where
  "toUpper s = map upper_byte s"

definition cli_severityRank :: "Severity \<Rightarrow> int" where
  "cli_severityRank s =
     (if s = SeverityHigh then 3 else if s = SeverityMed then 2 else if s = SeverityLow then 1 else 0)"

definition validSeverity :: "Severity \<Rightarrow> bool" where
  "validSeverity s \<longleftrightarrow> s = SeverityHigh \<or> s = SeverityMed \<or> s = SeverityLow"

definition checkFailOn :: "Report \<Rightarrow> string \<Rightarrow> cli_error option" where
  "checkFailOn rep threshold =
     (if threshold = [] then None
      else let threshSev = toUpper threshold
           in if \<not> validSeverity threshSev then Some (InvalidFailOn threshold)
              else if list_ex (\<lambda>f. cli_severityRank (f_Severity f) \<ge> cli_severityRank threshSev) (r_Findings rep)
              then Some ErrFindings else None)"

section \<open>Commands\<close>

text \<open>What a command asks of the outside world, in the order in which it asks.\<close>

datatype action =
    WriteHTML string Report
  | EmitJSON string Report
  | EmitText string bool Report
  | ShareUpload Report
  | EmitScore bool Score
  | EmitDiff bool DiffReport

definition emitReport :: "Report \<Rightarrow> bool \<Rightarrow> string \<Rightarrow> bool \<Rightarrow> action" where
  "emitReport rep jsonOut outputPath roast =
     (if jsonOut then EmitJSON outputPath rep else EmitText outputPath roast rep)"

record analyze_flags =
  af_json :: bool
  af_html :: string
  af_share :: bool
  af_roast :: bool
  af_severity :: string
  af_detectors :: "string list"
  af_failOn :: string
  af_output :: string

text \<open>A write that fails ends the command; sharing never does.\<close>

definition do_write :: "(action \<Rightarrow> string option) \<Rightarrow> action \<Rightarrow> action list \<times> cli_error option \<Rightarrow>
    action list \<times> cli_error option" where
  "do_write perform a rest =
     (case perform a of
        Some e \<Rightarrow> ([a], Some (WriteFailed e))
      | None \<Rightarrow> (case rest of (as, res) \<Rightarrow> (a # as, res)))"

definition analyze_RunE ::
  "os \<Rightarrow> (string \<Rightarrow> string + node) \<Rightarrow> (f64 \<Rightarrow> i64) \<Rightarrow> (action \<Rightarrow> string option) \<Rightarrow>
   Config \<Rightarrow> analyze_flags \<Rightarrow> string option \<Rightarrow> action list \<times> cli_error option" where
  "analyze_RunE sys unmarshal conv perform cfg fl arg =
     (let path = (case arg of Some p \<Rightarrow> p | None \<Rightarrow> ''.'')
      in case path_abs sys path of
           Inl e \<Rightarrow> ([], Some (AbsFailed e))
         | Inr abs_path \<Rightarrow>
             (case RunPath sys unmarshal conv abs_path of
                Inl e \<Rightarrow> ([], Some e)
              | Inr rep \<Rightarrow>
                  let effSev = (if af_severity fl = [] then c_MinSeverity cfg else af_severity fl);
                      effDetectors = (if af_detectors fl = [] then c_Detectors cfg else af_detectors fl);
                      effFailOn = (if af_failOn fl = [] then c_FailOn cfg else af_failOn fl);
                      rep = Filter rep \<lparr>fo_MinSeverity = toUpper effSev, fo_DetectorIDs = effDetectors,
                                        fo_SecurityOnly = False\<rparr>;
                      rep = (if af_roast fl then roast_Apply rep else rep);
                      shared = (if af_share fl then [ShareUpload rep] else []);
                      emit = do_write perform (emitReport rep (af_json fl) (af_output fl) (af_roast fl))
                               (shared, checkFailOn rep effFailOn)
                  in if af_html fl \<noteq> [] then do_write perform (WriteHTML (af_html fl) rep) emit else emit))"

definition demo_RunE ::
  "(string \<Rightarrow> string + node) \<Rightarrow> (f64 \<Rightarrow> i64) \<Rightarrow> (action \<Rightarrow> string option) \<Rightarrow> string \<Rightarrow>
   bool \<Rightarrow> bool \<Rightarrow> action list \<times> cli_error option" where
  "demo_RunE unmarshal conv perform demoChart jsonOut roast =
     (case analyze_Run unmarshal conv (Inr demoChart) \<lparr>o_Source = ''demo'', o_Detectors = None\<rparr> of
        Inl e \<Rightarrow> ([], Some (ParseFailed e))
      | Inr rep \<Rightarrow>
          let rep = (if roast then roast_Apply rep else rep)
          in do_write perform (if jsonOut then EmitJSON [] rep else EmitText [] roast rep) ([], None))"

definition diff_RunE ::
  "os \<Rightarrow> (string \<Rightarrow> string + node) \<Rightarrow> (f64 \<Rightarrow> i64) \<Rightarrow> (action \<Rightarrow> string option) \<Rightarrow> bool \<Rightarrow>
   string \<Rightarrow> string \<Rightarrow> action list \<times> cli_error option" where
  "diff_RunE sys unmarshal conv perform jsonOut a b =
     (case DiffPaths sys unmarshal conv a b of
        Inl e \<Rightarrow> ([], Some e)
      | Inr rep \<Rightarrow> do_write perform (EmitDiff jsonOut rep) ([], None))"

definition score_RunE ::
  "os \<Rightarrow> (string \<Rightarrow> string + node) \<Rightarrow> (f64 \<Rightarrow> i64) \<Rightarrow> (action \<Rightarrow> string option) \<Rightarrow> bool \<Rightarrow>
   string option \<Rightarrow> action list \<times> cli_error option" where
  "score_RunE sys unmarshal conv perform jsonOut arg =
     (let path = (case arg of Some p \<Rightarrow> p | None \<Rightarrow> ''.'')
      in case path_abs sys path of
           Inl e \<Rightarrow> ([], Some (AbsFailed e))
         | Inr abs_path \<Rightarrow>
             (case RunPath sys unmarshal conv abs_path of
                Inl e \<Rightarrow> ([], Some e)
              | Inr rep \<Rightarrow>
                  do_write perform
                    (EmitScore jsonOut (Compute (r_Source rep) (r_Workloads rep) (r_Findings rep)))
                    ([], None)))"

definition audit_RunE ::
  "os \<Rightarrow> (string \<Rightarrow> string + node) \<Rightarrow> (f64 \<Rightarrow> i64) \<Rightarrow> (action \<Rightarrow> string option) \<Rightarrow> bool \<Rightarrow>
   string \<Rightarrow> string \<Rightarrow> string option \<Rightarrow> action list \<times> cli_error option" where
  "audit_RunE sys unmarshal conv perform jsonOut failOn outputPath arg =
     (let path = (case arg of Some p \<Rightarrow> p | None \<Rightarrow> ''.'')
      in case path_abs sys path of
           Inl e \<Rightarrow> ([], Some (AbsFailed e))
         | Inr abs_path \<Rightarrow>
             (case RunPath sys unmarshal conv abs_path of
                Inl e \<Rightarrow> ([], Some e)
              | Inr rep \<Rightarrow>
                  let rep = Filter rep \<lparr>fo_MinSeverity = [], fo_DetectorIDs = [], fo_SecurityOnly = True\<rparr>
                  in do_write perform (emitReport rep jsonOut outputPath False)
                       ([], checkFailOn rep failOn)))"

datatype command =
    CmdAnalyze analyze_flags "string option"
  | CmdDemo bool bool
  | CmdDiff bool string string
  | CmdScore bool "string option"
  | CmdAudit bool string string "string option"
  | CmdWatch
  | CmdCompare bool string string

definition RunE ::
  "os \<Rightarrow> (string \<Rightarrow> string + node) \<Rightarrow> (f64 \<Rightarrow> i64) \<Rightarrow> (action \<Rightarrow> string option) \<Rightarrow> string \<Rightarrow>
   Config \<Rightarrow> command \<Rightarrow> action list \<times> cli_error option" where
  "RunE sys unmarshal conv perform demoChart cfg cmd =
     (case cmd of
        CmdAnalyze fl arg \<Rightarrow> analyze_RunE sys unmarshal conv perform cfg fl arg
      | CmdDemo jsonOut roast \<Rightarrow> demo_RunE unmarshal conv perform demoChart jsonOut roast
      | CmdDiff jsonOut a b \<Rightarrow> diff_RunE sys unmarshal conv perform jsonOut a b
      | CmdScore jsonOut arg \<Rightarrow> score_RunE sys unmarshal conv perform jsonOut arg
      | CmdAudit jsonOut failOn outputPath arg \<Rightarrow>
          audit_RunE sys unmarshal conv perform jsonOut failOn outputPath arg
      | CmdWatch \<Rightarrow> ([], Some (NotYetImplemented ''watch''))
      | CmdCompare jsonOut a b \<Rightarrow> diff_RunE sys unmarshal conv perform jsonOut a b)"

text \<open>The persistent pre-run loads the configuration before any command runs.\<close>

definition execute ::
  "os \<Rightarrow> (string \<Rightarrow> string + Config) \<Rightarrow> (string \<Rightarrow> string + node) \<Rightarrow> (f64 \<Rightarrow> i64) \<Rightarrow>
   (action \<Rightarrow> string option) \<Rightarrow> string \<Rightarrow> string \<Rightarrow> command \<Rightarrow> action list \<times> cli_error option" where
  "execute sys yaml unmarshal conv perform demoChart configPath cmd =
     (case Load sys yaml configPath of
        Inl e \<Rightarrow> ([], Some (ConfigFailed e))
      | Inr cfg \<Rightarrow> RunE sys unmarshal conv perform demoChart cfg cmd)"

section \<open>Colour and width\<close>

text \<open>\<open>no_color_env\<close> is the value of \<open>NO_COLOR\<close> if it is set; \<open>tty\<close> is \<open>None\<close> when standard output is not a file.\<close>

definition resolveColor :: "string option \<Rightarrow> string \<Rightarrow> bool option \<Rightarrow> bool \<Rightarrow> bool" where
  "resolveColor no_color_env force tty noColor =
     (if noColor then False
      else if (case no_color_env of Some v \<Rightarrow> v \<noteq> [] | None \<Rightarrow> False) then False
      else if force = ''1'' then True
      else case tty of None \<Rightarrow> False | Some b \<Rightarrow> b)"

definition cli_atoi :: "string \<Rightarrow> i64 option" where
  "cli_atoi s = digit_loop 0 s"

definition terminalWidth :: "os \<Rightarrow> i64" where
  "terminalWidth sys =
     (let v = os_getenv sys ''COLUMNS''
      in if v \<noteq> []
         then (case cli_atoi v of Some n \<Rightarrow> if n > 20 then n else 80 | None \<Rightarrow> 80)
         else 80)"

section \<open>What the commands do\<close>

lemma RunPath_reads:
  assumes "os_stat sys p = Inr isDir" "os_open sys (if isDir then path_join p ''values.yaml'' else p) = Inr f"
    "ParseValues unmarshal conv f = Inr ws"
  shows "RunPath sys unmarshal conv p =
    Inr \<lparr>r_Source = if isDir then path_join p ''values.yaml'' else p, r_Workloads = int (length ws),
         r_Findings = Run ws All\<rparr>"
  using assms by (simp add: RunPath_def analyze_Run_def Let_def)

lemma do_write_ok: "perform a = None \<Longrightarrow> do_write perform a rest = (a # fst rest, snd rest)"
  by (simp add: do_write_def split: prod.split)

text \<open>What the gate decides from the severities of the findings alone.\<close>

definition gate :: "string \<Rightarrow> Severity list \<Rightarrow> int" where
  "gate threshold sevs =
     (if threshold = [] then 0
      else if toUpper threshold \<notin> {SeverityLow, SeverityMed, SeverityHigh} then 2
      else if \<exists>s \<in> set sevs. severityRank (toUpper threshold) \<le> severityRank s then 1 else 0)"

lemma main_exit_checkFailOn: "main_exit (checkFailOn rep t) = gate t (map f_Severity (r_Findings rep))"
  by (auto simp: main_exit_def checkFailOn_def gate_def validSeverity_def cli_severityRank_def
      severityRank_def exit_consts list_ex_iff Let_def)

lemma roast_Severities: "map f_Severity (r_Findings (roast_Apply r)) = map f_Severity (r_Findings r)"
  by (simp add: roast_Apply_def)

lemma ranked_low: "ranked f \<Longrightarrow> severityRank SeverityLow \<le> severityRank (f_Severity f)"
  by (auto simp: ranked_def severityRank_def rule_consts)

lemma toUpper_low: "toUpper ''low'' = SeverityLow" "toUpper ''med'' = SeverityMed"
  "toUpper ''high'' = SeverityHigh" "toUpper ''medium'' = ''MEDIUM''" "toUpper [] = []"
  by code_simp+

lemma share_do_write:
  "ShareUpload r \<in> set (fst (do_write perform a rest)) \<Longrightarrow> a = ShareUpload r \<or> ShareUpload r \<in> set (fst rest)"
  by (auto simp: do_write_def split: option.splits prod.splits)

lemma emitReport_no_share: "emitReport rep j out ro \<noteq> ShareUpload r"
  by (simp add: emitReport_def)

lemma share_analyze:
  "ShareUpload r \<in> set (fst (analyze_RunE sys unmarshal conv perform cfg fl arg)) \<Longrightarrow> af_share fl"
  by (auto simp: analyze_RunE_def emitReport_no_share Let_def
      split: sum.splits if_splits dest!: share_do_write)

lemma share_others:
  "ShareUpload r \<notin> set (fst (demo_RunE unmarshal conv perform d j ro))"
  "ShareUpload r \<notin> set (fst (diff_RunE sys unmarshal conv perform j a b))"
  "ShareUpload r \<notin> set (fst (score_RunE sys unmarshal conv perform j arg))"
  "ShareUpload r \<notin> set (fst (audit_RunE sys unmarshal conv perform j t out arg))"
  by (auto simp: demo_RunE_def diff_RunE_def score_RunE_def audit_RunE_def emitReport_no_share Let_def
      split: sum.splits if_splits dest!: share_do_write)

section \<open>Properties of the command line\<close>

text \<open>
  C5. \<open>optiqor audit --fail-on=low\<close> is a gate for the hardening baseline: when the chart can be
  read and the report written, it exits with 0 if every workload is hardened and with 1
  otherwise.
\<close>

theorem audit_low_gate:
  assumes "Load sys yaml configPath = Inr cfg"
    and "path_abs sys (case arg of Some p \<Rightarrow> p | None \<Rightarrow> ''.'') = Inr p"
    and "os_stat sys p = Inr isDir" "os_open sys (if isDir then path_join p ''values.yaml'' else p) = Inr f"
    and "ParseValues unmarshal conv f = Inr ws" "\<And>a. perform a = None"
  shows "main_exit (snd (execute sys yaml unmarshal conv perform demoChart configPath
      (CmdAudit jsonOut ''low'' outputPath arg))) = (if list_all hardened ws then 0 else 1)"
proof -
  let ?sec = "filter (\<lambda>f. f_Category f = CategorySecurity) (Run ws All)"
  let ?opts = "\<lparr>fo_MinSeverity = [], fo_DetectorIDs = [], fo_SecurityOnly = True\<rparr>"
  have "keeps ?opts = (\<lambda>f. f_Category f = CategorySecurity)" by (auto simp: keeps_def)
  then have "main_exit (snd (execute sys yaml unmarshal conv perform demoChart configPath
      (CmdAudit jsonOut ''low'' outputPath arg))) = gate ''low'' (map f_Severity ?sec)"
    using assms RunPath_reads[OF assms(3-5)]
    by (simp add: execute_def RunE_def audit_RunE_def do_write_ok main_exit_checkFailOn Findings_Filter Let_def)
  also have "\<dots> = (if ?sec = [] then 0 else 1)"
    using ranked_low[OF ranked_Run, of _ ws]
    by (cases ?sec) (auto simp: gate_def toUpper_low filter_eq_Cons_iff)
  also have "?sec = [] \<longleftrightarrow> list_all hardened ws" by (simp add: no_security_finding list_all_iff)
  finally show ?thesis by simp
qed

definition example_os :: os where
  "example_os = \<lparr>os_getenv = (\<lambda>_. []), os_getwd = Inr ''/work'',
     os_stat = (\<lambda>p. if p = ''/work/values.yaml'' then Inr False else Inl ''no such file''),
     os_open = (\<lambda>p. Inr (Inr ''web: {resources: {}}''))\<rparr>"

lemma example_os_reads:
  "Load example_os yaml [] = Inr zero_Config"
  "path_abs example_os ''values.yaml'' = Inr ''/work/values.yaml''"
  "os_stat example_os ''/work/values.yaml'' = Inr False"
  "os_open example_os p = Inr (Inr ''web: {resources: {}}'')"
proof -
  have "path_join ''/work'' ConfigName = ''/work/.optiqor.yaml''" "path_join ''/work'' ''values.yaml'' = ''/work/values.yaml''"
    by code_simp+
  then show "Load example_os yaml [] = Inr zero_Config"
    "path_abs example_os ''values.yaml'' = Inr ''/work/values.yaml''"
    "os_stat example_os ''/work/values.yaml'' = Inr False"
    "os_open example_os p = Inr (Inr ''web: {resources: {}}'')"
    by (simp_all add: example_os_def Load_def path_abs_def is_abs_def)
qed

text \<open>The one workload of \<open>web: {resources: {}}\<close> has no security context and fails the gate.\<close>

theorem audit_low_gate_witness:
  "main_exit (snd (execute example_os (\<lambda>_. Inr zero_Config)
      (\<lambda>_. Inr (Node DocumentNode [] [example_top])) amd64_conv (\<lambda>_. None) [] []
      (CmdAudit False ''low'' [] (Some ''values.yaml'')))) = 1"
proof -
  let ?ws = "stable_sort name_less (walk amd64_conv example_top [])"
  have "\<not> list_all hardened ?ws" by code_simp
  moreover have "main_exit (snd (execute example_os (\<lambda>_. Inr zero_Config)
      (\<lambda>_. Inr (Node DocumentNode [] [example_top])) amd64_conv (\<lambda>_. None) [] []
      (CmdAudit False ''low'' [] (Some ''values.yaml'')))) = (if list_all hardened ?ws then 0 else 1)"
    by (rule audit_low_gate[where isDir = False and p = "''/work/values.yaml''" and cfg = zero_Config
        and f = "Inr ''web: {resources: {}}''"])
      (simp_all add: example_os_reads ParseValues_def example_top_def)
  ultimately show ?thesis by simp
qed

text \<open>
  C6. \<open>optiqor analyze\<close> as a gate: when the chart can be read and everything written, the exit code
  is decided by the threshold (the flag, or else the configuration) on the severities of the
  findings kept by the filter flags; the output format, the HTML file, sharing and roasting have
  no influence on it.
\<close>

theorem analyze_gate:
  assumes "path_abs sys (case arg of Some p \<Rightarrow> p | None \<Rightarrow> ''.'') = Inr p"
    and "os_stat sys p = Inr isDir" "os_open sys (if isDir then path_join p ''values.yaml'' else p) = Inr f"
    and "ParseValues unmarshal conv f = Inr ws" "\<And>a. perform a = None"
  shows "main_exit (snd (analyze_RunE sys unmarshal conv perform cfg fl arg)) =
    gate (if af_failOn fl = [] then c_FailOn cfg else af_failOn fl)
      (map f_Severity (filter (keeps
         \<lparr>fo_MinSeverity = toUpper (if af_severity fl = [] then c_MinSeverity cfg else af_severity fl),
          fo_DetectorIDs = if af_detectors fl = [] then c_Detectors cfg else af_detectors fl,
          fo_SecurityOnly = False\<rparr>) (Run ws All)))"
  using assms RunPath_reads[OF assms(2-4)]
  by (simp add: analyze_RunE_def do_write_ok main_exit_checkFailOn Findings_Filter roast_Severities Let_def
      del: if_split)

definition example_flags :: analyze_flags where
  "example_flags = \<lparr>af_json = False, af_html = [], af_share = False, af_roast = True, af_severity = [],
     af_detectors = [], af_failOn = ''high'', af_output = []\<rparr>"

theorem analyze_gate_witness:
  "main_exit (snd (analyze_RunE example_os (\<lambda>_. Inr (Node DocumentNode [] [example_top])) amd64_conv
      (\<lambda>_. None) zero_Config example_flags (Some ''values.yaml''))) =
    gate (if af_failOn example_flags = [] then c_FailOn zero_Config else af_failOn example_flags)
      (map f_Severity (filter (keeps
         \<lparr>fo_MinSeverity = toUpper (if af_severity example_flags = [] then c_MinSeverity zero_Config
                                    else af_severity example_flags),
          fo_DetectorIDs = if af_detectors example_flags = [] then c_Detectors zero_Config
                           else af_detectors example_flags,
          fo_SecurityOnly = False\<rparr>)
        (Run (stable_sort name_less (walk amd64_conv example_top [])) All)))"
  by (rule analyze_gate[where isDir = False and p = "''/work/values.yaml''"
        and f = "Inr ''web: {resources: {}}''"])
    (simp_all add: example_os_reads ParseValues_def example_top_def)

text \<open>
  Nothing leaves the machine unless it was asked for: whatever the command, the environment and
  the input, an upload happens only in \<open>analyze\<close> with \<open>--share\<close>.
\<close>

lemma upload_only_on_share:
  assumes "\<not> (\<exists>fl arg. cmd = CmdAnalyze fl arg \<and> af_share fl)"
  shows "ShareUpload rep \<notin> set (fst (execute sys yaml unmarshal conv perform demoChart configPath cmd))"
  using assms share_others
  by (auto simp: execute_def RunE_def split: sum.splits command.splits dest: share_analyze)

theorem upload_only_on_share_witness:
  "ShareUpload \<lparr>r_Source = [], r_Workloads = 0, r_Findings = []\<rparr> \<notin>
     set (fst (execute example_os (\<lambda>_. Inr zero_Config) (\<lambda>_. Inr (Node DocumentNode [] [example_top]))
       amd64_conv (\<lambda>_. None) [] [] (CmdAnalyze example_flags (Some ''values.yaml''))))"
  by (rule upload_only_on_share) (simp add: example_flags_def)

text \<open>
  The configuration accepts a severity the commands do not know: \<open>medium\<close> passes validation for
  both keys, but as a minimum it filters nothing (\<open>med\<close> drops low findings), and as a threshold
  it makes every analysis fail with an invocation error.
\<close>

lemma config_medium_gap:
  "Validate \<lparr>c_MinSeverity = ''medium'', c_Detectors = [], c_FailOn = ''medium'', c_NoColor = False\<rparr> = None \<and>
   keeps \<lparr>fo_MinSeverity = toUpper ''medium'', fo_DetectorIDs = [], fo_SecurityOnly = False\<rparr> f \<and>
   \<not> keeps \<lparr>fo_MinSeverity = toUpper ''med'', fo_DetectorIDs = [], fo_SecurityOnly = False\<rparr>
        (finding det wl title detail SeverityLow conf) \<and>
   main_exit (checkFailOn rep ''medium'') = 2"
proof -
  have "toLower ''medium'' = ''medium''" by code_simp
  moreover have "filter_severityRank ''MEDIUM'' = 0" "0 \<le> filter_severityRank s" for s
    by (auto simp: filter_severityRank_def rule_consts)
  ultimately show ?thesis
    by (simp add: Validate_def keeps_def toUpper_low main_exit_checkFailOn gate_def)
      (simp add: filter_severityRank_def rule_consts)
qed

end
