(* ===== verification/Go_Time.thy ===== *)
theory Go_Time
  imports Prelude
begin

text \<open>
  The part of the package \<open>time\<close> the backend uses. An instant is the number of nanoseconds since the
  zero \<open>time.Time\<close>, a duration an \<open>int64\<close> of nanoseconds. The clock is an argument of the
  operations that read it.
\<close>

type_synonym instant = int
type_synonym duration = i64

text \<open>\<open>Time.Sub\<close> saturates at the bounds of \<open>Duration\<close>.\<close>

definition time_sub :: "instant \<Rightarrow> instant \<Rightarrow> duration" where
  "time_sub t u = max (- (2 ^ 63)) (min (2 ^ 63 - 1) (t - u))"

definition nanoseconds :: "int \<Rightarrow> duration" where
  "nanoseconds seconds = seconds * 1000000000"

text \<open>
  \<open>Time.Unix\<close>: whole seconds since 1970, rounded down; the zero \<open>time.Time\<close> lies 62135596800 seconds
  before.
\<close>

definition Unix :: "instant \<Rightarrow> i64" where
  "Unix t = wrap64 (t div 1000000000 - 62135596800)"

text \<open>Unix seconds do not wrap for the next two hundred billion years.\<close>

definition sane_time :: "instant \<Rightarrow> bool" where
  "sane_time t \<longleftrightarrow> 0 \<le> t \<and> t div 1000000000 < 2 ^ 62"

lemma Unix_exact: "sane_time t \<Longrightarrow> Unix t = t div 1000000000 - 62135596800"
  unfolding Unix_def by (intro wrap64_id) (auto simp: in_i64_def sane_time_def)

lemma time_sub_less_iff: "0 < d \<Longrightarrow> d < 2 ^ 63 \<Longrightarrow> time_sub t u < d \<longleftrightarrow> t - u < d"
  by (auto simp: time_sub_def)

text \<open>\<open>time.Unix(sec, nsec)\<close> carries the nanoseconds over; its count of seconds from the zero time wraps.\<close>

definition unix_time :: "i64 \<Rightarrow> i64 \<Rightarrow> instant" where
  "unix_time sec nsec = nanoseconds (wrap64 (sec + 62135596800)) + nsec"

section \<open>\<open>Duration.String\<close>\<close>

text \<open>The digits of a fraction of \<open>prec\<close> digits, without the zeros that end it.\<close>

definition fraction_digits :: "nat \<Rightarrow> nat \<Rightarrow> string" where
  "fraction_digits prec v =
     (let s = show_nat v;
          s = replicate (prec - length s) (CHR ''0'') @ s;
          s = rev (dropWhile (\<lambda>c. c = CHR ''0'') (rev s))
      in if s = [] then [] else CHR ''.'' # s)"

definition micro_sign :: string where
  "micro_sign = [CHR 0xC2, CHR 0xB5]"

definition duration_string :: "duration \<Rightarrow> string" where
  "duration_string d =
     (let u = nat \<bar>d\<bar>; sign = (if d < 0 then ''-'' else [])
      in sign @
         (if u = 0 then ''0s''
          else if u < 1000 then show_nat u @ ''ns''
          else if u < 1000000 then show_nat (u div 1000) @ fraction_digits 3 (u mod 1000) @ micro_sign @ ''s''
          else if u < 1000000000 then show_nat (u div 1000000) @ fraction_digits 6 (u mod 1000000) @ ''ms''
          else
            let secs = u div 1000000000; mins = secs div 60; hours = mins div 60
            in (if hours > 0 then show_nat hours @ ''h'' else []) @
               (if mins > 0 then show_nat (mins mod 60) @ ''m'' else []) @
               show_nat (secs mod 60) @ fraction_digits 9 (u mod 1000000000) @ ''s''))"

end
