(* ===== verification/RateLimit.thy ===== *)
theory RateLimit
  imports Go_Float Go_Time Rules_Security "HOL-Library.AList"
begin

text \<open>
  \<^verbatim>\<open>backend/internal/platform/ratelimit\<close>: the in-memory fixed-window limiter and the HTTP middleware
  in front of it. The mutex makes each call one atomic step, so concurrent use is a sequence of
  calls.
\<close>

section \<open>The limiter (\<^verbatim>\<open>memory.go\<close>)\<close>

record bucket =
  b_count :: i64
  b_expiresAt :: instant

record Memory =
  m_limit :: i64
  m_window :: duration
  m_buckets :: "(string \<times> bucket) list"
  m_lastSwept :: instant

text \<open>\<open>None\<close> is the panic on bad inputs.\<close>

definition NewMemory :: "i64 \<Rightarrow> duration \<Rightarrow> Memory option" where
  "NewMemory lmt window =
     (if lmt \<le> 0 then None
      else if window \<le> 0 then None
      else Some \<lparr>m_limit = lmt, m_window = window, m_buckets = [], m_lastSwept = 0\<rparr>)"

definition maybeSweep :: "instant \<Rightarrow> Memory \<Rightarrow> Memory" where
  "maybeSweep now m =
     (if time_sub now (m_lastSwept m) < m_window m then m
      else m\<lparr>m_buckets := filter (\<lambda>(k, b). \<not> now > b_expiresAt b) (m_buckets m), m_lastSwept := now\<rparr>)"

definition Allow :: "Memory \<Rightarrow> instant \<Rightarrow> string \<Rightarrow> Memory \<times> bool \<times> duration" where
  "Allow m0 now key =
     (let m = maybeSweep now m0;
          fresh = (m\<lparr>m_buckets := AList.update key
                       \<lparr>b_count = 1, b_expiresAt = now + m_window m\<rparr> (m_buckets m)\<rparr>, True, 0)
      in case map_of (m_buckets m) key of
           None \<Rightarrow> fresh
         | Some b \<Rightarrow>
             if now > b_expiresAt b then fresh
             else if b_count b \<ge> m_limit m then (m, False, time_sub (b_expiresAt b) now)
             else (m\<lparr>m_buckets := AList.update key (b\<lparr>b_count := b_count b + 1\<rparr>) (m_buckets m)\<rparr>, True, 0))"

definition Memory_Len :: "Memory \<Rightarrow> i64" where
  "Memory_Len m = int (length (m_buckets m))"

definition Quota :: "Memory \<Rightarrow> instant \<Rightarrow> string \<Rightarrow> i64 \<times> i64 \<times> instant" where
  "Quota m now key =
     (let full = (m_limit m, m_limit m, now + m_window m)
      in case map_of (m_buckets m) key of
           None \<Rightarrow> full
         | Some b \<Rightarrow>
             if now > b_expiresAt b then full
             else let rem = m_limit m - b_count b
                  in (m_limit m, if rem < 0 then 0 else rem, b_expiresAt b))"

section \<open>The middleware (\<^verbatim>\<open>ratelimit.go\<close>)\<close>

text \<open>
  \<open>net.SplitHostPort\<close>: the host before the last colon, IPv6 hosts in brackets; \<open>None\<close> for the
  errors.
\<close>

fun index_byte :: "char \<Rightarrow> string \<Rightarrow> nat option" where
  "index_byte c [] = None"
| "index_byte c (x # xs) = (if x = c then Some 0 else map_option Suc (index_byte c xs))"

definition split_host :: "string \<Rightarrow> string option" where
  "split_host hp =
     (case last_colon 0 None hp of
        None \<Rightarrow> None
      | Some i \<Rightarrow>
          if hd hp = CHR ''[''
          then (case index_byte CHR '']'' hp of
                  None \<Rightarrow> None
                | Some e \<Rightarrow>
                    if e + 1 = i
                       \<and> index_byte CHR ''['' (drop 1 hp) = None \<and> index_byte CHR '']'' (drop (e + 1) hp) = None
                    then Some (drop 1 (take e hp)) else None)
          else if index_byte CHR '':'' (take i hp) \<noteq> None then None
          else if index_byte CHR ''['' hp \<noteq> None \<or> index_byte CHR '']'' hp \<noteq> None then None
          else Some (take i hp))"

fun split_comma :: "string \<Rightarrow> string list" where
  "split_comma [] = [[]]"
| "split_comma (c # s) =
     (if c = CHR '','' then [] # split_comma s
      else case split_comma s of [] \<Rightarrow> [[c]] | p # ps \<Rightarrow> (c # p) # ps)"

definition ClientIPKey :: "string \<Rightarrow> string \<Rightarrow> string" where
  "ClientIPKey xff remoteAddr =
     (case (if xff \<noteq> [] then filter (\<lambda>ip. ip \<noteq> []) (map trim_space (split_comma xff)) else []) of
        ip # _ \<Rightarrow> ip
      | [] \<Rightarrow> (case split_host remoteAddr of None \<Rightarrow> remoteAddr | Some host \<Rightarrow> host))"

text \<open>\<open>Duration.Seconds\<close>, converted to \<open>int64\<close>.\<close>

definition whole_seconds :: "duration \<Rightarrow> i64" where
  "whole_seconds d =
     f64_to_i64 amd64_conv
       (f64_add (f64_of_int (d sdiv 1000000000)) (f64_div (f64_of_int (d smod 1000000000)) (Fin 1000000000)))"

definition unix_seconds :: "instant \<Rightarrow> int" where
  "unix_seconds t = t div 1000000000 - 62135596800"

type_synonym header = "string \<times> string"

definition writeQuotaHeaders :: "i64 \<times> i64 \<times> instant \<Rightarrow> header list" where
  "writeQuotaHeaders q =
     (case q of (lmt, remaining, resetAt) \<Rightarrow>
        if lmt \<le> 0 then []
        else [(''X-RateLimit-Limit'', show_int lmt),
              (''X-RateLimit-Remaining'', show_int (if remaining < 0 then 0 else remaining))]
             @ (if resetAt \<noteq> 0 then [(''X-RateLimit-Reset'', show_int (unix_seconds resetAt))] else []))"

datatype response =
    Next "header list"
  | ServiceUnavailable string
  | TooManyRequests "header list" i64

text \<open>
  One request through the middleware, over any limiter: \<open>allow\<close> returns the new state with the
  decision or an error, \<open>quota\<close> is present for limiters that report their quota and reads the
  clock again (\<open>later\<close>).
\<close>

definition Middleware ::
  "('s \<Rightarrow> instant \<Rightarrow> string \<Rightarrow> 's \<times> (string + bool \<times> duration)) \<Rightarrow>
   ('s \<Rightarrow> instant \<Rightarrow> string \<Rightarrow> i64 \<times> i64 \<times> instant) option \<Rightarrow>
   bool \<Rightarrow> string \<Rightarrow> 's \<Rightarrow> instant \<Rightarrow> instant \<Rightarrow> string \<Rightarrow> string \<Rightarrow> 's \<times> response" where
  "Middleware allow quota failOpen headerName s now later key reqID =
     (if key = [] then (s, Next [])
      else case allow s now key of
             (s', Inl _) \<Rightarrow> (s', if failOpen then Next [] else ServiceUnavailable ''rate limiter unavailable'')
           | (s', Inr (allowed, retry)) \<Rightarrow>
               let qh = (case quota of None \<Rightarrow> [] | Some q \<Rightarrow> writeQuotaHeaders (q s' later key))
               in if \<not> allowed
                  then let secs = whole_seconds retry;
                           secs = (if secs < 1 then 1 else secs)
                       in (s', TooManyRequests
                                 (qh @ [(headerName, show_int secs),
                                        (''Content-Type'', ''application/json; charset=utf-8'')]
                                  @ (if reqID \<noteq> [] then [(''X-Request-ID'', reqID)] else [])) secs)
                  else (s', Next qh))"

definition memory_allow :: "Memory \<Rightarrow> instant \<Rightarrow> string \<Rightarrow> Memory \<times> (string + bool \<times> duration)" where
  "memory_allow m now key = (case Allow m now key of (m', ok, retry) \<Rightarrow> (m', Inr (ok, retry)))"

section \<open>The contract of a fixed-window limiter\<close>

fun run :: "('s \<Rightarrow> instant \<Rightarrow> string \<Rightarrow> 's \<times> bool \<times> duration) \<Rightarrow> 's \<Rightarrow> (instant \<times> string) list \<Rightarrow>
    (instant \<times> string \<times> bool) list" where
  "run allow s [] = []"
| "run allow s ((t, k) # rs) =
     (case allow s t k of (s', ok, retry) \<Rightarrow> (t, k, ok) # run allow s' rs)"

text \<open>Requests let through for a key in the closed interval of one window from \<open>a\<close>.\<close>

definition admitted :: "string \<Rightarrow> instant \<Rightarrow> duration \<Rightarrow> (instant \<times> string \<times> bool) list \<Rightarrow> nat" where
  "admitted k a w tr = length (filter (\<lambda>(t, k', ok). ok \<and> k' = k \<and> a \<le> t \<and> t \<le> a + w) tr)"

text \<open>
  \<open>live s t k\<close> is the open window of \<open>k\<close> at \<open>t\<close>: how many requests it has admitted and when it
  ends. A limiter may forget windows that are over; it must not lose one that is open.
\<close>

definition window_bound ::
  "int \<Rightarrow> duration \<Rightarrow> instant \<Rightarrow> instant \<Rightarrow> int \<Rightarrow> instant \<Rightarrow> (int \<times> instant) option \<Rightarrow> bool" where
  "window_bound lmt w a l n t v \<longleftrightarrow>
     (case v of
        None \<Rightarrow> a \<le> t \<longrightarrow> t \<le> a + w \<longrightarrow> n \<le> lmt
      | Some (c, e) \<Rightarrow> c \<le> lmt \<and> e - w \<le> l \<and> (e - w < a \<longrightarrow> n \<le> c) \<and>
          (a \<le> e - w \<longrightarrow> e - w \<le> a + w \<longrightarrow> n \<le> lmt + c))"

lemma window_bound_later: "window_bound lmt w a l n t v \<Longrightarrow> l \<le> l' \<Longrightarrow> window_bound lmt w a l' n t v"
  by (auto simp: window_bound_def split: option.splits)

locale fixed_window =
  fixes allow :: "'s \<Rightarrow> instant \<Rightarrow> string \<Rightarrow> 's \<times> bool \<times> duration"
    and live :: "'s \<Rightarrow> instant \<Rightarrow> string \<Rightarrow> (int \<times> instant) option"
    and valid :: "'s \<Rightarrow> bool"
    and lmt :: int and w :: duration
  assumes valid_allow: "valid s \<Longrightarrow> valid (fst (allow s now k))"
    and opens: "valid s \<Longrightarrow> live s now k = None \<Longrightarrow> now \<le> t \<Longrightarrow>
      live (fst (allow s now k)) t k = (if t \<le> now + w then Some (1, now + w) else None)"
    and opens_ok: "valid s \<Longrightarrow> live s now k = None \<Longrightarrow> fst (snd (allow s now k))"
    and counts: "valid s \<Longrightarrow> live s now k = Some (c, e) \<Longrightarrow> now \<le> t \<Longrightarrow>
      live (fst (allow s now k)) t k = (if t \<le> e then Some (if c < lmt then c + 1 else c, e) else None)"
    and counts_ok: "valid s \<Longrightarrow> live s now k = Some (c, e) \<Longrightarrow> fst (snd (allow s now k)) \<longleftrightarrow> c < lmt"
    and others: "valid s \<Longrightarrow> k' \<noteq> k \<Longrightarrow> now \<le> t \<Longrightarrow> live (fst (allow s now k)) t k' = live s t k'"
begin

text \<open>What is known after \<open>n\<close> admissions of \<open>k\<close> in the interval, at the time \<open>l\<close> of the last request.\<close>

definition bounded :: "string \<Rightarrow> instant \<Rightarrow> 's \<Rightarrow> instant \<Rightarrow> int \<Rightarrow> bool" where
  "bounded k a s l n \<longleftrightarrow> valid s \<and> n \<le> 2 * lmt \<and> (l < a \<longrightarrow> n = 0) \<and>
     (\<forall>t \<ge> l. window_bound lmt w a l n t (live s t k))"

lemma bounded_other:
  assumes "bounded k a s l n" "l \<le> t" "k' \<noteq> k"
  shows "bounded k a (fst (allow s t k')) t n"
proof -
  have "valid s" using assms(1) by (simp add: bounded_def)
  moreover have "window_bound lmt w a t n u (live (fst (allow s t k')) u k)" if "t \<le> u" for u
  proof -
    have "live (fst (allow s t k')) u k = live s u k"
      using that assms(3) \<open>valid s\<close> by (intro others) auto
    moreover have "window_bound lmt w a l n u (live s u k)"
      using assms(1,2) that by (simp add: bounded_def)
    ultimately show ?thesis using window_bound_later assms(2) by simp
  qed
  ultimately show ?thesis
    using assms(1,2) by (simp add: bounded_def valid_allow)
qed

lemma bounded_opens:
  assumes limits: "0 < lmt" "0 < w"
  assumes "bounded k a s l n" "l \<le> t" "live s t k = None"
  shows "bounded k a (fst (allow s t k)) t (n + (if a \<le> t \<and> t \<le> a + w then 1 else 0))"
proof -
  have v: "valid s" and n: "n \<le> 2 * lmt" "l < a \<longrightarrow> n = 0" using assms by (auto simp: bounded_def)
  have "window_bound lmt w a l n t None" using assms by (auto simp: bounded_def)
  then have low: "a \<le> t \<longrightarrow> t \<le> a + w \<longrightarrow> n \<le> lmt" by (simp add: window_bound_def)
  have new: "live (fst (allow s t k)) u k = (if u \<le> t + w then Some (1, t + w) else None)" if "t \<le> u" for u
    using opens[OF v assms(5) that] .
  have "n = 0 \<or> a \<le> l" using n(2) by linarith
  with n low limits assms(4) show ?thesis
    unfolding bounded_def window_bound_def by (auto simp: new valid_allow[OF v] split: if_splits)
qed

lemma bounded_counts:
  assumes limits: "0 < lmt" "0 < w"
  assumes "bounded k a s l n" "l \<le> t" "live s t k = Some (c, e)"
  shows "bounded k a (fst (allow s t k)) t
    (n + (if fst (snd (allow s t k)) \<and> a \<le> t \<and> t \<le> a + w then 1 else 0))"
proof -
  have v: "valid s" and n: "n \<le> 2 * lmt" "l < a \<longrightarrow> n = 0" using assms by (auto simp: bounded_def)
  have "window_bound lmt w a l n t (Some (c, e))"
    using assms(3,4) by (simp add: bounded_def flip: assms(5))
  then have ce: "c \<le> lmt" "e - w \<le> l" "e - w < a \<longrightarrow> n \<le> c"
    "a \<le> e - w \<longrightarrow> e - w \<le> a + w \<longrightarrow> n \<le> lmt + c" by (auto simp: window_bound_def)
  have ok: "fst (snd (allow s t k)) \<longleftrightarrow> c < lmt" by (rule counts_ok[OF v assms(5)])
  define m where "m = n + (if c < lmt \<and> a \<le> t \<and> t \<le> a + w then 1 else 0)"
  define d where "d = (if c < lmt then c + 1 else c)"
  have new: "live (fst (allow s t k)) u k = (if u \<le> e then Some (d, e) else None)" if "t \<le> u" for u
    using counts[OF v assms(5) that] by (simp add: d_def)
  have d: "d \<le> lmt" "e - w \<le> t" using ce assms(4) by (auto simp: d_def)
  have early: "m \<le> d" if "e - w < a" using ce that by (auto simp: m_def d_def)
  have mid: "m \<le> lmt + d" if "a \<le> e - w" "e - w \<le> a + w" using ce that by (auto simp: m_def d_def)
  have late: "m = n" if "a + w < e - w" using ce that assms(4) by (auto simp: m_def)
  have "m \<le> 2 * lmt"
    using early mid late n d limits by (cases "e - w < a"; cases "e - w \<le> a + w") auto
  moreover have "t < a \<longrightarrow> m = 0" using n assms(4) by (auto simp: m_def)
  moreover have "window_bound lmt w a t m u (live (fst (allow s t k)) u k)" if "t \<le> u" for u
    using early mid d that by (auto simp: new window_bound_def)
  ultimately show ?thesis
    unfolding bounded_def ok m_def[symmetric] using valid_allow[OF v] by blast
qed

lemma bounded_step:
  assumes limits: "0 < lmt" "0 < w"
  assumes "bounded k a s l n" "l \<le> t"
  shows "bounded k a (fst (allow s t k')) t
    (n + (if fst (snd (allow s t k')) \<and> k' = k \<and> a \<le> t \<and> t \<le> a + w then 1 else 0))"
proof (cases "k' = k")
  case False
  then show ?thesis using bounded_other[OF assms(3,4), of k'] by simp
next
  case True
  have "valid s" using assms(3) by (simp add: bounded_def)
  with True show ?thesis
    using bounded_opens[OF assms] opens_ok bounded_counts[OF assms] by (cases "live s t k") auto
qed

lemma admitted_run:
  assumes limits: "0 < lmt" "0 < w"
  assumes "bounded k a s l n" "sorted (l # map fst rs)"
  shows "n + int (admitted k a w (run allow s rs)) \<le> 2 * lmt"
  using assms(3,4)
proof (induction rs arbitrary: s l n)
  case Nil
  then show ?case by (simp add: admitted_def bounded_def)
next
  case (Cons r rs)
  obtain t k' where r: "r = (t, k')" by (cases r)
  obtain s' ok retry where step: "allow s t k' = (s', ok, retry)" by (cases "allow s t k'")
  have "bounded k a s' t (n + (if ok \<and> k' = k \<and> a \<le> t \<and> t \<le> a + w then 1 else 0))"
    using bounded_step[OF limits Cons.prems(1), of t k'] Cons.prems(2) by (simp add: r step)
  then have "n + (if ok \<and> k' = k \<and> a \<le> t \<and> t \<le> a + w then 1 else 0) + int (admitted k a w (run allow s' rs)) \<le> 2 * lmt"
    by (rule Cons.IH) (use Cons.prems(2) in \<open>simp add: r\<close>)
  then show ?case by (auto simp: r step admitted_def split: if_splits)
qed

text \<open>
  Over any sequence of requests in the order of the clock, no key gets more than twice the limit
  in any closed interval of one window.
\<close>

lemma sliding_bound:
  assumes limits: "0 < lmt" "0 < w"
  assumes "valid s" "\<And>t. live s t k = None" "sorted (map fst rs)"
  shows "int (admitted k a w (run allow s rs)) \<le> 2 * lmt"
proof (cases rs)
  case Nil
  then show ?thesis using limits by (simp add: admitted_def)
next
  case (Cons r rs')
  have "bounded k a s (fst r) 0"
    using assms limits by (auto simp: bounded_def window_bound_def)
  then have "0 + int (admitted k a w (run allow s rs)) \<le> 2 * lmt"
    by (rule admitted_run[OF limits]) (use assms(5) Cons in auto)
  then show ?thesis by simp
qed

end

section \<open>The in-memory limiter keeps the contract\<close>

text \<open>A bucket that has expired is forgotten, whether it was swept or not.\<close>

definition memory_live :: "Memory \<Rightarrow> instant \<Rightarrow> string \<Rightarrow> (int \<times> instant) option" where
  "memory_live m t k =
     (case map_of (m_buckets m) k of
        None \<Rightarrow> None
      | Some b \<Rightarrow> if t > b_expiresAt b then None else Some (b_count b, b_expiresAt b))"

definition memory_valid :: "i64 \<Rightarrow> duration \<Rightarrow> Memory \<Rightarrow> bool" where
  "memory_valid lmt w m \<longleftrightarrow> m_limit m = lmt \<and> m_window m = w \<and> distinct (map fst (m_buckets m))"

lemma map_of_filter_distinct:
  assumes "distinct (map fst xs)"
  shows "map_of (filter P xs) k = (case map_of xs k of None \<Rightarrow> None | Some v \<Rightarrow> if P (k, v) then Some v else None)"
  using assms
proof (induction xs)
  case (Cons x xs)
  have "map_of xs (fst x) = None" using Cons.prems by (simp add: map_of_eq_None_iff)
  with Cons show ?case by (cases x) (auto split: option.splits)
qed simp

lemma live_maybeSweep:
  assumes "memory_valid lmt w m" "now \<le> t"
  shows "memory_live (maybeSweep now m) t k = memory_live m t k"
  using assms
  by (auto simp: memory_live_def maybeSweep_def memory_valid_def map_of_filter_distinct split: option.splits)

lemma valid_maybeSweep: "memory_valid lmt w m \<Longrightarrow> memory_valid lmt w (maybeSweep now m)"
  by (auto simp: memory_valid_def maybeSweep_def distinct_map_filter)

lemma bucket_count_update: "b\<lparr>b_count := c\<rparr> = \<lparr>b_count = c, b_expiresAt = b_expiresAt b\<rparr>" for b :: bucket
  by simp

text \<open>\<open>Allow\<close> by the open window of its key.\<close>

lemma Allow_live:
  fixes now :: instant
  assumes "memory_valid lmt w m0"
  defines "m \<equiv> maybeSweep now m0"
  shows "Allow m0 now k = (case memory_live m0 now k of
      None \<Rightarrow> (m\<lparr>m_buckets := AList.update k \<lparr>b_count = 1, b_expiresAt = now + w\<rparr> (m_buckets m)\<rparr>, True, 0)
    | Some (c, e) \<Rightarrow>
        if c \<ge> lmt then (m, False, time_sub e now)
        else (m\<lparr>m_buckets := AList.update k \<lparr>b_count = c + 1, b_expiresAt = e\<rparr> (m_buckets m)\<rparr>, True, 0))"
proof -
  have live: "memory_live m now k = memory_live m0 now k" unfolding m_def using assms(1) by (rule live_maybeSweep) simp
  have "memory_valid lmt w m" unfolding m_def using assms(1) by (rule valid_maybeSweep)
  then have lw: "m_limit m = lmt" "m_window m = w" by (auto simp: memory_valid_def)
  show ?thesis
    unfolding live[symmetric]
    unfolding memory_live_def Allow_def Let_def m_def[symmetric] lw
    by (cases "map_of (m_buckets m) k") (simp_all add: bucket_count_update del: map_of_eq_Some_iff)
qed

lemma live_update:
  "memory_live (m\<lparr>m_buckets := AList.update k b (m_buckets m)\<rparr>) t k' =
    (if k' = k then if t > b_expiresAt b then None else Some (b_count b, b_expiresAt b) else memory_live m t k')"
  by (auto simp: memory_live_def update_conv)

lemma valid_update:
  "memory_valid lmt w m \<Longrightarrow> memory_valid lmt w (m\<lparr>m_buckets := AList.update k b (m_buckets m)\<rparr>)"
  by (simp add: memory_valid_def distinct_update)

interpretation memory: fixed_window Allow memory_live "memory_valid lmt w" lmt w for lmt w
proof unfold_locales
  fix m and now :: instant and k assume v: "memory_valid lmt w m"
  show "memory_valid lmt w (fst (Allow m now k))"
    unfolding Allow_live[OF v] using v by (auto simp: valid_update valid_maybeSweep split: option.split)
  show "memory_live m now k = None \<Longrightarrow> fst (snd (Allow m now k))"
    unfolding Allow_live[OF v] by simp
next
  fix m and now t :: instant and k assume v: "memory_valid lmt w m" and none: "memory_live m now k = None" and "now \<le> t"
  then show "memory_live (fst (Allow m now k)) t k = (if t \<le> now + w then Some (1, now + w) else None)"
    unfolding Allow_live[OF v] none by (simp add: live_update)
next
  fix m and now t :: instant and k c e assume v: "memory_valid lmt w m" and some: "memory_live m now k = Some (c, e)" and t: "now \<le> t"
  have "memory_live m t k = (if t \<le> e then Some (c, e) else None)"
    using some by (auto simp: memory_live_def split: option.splits if_splits)
  then show "memory_live (fst (Allow m now k)) t k
      = (if t \<le> e then Some (if c < lmt then c + 1 else c, e) else None)"
    unfolding Allow_live[OF v] some using live_maybeSweep[OF v t] by (auto simp: live_update)
next
  fix m and now :: instant and k c e assume v: "memory_valid lmt w m" and some: "memory_live m now k = Some (c, e)"
  show "fst (snd (Allow m now k)) \<longleftrightarrow> c < lmt" unfolding Allow_live[OF v] some by auto
next
  fix m and k' k :: string and now t :: instant assume v: "memory_valid lmt w m" and "k' \<noteq> k" "now \<le> t"
  then show "memory_live (fst (Allow m now k)) t k' = memory_live m t k'"
    unfolding Allow_live[OF v] using live_maybeSweep[OF v]
    by (auto simp: live_update split: option.split)
qed

section \<open>Properties of the rate limiter\<close>

text \<open>
  C15. Whatever the requests, as long as they come in the order of the clock, a key is let through at
  most twice the limit in any interval of one window. The bound of a fixed-window counter: the
  limit applies to each window, and an interval can touch two.
\<close>

theorem rate_limit_sliding_bound:
  assumes "NewMemory lmt window = Some m" "sorted (map fst requests)"
  shows "int (admitted key a window (run Allow m requests)) \<le> 2 * lmt"
proof -
  have m: "0 < lmt" "0 < window" "m_buckets m = []" "memory_valid lmt window m"
    using assms(1) by (auto simp: NewMemory_def memory_valid_def split: if_splits)
  then have "memory_live m t key = None" for t by (simp add: memory_live_def)
  with m assms(2) show ?thesis by (intro memory.sliding_bound)
qed

text \<open>Witness: two requests per ten nanoseconds; five requests, of which the third is refused.\<close>

theorem rate_limit_sliding_bound_witness:
  "int (admitted ''ip'' 3 10 (run Allow \<lparr>m_limit = 2, m_window = 10, m_buckets = [], m_lastSwept = 0\<rparr>
      [(1, ''ip''), (3, ''ip''), (5, ''ip''), (12, ''ip''), (13, ''ip'')])) \<le> 4"
  using rate_limit_sliding_bound[of 2 10 "\<lparr>m_limit = 2, m_window = 10, m_buckets = [], m_lastSwept = 0\<rparr>"
      "[(1, ''ip''), (3, ''ip''), (5, ''ip''), (12, ''ip''), (13, ''ip'')]" "''ip''" 3]
  by (simp add: NewMemory_def)

text \<open>
  The advice to retry is sound but not tight: a refused request is told to wait for at most one
  window; any request of the same key at a later time than that is let through, but one that
  comes exactly when the advice says is still refused.
\<close>

lemma retry_after_sound:
  assumes "memory_valid lmt window m" "window < 2 ^ 63" "Allow m now key = (m', False, retry)"
    and "\<And>c e. memory_live m now key = Some (c, e) \<Longrightarrow> e \<le> now + window"
  shows "0 \<le> retry \<and> retry \<le> window \<and>
    (later > now + retry \<longrightarrow> fst (snd (Allow m' later key))) \<and> \<not> fst (snd (Allow m' (now + retry) key))"
proof -
  obtain c e where some: "memory_live m now key = Some (c, e)" and c: "lmt \<le> c"
    and m': "m' = maybeSweep now m" "retry = time_sub e now"
    using assms(3) by (auto simp: Allow_live[OF assms(1)] split: option.splits if_splits)
  have e: "now \<le> e" "e \<le> now + window"
    using some assms(4) by (auto simp: memory_live_def split: option.splits if_splits)
  then have retry: "retry = e - now" using m'(2) assms(2) by (simp add: time_sub_def)
  have v: "memory_valid lmt window m'" unfolding m'(1) using assms(1) by (rule valid_maybeSweep)
  have live: "memory_live m' t key = (if t \<le> e then Some (c, e) else None)" if "now \<le> t" for t
    unfolding m'(1) live_maybeSweep[OF assms(1) that]
    using some by (auto simp: memory_live_def split: option.splits if_splits)
  show ?thesis
    using e c retry live[of later] live[of e] memory.opens_ok[OF v, of later key] memory.counts_ok[OF v, of e key c e]
    by auto
qed

definition full_memory :: Memory where
  "full_memory = \<lparr>m_limit = 1, m_window = 60000000000,
     m_buckets = [(''ip'', \<lparr>b_count = 1, b_expiresAt = 100000000000\<rparr>)], m_lastSwept = 40000000000\<rparr>"

theorem retry_after_sound_witness:
  "0 \<le> (1500000000::int) \<and> (1500000000::int) \<le> 60000000000 \<and>
   fst (snd (Allow full_memory 100000000001 ''ip'')) \<and> \<not> fst (snd (Allow full_memory 100000000000 ''ip''))"
  using retry_after_sound[of 1 60000000000 full_memory 98500000000 "''ip''" full_memory 1500000000 100000000001]
  by (simp add: memory_valid_def full_memory_def Allow_def maybeSweep_def time_sub_def memory_live_def)

end
