(* ===== verification/Onboarding.thy ===== *)
theory Onboarding
  imports Go_Time
begin

text \<open>
  \<^verbatim>\<open>backend/internal/onboarding/state.go\<close>: the onboarding state machine of a tenant. A nil map of
  arrivals behaves as the empty one and is modelled by it.
\<close>

type_synonym Stage = string

definition StageSignedUp :: Stage where "StageSignedUp = ''signed_up''"
definition StageVCSConnected :: Stage where "StageVCSConnected = ''vcs_connected''"
definition StageRepoSelected :: Stage where "StageRepoSelected = ''repo_selected''"
definition StageFirstPRAnalyzed :: Stage where "StageFirstPRAnalyzed = ''first_pr_analyzed''"
definition StageAgentInstalled :: Stage where "StageAgentInstalled = ''agent_installed''"
definition StageFirstApplyFix :: Stage where "StageFirstApplyFix = ''first_apply_fix''"
definition StageFirstReceipt :: Stage where "StageFirstReceipt = ''first_receipt_issued''"

lemmas stage_consts = StageSignedUp_def StageVCSConnected_def StageRepoSelected_def
  StageFirstPRAnalyzed_def StageAgentInstalled_def StageFirstApplyFix_def StageFirstReceipt_def

definition Stages :: "Stage list" where
  "Stages = [StageSignedUp, StageVCSConnected, StageRepoSelected, StageFirstPRAnalyzed,
     StageAgentInstalled, StageFirstApplyFix, StageFirstReceipt]"

fun index_loop :: "int \<Rightarrow> Stage list \<Rightarrow> Stage \<Rightarrow> int" where
  "index_loop i [] s = - 1"
| "index_loop i (v # vs) s = (if v = s then i else index_loop (i + 1) vs s)"

definition Index :: "Stage \<Rightarrow> int" where
  "Index s = index_loop 0 Stages s"

definition SLOInstallToFirstReceipt :: duration where
  "SLOInstallToFirstReceipt = nanoseconds (35 * 24 * 3600)"

definition SLOActivationWindow :: duration where
  "SLOActivationWindow = nanoseconds (14 * 24 * 3600)"

record Onboarding_State =
  ob_Current :: Stage
  ob_Reached :: "Stage \<rightharpoonup> instant"

definition Onboarding_New :: "instant \<Rightarrow> Onboarding_State" where
  "Onboarding_New t = \<lparr>ob_Current = StageSignedUp, ob_Reached = [StageSignedUp \<mapsto> t]\<rparr>"

datatype onboarding_error = UnknownStage Stage | IllegalTransition Stage Stage

definition Advance ::
  "Onboarding_State \<Rightarrow> Stage \<Rightarrow> instant \<Rightarrow> onboarding_error + Onboarding_State" where
  "Advance s next_stage t =
     (let curIdx = Index (ob_Current s); nextIdx = Index next_stage
      in if nextIdx < 0 then Inl (UnknownStage next_stage)
         else if nextIdx < curIdx then Inl (IllegalTransition (ob_Current s) next_stage)
         else Inr \<lparr>ob_Current = next_stage,
                   ob_Reached = (case ob_Reached s next_stage of
                                   None \<Rightarrow> (ob_Reached s)(next_stage \<mapsto> t)
                                 | Some _ \<Rightarrow> ob_Reached s)\<rparr>)"

definition Activated :: "Onboarding_State \<Rightarrow> duration \<Rightarrow> bool" where
  "Activated s window =
     (case ob_Reached s StageSignedUp of
        None \<Rightarrow> False
      | Some signup \<Rightarrow>
          (case ob_Reached s StageFirstApplyFix of
             None \<Rightarrow> False
           | Some app \<Rightarrow> time_sub app signup \<le> window))"

definition TimeToFirstReceipt :: "Onboarding_State \<Rightarrow> duration option" where
  "TimeToFirstReceipt s =
     (case (ob_Reached s StageAgentInstalled, ob_Reached s StageFirstReceipt) of
        (Some install, Some receipt) \<Rightarrow> Some (time_sub receipt install)
      | _ \<Rightarrow> None)"

definition HealthyTimeToFirstReceipt :: "Onboarding_State \<Rightarrow> bool" where
  "HealthyTimeToFirstReceipt s =
     (case TimeToFirstReceipt s of None \<Rightarrow> False | Some d \<Rightarrow> d \<le> SLOInstallToFirstReceipt)"

definition ProgressPercent :: "Onboarding_State \<Rightarrow> int" where
  "ProgressPercent s =
     (let idx = Index (ob_Current s)
      in if idx < 0 then 0 else (idx * 100) div (int (length Stages) - 1))"

section \<open>The state machine\<close>

text \<open>One accepted event; a refused one leaves the state as it is.\<close>

inductive onboarding_step :: "Onboarding_State \<Rightarrow> Onboarding_State \<Rightarrow> bool" where
  advance: "Advance s next_stage t = Inr s' \<Longrightarrow> onboarding_step s s'"

inductive_cases onboarding_stepE: "onboarding_step s s'"

lemma Index_values:
  "Index StageSignedUp = 0" "Index StageVCSConnected = 1" "Index StageRepoSelected = 2"
  "Index StageFirstPRAnalyzed = 3" "Index StageAgentInstalled = 4" "Index StageFirstApplyFix = 5"
  "Index StageFirstReceipt = 6"
  by (simp_all add: Index_def Stages_def stage_consts)

lemma Index_range: "Index s \<in> {-1..6}" "0 \<le> Index s \<longleftrightarrow> s \<in> set Stages"
  by (auto simp: Index_def Stages_def)

definition onboarding_inv :: "instant \<Rightarrow> Onboarding_State \<Rightarrow> bool" where
  "onboarding_inv t0 s \<longleftrightarrow>
     ob_Reached s StageSignedUp = Some t0 \<and> ob_Current s \<in> dom (ob_Reached s) \<and>
     (\<forall>st \<in> dom (ob_Reached s). st \<in> set Stages \<and> Index st \<le> Index (ob_Current s))"

lemma onboarding_inv_New: "onboarding_inv t0 (Onboarding_New t0)"
  by (auto simp: onboarding_inv_def Onboarding_New_def Stages_def split: if_splits)

lemma Advance_ok:
  assumes "Advance s n t = Inr s'"
  shows "n \<in> set Stages" "Index (ob_Current s) \<le> Index n" "ob_Current s' = n"
    "ob_Reached s' = (case ob_Reached s n of None \<Rightarrow> (ob_Reached s)(n \<mapsto> t) | Some _ \<Rightarrow> ob_Reached s)"
  using assms Index_range(2)[of n] by (auto simp: Advance_def Let_def split: if_splits)

lemma onboarding_inv_step:
  assumes "onboarding_step s s'" "onboarding_inv t0 s"
  shows "onboarding_inv t0 s'"
proof -
  obtain n t where "Advance s n t = Inr s'" using assms(1) by (rule onboarding_stepE)
  note ok = Advance_ok[OF this]
  have "Index st \<le> Index n" if "st \<in> dom (ob_Reached s)" for st
    using that assms(2) order_trans[OF _ ok(2), of "Index st"] unfolding onboarding_inv_def by blast
  then show ?thesis
    using assms(2) ok by (auto simp: onboarding_inv_def split: option.splits)
qed

lemma Reached_step: "onboarding_step s s' \<Longrightarrow> ob_Reached s \<subseteq>\<^sub>m ob_Reached s'"
  by (erule onboarding_stepE) (auto simp: Advance_def Let_def map_le_def split: if_splits option.splits)

lemma Index_step: "onboarding_step s s' \<Longrightarrow> Index (ob_Current s) \<le> Index (ob_Current s')"
  by (erule onboarding_stepE) (auto simp: Advance_def Let_def split: if_splits)

lemma onboarding_steps:
  assumes "onboarding_step\<^sup>*\<^sup>* s s'"
  shows "ob_Reached s \<subseteq>\<^sub>m ob_Reached s'" "Index (ob_Current s) \<le> Index (ob_Current s')"
    "onboarding_inv t0 s \<Longrightarrow> onboarding_inv t0 s'"
  using assms
proof (induction rule: rtranclp_induct)
  case (step y z)
  { case 1 then show ?case using step.IH(1) Reached_step[OF step.hyps(2)] map_le_trans by blast }
  { case 2 then show ?case using step.IH(2) Index_step[OF step.hyps(2)] by linarith }
  { case 3 then show ?case using step.IH(3) onboarding_inv_step[OF step.hyps(2)] by blast }
qed auto

text \<open>
  Onboarding never goes back and never forgets: along any sequence of accepted events from sign-up,
  arrival times once recorded stay, every recorded stage is a known stage at or before the current
  one, the current one is recorded, the sign-up time stays the first, the progress shown stays
  between 0 and 100 and never falls, and a tenant once activated stays activated.
\<close>

lemma onboarding_monotone:
  assumes "onboarding_step\<^sup>*\<^sup>* (Onboarding_New t0) s" "onboarding_step\<^sup>*\<^sup>* s s'"
  shows "ob_Reached s \<subseteq>\<^sub>m ob_Reached s' \<and> onboarding_inv t0 s' \<and>
    0 \<le> ProgressPercent s \<and> ProgressPercent s \<le> ProgressPercent s' \<and> ProgressPercent s' \<le> 100 \<and>
    (Activated s window \<longrightarrow> Activated s' window)"
proof -
  have inv: "onboarding_inv t0 s" "onboarding_inv t0 s'"
    using onboarding_steps(3)[OF assms(1) onboarding_inv_New] onboarding_steps(3)[OF assms(2)] by auto
  have reached: "ob_Reached s \<subseteq>\<^sub>m ob_Reached s'" by (rule onboarding_steps(1)[OF assms(2)])
  have idx: "0 \<le> Index (ob_Current s)" "Index (ob_Current s) \<le> Index (ob_Current s')" "Index (ob_Current s') \<le> 6"
    using inv onboarding_steps(2)[OF assms(2)] Index_range by (auto simp: onboarding_inv_def)
  have "Activated s' window" if "Activated s window"
    using that reached by (auto simp: Activated_def map_le_def dom_def split: option.splits)
  with inv reached idx show ?thesis
    by (auto simp: ProgressPercent_def Stages_def intro!: zdiv_mono1)
qed

theorem onboarding_monotone_witness:
  "\<exists>s. Advance (Onboarding_New 5) StageFirstApplyFix 9 = Inr s \<and>
     ob_Reached (Onboarding_New 5) \<subseteq>\<^sub>m ob_Reached s \<and> onboarding_inv 5 s"
proof -
  define s where "s = \<lparr>ob_Current = StageFirstApplyFix,
    ob_Reached = [StageSignedUp \<mapsto> 5, StageFirstApplyFix \<mapsto> (9::instant)]\<rparr>"
  have adv: "Advance (Onboarding_New 5) StageFirstApplyFix 9 = Inr s"
    by (simp add: Advance_def Onboarding_New_def Index_values s_def Let_def) (simp add: stage_consts)
  then have "onboarding_step\<^sup>*\<^sup>* (Onboarding_New 5) s" by (auto intro: onboarding_step.advance)
  from onboarding_monotone[OF rtranclp.rtrancl_refl this] adv show ?thesis by blast
qed

end
