(* ===== verification/Rollback.thy ===== *)
theory Rollback
  imports Go_Time Go_Float
begin

text \<open>
  \<^verbatim>\<open>backend/internal/rollback/watchdog.go\<close>: whether the watchdog rolls an applied fix back.
\<close>

definition Window :: duration where "Window = nanoseconds (7 * 24 * 3600)"

type_synonym SignalKind = string

definition SignalLatencyP95 :: SignalKind where "SignalLatencyP95 = ''latency_p95_ms''"
definition SignalErrorRate :: SignalKind where "SignalErrorRate = ''error_rate_bps''"
definition SignalCPUSaturation :: SignalKind where "SignalCPUSaturation = ''cpu_throttle_ratio''"

record Snapshot =
  sn_Kind :: SignalKind
  sn_Value :: f64
  sn_ObservedAt :: instant

definition zero_Snapshot :: Snapshot where
  "zero_Snapshot = \<lparr>sn_Kind = [], sn_Value = Fin 0, sn_ObservedAt = 0\<rparr>"

record Bound =
  bd_Kind :: SignalKind
  bd_RealMax :: f64
  bd_Baseline :: f64

type_synonym Action = string

definition ActionContinue :: Action where "ActionContinue = ''continue''"
definition ActionRollback :: Action where "ActionRollback = ''rollback''"
definition ActionClose :: Action where "ActionClose = ''close''"

lemmas action_consts = ActionContinue_def ActionRollback_def ActionClose_def

record Decision =
  de_Action :: Action
  de_Reason :: string
  de_Trigger :: Snapshot

record Rollback_State =
  rb_ApplyFixID :: string
  rb_MergedAt :: instant
  rb_Bounds :: "Bound list"
  rb_Closed :: bool

datatype rollback_error = MissingApplyFixID | MissingMergedAt | NoBounds

definition Rollback_Validate :: "Rollback_State \<Rightarrow> rollback_error option" where
  "Rollback_Validate s =
     (if rb_ApplyFixID s = [] then Some MissingApplyFixID
      else if rb_MergedAt s = 0 then Some MissingMergedAt
      else if rb_Bounds s = [] then Some NoBounds
      else None)"

fun crossing :: "Snapshot \<Rightarrow> Bound list \<Rightarrow> bool" where
  "crossing snap [] = False"
| "crossing snap (b # bs) =
     (if bd_Kind b \<noteq> sn_Kind snap then crossing snap bs
      else if f64_lt (bd_RealMax b) (sn_Value snap) then True
      else crossing snap bs)"

definition Decide :: "Rollback_State \<Rightarrow> Snapshot \<Rightarrow> instant \<Rightarrow> rollback_error + Decision" where
  "Decide s snap now =
     (case Rollback_Validate s of
        Some e \<Rightarrow> Inl e
      | None \<Rightarrow>
          if rb_Closed s
          then Inr \<lparr>de_Action = ActionClose, de_Reason = ''watchdog already closed'', de_Trigger = zero_Snapshot\<rparr>
          else if \<not> now < rb_MergedAt s + Window
          then Inr \<lparr>de_Action = ActionClose, de_Reason = ''watchdog window expired'', de_Trigger = zero_Snapshot\<rparr>
          else if crossing snap (rb_Bounds s)
          then Inr \<lparr>de_Action = ActionRollback, de_Reason = ''metric crossed the predicted upper bound'',
                    de_Trigger = snap\<rparr>
          else Inr \<lparr>de_Action = ActionContinue, de_Reason = ''within bounds'', de_Trigger = zero_Snapshot\<rparr>)"

definition Close :: "Rollback_State \<Rightarrow> Rollback_State" where
  "Close s = s\<lparr>rb_Closed := True\<rparr>"

definition Elapsed :: "Rollback_State \<Rightarrow> instant \<Rightarrow> duration" where
  "Elapsed s now = time_sub now (rb_MergedAt s)"

lemma crossing_iff:
  "crossing snap bs \<longleftrightarrow> (\<exists>b \<in> set bs. bd_Kind b = sn_Kind snap \<and> f64_lt (bd_RealMax b) (sn_Value snap))"
  by (induction bs) auto

lemma f64_lt_NaN: "\<not> f64_lt x NaN"
  by (cases x) simp_all

lemma crossing_NaN: "sn_Value snap = NaN \<Longrightarrow> \<not> crossing snap bs"
  using f64_lt_NaN by (auto simp: crossing_iff)

text \<open>
  The watchdog decides for every valid state: it rolls back exactly when the watch is open, the
  seven days are not over and the snapshot exceeds a bound of its own kind (a value that is not a
  number never does); it closes exactly when the watch was closed or is over; a closed state
  stays closed whatever is observed later.
\<close>

lemma watchdog_decides:
  assumes "Rollback_Validate s = None"
  shows "\<exists>d. Decide s snap now = Inr d \<and>
    (de_Action d = ActionRollback \<longleftrightarrow> \<not> rb_Closed s \<and> now < rb_MergedAt s + Window \<and>
       (\<exists>b \<in> set (rb_Bounds s). bd_Kind b = sn_Kind snap \<and> f64_lt (bd_RealMax b) (sn_Value snap))) \<and>
    (de_Action d = ActionClose \<longleftrightarrow> rb_Closed s \<or> rb_MergedAt s + Window \<le> now) \<and>
    (de_Action d = ActionRollback \<longrightarrow> de_Trigger d = snap \<and> sn_Value snap \<noteq> NaN) \<and>
    (\<exists>e. Decide (Close s) snap' now' = Inr e \<and> de_Action e = ActionClose)"
proof -
  have "Rollback_Validate (Close s) = None" using assms by (simp add: Rollback_Validate_def Close_def split: if_splits)
  then have "\<exists>e. Decide (Close s) snap' now' = Inr e \<and> de_Action e = ActionClose"
    by (simp add: Decide_def Close_def)
  moreover have "\<exists>b \<in> set (rb_Bounds s). bd_Kind b = sn_Kind snap \<and> f64_lt (bd_RealMax b) (sn_Value snap)
      \<Longrightarrow> sn_Value snap \<noteq> NaN"
    using crossing_NaN[of snap "rb_Bounds s"] by (auto simp: crossing_iff)
  ultimately show ?thesis
    using assms by (auto simp: Decide_def crossing_iff action_consts)
qed

definition watched :: Rollback_State where
  "watched = \<lparr>rb_ApplyFixID = ''fix-1'', rb_MergedAt = 1000,
     rb_Bounds = [\<lparr>bd_Kind = SignalLatencyP95, bd_RealMax = Fin 250, bd_Baseline = Fin 200\<rparr>], rb_Closed = False\<rparr>"

theorem watchdog_decides_witness:
  "\<exists>d. Decide watched \<lparr>sn_Kind = SignalLatencyP95, sn_Value = Fin 300, sn_ObservedAt = 1500\<rparr> 2000 = Inr d \<and>
     de_Action d = ActionRollback"
proof -
  have "Rollback_Validate watched = None" by (simp add: Rollback_Validate_def watched_def)
  from watchdog_decides[OF this, of "\<lparr>sn_Kind = SignalLatencyP95, sn_Value = Fin 300, sn_ObservedAt = 1500\<rparr>" 2000]
  show ?thesis by (auto simp: watched_def Window_def nanoseconds_def)
qed

end
