(* ===== verification/Coalesce.thy ===== *)
theory Coalesce
  imports Go_Time "HOL-Library.AList"
begin

text \<open>
  \<^verbatim>\<open>backend/internal/ingestion/coalesce/coalesce.go\<close>: pull requests on the same chart within a window
  share one analysis. The mutex makes every call one atomic step.
\<close>

record Key =
  k_TenantID :: string
  k_RepoOwner :: string
  k_RepoName :: string
  k_ChartPath :: string

definition Key_valid :: "Key \<Rightarrow> bool" where
  "Key_valid k \<longleftrightarrow> k_TenantID k \<noteq> [] \<and> k_RepoOwner k \<noteq> [] \<and> k_RepoName k \<noteq> [] \<and> k_ChartPath k \<noteq> []"

record Coalesce_Decision =
  cd_Dispatch :: bool
  cd_CoalesceTo :: string
  cd_ExistingPRNumber :: i64

record entry =
  en_PRNumber :: i64
  en_PRURL :: string
  en_At :: instant

record Coalescer =
  co_ttl :: duration
  co_seen :: "(Key \<times> entry) list"

definition Coalescer_New :: "duration \<Rightarrow> Coalescer" where
  "Coalescer_New ttl = \<lparr>co_ttl = (if ttl \<le> 0 then nanoseconds (24 * 3600) else ttl), co_seen = []\<rparr>"

datatype coalesce_error = IncompleteKey

definition Observe ::
  "Coalescer \<Rightarrow> instant \<Rightarrow> Key \<Rightarrow> i64 \<Rightarrow> string \<Rightarrow> Coalescer \<times> (coalesce_error + Coalesce_Decision)" where
  "Observe c now k prNumber prURL =
     (if \<not> Key_valid k then (c, Inl IncompleteKey)
      else let record_it = (c\<lparr>co_seen := AList.update k \<lparr>en_PRNumber = prNumber, en_PRURL = prURL, en_At = now\<rparr>
                                (co_seen c)\<rparr>,
                            Inr \<lparr>cd_Dispatch = True, cd_CoalesceTo = [], cd_ExistingPRNumber = 0\<rparr>)
           in case map_of (co_seen c) k of
                None \<Rightarrow> record_it
              | Some e \<Rightarrow>
                  if time_sub now (en_At e) < co_ttl c
                  then (c, Inr \<lparr>cd_Dispatch = False, cd_CoalesceTo = en_PRURL e,
                                cd_ExistingPRNumber = en_PRNumber e\<rparr>)
                  else record_it)"

definition Sweep :: "Coalescer \<Rightarrow> instant \<Rightarrow> Coalescer \<times> i64" where
  "Sweep c now =
     (let expired = (\<lambda>(k, e). time_sub now (en_At e) \<ge> co_ttl c)
      in (c\<lparr>co_seen := filter (\<lambda>ke. \<not> expired ke) (co_seen c)\<rparr>,
          int (length (filter expired (co_seen c)))))"

definition Coalescer_Len :: "Coalescer \<Rightarrow> i64" where
  "Coalescer_Len c = int (length (co_seen c))"

section \<open>Sequences of calls\<close>

datatype call = Obs Key i64 string | Swp

text \<open>The instants at which an analysis of the chart \<open>k\<close> is dispatched.\<close>

fun dispatches :: "Key \<Rightarrow> Coalescer \<Rightarrow> (instant \<times> call) list \<Rightarrow> instant list" where
  "dispatches k c [] = []"
| "dispatches k c ((t, Swp) # cs) = dispatches k (fst (Sweep c t)) cs"
| "dispatches k c ((t, Obs k' n url) # cs) =
     (case Observe c t k' n url of
        (c', Inr d) \<Rightarrow> (if k' = k \<and> cd_Dispatch d then [t] else []) @ dispatches k c' cs
      | (c', Inl _) \<Rightarrow> dispatches k c' cs)"

text \<open>An analysis dispatched at \<open>a\<close> is still remembered, or its window is over by \<open>l\<close>.\<close>

definition guarded :: "Key \<Rightarrow> duration \<Rightarrow> instant \<Rightarrow> instant \<Rightarrow> Coalescer \<Rightarrow> bool" where
  "guarded k ttl a l c \<longleftrightarrow> co_ttl c = ttl \<and> distinct (map fst (co_seen c)) \<and>
     ((\<exists>e. map_of (co_seen c) k = Some e \<and> en_At e = a) \<or> a + ttl \<le> l)"

lemma map_of_filter_Some:
  "distinct (map fst xs) \<Longrightarrow> map_of xs k = Some v \<Longrightarrow> P (k, v) \<Longrightarrow> map_of (filter P xs) k = Some v"
  by (induction xs) (auto simp: map_of_eq_None_iff dest: map_of_SomeD)

lemma guarded_Sweep:
  assumes "guarded k ttl a l c" "l \<le> t" "0 < ttl" "ttl < 2 ^ 63"
  shows "guarded k ttl a t (fst (Sweep c t))"
proof (cases "a + ttl \<le> t")
  case False
  then obtain e where "map_of (co_seen c) k = Some e" "en_At e = a"
    using assms(1,2) by (auto simp: guarded_def simp del: map_of_eq_Some_iff)
  then show ?thesis
    using assms False time_sub_less_iff[of ttl t a]
    by (auto simp: guarded_def Sweep_def Let_def distinct_map_filter not_le map_of_filter_Some
        simp del: map_of_eq_Some_iff)
qed (use assms in \<open>auto simp: guarded_def Sweep_def Let_def distinct_map_filter\<close>)

lemma guarded_Observe:
  assumes "guarded k ttl a l c" "l \<le> t" "0 < ttl" "ttl < 2 ^ 63"
  shows "guarded k ttl a t (fst (Observe c t k' n url))"
    and "snd (Observe c t k n url) = Inr d \<Longrightarrow> cd_Dispatch d \<Longrightarrow> a + ttl \<le> t"
  using assms time_sub_less_iff[OF assms(3,4), of t a]
  by (auto simp: guarded_def Observe_def Let_def update_conv distinct_update not_less
      simp del: map_of_eq_Some_iff split: option.splits if_splits)

lemma dispatches_guarded:
  assumes "guarded k ttl a l c" "sorted (l # map fst cs)" "0 < ttl" "ttl < 2 ^ 63"
    "u \<in> set (dispatches k c cs)"
  shows "a + ttl \<le> u"
  using assms(1,2,5)
proof (induction k c cs arbitrary: l rule: dispatches.induct)
  case (2 k c t cs)
  have "guarded k ttl a t (fst (Sweep c t))"
    using guarded_Sweep[OF "2.prems"(1) _ assms(3,4), of t] "2.prems"(2) by simp
  then show ?case using "2.IH" "2.prems" by simp
next
  case (3 k c t k' n url cs)
  have lt: "l \<le> t" using "3.prems"(2) by simp
  obtain c' r where obs: "Observe c t k' n url = (c', r)" by (cases "Observe c t k' n url")
  have g: "guarded k ttl a t c'"
    using guarded_Observe(1)[OF "3.prems"(1) lt assms(3,4), of k' n url] by (simp add: obs)
  show ?case
  proof (cases r)
    case (Inl e)
    then show ?thesis using "3.IH"(1)[OF obs[symmetric] Inl g] "3.prems" by (simp add: obs)
  next
    case (Inr d)
    consider "k' = k" "cd_Dispatch d" "u = t" | "u \<in> set (dispatches k c' cs)"
      using "3.prems"(3) by (auto simp: obs Inr split: if_splits)
    then show ?thesis
    proof cases
      case 1
      then show ?thesis
        using guarded_Observe(2)[OF "3.prems"(1) lt assms(3,4), of n url d] obs Inr by simp
    next
      case 2
      then show ?thesis using "3.IH"(2)[OF obs[symmetric] Inr g] "3.prems" by simp
    qed
  qed
qed simp

lemma Observe_dispatch_guarded:
  assumes "Observe c t k n url = (c', Inr d)" "cd_Dispatch d" "distinct (map fst (co_seen c))"
  shows "guarded k (co_ttl c) t t c'"
  using assms
  by (auto simp: guarded_def Observe_def Let_def update_conv distinct_update
      simp del: map_of_eq_Some_iff split: option.splits if_splits)

lemma well_formed_calls:
  assumes "distinct (map fst (co_seen c))"
  shows "distinct (map fst (co_seen (fst (Observe c t k n url))))" "co_ttl (fst (Observe c t k n url)) = co_ttl c"
    "distinct (map fst (co_seen (fst (Sweep c t))))" "co_ttl (fst (Sweep c t)) = co_ttl c"
  using assms by (auto simp: Observe_def Sweep_def Let_def distinct_update distinct_map_filter split: option.split)

lemma dispatches_spaced:
  assumes "distinct (map fst (co_seen c))" "co_ttl c = ttl" "sorted (map fst cs)" "0 < ttl" "ttl < 2 ^ 63"
  shows "sorted_wrt (\<lambda>t u. t + ttl \<le> u) (dispatches k c cs)"
  using assms(1-3)
proof (induction k c cs rule: dispatches.induct)
  case (2 k c t cs)
  then show ?case using well_formed_calls[of c] by simp
next
  case (3 k c t k' n url cs)
  obtain c' r where obs: "Observe c t k' n url = (c', r)" by (cases "Observe c t k' n url")
  have wf: "distinct (map fst (co_seen c'))" "co_ttl c' = ttl"
    using well_formed_calls(1,2)[OF "3.prems"(1), of t k' n url] "3.prems"(2) by (simp_all add: obs)
  show ?case
  proof (cases r)
    case (Inl e)
    then show ?thesis using "3.IH"(1)[OF obs[symmetric] Inl wf] "3.prems" by (simp add: obs)
  next
    case (Inr d)
    have IH: "sorted_wrt (\<lambda>t u. t + ttl \<le> u) (dispatches k c' cs)"
      using "3.IH"(2)[OF obs[symmetric] Inr wf] "3.prems" by simp
    have "t + ttl \<le> u" if "k' = k" "cd_Dispatch d" "u \<in> set (dispatches k c' cs)" for u
    proof -
      have "guarded k ttl t t c'"
        using Observe_dispatch_guarded[of c t k' n url c' d] obs Inr that "3.prems" by simp
      then show ?thesis
        using dispatches_guarded[of k ttl t t c' cs u] assms(4,5) that(3) "3.prems"(3) by simp
    qed
    with IH show ?thesis by (simp add: obs Inr)
  qed
qed simp

text \<open>
  C17. Whatever pull requests arrive and whenever the memory is swept, in the order of the clock, two
  analyses of the same chart are dispatched at least one window apart; the window defaults to a
  day.
\<close>

theorem one_analysis_per_window:
  assumes "ttl < 2 ^ 63" "sorted (map fst calls)"
  shows "sorted_wrt (\<lambda>t u. t + (if ttl \<le> 0 then 86400000000000 else ttl) \<le> u)
    (dispatches k (Coalescer_New ttl) calls)"
  using assms by (intro dispatches_spaced) (auto simp: Coalescer_New_def nanoseconds_def)

definition example_key :: Key where
  "example_key = \<lparr>k_TenantID = ''t'', k_RepoOwner = ''o'', k_RepoName = ''r'', k_ChartPath = ''chart''\<rparr>"

theorem one_analysis_per_window_witness:
  "dispatches example_key (Coalescer_New 10)
     [(1, Obs example_key 7 ''u''), (5, Obs example_key 8 ''v''), (9, Swp), (11, Obs example_key 9 ''w'')] = [1, 11] \<and>
   sorted_wrt (\<lambda>t u. t + (if (10::int) \<le> 0 then 86400000000000 else 10) \<le> u)
    (dispatches example_key (Coalescer_New 10)
      [(1, Obs example_key 7 ''u''), (5, Obs example_key 8 ''v''), (9, Swp), (11, Obs example_key 9 ''w'')])"
proof
  show "dispatches example_key (Coalescer_New 10)
     [(1, Obs example_key 7 ''u''), (5, Obs example_key 8 ''v''), (9, Swp), (11, Obs example_key 9 ''w'')] = [1, 11]"
    by (simp add: Coalescer_New_def Observe_def Sweep_def example_key_def Key_valid_def time_sub_def)
qed (rule one_analysis_per_window, simp_all)

end
