(* ===== verification/Confidence.thy ===== *)
theory Confidence
  imports Rules_Types
begin

text \<open>
  \<^verbatim>\<open>backend/internal/confidence/classifier.go\<close>: the heuristic that assigns the confidence band of a
  finding.
\<close>

record Evidence =
  ev_DetectorID :: string
  ev_SandboxMode :: bool
  ev_HasHistoricalData :: bool
  ev_HistoryDaysObserved :: i64
  ev_SignalCount :: i64
  ev_PriorDismissed :: bool
  ev_DetectorDefault :: Confidence

definition MinDaysForHighBand :: i64 where "MinDaysForHighBand = 7"
definition MinSignalsForHighBand :: i64 where "MinSignalsForHighBand = 2"

definition conf_rank :: "Confidence \<Rightarrow> int" where
  "conf_rank c =
     (if c = ConfidenceHigh then 3 else if c = ConfidenceMed then 2 else if c = ConfidenceLow then 1 else 0)"

definition stepDown :: "Confidence \<Rightarrow> Confidence" where
  "stepDown c =
     (if c = ConfidenceHigh then ConfidenceMed else if c = ConfidenceMed then ConfidenceLow else ConfidenceLow)"

definition stepUpToHigh :: "Confidence \<Rightarrow> Confidence" where
  "stepUpToHigh c = (if c = ConfidenceHigh then c else ConfidenceHigh)"

definition atLeast :: "Confidence \<Rightarrow> Confidence \<Rightarrow> Confidence" where
  "atLeast have_c floor_c = (if conf_rank have_c \<ge> conf_rank floor_c then have_c else floor_c)"

definition atMost :: "Confidence \<Rightarrow> Confidence \<Rightarrow> Confidence" where
  "atMost have_c ceiling_c = (if conf_rank have_c \<le> conf_rank ceiling_c then have_c else ceiling_c)"

definition Classify :: "Evidence \<Rightarrow> Confidence" where
  "Classify s =
     (let c = (if ev_DetectorDefault s = [] then ConfidenceLow else ev_DetectorDefault s)
      in if ev_PriorDismissed s then stepDown c
         else if \<not> ev_SandboxMode s \<and> ev_HasHistoricalData s \<and>
                 ev_HistoryDaysObserved s \<ge> MinDaysForHighBand \<and> ev_SignalCount s \<ge> MinSignalsForHighBand
         then stepUpToHigh c
         else if \<not> ev_SandboxMode s \<and> ev_HasHistoricalData s then atLeast c ConfidenceMed
         else if ev_SandboxMode s \<and> ev_SignalCount s \<ge> MinSignalsForHighBand then atLeast c ConfidenceMed
         else if ev_SandboxMode s then atMost c ConfidenceMed else c)"

definition known_band :: "Confidence \<Rightarrow> bool" where
  "known_band c \<longleftrightarrow> c \<in> {[], ConfidenceHigh, ConfidenceMed, ConfidenceLow}"

text \<open>
  The band a finding gets, for every known default: a dismissed finding drops one band and never
  rises; a week of history with two signals outside the sandbox gives high; any history, or two
  signals in the sandbox, gives at least medium and keeps a higher default; one signal in the
  sandbox caps at medium; without history outside the sandbox the default stays. In particular the
  sandbox does report high (two signals, high default) and does lower a high default (one signal),
  against the comment on the function.
\<close>

lemma confidence_band:
  assumes "known_band (ev_DetectorDefault s)"
  defines "d \<equiv> max 1 (conf_rank (ev_DetectorDefault s))"
  shows "conf_rank (Classify s) =
    (if ev_PriorDismissed s then max 1 (d - 1)
     else if ev_SandboxMode s then if 2 \<le> ev_SignalCount s then max 2 d else min 2 d
     else if ev_HasHistoricalData s
     then if 7 \<le> ev_HistoryDaysObserved s \<and> 2 \<le> ev_SignalCount s then 3 else max 2 d
     else d)"
  using assms
  by (auto simp: Classify_def known_band_def d_def stepDown_def stepUpToHigh_def atLeast_def atMost_def
      conf_rank_def rule_consts MinDaysForHighBand_def MinSignalsForHighBand_def Let_def)

theorem confidence_band_witness:
  "conf_rank (Classify \<lparr>ev_DetectorID = ''d'', ev_SandboxMode = True, ev_HasHistoricalData = False,
      ev_HistoryDaysObserved = 0, ev_SignalCount = 2, ev_PriorDismissed = False,
      ev_DetectorDefault = ConfidenceHigh\<rparr>) = 3 \<and>
   conf_rank (Classify \<lparr>ev_DetectorID = ''d'', ev_SandboxMode = True, ev_HasHistoricalData = False,
      ev_HistoryDaysObserved = 0, ev_SignalCount = 1, ev_PriorDismissed = False,
      ev_DetectorDefault = ConfidenceHigh\<rparr>) = 2"
  by (simp add: confidence_band known_band_def) (simp add: conf_rank_def)

end
