(* ===== verification/Go_Regexp.thy ===== *)
theory Go_Regexp
  imports Prelude
begin

text \<open>
  The part of Go's \<^verbatim>\<open>regexp\<close> package the sources use to test whether a pattern occurs in a text:
  decoding of UTF-8, a syntax tree for patterns, and the positions at which a match that starts at a
  given position can end. Word boundaries and character classes are those of RE2; a letter of a
  case-insensitive pattern matches every rune of its folding orbit, which for \<open>k\<close> and \<open>s\<close> has a
  third member outside ASCII.
\<close>

definition cont :: "nat \<Rightarrow> bool" where
  "cont b \<longleftrightarrow> 0x80 \<le> b \<and> b \<le> 0xBF"

text \<open>The rune at the head of a text and the number of further bytes it takes (\<open>utf8.DecodeRune\<close>).\<close>

fun decode_rune :: "nat list \<Rightarrow> nat \<times> nat" where
  "decode_rune [] = (0xFFFD, 0)"
| "decode_rune (a # s) =
     (let bad = (0xFFFD, 0); lead = (\<lambda>lo hi. lo \<le> a \<and> a \<le> hi) in
      if a < 0x80 then (a, 0)
      else case s of
        [] \<Rightarrow> bad
      | b # s \<Rightarrow>
          if lead 0xC2 0xDF then (if cont b then ((a - 0xC0) * 64 + (b - 0x80), 1) else bad)
          else case s of
            [] \<Rightarrow> bad
          | c # s \<Rightarrow>
              if lead 0xE0 0xEF
              then (if cont b \<and> cont c \<and> (a = 0xE0 \<longrightarrow> 0xA0 \<le> b) \<and> (a = 0xED \<longrightarrow> b \<le> 0x9F)
                    then ((a - 0xE0) * 4096 + (b - 0x80) * 64 + (c - 0x80), 2) else bad)
              else case s of
                [] \<Rightarrow> bad
              | d # _ \<Rightarrow>
                  if lead 0xF0 0xF4 \<and> cont b \<and> cont c \<and> cont d \<and>
                     (a = 0xF0 \<longrightarrow> 0x90 \<le> b) \<and> (a = 0xF4 \<longrightarrow> b \<le> 0x8F)
                  then ((a - 0xF0) * 262144 + (b - 0x80) * 4096 + (c - 0x80) * 64 + (d - 0x80), 3)
                  else bad)"

function decode :: "nat list \<Rightarrow> nat list" where
  "decode [] = []"
| "decode (a # s) = (let (r, n) = decode_rune (a # s) in r # decode (drop n s))"
  by pat_completeness auto
termination by (relation "measure length") auto

declare decode_rune.simps(2) [simp del]

definition runes :: "string \<Rightarrow> nat list" where
  "runes s = decode (map of_char s)"

datatype regex =
    Eps
  | Cls "nat \<Rightarrow> bool"
  | Seq regex regex
  | Alt regex regex
  | UpTo nat regex
  | Star regex
  | WordBoundary
  | LineStart

definition word_rune :: "nat \<Rightarrow> bool" where
  "word_rune r \<longleftrightarrow> 48 \<le> r \<and> r \<le> 57 \<or> 65 \<le> r \<and> r \<le> 90 \<or> 97 \<le> r \<and> r \<le> 122 \<or> r = 95"

definition word_at :: "nat list \<Rightarrow> nat \<Rightarrow> bool" where
  "word_at t i \<longleftrightarrow> i < length t \<and> word_rune (t ! i)"

definition boundary :: "nat list \<Rightarrow> nat \<Rightarrow> bool" where
  "boundary t i \<longleftrightarrow> (0 < i \<and> word_at t (i - 1)) \<noteq> word_at t i"

fun steps :: "nat \<Rightarrow> (nat \<Rightarrow> nat list) \<Rightarrow> nat \<Rightarrow> nat list" where
  "steps 0 f i = [i]"
| "steps (Suc n) f i = remdups (i # concat (map (steps n f) (f i)))"

text \<open>A starred expression needs at most as many rounds as the text is long.\<close>

primrec ends :: "nat list \<Rightarrow> regex \<Rightarrow> nat \<Rightarrow> nat list" where
  "ends t Eps i = [i]"
| "ends t (Cls p) i = (if i < length t \<and> p (t ! i) then [Suc i] else [])"
| "ends t (Seq a b) i = concat (map (ends t b) (ends t a i))"
| "ends t (Alt a b) i = ends t a i @ ends t b i"
| "ends t (UpTo n r) i = steps n (ends t r) i"
| "ends t (Star r) i = steps (length t) (ends t r) i"
| "ends t WordBoundary i = (if boundary t i then [i] else [])"
| "ends t LineStart i = (if i = 0 \<or> t ! (i - 1) = 0x0A then [i] else [])"

definition MatchString :: "regex \<Rightarrow> string \<Rightarrow> bool" where
  "MatchString r s = (let t = runes s in \<exists>i \<in> set [0..<Suc (length t)]. ends t r i \<noteq> [])"

section \<open>Pieces of patterns\<close>

definition fold_eq :: "char \<Rightarrow> nat \<Rightarrow> bool" where
  "fold_eq c r \<longleftrightarrow>
     (let n = of_char c in
      r = n \<or> (97 \<le> n \<and> n \<le> 122 \<and> (r = n - 32 \<or> c = CHR ''k'' \<and> r = 0x212A \<or> c = CHR ''s'' \<and> r = 0x17F)))"

text \<open>A word in lower case, matched without regard to case.\<close>

fun lit :: "string \<Rightarrow> regex" where
  "lit [] = Eps"
| "lit (c # s) = Seq (Cls (fold_eq c)) (lit s)"

fun seqs :: "regex list \<Rightarrow> regex" where
  "seqs [] = Eps"
| "seqs (r # rs) = Seq r (seqs rs)"

fun alts :: "regex list \<Rightarrow> regex" where
  "alts [] = Cls (\<lambda>_. False)"
| "alts (r # rs) = Alt r (alts rs)"

definition opt :: "regex \<Rightarrow> regex" where
  "opt r = Alt r Eps"

definition blank :: "nat \<Rightarrow> bool" where
  "blank r \<longleftrightarrow> r \<in> {0x09, 0x0A, 0x0C, 0x0D, 0x20}"

section \<open>What a pattern matches\<close>

text \<open>ASCII text decodes to its characters, wherever it stands.\<close>

definition ascii :: "string \<Rightarrow> bool" where
  "ascii s \<longleftrightarrow> list_all (\<lambda>c. (of_char c :: nat) < 0x80) s"

lemma decode_ascii: "list_all (\<lambda>n. n < 0x80) w \<Longrightarrow> decode (w @ s) = w @ decode s"
  by (induction w) (auto simp: decode_rune.simps)

lemma runes_ascii: "ascii w \<Longrightarrow> runes (w @ s) = map of_char w @ runes s"
  using decode_ascii[of "map of_char w" "map of_char s"]
  by (simp add: runes_def ascii_def list_all_length)

lemma decode_pure: "list_all (\<lambda>n. n < 0x80) w \<Longrightarrow> decode w = w"
  using decode_ascii[of w "[]"] by simp

text \<open>A literal matches exactly the texts that agree with it up to case folding.\<close>

lemma ends_lit:
  "j \<in> set (ends t (lit w) i) \<longleftrightarrow>
     j = i + length w \<and> (\<forall>k < length w. i + k < length t \<and> fold_eq (w ! k) (t ! (i + k)))"
proof (induction w arbitrary: i)
  case (Cons c w)
  have "(\<forall>k < length (c # w). i + k < length t \<and> fold_eq ((c # w) ! k) (t ! (i + k))) \<longleftrightarrow>
      (i < length t \<and> fold_eq c (t ! i)) \<and>
      (\<forall>k < length w. Suc i + k < length t \<and> fold_eq (w ! k) (t ! (Suc i + k)))"
    by (auto simp: less_Suc_eq_0_disj)
  then show ?case using Cons.IH[of "Suc i"] by auto
qed auto

lemma MatchString_iff: "MatchString r s \<longleftrightarrow> (\<exists>i \<le> length (runes s). \<exists>j. j \<in> set (ends (runes s) r i))"
proof -
  have ne: "x \<noteq> [] \<longleftrightarrow> (\<exists>j. j \<in> set x)" for x :: "nat list" by (cases x) auto
  have up: "i \<in> set [0..<Suc n] \<longleftrightarrow> i \<le> n" for i n by (auto simp: less_Suc_eq_le)
  show ?thesis by (simp only: MatchString_def Let_def Bex_def ne up)
qed

lemma ends_Seq: "j \<in> set (ends t (Seq a b) i) \<longleftrightarrow> (\<exists>k \<in> set (ends t a i). j \<in> set (ends t b k))"
  by auto

end
