(* ===== verification/Sanitizer.thy ===== *)
theory Sanitizer
  imports Go_Strings Go_Regexp Go_Float
begin

text \<open>
  The guards around the language model. \<^verbatim>\<open>agent/llm/sanitizer/sanitizer.go\<close> cleans the chart that goes
  into a prompt: it looks for phrases that address the model, drops comments, cuts long lines and
  marks what is left as data. \<^verbatim>\<open>agent/llm/validator/validator.go\<close> looks at the diff that comes back.
\<close>

section \<open>Cleaning the input (\<^verbatim>\<open>sanitizer.go\<close>)\<close>

record SanitizerResult =
  sa_Output :: string
  sa_Suspicious :: bool
  sa_Reasons :: "string list"
  sa_Truncated :: bool

record SanitizerOptions =
  so_MaxFieldLen :: i64
  so_MaxTotalLen :: i64
  so_WrapSuspicious :: "bool option"

definition DefaultMaxFieldLen :: i64 where "DefaultMaxFieldLen = 8 * 1024"
definition DefaultMaxTotalLen :: i64 where "DefaultMaxTotalLen = 256 * 1024"

text \<open>The patterns with their texts; \<open>bs\<close> is a backslash.\<close>

definition bs :: string where "bs = [CHR 0x5C]"

definition any_of :: "string list \<Rightarrow> regex" where
  "any_of ws = alts (map lit ws)"

definition role_line :: "string \<Rightarrow> regex" where
  "role_line w = seqs [LineStart, Star (Cls blank), lit w, Star (Cls blank), lit '':'']"

definition injectionPatterns :: "(string \<times> regex) list" where
  "injectionPatterns =
     [(''(?i)'' @ bs @ ''b(ignore|disregard|forget|override)'' @ bs @ ''b[^'' @ bs @ ''n]{0,60}'' @ bs @
         ''b(instructions?|prompts?|context|directives?|rules?)'' @ bs @ ''b'',
       seqs [WordBoundary, any_of [''ignore'', ''disregard'', ''forget'', ''override''], WordBoundary,
         UpTo 60 (Cls (\<lambda>r. r \<noteq> 0x0A)), WordBoundary,
         alts [Seq (lit ''instruction'') (opt (lit ''s'')), Seq (lit ''prompt'') (opt (lit ''s'')), lit ''context'',
           Seq (lit ''directive'') (opt (lit ''s'')), Seq (lit ''rule'') (opt (lit ''s''))],
         WordBoundary]),
      (''(?i)'' @ bs @ ''bnow do'' @ bs @ ''b'', seqs [WordBoundary, lit ''now do'', WordBoundary]),
      (''(?i)'' @ bs @ ''byou are now'' @ bs @ ''b'', seqs [WordBoundary, lit ''you are now'', WordBoundary]),
      (''(?im)^'' @ bs @ ''s*system'' @ bs @ ''s*:'', role_line ''system''),
      (''(?im)^'' @ bs @ ''s*assistant'' @ bs @ ''s*:'', role_line ''assistant''),
      (''(?im)<'' @ bs @ ''|(im_start|im_end|system|user|assistant)'' @ bs @ ''|>'',
       seqs [lit ''<|'', any_of [''im_start'', ''im_end'', ''system'', ''user'', ''assistant''], lit ''|>'']),
      (''(?i)'' @ bs @ ''brepeat (the )?prompt'' @ bs @ ''b'',
       seqs [WordBoundary, lit ''repeat '', opt (lit ''the ''), lit ''prompt'', WordBoundary]),
      (''(?i)'' @ bs @ ''bdo bad things'' @ bs @ ''b'', seqs [WordBoundary, lit ''do bad things'', WordBoundary])]"

definition scanInjections :: "string \<Rightarrow> string list" where
  "scanInjections s =
     map (\<lambda>p. ''injection-marker: '' @ fst p) (filter (\<lambda>p. MatchString (snd p) s) injectionPatterns)"

text \<open>
  \<open>blockRe\<close> of \<open>stripComments\<close>. Its alternatives never compete for a character, so a match is read
  off from left to right: the opening up to the slash and star, and then the first closing.
\<close>

definition space_class :: "char set" where
  "space_class = {CHR 0x09, CHR 0x0A, CHR 0x0C, CHR 0x0D, CHR 0x20}"

definition skip_blanks :: "string \<Rightarrow> string" where
  "skip_blanks s = dropWhile (\<lambda>c. c \<in> space_class) s"

definition expect :: "string \<Rightarrow> string \<Rightarrow> string option" where
  "expect w s = (if take (length w) s = w then Some (drop (length w) s) else None)"

definition block_open :: "string \<Rightarrow> string option" where
  "block_open s =
     Option.bind (expect ''{{'' s) (\<lambda>r. expect ''/*'' (skip_blanks (trim_prefix r ''-'')))"

definition block_close :: "string \<Rightarrow> string option" where
  "block_close s =
     Option.bind (expect ''*/'' s) (\<lambda>r. expect ''}}'' (trim_prefix (skip_blanks r) ''-''))"

fun find_close :: "string \<Rightarrow> string option" where
  "find_close [] = None"
| "find_close (c # s) = (case block_close (c # s) of Some r \<Rightarrow> Some r | None \<Rightarrow> find_close s)"

definition match_block :: "string \<Rightarrow> string option" where
  "match_block s = Option.bind (block_open s) find_close"

lemma expect_length: "expect w s = Some r \<Longrightarrow> length s = length w + length r"
  by (auto simp: expect_def split: if_splits) (metis append_take_drop_id length_append length_drop)

lemma trim_prefix_length: "length (trim_prefix s p) \<le> length s"
  by (simp add: trim_prefix_def)

lemma skip_blanks_length: "length (skip_blanks s) \<le> length s"
  by (simp add: skip_blanks_def length_dropWhile_le)

lemma block_open_length: "block_open s = Some r \<Longrightarrow> length r < length s"
proof -
  assume "block_open s = Some r"
  then obtain u where "expect ''{{'' s = Some u" "expect ''/*'' (skip_blanks (trim_prefix u ''-'')) = Some r"
    by (auto simp: block_open_def bind_eq_Some_conv)
  then show ?thesis
    using trim_prefix_length[of u "''-''"] skip_blanks_length[of "trim_prefix u ''-''"]
    by (auto dest!: expect_length)
qed

lemma block_close_length: "block_close s = Some r \<Longrightarrow> length r \<le> length s"
proof -
  assume "block_close s = Some r"
  then obtain u where "expect ''*/'' s = Some u" "expect ''}}'' (trim_prefix (skip_blanks u) ''-'') = Some r"
    by (auto simp: block_close_def bind_eq_Some_conv)
  then show ?thesis
    using trim_prefix_length[of "skip_blanks u" "''-''"] skip_blanks_length[of u]
    by (auto dest!: expect_length)
qed

lemma find_close_length: "find_close s = Some r \<Longrightarrow> length r \<le> length s"
  by (induction s) (auto dest: block_close_length split: option.splits)

lemma match_block_length: "match_block s = Some r \<Longrightarrow> length r < length s"
  by (auto simp: match_block_def bind_eq_Some_conv dest!: block_open_length find_close_length)

function remove_blocks :: "string \<Rightarrow> string" where
  "remove_blocks [] = []"
| "remove_blocks (c # s) =
     (case match_block (c # s) of Some r \<Rightarrow> remove_blocks r | None \<Rightarrow> c # remove_blocks s)"
  by pat_completeness auto
termination by (relation "measure length") (auto dest: match_block_length)

text \<open>The scan of a line: the index of the first hash outside quotes.\<close>

fun hash_index :: "bool \<Rightarrow> bool \<Rightarrow> nat \<Rightarrow> string \<Rightarrow> nat option" where
  "hash_index inDouble inSingle i [] = None"
| "hash_index inDouble inSingle i (c # s) =
     (if c = CHR 0x5C \<and> s \<noteq> [] then hash_index inDouble inSingle (i + 2) (drop 1 s)
      else if c = CHR 0x22 \<and> \<not> inSingle then hash_index (\<not> inDouble) inSingle (i + 1) s
      else if c = CHR 0x27 \<and> \<not> inDouble then hash_index inDouble (\<not> inSingle) (i + 1) s
      else if c = CHR ''#'' \<and> \<not> inDouble \<and> \<not> inSingle then Some i
      else hash_index inDouble inSingle (i + 1) s)"

definition strip_line :: "string \<Rightarrow> string" where
  "strip_line line =
     (case hash_index False False 0 line of
        None \<Rightarrow> line
      | Some idx \<Rightarrow> trim_right {CHR '' '', CHR 0x09} (take idx line))"

definition newline :: string where "newline = [CHR 0x0A]"

definition stripComments :: "string \<Rightarrow> string" where
  "stripComments s =
     (let s = remove_blocks s;
          out = concat (map (\<lambda>line. strip_line line @ newline) (lines_of s))
      in if has_suffix out newline \<and> \<not> has_suffix s newline then trim_suffix out newline else out)"

definition truncated_mark :: string where
  "truncated_mark = '' '' @ [CHR 0xE2, CHR 0x80, CHR 0xA6] @ ''<truncated>''"

definition truncate_line :: "i64 \<Rightarrow> string \<Rightarrow> string" where
  "truncate_line maxLen line =
     (if int (length line) \<le> maxLen then line else take (nat maxLen) line @ truncated_mark)"

definition truncateLongFields :: "string \<Rightarrow> i64 \<Rightarrow> string \<times> bool" where
  "truncateLongFields s maxLen =
     (if maxLen \<le> 0 then (s, False)
      else (unlines (map (truncate_line maxLen) (lines_of s)),
            list_ex (\<lambda>line. \<not> int (length line) \<le> maxLen) (lines_of s)))"

definition wrapUserData :: "string \<Rightarrow> string" where
  "wrapUserData s = ''<USER_DATA>'' @ newline @ s @ newline @ ''</USER_DATA>''"

text \<open>\<open>None\<close> is the error of an input over the total length.\<close>

definition Sanitize :: "string \<Rightarrow> SanitizerOptions \<Rightarrow> SanitizerResult option" where
  "Sanitize input opts =
     (let field = (if so_MaxFieldLen opts \<le> 0 then DefaultMaxFieldLen else so_MaxFieldLen opts);
          total_len = (if so_MaxTotalLen opts \<le> 0 then DefaultMaxTotalLen else so_MaxTotalLen opts);
          wrap = (case so_WrapSuspicious opts of None \<Rightarrow> True | Some b \<Rightarrow> b)
      in if int (length input) > total_len then None
         else let reasons = scanInjections input;
                  suspicious = (reasons \<noteq> []);
                  (stripped, truncated) = truncateLongFields (stripComments input) field;
                  reasons = (if truncated then reasons @ [''long-field truncated''] else reasons)
              in Some \<lparr>sa_Output = (if suspicious \<and> wrap then wrapUserData stripped else stripped),
                       sa_Suspicious = suspicious, sa_Reasons = reasons, sa_Truncated = truncated\<rparr>)"

section \<open>Checking the output (\<^verbatim>\<open>validator.go\<close>)\<close>

datatype IssueSeverity = IssueWarn | IssueHard

record Issue =
  is_Code :: string
  is_Severity :: IssueSeverity
  is_Detail :: string

record DiffResult =
  dr_Issues :: "Issue list"
  dr_Rejected :: bool

definition splitKeyValue :: "string \<Rightarrow> (string \<times> string) option" where
  "splitKeyValue s =
     (case index_of '':'' s of
        None \<Rightarrow> None
      | Some idx \<Rightarrow>
          if idx = 0 then None
          else let k = trim_space (take idx s); v = trim_space (drop (idx + 1) s)
               in if k = [] then None else Some (k, v))"

definition zero_issue :: "string \<Rightarrow> string \<Rightarrow> Issue list" where
  "zero_issue k v =
     (if k \<in> {''replicaCount'', ''replicas''}
      then (if v = ''0''
            then [\<lparr>is_Code = ''replicas-zero'', is_Severity = IssueHard,
                   is_Detail = ''diff sets replicas to 0; use HPA min, not a hard zero''\<rparr>] else [])
      else if k \<in> {''cpu'', ''memory''}
      then (if v = [CHR 0x22, CHR ''0'', CHR 0x22] \<or> v = ''0''
            then [\<lparr>is_Code = ''resource-zero'', is_Severity = IssueHard,
                   is_Detail = ''diff sets '' @ k @ '' to 0, leaving the workload unbounded''\<rparr>] else [])
      else [])"

definition scan_line :: "string \<Rightarrow> Issue list" where
  "scan_line line =
     (if \<not> prefix ''+'' line \<or> prefix ''+++'' line then []
      else case splitKeyValue (trim_space (trim_prefix line ''+'')) of
             None \<Rightarrow> []
           | Some (k, v) \<Rightarrow> zero_issue k v)"

definition scanAddedLines :: "string \<Rightarrow> f64 \<Rightarrow> Issue list" where
  "scanAddedLines diff maxRatio = concat (map scan_line (lines_of diff))"

definition no_hunk :: Issue where
  "no_hunk = \<lparr>is_Code = ''diff-no-hunk'', is_Severity = IssueHard, is_Detail = ''diff missing @@ hunk header''\<rparr>"

definition no_header :: Issue where
  "no_header = \<lparr>is_Code = ''diff-no-header'', is_Severity = IssueWarn, is_Detail = ''diff missing --- file header''\<rparr>"

definition llm_Validate :: "string \<Rightarrow> string \<Rightarrow> f64 \<Rightarrow> DiffResult" where
  "llm_Validate chartYAML unifiedDiff maxRequestRatio =
     (let ratio = (if f64_le maxRequestRatio (Fin 0) then Fin 10 else maxRequestRatio);
          hunk = contains unifiedDiff ''@@'';
          issues = (if hunk then [] else [no_hunk]) @
                   (if prefix ''---'' (trim_space unifiedDiff) then [] else [no_header]) @
                   scanAddedLines unifiedDiff ratio
      in \<lparr>dr_Issues = issues,
          dr_Rejected = (\<not> hunk \<or> list_ex (\<lambda>iss. is_Severity iss = IssueHard) issues)\<rparr>)"

section \<open>What the sanitizer lets through\<close>

text \<open>
  The language of a line, as the source's comment describes it: quotes of either kind, backslash pairs,
  and a hash that starts a comment outside quotes. \<open>closed_text\<close> ends outside quotes and has no such
  hash; a line without a comment may end in an open quote or in a single backslash. An apostrophe of a
  plain scalar is a quote here, as it is for the code.
\<close>

inductive in_quotes :: "char \<Rightarrow> string \<Rightarrow> bool" for q where
  quoted_end: "in_quotes q []"
| quoted_char: "c \<noteq> q \<Longrightarrow> c \<noteq> CHR 0x5C \<Longrightarrow> in_quotes q s \<Longrightarrow> in_quotes q (c # s)"
| quoted_pair: "in_quotes q s \<Longrightarrow> in_quotes q (CHR 0x5C # c # s)"

inductive closed_text :: "string \<Rightarrow> bool" where
  closed_end: "closed_text []"
| closed_char: "c \<notin> {CHR 0x5C, CHR 0x22, CHR 0x27, CHR ''#''} \<Longrightarrow> closed_text s \<Longrightarrow> closed_text (c # s)"
| closed_pair: "closed_text s \<Longrightarrow> closed_text (CHR 0x5C # c # s)"
| closed_quotes: "q \<in> {CHR 0x22, CHR 0x27} \<Longrightarrow> in_quotes q b \<Longrightarrow> closed_text s \<Longrightarrow> closed_text (q # b @ q # s)"

definition open_end :: "string \<Rightarrow> bool" where
  "open_end t \<longleftrightarrow> t = [] \<or> t = [CHR 0x5C] \<or>
     (\<exists>q b. q \<in> {CHR 0x22, CHR 0x27} \<and> in_quotes q b \<and> (t = q # b \<or> t = q # b @ [CHR 0x5C]))"

definition no_comment :: "string \<Rightarrow> bool" where
  "no_comment l \<longleftrightarrow> (\<exists>p t. l = p @ t \<and> closed_text p \<and> open_end t)"

text \<open>A line and what remains of it.\<close>

definition uncommented :: "string \<Rightarrow> string \<Rightarrow> bool" where
  "uncommented l l' \<longleftrightarrow> no_comment l \<and> l' = l \<or>
     (\<exists>p t. l = p @ CHR ''#'' # t \<and> closed_text p \<and> l' = trim_right {CHR '' '', CHR 0x09} p)"

text \<open>What the scan has found, from outside quotes and from inside.\<close>

definition plain_ok :: "nat \<Rightarrow> string \<Rightarrow> nat option \<Rightarrow> bool" where
  "plain_ok k s r \<longleftrightarrow>
     (case r of None \<Rightarrow> no_comment s | Some j \<Rightarrow> \<exists>p t. s = p @ CHR ''#'' # t \<and> closed_text p \<and> j = k + length p)"

definition quote_ok :: "char \<Rightarrow> nat \<Rightarrow> string \<Rightarrow> nat option \<Rightarrow> bool" where
  "quote_ok q k s r \<longleftrightarrow>
     (\<exists>b. in_quotes q b \<and> (r = None \<and> (s = b \<or> s = b @ [CHR 0x5C]) \<or> (\<exists>u. s = b @ q # u \<and> plain_ok (k + length b + 1) u r)))"

lemma no_comment_open: "open_end t \<Longrightarrow> no_comment t"
  unfolding no_comment_def using closed_end by (metis append_Nil)

lemma plain_ok_extend:
  assumes "plain_ok (k + length w) s r" "\<And>x. closed_text x \<Longrightarrow> closed_text (w @ x)"
  shows "plain_ok k (w @ s) r"
proof (cases r)
  case None
  then obtain p t where "s = p @ t" "closed_text p" "open_end t" using assms(1) by (auto simp: plain_ok_def no_comment_def)
  then show ?thesis using None assms(2)
    unfolding None plain_ok_def no_comment_def option.case by (intro exI[of _ "w @ p"] exI[of _ t]) simp
next
  case (Some j)
  then obtain p t where "s = p @ CHR ''#'' # t" "closed_text p" "j = k + length w + length p"
    using assms(1) by (auto simp: plain_ok_def)
  then show ?thesis using Some assms(2)
    unfolding Some plain_ok_def option.case by (intro exI[of _ "w @ p"] exI[of _ t]) simp
qed

lemma plain_ok_char: "c \<notin> {CHR 0x5C, CHR 0x22, CHR 0x27, CHR ''#''} \<Longrightarrow> plain_ok (k + 1) s r \<Longrightarrow> plain_ok k (c # s) r"
  using plain_ok_extend[of k "[c]" s r] by (simp add: closed_char)

lemma plain_ok_pair: "plain_ok (k + 2) s r \<Longrightarrow> plain_ok k (CHR 0x5C # c # s) r"
  using plain_ok_extend[of k "[CHR 0x5C, c]" s r] by (simp add: closed_pair)

lemma plain_ok_quote:
  assumes "q \<in> {CHR 0x22, CHR 0x27}" "quote_ok q (k + 1) s r"
  shows "plain_ok k (q # s) r"
proof -
  obtain b where b: "in_quotes q b" and *: "r = None \<and> (s = b \<or> s = b @ [CHR 0x5C]) \<or> (\<exists>u. s = b @ q # u \<and> plain_ok (k + 1 + length b + 1) u r)"
    using assms(2) by (auto simp: quote_ok_def)
  show ?thesis
    using *
  proof (elim disjE exE conjE)
    assume "r = None" "s = b"
    then have "no_comment (q # s)" unfolding open_end_def
      using assms(1) b by (intro no_comment_open) (auto simp: open_end_def)
    then show ?thesis using \<open>r = None\<close> by (simp add: plain_ok_def)
  next
    assume "r = None" "s = b @ [CHR 0x5C]"
    then have "no_comment (q # s)" unfolding open_end_def
      using assms(1) b by (intro no_comment_open) (auto simp: open_end_def)
    then show ?thesis using \<open>r = None\<close> by (simp add: plain_ok_def)
  next
    fix u assume "s = b @ q # u" "plain_ok (k + 1 + length b + 1) u r"
    then show ?thesis
      using plain_ok_extend[of k "q # b @ [q]" u r] closed_quotes[OF assms(1) b] by simp
  qed
qed

lemma quote_ok_extend:
  assumes "quote_ok q (k + length w) s r" "\<And>x. in_quotes q x \<Longrightarrow> in_quotes q (w @ x)"
  shows "quote_ok q k (w @ s) r"
proof -
  obtain b where b: "in_quotes q b" and *: "r = None \<and> (s = b \<or> s = b @ [CHR 0x5C]) \<or> (\<exists>u. s = b @ q # u \<and> plain_ok (k + length w + length b + 1) u r)"
    using assms(1) by (auto simp: quote_ok_def)
  then show ?thesis unfolding quote_ok_def using assms(2)[OF b] by (intro exI[of _ "w @ b"]) (auto simp: add.assoc)
qed

lemma quote_ok_char: "c \<noteq> q \<Longrightarrow> c \<noteq> CHR 0x5C \<Longrightarrow> quote_ok q (k + 1) s r \<Longrightarrow> quote_ok q k (c # s) r"
  using quote_ok_extend[of q k "[c]" s r] by (simp add: quoted_char)

lemma quote_ok_pair: "quote_ok q (k + 2) s r \<Longrightarrow> quote_ok q k (CHR 0x5C # c # s) r"
  using quote_ok_extend[of q k "[CHR 0x5C, c]" s r] by (simp add: quoted_pair)

lemma quote_ok_close: "plain_ok (k + 1) s r \<Longrightarrow> quote_ok q k (q # s) r"
  unfolding quote_ok_def by (intro exI[of _ "[]"]) (simp add: quoted_end)

lemma quote_ok_end: "quote_ok q k [] None" "quote_ok q k [CHR 0x5C] None"
  by (auto simp: quote_ok_def intro!: exI[of _ "[]"] quoted_end)

lemma plain_ok_end: "plain_ok k [] None" "plain_ok k [CHR 0x5C] None"
  by (auto simp: plain_ok_def open_end_def intro!: no_comment_open)

lemma hash_index_ok:
  "(\<not> d \<and> \<not> q \<longrightarrow> plain_ok k s (hash_index d q k s)) \<and>
   (d \<and> \<not> q \<longrightarrow> quote_ok (CHR 0x22) k s (hash_index d q k s)) \<and>
   (q \<and> \<not> d \<longrightarrow> quote_ok (CHR 0x27) k s (hash_index d q k s))"
proof (induction d q k s rule: hash_index.induct)
  case (1 d q k)
  then show ?case by (simp add: plain_ok_end quote_ok_end)
next
  case (2 d q k c s)
  consider (pair) x u where "c = CHR 0x5C" "s = x # u" | (last) "c = CHR 0x5C" "s = []"
    | (double) "c = CHR 0x22" "\<not> q" | (single) "c = CHR 0x27" "\<not> d" | (hash) "c = CHR ''#''" "\<not> d" "\<not> q"
    | (other) "c \<noteq> CHR 0x5C" "c = CHR 0x22 \<longrightarrow> q" "c = CHR 0x27 \<longrightarrow> d" "c = CHR ''#'' \<longrightarrow> d \<or> q"
    by (cases s) auto
  then show ?case
  proof cases
    case pair
    then show ?thesis using 2(1) by (auto intro: plain_ok_pair quote_ok_pair)
  next
    case last
    then show ?thesis by (simp add: plain_ok_end quote_ok_end)
  next
    case double
    then show ?thesis using 2(2) by (cases d) (auto intro: plain_ok_quote quote_ok_close)
  next
    case single
    then show ?thesis using 2(3) by (cases q) (auto intro: plain_ok_quote quote_ok_close)
  next
    case hash
    then show ?thesis by (auto simp: plain_ok_def intro!: exI[of _ "[]"] closed_end)
  next
    case other
    then have h: "hash_index d q k (c # s) = hash_index d q (k + 1) s" by auto
    have "(\<not> d \<and> \<not> q \<longrightarrow> plain_ok (k + 1) s (hash_index d q (k + 1) s)) \<and>
        (d \<and> \<not> q \<longrightarrow> quote_ok (CHR 0x22) (k + 1) s (hash_index d q (k + 1) s)) \<and>
        (q \<and> \<not> d \<longrightarrow> quote_ok (CHR 0x27) (k + 1) s (hash_index d q (k + 1) s))"
      by (rule 2(4)) (use other in auto)
    then show ?thesis unfolding h using other by (auto intro!: plain_ok_char quote_ok_char)
  qed
qed

lemma strip_line_uncommented: "uncommented l (strip_line l)"
proof (cases "hash_index False False 0 l")
  case None
  then show ?thesis using hash_index_ok[of False False 0 l] by (simp add: plain_ok_def uncommented_def strip_line_def)
next
  case (Some j)
  then obtain p t where "l = p @ CHR ''#'' # t" "closed_text p" "j = length p"
    using hash_index_ok[of False False 0 l] by (auto simp: plain_ok_def)
  then show ?thesis using Some by (auto simp: uncommented_def strip_line_def)
qed

text \<open>
  Block comments, in the words of the expression: an opening, any text without a closing in it, and a
  closing. \<open>unblocked s t\<close>: reading from the left, \<open>t\<close> is \<open>s\<close> without its block comments.
\<close>

definition block_opening :: "string \<Rightarrow> bool" where
  "block_opening u \<longleftrightarrow> (\<exists>d w. u = ''{{'' @ d @ w @ ''/*'' \<and> d \<in> {[], ''-''} \<and> set w \<subseteq> space_class)"

definition block_closing :: "string \<Rightarrow> bool" where
  "block_closing u \<longleftrightarrow> (\<exists>w d. u = ''*/'' @ w @ d @ ''}}'' \<and> d \<in> {[], ''-''} \<and> set w \<subseteq> space_class)"

definition starts_closing :: "string \<Rightarrow> bool" where
  "starts_closing s \<longleftrightarrow> (\<exists>c r. block_closing c \<and> s = c @ r)"

definition starts_block :: "string \<Rightarrow> bool" where
  "starts_block s \<longleftrightarrow> (\<exists>o' b c r. block_opening o' \<and> block_closing c \<and> s = o' @ b @ c @ r)"

inductive unblocked :: "string \<Rightarrow> string \<Rightarrow> bool" where
  unblocked_end: "unblocked [] []"
| unblocked_cut: "block_opening u \<Longrightarrow> block_closing c \<Longrightarrow> (\<And>x y. b = x @ y \<Longrightarrow> y \<noteq> [] \<Longrightarrow> \<not> starts_closing (y @ c @ s)) \<Longrightarrow>
    unblocked s t \<Longrightarrow> unblocked (u @ b @ c @ s) t"
| unblocked_keep: "\<not> starts_block (c # s) \<Longrightarrow> unblocked s t \<Longrightarrow> unblocked (c # s) (c # t)"

lemma expect_iff: "expect w s = Some r \<longleftrightarrow> s = w @ r"
  by (auto simp: expect_def) (metis append_take_drop_id)

lemma skip_blanks_append: "set w \<subseteq> space_class \<Longrightarrow> x = [] \<or> hd x \<notin> space_class \<Longrightarrow> skip_blanks (w @ x) = x"
  by (induction w) (auto simp: skip_blanks_def dropWhile_eq_self_iff)

lemma skip_blanks_split: obtains w where "set w \<subseteq> space_class" "s = w @ skip_blanks s"
  by (rule that[of "takeWhile (\<lambda>c. c \<in> space_class) s"]) (auto simp: skip_blanks_def dest: set_takeWhileD)

lemma trim_dash: "trim_prefix (''-'' @ x) ''-'' = x" "x = [] \<or> hd x \<noteq> CHR ''-'' \<Longrightarrow> trim_prefix x ''-'' = x"
  by (simp add: trim_prefix_def) (cases x, simp_all add: trim_prefix_def)

lemma trim_dash_split: obtains d where "d \<in> {[], ''-''}" "s = d @ trim_prefix s ''-''"
proof (cases "take 1 s = ''-''")
  case True
  then show ?thesis using append_take_drop_id[of 1 s] by (intro that[of "''-''"]) (simp_all add: trim_prefix_def)
next
  case False
  then show ?thesis by (intro that[of "[]"]) (simp_all add: trim_prefix_def)
qed

lemma blank_marks: "CHR ''-'' \<notin> space_class" "CHR ''/'' \<notin> space_class" "CHR ''}'' \<notin> space_class"
  by (auto simp: space_class_def)

lemma hd_blanks: "set w \<subseteq> space_class \<Longrightarrow> c \<notin> space_class \<Longrightarrow> c \<noteq> x \<Longrightarrow> x \<notin> space_class \<Longrightarrow> hd (w @ c # r) \<noteq> x"
  by (cases w) auto

lemma block_open_iff: "block_open s = Some r \<longleftrightarrow> (\<exists>u. block_opening u \<and> s = u @ r)"
proof
  assume "block_open s = Some r"
  then obtain v where v: "s = ''{{'' @ v" "skip_blanks (trim_prefix v ''-'') = ''/*'' @ r"
    by (auto simp: block_open_def bind_eq_Some_conv expect_iff)
  obtain d where d: "d \<in> {[], ''-''}" "v = d @ trim_prefix v ''-''" by (rule trim_dash_split)
  obtain w where "set w \<subseteq> space_class" "trim_prefix v ''-'' = w @ skip_blanks (trim_prefix v ''-'')" by (rule skip_blanks_split)
  then show "\<exists>u. block_opening u \<and> s = u @ r"
    using v d by (intro exI[of _ "''{{'' @ d @ w @ ''/*''"]) (auto simp: block_opening_def)
next
  assume "\<exists>u. block_opening u \<and> s = u @ r"
  then obtain u d w where "s = u @ r" "u = ''{{'' @ d @ w @ ''/*''" and d: "d \<in> {[], ''-''}" "set w \<subseteq> space_class"
    unfolding block_opening_def by blast
  then have u: "s = ''{{'' @ d @ w @ ''/*'' @ r" "d \<in> {[], ''-''}" "set w \<subseteq> space_class" by simp_all
  have "trim_prefix (d @ w @ ''/*'' @ r) ''-'' = w @ ''/*'' @ r"
    using u(2,3) trim_dash(1)[of "w @ ''/*'' @ r"] hd_blanks[of w "CHR ''/''" "CHR ''-''" "CHR ''*'' # r"] blank_marks
    by (auto intro!: trim_dash(2))
  then show "block_open s = Some r"
    using u skip_blanks_append[of w "''/*'' @ r"] blank_marks
    by (simp add: block_open_def bind_eq_Some_conv expect_iff)
qed

lemma block_close_iff: "block_close s = Some r \<longleftrightarrow> (\<exists>u. block_closing u \<and> s = u @ r)"
proof
  assume "block_close s = Some r"
  then obtain v where v: "s = ''*/'' @ v" "trim_prefix (skip_blanks v) ''-'' = ''}}'' @ r"
    by (auto simp: block_close_def bind_eq_Some_conv expect_iff)
  obtain w where w: "set w \<subseteq> space_class" "v = w @ skip_blanks v" by (rule skip_blanks_split)
  obtain d where d: "d \<in> {[], ''-''}" "skip_blanks v = d @ trim_prefix (skip_blanks v) ''-''" by (rule trim_dash_split)
  have "s = (''*/'' @ w @ d @ ''}}'') @ r" using v(1) arg_cong[OF d(2), of "\<lambda>x. ''*/'' @ w @ x"] w(2) v(2) by simp
  then show "\<exists>u. block_closing u \<and> s = u @ r" using w(1) d(1) unfolding block_closing_def by blast
next
  assume "\<exists>u. block_closing u \<and> s = u @ r"
  then obtain u d w where "s = u @ r" "u = ''*/'' @ w @ d @ ''}}''" and d: "d \<in> {[], ''-''}" "set w \<subseteq> space_class"
    unfolding block_closing_def by blast
  then have u: "s = ''*/'' @ w @ d @ ''}}'' @ r" "d \<in> {[], ''-''}" "set w \<subseteq> space_class" by simp_all
  have "skip_blanks (w @ d @ ''}}'' @ r) = d @ ''}}'' @ r"
    using u(2,3) blank_marks by (intro skip_blanks_append) auto
  moreover have "trim_prefix (d @ ''}}'' @ r) ''-'' = ''}}'' @ r"
    using u(2) trim_dash(1)[of "''}}'' @ r"] by (auto intro!: trim_dash(2))
  ultimately show "block_close s = Some r"
    using u(1) by (simp add: block_close_def bind_eq_Some_conv expect_iff)
qed

lemma starts_closing_iff: "starts_closing s \<longleftrightarrow> block_close s \<noteq> None"
  unfolding starts_closing_def by (metis block_close_iff not_None_eq)

lemma find_close_Some:
  "find_close s = Some r \<Longrightarrow> \<exists>b c. s = b @ c @ r \<and> block_closing c \<and> (\<forall>x y. b = x @ y \<and> y \<noteq> [] \<longrightarrow> \<not> starts_closing (y @ c @ r))"
proof (induction s)
  case (Cons a s)
  show ?case
  proof (cases "block_close (a # s)")
    case None
    then obtain b c where b: "s = b @ c @ r" "block_closing c" "\<forall>x y. b = x @ y \<and> y \<noteq> [] \<longrightarrow> \<not> starts_closing (y @ c @ r)"
      using Cons by auto
    have "\<not> starts_closing (y @ c @ r)" if "a # b = x @ y" "y \<noteq> []" for x y
      using that b None by (cases x) (auto simp: starts_closing_iff)
    then show ?thesis using b by (intro exI[of _ "a # b"] exI[of _ c]) auto
  next
    case (Some r')
    then obtain c where "block_closing c" "a # s = c @ r" using Cons.prems block_close_iff[of "a # s" r'] by auto
    then show ?thesis by (intro exI[of _ "[]"] exI[of _ c]) simp
  qed
qed simp

lemma find_close_None: "find_close s = None \<Longrightarrow> s = b @ c @ r \<Longrightarrow> \<not> block_closing c"
proof (induction s arbitrary: b)
  case Nil
  then show ?case by (auto simp: block_closing_def)
next
  case (Cons a s)
  from Cons.prems(1) have n: "block_close (a # s) = None" "find_close s = None" by (simp_all split: option.splits)
  show ?case
  proof (cases b)
    case Nil
    then show ?thesis using n(1) Cons.prems(2) block_close_iff[of "a # s" r] by auto
  next
    case b: (Cons a' b')
    then show ?thesis using Cons.IH[OF n(2), of b'] Cons.prems(2) by simp
  qed
qed

lemma remove_blocks_unblocked: "unblocked s (remove_blocks s)"
proof (induction s rule: remove_blocks.induct)
  case (2 a s)
  show ?case
  proof (cases "match_block (a # s)")
    case None
    have "\<not> starts_block (a # s)"
      using None find_close_None block_open_iff[of "a # s"] unfolding starts_block_def match_block_def
      by (metis Option.bind.bind_lunit not_None_eq)
    then show ?thesis using None 2(1)[OF None] by (simp add: unblocked_keep)
  next
    case (Some r)
    then obtain v where v: "block_open (a # s) = Some v" "find_close v = Some r" by (auto simp: match_block_def bind_eq_Some_conv)
    obtain u where u: "block_opening u" "a # s = u @ v" using v(1) block_open_iff by blast
    obtain b c where "v = b @ c @ r" "block_closing c" "\<forall>x y. b = x @ y \<and> y \<noteq> [] \<longrightarrow> \<not> starts_closing (y @ c @ r)"
      using find_close_Some[OF v(2)] by blast
    then have "unblocked (a # s) (remove_blocks r)"
      using 2(2)[OF Some] unblocked_cut[OF u(1), of c b r "remove_blocks r"] by (simp add: u(2))
    then show ?thesis using Some by simp
  qed
qed (simp add: unblocked_end)

lemma trim_right_take: "\<exists>n \<le> length s. trim_right cs s = take n s"
proof -
  define d where "d = length (takeWhile (\<lambda>c. c \<in> cs) (rev s))"
  have "trim_right cs s = take (length s - d) s"
    unfolding trim_right_def d_def dropWhile_eq_drop by (simp add: rev_drop)
  then show ?thesis by (metis diff_le_self)
qed

lemma strip_line_take: "\<exists>n. strip_line l = take n l"
  using trim_right_take[of "take i l" for i]
  by (auto simp: strip_line_def split: option.split) (metis take_all_iff le_refl take_take)+

lemma strip_line_clean: "clean_line l \<Longrightarrow> clean_line (strip_line l)"
  using strip_line_take[of l] by (auto simp: clean_line_take)

lemma stripComments_unlines:
  "stripComments s = unlines (map strip_line (lines_of (remove_blocks s)) @
     (if has_suffix (remove_blocks s) newline then [[]] else []))"
proof -
  define ls where "ls = map strip_line (lines_of (remove_blocks s))"
  have ls: "list_all clean_line ls" "ls \<noteq> []"
    using lines_of_clean[of "remove_blocks s"] by (auto simp: ls_def list_all_iff strip_line_clean)
  have out: "concat (map (\<lambda>line. strip_line line @ newline) (lines_of (remove_blocks s))) = unlines ls @ newline"
    using unlines_terminated[of ls] ls(2) by (simp add: ls_def newline_def comp_def)
  have "lines_of (unlines ls @ newline) = ls @ [[]]"
    using lines_of_snoc[of "[]" "unlines ls"] ls by (simp add: newline_def lines_unlines clean_line_def)
  then have e: "unlines (ls @ [[]]) = unlines ls @ newline" by (metis join_split_on lines_of_def unlines_def)
  have "has_suffix (x @ newline) newline" "trim_suffix (x @ newline) newline = x" for x
    by (simp_all add: has_suffix_def trim_suffix_def newline_def)
  then show ?thesis
    unfolding stripComments_def Let_def out ls_def[symmetric] by (simp add: e)
qed

lemma stripped_lines:
  "lines_of (stripComments s) = map strip_line (lines_of (remove_blocks s)) @
     (if has_suffix (remove_blocks s) newline then [[]] else [])"
proof -
  have "list_all clean_line (map strip_line (lines_of (remove_blocks s)))" "clean_line []"
    using lines_of_clean[of "remove_blocks s"] by (auto simp: list_all_iff strip_line_clean) (simp add: clean_line_def)
  then show ?thesis unfolding stripComments_unlines by (intro lines_unlines) auto
qed

text \<open>The limits in force.\<close>

definition field_limit :: "SanitizerOptions \<Rightarrow> i64" where
  "field_limit opts = (if so_MaxFieldLen opts \<le> 0 then DefaultMaxFieldLen else so_MaxFieldLen opts)"

definition total_limit :: "SanitizerOptions \<Rightarrow> i64" where
  "total_limit opts = (if so_MaxTotalLen opts \<le> 0 then DefaultMaxTotalLen else so_MaxTotalLen opts)"

lemma limits_pos: "0 < field_limit opts"
  by (simp add: field_limit_def DefaultMaxFieldLen_def)

lemma Sanitize_eq:
  "Sanitize input opts =
     (let out = truncateLongFields (stripComments input) (field_limit opts);
          suspicious = scanInjections input \<noteq> []
      in if int (length input) > total_limit opts then None
         else Some \<lparr>sa_Output = (if suspicious \<and> so_WrapSuspicious opts \<noteq> Some False then wrapUserData (fst out) else fst out),
           sa_Suspicious = suspicious,
           sa_Reasons = (if snd out then scanInjections input @ [''long-field truncated''] else scanInjections input),
           sa_Truncated = snd out\<rparr>)"
  by (auto simp: Sanitize_def field_limit_def total_limit_def Let_def split: prod.split option.split)

text \<open>
  C20. The sanitizer fails exactly on an input over the total length. Otherwise the result is marked
  suspicious exactly when some pattern occurs in the input, comments included, and as truncated exactly
  when some line was too long. The output is the input without its block comments, read once from the
  left, each line cut before the first hash outside quotes, and each line that is still longer than
  the limit cut there and marked, with one empty line more when the text ends in a line feed; it stands
  between the two boundary lines when it is suspicious and wrapping is not switched off. Quotes are the
  quotes of the code's scan, for which an apostrophe inside a word opens one.
\<close>

theorem sanitize_output:
  "case Sanitize input opts of
     None \<Rightarrow> total_limit opts < int (length input)
   | Some r \<Rightarrow> int (length input) \<le> total_limit opts \<and>
       (sa_Suspicious r \<longleftrightarrow> list_ex (\<lambda>p. MatchString (snd p) input) injectionPatterns) \<and>
       (\<exists>text ls. unblocked input text \<and> list_all2 uncommented (lines_of text) ls \<and>
          (sa_Truncated r \<longleftrightarrow> list_ex (\<lambda>l. field_limit opts < int (length l)) ls) \<and>
          (let clean = unlines (map (\<lambda>l. if int (length l) \<le> field_limit opts then l
                                        else take (nat (field_limit opts)) l @ truncated_mark)
                              (ls @ (if has_suffix text newline then [[]] else [])))
           in sa_Output r =
                (if sa_Suspicious r \<and> so_WrapSuspicious opts \<noteq> Some False
                 then ''<USER_DATA>'' @ newline @ clean @ newline @ ''</USER_DATA>'' else clean)))"
proof -
  have sus: "scanInjections input \<noteq> [] \<longleftrightarrow> list_ex (\<lambda>p. MatchString (snd p) input) injectionPatterns"
    by (auto simp: scanInjections_def list_ex_iff filter_empty_conv)
  let ?ls = "map strip_line (lines_of (remove_blocks input))"
  have ls: "list_all2 uncommented (lines_of (remove_blocks input)) ?ls"
    by (simp add: list_all2_conv_all_nth strip_line_uncommented)
  have cut: "truncate_line m = (\<lambda>l. if int (length l) \<le> m then l else take (nat m) l @ truncated_mark)" for m
    by (auto simp: truncate_line_def)
  have out: "truncateLongFields (stripComments input) (field_limit opts) =
      (unlines (map (\<lambda>l. if int (length l) \<le> field_limit opts then l else take (nat (field_limit opts)) l @ truncated_mark)
         (?ls @ (if has_suffix (remove_blocks input) newline then [[]] else []))),
       list_ex (\<lambda>l. field_limit opts < int (length l)) ?ls)"
    using limits_pos[of opts] by (simp add: truncateLongFields_def stripped_lines cut not_le)
  show ?thesis
    unfolding Sanitize_eq out Let_def fst_conv snd_conv sus
    using remove_blocks_unblocked[of input] ls
    by (auto simp: wrapUserData_def simp del: map_append intro!: exI[of _ "remove_blocks input"] exI[of _ ?ls])
qed

text \<open>
  Removing one block comment can join the halves of another, which then stays.
\<close>

lemma nested_block_survives:
  "stripComments (''{{{{/* x */}}/* obey */}}'') = ''{{/* obey */}}''"
  by (simp add: stripComments_def Let_def lines_of_def strip_line_def newline_def match_block_def block_open_def
      block_close_def skip_blanks_def space_class_def trim_prefix_def expect_def has_suffix_def trim_suffix_def)

text \<open>
  The scan takes an apostrophe inside a plain scalar for an opening quote, so a comment after one
  stays in the prompt.
\<close>

lemma apostrophe_shields_comment:
  "stripComments (''note: it'' @ [CHR 0x27] @ ''s # obey'') = ''note: it'' @ [CHR 0x27] @ ''s # obey''"
  by (simp add: stripComments_def Let_def lines_of_def strip_line_def newline_def match_block_def block_open_def
      expect_def has_suffix_def trim_suffix_def)

text \<open>A chart that ends in a line feed comes out with one more.\<close>

lemma stripComments_extra_newline: "stripComments (''a'' @ newline) = ''a'' @ newline @ newline"
  by (simp add: stripComments_def Let_def lines_of_def strip_line_def newline_def match_block_def block_open_def
      expect_def has_suffix_def)

text \<open>The phrases are found in any case and wherever word boundaries allow.\<close>

lemma now_do_found: "scanInjections ''Now DO it'' \<noteq> []"
proof -
  have "MatchString (seqs [WordBoundary, lit ''now do'', WordBoundary]) ''Now DO it''"
    unfolding MatchString_iff
  proof (intro exI conjI)
    have t: "runes ''Now DO it'' = [78, 111, 119, 32, 68, 79, 32, 105, 116]"
      by (simp add: runes_def decode_rune.simps)
    show "6 \<in> set (ends (runes ''Now DO it'') (seqs [WordBoundary, lit ''now do'', WordBoundary]) 0)"
      unfolding t by (simp add: boundary_def word_at_def word_rune_def fold_eq_def)
  qed simp
  then show ?thesis by (simp add: scanInjections_def injectionPatterns_def)
qed

text \<open>
  The checker of the model's output rejects a diff without a hunk header and one that sets replicas,
  CPU or memory to zero. The ratio it is configured with plays no part.
\<close>

lemma list_ex_all: "(\<And>i. i \<in> set xs \<Longrightarrow> P i) \<Longrightarrow> list_ex P xs \<longleftrightarrow> xs \<noteq> []"
  by (cases xs) auto

lemma list_ex_concat_map: "list_ex P (concat (map f xs)) \<longleftrightarrow> (\<exists>x \<in> set xs. list_ex P (f x))"
  by (induction xs) auto

lemma zero_issue_hard: "i \<in> set (zero_issue k v) \<Longrightarrow> is_Severity i = IssueHard"
  unfolding zero_issue_def by (simp split: if_split_asm)

lemma scan_line_hard: "i \<in> set (scan_line line) \<Longrightarrow> is_Severity i = IssueHard"
  using zero_issue_hard by (force simp only: scan_line_def list.set empty_iff split: if_split_asm option.split_asm prod.split_asm)

lemma llm_Validate_rejects:
  "dr_Rejected (llm_Validate chart diff ratio) \<longleftrightarrow>
     \<not> contains diff ''@@'' \<or> (\<exists>line \<in> set (lines_of diff). scan_line line \<noteq> [])"
proof -
  have "list_ex (\<lambda>i. is_Severity i = IssueHard) (scanAddedLines diff r) \<longleftrightarrow>
      (\<exists>line \<in> set (lines_of diff). scan_line line \<noteq> [])" for r
    by (simp add: scanAddedLines_def list_ex_concat_map list_ex_all[OF scan_line_hard])
  then show ?thesis by (simp add: llm_Validate_def Let_def no_hunk_def no_header_def)
qed

lemma llm_Validate_ignores_ratio: "llm_Validate chart diff r1 = llm_Validate chart diff r2"
  by (simp add: llm_Validate_def Let_def scanAddedLines_def)

end
