(* ===== verification/Tenancy.thy ===== *)
theory Tenancy
  imports Prelude
begin

text \<open>
  \<^verbatim>\<open>backend/internal/tenancy/context.go\<close>: the tenant scope every domain operation takes. A context's
  value is an optional scope.
\<close>

record TenantContext =
  tc_TenantID :: string
  tc_WorkspaceID :: string
  tc_ClusterID :: string
  tc_Namespace :: string

definition TenantContext_String :: "TenantContext \<Rightarrow> string" where
  "TenantContext_String c =
     ''tenant='' @ tc_TenantID c @ '' workspace='' @ tc_WorkspaceID c @ '' cluster='' @ tc_ClusterID c @
     '' ns='' @ tc_Namespace c"

text \<open>\<open>True\<close> when there is no error.\<close>

definition Tenant_Validate :: "TenantContext \<Rightarrow> bool" where
  "Tenant_Validate c \<longleftrightarrow> tc_TenantID c \<noteq> []"

text \<open>The value stored in a request's context, if any; \<open>None\<close> is \<open>ErrNoTenant\<close>.\<close>

definition FromContext :: "TenantContext option \<Rightarrow> TenantContext option" where
  "FromContext ctx =
     (case ctx of None \<Rightarrow> None | Some v \<Rightarrow> if Tenant_Validate v then Some v else None)"

definition WithContext :: "TenantContext option \<Rightarrow> TenantContext \<Rightarrow> TenantContext option" where
  "WithContext ctx t = Some t"

lemma FromContext_Some: "FromContext ctx = Some t \<longleftrightarrow> ctx = Some t \<and> Tenant_Validate t"
  by (auto simp: FromContext_def split: option.splits if_splits)

lemma FromContext_WithContext [simp]: "Tenant_Validate t \<Longrightarrow> FromContext (WithContext ctx t) = Some t"
  by (simp add: FromContext_def WithContext_def)

end
