(* ===== verification/Composer.thy ===== *)
theory Composer
  imports Rules_Types Sanitizer Tenancy
begin

text \<open>
  \<^verbatim>\<open>agent/agent.go\<close>: from a finding to an explanation and a diff by one call of a language model,
  behind the sanitizer and a cost cap. The model, the recorder and SHA-256 are parameters; the
  composer returns, beside its result, the calls it made in their order. \<^verbatim>\<open>agent/llm/canary\<close> gives
  the mirrored call and \<^verbatim>\<open>agent/llm/audit\<close> the in-memory trail.
\<close>

section \<open>Requests and responses\<close>

record LLMRequest =
  lr_CachedSystem :: string
  lr_System :: string
  lr_User :: string
  lr_Model :: string
  lr_MaxTokens :: i64

record LLMResponse =
  lp_Text :: string
  lp_InputTokens :: i64
  lp_OutputTokens :: i64
  lp_CacheReadTokens :: i64
  lp_CacheCreateTokens :: i64
  lp_CostUSDCents :: i64
  lp_Model :: string

text \<open>
  A client returns the response and an error; the response counts only without one, except for its
  model, which the canary reads either way.
\<close>

type_synonym LLMClient = "LLMRequest \<Rightarrow> LLMResponse \<times> string option"

record FixRequest =
  fq_Finding :: Finding
  fq_ChartYAML :: string
  fq_Model :: string
  fq_Workload :: string
  fq_SystemHint :: string

record FixResponse =
  fp_Explanation :: string
  fp_UnifiedDiff :: string
  fp_CostUSDCents :: i64
  fp_Model :: string
  fp_Sanitised :: SanitizerResult

record CallRecord =
  cr_Workload :: string
  cr_Purpose :: string
  cr_Model :: string
  cr_InputTokens :: i64
  cr_OutputTokens :: i64
  cr_CacheHitTokens :: i64
  cr_CostUSDCents :: i64
  cr_InputHash :: string
  cr_OutputHash :: string
  cr_Suspicious :: bool

record Composer =
  co_LLM :: "LLMClient option"
  co_PerCallCents :: i64
  co_Recorder :: bool

datatype agent_error =
    ErrNilLLM
  | ErrNoTenant
  | ErrSanitize
  | ErrBudgetExceeded i64 i64
  | ErrLLM string

datatype agent_event = Generated LLMRequest | Recorded CallRecord

section \<open>Prompt and protocol\<close>

definition maxTokens :: "FixRequest \<Rightarrow> i64" where
  "maxTokens r = 4096"

definition buildCachedSystem :: "FixRequest \<Rightarrow> string" where
  "buildCachedSystem r =
     ''You are Optiqor, a deterministic Kubernetes cost-and-security review assistant. '' @
     ''Output two sections labelled `EXPLANATION:` and `DIFF:`. '' @
     ''The diff must be a valid unified diff against the supplied chart values.yaml; nothing else. '' @
     ''Never invent fields that do not appear in the input.''"

definition buildSystem :: "FixRequest \<Rightarrow> string" where
  "buildSystem req = fq_SystemHint req"

definition buildUser :: "FixRequest \<Rightarrow> string \<Rightarrow> string" where
  "buildUser req chart =
     ''Workload: '' @ fq_Workload req @
     newline @ ''Detector: '' @ f_DetectorID (fq_Finding req) @
     newline @ ''Title: '' @ f_Title (fq_Finding req) @
     newline @ ''Severity: '' @ f_Severity (fq_Finding req) @
     newline @ ''Detail:'' @ newline @ f_Detail (fq_Finding req) @
     newline @ newline @ ''Chart values.yaml:'' @ newline @ chart"

definition extractDiff :: "string \<Rightarrow> string" where
  "extractDiff s =
     (case index_of ''DIFF:'' s of None \<Rightarrow> [] | Some idx \<Rightarrow> trim_space (drop (idx + length ''DIFF:'') s))"

definition cutSection :: "string \<Rightarrow> string \<Rightarrow> string \<Rightarrow> string" where
  "cutSection s start finish =
     (case index_of start s of
        None \<Rightarrow> trim_space s
      | Some a \<Rightarrow>
          let rest = drop (a + length start) s
          in case index_of finish rest of
               None \<Rightarrow> trim_space rest
             | Some b \<Rightarrow> trim_space (take b rest))"

definition extractExplanation :: "string \<Rightarrow> string" where
  "extractExplanation s = cutSection s ''EXPLANATION:'' ''DIFF:''"

section \<open>Budget\<close>

definition normaliseModel :: "string \<Rightarrow> string" where
  "normaliseModel m =
     (let m = to_lower m
      in if contains m ''haiku'' then ''claude-haiku''
         else if contains m ''opus'' then ''claude-opus''
         else if contains m ''sonnet'' then ''claude-sonnet''
         else ''claude-sonnet'')"

definition perMillionCents :: "string \<Rightarrow> i64 \<times> i64" where
  "perMillionCents model =
     (let m = normaliseModel model
      in if m = ''claude-haiku'' then (100, 500)
         else if m = ''claude-sonnet'' then (300, 1500)
         else if m = ''claude-opus'' then (1500, 7500)
         else (300, 1500))"

definition projectedCostCents :: "string \<Rightarrow> i64 \<Rightarrow> i64 \<Rightarrow> i64" where
  "projectedCostCents model inputChars maxOutputTokens =
     (let inputTokens = inputChars sdiv 4;
          (inp, out) = perMillionCents model;
          cents = wrap64 (inputTokens * inp + maxOutputTokens * out) sdiv 1000000
      in if cents < 1 then 1 else cents)"

definition SortedModels :: "string list" where
  "SortedModels = stable_sort (<) [''claude-haiku'', ''claude-sonnet'', ''claude-opus'']"

section \<open>Generating a fix\<close>

text \<open>
  The recorder's own failure is dropped, so it only has to be told apart whether there is one.
  \<open>DurationMS\<close> is left out of the record.
\<close>

definition GenerateFix ::
  "(string \<Rightarrow> string) \<Rightarrow> Composer \<Rightarrow> TenantContext \<Rightarrow> FixRequest \<Rightarrow>
     agent_event list \<times> (agent_error + FixResponse)" where
  "GenerateFix sha256 c t req =
     (case co_LLM c of
        None \<Rightarrow> ([], Inl ErrNilLLM)
      | Some llm \<Rightarrow>
          if \<not> Tenant_Validate t then ([], Inl ErrNoTenant)
          else case Sanitize (fq_ChartYAML req) \<lparr>so_MaxFieldLen = 0, so_MaxTotalLen = 0, so_WrapSuspicious = None\<rparr> of
            None \<Rightarrow> ([], Inl ErrSanitize)
          | Some san \<Rightarrow>
              let cached = buildCachedSystem req;
                  system = buildSystem req;
                  user = buildUser req (sa_Output san);
                  projected = projectedCostCents (fq_Model req)
                    (int (length cached + length system + length user)) (maxTokens req)
              in if co_PerCallCents c > 0 \<and> projected > co_PerCallCents c
                 then ([], Inl (ErrBudgetExceeded projected (co_PerCallCents c)))
                 else let call = \<lparr>lr_CachedSystem = cached, lr_System = system, lr_User = user,
                                  lr_Model = fq_Model req, lr_MaxTokens = maxTokens req\<rparr>;
                          (resp, err) = llm call
                      in case err of
                           Some e \<Rightarrow> ([Generated call], Inl (ErrLLM e))
                         | None \<Rightarrow>
                             (Generated call #
                                (if co_Recorder c
                                 then [Recorded \<lparr>cr_Workload = fq_Workload req, cr_Purpose = ''apply-fix'',
                                         cr_Model = lp_Model resp, cr_InputTokens = lp_InputTokens resp,
                                         cr_OutputTokens = lp_OutputTokens resp,
                                         cr_CacheHitTokens = lp_CacheReadTokens resp,
                                         cr_CostUSDCents = lp_CostUSDCents resp,
                                         cr_InputHash = sha256 (cached @ system @ user),
                                         cr_OutputHash = sha256 (lp_Text resp),
                                         cr_Suspicious = sa_Suspicious san\<rparr>]
                                 else []),
                              Inr \<lparr>fp_Explanation = extractExplanation (lp_Text resp),
                                   fp_UnifiedDiff = extractDiff (lp_Text resp),
                                   fp_CostUSDCents = lp_CostUSDCents resp, fp_Model = lp_Model resp,
                                   fp_Sanitised = san\<rparr>))"

section \<open>The canary (\<^verbatim>\<open>llm/canary/canary.go\<close>)\<close>

record CanaryEvent =
  ce_PrimaryModel :: string
  ce_SecondaryModel :: string
  ce_Diverged :: bool
  ce_Reason :: string
  ce_Workload :: string

record Canary =
  cn_Primary :: LLMClient
  cn_Secondary :: "LLMClient option"
  cn_Sampler :: "LLMRequest \<Rightarrow> bool"
  cn_Workload :: "(LLMRequest \<Rightarrow> string) option"

definition NeverSample :: "LLMRequest \<Rightarrow> bool" where "NeverSample r = False"
definition AlwaysSample :: "LLMRequest \<Rightarrow> bool" where "AlwaysSample r = True"

definition canary_New ::
  "LLMClient option \<Rightarrow> LLMClient option \<Rightarrow> (LLMRequest \<Rightarrow> bool) option \<Rightarrow> Canary option" where
  "canary_New primary secondary sampler =
     (case primary of
        None \<Rightarrow> None
      | Some p \<Rightarrow> Some \<lparr>cn_Primary = p, cn_Secondary = secondary,
                       cn_Sampler = (case sampler of None \<Rightarrow> NeverSample | Some s \<Rightarrow> s),
                       cn_Workload = None\<rparr>)"

definition canary_compare :: "Canary \<Rightarrow> LLMClient \<Rightarrow> LLMRequest \<Rightarrow> LLMResponse \<Rightarrow> CanaryEvent" where
  "canary_compare c second req primary =
     (let (secondary, err) = second req;
          ev = \<lparr>ce_PrimaryModel = lp_Model primary, ce_SecondaryModel = lp_Model secondary,
                ce_Diverged = False, ce_Reason = [],
                ce_Workload = (case cn_Workload c of None \<Rightarrow> [] | Some f \<Rightarrow> f req)\<rparr>
      in case err of
           Some e \<Rightarrow> ev\<lparr>ce_Diverged := True, ce_Reason := ''secondary error: '' @ e\<rparr>
         | None \<Rightarrow>
             if extractDiff (lp_Text primary) = [] \<or> extractDiff (lp_Text secondary) = []
             then ev\<lparr>ce_Diverged := True, ce_Reason := ''one model produced no diff''\<rparr>
             else if extractDiff (lp_Text primary) \<noteq> extractDiff (lp_Text secondary)
             then ev\<lparr>ce_Diverged := True, ce_Reason := ''diff body differs across models''\<rparr>
             else ev)"

text \<open>The response of a call and the event its goroutine reports later, if it starts one.\<close>

definition canary_Generate :: "Canary \<Rightarrow> LLMRequest \<Rightarrow> (LLMResponse \<times> string option) \<times> CanaryEvent option" where
  "canary_Generate c req =
     (let (primary, err) = cn_Primary c req
      in case (err, cn_Secondary c) of
           (None, Some second) \<Rightarrow>
             if cn_Sampler c req then ((primary, None), Some (canary_compare c second req primary))
             else ((primary, None), None)
         | _ \<Rightarrow> ((primary, err), None))"

section \<open>The audit trail (\<^verbatim>\<open>llm/audit/audit.go\<close>)\<close>

record AuditRecord =
  au_ID :: string
  au_Workload :: string
  au_Model :: string
  au_InputSHA256 :: string
  au_OutputSHA256 :: string
  au_InputBytes :: i64
  au_OutputBytes :: i64
  au_CostUSDCents :: i64
  au_Suspicious :: bool
  au_At :: int

datatype audit_error = EmptyTenant | MissingHash

definition InMemoryAuditor_Record ::
  "AuditRecord list \<Rightarrow> TenantContext \<Rightarrow> AuditRecord \<Rightarrow> AuditRecord list \<times> audit_error option" where
  "InMemoryAuditor_Record records t r =
     (if tc_TenantID t = [] then (records, Some EmptyTenant)
      else if au_InputSHA256 r = [] \<or> au_OutputSHA256 r = [] then (records, Some MissingHash)
      else (records @ [r], None))"

section \<open>What the composer guarantees\<close>

lemma projected_positive: "1 \<le> projectedCostCents m n k"
  by (simp add: projectedCostCents_def Let_def split: prod.split)

text \<open>The size of the prompt a call carries.\<close>

definition prompt_size :: "LLMRequest \<Rightarrow> int" where
  "prompt_size call = int (length (lr_CachedSystem call) + length (lr_System call) + length (lr_User call))"

text \<open>
  The model is called at most once, only for a valid tenant, with the sanitised chart at the end of
  the prompt, and with a cap in force only when the projection stays within it; every successful
  call is recorded when there is a recorder.
\<close>

lemma GenerateFix_call:
  assumes "Generated call \<in> set (fst (GenerateFix sha256 c t req))"
  shows "Tenant_Validate t" "co_PerCallCents c > 0 \<longrightarrow>
      projectedCostCents (lr_Model call) (prompt_size call) (lr_MaxTokens call) \<le> co_PerCallCents c"
    "\<exists>san. Sanitize (fq_ChartYAML req) \<lparr>so_MaxFieldLen = 0, so_MaxTotalLen = 0, so_WrapSuspicious = None\<rparr> = Some san \<and>
      lr_User call = buildUser req (sa_Output san)"
  using assms
  by (auto simp: GenerateFix_def Let_def prompt_size_def split: option.splits if_splits prod.splits)

lemma GenerateFix_error_free:
  "snd (GenerateFix sha256 c t req) = Inr r \<Longrightarrow>
     \<exists>call llm. co_LLM c = Some llm \<and> Generated call \<in> set (fst (GenerateFix sha256 c t req)) \<and>
       snd (llm call) = None \<and> fp_UnifiedDiff r = extractDiff (lp_Text (fst (llm call))) \<and>
       fp_Explanation r = extractExplanation (lp_Text (fst (llm call)))"
  by (auto simp: GenerateFix_def Let_def split: option.splits if_splits prod.splits)

lemma one_call: "length (filter (\<lambda>e. case e of Generated _ \<Rightarrow> True | _ \<Rightarrow> False) (fst (GenerateFix sha256 c t req))) \<le> 1"
  by (simp add: GenerateFix_def Let_def split: option.split prod.split)

text \<open>
  The two sections come back apart: an answer in the requested form gives the explanation and the
  diff, each trimmed, when the explanation does not itself hold the second label.
\<close>

lemma first_label:
  "\<not> contains e ''DIFF:'' \<Longrightarrow> index_of ''DIFF:'' (e @ ''DIFF:'' @ d) = Some (length e)"
proof (induction e)
  case (Cons c e)
  have "\<not> contains e ''DIFF:''" using Cons.prems by (auto simp: contains_def split: if_splits)
  moreover have "take 5 ((c # e) @ ''DIFF:'' @ d) \<noteq> ''DIFF:''"
  proof (cases "4 \<le> length e")
    case True
    with Cons.prems show ?thesis by (auto simp: contains_def numeral_eq_Suc split: if_splits)
  next
    case False
    then have "length e = 0 \<or> length e = 1 \<or> length e = 2 \<or> length e = 3" by linarith
    then show ?thesis by (auto simp: length_Suc_conv numeral_eq_Suc)
  qed
  ultimately show ?case using Cons.IH by (simp add: numeral_eq_Suc)
qed simp

lemma answer_sections:
  assumes "\<not> contains e ''DIFF:''"
  shows "extractDiff (''EXPLANATION:'' @ e @ ''DIFF:'' @ d) = trim_space d"
    "extractExplanation (''EXPLANATION:'' @ e @ ''DIFF:'' @ d) = trim_space e"
proof -
  have "index_of ''DIFF:'' (''EXPLANATION:'' @ e @ ''DIFF:'' @ d) = Some (12 + length e)"
    using first_label[OF assms, of d] by simp
  then show "extractDiff (''EXPLANATION:'' @ e @ ''DIFF:'' @ d) = trim_space d"
    by (simp add: extractDiff_def)
  have "index_of ''EXPLANATION:'' (''EXPLANATION:'' @ e @ ''DIFF:'' @ d) = Some 0" by simp
  then show "extractExplanation (''EXPLANATION:'' @ e @ ''DIFF:'' @ d) = trim_space e"
    using first_label[OF assms, of d] by (simp add: extractExplanation_def cutSection_def)
qed

text \<open>Models that name none of the three families are priced as the middle one.\<close>

lemma unknown_model_price:
  "\<not> contains (to_lower m) ''haiku'' \<Longrightarrow> \<not> contains (to_lower m) ''opus'' \<Longrightarrow> perMillionCents m = (300, 1500)"
  by (simp add: perMillionCents_def normaliseModel_def Let_def)

lemma sorted_models: "SortedModels = [''claude-haiku'', ''claude-opus'', ''claude-sonnet'']"
  by (simp add: SortedModels_def)

lemma canary_transparent: "fst (canary_Generate c req) = cn_Primary c req"
  by (auto simp: canary_Generate_def Let_def split: prod.splits option.splits)

lemma canary_agrees:
  "\<not> ce_Diverged (canary_compare c second req primary) \<longleftrightarrow>
     snd (second req) = None \<and> extractDiff (lp_Text primary) \<noteq> [] \<and>
     extractDiff (lp_Text (fst (second req))) = extractDiff (lp_Text primary)"
  by (auto simp: canary_compare_def Let_def split: prod.splits option.splits)

lemma audit_complete:
  "list_all (\<lambda>r. au_InputSHA256 r \<noteq> [] \<and> au_OutputSHA256 r \<noteq> []) records \<Longrightarrow>
   list_all (\<lambda>r. au_InputSHA256 r \<noteq> [] \<and> au_OutputSHA256 r \<noteq> []) (fst (InMemoryAuditor_Record records t r))"
  by (simp add: InMemoryAuditor_Record_def)

end
