(* ===== verification/Prwriter.thy ===== *)
theory Prwriter
  imports Report Composer Go_Time
begin

text \<open>
  The pull-request comment: \<^verbatim>\<open>prwriter/comment.go\<close> up to the view it hands to its template,
  \<^verbatim>\<open>prwriter/narrative/narrative.go\<close> and the policy labels of \<^verbatim>\<open>prwriter/labels/labels.go\<close>. The text
  template itself is a parameter, as is the formatting of a time.
\<close>

section \<open>The comment (\<^verbatim>\<open>comment.go\<close>)\<close>

datatype Mode = ModeSandbox | ModeAgent

record Comment =
  cm_Chart :: string
  cm_Tenant :: string
  cm_Workloads :: i64
  cm_Findings :: "Finding list"
  cm_MonthlySavingsUSDCents :: i64
  cm_AnnualSavingsUSDCents :: i64
  cm_Mode :: Mode
  cm_GeneratedAt :: "instant option"
  cm_OptiqorAnalysisURL :: string
  cm_ApplyFixURL :: string
  cm_UnifiedDiff :: string
  cm_Narrative :: string
  cm_ProvisionerNote :: string
  cm_SecurityVisible :: bool

record view =
  vw_Chart :: string
  vw_Workloads :: i64
  vw_CostFindings :: "Finding list"
  vw_CostCount :: i64
  vw_SecurityFindings :: "Finding list"
  vw_SecurityCount :: i64
  vw_ShowSecurity :: bool
  vw_MonthlyUSD :: string
  vw_AnnualUSD :: string
  vw_ShowSavings :: bool
  vw_Narrative :: string
  vw_ProvisionerNote :: string
  vw_UnifiedDiff :: string
  vw_DiffFence :: string
  vw_DiffLines :: i64
  vw_AccuracyDisclosure :: string
  vw_OptiqorAnalysisURL :: string
  vw_ApplyFixURL :: string
  vw_GeneratedAtISO :: string

definition plus_minus :: string where "plus_minus = [CHR 0xC2, CHR 0xB1]"

definition AccuracyDisclosureSandbox :: string where
  "AccuracyDisclosureSandbox = ''Sandbox accuracy: '' @ plus_minus @
     ''40%. Install the Optiqor agent for exact numbers (optiqor.dev/get).''"

definition AccuracyDisclosureAgent :: string where
  "AccuracyDisclosureAgent = ''Agent accuracy: '' @ plus_minus @
     ''15%. Backed by 30 days of Prometheus + your AWS bill.''"

fun fence_loop :: "nat \<Rightarrow> nat \<Rightarrow> string \<Rightarrow> nat" where
  "fence_loop longest cur [] = longest"
| "fence_loop longest cur (r # s) =
     (if r = CHR ''`''
      then fence_loop (if cur + 1 > longest then cur + 1 else longest) (cur + 1) s
      else fence_loop longest 0 s)"

definition diffFence :: "string \<Rightarrow> string" where
  "diffFence s = replicate (fence_loop 0 0 s + 3) CHR ''`''"

definition countLines :: "string \<Rightarrow> i64" where
  "countLines s =
     (if s = [] then 0
      else let n = int (count_list s (CHR 0x0A))
           in if \<not> has_suffix s newline then n + 1 else n)"

text \<open>Truncation of an instant to a multiple of a minute; \<open>None\<close> is the zero time.\<close>

definition generatedAt :: "instant \<Rightarrow> instant option \<Rightarrow> instant" where
  "generatedAt now t =
     (let minute = 60 * 1000000000; u = (case t of None \<Rightarrow> now | Some u \<Rightarrow> u) in u - u mod minute)"

fun pr_split_loop :: "Finding list \<Rightarrow> Finding list \<Rightarrow> Finding list \<Rightarrow> Finding list \<times> Finding list" where
  "pr_split_loop cost sec [] = (cost, sec)"
| "pr_split_loop cost sec (f # fs) =
     (if f_Category f = CategorySecurity then pr_split_loop cost (sec @ [f]) fs
      else pr_split_loop (cost @ [f]) sec fs)"

definition pr_split :: "Finding list \<Rightarrow> Finding list \<times> Finding list" where
  "pr_split xs = pr_split_loop [] [] xs"

definition pr_less :: "Finding \<Rightarrow> Finding \<Rightarrow> bool" where
  "pr_less a b =
     (if (f_MonthlyUSDCents a > 0) \<noteq> (f_MonthlyUSDCents b > 0)
      then f_MonthlyUSDCents a > f_MonthlyUSDCents b
      else if f_MonthlyUSDCents a \<noteq> f_MonthlyUSDCents b
      then f_MonthlyUSDCents a > f_MonthlyUSDCents b
      else if f_Workload a \<noteq> f_Workload b then f_Workload a < f_Workload b
      else f_DetectorID a < f_DetectorID b)"

definition pr_sortCostForDisplay :: "Finding list \<Rightarrow> Finding list" where
  "pr_sortCostForDisplay xs = stable_sort pr_less xs"

definition fmtUSD :: "i64 \<Rightarrow> string" where
  "fmtUSD cents =
     (if cents = 0 then ''$0''
      else let dollars = cents sdiv 100; c = cents smod 100
           in if c = 0 then ''$'' @ show_int dollars
              else ''$'' @ show_int dollars @ ''.'' @ pad2 c)"

definition comment_view :: "(instant \<Rightarrow> string) \<Rightarrow> instant \<Rightarrow> Comment \<Rightarrow> view" where
  "comment_view rfc3339 now c =
     (let (cost, security) = pr_split (cm_Findings c);
          sortedCost = pr_sortCostForDisplay cost;
          d = trim_space (cm_UnifiedDiff c);
          v = \<lparr>vw_Chart = cm_Chart c, vw_Workloads = cm_Workloads c, vw_CostFindings = sortedCost,
               vw_CostCount = int (length sortedCost), vw_SecurityFindings = security,
               vw_SecurityCount = int (length security),
               vw_ShowSecurity = (cm_SecurityVisible c \<and> length security > 0),
               vw_MonthlyUSD = fmtUSD (cm_MonthlySavingsUSDCents c),
               vw_AnnualUSD = fmtUSD (cm_AnnualSavingsUSDCents c),
               vw_ShowSavings = (cm_MonthlySavingsUSDCents c > 0), vw_Narrative = cm_Narrative c,
               vw_ProvisionerNote = cm_ProvisionerNote c, vw_UnifiedDiff = [], vw_DiffFence = [],
               vw_DiffLines = 0, vw_AccuracyDisclosure = AccuracyDisclosureSandbox,
               vw_OptiqorAnalysisURL = cm_OptiqorAnalysisURL c, vw_ApplyFixURL = cm_ApplyFixURL c,
               vw_GeneratedAtISO = rfc3339 (generatedAt now (cm_GeneratedAt c))\<rparr>;
          v = (if cm_Mode c = ModeAgent then v\<lparr>vw_AccuracyDisclosure := AccuracyDisclosureAgent\<rparr> else v)
      in if d \<noteq> []
         then v\<lparr>vw_UnifiedDiff := d, vw_DiffFence := diffFence d, vw_DiffLines := countLines d\<rparr>
         else v)"

datatype render_error = ErrNoChart | ErrTemplate string

definition Render ::
  "(view \<Rightarrow> string + string) \<Rightarrow> (instant \<Rightarrow> string) \<Rightarrow> instant \<Rightarrow> Comment \<Rightarrow> render_error + string" where
  "Render tmpl rfc3339 now c =
     (if cm_Chart c = [] then Inl ErrNoChart
      else case tmpl (comment_view rfc3339 now c) of
             Inl e \<Rightarrow> Inl (ErrTemplate e)
           | Inr buf \<Rightarrow> Inr (trim_right {CHR 0x0A} buf @ newline))"

section \<open>The narrative (\<^verbatim>\<open>narrative.go\<close>)\<close>

record NarrativeRequest =
  nr_Workload :: string
  nr_BeforeCPUMilli :: i64
  nr_AfterCPUMilli :: i64
  nr_BeforeMemoryBytes :: i64
  nr_AfterMemoryBytes :: i64
  nr_P95CPUMilli :: i64
  nr_Confidence :: string
  nr_MonthlyUSDCents :: i64
  nr_Findings :: "Finding list"

definition strNoEmpty :: "string \<Rightarrow> string \<Rightarrow> string" where
  "strNoEmpty s fallback = (if s = [] then fallback else s)"

definition narrative_formatCPU :: "i64 \<Rightarrow> string" where
  "narrative_formatCPU milli =
     (if milli \<ge> 1000 \<and> milli smod 1000 = 0 then show_int (milli sdiv 1000) @ '' vCPU''
      else if milli \<ge> 1000 then f64_show 1 (f64_div (f64_of_int milli) (f64_of_int 1000)) @ '' vCPU''
      else show_int milli @ ''m'')"

definition narrative_formatMemory :: "i64 \<Rightarrow> string" where
  "narrative_formatMemory bytes =
     (if bytes \<ge> 2 ^ 30 then show_int (bytes sdiv 2 ^ 30) @ ''Gi'' else show_int (bytes sdiv 2 ^ 20) @ ''Mi'')"

definition buildSecond :: "NarrativeRequest \<Rightarrow> string" where
  "buildSecond r =
     (if nr_P95CPUMilli r > 0
      then ''Observed P95 over 30d sat at '' @ narrative_formatCPU (nr_P95CPUMilli r) @
           ''; we recommend the trimmed value with '' @ to_lower (strNoEmpty (nr_Confidence r) ''medium'') @
           '' confidence''
      else if nr_Confidence r \<noteq> [] then ''Detector confidence: '' @ to_lower (nr_Confidence r)
      else ''Apply to recover the savings shown below'')"

definition saving :: "NarrativeRequest \<Rightarrow> string" where
  "saving r =
     (if nr_MonthlyUSDCents r \<le> 0 then ''.''
      else '', saving ~$'' @ show_int (nr_MonthlyUSDCents r sdiv 100) @ ''/mo.'')"

definition narrative_first :: "NarrativeRequest \<Rightarrow> string" where
  "narrative_first r =
     (if nr_AfterCPUMilli r > 0 \<and> nr_BeforeCPUMilli r > nr_AfterCPUMilli r
      then ''This PR trims '' @ nr_Workload r @ [CHR 0x27] @ ''s CPU request from '' @
           narrative_formatCPU (nr_BeforeCPUMilli r) @ '' to '' @ narrative_formatCPU (nr_AfterCPUMilli r) @ ''.''
      else if nr_AfterMemoryBytes r > 0 \<and> nr_BeforeMemoryBytes r > nr_AfterMemoryBytes r
      then ''This PR trims '' @ nr_Workload r @ [CHR 0x27] @ ''s memory request from '' @
           narrative_formatMemory (nr_BeforeMemoryBytes r) @ '' to '' @
           narrative_formatMemory (nr_AfterMemoryBytes r) @ ''.''
      else ''This PR proposes a configuration change on '' @ nr_Workload r @ ''.'')"

text \<open>\<open>None\<close> is the error of an empty workload.\<close>

definition TemplateGenerator_Generate :: "NarrativeRequest \<Rightarrow> string option" where
  "TemplateGenerator_Generate r =
     (if nr_Workload r = [] then None
      else Some (trim_space (narrative_first r @ '' '' @ buildSecond r) @ saving r))"

section \<open>What the reader of a comment sees\<close>

lemma pr_split_loop_filter:
  "pr_split_loop cost sec fs =
     (cost @ filter (\<lambda>f. f_Category f \<noteq> CategorySecurity) fs, sec @ filter (\<lambda>f. f_Category f = CategorySecurity) fs)"
  by (induction cost sec fs rule: pr_split_loop.induct) auto

lemma pr_split_filter:
  "pr_split fs = (filter (\<lambda>f. f_Category f \<noteq> CategorySecurity) fs, filter (\<lambda>f. f_Category f = CategorySecurity) fs)"
  by (simp add: pr_split_def pr_split_loop_filter)

interpretation pr_order: less_order pr_less
  by unfold_locales (auto simp: pr_less_def split: if_splits)

text \<open>
  The order is that of the command line tool without its severity criterion: among findings of one
  severity the two comparisons agree.
\<close>

lemma pr_less_display: "f_Severity a = f_Severity b \<Longrightarrow> pr_less a b = display_less a b"
  by (simp add: pr_less_def display_less_def)

text \<open>The fence is longer than every run of backticks in the diff, so the diff cannot close it.\<close>

lemma fence_loop_mono: "longest \<le> fence_loop longest cur s"
  by (induction longest cur s rule: fence_loop.induct) auto

lemma fence_loop_run:
  "s = a @ replicate n CHR ''`'' @ b \<Longrightarrow> cur \<le> longest \<Longrightarrow> n \<le> fence_loop longest cur s"
proof (induction a arbitrary: longest cur s)
  case Nil
  have "n + cur \<le> fence_loop longest cur (replicate n CHR ''`'' @ b) \<or> n = 0" if "cur \<le> longest" for longest cur
    using that
  proof (induction n arbitrary: longest cur)
    case (Suc n)
    show ?case
    proof (cases n)
      case 0
      then show ?thesis using fence_loop_mono[of "max longest (Suc cur)" "Suc cur" b] by (simp add: max_def split: if_splits)
    next
      case (Suc m)
      then show ?thesis
        using Suc.IH[of "Suc cur" "if Suc cur > longest then Suc cur else longest"] by auto
    qed
  qed simp
  with Nil show ?case by fastforce
next
  case (Cons c a)
  then show ?case by (auto intro!: Cons.IH)
qed

lemma diffFence_safe: "s = a @ replicate n CHR ''`'' @ b \<Longrightarrow> n < length (diffFence s)"
  using fence_loop_run[of s a n b 0 0] by (simp add: diffFence_def)

lemma generatedAt_minute: "generatedAt now t mod (60 * 1000000000) = 0"
  by (simp add: generatedAt_def Let_def minus_mod_eq_mult_div)

lemma generatedAt_stable:
  "u div (60 * 1000000000) = v div (60 * 1000000000) \<Longrightarrow> generatedAt now (Some u) = generatedAt now (Some v)"
  by (simp add: generatedAt_def Let_def minus_mod_eq_mult_div)

text \<open>
  Rendering fails only without a chart name or in the template. The template is given every
  finding exactly once, split by category, cost findings in the display order of their own
  comparison, with security findings shown only on request; and the diff of a comment never closes
  its own fence.
\<close>

lemma comment_view_exact:
  "let v = comment_view rfc3339 now c
   in mset (vw_CostFindings v) + mset (vw_SecurityFindings v) = mset (cm_Findings c) \<and>
      sorted_by pr_less (vw_CostFindings v) \<and>
      vw_SecurityFindings v = filter (\<lambda>f. f_Category f = CategorySecurity) (cm_Findings c) \<and>
      (vw_ShowSecurity v \<longleftrightarrow> cm_SecurityVisible c \<and> vw_SecurityFindings v \<noteq> []) \<and>
      vw_UnifiedDiff v = trim_space (cm_UnifiedDiff c) \<and>
      {n. \<exists>a b. vw_UnifiedDiff v = a @ replicate n CHR ''`'' @ b \<and> n \<ge> length (vw_DiffFence v) \<and> vw_UnifiedDiff v \<noteq> []} = {}"
proof -
  have "mset (pr_sortCostForDisplay (filter (\<lambda>f. f_Category f \<noteq> CategorySecurity) (cm_Findings c))) +
      mset (filter (\<lambda>f. f_Category f = CategorySecurity) (cm_Findings c)) = mset (cm_Findings c)"
    by (simp add: pr_sortCostForDisplay_def)
  moreover have "sorted_by pr_less (pr_sortCostForDisplay xs)" for xs
    by (simp add: pr_sortCostForDisplay_def pr_order.sorted_stable_sort)
  moreover have "\<not> n \<ge> length (diffFence (a @ replicate n CHR ''`'' @ b))" for n a b
    using diffFence_safe[OF refl, of n a b] by simp
  ultimately show ?thesis
    by (auto simp: comment_view_def Let_def pr_split_filter split: if_splits)
qed

lemma Render_fails_iff:
  "(\<exists>e. Render tmpl rfc3339 now c = Inl e) \<longleftrightarrow> cm_Chart c = [] \<or> (\<exists>e. tmpl (comment_view rfc3339 now c) = Inl e)"
  by (auto simp: Render_def split: sum.splits)

text \<open>Every narrative ends in a period.\<close>

lemma narrative_period: "TemplateGenerator_Generate r = Some s \<Longrightarrow> has_suffix s ''.''"
proof -
  assume "TemplateGenerator_Generate r = Some s"
  then obtain a where "s = a @ saving r" by (auto simp: TemplateGenerator_Generate_def split: if_splits)
  moreover have "has_suffix (saving r) ''.''" by (simp add: saving_def has_suffix_def)
  then obtain b where "saving r = b @ ''.''" using has_suffixD by blast
  ultimately have "s = (a @ b) @ ''.''" by simp
  then show ?thesis by (metis has_suffix_append)
qed

end
