(* ===== verification/Operators.thy ===== *)
theory Operators
  imports Prelude
begin

text \<open>
  \<^verbatim>\<open>backend/internal/operators/detector.go\<close>: is a workload run by a built-in controller or by an
  operator? The walk climbs from the controlling owner to its owner, and so on, through the
  function the caller supplies; it gives up on a repetition and after 16 owners.
\<close>

record OwnerRef =
  or_APIVersion :: string
  or_Kind :: string
  or_Name :: string
  or_Controller :: bool

record OperatorWorkload =
  ow_Namespace :: string
  ow_Kind :: string
  ow_Name :: string
  ow_Owners :: "OwnerRef list"

record Classification =
  cl_Direct :: bool
  cl_Operator :: string

definition Classification_String :: "Classification \<Rightarrow> string" where
  "Classification_String c =
     (if cl_Direct c then ''direct''
      else if cl_Operator c \<noteq> [] then ''operator:'' @ cl_Operator c
      else ''unknown'')"

definition FormatClass :: "Classification \<Rightarrow> string" where
  "FormatClass c =
     (if cl_Direct c then ''direct''
      else if cl_Operator c = [] then ''unknown''
      else ''operator:'' @ cl_Operator c)"

definition builtIn :: "string set" where
  "builtIn = {''Deployment'', ''ReplicaSet'', ''StatefulSet'', ''DaemonSet'', ''Job'', ''CronJob''}"

definition apiGroup :: "string \<Rightarrow> string" where
  "apiGroup v = (if CHR ''/'' \<in> set v then takeWhile (\<lambda>c. c \<noteq> CHR ''/'') v else [])"

definition controllingOwner :: "OwnerRef list \<Rightarrow> OwnerRef option" where
  "controllingOwner owners =
     (case find or_Controller owners of
        Some r \<Rightarrow> Some r
      | None \<Rightarrow> (case owners of r # _ \<Rightarrow> Some r | [] \<Rightarrow> None))"

text \<open>The lookup of an owner's owner, with the flag that it was found.\<close>

type_synonym resolver = "OwnerRef \<Rightarrow> OwnerRef \<times> bool"

definition direct :: Classification where "direct = \<lparr>cl_Direct = True, cl_Operator = []\<rparr>"
definition unknown :: Classification where "unknown = \<lparr>cl_Direct = False, cl_Operator = []\<rparr>"

definition owner_key :: "OwnerRef \<Rightarrow> string" where
  "owner_key r = or_APIVersion r @ ''/'' @ or_Kind r @ ''/'' @ or_Name r"

fun classify_loop :: "resolver \<Rightarrow> nat \<Rightarrow> string list \<Rightarrow> OwnerRef \<Rightarrow> Classification" where
  "classify_loop resolve 0 visited ref = unknown"
| "classify_loop resolve (Suc n) visited ref =
     (let key = owner_key ref
      in if key \<in> set visited then unknown
         else if or_Kind ref \<in> builtIn
         then let (next_ref, found) = resolve ref
              in if \<not> found \<or> or_Kind next_ref = [] then direct
                 else classify_loop resolve n (key # visited) next_ref
         else \<lparr>cl_Direct = False, cl_Operator = apiGroup (or_APIVersion ref) @ ''/'' @ or_Kind ref\<rparr>)"

definition Operator_Classify :: "OperatorWorkload \<Rightarrow> resolver \<Rightarrow> Classification" where
  "Operator_Classify w resolve =
     (case controllingOwner (ow_Owners w) of
        Some ref \<Rightarrow> classify_loop resolve 16 [] ref
      | None \<Rightarrow> if ow_Kind w \<in> builtIn then direct else direct)"

section \<open>The chain of owners\<close>

text \<open>The owner above a reference, if the walk goes on there, and the chain up to a length.\<close>

definition next_owner :: "resolver \<Rightarrow> OwnerRef \<Rightarrow> OwnerRef option" where
  "next_owner resolve r =
     (if or_Kind r \<in> builtIn \<and> snd (resolve r) \<and> or_Kind (fst (resolve r)) \<noteq> []
      then Some (fst (resolve r)) else None)"

fun chain :: "resolver \<Rightarrow> nat \<Rightarrow> OwnerRef \<Rightarrow> OwnerRef list" where
  "chain resolve 0 r = []"
| "chain resolve (Suc n) r = r # (case next_owner resolve r of None \<Rightarrow> [] | Some q \<Rightarrow> chain resolve n q)"

definition verdict_at :: "OwnerRef \<Rightarrow> Classification" where
  "verdict_at r =
     (if or_Kind r \<in> builtIn then direct
      else \<lparr>cl_Direct = False, cl_Operator = apiGroup (or_APIVersion r) @ ''/'' @ or_Kind r\<rparr>)"

lemma next_owner_None_iff:
  "next_owner resolve r = None \<longleftrightarrow>
     or_Kind r \<notin> builtIn \<or> \<not> snd (resolve r) \<or> or_Kind (fst (resolve r)) = []"
  by (simp add: next_owner_def)

lemma classify_loop_chain:
  "classify_loop resolve n visited r =
    (let ch = chain resolve n r
     in if 0 < n \<and> distinct (map owner_key ch) \<and> set (map owner_key ch) \<inter> set visited = {} \<and>
           next_owner resolve (last ch) = None
        then verdict_at (last ch) else unknown)"
proof (induction n arbitrary: visited r)
  case (Suc n)
  show ?case
  proof (cases "next_owner resolve r")
    case None
    then have "classify_loop resolve (Suc n) visited r =
        (if owner_key r \<in> set visited then unknown else verdict_at r)"
      by (cases "resolve r") (auto simp: next_owner_None_iff verdict_at_def)
    with None show ?thesis by (simp del: classify_loop.simps)
  next
    case (Some q)
    then have step: "classify_loop resolve (Suc n) visited r =
        (if owner_key r \<in> set visited then unknown else classify_loop resolve n (owner_key r # visited) q)"
      by (cases "resolve r") (simp add: next_owner_def split: if_splits)
    have "chain resolve n q \<noteq> []" if "0 < n" using that by (cases n) auto
    then show ?thesis unfolding step Suc.IH using Some by (cases "n = 0") (auto simp: Let_def)
  qed
qed simp

lemma chain_builtIn: "r \<in> set (butlast (chain resolve n q)) \<Longrightarrow> or_Kind r \<in> builtIn"
proof (induction n arbitrary: q)
  case (Suc n)
  then show ?case by (auto simp: next_owner_def split: option.splits if_splits)
qed simp

text \<open>
  C21. The walk classifies by the end of the chain of owners. With \<open>ch\<close> the chain from the controlling
  owner, cut at 16: when no owner repeats in it and the last one is the end, the workload is direct
  if that last owner is built in, and otherwise it belongs to the operator of that owner's group
  and kind; when an owner repeats or the chain goes on, the class is unknown. A workload is direct
  only if it has no owner or every owner of its chain is built in.
\<close>

theorem operator_class_exact:
  "Operator_Classify w resolve =
     (case controllingOwner (ow_Owners w) of
        None \<Rightarrow> direct
      | Some r \<Rightarrow>
          let ch = chain resolve 16 r
          in if distinct (map owner_key ch) \<and> next_owner resolve (last ch) = None
             then verdict_at (last ch) else unknown) \<and>
   (cl_Direct (Operator_Classify w resolve) \<longrightarrow>
      ow_Owners w = [] \<or>
      (\<exists>r. controllingOwner (ow_Owners w) = Some r \<and> (\<forall>q \<in> set (chain resolve 16 r). or_Kind q \<in> builtIn)))"
proof (cases "controllingOwner (ow_Owners w)")
  case None
  then have "ow_Owners w = []" by (auto simp: controllingOwner_def split: option.splits list.splits)
  then show ?thesis by (simp add: Operator_Classify_def controllingOwner_def)
next
  case (Some r)
  have ne: "chain resolve 16 r \<noteq> []" by (simp add: numeral_eq_Suc)
  have main: "Operator_Classify w resolve =
     (let ch = chain resolve 16 r
      in if distinct (map owner_key ch) \<and> next_owner resolve (last ch) = None then verdict_at (last ch) else unknown)"
    by (simp add: Operator_Classify_def Some classify_loop_chain Let_def)
  have "or_Kind (last (chain resolve 16 r)) \<in> builtIn" if "cl_Direct (Operator_Classify w resolve)"
    using that by (auto simp: main Let_def verdict_at_def unknown_def split: if_splits)
  then have "or_Kind q \<in> builtIn" if "cl_Direct (Operator_Classify w resolve)" "q \<in> set (chain resolve 16 r)" for q
    using that chain_builtIn[of q resolve 16 r] append_butlast_last_id[OF ne]
    by (metis Un_iff empty_iff empty_set set_ConsD set_append)
  with main Some show ?thesis by auto
qed

theorem operator_class_exact_witness:
  "let kafka = \<lparr>or_APIVersion = ''kafka.strimzi.io/v1'', or_Kind = ''Kafka'', or_Name = ''k'', or_Controller = True\<rparr>;
       sts = \<lparr>or_APIVersion = ''apps/v1'', or_Kind = ''StatefulSet'', or_Name = ''s'', or_Controller = True\<rparr>;
       resolve = (\<lambda>r. if r = sts then (kafka, True) else (kafka, False));
       w = \<lparr>ow_Namespace = ''n'', ow_Kind = ''Pod'', ow_Name = ''p'', ow_Owners = [sts]\<rparr>
   in cl_Operator (Operator_Classify w resolve) = ''kafka.strimzi.io/Kafka'' \<and> \<not> cl_Direct (Operator_Classify w resolve)"
proof -
  let ?kafka = "\<lparr>or_APIVersion = ''kafka.strimzi.io/v1'', or_Kind = ''Kafka'', or_Name = ''k'', or_Controller = True\<rparr>"
  let ?sts = "\<lparr>or_APIVersion = ''apps/v1'', or_Kind = ''StatefulSet'', or_Name = ''s'', or_Controller = True\<rparr>"
  let ?resolve = "\<lambda>r. if r = ?sts then (?kafka, True) else (?kafka, False)"
  have "chain ?resolve 16 ?sts = [?sts, ?kafka]"
    by (simp add: numeral_eq_Suc next_owner_def builtIn_def)
  then show ?thesis
    using operator_class_exact[of "\<lparr>ow_Namespace = ''n'', ow_Kind = ''Pod'', ow_Name = ''p'', ow_Owners = [?sts]\<rparr>" ?resolve]
    by (simp add: controllingOwner_def verdict_at_def next_owner_def builtIn_def owner_key_def apiGroup_def)
qed

lemma FormatClass_eq: "FormatClass c = Classification_String c"
  by (simp add: FormatClass_def Classification_String_def)

end
