(* ===== verification/Sizing.thy ===== *)
theory Sizing
  imports Rules_Types Go_Strings
begin

text \<open>
  How far a recommendation may go. \<^verbatim>\<open>safety/environment/environment.go\<close> tells the environment of
  a cluster and namespace and its safety profile, \<^verbatim>\<open>agent/provisioner/provisioner.go\<close> the class of
  the node provisioner, and \<^verbatim>\<open>cost/strategy/strategy.go\<close> combines the two into the limits the
  apply-fix workflow checks. Environments, classes and confidence bands are string types in the
  source and stay strings.
\<close>

section \<open>Environments (\<^verbatim>\<open>environment.go\<close>)\<close>

type_synonym Environment = string
type_synonym Aggressiveness = string

definition EnvProd :: Environment where "EnvProd = ''prod''"
definition EnvStaging :: Environment where "EnvStaging = ''staging''"
definition EnvDev :: Environment where "EnvDev = ''dev''"
definition EnvUnknown :: Environment where "EnvUnknown = ''unknown''"

definition AggressivenessConservative :: Aggressiveness where "AggressivenessConservative = ''conservative''"
definition AggressivenessMedium :: Aggressiveness where "AggressivenessMedium = ''medium''"
definition AggressivenessAggressive :: Aggressiveness where "AggressivenessAggressive = ''aggressive''"

lemmas env_consts = EnvProd_def EnvStaging_def EnvDev_def EnvUnknown_def
lemmas aggressiveness_consts =
  AggressivenessConservative_def AggressivenessMedium_def AggressivenessAggressive_def

record Profile =
  pf_Environment :: Environment
  pf_Aggressiveness :: Aggressiveness
  pf_ConfidenceFloor :: string
  pf_AutoMergeEligible :: bool
  pf_ManualApproval :: bool

definition canonical_env :: "string \<Rightarrow> Environment" where
  "canonical_env v =
     (let n = to_lower (trim_space v)
      in if n \<in> {''prod'', ''production''} then EnvProd
         else if n \<in> {''stg'', ''stage'', ''staging''} then EnvStaging
         else if n \<in> {''dev'', ''development''} then EnvDev
         else EnvUnknown)"

definition envFromName :: "string \<Rightarrow> Environment" where
  "envFromName name =
     (let n = to_lower name
      in if has_suffix n ''-prod'' \<or> prefix ''production-'' n \<or> prefix ''prod-'' n \<or>
            n = ''prod'' \<or> n = ''production'' then EnvProd
         else if has_suffix n ''-staging'' \<or> has_suffix n ''-stg'' \<or> prefix ''staging-'' n \<or>
                 n = ''staging'' \<or> n = ''stg'' then EnvStaging
         else if has_suffix n ''-dev'' \<or> prefix ''dev-'' n \<or> prefix ''development-'' n \<or>
                 has_suffix n ''-development'' \<or> n = ''dev'' \<or> n = ''development'' then EnvDev
         else EnvUnknown)"

text \<open>A nil map of labels or rules is an empty one: a lookup finds nothing in either.\<close>

definition envFromLabel :: "(string \<rightharpoonup> string) \<Rightarrow> Environment" where
  "envFromLabel labels =
     (case List.map_filter labels [''environment'', ''env'', ''tier''] of
        v # _ \<Rightarrow> canonical_env v
      | [] \<Rightarrow> EnvUnknown)"

definition Env_Classify ::
  "string \<Rightarrow> (string \<rightharpoonup> string) \<Rightarrow> (string \<rightharpoonup> string) \<Rightarrow> string \<Rightarrow> (string \<rightharpoonup> Environment) \<Rightarrow> Environment" where
  "Env_Classify clusterName clusterLabels nsLabels ns customRules =
     (case customRules ns of
        Some env \<Rightarrow>
          if env \<noteq> [] then env
          else if envFromLabel clusterLabels \<noteq> EnvUnknown then envFromLabel clusterLabels
          else if envFromLabel nsLabels \<noteq> EnvUnknown then envFromLabel nsLabels
          else if envFromName clusterName \<noteq> EnvUnknown then envFromName clusterName
          else if envFromName ns \<noteq> EnvUnknown then envFromName ns
          else EnvUnknown
      | None \<Rightarrow>
          if envFromLabel clusterLabels \<noteq> EnvUnknown then envFromLabel clusterLabels
          else if envFromLabel nsLabels \<noteq> EnvUnknown then envFromLabel nsLabels
          else if envFromName clusterName \<noteq> EnvUnknown then envFromName clusterName
          else if envFromName ns \<noteq> EnvUnknown then envFromName ns
          else EnvUnknown)"

definition ProfileFor :: "Environment \<Rightarrow> Profile" where
  "ProfileFor e =
     (if e = EnvDev
      then \<lparr>pf_Environment = EnvDev, pf_Aggressiveness = AggressivenessAggressive,
            pf_ConfidenceFloor = ''low'', pf_AutoMergeEligible = True, pf_ManualApproval = False\<rparr>
      else if e = EnvStaging
      then \<lparr>pf_Environment = EnvStaging, pf_Aggressiveness = AggressivenessMedium,
            pf_ConfidenceFloor = ''medium'', pf_AutoMergeEligible = False, pf_ManualApproval = False\<rparr>
      else \<lparr>pf_Environment = EnvProd, pf_Aggressiveness = AggressivenessConservative,
            pf_ConfidenceFloor = ''high'', pf_AutoMergeEligible = False, pf_ManualApproval = True\<rparr>)"

section \<open>Node provisioners (\<^verbatim>\<open>provisioner.go\<close>)\<close>

type_synonym ProvisionerClass = string

definition ClassKarpenter :: ProvisionerClass where "ClassKarpenter = ''karpenter''"
definition ClassAutoscaler :: ProvisionerClass where "ClassAutoscaler = ''autoscaler''"
definition ClassStatic :: ProvisionerClass where "ClassStatic = ''static''"

lemmas class_consts = ClassKarpenter_def ClassAutoscaler_def ClassStatic_def

text \<open>The probe's two answers, each an error or a boolean; the class comes with the error, if any.\<close>

record Probe =
  HasKarpenterCRD :: "string + bool"
  HasClusterAutoscalerDeployment :: "string + bool"

definition Detect :: "Probe option \<Rightarrow> ProvisionerClass \<times> string option" where
  "Detect p =
     (case p of
        None \<Rightarrow> (ClassStatic, Some ''provisioner: nil probe'')
      | Some pr \<Rightarrow>
          (case HasKarpenterCRD pr of
             Inl e \<Rightarrow> (ClassStatic, Some e)
           | Inr ok \<Rightarrow>
               if ok then (ClassKarpenter, None)
               else (case HasClusterAutoscalerDeployment pr of
                       Inl e \<Rightarrow> (ClassStatic, Some e)
                     | Inr ok' \<Rightarrow> if ok' then (ClassAutoscaler, None) else (ClassStatic, None))))"

definition AdvisoryNote :: "ProvisionerClass \<Rightarrow> string" where
  "AdvisoryNote c =
     (if c = ClassKarpenter then []
      else if c = ClassAutoscaler
      then ''Cluster Autoscaler detected '' @ em_dash @ '' savings assume the ASG can scale to the recommended count. '' @
           ''Verify the ASG min/max bounds before merging.''
      else if c = ClassStatic
      then ''No autoscaler detected '' @ em_dash @ '' savings are advisory. Apply the resource change, '' @
           ''then manually right-size the node group.''
      else [])"

definition ConfidenceCap :: "ProvisionerClass \<Rightarrow> string" where
  "ConfidenceCap c = (if c = ClassStatic then ''medium'' else [])"

section \<open>Limits (\<^verbatim>\<open>strategy.go\<close>)\<close>

record Sizing =
  sz_PercentileTarget :: i64
  sz_MaxMemoryReductionPct :: i64
  sz_MaxReplicaReductionPerPR :: i64
  sz_MinConfidence :: string
  sz_MaxAggressiveness :: i64
  sz_AutoMergeEligible :: bool
  sz_ManualApproval :: bool

definition baseSizing :: "Environment \<Rightarrow> Sizing" where
  "baseSizing env =
     (if env = EnvDev
      then \<lparr>sz_PercentileTarget = 95, sz_MaxMemoryReductionPct = 0, sz_MaxReplicaReductionPerPR = 100,
            sz_MinConfidence = ''low'', sz_MaxAggressiveness = 0, sz_AutoMergeEligible = True,
            sz_ManualApproval = False\<rparr>
      else if env = EnvStaging
      then \<lparr>sz_PercentileTarget = 95, sz_MaxMemoryReductionPct = 25, sz_MaxReplicaReductionPerPR = 2,
            sz_MinConfidence = ''medium'', sz_MaxAggressiveness = 0, sz_AutoMergeEligible = False,
            sz_ManualApproval = False\<rparr>
      else \<lparr>sz_PercentileTarget = 99, sz_MaxMemoryReductionPct = 10, sz_MaxReplicaReductionPerPR = 0,
            sz_MinConfidence = ''high'', sz_MaxAggressiveness = 0, sz_AutoMergeEligible = False,
            sz_ManualApproval = True\<rparr>)"

definition aggressivenessCap :: "ProvisionerClass \<Rightarrow> i64" where
  "aggressivenessCap c =
     (if c = ClassStatic then 50 else if c \<in> {ClassKarpenter, ClassAutoscaler} then 100 else 100)"

definition ForClass :: "Environment \<Rightarrow> ProvisionerClass \<Rightarrow> Sizing" where
  "ForClass env cls =
     (let s = (baseSizing env)\<lparr>sz_MaxAggressiveness := aggressivenessCap cls\<rparr>
      in if cls = ClassStatic
         then let s = (if sz_MinConfidence s = ''low'' then s\<lparr>sz_MinConfidence := ''medium''\<rparr> else s)
              in s\<lparr>sz_MaxReplicaReductionPerPR := 0\<rparr>
         else s)"

definition Sizing_For :: "Environment \<Rightarrow> Sizing" where
  "Sizing_For env = ForClass env ClassKarpenter"

definition confidenceRank :: "string \<Rightarrow> i64" where
  "confidenceRank c = (if c = ''high'' then 3 else if c = ''medium'' then 2 else if c = ''low'' then 1 else 0)"

definition ConfidenceMeets :: "Sizing \<Rightarrow> string \<Rightarrow> bool" where
  "ConfidenceMeets s c \<longleftrightarrow> confidenceRank c \<ge> confidenceRank (sz_MinConfidence s)"

definition scaleByAggressiveness :: "i64 \<Rightarrow> i64 \<Rightarrow> i64" where
  "scaleByAggressiveness base agg =
     (if agg \<le> 0 \<or> base \<le> 0 then 0
      else if agg \<ge> 100 then base
      else wrap64 (base * agg) sdiv 100)"

definition EffectiveMemoryCap :: "Sizing \<Rightarrow> i64" where
  "EffectiveMemoryCap s = scaleByAggressiveness (sz_MaxMemoryReductionPct s) (sz_MaxAggressiveness s)"

definition EffectiveReplicaCap :: "Sizing \<Rightarrow> i64" where
  "EffectiveReplicaCap s = scaleByAggressiveness (sz_MaxReplicaReductionPerPR s) (sz_MaxAggressiveness s)"

definition MemoryCutAllowed :: "Sizing \<Rightarrow> i64 \<Rightarrow> bool" where
  "MemoryCutAllowed s reductionPct =
     (let maxPct = EffectiveMemoryCap s
      in if maxPct = 0 then reductionPct = 0 else reductionPct \<le> maxPct)"

definition ReplicaCutAllowed :: "Sizing \<Rightarrow> i64 \<Rightarrow> bool" where
  "ReplicaCutAllowed s reductionCount =
     (if reductionCount \<le> 0 then True else reductionCount \<le> EffectiveReplicaCap s)"


section \<open>Properties of the limits\<close>

lemmas sizing_defs = ForClass_def baseSizing_def aggressivenessCap_def ConfidenceMeets_def confidenceRank_def
  ReplicaCutAllowed_def MemoryCutAllowed_def EffectiveReplicaCap_def EffectiveMemoryCap_def
  scaleByAggressiveness_def Let_def

lemma confidenceRank_3: "3 \<le> confidenceRank c \<longleftrightarrow> c = ''high''"
  by (simp add: confidenceRank_def)

lemma effective_caps:
  "EffectiveReplicaCap (ForClass env cls) =
     (if cls = ClassStatic then 0 else if env = EnvDev then 100 else if env = EnvStaging then 2 else 0)"
  "EffectiveMemoryCap (ForClass env cls) =
     (if env = EnvDev then 0
      else let m = (if env = EnvStaging then 25 else 10) in if cls = ClassStatic then m div 2 else m)"
  "confidenceRank (sz_MinConfidence (ForClass env cls)) =
     (if env = EnvDev then if cls = ClassStatic then 2 else 1 else if env = EnvStaging then 2 else 3)"
  by (auto simp: sizing_defs env_consts class_consts in_i64_def)

lemma approval_flags:
  "sz_AutoMergeEligible (ForClass env cls) \<longleftrightarrow> env = EnvDev" "pf_AutoMergeEligible (ProfileFor env) \<longleftrightarrow> env = EnvDev"
  "sz_ManualApproval (ForClass env cls) \<longleftrightarrow> env \<notin> {EnvDev, EnvStaging}"
  "pf_ManualApproval (ProfileFor env) \<longleftrightarrow> env \<notin> {EnvDev, EnvStaging}"
  by (simp_all add: ForClass_def baseSizing_def ProfileFor_def Let_def)

text \<open>
  The limits fail safe. Outside development and staging, whatever the environment is called and
  whatever the provisioner, a change needs manual approval and high confidence, is never merged
  automatically, cuts no replica and at most a tenth of the memory. In every environment a static
  node group never allows what another provisioner forbids, for confidence, replicas and memory cuts.
  The limits agree with the safety profile of the environment on merging and approval.
\<close>

lemma sizing_fail_safe:
  "(env \<notin> {EnvDev, EnvStaging} \<longrightarrow>
      sz_ManualApproval (ForClass env cls) \<and> \<not> sz_AutoMergeEligible (ForClass env cls) \<and>
      (ConfidenceMeets (ForClass env cls) c \<longleftrightarrow> c = ''high'') \<and>
      (ReplicaCutAllowed (ForClass env cls) n \<longleftrightarrow> n \<le> 0) \<and>
      (MemoryCutAllowed (ForClass env cls) p \<longrightarrow> p \<le> 10)) \<and>
   (ConfidenceMeets (ForClass env ClassStatic) c \<longrightarrow> ConfidenceMeets (ForClass env cls) c) \<and>
   (ReplicaCutAllowed (ForClass env ClassStatic) n \<longrightarrow> ReplicaCutAllowed (ForClass env cls) n) \<and>
   (MemoryCutAllowed (ForClass env ClassStatic) p \<longrightarrow> MemoryCutAllowed (ForClass env cls) p) \<and>
   sz_AutoMergeEligible (ForClass env cls) = pf_AutoMergeEligible (ProfileFor env) \<and>
   sz_ManualApproval (ForClass env cls) = pf_ManualApproval (ProfileFor env)"
proof (intro conjI impI)
  assume "env \<notin> {EnvDev, EnvStaging}"
  then have env: "env \<noteq> EnvDev" "env \<noteq> EnvStaging" by auto
  then show "sz_ManualApproval (ForClass env cls)" "\<not> sz_AutoMergeEligible (ForClass env cls)"
    by (simp_all add: approval_flags)
  show "ConfidenceMeets (ForClass env cls) c \<longleftrightarrow> c = ''high''"
    using env by (simp add: ConfidenceMeets_def effective_caps confidenceRank_3)
  show "ReplicaCutAllowed (ForClass env cls) n \<longleftrightarrow> n \<le> 0"
    using env by (simp add: ReplicaCutAllowed_def effective_caps)
  show "p \<le> 10" if "MemoryCutAllowed (ForClass env cls) p"
    using that env by (simp add: MemoryCutAllowed_def effective_caps Let_def split: if_splits)
qed (auto simp: ConfidenceMeets_def ReplicaCutAllowed_def MemoryCutAllowed_def effective_caps approval_flags
    Let_def split: if_splits)

theorem sizing_fail_safe_witness:
  "sz_ManualApproval (ForClass ''qa'' ClassKarpenter) \<and> \<not> ReplicaCutAllowed (ForClass ''qa'' ClassKarpenter) 1 \<and>
   MemoryCutAllowed (ForClass EnvProd ClassStatic) 5 \<and> MemoryCutAllowed (ForClass EnvProd ClassKarpenter) 5"
proof -
  have "MemoryCutAllowed (ForClass EnvProd ClassStatic) 5"
    by (simp add: MemoryCutAllowed_def effective_caps Let_def env_consts)
  then show ?thesis
    using sizing_fail_safe[of "''qa''" ClassKarpenter "[]" 1 0] sizing_fail_safe[of EnvProd ClassKarpenter "[]" 0 5]
    by (simp add: env_consts)
qed

text \<open>
  A development environment has a memory cap of zero, which stands for no cut at all: it is stricter
  than production, although its profile is called aggressive.
\<close>

lemma dev_memory_cap: "MemoryCutAllowed (ForClass EnvDev cls) p \<longleftrightarrow> p = 0"
  by (simp add: MemoryCutAllowed_def effective_caps)

section \<open>Properties of the classification\<close>

lemma envFromName_cases: "envFromName n \<in> {EnvProd, EnvStaging, EnvDev, EnvUnknown}"
  by (simp add: envFromName_def Let_def)

lemma envFromLabel_cases: "envFromLabel ls \<in> {EnvProd, EnvStaging, EnvDev, EnvUnknown}"
  by (simp add: envFromLabel_def canonical_env_def Let_def split: list.split)

text \<open>
  A cluster is not taken for a development cluster by accident: it is only when a rule of the
  tenant says so, or the first label that says anything does, or, when no label says anything, the
  first name pattern that matches; a cluster with a production name needs a rule or a label. Without
  any sign the result is unknown, whose profile is the one of production.
\<close>

lemma dev_needs_evidence:
  "(Env_Classify cn cl nl ns rules = EnvDev \<longrightarrow>
      rules ns = Some EnvDev \<or>
      (rules ns = None \<or> rules ns = Some []) \<and>
      (envFromLabel cl = EnvDev \<or> envFromLabel cl = EnvUnknown \<and> envFromLabel nl = EnvDev \<or>
       envFromLabel cl = EnvUnknown \<and> envFromLabel nl = EnvUnknown \<and> envFromName cn \<in> {EnvDev, EnvUnknown} \<and>
       (envFromName cn = EnvDev \<or> envFromName ns = EnvDev))) \<and>
   (rules ns = None \<and> envFromLabel cl = EnvUnknown \<and> envFromLabel nl = EnvUnknown \<and>
      envFromName cn = EnvUnknown \<and> envFromName ns = EnvUnknown \<longrightarrow>
      Env_Classify cn cl nl ns rules = EnvUnknown \<and> ProfileFor (Env_Classify cn cl nl ns rules) = ProfileFor EnvProd)"
  by (auto simp: Env_Classify_def ProfileFor_def env_consts split: option.splits if_splits)

theorem dev_needs_evidence_witness:
  "Env_Classify ''eks-prod'' Map.empty Map.empty ''dev'' Map.empty \<noteq> EnvDev \<and>
   ProfileFor (Env_Classify ''blue'' Map.empty Map.empty ''web'' Map.empty) = ProfileFor EnvProd"
  using dev_needs_evidence[of "''eks-prod''" Map.empty Map.empty "''dev''" Map.empty]
    dev_needs_evidence[of "''blue''" Map.empty Map.empty "''web''" Map.empty]
  by (auto simp: envFromLabel_def List.map_filter_def envFromName_def has_suffix_def Let_def env_consts)

end
