(* ===== verification/Validator.thy ===== *)
theory Validator
  imports Prelude
begin

text \<open>
  \<^verbatim>\<open>backend/internal/validator\<close>: the checks a recommendation passes before it may reach a pull
  request. The tenancy context, the metrics counter and the log line on a rejection have no effect
  on the result and are left out.
\<close>

record CandidateQuantity =
  cq_Millicores :: i64
  cq_Bytes :: i64

record PDB =
  pdb_MinAvailable :: i64
  pdb_MaxUnavailable :: i64
  pdb_CurrentReplicas :: i64

record ResourceQuota =
  rq_CPUMillicores :: i64
  rq_MemoryBytes :: i64
  rq_UsedCPUMilli :: i64
  rq_UsedMemoryB :: i64

record LimitRange =
  lr_MaxCPUMillicores :: i64
  lr_MaxMemoryBytes :: i64
  lr_MinCPUMillicores :: i64
  lr_MinMemoryBytes :: i64

record HPA =
  hpa_MinReplicas :: i64
  hpa_MaxReplicas :: i64
  hpa_CurrentReps :: i64

record ClusterSignals =
  cs_PDB :: "PDB option"
  cs_Quota :: "ResourceQuota option"
  cs_LimitRange :: "LimitRange option"
  cs_HPA :: "HPA option"
  cs_OOMRecent :: bool
  cs_Dependents :: "string list"

record Candidate =
  ca_WorkloadID :: string
  ca_DetectorID :: string
  ca_Title :: string
  ca_ProposedCPU :: CandidateQuantity
  ca_ProposedMemory :: CandidateQuantity
  ca_ProposedReplicas :: i64
  ca_MonthlyUSDCents :: i64
  ca_Signals :: ClusterSignals

datatype VerdictSeverity = VerdictInfo | VerdictWarn | VerdictHard

definition VerdictSeverity_String :: "VerdictSeverity \<Rightarrow> string" where
  "VerdictSeverity_String s =
     (case s of VerdictHard \<Rightarrow> ''hard'' | VerdictWarn \<Rightarrow> ''warn'' | VerdictInfo \<Rightarrow> ''info'')"

record Verdict =
  vd_Validator :: string
  vd_Severity :: VerdictSeverity
  vd_Reason :: string

definition verdict :: "VerdictSeverity \<Rightarrow> string \<Rightarrow> Verdict" where
  "verdict sev reason = \<lparr>vd_Validator = [], vd_Severity = sev, vd_Reason = reason\<rparr>"

record Validator =
  va_Name :: string
  va_Check :: "Candidate \<Rightarrow> string + Verdict option"

record ValidatorResult =
  vr_Verdicts :: "Verdict list"
  vr_Rejected :: "Verdict option"

section \<open>The pipeline (\<^verbatim>\<open>validator.go\<close>)\<close>

text \<open>\<open>None\<close> is the panic on an empty list of validators.\<close>

definition Validator_NewPipeline :: "Validator list \<Rightarrow> Validator list option" where
  "Validator_NewPipeline vs = (if vs = [] then None else Some vs)"

text \<open>The result so far comes with the error, as in the source.\<close>

fun Pipeline_loop ::
  "Candidate \<Rightarrow> ValidatorResult \<Rightarrow> Validator list \<Rightarrow> ValidatorResult \<times> (string \<times> string) option" where
  "Pipeline_loop c out [] = (out, None)"
| "Pipeline_loop c out (v # vs) =
     (case va_Check v c of
        Inl err \<Rightarrow> (out, Some (va_Name v, err))
      | Inr None \<Rightarrow> Pipeline_loop c out vs
      | Inr (Some vd) \<Rightarrow>
          let vd = vd\<lparr>vd_Validator := va_Name v\<rparr>;
              out = out\<lparr>vr_Verdicts := vr_Verdicts out @ [vd]\<rparr>;
              out = (if vd_Severity vd = VerdictHard \<and> vr_Rejected out = None
                     then out\<lparr>vr_Rejected := Some vd\<rparr> else out)
          in Pipeline_loop c out vs)"

definition Pipeline_Run :: "Validator list \<Rightarrow> Candidate \<Rightarrow> ValidatorResult \<times> (string \<times> string) option" where
  "Pipeline_Run vs c = Pipeline_loop c \<lparr>vr_Verdicts = [], vr_Rejected = None\<rparr> vs"

section \<open>The checks (\<^verbatim>\<open>checks.go\<close>)\<close>

definition PDBCheck_Check :: "Candidate \<Rightarrow> string + Verdict option" where
  "PDBCheck_Check c =
     (case cs_PDB (ca_Signals c) of
        None \<Rightarrow> Inr None
      | Some pdb \<Rightarrow>
          if ca_ProposedReplicas c = 0 then Inr None
          else let minAvail = pdb_MinAvailable pdb
               in if minAvail \<le> 0 then Inr None
                  else if ca_ProposedReplicas c < minAvail
                  then Inr (Some (verdict VerdictHard ''proposed replicas below PDB minAvailable''))
                  else Inr None)"

definition ResourceQuotaCheck_Check :: "Candidate \<Rightarrow> string + Verdict option" where
  "ResourceQuotaCheck_Check c =
     (case cs_Quota (ca_Signals c) of
        None \<Rightarrow> Inr None
      | Some q \<Rightarrow>
          if cq_Millicores (ca_ProposedCPU c) > 0 \<and> rq_CPUMillicores q > 0 \<and>
             wrap64 (rq_UsedCPUMilli q + cq_Millicores (ca_ProposedCPU c)) > rq_CPUMillicores q
          then Inr (Some (verdict VerdictHard ''proposed CPU exceeds namespace ResourceQuota''))
          else if cq_Bytes (ca_ProposedMemory c) > 0 \<and> rq_MemoryBytes q > 0 \<and>
             wrap64 (rq_UsedMemoryB q + cq_Bytes (ca_ProposedMemory c)) > rq_MemoryBytes q
          then Inr (Some (verdict VerdictHard ''proposed memory exceeds namespace ResourceQuota''))
          else Inr None)"

definition LimitRangeCheck_Check :: "Candidate \<Rightarrow> string + Verdict option" where
  "LimitRangeCheck_Check c =
     (case cs_LimitRange (ca_Signals c) of
        None \<Rightarrow> Inr None
      | Some lr \<Rightarrow>
          let cpu = cq_Millicores (ca_ProposedCPU c); mem = cq_Bytes (ca_ProposedMemory c)
          in if cpu > 0 \<and> lr_MaxCPUMillicores lr > 0 \<and> cpu > lr_MaxCPUMillicores lr
             then Inr (Some (verdict VerdictHard ''proposed CPU above LimitRange max''))
             else if cpu > 0 \<and> lr_MinCPUMillicores lr > 0 \<and> cpu < lr_MinCPUMillicores lr
             then Inr (Some (verdict VerdictHard ''proposed CPU below LimitRange min''))
             else if mem > 0 \<and> lr_MaxMemoryBytes lr > 0 \<and> mem > lr_MaxMemoryBytes lr
             then Inr (Some (verdict VerdictHard ''proposed memory above LimitRange max''))
             else if mem > 0 \<and> lr_MinMemoryBytes lr > 0 \<and> mem < lr_MinMemoryBytes lr
             then Inr (Some (verdict VerdictHard ''proposed memory below LimitRange min''))
             else Inr None)"

definition HPABoundsCheck_Check :: "Candidate \<Rightarrow> string + Verdict option" where
  "HPABoundsCheck_Check c =
     (case cs_HPA (ca_Signals c) of
        None \<Rightarrow> Inr None
      | Some hpa \<Rightarrow>
          if ca_ProposedReplicas c = 0 then Inr None
          else if ca_ProposedReplicas c < hpa_MinReplicas hpa
          then Inr (Some (verdict VerdictHard ''proposed replicas below HPA minReplicas''))
          else if ca_ProposedReplicas c > hpa_MaxReplicas hpa
          then Inr (Some (verdict VerdictHard ''proposed replicas above HPA maxReplicas''))
          else Inr (Some (verdict VerdictWarn ''workload has HPA; replica change will be overridden'')))"

definition DependencyCheck_Check :: "i64 \<Rightarrow> Candidate \<Rightarrow> string + Verdict option" where
  "DependencyCheck_Check maxDependents c =
     (let maxDep = (if maxDependents = 0 then 3 else maxDependents)
      in if int (length (cs_Dependents (ca_Signals c))) > maxDep
         then Inr (Some (verdict VerdictHard ''too many dependents for an automatic fix''))
         else Inr None)"

definition OOMRecentCheck_Check :: "Candidate \<Rightarrow> string + Verdict option" where
  "OOMRecentCheck_Check c =
     (if \<not> cs_OOMRecent (ca_Signals c) then Inr None
      else if cq_Bytes (ca_ProposedMemory c) \<le> 0 then Inr None
      else Inr (Some (verdict VerdictHard ''recent OOMKill, memory cut rejected'')))"

definition Default_validators :: "Validator list" where
  "Default_validators =
     [\<lparr>va_Name = ''pdb'', va_Check = PDBCheck_Check\<rparr>,
      \<lparr>va_Name = ''resourcequota'', va_Check = ResourceQuotaCheck_Check\<rparr>,
      \<lparr>va_Name = ''limitrange'', va_Check = LimitRangeCheck_Check\<rparr>,
      \<lparr>va_Name = ''hpabounds'', va_Check = HPABoundsCheck_Check\<rparr>,
      \<lparr>va_Name = ''dependency'', va_Check = DependencyCheck_Check 0\<rparr>,
      \<lparr>va_Name = ''oom-recent'', va_Check = OOMRecentCheck_Check\<rparr>]"

section \<open>What the pipeline returns\<close>

text \<open>The verdict of one validator, with its name, if it has one.\<close>

definition verdict_of :: "Candidate \<Rightarrow> Validator \<Rightarrow> Verdict option" where
  "verdict_of c v = (case va_Check v c of Inr (Some vd) \<Rightarrow> Some (vd\<lparr>vd_Validator := va_Name v\<rparr>) | _ \<Rightarrow> None)"

lemma find_append_Some: "find P (xs @ ys) = (case find P xs of Some x \<Rightarrow> Some x | None \<Rightarrow> find P ys)"
  by (induction xs) auto

lemma Pipeline_loop_ok:
  assumes "\<And>v. v \<in> set vs \<Longrightarrow> \<exists>r. va_Check v c = Inr r"
    and "vr_Rejected out = find (\<lambda>vd. vd_Severity vd = VerdictHard) (vr_Verdicts out)"
  shows "Pipeline_loop c out vs =
    (let vds = vr_Verdicts out @ List.map_filter (verdict_of c) vs
     in (\<lparr>vr_Verdicts = vds, vr_Rejected = find (\<lambda>vd. vd_Severity vd = VerdictHard) vds\<rparr>, None))"
  using assms
proof (induction vs arbitrary: out)
  case Nil
  then show ?case by (cases out) (simp add: List.map_filter_def Let_def)
next
  case (Cons v vs)
  obtain r where r: "va_Check v c = Inr r" using Cons.prems(1) by auto
  show ?case
  proof (cases r)
    case None
    then show ?thesis using Cons r by (simp add: verdict_of_def List.map_filter_simps Let_def)
  next
    case (Some vd)
    define out' where "out' = (let vd = vd\<lparr>vd_Validator := va_Name v\<rparr>;
        out = out\<lparr>vr_Verdicts := vr_Verdicts out @ [vd]\<rparr>
      in if vd_Severity vd = VerdictHard \<and> vr_Rejected out = None then out\<lparr>vr_Rejected := Some vd\<rparr> else out)"
    have loop: "Pipeline_loop c out (v # vs) = Pipeline_loop c out' vs"
      by (simp add: r Some out'_def Let_def)
    have "vr_Rejected out' = find (\<lambda>vd. vd_Severity vd = VerdictHard) (vr_Verdicts out')"
      using Cons.prems(2) by (auto simp: out'_def Let_def find_append_Some split: option.splits)
    moreover have "vr_Verdicts out' = vr_Verdicts out @ [vd\<lparr>vd_Validator := va_Name v\<rparr>]"
      by (simp add: out'_def Let_def)
    moreover have "verdict_of c v = Some (vd\<lparr>vd_Validator := va_Name v\<rparr>)"
      by (simp add: verdict_of_def r Some)
    ultimately show ?thesis
      unfolding loop using Cons.IH[of out'] Cons.prems(1)
      by (simp add: List.map_filter_simps Let_def)
  qed
qed

lemma Pipeline_Run_ok:
  assumes "\<And>v. v \<in> set vs \<Longrightarrow> \<exists>r. va_Check v c = Inr r"
  shows "Pipeline_Run vs c =
    (\<lparr>vr_Verdicts = List.map_filter (verdict_of c) vs,
      vr_Rejected = find (\<lambda>vd. vd_Severity vd = VerdictHard) (List.map_filter (verdict_of c) vs)\<rparr>, None)"
  using Pipeline_loop_ok[of vs c "\<lparr>vr_Verdicts = [], vr_Rejected = None\<rparr>"] assms
  by (simp add: Pipeline_Run_def Let_def)

lemmas check_defs = PDBCheck_Check_def ResourceQuotaCheck_Check_def LimitRangeCheck_Check_def
  HPABoundsCheck_Check_def DependencyCheck_Check_def OOMRecentCheck_Check_def

lemma Default_total: "v \<in> set Default_validators \<Longrightarrow> \<exists>r. va_Check v c = Inr r"
  by (auto simp: Default_validators_def check_defs Let_def split: option.split)

text \<open>The constraints a candidate has to meet, read off the cluster signals.\<close>

definition admissible :: "Candidate \<Rightarrow> bool" where
  "admissible c \<longleftrightarrow>
     (let sg = ca_Signals c; reps = ca_ProposedReplicas c;
          cpu = cq_Millicores (ca_ProposedCPU c); mem = cq_Bytes (ca_ProposedMemory c);
          within = (\<lambda>x lo hi. x > 0 \<longrightarrow> (hi > 0 \<longrightarrow> x \<le> hi) \<and> (lo > 0 \<longrightarrow> lo \<le> x));
          fits = (\<lambda>x used quota. x > 0 \<longrightarrow> quota > 0 \<longrightarrow> used + x \<le> quota)
      in (\<forall>pdb. cs_PDB sg = Some pdb \<longrightarrow> reps \<noteq> 0 \<longrightarrow> pdb_MinAvailable pdb > 0 \<longrightarrow> pdb_MinAvailable pdb \<le> reps) \<and>
         (\<forall>q. cs_Quota sg = Some q \<longrightarrow> fits cpu (rq_UsedCPUMilli q) (rq_CPUMillicores q) \<and>
            fits mem (rq_UsedMemoryB q) (rq_MemoryBytes q)) \<and>
         (\<forall>lr. cs_LimitRange sg = Some lr \<longrightarrow>
            within cpu (lr_MinCPUMillicores lr) (lr_MaxCPUMillicores lr) \<and>
            within mem (lr_MinMemoryBytes lr) (lr_MaxMemoryBytes lr)) \<and>
         (\<forall>h. cs_HPA sg = Some h \<longrightarrow> reps \<noteq> 0 \<longrightarrow> hpa_MinReplicas h \<le> reps \<and> reps \<le> hpa_MaxReplicas h) \<and>
         length (cs_Dependents sg) \<le> 3 \<and> (cs_OOMRecent sg \<longrightarrow> mem \<le> 0))"

text \<open>Sums of usage and proposal that stay inside \<open>int64\<close>.\<close>

definition quota_in_range :: "Candidate \<Rightarrow> bool" where
  "quota_in_range c \<longleftrightarrow>
     (\<forall>q. cs_Quota (ca_Signals c) = Some q \<longrightarrow>
        in_i64 (rq_UsedCPUMilli q + cq_Millicores (ca_ProposedCPU c)) \<and>
        in_i64 (rq_UsedMemoryB q + cq_Bytes (ca_ProposedMemory c)))"

definition hard :: "Candidate \<Rightarrow> Validator \<Rightarrow> bool" where
  "hard c v \<longleftrightarrow> (\<exists>vd. va_Check v c = Inr (Some vd) \<and> vd_Severity vd = VerdictHard)"

lemma find_map_filter_None:
  "find (\<lambda>vd. vd_Severity vd = VerdictHard) (List.map_filter (verdict_of c) vs) = None \<longleftrightarrow> (\<forall>v \<in> set vs. \<not> hard c v)"
  by (induction vs) (auto simp: List.map_filter_simps verdict_of_def hard_def split: sum.splits option.splits)

lemma hard_checks:
  "hard c \<lparr>va_Name = n, va_Check = PDBCheck_Check\<rparr> \<longleftrightarrow>
    (\<exists>pdb. cs_PDB (ca_Signals c) = Some pdb \<and> ca_ProposedReplicas c \<noteq> 0 \<and> pdb_MinAvailable pdb > 0 \<and>
      ca_ProposedReplicas c < pdb_MinAvailable pdb)"
  "hard c \<lparr>va_Name = n, va_Check = HPABoundsCheck_Check\<rparr> \<longleftrightarrow>
    (\<exists>h. cs_HPA (ca_Signals c) = Some h \<and> ca_ProposedReplicas c \<noteq> 0 \<and>
      (ca_ProposedReplicas c < hpa_MinReplicas h \<or> hpa_MaxReplicas h < ca_ProposedReplicas c))"
  "hard c \<lparr>va_Name = n, va_Check = DependencyCheck_Check 0\<rparr> \<longleftrightarrow> 3 < length (cs_Dependents (ca_Signals c))"
  "hard c \<lparr>va_Name = n, va_Check = OOMRecentCheck_Check\<rparr> \<longleftrightarrow>
    cs_OOMRecent (ca_Signals c) \<and> 0 < cq_Bytes (ca_ProposedMemory c)"
  by (auto simp: hard_def check_defs verdict_def Let_def split: option.splits)

lemma hard_LimitRange:
  "hard c \<lparr>va_Name = n, va_Check = LimitRangeCheck_Check\<rparr> \<longleftrightarrow>
    (\<exists>lr. cs_LimitRange (ca_Signals c) = Some lr \<and>
      (let cpu = cq_Millicores (ca_ProposedCPU c); mem = cq_Bytes (ca_ProposedMemory c)
       in cpu > 0 \<and> (lr_MaxCPUMillicores lr > 0 \<and> cpu > lr_MaxCPUMillicores lr \<or>
            lr_MinCPUMillicores lr > 0 \<and> cpu < lr_MinCPUMillicores lr) \<or>
          mem > 0 \<and> (lr_MaxMemoryBytes lr > 0 \<and> mem > lr_MaxMemoryBytes lr \<or>
            lr_MinMemoryBytes lr > 0 \<and> mem < lr_MinMemoryBytes lr)))"
  by (cases "cs_LimitRange (ca_Signals c)") (auto simp: hard_def LimitRangeCheck_Check_def verdict_def Let_def)

lemma hard_Quota:
  assumes "quota_in_range c"
  shows "hard c \<lparr>va_Name = n, va_Check = ResourceQuotaCheck_Check\<rparr> \<longleftrightarrow>
    (\<exists>q. cs_Quota (ca_Signals c) = Some q \<and>
      (let cpu = cq_Millicores (ca_ProposedCPU c); mem = cq_Bytes (ca_ProposedMemory c)
       in cpu > 0 \<and> rq_CPUMillicores q > 0 \<and> rq_UsedCPUMilli q + cpu > rq_CPUMillicores q \<or>
          mem > 0 \<and> rq_MemoryBytes q > 0 \<and> rq_UsedMemoryB q + mem > rq_MemoryBytes q))"
  using assms
  by (cases "cs_Quota (ca_Signals c)")
    (auto simp: hard_def ResourceQuotaCheck_Check_def quota_in_range_def verdict_def Let_def)

text \<open>
  C16. The default pipeline always returns a result, never an error; it lists the verdicts of all
  validators in order, also those after a rejection; and it lets a candidate through exactly when
  the candidate meets every constraint of the cluster signals (quota sums inside \<open>int64\<close>).
\<close>

theorem default_pipeline_exact:
  assumes "quota_in_range c"
  shows "\<exists>res. Pipeline_Run Default_validators c = (res, None) \<and>
    vr_Verdicts res = List.map_filter (verdict_of c) Default_validators \<and>
    (vr_Rejected res = None \<longleftrightarrow> admissible c)"
proof -
  have "(\<forall>v \<in> set Default_validators. \<not> hard c v) \<longleftrightarrow> admissible c"
    unfolding admissible_def Default_validators_def
    by (simp add: hard_checks hard_LimitRange hard_Quota[OF assms] Let_def) (auto simp: not_less not_le)
  then show ?thesis
    using Pipeline_Run_ok[of Default_validators c, OF Default_total] by (simp add: find_map_filter_None)
qed

definition shrink_candidate :: Candidate where
  "shrink_candidate = \<lparr>ca_WorkloadID = ''web'', ca_DetectorID = ''d'', ca_Title = [],
     ca_ProposedCPU = \<lparr>cq_Millicores = 500, cq_Bytes = 0\<rparr>, ca_ProposedMemory = \<lparr>cq_Millicores = 0, cq_Bytes = 0\<rparr>,
     ca_ProposedReplicas = 1, ca_MonthlyUSDCents = 0,
     ca_Signals = \<lparr>cs_PDB = Some \<lparr>pdb_MinAvailable = 2, pdb_MaxUnavailable = 0, pdb_CurrentReplicas = 3\<rparr>,
       cs_Quota = None, cs_LimitRange = None, cs_HPA = None, cs_OOMRecent = False, cs_Dependents = []\<rparr>\<rparr>"

theorem default_pipeline_exact_witness:
  "\<exists>res. Pipeline_Run Default_validators shrink_candidate = (res, None) \<and> vr_Rejected res \<noteq> None"
  using default_pipeline_exact[of shrink_candidate]
  by (auto simp: quota_in_range_def admissible_def shrink_candidate_def Let_def)

end
