(* ===== verification/Gate.thy ===== *)
theory Gate
  imports Go_Strconv Rules_Security
begin

text \<open>
  \<^verbatim>\<open>backend/internal/applyfix/gate\<close>: the stages a generated fix passes before it leaves the worker.
  This theory holds the pipeline with its policies (\<^verbatim>\<open>pipeline.go\<close>, \<^verbatim>\<open>policy.go\<close>,
  \<^verbatim>\<open>validators.go\<close>) and the patch engine of the first stage (\<^verbatim>\<open>render.go\<close>). The YAML decoder is a
  parameter of the stages that use it.
\<close>

type_synonym GateStage = string

definition StageTemplate :: GateStage where "StageTemplate = ''template''"
definition StageConform :: GateStage where "StageConform = ''conform''"
definition StageDryrun :: GateStage where "StageDryrun = ''dryrun''"
definition StagePost :: GateStage where "StagePost = ''post''"

datatype GateStatus = StatusPassed | StatusFailed | StatusNotImplemented

definition GateStatus_String :: "GateStatus \<Rightarrow> string" where
  "GateStatus_String s =
     (case s of StatusPassed \<Rightarrow> ''passed'' | StatusFailed \<Rightarrow> ''failed''
      | StatusNotImplemented \<Rightarrow> ''not_implemented'')"

record GateCandidate =
  gc_ApplyFixID :: string
  gc_ChartYAML :: string
  gc_UnifiedDiff :: string
  gc_Workload :: string

record StageResult =
  sr_Stage :: GateStage
  sr_Status :: GateStatus
  sr_Detail :: string
  sr_Err :: "string option"

text \<open>A validator gives \<open>None\<close> when its body panics; the panic then leaves the pipeline.\<close>

record GateValidator =
  gv_Stage :: GateStage
  gv_Validate :: "GateCandidate \<Rightarrow> StageResult option"

type_synonym GatePolicy = "GateStage \<Rightarrow> GateStatus \<Rightarrow> bool"

definition SkeletonPolicy :: GatePolicy where
  "SkeletonPolicy st s = (s \<noteq> StatusFailed)"

definition StrictPolicy :: GatePolicy where
  "StrictPolicy st s = (s = StatusPassed)"

definition ErrNotImplemented :: string where "ErrNotImplemented = ''gate: validator not implemented''"

definition errOrSentinel :: "StageResult \<Rightarrow> string" where
  "errOrSentinel r =
     (case sr_Err r of
        Some e \<Rightarrow> e
      | None \<Rightarrow> if sr_Status r = StatusNotImplemented then ErrNotImplemented else sr_Detail r)"

text \<open>\<open>None\<close> is the panic on an empty list of validators.\<close>

definition Gate_NewPipeline :: "GatePolicy \<Rightarrow> GateValidator list \<Rightarrow> (GatePolicy \<times> GateValidator list) option" where
  "Gate_NewPipeline policy vs = (if vs = [] then None else Some (policy, vs))"

type_synonym GateOutcome = "StageResult list \<times> (GateStage \<times> GateStatus \<times> string) option"

fun Gate_loop ::
  "GatePolicy \<Rightarrow> GateCandidate \<Rightarrow> StageResult list \<Rightarrow> GateValidator list \<Rightarrow> GateOutcome option" where
  "Gate_loop policy c stages [] = Some (stages, None)"
| "Gate_loop policy c stages (v # vs) =
     (case gv_Validate v c of
        None \<Rightarrow> None
      | Some r \<Rightarrow>
          let res = r\<lparr>sr_Stage := gv_Stage v\<rparr>;
              stages = stages @ [res]
          in if \<not> policy (sr_Stage res) (sr_Status res)
             then Some (stages, Some (sr_Stage res, sr_Status res, errOrSentinel res))
             else Gate_loop policy c stages vs)"

definition Gate_Run :: "GatePolicy \<Rightarrow> GateValidator list \<Rightarrow> GateCandidate \<Rightarrow> GateOutcome option" where
  "Gate_Run policy vs c = Gate_loop policy c [] vs"

definition NotImplementedValidator :: "GateStage \<Rightarrow> GateValidator" where
  "NotImplementedValidator s =
     \<lparr>gv_Stage = s,
      gv_Validate = (\<lambda>_. Some \<lparr>sr_Stage = s, sr_Status = StatusNotImplemented,
                          sr_Detail = ''stage not yet implemented'', sr_Err = Some ErrNotImplemented\<rparr>)\<rparr>"

definition SkeletonValidators :: "GateValidator list" where
  "SkeletonValidators = map NotImplementedValidator [StageTemplate, StageConform, StageDryrun, StagePost]"

definition failed :: "GateStage \<Rightarrow> string \<Rightarrow> string \<Rightarrow> StageResult" where
  "failed s detail err = \<lparr>sr_Stage = s, sr_Status = StatusFailed, sr_Detail = detail, sr_Err = Some err\<rparr>"

definition passed :: "GateStage \<Rightarrow> StageResult" where
  "passed s = \<lparr>sr_Stage = s, sr_Status = StatusPassed, sr_Detail = [], sr_Err = None\<rparr>"

section \<open>Applying a unified diff (\<^verbatim>\<open>render.go\<close>)\<close>

record hunk =
  h_oldStart :: i64
  h_oldLen :: i64
  h_ops :: "(char \<times> string) list"

text \<open>
  The ways applying a diff fails; the number in a hunk header that does not parse is reported with its
  line, and \<open>IndexOutOfRange\<close> is the runtime panic of an index past the end of a slice.
\<close>

datatype diff_failure = MalformedHunk | MalformedNumber string | NoHunks | ContextMiss | IndexOutOfRange

text \<open>\<open>strings.SplitN(s, " ", 3)\<close>: at most three parts, the last with the rest.\<close>

definition splitN3 :: "string \<Rightarrow> string list" where
  "splitN3 s =
     (case split_on CHR '' '' s of
        a # b # rest \<Rightarrow> (if rest = [] then [a, b] else [a, b, join '' '' rest])
      | ps \<Rightarrow> ps)"

definition splitNum :: "string \<Rightarrow> string \<times> string" where
  "splitNum s = (takeWhile (\<lambda>c. c \<noteq> CHR '','') s, drop 1 (dropWhile (\<lambda>c. c \<noteq> CHR '','') s))"

definition parseHunkHeader :: "string \<Rightarrow> diff_failure + hunk" where
  "parseHunkHeader line =
     (let rest = trim_space (trim_prefix line ''@@'');
          parts = splitN3 rest
      in if length parts < 2 \<or> \<not> prefix ''-'' (hd parts) then Inl MalformedHunk
         else let (startStr, lenStr) = splitNum (trim_prefix (hd parts) ''-'')
              in case parse_int startStr of
                   Inl _ \<Rightarrow> Inl (MalformedNumber line)
                 | Inr start \<Rightarrow>
                     if lenStr \<noteq> []
                     then (case parse_int lenStr of
                             Inl _ \<Rightarrow> Inl (MalformedNumber line)
                           | Inr l \<Rightarrow> Inr \<lparr>h_oldStart = start, h_oldLen = l, h_ops = []\<rparr>)
                     else Inr \<lparr>h_oldStart = start, h_oldLen = 1, h_ops = []\<rparr>)"

definition add_op :: "char \<Rightarrow> string \<Rightarrow> hunk list \<Rightarrow> hunk list" where
  "add_op oper body hunks =
     butlast hunks @ [(last hunks)\<lparr>h_ops := h_ops (last hunks) @ [(oper, body)]\<rparr>]"

text \<open>Reading the diff: the current hunk is the last one of the list.\<close>

fun parseDiff :: "hunk list \<Rightarrow> string list \<Rightarrow> diff_failure + hunk list" where
  "parseDiff hunks [] = Inr hunks"
| "parseDiff hunks (line # ls) =
     (if prefix ''--- '' line \<or> prefix ''+++ '' line then parseDiff hunks ls
      else if prefix ''@@'' line
      then (case parseHunkHeader line of Inl e \<Rightarrow> Inl e | Inr h \<Rightarrow> parseDiff (hunks @ [h]) ls)
      else if hunks = [] then parseDiff hunks ls
      else if line = [] then parseDiff (add_op CHR '' '' [] hunks) ls
      else if hd line \<in> {CHR '' '', CHR ''-'', CHR ''+''}
      then parseDiff (add_op (hd line) (tl line) hunks) ls
      else if hd line = CHR 0x5C then parseDiff hunks ls
      else parseDiff (add_op CHR '' '' line hunks) ls)"

definition oldBlock :: "(char \<times> string) list \<Rightarrow> string list" where
  "oldBlock ops = map snd (filter (\<lambda>(oper, b). oper \<noteq> CHR ''+'') ops)"

definition newBlock :: "(char \<times> string) list \<Rightarrow> string list" where
  "newBlock ops = map snd (filter (\<lambda>(oper, b). oper \<noteq> CHR ''-'') ops)"

fun match_at :: "string list \<Rightarrow> string list \<Rightarrow> nat \<Rightarrow> diff_failure + bool" where
  "match_at src [] i = Inr True"
| "match_at src (w # ws) i =
     (if i < length src then if src ! i \<noteq> w then Inr False else match_at src ws (i + 1)
      else Inl IndexOutOfRange)"

definition tryAt :: "string list \<Rightarrow> string list \<Rightarrow> i64 \<Rightarrow> diff_failure + bool" where
  "tryAt src want i =
     (if i < 0 \<or> wrap64 (i + int (length want)) > int (length src) then Inr False
      else match_at src want (nat i))"

function scan :: "string list \<Rightarrow> string list \<Rightarrow> nat \<Rightarrow> diff_failure + nat" where
  "scan src want i =
     (if i + length want \<le> length src
      then (case tryAt src want (int i) of
              Inl e \<Rightarrow> Inl e
            | Inr found \<Rightarrow> if found then Inr i else scan src want (i + 1))
      else Inl ContextMiss)"
  by pat_completeness auto
termination
  by (relation "measure (\<lambda>(src, want, i). Suc (length src) - i)") auto

declare scan.simps [simp del]

definition findBlock :: "string list \<Rightarrow> string list \<Rightarrow> nat \<Rightarrow> i64 \<Rightarrow> diff_failure + nat" where
  "findBlock src want cursor hint =
     (if want = [] then if 0 \<le> hint \<and> hint \<le> int (length src) then Inr (nat hint) else Inr cursor
      else (case tryAt src want hint of
              Inl e \<Rightarrow> Inl e
            | Inr found \<Rightarrow> if found then Inr (nat hint) else scan src want cursor))"

fun applyHunks :: "string list \<Rightarrow> nat \<Rightarrow> hunk list \<Rightarrow> diff_failure + string list" where
  "applyHunks out cursor [] = Inr out"
| "applyHunks out cursor (h # hs) =
     (case findBlock out (oldBlock (h_ops h)) cursor (wrap64 (h_oldStart h - 1)) of
        Inl e \<Rightarrow> Inl e
      | Inr idx \<Rightarrow>
          applyHunks (take idx out @ newBlock (h_ops h) @ drop (idx + length (oldBlock (h_ops h))) out)
            (idx + length (newBlock (h_ops h))) hs)"

definition applyUnifiedDiff :: "string \<Rightarrow> string \<Rightarrow> diff_failure + string" where
  "applyUnifiedDiff src diff =
     (case parseDiff [] (lines_of diff) of
        Inl e \<Rightarrow> Inl e
      | Inr hunks \<Rightarrow>
          if hunks = [] then Inl NoHunks
          else (case applyHunks (lines_of src) 0 hunks of Inl e \<Rightarrow> Inl e | Inr out \<Rightarrow> Inr (unlines out)))"

text \<open>The message of the error; the panic has none.\<close>

definition diff_failure_text :: "diff_failure \<Rightarrow> string option" where
  "diff_failure_text e =
     (case e of
        MalformedHunk \<Rightarrow> Some ''gate/render: malformed hunk header''
      | MalformedNumber line \<Rightarrow> Some (''gate/render: malformed hunk header: '' @ line)
      | NoHunks \<Rightarrow> Some ''gate/render: no hunks in diff''
      | ContextMiss \<Rightarrow> Some ''gate/render: hunk context line not found in source''
      | IndexOutOfRange \<Rightarrow> None)"

text \<open>The first stage; \<open>yaml_error\<close> tells the error of decoding a document, if any.\<close>

definition RenderValidator_Validate :: "(string \<Rightarrow> string option) \<Rightarrow> GateCandidate \<Rightarrow> StageResult option" where
  "RenderValidator_Validate yaml_error c =
     (if trim_space (gc_UnifiedDiff c) = []
      then Some (failed StageTemplate ''empty diff'' ''gate/render: empty unified diff'')
      else if trim_space (gc_ChartYAML c) = []
      then Some (failed StageTemplate ''empty chart yaml'' ''gate/render: empty chart yaml'')
      else case applyUnifiedDiff (gc_ChartYAML c) (gc_UnifiedDiff c) of
             Inl e \<Rightarrow> map_option (failed StageTemplate ''diff did not apply'') (diff_failure_text e)
           | Inr patched \<Rightarrow>
               (case yaml_error patched of
                  Some e \<Rightarrow> Some (failed StageTemplate ''post-diff yaml invalid'' e)
                | None \<Rightarrow> Some (passed StageTemplate)))"

definition RenderValidator :: "(string \<Rightarrow> string option) \<Rightarrow> GateValidator" where
  "RenderValidator yaml_error =
     \<lparr>gv_Stage = StageTemplate, gv_Validate = RenderValidator_Validate yaml_error\<rparr>"

section \<open>The pipeline\<close>

definition stage_result :: "GateCandidate \<Rightarrow> GateValidator \<Rightarrow> StageResult" where
  "stage_result c v = (the (gv_Validate v c))\<lparr>sr_Stage := gv_Stage v\<rparr>"

definition stage_error :: "StageResult \<Rightarrow> GateStage \<times> GateStatus \<times> string" where
  "stage_error r = (sr_Stage r, sr_Status r, errOrSentinel r)"

definition runs :: "GateCandidate \<Rightarrow> GateValidator list \<Rightarrow> bool" where
  "runs c vs \<longleftrightarrow> (\<forall>v \<in> set vs. gv_Validate v c \<noteq> None)"

lemma Gate_loop_eq:
  assumes "runs c vs"
  shows "Gate_loop policy c stages vs =
    (let rs = map (stage_result c) vs; allowed = (\<lambda>r. policy (sr_Stage r) (sr_Status r))
     in Some (stages @ takeWhile allowed rs @ take 1 (dropWhile allowed rs), map_option stage_error (find (\<lambda>r. \<not> allowed r) rs)))"
  using assms
proof (induction vs arbitrary: stages)
  case (Cons v vs)
  then obtain r where "gv_Validate v c = Some r" by (auto simp: runs_def)
  with Cons show ?case by (simp add: runs_def stage_result_def stage_error_def Let_def)
qed (simp add: Let_def)

text \<open>What a policy owes the pipeline: a passed stage goes on, a failed one never does.\<close>

locale gate_policy =
  fixes policy :: GatePolicy
  assumes passes: "policy st StatusPassed"
    and fails_closed: "\<not> policy st StatusFailed"
begin

lemma passed_run:
  assumes "runs c vs" "\<forall>v \<in> set vs. sr_Status (stage_result c v) = StatusPassed"
  shows "Gate_Run policy vs c = Some (map (stage_result c) vs, None)"
proof -
  let ?P = "\<lambda>r. policy (sr_Stage r) (sr_Status r)"
  have all: "\<forall>r \<in> set (map (stage_result c) vs). ?P r" using assms(2) passes by simp
  then have "find (\<lambda>r. \<not> ?P r) (map (stage_result c) vs) = None" by (simp add: find_None_iff)
  with all show ?thesis using Gate_loop_eq[OF assms(1), of policy "[]"] 
    by (simp add: Gate_Run_def Let_def takeWhile_eq_all_conv[THEN iffD2] dropWhile_eq_Nil_conv[THEN iffD2])
qed

lemma failed_run:
  assumes "runs c vs" "v \<in> set vs" "sr_Status (stage_result c v) = StatusFailed"
  shows "\<exists>rs e. Gate_Run policy vs c = Some (rs, Some e)"
proof -
  let ?P = "\<lambda>r. policy (sr_Stage r) (sr_Status r)"
  have "\<not> ?P (stage_result c v)" using assms(3) fails_closed by simp
  then have "find (\<lambda>r. \<not> ?P r) (map (stage_result c) vs) \<noteq> None" using assms(2) by (auto simp: find_None_iff)
  then show ?thesis using Gate_loop_eq[OF assms(1), of policy "[]"] by (auto simp: Gate_Run_def stage_error_def Let_def)
qed

end

interpretation strict: gate_policy StrictPolicy
  by unfold_locales (simp_all add: StrictPolicy_def)

interpretation skeleton: gate_policy SkeletonPolicy
  by unfold_locales (simp_all add: SkeletonPolicy_def)


lemma strict_stop:
  assumes "runs c vs" "vs = pre @ v # post"
    "\<forall>u \<in> set pre. sr_Status (stage_result c u) = StatusPassed" "sr_Status (stage_result c v) \<noteq> StatusPassed"
  shows "Gate_Run StrictPolicy vs c =
    Some (map (stage_result c) (pre @ [v]), Some (stage_error (stage_result c v)))"
proof -
  let ?P = "\<lambda>r. StrictPolicy (sr_Stage r) (sr_Status r)" and ?m = "map (stage_result c)"
  have "\<forall>r \<in> set (?m pre). ?P r" "\<not> ?P (stage_result c v)" using assms by (auto simp: StrictPolicy_def)
  moreover from this have "find (\<lambda>r. \<not> ?P r) (?m pre @ ?m (v # post)) = Some (stage_result c v)"
    by (induction pre) auto
  moreover have "takeWhile ?P (?m pre @ ?m (v # post)) = ?m pre" "dropWhile ?P (?m pre @ ?m (v # post)) = ?m (v # post)"
    using calculation(1,2) by (subst takeWhile_append2 dropWhile_append2; auto)+
  ultimately show ?thesis using Gate_loop_eq[OF assms(1), of StrictPolicy "[]"]
    by (simp add: Gate_Run_def Let_def assms(2))
qed

lemma accepted_iff:
  assumes "runs c vs"
  shows "(\<exists>rs. Gate_Run policy vs c = Some (rs, None)) \<longleftrightarrow>
    (\<forall>v \<in> set vs. policy (gv_Stage v) (sr_Status (stage_result c v)))"
  using Gate_loop_eq[OF assms, of policy "[]"]
  by (auto simp: Gate_Run_def Let_def find_None_iff stage_result_def)

text \<open>
  The gate fails closed. When no stage panics, a strict pipeline accepts a candidate exactly when
  every stage passed, and then reports every stage's result in order; otherwise it stops at the first
  stage that did not pass, reports the results up to and including it, and its error carries that
  stage, its status and its cause. The skeleton policy accepts exactly when no stage failed.
\<close>

lemma gate_fails_closed:
  assumes "runs c vs"
  shows "((\<exists>rs. Gate_Run StrictPolicy vs c = Some (rs, None)) \<longleftrightarrow>
            (\<forall>v \<in> set vs. sr_Status (stage_result c v) = StatusPassed)) \<and>
         (\<forall>rs. Gate_Run StrictPolicy vs c = Some (rs, None) \<longrightarrow> rs = map (stage_result c) vs) \<and>
         (\<forall>pre v post. vs = pre @ v # post \<and> (\<forall>u \<in> set pre. sr_Status (stage_result c u) = StatusPassed) \<and>
            sr_Status (stage_result c v) \<noteq> StatusPassed \<longrightarrow>
            Gate_Run StrictPolicy vs c =
              Some (map (stage_result c) (pre @ [v]), Some (stage_error (stage_result c v)))) \<and>
         ((\<exists>rs. Gate_Run SkeletonPolicy vs c = Some (rs, None)) \<longleftrightarrow>
            (\<forall>v \<in> set vs. sr_Status (stage_result c v) \<noteq> StatusFailed))"
proof (intro conjI allI impI)
  show strict: "(\<exists>rs. Gate_Run StrictPolicy vs c = Some (rs, None)) \<longleftrightarrow>
      (\<forall>v \<in> set vs. sr_Status (stage_result c v) = StatusPassed)"
    using accepted_iff[OF assms, of StrictPolicy] by (simp add: StrictPolicy_def)
  show "(\<exists>rs. Gate_Run SkeletonPolicy vs c = Some (rs, None)) \<longleftrightarrow>
      (\<forall>v \<in> set vs. sr_Status (stage_result c v) \<noteq> StatusFailed)"
    using accepted_iff[OF assms, of SkeletonPolicy] by (simp add: SkeletonPolicy_def)
  fix rs assume "Gate_Run StrictPolicy vs c = Some (rs, None)"
  then show "rs = map (stage_result c) vs" using strict strict.passed_run[OF assms] by auto
next
  fix pre v post
  assume "vs = pre @ v # post \<and> (\<forall>u \<in> set pre. sr_Status (stage_result c u) = StatusPassed) \<and>
    sr_Status (stage_result c v) \<noteq> StatusPassed"
  then show "Gate_Run StrictPolicy vs c =
      Some (map (stage_result c) (pre @ [v]), Some (stage_error (stage_result c v)))"
    by (intro strict_stop[OF assms]) auto
qed

theorem gate_fails_closed_witness:
  "\<exists>rs e. Gate_Run StrictPolicy SkeletonValidators
     \<lparr>gc_ApplyFixID = ''a'', gc_ChartYAML = ''x'', gc_UnifiedDiff = ''y'', gc_Workload = ''w''\<rparr> = Some (rs, Some e)"
proof -
  let ?c = "\<lparr>gc_ApplyFixID = ''a'', gc_ChartYAML = ''x'', gc_UnifiedDiff = ''y'', gc_Workload = ''w''\<rparr>"
  have "runs ?c SkeletonValidators" by (simp add: runs_def SkeletonValidators_def NotImplementedValidator_def)
  from gate_fails_closed[OF this] show ?thesis
    by (simp add: SkeletonValidators_def NotImplementedValidator_def Gate_Run_def StrictPolicy_def Let_def)
qed

section \<open>The patch engine\<close>

lemma match_at_eq:
  "i + length want \<le> length src \<Longrightarrow> match_at src want i = Inr (take (length want) (drop i src) = want)"
  by (induction want arbitrary: i) (auto simp: Cons_nth_drop_Suc[symmetric])

lemma match_at_True:
  "match_at src want i = Inr True \<Longrightarrow> want \<noteq> [] \<Longrightarrow> i + length want \<le> length src"
proof (induction want arbitrary: i)
  case (Cons w ws)
  then have "i < length src" "match_at src ws (i + 1) = Inr True" by (auto split: if_splits)
  then show ?case using Cons.IH[of "i + 1"] by (cases "ws = []") auto
qed simp

lemma block_split:
  "i + length want \<le> length src \<Longrightarrow> take (length want) (drop i src) = want \<Longrightarrow>
   src = take i src @ want @ drop (i + length want) src"
  by (metis append_take_drop_id drop_drop add.commute)

lemma tryAt_sound:
  assumes "tryAt src want i = Inr True" "want \<noteq> []"
  shows "src = take (nat i) src @ want @ drop (nat i + length want) src \<and> nat i + length want \<le> length src"
proof -
  have m: "match_at src want (nat i) = Inr True" using assms(1) by (simp add: tryAt_def split: if_splits)
  from match_at_True[OF this assms(2)] have l: "nat i + length want \<le> length src" .
  with m have "take (length want) (drop (nat i) src) = want" by (simp add: match_at_eq)
  with l show ?thesis using block_split by blast
qed

lemma scan_sound:
  "scan src want i = Inr k \<Longrightarrow> want \<noteq> [] \<Longrightarrow>
   src = take k src @ want @ drop (k + length want) src \<and> k + length want \<le> length src"
proof (induction src want i rule: scan.induct)
  case (1 src want i)
  show ?case
  proof (cases "tryAt src want (int i)")
    case (Inl e)
    with 1 show ?thesis by (simp add: scan.simps[of src want i] split: if_splits)
  next
    case (Inr found)
    with 1 tryAt_sound[of src want "int i"] show ?thesis
      by (cases found) (simp_all add: scan.simps[of src want i] split: if_splits)
  qed
qed

lemma findBlock_sound:
  assumes "findBlock src want cursor hint = Inr k" "cursor \<le> length src"
  shows "src = take k src @ want @ drop (k + length want) src \<and> k + length want \<le> length src"
proof (cases "want = []")
  case True
  with assms show ?thesis by (auto simp: findBlock_def split: if_splits)
next
  case False
  with assms scan_sound[of src want cursor k] tryAt_sound[of src want hint] show ?thesis
    by (auto simp: findBlock_def split: sum.splits if_splits)
qed

text \<open>Patching, specified: each hunk replaces one occurrence of its old lines by its new ones.\<close>

inductive patches :: "string list \<Rightarrow> hunk list \<Rightarrow> string list \<Rightarrow> bool" where
  patches_Nil: "patches ls [] ls"
| patches_Cons: "patches (a @ newBlock (h_ops h) @ b) hs out \<Longrightarrow> patches (a @ oldBlock (h_ops h) @ b) (h # hs) out"

lemma applyHunks_sound:
  "applyHunks ls cursor hs = Inr out \<Longrightarrow> cursor \<le> length ls \<Longrightarrow> patches ls hs out"
proof (induction ls cursor hs rule: applyHunks.induct)
  case (1 ls cursor)
  then show ?case by (simp add: patches_Nil)
next
  case (2 ls cursor h hs)
  obtain k where k: "findBlock ls (oldBlock (h_ops h)) cursor (wrap64 (h_oldStart h - 1)) = Inr k"
    using 2(2) by (simp split: sum.splits)
  note fb = findBlock_sound[OF k 2(3)]
  have "patches (take k ls @ newBlock (h_ops h) @ drop (k + length (oldBlock (h_ops h))) ls) hs out"
    using 2(1)[OF k] 2(2) conjunct2[OF fb] by (simp add: k)
  from patches_Cons[OF this] fb show ?case by simp
qed

text \<open>
  C13. A successful application changes only what the hunks name: the diff has at least one hunk, and
  the result is the source in which, hunk after hunk, one occurrence of the hunk's context and
  removed lines is replaced by its context and added lines, everything else kept.
\<close>

theorem apply_diff_sound:
  assumes "applyUnifiedDiff src diff = Inr out"
  shows "\<exists>hs ls. parseDiff [] (lines_of diff) = Inr hs \<and> hs \<noteq> [] \<and> patches (lines_of src) hs ls \<and> out = unlines ls"
  using assms applyHunks_sound[of "lines_of src" 0]
  by (auto simp: applyUnifiedDiff_def split: sum.splits if_splits)


definition op_line :: "char \<times> string \<Rightarrow> string" where
  "op_line x = fst x # snd x"

text \<open>
  A line of a hunk the parser reads back as written: it is marked as context, removal or addition and
  does not look like a file header.
\<close>

definition readable_op :: "char \<times> string \<Rightarrow> bool" where
  "readable_op x \<longleftrightarrow> fst x \<in> {CHR '' '', CHR ''-'', CHR ''+''} \<and>
     \<not> prefix ''--- '' (op_line x) \<and> \<not> prefix ''+++ '' (op_line x)"

lemma parseDiff_ops:
  assumes "list_all readable_op ops" "hunks \<noteq> []"
  shows "parseDiff hunks (map op_line ops) =
    Inr (butlast hunks @ [(last hunks)\<lparr>h_ops := h_ops (last hunks) @ ops\<rparr>])"
  using assms
proof (induction ops arbitrary: hunks)
  case (Cons x ops)
  then have "fst x \<in> {CHR '' '', CHR ''-'', CHR ''+''}" "\<not> prefix ''--- '' (op_line x)" "\<not> prefix ''+++ '' (op_line x)"
    by (auto simp: readable_op_def)
  moreover from this(1) have "\<not> prefix ''@@'' (op_line x)" by (auto simp: op_line_def)
  moreover have "op_line x \<noteq> []" "hd (op_line x) = fst x" "tl (op_line x) = snd x" by (simp_all add: op_line_def)
  ultimately have "parseDiff hunks (map op_line (x # ops)) = parseDiff (add_op (fst x) (snd x) hunks) (map op_line ops)"
    using Cons.prems(2) by (simp del: insert_iff)
  also have "\<dots> = Inr (butlast hunks @ [(last hunks)\<lparr>h_ops := h_ops (last hunks) @ x # ops\<rparr>])"
    using Cons.IH[of "add_op (fst x) (snd x) hunks"] Cons.prems by (simp add: add_op_def)
  finally show ?case .
qed simp

lemma findBlock_at:
  assumes "int (length (a @ want @ b)) < 2 ^ 62"
  shows "findBlock (a @ want @ b) want cursor (int (length a)) = Inr (length a)"
proof (cases "want = []")
  case False
  have "in_i64 (int (length a) + int (length want))" using assms by (simp add: in_i64_def)
  with False show ?thesis by (simp add: findBlock_def tryAt_def match_at_eq)
qed (simp add: findBlock_def)

text \<open>
  C14. A hunk written for its position applies there: for a source split into lines before, in and
  after a hunk, a header whose start is the hunk's first line, and operations printed one per line,
  applying the diff to the source yields the source with the hunk's old lines replaced by its new
  lines.
\<close>

theorem apply_diff_roundtrip:
  assumes hdr: "prefix ''@@'' hdr" "clean_line hdr" "parseHunkHeader hdr = Inr h" "h_oldStart h = int (length a) + 1"
    and ops: "list_all readable_op ops" "list_all (\<lambda>x. clean_line (snd x)) ops"
    and src: "src = a @ oldBlock ops @ b" "list_all clean_line src" "src \<noteq> []" "int (length src) < 2 ^ 62"
  shows "applyUnifiedDiff (unlines src) (unlines (hdr # map op_line ops)) = Inr (unlines (a @ newBlock ops @ b))"
proof -
  have noops: "h_ops h = []"
    using hdr(3) by (auto simp: parseHunkHeader_def Let_def split: if_splits prod.splits sum.splits)
  have "list_all clean_line (map op_line ops)"
    using ops by (auto simp: list_all_iff clean_line_def op_line_def readable_op_def)
  then have dl: "lines_of (unlines (hdr # map op_line ops)) = hdr # map op_line ops"
    using hdr(2) by (intro lines_unlines) auto
  have "\<not> prefix ''--- '' hdr" "\<not> prefix ''+++ '' hdr" using hdr(1) by (auto simp: prefix_def)
  then have "parseDiff [] (hdr # map op_line ops) = Inr [h\<lparr>h_ops := ops\<rparr>]"
    using hdr(1,3) parseDiff_ops[OF ops(1), of "[h]"] noops by simp
  moreover have "wrap64 (int (length a)) = int (length a)"
    using src(1,4) by (intro wrap64_id) (simp add: in_i64_def)
  ultimately show ?thesis
    using findBlock_at[of a "oldBlock ops" b 0] src
    by (simp add: applyUnifiedDiff_def dl lines_unlines hdr(4))
qed

text \<open>Evaluating hunk headers.\<close>

lemmas parse_eval = parseHunkHeader_def splitN3_def splitNum_def trim_prefix_def
  parse_int_def parse_uint_def split_sign_def is_digit_def digit_val_def

lemma trimmed_headers:
  "trim_space '' -2,1 +2,1 @@'' = ''-2,1 +2,1 @@''"
  "trim_space '' -1 +1 @@'' = ''-1 +1 @@''"
  "trim_space '' -1,1 +1,3 @@'' = ''-1,1 +1,3 @@''"
  "trim_space '' -4,1 +6,0 @@'' = ''-4,1 +6,0 @@''"
  "trim_space '' -1,1 +1,1 @@'' = ''-1,1 +1,1 @@''"
  "trim_space '' -9223372036854775807 +1 @@'' = ''-9223372036854775807 +1 @@''"
  by code_simp+

lemma read_headers:
  "parseHunkHeader ''@@ -2,1 +2,1 @@'' = Inr \<lparr>h_oldStart = 2, h_oldLen = 1, h_ops = []\<rparr>"
  "parseHunkHeader ''@@ -1 +1 @@'' = Inr \<lparr>h_oldStart = 1, h_oldLen = 1, h_ops = []\<rparr>"
  "parseHunkHeader ''@@ -1,1 +1,3 @@'' = Inr \<lparr>h_oldStart = 1, h_oldLen = 1, h_ops = []\<rparr>"
  "parseHunkHeader ''@@ -4,1 +6,0 @@'' = Inr \<lparr>h_oldStart = 4, h_oldLen = 1, h_ops = []\<rparr>"
  "parseHunkHeader ''@@ -1,1 +1,1 @@'' = Inr \<lparr>h_oldStart = 1, h_oldLen = 1, h_ops = []\<rparr>"
  "parseHunkHeader ''@@ -9223372036854775807 +1 @@'' = Inr \<lparr>h_oldStart = 9223372036854775807, h_oldLen = 1, h_ops = []\<rparr>"
  by (simp_all add: parse_eval trimmed_headers)

lemmas diff_eval = applyUnifiedDiff_def lines_unlines clean_line_def read_headers add_op_def oldBlock_def
  newBlock_def findBlock_def tryAt_def scan.simps in_i64_def

theorem apply_diff_roundtrip_witness:
  "applyUnifiedDiff (unlines [''a: 1'', ''b: 2'', ''c: 3''])
     (unlines [''@@ -2,1 +2,1 @@'', ''-b: 2'', ''+b: 4'']) = Inr (unlines [''a: 1'', ''b: 4'', ''c: 3''])"
  using apply_diff_roundtrip[OF _ _ read_headers(1), of "[''a: 1'']" "[(CHR ''-'', ''b: 2''), (CHR ''+'', ''b: 4'')]" _ "[''c: 3'']"]
  by (simp add: clean_line_def readable_op_def op_line_def oldBlock_def newBlock_def)

theorem apply_diff_sound_witness:
  "\<exists>hs ls. parseDiff [] (lines_of (unlines [''@@ -1 +1 @@'', ''-a'', ''+b''])) = Inr hs \<and> hs \<noteq> [] \<and>
     patches (lines_of (unlines [''a''])) hs ls \<and> unlines [''b''] = unlines ls"
proof -
  have "applyUnifiedDiff (unlines [''a'']) (unlines [''@@ -1 +1 @@'', ''-a'', ''+b'']) = Inr (unlines [''b''])"
    by (simp add: diff_eval)
  then show ?thesis by (rule apply_diff_sound)
qed

text \<open>
  The position in a later hunk counts lines of the original source, while it is tried on the source
  as patched so far. After a first hunk that adds two lines, a second hunk for the line \<open>x\<close> of the
  original's line 4 removes the \<open>x\<close> of line 2.
\<close>

lemma second_hunk_misplaced:
  "applyUnifiedDiff (unlines [''a'', ''x'', ''b'', ''x''])
     (unlines [''@@ -1,1 +1,3 @@'', ''+n'', ''+n'', '' a'', ''@@ -4,1 +6,0 @@'', ''-x'']) =
   Inr (unlines [''n'', ''n'', ''a'', ''b'', ''x''])"
  by (simp add: diff_eval)

text \<open>A diff that ends with a line feed carries an empty context line, which the source must have.\<close>

lemma trailing_newline_rejected:
  "applyUnifiedDiff (unlines [''a'', ''b'']) (unlines [''@@ -1,1 +1,1 @@'', ''-a'', ''+c'']) = Inr (unlines [''c'', ''b''])"
  "applyUnifiedDiff (unlines [''a'', ''b'']) (unlines [''@@ -1,1 +1,1 @@'', ''-a'', ''+c'', []]) = Inl ContextMiss"
  by (simp_all add: diff_eval)

text \<open>A start close to the largest \<open>int\<close> wraps the bounds test and the comparison panics.\<close>

lemma huge_start_panics:
  "applyUnifiedDiff (unlines [''a'', ''b'']) (unlines [''@@ -9223372036854775807 +1 @@'', '' a'', '' b'']) =
   Inl IndexOutOfRange"
  by (simp add: diff_eval wrap64_def)

end
