(* ===== verification/Gate_Stages.thy ===== *)
theory Gate_Stages
  imports Gate Quantity "HOL-Library.AList"
begin

text \<open>
  The later stages of the gate: \<^verbatim>\<open>conform.go\<close> (required keys and the shape of manifests),
  \<^verbatim>\<open>dryrun.go\<close> (the verdict of the in-cluster agent) and \<^verbatim>\<open>post.go\<close> (labels kept, no resource cut
  below a floor).

  A decoded document is the tree of the values \<^verbatim>\<open>yaml.v3\<close> gives for \<^verbatim>\<open>any\<close>; a mapping is the list
  of its entries in the order the iteration visits them, which Go leaves open, so the properties
  speak of the set of entries. The decoder and the agent are parameters.
\<close>

datatype yaml =
    YMap "(string \<times> yaml) list"
  | YList "yaml list"
  | YStr string
  | YInt i64
  | YFloat f64
  | YOther

type_synonym decoder = "string \<Rightarrow> string + (string \<times> yaml) list"

section \<open>Conformance (\<^verbatim>\<open>conform.go\<close>)\<close>

fun hasKey :: "yaml \<Rightarrow> string \<Rightarrow> bool"
  and hasKey_map :: "(string \<times> yaml) list \<Rightarrow> string \<Rightarrow> bool"
  and hasKey_list :: "yaml list \<Rightarrow> string \<Rightarrow> bool" where
  "hasKey (YMap m) key = (if map_of m key \<noteq> None then True else hasKey_map m key)"
| "hasKey (YList l) key = hasKey_list l key"
| "hasKey (YStr _) key = False"
| "hasKey (YInt _) key = False"
| "hasKey (YFloat _) key = False"
| "hasKey YOther key = False"
| "hasKey_map [] key = False"
| "hasKey_map ((k, v) # m) key = (if hasKey v key then True else hasKey_map m key)"
| "hasKey_list [] key = False"
| "hasKey_list (v # l) key = (if hasKey v key then True else hasKey_list l key)"

text \<open>The type assertion \<open>.(string)\<close> with its result dropped: anything else gives the empty string.\<close>

definition as_string :: "yaml option \<Rightarrow> string" where
  "as_string v = (case v of Some (YStr s) \<Rightarrow> s | _ \<Rightarrow> [])"

definition shape_error :: "(string \<times> yaml) list \<Rightarrow> string option" where
  "shape_error m =
     (let hasAPI = map_of m ''apiVersion'' \<noteq> None; hasKind = map_of m ''kind'' \<noteq> None
      in if hasAPI \<or> hasKind
         then let api = as_string (map_of m ''apiVersion''); kind = as_string (map_of m ''kind'')
              in if hasAPI \<and> api = [] then Some ''gate/conform: apiVersion is empty''
                 else if hasKind \<and> kind = [] then Some ''gate/conform: kind is empty''
                 else None
         else None)"

fun checkAPIVersionKindShape :: "yaml \<Rightarrow> string option"
  and shape_map :: "(string \<times> yaml) list \<Rightarrow> string option"
  and shape_list :: "yaml list \<Rightarrow> string option" where
  "checkAPIVersionKindShape (YMap m) = (case shape_error m of Some e \<Rightarrow> Some e | None \<Rightarrow> shape_map m)"
| "checkAPIVersionKindShape (YList l) = shape_list l"
| "checkAPIVersionKindShape (YStr _) = None"
| "checkAPIVersionKindShape (YInt _) = None"
| "checkAPIVersionKindShape (YFloat _) = None"
| "checkAPIVersionKindShape YOther = None"
| "shape_map [] = None"
| "shape_map ((k, v) # m) = (case checkAPIVersionKindShape v of Some e \<Rightarrow> Some e | None \<Rightarrow> shape_map m)"
| "shape_list [] = None"
| "shape_list (v # l) = (case checkAPIVersionKindShape v of Some e \<Rightarrow> Some e | None \<Rightarrow> shape_list l)"

definition ConformValidator_Validate :: "decoder \<Rightarrow> string list \<Rightarrow> GateCandidate \<Rightarrow> StageResult option" where
  "ConformValidator_Validate decode requiredKeys c =
     (if trim_space (gc_ChartYAML c) = [] \<or> trim_space (gc_UnifiedDiff c) = []
      then Some (failed StageConform ''empty input'' ''gate/conform: empty chart or diff'')
      else case applyUnifiedDiff (gc_ChartYAML c) (gc_UnifiedDiff c) of
             Inl e \<Rightarrow> map_option (failed StageConform ''diff did not apply'') (diff_failure_text e)
           | Inr patched \<Rightarrow>
               (case decode patched of
                  Inl e \<Rightarrow> Some (failed StageConform ''post-diff yaml invalid'' e)
                | Inr doc \<Rightarrow>
                    (case find (\<lambda>key. \<not> hasKey (YMap doc) key) requiredKeys of
                       Some key \<Rightarrow>
                         Some (failed StageConform (''required key removed: '' @ key)
                                 ''gate/conform: required key dropped'')
                     | None \<Rightarrow>
                         (case checkAPIVersionKindShape (YMap doc) of
                            Some e \<Rightarrow> Some (failed StageConform ''manifest shape rejected'' e)
                          | None \<Rightarrow> Some (passed StageConform)))))"

definition ConformValidator :: "decoder \<Rightarrow> string list \<Rightarrow> GateValidator" where
  "ConformValidator decode requiredKeys =
     \<lparr>gv_Stage = StageConform, gv_Validate = ConformValidator_Validate decode requiredKeys\<rparr>"

section \<open>Dry run (\<^verbatim>\<open>dryrun.go\<close>)\<close>

record DryRunResponse =
  dr_Accepted :: bool
  dr_Detail :: string

text \<open>The client is absent or a function to an error or a response; \<open>DryRunRequest\<close> has the candidate's fields.\<close>

type_synonym AgentClient = "GateCandidate \<Rightarrow> string + DryRunResponse"

definition DryrunValidator_Validate :: "AgentClient option \<Rightarrow> GateCandidate \<Rightarrow> StageResult option" where
  "DryrunValidator_Validate client c =
     (case client of
        None \<Rightarrow> Some \<lparr>sr_Stage = StageDryrun, sr_Status = StatusNotImplemented,
                     sr_Detail = ''no agent client configured'', sr_Err = Some ErrNotImplemented\<rparr>
      | Some dry \<Rightarrow>
          (case dry c of
             Inl e \<Rightarrow> Some (failed StageDryrun ''agent dry-run errored'' e)
           | Inr out \<Rightarrow>
               if \<not> dr_Accepted out
               then Some (failed StageDryrun (''agent rejected dry-run: '' @ dr_Detail out) ''gate/dryrun: agent rejected'')
               else Some (passed StageDryrun)))"

definition DryrunValidator :: "AgentClient option \<Rightarrow> GateValidator" where
  "DryrunValidator client = \<lparr>gv_Stage = StageDryrun, gv_Validate = DryrunValidator_Validate client\<rparr>"

section \<open>Labels and resources (\<^verbatim>\<open>post.go\<close>)\<close>

definition label_keys :: "(string \<times> yaml) list \<Rightarrow> string list" where
  "label_keys m = (case map_of m ''labels'' of Some (YMap labels) \<Rightarrow> map fst labels | _ \<Rightarrow> [])"

fun walkLabels :: "yaml \<Rightarrow> string list \<Rightarrow> string list"
  and walkLabels_map :: "(string \<times> yaml) list \<Rightarrow> string list \<Rightarrow> string list"
  and walkLabels_list :: "yaml list \<Rightarrow> string list \<Rightarrow> string list" where
  "walkLabels (YMap m) out = walkLabels_map m (out @ label_keys m)"
| "walkLabels (YList l) out = walkLabels_list l out"
| "walkLabels (YStr _) out = out"
| "walkLabels (YInt _) out = out"
| "walkLabels (YFloat _) out = out"
| "walkLabels YOther out = out"
| "walkLabels_map [] out = out"
| "walkLabels_map ((k, v) # m) out = walkLabels_map m (walkLabels v out)"
| "walkLabels_list [] out = out"
| "walkLabels_list (v # l) out = walkLabels_list l (walkLabels v out)"

definition checkLabelsPreserved ::
  "(string \<times> yaml) list \<Rightarrow> (string \<times> yaml) list \<Rightarrow> string option" where
  "checkLabelsPreserved before after =
     (let beforeLabels = walkLabels (YMap before) []; afterLabels = walkLabels (YMap after) []; seen = set afterLabels
      in map_option (\<lambda>k. ''gate/post: label removed by diff: '' @ k) (find (\<lambda>k. k \<notin> seen) beforeLabels))"

text \<open>
  \<open>parseFloat\<close> reads digits and points and stops at anything else; bytes of other runes stop it as
  the rune does. The multiplication and addition are rounded one after the other.
\<close>

fun parseFloat_loop :: "f64 \<Rightarrow> f64 \<Rightarrow> bool \<Rightarrow> string \<Rightarrow> f64" where
  "parseFloat_loop out fr inFrac [] = out"
| "parseFloat_loop out fr inFrac (r # rs) =
     (if r = CHR ''.'' then parseFloat_loop out fr True rs
      else if is_digit r
      then let d = f64_of_int (digit_val r)
           in if inFrac
              then let fr = f64_mul fr (Fin 10) in parseFloat_loop (f64_add out (f64_div d fr)) fr inFrac rs
              else parseFloat_loop (f64_add (f64_mul out (Fin 10)) d) fr inFrac rs
      else out)"

definition parseFloat :: "string \<Rightarrow> f64" where
  "parseFloat s = parseFloat_loop (Fin 0) (Fin 1) False s"

definition quantity_units :: "(string \<times> f64) list" where
  "quantity_units =
     [(''Ei'', Fin (2 ^ 60)), (''Pi'', Fin (2 ^ 50)), (''Ti'', Fin (2 ^ 40)), (''Gi'', Fin (2 ^ 30)),
      (''Mi'', Fin (2 ^ 20)), (''Ki'', Fin (2 ^ 10)),
      (''E'', Fin (10 ^ 18)), (''P'', Fin (10 ^ 15)), (''T'', Fin (10 ^ 12)), (''G'', Fin (10 ^ 9)),
      (''M'', Fin (10 ^ 6)), (''K'', Fin (10 ^ 3)), (''m'', to_f64 (1 / 1000))]"

definition parseQuantity :: "yaml \<Rightarrow> f64" where
  "parseQuantity v =
     (case v of
        YStr s0 \<Rightarrow>
          let s = trim_space s0
          in if s = [] then Fin 0
             else (case find (\<lambda>(suf, m). has_suffix s suf) quantity_units of
                     Some (suf, m) \<Rightarrow> f64_mul (parseFloat (trim_suffix s suf)) m
                   | None \<Rightarrow> parseFloat s)
      | YInt i \<Rightarrow> f64_of_int i
      | YFloat f \<Rightarrow> f
      | _ \<Rightarrow> Fin 0)"

text \<open>The buffer of \<open>itoa\<close> has 16 digits, more than the index of any slice in memory needs.\<close>

fun itoa_loop :: "nat \<Rightarrow> string \<Rightarrow> string" where
  "itoa_loop i buf = (if 0 < i then itoa_loop (i div 10) (digit_char (i mod 10) # buf) else buf)"

declare itoa_loop.simps [simp del]

definition itoa :: "nat \<Rightarrow> string" where
  "itoa i = (if i = 0 then ''0'' else itoa_loop i [])"

type_synonym resources = "(string \<times> f64) list"

definition put_quantity :: "string \<Rightarrow> string \<times> yaml \<Rightarrow> resources \<Rightarrow> resources" where
  "put_quantity pre kv out =
     (let q = parseQuantity (snd kv) in if f64_lt (Fin 0) q then AList.update (pre @ fst kv) q out else out)"

definition put_kind :: "string \<Rightarrow> string \<times> yaml \<Rightarrow> resources \<Rightarrow> resources" where
  "put_kind path ks out =
     (case snd ks of YMap m \<Rightarrow> fold (put_quantity (path @ ''.resources.'' @ fst ks @ ''.'')) m out | _ \<Rightarrow> out)"

definition put_resources :: "string \<Rightarrow> (string \<times> yaml) list \<Rightarrow> resources \<Rightarrow> resources" where
  "put_resources path n out =
     (case map_of n ''resources'' of Some (YMap res) \<Rightarrow> fold (put_kind path) res out | _ \<Rightarrow> out)"

fun collectResWalk :: "yaml \<Rightarrow> string \<Rightarrow> resources \<Rightarrow> resources"
  and collectRes_map :: "(string \<times> yaml) list \<Rightarrow> string \<Rightarrow> resources \<Rightarrow> resources"
  and collectRes_list :: "nat \<Rightarrow> yaml list \<Rightarrow> string \<Rightarrow> resources \<Rightarrow> resources" where
  "collectResWalk (YMap m) path out = collectRes_map m path (put_resources path m out)"
| "collectResWalk (YList l) path out = collectRes_list 0 l path out"
| "collectResWalk (YStr _) path out = out"
| "collectResWalk (YInt _) path out = out"
| "collectResWalk (YFloat _) path out = out"
| "collectResWalk YOther path out = out"
| "collectRes_map [] path out = out"
| "collectRes_map ((k, v) # m) path out =
     (if k = ''resources'' then collectRes_map m path out
      else collectRes_map m path (collectResWalk v (path @ ''.'' @ k) out))"
| "collectRes_list i [] path out = out"
| "collectRes_list i (v # l) path out =
     collectRes_list (i + 1) l path (collectResWalk v (path @ ''['' @ itoa i @ '']'') out)"

definition collectResources :: "(string \<times> yaml) list \<Rightarrow> resources" where
  "collectResources m = collectResWalk (YMap m) [] []"

fun boundsLoop :: "resources \<Rightarrow> f64 \<Rightarrow> resources \<Rightarrow> string option" where
  "boundsLoop afterRes ratioCap [] = None"
| "boundsLoop afterRes ratioCap ((path, b) # rest) =
     (case map_of afterRes path of
        None \<Rightarrow> Some (''gate/post: resource removed: '' @ path)
      | Some a \<Rightarrow>
          if f64_lt (Fin 0) b \<and> f64_lt a (f64_mul b (f64_sub (Fin 1) ratioCap))
          then Some (''gate/post: '' @ path @ '' cut beyond safety floor'')
          else boundsLoop afterRes ratioCap rest)"

definition checkResourceBounds ::
  "(string \<times> yaml) list \<Rightarrow> (string \<times> yaml) list \<Rightarrow> f64 \<Rightarrow> string option" where
  "checkResourceBounds before after ratioCap =
     boundsLoop (collectResources after) ratioCap (collectResources before)"

definition PostValidator_Validate :: "decoder \<Rightarrow> f64 \<Rightarrow> GateCandidate \<Rightarrow> StageResult option" where
  "PostValidator_Validate decodeYAML maxRatio c =
     (if trim_space (gc_ChartYAML c) = [] \<or> trim_space (gc_UnifiedDiff c) = []
      then Some (failed StagePost ''empty input'' ''gate/post: empty chart or diff'')
      else case decodeYAML (gc_ChartYAML c) of
             Inl e \<Rightarrow> Some (failed StagePost ''pre-diff yaml invalid'' e)
           | Inr before \<Rightarrow>
               (case applyUnifiedDiff (gc_ChartYAML c) (gc_UnifiedDiff c) of
                  Inl e \<Rightarrow> map_option (failed StagePost ''diff did not apply'') (diff_failure_text e)
                | Inr patched \<Rightarrow>
                    (case decodeYAML patched of
                       Inl e \<Rightarrow> Some (failed StagePost ''post-diff yaml invalid'' e)
                     | Inr after \<Rightarrow>
                         (case checkLabelsPreserved before after of
                            Some e \<Rightarrow> Some (failed StagePost ''labels removed'' e)
                          | None \<Rightarrow>
                              let ratioCap = (if f64_le maxRatio (Fin 0) then Fin (1 / 2) else maxRatio)
                              in (case checkResourceBounds before after ratioCap of
                                    Some e \<Rightarrow> Some (failed StagePost ''resource cut exceeds safety floor'' e)
                                  | None \<Rightarrow> Some (passed StagePost))))))"

definition PostValidator :: "decoder \<Rightarrow> f64 \<Rightarrow> GateValidator" where
  "PostValidator decodeYAML maxRatio =
     \<lparr>gv_Stage = StagePost, gv_Validate = PostValidator_Validate decodeYAML maxRatio\<rparr>"


section \<open>What the walks see\<close>

text \<open>The mappings of a document, at any depth.\<close>

inductive inside :: "(string \<times> yaml) list \<Rightarrow> yaml \<Rightarrow> bool" where
  inside_here: "inside m (YMap m)"
| inside_map: "(k, v) \<in> set m \<Longrightarrow> inside x v \<Longrightarrow> inside x (YMap m)"
| inside_list: "v \<in> set l \<Longrightarrow> inside x v \<Longrightarrow> inside x (YList l)"

inductive_simps inside_simps:
  "inside x (YMap m)" "inside x (YList l)" "inside x (YStr s)" "inside x (YInt i)" "inside x (YFloat f)" "inside x YOther"

lemma hasKey_iff:
  "hasKey n key \<longleftrightarrow> (\<exists>m. inside m n \<and> key \<in> fst ` set m)"
  "hasKey_map es key \<longleftrightarrow> (\<exists>(k, v) \<in> set es. \<exists>m. inside m v \<and> key \<in> fst ` set m)"
  "hasKey_list l key \<longleftrightarrow> (\<exists>v \<in> set l. \<exists>m. inside m v \<and> key \<in> fst ` set m)"
proof (induction n key and es key and l key rule: hasKey_hasKey_map_hasKey_list.induct)
  case (1 m key)
  then show ?case by (auto simp: inside_simps map_of_eq_None_iff)
qed (auto simp: inside_simps)

definition shaped :: "(string \<times> yaml) list \<Rightarrow> bool" where
  "shaped m \<longleftrightarrow>
     (\<forall>field \<in> {''apiVersion'', ''kind''}. \<forall>v. map_of m field = Some v \<longrightarrow> (\<exists>s. v = YStr s \<and> s \<noteq> []))"

lemma shape_error_None: "shape_error m = None \<longleftrightarrow> shaped m"
proof -
  have "as_string (Some v) = [] \<longleftrightarrow> \<not> (\<exists>s. v = YStr s \<and> s \<noteq> [])" for v
    by (cases v) (auto simp: as_string_def)
  then show ?thesis by (auto simp: shape_error_def shaped_def Let_def)
qed

lemma shape_iff:
  "checkAPIVersionKindShape n = None \<longleftrightarrow> (\<forall>m. inside m n \<longrightarrow> shaped m)"
  "shape_map es = None \<longleftrightarrow> (\<forall>(k, v) \<in> set es. \<forall>m. inside m v \<longrightarrow> shaped m)"
  "shape_list l = None \<longleftrightarrow> (\<forall>v \<in> set l. \<forall>m. inside m v \<longrightarrow> shaped m)"
proof (induction n and es and l rule: checkAPIVersionKindShape_shape_map_shape_list.induct)
  case (1 m)
  then show ?case
    by (cases "shape_error m") (auto simp: inside_simps simp flip: shape_error_None)
qed (auto simp: inside_simps split: option.splits)

lemma walkLabels_set:
  "set (walkLabels n out) = set out \<union> (\<Union>m \<in> {m. inside m n}. set (label_keys m))"
  "set (walkLabels_map es out) = set out \<union> (\<Union>(k, v) \<in> set es. \<Union>m \<in> {m. inside m v}. set (label_keys m))"
  "set (walkLabels_list l out) = set out \<union> (\<Union>v \<in> set l. \<Union>m \<in> {m. inside m v}. set (label_keys m))"
proof (induction n out and es out and l out rule: walkLabels_walkLabels_map_walkLabels_list.induct)
  case (1 m out)
  then show ?case by (auto simp: inside_simps)
qed (auto simp: inside_simps)

lemma find_None_all: "find P xs = None \<longleftrightarrow> (\<forall>x \<in> set xs. \<not> P x)"
  by (auto simp: find_None_iff)

lemma find_hit: "find P xs = Some x \<Longrightarrow> x \<in> set xs \<and> P x"
  by (auto simp: find_Some_iff)

text \<open>
  The conformance stage passes exactly when the inputs are not blank, the diff applies, the result
  decodes to a document in which every required key occurs at some depth, and every mapping of the
  document that has an \<open>apiVersion\<close> or a \<open>kind\<close> has a non-empty string there.
\<close>

lemma conform_exact:
  "(\<exists>r. ConformValidator_Validate decode keys c = Some r \<and> sr_Status r = StatusPassed) \<longleftrightarrow>
   trim_space (gc_ChartYAML c) \<noteq> [] \<and> trim_space (gc_UnifiedDiff c) \<noteq> [] \<and>
   (\<exists>patched doc. applyUnifiedDiff (gc_ChartYAML c) (gc_UnifiedDiff c) = Inr patched \<and> decode patched = Inr doc \<and>
      set keys \<subseteq> {key. \<exists>m. inside m (YMap doc) \<and> key \<in> fst ` set m} \<and>
      {m. inside m (YMap doc)} \<subseteq> {m. shaped m})"
  by (auto simp: ConformValidator_Validate_def find_None_all hasKey_iff(1)[symmetric] subset_iff
      shape_iff(1)[symmetric] passed_def failed_def dest!: find_hit
      simp del: hasKey.simps checkAPIVersionKindShape.simps split: sum.split option.split)

section \<open>Quantities and floors\<close>

lemma itoa_loop_show: "0 < i \<Longrightarrow> itoa_loop i buf = show_nat i @ buf"
proof (induction i buf rule: itoa_loop.induct)
  case (1 i buf)
  then show ?case
    by (cases "i < 10") (simp_all add: itoa_loop.simps[of i] itoa_loop.simps[of 0] show_nat.simps[of i])
qed

lemma itoa_show: "itoa i = show_nat i"
  by (simp add: itoa_def itoa_loop_show show_nat_0)

definition positive :: "resources \<Rightarrow> bool" where
  "positive out \<longleftrightarrow> distinct (map fst out) \<and> (\<forall>q \<in> snd ` set out. f64_lt (Fin 0) q)"

lemma set_update_subset: "set (AList.update k q out) \<subseteq> insert (k, q) (set out)"
  by (induction out) auto

lemma positive_update: "positive out \<Longrightarrow> f64_lt (Fin 0) q \<Longrightarrow> positive (AList.update k q out)"
  unfolding positive_def using set_update_subset[of k q out] by (auto simp: AList.distinct_update)

lemma positive_put_quantity: "positive out \<Longrightarrow> positive (put_quantity pre kv out)"
  by (simp add: put_quantity_def Let_def positive_update)

lemma positive_fold: "(\<And>x acc. positive acc \<Longrightarrow> positive (f x acc)) \<Longrightarrow> positive out \<Longrightarrow> positive (fold f xs out)"
  by (induction xs arbitrary: out) auto

lemma positive_put_resources: "positive out \<Longrightarrow> positive (put_resources path n out)"
  unfolding put_resources_def put_kind_def
  by (auto split: option.split yaml.split intro!: positive_fold positive_put_quantity)

lemma positive_walk:
  "positive out \<Longrightarrow> positive (collectResWalk n path out)"
  "positive out \<Longrightarrow> positive (collectRes_map es path out)"
  "positive out \<Longrightarrow> positive (collectRes_list i l path out)"
  by (induction n path out and es path out and i l path out rule: collectResWalk_collectRes_map_collectRes_list.induct)
    (auto simp: positive_put_resources)

lemma positive_collectResources: "positive (collectResources m)"
  unfolding collectResources_def by (rule positive_walk) (simp add: positive_def)

lemma boundsLoop_None:
  "boundsLoop after cap rs = None \<longleftrightarrow>
   (\<forall>(path, b) \<in> set rs. \<exists>a. map_of after path = Some a \<and>
      \<not> (f64_lt (Fin 0) b \<and> f64_lt a (f64_mul b (f64_sub (Fin 1) cap))))"
proof (induction rs)
  case (Cons r rs)
  obtain path b where "r = (path, b)" by (cases r)
  with Cons show ?case by (cases "map_of after path") simp_all
qed simp

definition within_floor :: "f64 \<Rightarrow> f64 \<Rightarrow> f64 \<Rightarrow> bool" where
  "within_floor cap b a \<longleftrightarrow> \<not> f64_lt a (f64_mul b (f64_sub (Fin 1) cap))"

lemma checkResourceBounds_None:
  "checkResourceBounds before after cap = None \<longleftrightarrow>
   {(path, b). map_of (collectResources before) path = Some b} \<subseteq>
   {(path, b). \<exists>a. map_of (collectResources after) path = Some a \<and> within_floor cap b a}"
  using positive_collectResources[of before]
  by (fastforce simp: checkResourceBounds_def boundsLoop_None positive_def within_floor_def)

definition labels_of :: "(string \<times> yaml) list \<Rightarrow> string set" where
  "labels_of doc = (\<Union>m \<in> {m. inside m (YMap doc)}. set (label_keys m))"

lemma checkLabelsPreserved_None:
  "checkLabelsPreserved before after = None \<longleftrightarrow> labels_of before \<subseteq> labels_of after"
  unfolding checkLabelsPreserved_def Let_def option.map_disc_iff find_None_all labels_of_def walkLabels_set(1)
  by auto

text \<open>
  The last stage passes exactly when the inputs are not blank, the chart decodes before and after
  the diff, every label key used before is used somewhere after, and every positive resource quantity
  found before has one at the same path after that is not below the floor: the quantity times one
  less the allowed cut, where an allowed cut of zero or less stands for one half.
\<close>

lemma post_exact:
  "(\<exists>r. PostValidator_Validate decode maxRatio c = Some r \<and> sr_Status r = StatusPassed) \<longleftrightarrow>
   trim_space (gc_ChartYAML c) \<noteq> [] \<and> trim_space (gc_UnifiedDiff c) \<noteq> [] \<and>
   (\<exists>before patched after. decode (gc_ChartYAML c) = Inr before \<and>
      applyUnifiedDiff (gc_ChartYAML c) (gc_UnifiedDiff c) = Inr patched \<and> decode patched = Inr after \<and>
      labels_of before \<subseteq> labels_of after \<and>
      {(path, b). map_of (collectResources before) path = Some b} \<subseteq>
      {(path, b). \<exists>a. map_of (collectResources after) path = Some a \<and>
         within_floor (if f64_le maxRatio (Fin 0) then Fin (1 / 2) else maxRatio) b a})"
  by (auto simp: PostValidator_Validate_def Let_def passed_def failed_def
      checkLabelsPreserved_None[symmetric] checkResourceBounds_None[symmetric] split: sum.split option.split)


text \<open>Whole numbers of a binary unit are read exactly, and halved exactly.\<close>

lemma f64_add_int:
  assumes "\<bar>m + n\<bar> < 2 ^ 53"
  shows "f64_add (Fin (of_int m)) (Fin (of_int n)) = Fin (of_int (m + n))"
  using f64_of_int_exact[OF assms] by (simp add: f64_of_int_def)

lemma f64_mul_int:
  assumes "\<bar>m * n\<bar> < 2 ^ 53"
  shows "f64_mul (Fin (of_int m)) (Fin (of_int n)) = Fin (of_int (m * n))"
  using f64_of_int_exact[OF assms] by (simp add: f64_of_int_def)

lemma parseFloat_digits:
  assumes "list_all is_digit s" "0 \<le> n" "n * 10 ^ length s + digits_val s < 2 ^ 53"
  shows "parseFloat_loop (Fin (of_int n)) fr False s = Fin (of_int (n * 10 ^ length s + digits_val s))"
  using assms
proof (induction s arbitrary: n)
  case (Cons c s)
  let ?m = "n * 10 + digit_val c"
  have d: "is_digit c" "0 \<le> digit_val c" "digit_val c \<le> 9" using Cons.prems(1) digit_val_bounds by auto
  have val: "n * 10 ^ length (c # s) + digits_val (c # s) = ?m * 10 ^ length s + digits_val s"
    by (simp add: digits_val_Cons algebra_simps)
  have "0 \<le> digits_val s" using Cons.prems(1) by (simp add: digits_val_nonneg)
  moreover have "?m * 1 \<le> ?m * 10 ^ length s" using d Cons.prems(2) by (intro mult_left_mono) auto
  ultimately have "?m \<le> ?m * 10 ^ length s + digits_val s"
    by (metis add_increasing2 mult.right_neutral)
  then have small: "?m < 2 ^ 53" using val Cons.prems(3) by linarith
  have "c \<noteq> CHR ''.''" using d(1) by (auto simp: is_digit_def)
  moreover have "f64_add (f64_mul (Fin (of_int n)) (Fin 10)) (f64_of_int (digit_val c)) = Fin (of_int ?m)"
    using small d Cons.prems(2) f64_mul_int[of n 10] f64_add_int[of "n * 10" "digit_val c"] by simp
  ultimately have "parseFloat_loop (Fin (of_int n)) fr False (c # s) = parseFloat_loop (Fin (of_int ?m)) fr False s"
    using d(1) by (simp add: Let_def)
  also have "\<dots> = Fin (of_int (?m * 10 ^ length s + digits_val s))"
    using Cons.IH[of ?m] Cons.prems d val by simp
  finally show ?case by (simp only: val)
qed (simp add: digits_val_def)


lemma parseQuantity_Mi:
  assumes "all_digits s" "digits_val s < 2 ^ 33"
  shows "parseQuantity (YStr (s @ ''Mi'')) = Fin (of_int (digits_val s * 2 ^ 20))"
proof -
  have "trim_space (s @ ''Mi'') = s @ ''Mi''" using assms(1) by (rule trim_space_digits) (simp add: graphic_def)
  moreover have "find (\<lambda>(suf, m). has_suffix (s @ ''Mi'') suf) quantity_units = Some (''Mi'', Fin (2 ^ 20))"
    by (simp add: quantity_units_def has_suffix_def)
  moreover have "trim_suffix (s @ ''Mi'') ''Mi'' = s" by (simp add: trim_suffix_def has_suffix_def)
  moreover have "parseFloat s = Fin (of_int (digits_val s))"
    using parseFloat_digits[of s 0 "Fin 1"] assms by (simp add: parseFloat_def all_digits_def)
  moreover have "0 \<le> digits_val s" using assms(1) by (simp add: all_digits_def digits_val_nonneg)
  ultimately show ?thesis
    using assms f64_mul_int[of "digits_val s" "2 ^ 20"] by (simp add: parseQuantity_def Let_def all_digits_def)
qed

lemma half_floor:
  assumes "\<bar>b\<bar> < 2 ^ 53"
  shows "within_floor (Fin (1 / 2)) (Fin (of_int b)) (Fin (of_int a)) \<longleftrightarrow> b \<le> 2 * a"
proof -
  have half: "round64 (1 / 2) = (1 / 2 :: rat)" "round64 (of_int b * (1 / 2)) = (of_int b * (1 / 2) :: rat)"
    using round64_exact[of 1 "-1"] round64_exact[OF assms, of "-1"] by (simp_all add: power_int_minus)
  have one: "(1::rat) \<le> 2 powi 1000" and big: "(2::rat) powi 53 \<le> 2 powi 1000"
    by (simp_all only: power_int_0_right[of 2, symmetric] powi2_le_iff)
  have "\<bar>of_int b :: rat\<bar> < 2 powi 53" using of_int_abs_less[OF assms] by simp
  then have "\<bar>of_int b * (1 / 2) :: rat\<bar> \<le> 2 powi 1000" using big by (simp only: abs_mult)
  then have mul: "to_f64 (of_int b * (1 / 2)) = Fin (of_int b * (1 / 2))" by (simp only: to_f64_Fin half)
  have "to_f64 (1 / 2) = Fin (1 / 2)" using one by (subst to_f64_Fin) (simp_all add: half)
  then have "within_floor (Fin (1 / 2)) (Fin (of_int b)) (Fin (of_int a)) \<longleftrightarrow> \<not> (of_int a :: rat) < of_int b * (1 / 2)"
    by (simp add: within_floor_def f64_sub_def mul del: times_divide_eq_right mult_1_right)
  also have "\<dots> \<longleftrightarrow> b \<le> 2 * a" by (simp add: not_less field_simps) (metis of_int_le_iff of_int_mult of_int_numeral)
  finally show ?thesis .
qed

text \<open>A container's memory request, in mebibytes, and a values file with one such container.\<close>

definition memory_request :: "nat \<Rightarrow> (string \<times> yaml) list" where
  "memory_request n = [(''resources'', YMap [(''requests'', YMap [(''memory'', YStr (show_nat n @ ''Mi''))])])]"

lemma collect_memory_request:
  assumes "0 < n" "n < 2 ^ 33"
  shows "collectResources (memory_request n) = [(''.resources.requests.memory'', Fin (of_int (int n * 2 ^ 20)))]"
proof -
  have "all_digits (show_nat n)" using show_nat_digits by (auto simp: all_digits_def list_all_iff)
  moreover have "int n < 2 ^ 33" using assms(2) by simp
  ultimately have "parseQuantity (YStr (show_nat n @ ''Mi'')) = Fin (of_int (int n * 2 ^ 20))"
    using parseQuantity_Mi[of "show_nat n"] by simp
  with assms(1) show ?thesis
    by (simp add: collectResources_def memory_request_def put_resources_def put_kind_def put_quantity_def Let_def)
qed

text \<open>
  With the default ratio the floor is exactly one half: a memory request of \<open>n\<close> mebibytes may
  be lowered to \<open>k\<close> mebibytes if and only if \<open>k\<close> is at least half of \<open>n\<close>; the conversion of the
  strings and the floating-point comparison lose nothing.
\<close>

lemma post_half_floor:
  assumes "0 < n" "n < 2 ^ 33" "0 < k" "k < 2 ^ 33"
  shows "checkResourceBounds (memory_request n) (memory_request k) (Fin (1 / 2)) = None \<longleftrightarrow> n \<le> 2 * k"
proof -
  have "\<bar>int n * 2 ^ 20\<bar> < 2 ^ 53" using assms(2) by simp
  from half_floor[OF this, of "int k * 2 ^ 20"] show ?thesis
    using assms by (simp add: checkResourceBounds_None collect_memory_request subset_iff) linarith
qed

theorem post_half_floor_witness:
  "checkResourceBounds (memory_request 512) (memory_request 256) (Fin (1 / 2)) = None \<and>
   checkResourceBounds (memory_request 512) (memory_request 255) (Fin (1 / 2)) \<noteq> None"
  using post_half_floor[of 512 256] post_half_floor[of 512 255] by simp


section \<open>The whole gate\<close>

lemma render_exact:
  "(\<exists>r. RenderValidator_Validate yaml_error c = Some r \<and> sr_Status r = StatusPassed) \<longleftrightarrow>
   trim_space (gc_ChartYAML c) \<noteq> [] \<and> trim_space (gc_UnifiedDiff c) \<noteq> [] \<and>
   (\<exists>patched. applyUnifiedDiff (gc_ChartYAML c) (gc_UnifiedDiff c) = Inr patched \<and> yaml_error patched = None)"
  by (auto simp: RenderValidator_Validate_def passed_def failed_def split: sum.split option.split)

lemma dryrun_exact:
  "(\<exists>r. DryrunValidator_Validate client c = Some r \<and> sr_Status r = StatusPassed) \<longleftrightarrow>
   (\<exists>dry out. client = Some dry \<and> dry c = Inr out \<and> dr_Accepted out)"
  by (auto simp: DryrunValidator_Validate_def passed_def failed_def split: sum.split option.split)

lemma strict_accepts:
  "(\<exists>rs. Gate_loop StrictPolicy c stages vs = Some (rs, None)) \<longleftrightarrow>
   (\<forall>v \<in> set vs. \<exists>r. gv_Validate v c = Some r \<and> sr_Status r = StatusPassed)"
  by (induction vs arbitrary: stages) (auto simp: StrictPolicy_def Let_def split: option.splits)

definition gate_stages ::
  "(string \<Rightarrow> string option) \<Rightarrow> decoder \<Rightarrow> string list \<Rightarrow> AgentClient option \<Rightarrow> f64 \<Rightarrow> GateValidator list" where
  "gate_stages yaml_error decode keys client maxRatio =
     [RenderValidator yaml_error, ConformValidator decode keys, DryrunValidator client, PostValidator decode maxRatio]"

text \<open>A manifest that names a kind and no group or version keeps its shape.\<close>

lemma kind_without_version_shaped:
  "checkAPIVersionKindShape (YMap [(''kind'', YStr ''Deployment'')]) = None"
  by (simp add: shape_error_def as_string_def)


text \<open>
  A label that disappears from one workload passes the check as long as another block has a label of
  the same name.
\<close>

lemma label_removal_masked:
  "checkLabelsPreserved
     [(''web'', YMap [(''labels'', YMap [(''app'', YStr ''web'')])]), (''db'', YMap [(''labels'', YMap [(''app'', YStr ''db'')])])]
     [(''web'', YMap []), (''db'', YMap [(''labels'', YMap [(''app'', YStr ''db'')])])] = None"
  by (simp add: checkLabelsPreserved_def label_keys_def Let_def)

end
