(* ===== verification/Apply_Fix.thy ===== *)
theory Apply_Fix
  imports Prwriter Operators Sizing Validator Gate_Stages
begin

text \<open>
  \<^verbatim>\<open>worker/workflows/apply_fix.go\<close>: the workflow that turns a finding into a pull request. It is
  composed of the components modelled before it, in the order of the source: the chart parser, the
  operator detector, the sizing limits, the composer with its language model, the gate, the
  validators, the comment renderer and the publisher. The JSON decoder of the payload, the YAML
  decoder, the comment template and the publisher are parameters. Durations observed by the latency
  recorder do not influence the workflow and are left out.
\<close>

record PullRequest =
  pr_RepoOwner :: string
  pr_RepoName :: string
  pr_HeadBranch :: string
  pr_BaseBranch :: string
  pr_Title :: string
  pr_Body :: string
  pr_UnifiedDiff :: string
  pr_ApplyFixID :: string

record ApplyFixPayload =
  ap_RepoOwner :: string
  ap_RepoName :: string
  ap_BaseBranch :: string
  ap_ChartPath :: string
  ap_ChartYAML :: string
  ap_Model :: string
  ap_Finding :: Finding
  ap_ApplyFixID :: string
  ap_Now :: "instant option"
  ap_WorkloadOwners :: "OwnerRef list"
  ap_ClusterSignals :: ClusterSignals
  ap_ProposedCPUMilli :: i64
  ap_ProposedMemoryB :: i64
  ap_ProposedReplicas :: i64
  ap_Environment :: Environment
  ap_ProvisionerClass :: ProvisionerClass

record ApplyFix =
  af_Composer :: "Composer option"
  af_Gate :: "(GatePolicy \<times> GateValidator list) option"
  af_Validator :: "Validator list option"
  af_Publisher :: "(TenantContext \<Rightarrow> PullRequest \<Rightarrow> string option) option"
  af_SkepticMode :: bool
  af_TenantSettings :: "(TenantContext \<Rightarrow> string + bool) option"
  af_OwnerResolve :: "resolver option"

text \<open>One constructor for every return of an error.\<close>

datatype apply_error =
    DecodeFailed string
  | NilComposer
  | NilGate
  | NilPublisher
  | SkepticNeedsValidator
  | ParseFailed parse_error
  | OperatorOwned string Classification
  | LowConfidence string string
  | ReplicaCut i64 i64
  | ComposeFailed agent_error
  | GateFailed GateStage GateStatus string
  | SkepticStage GateStage GateStatus
  | ValidatorFailed string string
  | ValidatorRejected string string
  | SkepticWarn string string
  | RenderFailed render_error
  | PublishFailed string

text \<open>A call of the publisher is recorded with its answer: \<open>None\<close>, or the error.\<close>

datatype apply_event = AgentEvent agent_event | Published PullRequest "string option"

text \<open>What the workflow uses of code outside the repository.\<close>

record apply_env =
  ae_decode :: "string \<Rightarrow> string + ApplyFixPayload"
  ae_unmarshal :: "string \<Rightarrow> string + node"
  ae_conv :: "f64 \<Rightarrow> i64"
  ae_sha256 :: "string \<Rightarrow> string"
  ae_template :: "view \<Rightarrow> string + string"
  ae_rfc3339 :: "instant \<Rightarrow> string"
  ae_now :: instant

definition classOrKarpenter :: "ProvisionerClass \<Rightarrow> ProvisionerClass" where
  "classOrKarpenter c = (if c = [] then ClassKarpenter else c)"

definition primaryWorkload :: "Workload list \<Rightarrow> string \<Rightarrow> string" where
  "primaryWorkload ws want =
     (if \<exists>w \<in> set ws. w_Name w = want then want
      else if ws \<noteq> [] then w_Name (hd ws) else want)"

definition effectiveSkeptic :: "ApplyFix \<Rightarrow> TenantContext \<Rightarrow> bool" where
  "effectiveSkeptic w t =
     (case af_TenantSettings w of
        None \<Rightarrow> af_SkepticMode w
      | Some src \<Rightarrow> (case src t of Inl _ \<Rightarrow> af_SkepticMode w | Inr v \<Rightarrow> v))"

definition operator_gate :: "ApplyFix \<Rightarrow> ApplyFixPayload \<Rightarrow> string \<Rightarrow> apply_error option" where
  "operator_gate w p primary =
     (case af_OwnerResolve w of
        None \<Rightarrow> None
      | Some resolve \<Rightarrow>
          if ap_WorkloadOwners p = [] then None
          else let cls = Operator_Classify
                 \<lparr>ow_Namespace = [], ow_Kind = ''Deployment'', ow_Name = primary, ow_Owners = ap_WorkloadOwners p\<rparr> resolve
               in if cl_Direct cls then None else Some (OperatorOwned primary cls))"

definition strategy_gate :: "ApplyFixPayload \<Rightarrow> apply_error option" where
  "strategy_gate p =
     (if ap_Environment p = [] then None
      else let sizing = ForClass (ap_Environment p) (classOrKarpenter (ap_ProvisionerClass p));
               conf = f_Confidence (ap_Finding p)
           in if conf \<noteq> [] \<and> \<not> ConfidenceMeets sizing conf
              then Some (LowConfidence conf (sz_MinConfidence sizing))
              else case cs_HPA (ap_ClusterSignals p) of
                     None \<Rightarrow> None
                   | Some hpa \<Rightarrow>
                       if ap_ProposedReplicas p > 0 \<and> hpa_CurrentReps hpa > ap_ProposedReplicas p
                       then let reduction = wrap64 (hpa_CurrentReps hpa - ap_ProposedReplicas p)
                            in if \<not> ReplicaCutAllowed sizing reduction
                               then Some (ReplicaCut reduction (EffectiveReplicaCap sizing)) else None
                       else None)"

definition fix_request :: "ApplyFixPayload \<Rightarrow> string \<Rightarrow> FixRequest" where
  "fix_request p primary =
     \<lparr>fq_Finding = ap_Finding p, fq_ChartYAML = ap_ChartYAML p, fq_Model = ap_Model p,
      fq_Workload = primary, fq_SystemHint = []\<rparr>"

definition gate_candidate :: "ApplyFixPayload \<Rightarrow> string \<Rightarrow> FixResponse \<Rightarrow> GateCandidate" where
  "gate_candidate p primary resp =
     \<lparr>gc_ApplyFixID = ap_ApplyFixID p, gc_ChartYAML = ap_ChartYAML p,
      gc_UnifiedDiff = fp_UnifiedDiff resp, gc_Workload = primary\<rparr>"

definition skeptic_stages :: "bool \<Rightarrow> StageResult list \<Rightarrow> apply_error option" where
  "skeptic_stages skeptic stages =
     (if skeptic
      then map_option (\<lambda>sr. SkepticStage (sr_Stage sr) (sr_Status sr)) (find (\<lambda>sr. sr_Status sr \<noteq> StatusPassed) stages)
      else None)"

definition candidate_of :: "ApplyFixPayload \<Rightarrow> string \<Rightarrow> Candidate" where
  "candidate_of p primary =
     \<lparr>ca_WorkloadID = primary, ca_DetectorID = f_DetectorID (ap_Finding p), ca_Title = f_Title (ap_Finding p),
      ca_ProposedCPU = \<lparr>cq_Millicores = ap_ProposedCPUMilli p, cq_Bytes = 0\<rparr>,
      ca_ProposedMemory = \<lparr>cq_Millicores = 0, cq_Bytes = ap_ProposedMemoryB p\<rparr>,
      ca_ProposedReplicas = ap_ProposedReplicas p, ca_MonthlyUSDCents = f_MonthlyUSDCents (ap_Finding p),
      ca_Signals = ap_ClusterSignals p\<rparr>"

definition validator_gate :: "ApplyFix \<Rightarrow> bool \<Rightarrow> ApplyFixPayload \<Rightarrow> string \<Rightarrow> apply_error option" where
  "validator_gate w skeptic p primary =
     (case af_Validator w of
        None \<Rightarrow> None
      | Some vs \<Rightarrow>
          (case Pipeline_Run vs (candidate_of p primary) of
             (res, Some (name, err)) \<Rightarrow> Some (ValidatorFailed name err)
           | (res, None) \<Rightarrow>
               (case vr_Rejected res of
                  Some v \<Rightarrow> Some (ValidatorRejected (vd_Validator v) (vd_Reason v))
                | None \<Rightarrow>
                    if skeptic
                    then map_option (\<lambda>v. SkepticWarn (vd_Validator v) (vd_Reason v))
                           (find (\<lambda>v. vd_Severity v = VerdictWarn) (vr_Verdicts res))
                    else None)))"

definition pr_comment :: "TenantContext \<Rightarrow> ApplyFixPayload \<Rightarrow> FixResponse \<Rightarrow> Comment" where
  "pr_comment t p resp =
     \<lparr>cm_Chart = ap_RepoOwner p @ ''/'' @ ap_RepoName p @ ''/'' @ ap_ChartPath p, cm_Tenant = tc_TenantID t,
      cm_Workloads = 1, cm_Findings = [ap_Finding p],
      cm_MonthlySavingsUSDCents = f_MonthlyUSDCents (ap_Finding p),
      cm_AnnualSavingsUSDCents = wrap64 (f_MonthlyUSDCents (ap_Finding p) * 12),
      cm_Mode = ModeAgent, cm_GeneratedAt = ap_Now p, cm_OptiqorAnalysisURL = [], cm_ApplyFixURL = [],
      cm_UnifiedDiff = fp_UnifiedDiff resp, cm_Narrative = fp_Explanation resp, cm_ProvisionerNote = [],
      cm_SecurityVisible = (f_Category (ap_Finding p) = CategorySecurity)\<rparr>"

definition pull_request :: "ApplyFixPayload \<Rightarrow> FixResponse \<Rightarrow> string \<Rightarrow> PullRequest" where
  "pull_request p resp body =
     \<lparr>pr_RepoOwner = ap_RepoOwner p, pr_RepoName = ap_RepoName p,
      pr_HeadBranch = ''optiqor/apply-fix/'' @ ap_ApplyFixID p, pr_BaseBranch = ap_BaseBranch p,
      pr_Title = ''optiqor('' @ f_Workload (ap_Finding p) @ ''): '' @ f_Title (ap_Finding p),
      pr_Body = body, pr_UnifiedDiff = fp_UnifiedDiff resp, pr_ApplyFixID = ap_ApplyFixID p\<rparr>"

text \<open>The part after the composer, with the events so far. \<open>None\<close> is a panic inside the gate.\<close>

definition check_and_publish ::
  "apply_env \<Rightarrow> ApplyFix \<Rightarrow> TenantContext \<Rightarrow> ApplyFixPayload \<Rightarrow> string \<Rightarrow>
     GatePolicy \<times> GateValidator list \<Rightarrow> (TenantContext \<Rightarrow> PullRequest \<Rightarrow> string option) \<Rightarrow> FixResponse \<Rightarrow>
     (apply_event list \<times> apply_error option) option" where
  "check_and_publish env w t p primary gate publish resp =
     (case Gate_Run (fst gate) (snd gate) (gate_candidate p primary resp) of
        None \<Rightarrow> None
      | Some (stages, Some (st, status, err)) \<Rightarrow> Some ([], Some (GateFailed st status err))
      | Some (stages, None) \<Rightarrow>
          let skeptic = effectiveSkeptic w t
          in case skeptic_stages skeptic stages of
               Some e \<Rightarrow> Some ([], Some e)
             | None \<Rightarrow>
                 (case validator_gate w skeptic p primary of
                    Some e \<Rightarrow> Some ([], Some e)
                  | None \<Rightarrow>
                      (case Render (ae_template env) (ae_rfc3339 env) (ae_now env) (pr_comment t p resp) of
                         Inl e \<Rightarrow> Some ([], Some (RenderFailed e))
                       | Inr body \<Rightarrow>
                           let pr = pull_request p resp body
                           in Some ([Published pr (publish t pr)], map_option PublishFailed (publish t pr)))))"

definition run_payload ::
  "apply_env \<Rightarrow> ApplyFix \<Rightarrow> TenantContext \<Rightarrow> ApplyFixPayload \<Rightarrow> Composer \<Rightarrow> GatePolicy \<times> GateValidator list \<Rightarrow>
     (TenantContext \<Rightarrow> PullRequest \<Rightarrow> string option) \<Rightarrow> (apply_event list \<times> apply_error option) option" where
  "run_payload env w t p composer gate publish =
     (case ParseValues (ae_unmarshal env) (ae_conv env) (Inr (ap_ChartYAML p)) of
        Inl e \<Rightarrow> Some ([], Some (ParseFailed e))
      | Inr workloads \<Rightarrow>
          let primary = primaryWorkload workloads (f_Workload (ap_Finding p))
          in case operator_gate w p primary of
               Some e \<Rightarrow> Some ([], Some e)
             | None \<Rightarrow>
                 (case strategy_gate p of
                    Some e \<Rightarrow> Some ([], Some e)
                  | None \<Rightarrow>
                      let (evs, fix_result) = GenerateFix (ae_sha256 env) composer t (fix_request p primary);
                          evs = map AgentEvent evs
                      in case fix_result of
                           Inl e \<Rightarrow> Some (evs, Some (ComposeFailed e))
                         | Inr resp \<Rightarrow>
                             map_option (\<lambda>(evs', e). (evs @ evs', e))
                               (check_and_publish env w t p primary gate publish resp)))"

definition Execute ::
  "apply_env \<Rightarrow> ApplyFix \<Rightarrow> TenantContext \<Rightarrow> string \<Rightarrow> (apply_event list \<times> apply_error option) option" where
  "Execute env w t raw =
     (case ae_decode env raw of
        Inl e \<Rightarrow> Some ([], Some (DecodeFailed e))
      | Inr p \<Rightarrow>
          (case (af_Composer w, af_Gate w, af_Publisher w) of
             (None, _, _) \<Rightarrow> Some ([], Some NilComposer)
           | (Some _, None, _) \<Rightarrow> Some ([], Some NilGate)
           | (Some _, Some _, None) \<Rightarrow> Some ([], Some NilPublisher)
           | (Some composer, Some gate, Some publish) \<Rightarrow>
               if effectiveSkeptic w t \<and> af_Validator w = None then Some ([], Some SkepticNeedsValidator)
               else run_payload env w t p composer gate publish))"

section \<open>When a pull request is opened\<close>

text \<open>A gate run without an error: every stage answered and the policy let each answer through.\<close>

lemma Gate_loop_accepts:
  "Gate_loop policy c stages vs = Some (rs, None) \<longleftrightarrow>
     set vs \<subseteq> {v. \<exists>r. gv_Validate v c = Some r \<and> policy (gv_Stage v) (sr_Status r)} \<and>
     rs = stages @ map (stage_result c) vs"
  by (induction vs arbitrary: stages) (auto simp: stage_result_def Let_def split: option.splits)

text \<open>An answer of a validator that does not stop a fix.\<close>

definition acceptable :: "bool \<Rightarrow> string + Verdict option \<Rightarrow> bool" where
  "acceptable skeptic ans =
     (case ans of
        Inl _ \<Rightarrow> False
      | Inr None \<Rightarrow> True
      | Inr (Some vd) \<Rightarrow> vd_Severity vd = VerdictInfo \<or> vd_Severity vd = VerdictWarn \<and> \<not> skeptic)"

lemma Pipeline_loop_error:
  "snd (Pipeline_loop c out vs) = None \<longleftrightarrow> (\<forall>v \<in> set vs. \<exists>r. va_Check v c = Inr r)"
  by (induction c out vs rule: Pipeline_loop.induct) (auto simp: Let_def split: sum.splits option.splits)

lemma verdicts_acceptable:
  assumes "\<forall>v \<in> set vs. \<exists>r. va_Check v c = Inr r"
  shows "(\<forall>vd \<in> set (List.map_filter (verdict_of c) vs).
      vd_Severity vd \<noteq> VerdictHard \<and> (skeptic \<longrightarrow> vd_Severity vd \<noteq> VerdictWarn)) \<longleftrightarrow>
    set vs \<subseteq> {v. acceptable skeptic (va_Check v c)}"
proof -
  have "acceptable skeptic (va_Check v c) \<longleftrightarrow> (\<forall>vd. verdict_of c v = Some vd \<longrightarrow>
      vd_Severity vd \<noteq> VerdictHard \<and> (skeptic \<longrightarrow> vd_Severity vd \<noteq> VerdictWarn))" if v: "v \<in> set vs" for v
  proof -
    obtain r where r: "va_Check v c = Inr r" using assms v by blast
    show ?thesis
    proof (cases r)
      case (Some vd)
      then show ?thesis by (cases "vd_Severity vd") (auto simp: acceptable_def verdict_of_def r)
    qed (simp add: acceptable_def verdict_of_def r)
  qed
  moreover have "(\<forall>vd \<in> set (List.map_filter (verdict_of c) vs). Q vd) \<longleftrightarrow>
      (\<forall>v \<in> set vs. \<forall>vd. verdict_of c v = Some vd \<longrightarrow> Q vd)" for Q
    by (induction vs) (auto simp: List.map_filter_simps split: option.splits)
  ultimately show ?thesis by (auto simp: subset_iff)
qed

lemma validator_gate_None:
  "validator_gate w skeptic p primary = None \<longleftrightarrow>
     (case af_Validator w of
        None \<Rightarrow> True
      | Some vs \<Rightarrow> set vs \<subseteq> {v. acceptable skeptic (va_Check v (candidate_of p primary))})"
proof (cases "af_Validator w")
  case (Some vs)
  let ?c = "candidate_of p primary"
  show ?thesis
  proof (cases "\<forall>v \<in> set vs. \<exists>r. va_Check v ?c = Inr r")
    case True
    then have "Pipeline_Run vs ?c = (\<lparr>vr_Verdicts = List.map_filter (verdict_of ?c) vs,
        vr_Rejected = find (\<lambda>vd. vd_Severity vd = VerdictHard) (List.map_filter (verdict_of ?c) vs)\<rparr>, None)"
      by (intro Pipeline_Run_ok) blast
    then show ?thesis
      unfolding validator_gate_def Some option.case verdicts_acceptable[OF True, symmetric]
      by (cases "find (\<lambda>vd. vd_Severity vd = VerdictHard) (List.map_filter (verdict_of ?c) vs)")
        (auto simp: find_None_all dest: find_hit)
  next
    case False
    then have "snd (Pipeline_Run vs ?c) \<noteq> None"
      using Pipeline_loop_error by (metis Pipeline_Run_def)
    moreover have "\<not> set vs \<subseteq> {v. acceptable skeptic (va_Check v ?c)}"
    proof -
      obtain v e where "v \<in> set vs" "va_Check v ?c = Inl e" using False by (metis sum.exhaust)
      then show ?thesis by (auto simp: acceptable_def dest!: subsetD)
    qed
    ultimately show ?thesis by (auto simp: validator_gate_def Some split: prod.splits option.splits)
  qed
qed (simp add: validator_gate_def)

lemma skeptic_stages_None:
  "skeptic_stages skeptic stages = None \<longleftrightarrow> (skeptic \<longrightarrow> (\<forall>sr \<in> set stages. sr_Status sr = StatusPassed))"
  by (simp add: skeptic_stages_def find_None_all)

text \<open>The conditions on the stages, with the stricter one of the sceptical mode.\<close>

definition stage_clear :: "GatePolicy \<Rightarrow> bool \<Rightarrow> GateCandidate \<Rightarrow> GateValidator \<Rightarrow> bool" where
  "stage_clear policy skeptic c v =
     (case gv_Validate v c of
        None \<Rightarrow> False
      | Some r \<Rightarrow> policy (gv_Stage v) (sr_Status r) \<and> (if skeptic then sr_Status r = StatusPassed else True))"

lemma stages_clear:
  "(\<exists>rs. Gate_Run policy vs c = Some (rs, None) \<and> skeptic_stages skeptic rs = None) \<longleftrightarrow>
     set vs \<subseteq> {v. stage_clear policy skeptic c v}"
  unfolding Gate_Run_def Gate_loop_accepts skeptic_stages_None
  by (fastforce simp: stage_clear_def stage_result_def split: option.splits)

lemma agent_events_not_published: "Published pr answer \<notin> set (map AgentEvent evs)"
  by auto

lemma check_and_publish_exact:
  "(\<exists>evs err. check_and_publish env w t p primary gate publish resp = Some (evs, err) \<and> Published pr answer \<in> set evs) \<longleftrightarrow>
     set (snd gate) \<subseteq> {v. stage_clear (fst gate) (effectiveSkeptic w t) (gate_candidate p primary resp) v} \<and>
     validator_gate w (effectiveSkeptic w t) p primary = None \<and>
     (\<exists>body. Render (ae_template env) (ae_rfc3339 env) (ae_now env) (pr_comment t p resp) = Inr body \<and>
        pr = pull_request p resp body \<and> publish t pr = answer)"
  unfolding stages_clear[symmetric] check_and_publish_def
  by (auto simp: Let_def split: option.splits sum.splits)

lemma operator_gate_None:
  "operator_gate w p primary = None \<longleftrightarrow>
     (case af_OwnerResolve w of
        None \<Rightarrow> True
      | Some resolve \<Rightarrow> ap_WorkloadOwners p = [] \<or>
          cl_Direct (Operator_Classify
            \<lparr>ow_Namespace = [], ow_Kind = ''Deployment'', ow_Name = primary, ow_Owners = ap_WorkloadOwners p\<rparr> resolve))"
  by (simp add: operator_gate_def Let_def split: option.split)

text \<open>
  A finding within the limits of its environment: an unstated environment sets no limits and an
  unstated confidence meets every demand.
\<close>

definition within_limits :: "ApplyFixPayload \<Rightarrow> bool" where
  "within_limits p =
     (if ap_Environment p = [] then True
      else let sizing = ForClass (ap_Environment p) (classOrKarpenter (ap_ProvisionerClass p))
           in (f_Confidence (ap_Finding p) = [] \<or> ConfidenceMeets sizing (f_Confidence (ap_Finding p))) \<and>
              (case cs_HPA (ap_ClusterSignals p) of
                 None \<Rightarrow> True
               | Some hpa \<Rightarrow> ap_ProposedReplicas p \<le> 0 \<or> hpa_CurrentReps hpa \<le> ap_ProposedReplicas p \<or>
                   ReplicaCutAllowed sizing (wrap64 (hpa_CurrentReps hpa - ap_ProposedReplicas p))))"

lemma strategy_gate_None: "strategy_gate p = None \<longleftrightarrow> within_limits p"
  by (auto simp: strategy_gate_def within_limits_def Let_def not_less not_le split: option.split)

lemma run_payload_exact:
  "(\<exists>evs err. run_payload env w t p composer gate publish = Some (evs, err) \<and> Published pr answer \<in> set evs) \<longleftrightarrow>
     (\<exists>ws resp. ParseValues (ae_unmarshal env) (ae_conv env) (Inr (ap_ChartYAML p)) = Inr ws \<and>
        (let primary = primaryWorkload ws (f_Workload (ap_Finding p))
         in operator_gate w p primary = None \<and> strategy_gate p = None \<and>
            snd (GenerateFix (ae_sha256 env) composer t (fix_request p primary)) = Inr resp \<and>
            (\<exists>evs err. check_and_publish env w t p primary gate publish resp = Some (evs, err) \<and> Published pr answer \<in> set evs)))"
  by (auto simp: run_payload_def Let_def split: sum.splits option.splits prod.splits)

text \<open>
  C7. A pull request is handed to the publisher and answered with \<open>answer\<close>, which is \<open>None\<close> when it was
  published and the publisher's error otherwise, exactly when all of the following hold: the payload decodes and
  composer, gate and publisher are configured; in sceptical mode there is a validator; the chart
  parses; the workload is not in the hands of an operator, as far as owners are known; the finding is
  within the limits of a stated environment; the composer returned a diff; every stage of the gate
  answered, its policy let the answer through and, in sceptical mode, the stage passed; no validator
  failed, rejected the fix or, in sceptical mode, warned; the comment renders; and \<open>answer\<close> is what the
  publisher makes of it. The pull request then carries the diff the gate has seen.
\<close>

theorem published_exact:
  "(\<exists>evs err. Execute env w t raw = Some (evs, err) \<and> Published pr answer \<in> set evs) \<longleftrightarrow>
     (\<exists>p composer policy vs ws resp body publish.
        ae_decode env raw = Inr p \<and> af_Composer w = Some composer \<and> af_Gate w = Some (policy, vs) \<and>
        af_Publisher w = Some publish \<and>
        ParseValues (ae_unmarshal env) (ae_conv env) (Inr (ap_ChartYAML p)) = Inr ws \<and>
        (let primary = primaryWorkload ws (f_Workload (ap_Finding p)); skeptic = effectiveSkeptic w t
         in (case af_OwnerResolve w of
               None \<Rightarrow> True
             | Some resolve \<Rightarrow> ap_WorkloadOwners p = [] \<or>
                 cl_Direct (Operator_Classify
                   \<lparr>ow_Namespace = [], ow_Kind = ''Deployment'', ow_Name = primary, ow_Owners = ap_WorkloadOwners p\<rparr> resolve)) \<and>
            within_limits p \<and>
            snd (GenerateFix (ae_sha256 env) composer t (fix_request p primary)) = Inr resp \<and>
            set vs \<subseteq> {v. stage_clear policy skeptic (gate_candidate p primary resp) v} \<and>
            (case af_Validator w of
               None \<Rightarrow> \<not> skeptic
             | Some vds \<Rightarrow> set vds \<subseteq> {v. acceptable skeptic (va_Check v (candidate_of p primary))}) \<and>
            Render (ae_template env) (ae_rfc3339 env) (ae_now env) (pr_comment t p resp) = Inr body \<and>
            pr = pull_request p resp body \<and> publish t pr = answer \<and>
            pr_UnifiedDiff pr = gc_UnifiedDiff (gate_candidate p primary resp)))"
  (is "?published \<longleftrightarrow> ?checked")
proof -
  have diff: "pr_UnifiedDiff (pull_request p resp body) = gc_UnifiedDiff (gate_candidate p primary resp)" for p resp body primary
    by (simp add: pull_request_def gate_candidate_def)
  have val: "(case af_Validator w of None \<Rightarrow> \<not> sk | Some vds \<Rightarrow> X vds) \<longleftrightarrow>
      \<not> (sk \<and> af_Validator w = None) \<and> (case af_Validator w of None \<Rightarrow> True | Some vds \<Rightarrow> X vds)" for sk X
    by (cases "af_Validator w") auto
  have "?published \<longleftrightarrow> (\<exists>p composer gate publish. ae_decode env raw = Inr p \<and> af_Composer w = Some composer \<and>
      af_Gate w = Some gate \<and> af_Publisher w = Some publish \<and>
      \<not> (effectiveSkeptic w t \<and> af_Validator w = None) \<and>
      (\<exists>evs err. run_payload env w t p composer gate publish = Some (evs, err) \<and> Published pr answer \<in> set evs))"
    unfolding Execute_def by (auto split: sum.splits option.splits if_splits)
  also have "\<dots> \<longleftrightarrow> ?checked"
    unfolding run_payload_exact check_and_publish_exact operator_gate_None strategy_gate_None validator_gate_None Let_def
      split_paired_Ex fst_conv snd_conv val
    using diff by blast
  finally show ?thesis .
qed

text \<open>
  The events of a run: what the composer did and then at most one publication, which a run that
  reports success has made.
\<close>

lemma check_and_publish_events:
  "check_and_publish env w t p primary gate publish resp = Some (evs, err) \<Longrightarrow>
     \<exists>prs. evs = map (\<lambda>pr. Published pr (publish t pr)) prs \<and> length prs \<le> 1 \<and>
       (err = None \<longrightarrow> length prs = 1 \<and> publish t (hd prs) = None)"
proof -
  assume "check_and_publish env w t p primary gate publish resp = Some (evs, err)"
  then consider "evs = []" "err \<noteq> None" | pr where "evs = [Published pr (publish t pr)]" "err = map_option PublishFailed (publish t pr)"
    by (auto simp: check_and_publish_def Let_def split: option.splits sum.splits) metis+
  then show ?thesis
  proof cases
    case 1
    then show ?thesis by (intro exI[of _ "[]"]) simp
  next
    case (2 pr)
    then show ?thesis by (intro exI[of _ "[pr]"]) simp
  qed
qed

lemma run_payload_cases:
  assumes "run_payload env w t p composer gate publish = Some (evs, err)"
  obtains (stopped) as where "evs = map AgentEvent as" "err \<noteq> None"
  | (checked) as primary resp evs' where "evs = map AgentEvent as @ evs'"
      "check_and_publish env w t p primary gate publish resp = Some (evs', err)"
  using assms
  by (auto simp: run_payload_def Let_def split: sum.splits option.splits prod.splits)
    (metis list.map(1) option.distinct(1))+

definition well_ordered :: "ApplyFix \<Rightarrow> TenantContext \<Rightarrow> apply_event list \<Rightarrow> apply_error option \<Rightarrow> bool" where
  "well_ordered w t evs err \<longleftrightarrow>
     (\<exists>as prs. evs = map AgentEvent as @ map (\<lambda>(pr, answer). Published pr answer) prs \<and> length prs \<le> 1 \<and>
       (err = None \<longrightarrow> length prs = 1 \<and> snd (hd prs) = None \<and>
          (\<exists>publish. af_Publisher w = Some publish \<and> publish t (fst (hd prs)) = None)))"

lemma well_ordered_stop: "err \<noteq> None \<Longrightarrow> well_ordered w t (map AgentEvent as) err"
  unfolding well_ordered_def by (intro exI[of _ as] exI[of _ "[]"]) auto

lemma run_payload_events:
  assumes "run_payload env w t p composer gate publish = Some (evs, err)" "af_Publisher w = Some publish"
  shows "well_ordered w t evs err"
  using assms(1)
proof (cases rule: run_payload_cases)
  case (checked as primary resp evs')
  from check_and_publish_events[OF this(2)] obtain prs where prs: "evs' = map (\<lambda>pr. Published pr (publish t pr)) prs"
    "length prs \<le> 1" "err = None \<longrightarrow> length prs = 1 \<and> publish t (hd prs) = None" by blast
  from prs(2) have "prs = [] \<or> (\<exists>pr. prs = [pr])" by (cases prs) auto
  then show ?thesis
    unfolding well_ordered_def using checked(1) prs assms(2)
    by (intro exI[of _ as] exI[of _ "map (\<lambda>pr. (pr, publish t pr)) prs"]) auto
qed (simp add: well_ordered_stop)

lemma Execute_events:
  assumes "Execute env w t raw = Some (evs, err)"
  shows "well_ordered w t evs err"
  using assms run_payload_events well_ordered_stop[of _ w t "[]"] unfolding Execute_def
  by (auto split: sum.splits option.splits if_splits)

text \<open>
  An unstated environment does not fall back to the strict profile of an unknown one: it switches the
  limits off. The cap on memory cuts is not part of the check at all.
\<close>

lemma unstated_environment_unlimited: "strategy_gate (p\<lparr>ap_Environment := []\<rparr>) = None"
  by (simp add: strategy_gate_def)

lemma unknown_environment_limited:
  "f_Confidence (ap_Finding p) = ''low'' \<Longrightarrow> strategy_gate (p\<lparr>ap_Environment := EnvUnknown\<rparr>) \<noteq> None"
  by (simp add: strategy_gate_def sizing_defs Let_def env_consts class_consts)

lemma memory_cut_unchecked: "strategy_gate (p\<lparr>ap_ProposedMemoryB := m\<rparr>) = strategy_gate p"
  by (simp add: strategy_gate_def Let_def cong: option.case_cong split: option.split)

end
