(* ===== verification/Labels.thy ===== *)
theory Labels
  imports Quantity Go_Strings Go_Time
begin

text \<open>
  \<^verbatim>\<open>prwriter/labels/labels.go\<close>: the policy a pull request's labels ask for, with \<open>time.ParseDuration\<close>
  of the standard library.
\<close>

section \<open>Parsing durations\<close>

text \<open>\<open>leadingInt\<close>: the digits at the head as a number, \<open>None\<close> when it exceeds \<open>2 ^ 63\<close>.\<close>

fun leadingInt :: "nat \<Rightarrow> string \<Rightarrow> (nat \<times> string) option" where
  "leadingInt x [] = Some (x, [])"
| "leadingInt x (c # s) =
     (if \<not> is_digit c then Some (x, c # s)
      else if x > 2 ^ 63 div 10 then None
      else let x' = x * 10 + nat (digit_val c)
           in if x' > 2 ^ 63 then None else leadingInt x' s)"

text \<open>\<open>leadingFraction\<close>: digits that would overflow are read and dropped.\<close>

fun leadingFraction :: "bool \<Rightarrow> nat \<Rightarrow> nat \<Rightarrow> string \<Rightarrow> nat \<times> nat \<times> string" where
  "leadingFraction overflow x scale [] = (x, scale, [])"
| "leadingFraction overflow x scale (c # s) =
     (if \<not> is_digit c then (x, scale, c # s)
      else if overflow \<or> x > (2 ^ 63 - 1) div 10 then leadingFraction True x scale s
      else let y = x * 10 + nat (digit_val c)
           in if y > 2 ^ 63 then leadingFraction True x scale s
              else leadingFraction False y (scale * 10) s)"

definition unitMap :: "string \<Rightarrow> nat option" where
  "unitMap u = map_of
     [(''ns'', 1), (''us'', 1000), ([CHR 0xC2, CHR 0xB5, CHR ''s''], 1000), ([CHR 0xCE, CHR 0xBC, CHR ''s''], 1000),
      (''ms'', 1000000), (''s'', 1000000000), (''m'', 60 * 1000000000), (''h'', 3600 * 1000000000)] u"

definition number_char :: "char \<Rightarrow> bool" where
  "number_char c \<longleftrightarrow> c = CHR ''.'' \<or> is_digit c"

text \<open>
  The product of a fraction and its unit, in floating point and cut to an integer. It is less than
  the unit, up to rounding, so the conversion is always in range.
\<close>

definition fraction_part :: "nat \<Rightarrow> nat \<Rightarrow> nat \<Rightarrow> nat" where
  "fraction_part f scale unit =
     nat (f64_to_i64 amd64_conv
       (f64_mul (f64_of_int (int f)) (f64_div (f64_of_int (int unit)) (f64_of_int (int scale)))))"

text \<open>One number with its unit; \<open>None\<close> is an error, otherwise its value and the rest of the text.\<close>

definition duration_item :: "string \<Rightarrow> (nat \<times> string) option" where
  "duration_item s =
     (if s = [] \<or> \<not> number_char (hd s) then None
      else case leadingInt 0 s of
        None \<Rightarrow> None
      | Some (v, s1) \<Rightarrow>
          let pre = length s \<noteq> length s1;
              (f, scale, s2, post) =
                (if s1 \<noteq> [] \<and> hd s1 = CHR ''.''
                 then let (f, scale, r) = leadingFraction False 0 1 (tl s1)
                      in (f, scale, r, length (tl s1) \<noteq> length r)
                 else (0, 1, s1, False));
              u = takeWhile (\<lambda>c. \<not> number_char c) s2;
              rest = dropWhile (\<lambda>c. \<not> number_char c) s2
          in if \<not> pre \<and> \<not> post then None
             else if u = [] then None
             else case unitMap u of
               None \<Rightarrow> None
             | Some unit \<Rightarrow>
                 if v > 2 ^ 63 div unit then None
                 else let v = v * unit + (if f > 0 then fraction_part f scale unit else 0)
                      in if f > 0 \<and> v > 2 ^ 63 then None else Some (v, rest))"

text \<open>The loop over the items; every item is shorter than the text before it.\<close>

lemma leadingInt_rest: "leadingInt x s = Some (v, r) \<Longrightarrow> length r \<le> length s"
  by (induction x s rule: leadingInt.induct) (auto simp: Let_def split: if_splits)

lemma leadingFraction_rest: "leadingFraction ov x sc s = (f, sc', r) \<Longrightarrow> length r \<le> length s"
  by (induction ov x sc s rule: leadingFraction.induct) (auto simp: Let_def split: if_splits)

lemma takeWhile_rest: "takeWhile P s \<noteq> [] \<Longrightarrow> length (dropWhile P s) < length s"
  by (cases s) (auto simp: length_dropWhile_le less_Suc_eq_le split: if_splits)

lemma duration_item_shorter: "duration_item s = Some (v, r) \<Longrightarrow> length r < length s"
proof -
  assume "duration_item s = Some (v, r)"
  then obtain v1 s1 s2 where s1: "leadingInt 0 s = Some (v1, s1)" and s2: "length s2 \<le> length s1"
    and r: "r = dropWhile (\<lambda>c. \<not> number_char c) s2" "takeWhile (\<lambda>c. \<not> number_char c) s2 \<noteq> []"
    by (auto simp: duration_item_def Let_def dest: leadingFraction_rest
        split: if_splits option.splits prod.splits)
      (metis length_tl diff_le_self le_trans leadingFraction_rest)+
  then show ?thesis using takeWhile_rest[OF r(2)] leadingInt_rest[OF s1] by simp
qed

function duration_loop :: "nat \<Rightarrow> string \<Rightarrow> nat option" where
  "duration_loop d s =
     (if s = [] then Some d
      else case duration_item s of
        None \<Rightarrow> None
      | Some (v, rest) \<Rightarrow> if d + v > 2 ^ 63 then None else duration_loop (d + v) rest)"
  by pat_completeness auto
termination by (relation "measure (\<lambda>(d, s). length s)") (auto dest: duration_item_shorter)

declare duration_loop.simps [simp del]

definition ParseDuration :: "string \<Rightarrow> duration option" where
  "ParseDuration s =
     (let (neg, s) = split_sign s
      in if s = ''0'' then Some 0
         else if s = [] then None
         else case duration_loop 0 s of
                None \<Rightarrow> None
              | Some d \<Rightarrow>
                  if neg then Some (- int d)
                  else if d > 2 ^ 63 - 1 then None
                  else Some (int d))"

section \<open>Labels\<close>

record Policy =
  pl_Skip :: bool
  pl_BudgetUSDSet :: bool
  pl_BudgetUSD :: f64
  pl_WaitForProm :: duration
  pl_UnknownLabels :: "string list"

datatype label_error =
    BudgetNeedsValue
  | BudgetNotNumber string
  | BudgetNegative
  | WaitNeedsDuration
  | DaysNotInteger string
  | WaitNegative
  | WaitNotDuration string

definition splitKV :: "string \<Rightarrow> string \<times> string \<times> bool" where
  "splitKV label =
     (let body = trim_prefix label ''optiqor:''
      in if CHR ''='' \<in> set body
         then (takeWhile (\<lambda>c. c \<noteq> CHR ''='') body, tl (dropWhile (\<lambda>c. c \<noteq> CHR ''='') body), True)
         else (body, [], False))"

definition parseBudget :: "string \<Rightarrow> label_error + f64" where
  "parseBudget s =
     (let s = trim_space (trim_prefix (trim_space s) ''$'')
      in if s = [] then Inl BudgetNeedsValue
         else case parse_float s of
                Inl _ \<Rightarrow> Inl (BudgetNotNumber s)
              | Inr n \<Rightarrow> if f64_lt n (Fin 0) then Inl BudgetNegative else Inr n)"

definition parseDuration :: "string \<Rightarrow> label_error + duration" where
  "parseDuration s =
     (let s = trim_space s
      in if s = [] then Inl WaitNeedsDuration
         else if has_suffix s ''d''
         then (case parse_int (trim_suffix s ''d'') of
                 Inl _ \<Rightarrow> Inl (DaysNotInteger s)
               | Inr days \<Rightarrow>
                   if days < 0 then Inl WaitNegative
                   else Inr (wrap64 (days * 24 * 3600000000000)))
         else case ParseDuration s of
                None \<Rightarrow> Inl (WaitNotDuration s)
              | Some d \<Rightarrow> Inr d)"

text \<open>The policy so far comes with the error.\<close>

fun labels_loop :: "Policy \<Rightarrow> string list \<Rightarrow> Policy \<times> label_error option" where
  "labels_loop p [] = (p, None)"
| "labels_loop p (raw # rest) =
     (let l = trim_space raw
      in if \<not> prefix ''optiqor:'' l then labels_loop p rest
         else let (key, val, ok) = splitKV l
              in if key = ''skip'' \<and> \<not> ok then labels_loop (p\<lparr>pl_Skip := True\<rparr>) rest
                 else if key = ''budget'' \<and> ok
                 then (case parseBudget val of
                         Inl e \<Rightarrow> (p, Some e)
                       | Inr n \<Rightarrow> labels_loop (p\<lparr>pl_BudgetUSD := n, pl_BudgetUSDSet := True\<rparr>) rest)
                 else if key = ''wait-for-prom'' \<and> ok
                 then (case parseDuration val of
                         Inl e \<Rightarrow> (p, Some e)
                       | Inr d \<Rightarrow> labels_loop (p\<lparr>pl_WaitForProm := d\<rparr>) rest)
                 else labels_loop (p\<lparr>pl_UnknownLabels := pl_UnknownLabels p @ [raw]\<rparr>) rest)"

definition labels_Parse :: "string list \<Rightarrow> Policy \<times> label_error option" where
  "labels_Parse rawLabels =
     labels_loop \<lparr>pl_Skip = False, pl_BudgetUSDSet = False, pl_BudgetUSD = Fin 0, pl_WaitForProm = 0,
                  pl_UnknownLabels = []\<rparr> rawLabels"

section \<open>What the labels ask for\<close>

lemma trim_day_label: "trim_space (show_nat n @ ''d'') = show_nat n @ ''d''"
  by (rule trim_space_digits) (simp_all add: graphic_def)

lemma parseDuration_days:
  "int n < 2 ^ 63 \<Longrightarrow> parseDuration (show_nat n @ ''d'') = Inr (wrap64 (int n * 24 * 3600000000000))"
  using parse_int_digits[of "show_nat n"] by (simp add: parseDuration_def trim_day_label)

lemma wait_days: "n \<le> 106751 \<Longrightarrow> parseDuration (show_nat n @ ''d'') = Inr (int n * 86400000000000)"
  by (subst parseDuration_days) (auto simp: in_i64_def)

text \<open>
  One day more and the product leaves \<open>int64\<close>: the wait becomes negative without an error. Waits in
  other units may be negative from the start.
\<close>

lemma wait_days_overflow: "\<exists>d < 0. parseDuration (show_nat 106752 @ ''d'') = Inr d"
  by (subst parseDuration_days) (simp_all add: wrap64_def)

lemma negative_wait_accepted: "parseDuration ''-5m'' = Inr (- 300000000000)"
proof -
  have item: "duration_item ''5m'' = Some (300000000000, [])"
    by (simp add: duration_item_def number_char_def is_digit_def digit_val_def unitMap_def Let_def)
  have loop: "duration_loop 0 ''5m'' = Some 300000000000"
    by (subst duration_loop.simps) (simp add: item duration_loop.simps[of _ "[]"])
  have "trim_space ''-5m'' = ''-5m''" by (rule trim_space_graphic) (simp_all add: graphic_def)
  then show ?thesis
    by (simp add: parseDuration_def ParseDuration_def split_sign_def has_suffix_def loop)
qed

text \<open>A label of another owner has no effect, and the skip flag is set by exactly one label.\<close>

lemma labels_loop_ignores:
  "labels_loop p (filter (\<lambda>raw. prefix ''optiqor:'' (trim_space raw)) ls) = labels_loop p ls"
proof (induction ls arbitrary: p)
  case (Cons raw ls)
  show ?case
    by (cases "prefix ''optiqor:'' (trim_space raw)")
      (simp_all only: filter.simps labels_loop.simps Let_def Cons.IH if_True if_False not_True_eq_False not_False_eq_True)
qed simp

lemma splitKV_skip: "prefix ''optiqor:'' l \<Longrightarrow> splitKV l = (''skip'', v, False) \<longleftrightarrow> l = ''optiqor:skip'' \<and> v = []"
  by (auto simp: splitKV_def trim_prefix_def prefix_def Let_def split: if_splits)

end
