(* ===== verification/Observed.thy ===== *)
theory Observed
  imports Rules_Types Go_Time
begin

text \<open>
  \<^verbatim>\<open>backend/internal/methodology\<close>: the detectors that work on observed data, one package each. Every
  \<open>Analyze\<close> checks its threshold, runs once over the samples and appends a finding for each sample
  that fires. The locale \<open>sample_detector\<close> states this shape once.
\<close>

text \<open>A finding as these packages write it: no confidence, no signal.\<close>

definition cost_finding :: "string \<Rightarrow> Severity \<Rightarrow> string \<Rightarrow> string \<Rightarrow> string \<Rightarrow> i64 \<Rightarrow> Finding" where
  "cost_finding det sev wl title detail cents =
     (finding det wl title detail sev [])\<lparr>f_Category := CategoryCost, f_MonthlyUSDCents := cents\<rparr>"

lemma cost_finding_sel [simp]:
  "f_DetectorID (cost_finding d s w t e c) = d" "f_Workload (cost_finding d s w t e c) = w"
  "f_Severity (cost_finding d s w t e c) = s" "f_Category (cost_finding d s w t e c) = CategoryCost"
  "f_MonthlyUSDCents (cost_finding d s w t e c) = c" "f_Confidence (cost_finding d s w t e c) = []"
  by (simp_all add: cost_finding_def)

section \<open>Behaviour classes (\<^verbatim>\<open>classify.go\<close>)\<close>

type_synonym Class = string

definition ClassSteady :: Class where "ClassSteady = ''steady''"
definition ClassDailyCyclical :: Class where "ClassDailyCyclical = ''daily-cyclical''"
definition ClassWeeklyCyclical :: Class where "ClassWeeklyCyclical = ''weekly-cyclical''"
definition ClassBursty :: Class where "ClassBursty = ''bursty''"

record ClassSample =
  cs_Time :: instant
  cs_Value :: f64

record ClassResult =
  cr_Class :: Class
  cr_CV :: f64
  cr_Autocorr24h :: f64
  cr_Autocorr168h :: f64
  cr_SampleCount :: i64

datatype classify_error = ErrInsufficientData

definition SandboxClassifier_Classify :: "ClassSample list \<Rightarrow> classify_error + ClassResult" where
  "SandboxClassifier_Classify samples =
     (if samples = [] then Inl ErrInsufficientData
      else Inr \<lparr>cr_Class = ClassSteady, cr_CV = Fin 0, cr_Autocorr24h = Fin 0, cr_Autocorr168h = Fin 0,
                cr_SampleCount = int (length samples)\<rparr>)"

section \<open>Idle workloads (\<^verbatim>\<open>idle_workload_observed\<close>)\<close>

record IdleSample =
  id_Workload :: string
  id_Namespace :: string
  id_Replicas :: i64
  id_HasHPA :: bool
  id_P95CPUMilli :: i64
  id_NetworkBytes7d :: i64
  id_RequestsCPUm :: i64
  id_MonthlyCostUSDCents :: i64

record IdleThreshold =
  it_MaxP95CPUMilli :: i64
  it_MaxNetworkB7d :: i64

definition Idle_Default :: IdleThreshold where
  "Idle_Default = \<lparr>it_MaxP95CPUMilli = 10, it_MaxNetworkB7d = 1024 * 1024\<rparr>"

text \<open>The digit loop; the buffer of 20 bytes holds every \<open>int64\<close> with its sign.\<close>

fun digits_loop :: "nat \<Rightarrow> string \<Rightarrow> string" where
  "digits_loop i buf = (if 0 < i then digits_loop (i div 10) (digit_char (i mod 10) # buf) else buf)"

declare digits_loop.simps [simp del]

definition idle_itoa :: "i64 \<Rightarrow> string" where
  "idle_itoa i =
     (if i = 0 then ''0''
      else let neg = i < 0; j = (if neg then wrap64 (- i) else i); s = digits_loop (nat j) []
           in if neg then CHR ''-'' # s else s)"

definition cpuFmt :: "i64 \<Rightarrow> string" where
  "cpuFmt milli =
     (if milli \<ge> 1000 \<and> milli smod 1000 = 0 then idle_itoa (milli sdiv 1000) @ '' vCPU''
      else idle_itoa milli @ ''m'')"

definition idle_fires :: "IdleThreshold \<Rightarrow> IdleSample \<Rightarrow> bool" where
  "idle_fires th s \<longleftrightarrow>
     \<not> id_Replicas s \<le> 0 \<and> \<not> (id_HasHPA s \<and> id_P95CPUMilli s > 0) \<and>
     \<not> id_P95CPUMilli s > it_MaxP95CPUMilli th \<and> \<not> id_NetworkBytes7d s > it_MaxNetworkB7d th"

definition idle_finding :: "IdleThreshold \<Rightarrow> IdleSample \<Rightarrow> Finding" where
  "idle_finding th s =
     cost_finding ''idle-workload-observed'' SeverityHigh (id_Workload s)
       ''Workload appears idle over the last 7 days''
       (''P95 CPU under '' @ cpuFmt (it_MaxP95CPUMilli th) @ '' and network < 1 MiB'')
       (id_MonthlyCostUSDCents s)"

definition Idle_Analyze :: "IdleThreshold \<Rightarrow> IdleSample list \<Rightarrow> string + Finding list" where
  "Idle_Analyze th samples =
     (if it_MaxP95CPUMilli th < 0 \<or> it_MaxNetworkB7d th < 0
      then Inl ''idle_workload_observed: negative threshold''
      else Inr (map (idle_finding th) (filter (idle_fires th) samples)))"

section \<open>Autoscaler recommendations (\<^verbatim>\<open>vpa_divergence\<close>)\<close>

record VPASample =
  vp_Workload :: string
  vp_Namespace :: string
  vp_Mode :: string
  vp_CurrentCPUm :: i64
  vp_CurrentMemB :: i64
  vp_RecommendCPUm :: i64
  vp_RecommendMemB :: i64
  vp_MonthlyCostUSDCents :: i64

definition VPA_Default :: f64 where "VPA_Default = to_f64 (20 / 100)"

definition diverges :: "i64 \<Rightarrow> i64 \<Rightarrow> f64 \<Rightarrow> bool" where
  "diverges current recommend gap =
     (if current \<le> 0 \<or> recommend \<le> 0 then False
      else if recommend \<ge> current then False
      else f64_le gap (f64_div (f64_of_int (wrap64 (current - recommend))) (f64_of_int current)))"

definition vpa_fires :: "f64 \<Rightarrow> VPASample \<Rightarrow> bool" where
  "vpa_fires gap s \<longleftrightarrow>
     vp_Mode s \<noteq> ''Auto'' \<and> \<not> (vp_Mode s \<noteq> ''Off'' \<and> vp_Mode s \<noteq> ''Initial'') \<and>
     (diverges (vp_CurrentCPUm s) (vp_RecommendCPUm s) gap \<or> diverges (vp_CurrentMemB s) (vp_RecommendMemB s) gap)"

definition vpa_finding :: "VPASample \<Rightarrow> Finding" where
  "vpa_finding s =
     cost_finding ''vpa-recommendation-divergence'' SeverityMed (vp_Workload s)
       ''VPA recommendation diverges from current request''
       (''VPA in '' @ vp_Mode s @ '' mode suggests a lower request; consider applying.'')
       (vp_MonthlyCostUSDCents s)"

definition VPA_Analyze :: "f64 \<Rightarrow> VPASample list \<Rightarrow> string + Finding list" where
  "VPA_Analyze minDivergence samples =
     (if f64_lt minDivergence (Fin 0) then Inl ''vpa_divergence: negative MinDivergence''
      else let gap = (if minDivergence = Fin 0 then to_f64 (20 / 100) else minDivergence)
           in Inr (map vpa_finding (filter (vpa_fires gap) samples)))"

section \<open>Autoscalers at their floor (\<^verbatim>\<open>hpa_pinned_to_min\<close>)\<close>

record HPASample =
  hp_Workload :: string
  hp_Namespace :: string
  hp_MinReplicas :: i64
  hp_MaxReplicas :: i64
  hp_CurrentReplicas :: i64
  hp_TargetCPUUtilPct :: i64
  hp_AvgCPUUtilPct :: f64
  hp_MonthlyCostUSDCents :: i64

definition HPA_Default :: f64 where "HPA_Default = Fin (1 / 2)"

definition hpa_fires :: "f64 \<Rightarrow> HPASample \<Rightarrow> bool" where
  "hpa_fires ratio s \<longleftrightarrow>
     \<not> hp_MinReplicas s \<le> 1 \<and> hp_CurrentReplicas s = hp_MinReplicas s \<and> \<not> hp_TargetCPUUtilPct s \<le> 0 \<and>
     \<not> f64_le (f64_mul (f64_of_int (hp_TargetCPUUtilPct s)) ratio) (hp_AvgCPUUtilPct s)"

definition hpa_finding :: "HPASample \<Rightarrow> Finding" where
  "hpa_finding s =
     cost_finding ''hpa-pinned-to-min'' SeverityMed (hp_Workload s)
       ''HPA stuck at minReplicas; floor likely too high''
       ''Drop minReplicas by one and re-observe for a week.'' (hp_MonthlyCostUSDCents s)"

definition HPA_Analyze :: "f64 \<Rightarrow> HPASample list \<Rightarrow> string + Finding list" where
  "HPA_Analyze maxLoadRatio samples =
     (if f64_lt maxLoadRatio (Fin 0) then Inl ''hpa_pinned_to_min: negative MaxLoadRatio''
      else let ratio = (if maxLoadRatio = Fin 0 then Fin (1 / 2) else maxLoadRatio)
           in Inr (map hpa_finding (filter (hpa_fires ratio) samples)))"

section \<open>Orphaned volumes (\<^verbatim>\<open>orphaned_pvc\<close>)\<close>

record PVCRef =
  pv_Namespace :: string
  pv_Name :: string
  pv_StorageClass :: string
  pv_CapacityBytes :: i64
  pv_AgeDays :: i64
  pv_Referenced :: bool
  pv_MonthlyCostCents :: i64

definition MinAgeDays :: i64 where "MinAgeDays = 7"

definition pvc_fires :: "i64 \<Rightarrow> PVCRef \<Rightarrow> bool" where
  "pvc_fires threshold p \<longleftrightarrow> \<not> pv_Referenced p \<and> \<not> pv_AgeDays p < threshold"

definition pvc_finding :: "PVCRef \<Rightarrow> Finding" where
  "pvc_finding p =
     cost_finding ''orphaned-pvc'' SeverityMed (pv_Namespace p @ ''/'' @ pv_Name p)
       ''PersistentVolumeClaim has no referencing pod''
       ''Likely safe to delete after a 7-day soak; verify with the owning team.'' (pv_MonthlyCostCents p)"

definition PVC_Analyze :: "i64 \<Rightarrow> PVCRef list \<Rightarrow> string + Finding list" where
  "PVC_Analyze minAge pvcs =
     (if minAge < 0 then Inl ''orphaned_pvc: negative MinAge''
      else let threshold = (if minAge = 0 then MinAgeDays else minAge)
           in Inr (map pvc_finding (filter (pvc_fires threshold) pvcs)))"

section \<open>Out-of-memory kills (\<^verbatim>\<open>oomkilled_observed\<close>)\<close>

record OOMSample =
  oo_Workload :: string
  oo_Namespace :: string
  oo_OOMKillCount :: i64
  oo_CurrentRequestB :: i64
  oo_PeakRSSBytes :: i64
  oo_MonthlyCostUSDCents :: i64

definition OOM_Default :: i64 where "OOM_Default = 1"

definition oom_fires :: "i64 \<Rightarrow> OOMSample \<Rightarrow> bool" where
  "oom_fires least s \<longleftrightarrow> \<not> oo_OOMKillCount s < least"

definition oom_finding :: "OOMSample \<Rightarrow> Finding" where
  "oom_finding s =
     cost_finding ''oomkilled-observed'' SeverityHigh (oo_Workload s)
       ''Memory request too low; OOMKilled events observed''
       ''Raise request above the observed peak RSS to stop OOMKills.'' (oo_MonthlyCostUSDCents s)"

definition OOM_Analyze :: "i64 \<Rightarrow> OOMSample list \<Rightarrow> string + Finding list" where
  "OOM_Analyze minKills samples =
     (if minKills < 0 then Inl ''oomkilled_observed: negative MinKills''
      else let least = (if minKills = 0 then 1 else minKills)
           in Inr (map oom_finding (filter (oom_fires least) samples)))"

section \<open>Stale namespaces (\<^verbatim>\<open>stale_namespace\<close>)\<close>

record Activity =
  ac_Namespace :: string
  ac_WorkloadCount :: i64
  ac_CPUMilliSecondsObserved :: i64
  ac_NetworkBytes :: i64
  ac_PodRestarts :: i64
  ac_MonthlyCostUSDCents :: i64

definition MinStaleDays :: i64 where "MinStaleDays = 30"

definition stale_fires :: "Activity \<Rightarrow> bool" where
  "stale_fires a \<longleftrightarrow>
     ac_WorkloadCount a \<noteq> 0 \<and>
     \<not> (ac_CPUMilliSecondsObserved a > 0 \<or> ac_NetworkBytes a > 0 \<or> ac_PodRestarts a > 0)"

definition stale_finding :: "Activity \<Rightarrow> Finding" where
  "stale_finding a =
     cost_finding ''stale-namespace'' SeverityMed (ac_Namespace a)
       ''Namespace shows no activity over the staleness window''
       ''Verify with the team that owns the namespace before deleting.'' (ac_MonthlyCostUSDCents a)"

definition Stale_Analyze :: "i64 \<Rightarrow> Activity list \<Rightarrow> string + Finding list" where
  "Stale_Analyze staleDays snapshots =
     (if staleDays < 0 then Inl ''stale_namespace: negative StaleDays''
      else Inr (map stale_finding (filter stale_fires snapshots)))"


section \<open>The shape of a detector\<close>

text \<open>
  What the callers of these packages rely on: the analysis never fails under its threshold, reports
  exactly the samples that fire, in their order, and can be run on parts of the samples.
\<close>

locale sample_detector =
  fixes analyze :: "'s list \<Rightarrow> string + Finding list"
    and fires :: "'s \<Rightarrow> bool"
    and report :: "'s \<Rightarrow> Finding"
    and cents :: "'s \<Rightarrow> i64"
  assumes analyze_eq: "analyze xs = Inr (map report (filter fires xs))"
    and report_cost: "f_Category (report s) = CategoryCost" "f_MonthlyUSDCents (report s) = cents s"
begin

lemma analyze_append:
  "\<exists>fs gs. analyze xs = Inr fs \<and> analyze ys = Inr gs \<and> analyze (xs @ ys) = Inr (fs @ gs)"
  by (simp add: analyze_eq)

lemma analyze_iff: "analyze xs = Inr fs \<Longrightarrow> f \<in> set fs \<longleftrightarrow> (\<exists>s \<in> set xs. fires s \<and> f = report s)"
  by (auto simp: analyze_eq)

lemma analyze_perm: "mset xs = mset ys \<Longrightarrow> analyze xs = Inr fs \<Longrightarrow> analyze ys = Inr gs \<Longrightarrow> mset fs = mset gs"
  by (auto simp: analyze_eq mset_filter)

lemma analyze_savings:
  "analyze xs = Inr fs \<Longrightarrow> sum_list (map f_MonthlyUSDCents fs) = sum_list (map cents (filter fires xs))"
  by (auto simp: analyze_eq report_cost comp_def)

end

interpretation idle: sample_detector "Idle_Analyze Idle_Default" "idle_fires Idle_Default" "idle_finding Idle_Default"
    id_MonthlyCostUSDCents
  by unfold_locales (simp_all add: Idle_Analyze_def Idle_Default_def idle_finding_def)

interpretation pvc: sample_detector "PVC_Analyze MinAgeDays" "pvc_fires 7" pvc_finding pv_MonthlyCostCents
  by unfold_locales (simp_all add: PVC_Analyze_def MinAgeDays_def pvc_finding_def)

interpretation oom: sample_detector "OOM_Analyze OOM_Default" "oom_fires 1" oom_finding oo_MonthlyCostUSDCents
  by unfold_locales (simp_all add: OOM_Analyze_def OOM_Default_def oom_finding_def)

interpretation stale: sample_detector "Stale_Analyze MinStaleDays" stale_fires stale_finding ac_MonthlyCostUSDCents
  by unfold_locales (simp_all add: Stale_Analyze_def MinStaleDays_def stale_finding_def)

interpretation hpa: sample_detector "HPA_Analyze HPA_Default" "hpa_fires (Fin (1 / 2))" hpa_finding hp_MonthlyCostUSDCents
  by unfold_locales (simp_all add: HPA_Analyze_def HPA_Default_def hpa_finding_def)

text \<open>The gap of 0.2 is not a binary fraction; its rounding does not matter.\<close>

lemma ilog2_fifth: "ilog2 (of_int 1 / of_int 5) = - 3"
proof (rule antisym)
  show "ilog2 (of_int 1 / of_int 5) \<le> - 3"
    using ilog2_less[of "1 / 5" "- 2"] by (simp add: power_int_minus)
  show "- 3 \<le> ilog2 (of_int 1 / of_int 5)" by (rule ilog2_ge) (simp add: power_int_minus)
qed

lemma ilog2_fifth' [simp]: "ilog2 (1 / 5) = - 3"
  using ilog2_fifth by simp

lemma VPA_Default_Fin: "VPA_Default = Fin (round64 (of_int 1 / of_int 5))"
proof -
  have "(1 / 5 :: rat) \<le> 2 powi 0" by simp
  also have "\<dots> \<le> 2 powi 1000" by (simp only: powi2_le_iff)
  finally show ?thesis by (simp add: VPA_Default_def to_f64_Fin)
qed

lemma VPA_Default_pos: "\<not> f64_lt VPA_Default (Fin 0)" "VPA_Default \<noteq> Fin 0"
proof -
  have "(2::rat) powi (- 3) \<le> round64 (1 / 5)" by (rule round64_ge_pow2) (simp_all add: power_int_minus)
  then have "0 < round64 (1 / 5)" by (simp add: power_int_minus)
  then show "\<not> f64_lt VPA_Default (Fin 0)" "VPA_Default \<noteq> Fin 0" by (simp_all add: VPA_Default_Fin)
qed

interpretation vpa: sample_detector "VPA_Analyze VPA_Default" "vpa_fires VPA_Default" vpa_finding vp_MonthlyCostUSDCents
  using VPA_Default_pos by unfold_locales (simp_all add: VPA_Analyze_def vpa_finding_def Let_def)

lemma diverges_exact:
  assumes "current < 2 ^ 52" "in_i64 recommend"
  shows "diverges current recommend VPA_Default \<longleftrightarrow> 0 < recommend \<and> 5 * recommend \<le> 4 * current"
proof (cases "0 < recommend \<and> recommend < current")
  case True
  define a where "a = current - recommend"
  have ab: "0 < a" "a < 2 ^ 53" "0 < current" "current < 2 ^ 53" using True assms(1) by (auto simp: a_def)
  have w: "wrap64 (current - recommend) = a" using ab by (simp add: a_def in_i64_def)
  let ?q = "of_int a / of_int current :: rat"
  have "(2::rat) powi (- 53) \<le> 1 / of_int current"
    using ab(3,4) of_int_abs_less[of current 53] by (simp add: power_int_minus field_simps)
  also have "\<dots> \<le> ?q" using ab(1,3) by (intro divide_right_mono) auto
  finally have "- 53 \<le> ilog2 ?q" by (rule ilog2_ge)
  moreover have "2 powi (ilog2 (of_int 1 / of_int 5) - 52) * of_int (current * 5) < (1::rat)"
  proof -
    have "(of_int current :: rat) < 2 ^ 52" using assms(1) by (metis of_int_less_iff of_int_numeral of_int_power)
    then show ?thesis by (simp add: power_int_minus field_simps)
  qed
  ultimately have "round64 (of_int 1 / of_int 5) \<le> round64 ?q \<longleftrightarrow> 1 * current \<le> a * 5"
    using ab by (intro round64_quot_ge) (auto simp: ilog2_fifth)
  moreover have "diverges current recommend VPA_Default \<longleftrightarrow> round64 (of_int 1 / of_int 5) \<le> round64 ?q"
    using True w f64_quot[of a current] ab
    by (auto simp: diverges_def VPA_Default_Fin f64_le_def simp del: f64_of_int_exact)
  ultimately show ?thesis using True by (auto simp: a_def)
next
  case False
  then show ?thesis by (auto simp: diverges_def)
qed

lemma hpa_floor_exact:
  assumes "0 < target" "target < 2 ^ 53"
  shows "f64_le (f64_mul (f64_of_int target) (Fin (1 / 2))) (Fin avg) \<longleftrightarrow> of_int target \<le> 2 * avg"
proof -
  have half: "round64 (of_int target * (1 / 2)) = (of_int target * (1 / 2) :: rat)"
    using round64_exact[of target "- 1"] assms by (simp add: power_int_minus)
  have "(2::rat) powi 53 \<le> 2 powi 1000" by (simp only: powi2_le_iff)
  then have "\<bar>of_int target * (1 / 2) :: rat\<bar> \<le> 2 powi 1000" using of_int_abs_less[of target 53] assms by (simp add: abs_mult)
  then have "to_f64 (of_int target * (1 / 2)) = Fin (of_int target * (1 / 2))" by (simp only: to_f64_Fin half)
  then show ?thesis using assms by (auto simp: f64_le_def field_simps)
qed

text \<open>
  The observed-usage detectors that compare in floating point decide exact comparisons. For
  requests below \<open>2 ^ 52\<close>, the default divergence detector reports exactly the workloads whose
  autoscaler only advises and recommends a positive amount of at most four fifths of the request,
  for CPU or memory. The default floor detector reports exactly the autoscalers with more than one
  replica at their minimum whose average load is less than half of a positive target. Both report in
  the order of the samples, and never fail.
\<close>

lemma observed_thresholds_exact:
  assumes "\<forall>s \<in> set vs. vp_CurrentCPUm s < 2 ^ 52 \<and> vp_CurrentMemB s < 2 ^ 52 \<and>
      in_i64 (vp_RecommendCPUm s) \<and> in_i64 (vp_RecommendMemB s)"
    and "\<forall>s \<in> set hs. hp_TargetCPUUtilPct s < 2 ^ 53 \<and> hp_AvgCPUUtilPct s = Fin (avg s)"
  shows "VPA_Analyze VPA_Default vs = Inr (map vpa_finding (filter (\<lambda>s. vp_Mode s \<in> {''Off'', ''Initial''} \<and>
      (0 < vp_RecommendCPUm s \<and> 5 * vp_RecommendCPUm s \<le> 4 * vp_CurrentCPUm s \<or>
       0 < vp_RecommendMemB s \<and> 5 * vp_RecommendMemB s \<le> 4 * vp_CurrentMemB s)) vs)) \<and>
    HPA_Analyze HPA_Default hs = Inr (map hpa_finding (filter (\<lambda>s. 1 < hp_MinReplicas s \<and>
      hp_CurrentReplicas s = hp_MinReplicas s \<and> 0 < hp_TargetCPUUtilPct s \<and>
      2 * avg s < of_int (hp_TargetCPUUtilPct s)) hs))"
proof
  show "VPA_Analyze VPA_Default vs = Inr (map vpa_finding (filter (\<lambda>s. vp_Mode s \<in> {''Off'', ''Initial''} \<and>
      (0 < vp_RecommendCPUm s \<and> 5 * vp_RecommendCPUm s \<le> 4 * vp_CurrentCPUm s \<or>
       0 < vp_RecommendMemB s \<and> 5 * vp_RecommendMemB s \<le> 4 * vp_CurrentMemB s)) vs))"
    unfolding vpa.analyze_eq using assms(1)
    by (auto intro!: arg_cong[of _ _ "map vpa_finding"] filter_cong simp: vpa_fires_def diverges_exact)
  show "HPA_Analyze HPA_Default hs = Inr (map hpa_finding (filter (\<lambda>s. 1 < hp_MinReplicas s \<and>
      hp_CurrentReplicas s = hp_MinReplicas s \<and> 0 < hp_TargetCPUUtilPct s \<and>
      2 * avg s < of_int (hp_TargetCPUUtilPct s)) hs))"
    unfolding hpa.analyze_eq using assms(2)
    by (auto intro!: arg_cong[of _ _ "map hpa_finding"] filter_cong simp: hpa_fires_def hpa_floor_exact not_le
        simp del: f64_of_int_exact f64_mul.simps)
qed

definition sample_vpa :: "i64 \<Rightarrow> VPASample" where
  "sample_vpa rec = \<lparr>vp_Workload = ''web'', vp_Namespace = ''n'', vp_Mode = ''Off'', vp_CurrentCPUm = 500,
     vp_CurrentMemB = 0, vp_RecommendCPUm = rec, vp_RecommendMemB = 0, vp_MonthlyCostUSDCents = 9\<rparr>"

definition sample_hpa :: "rat \<Rightarrow> HPASample" where
  "sample_hpa avg = \<lparr>hp_Workload = ''web'', hp_Namespace = ''n'', hp_MinReplicas = 3, hp_MaxReplicas = 9,
     hp_CurrentReplicas = 3, hp_TargetCPUUtilPct = 70, hp_AvgCPUUtilPct = Fin avg, hp_MonthlyCostUSDCents = 9\<rparr>"

theorem observed_thresholds_exact_witness:
  "VPA_Analyze VPA_Default [sample_vpa 400, sample_vpa 401] = Inr [vpa_finding (sample_vpa 400)] \<and>
   HPA_Analyze HPA_Default [sample_hpa 35, sample_hpa (69 / 2)] = Inr [hpa_finding (sample_hpa (69 / 2))]"
  using observed_thresholds_exact[of "[sample_vpa 400, sample_vpa 401]" "[sample_hpa 35, sample_hpa (69 / 2)]"
      "\<lambda>s. if s = sample_hpa 35 then 35 else 69 / 2"]
  by (simp add: sample_vpa_def sample_hpa_def in_i64_def)

text \<open>The two digit printers of the backend agree with the decimal printing of the CLI.\<close>

lemma digits_loop_show: "0 < i \<Longrightarrow> digits_loop i buf = show_nat i @ buf"
proof (induction i buf rule: digits_loop.induct)
  case (1 i buf)
  then show ?case
    by (cases "i < 10") (simp_all add: digits_loop.simps[of i] digits_loop.simps[of 0] show_nat.simps[of i])
qed

lemma idle_itoa_show:
  assumes "in_i64 i" "i \<noteq> - (2 ^ 63)"
  shows "idle_itoa i = show_int i"
proof -
  have "wrap64 (- i) = - i" if "i < 0" using assms that by (intro wrap64_id) (simp add: in_i64_def)
  then show ?thesis by (auto simp: idle_itoa_def show_int_def digits_loop_show show_nat_0 Let_def)
qed

text \<open>The least \<open>int64\<close> is its own negation, and no digit is printed.\<close>

lemma idle_itoa_min: "idle_itoa (- (2 ^ 63)) = ''-''"
  by (simp add: idle_itoa_def wrap64_def digits_loop.simps)

end
