(* ===== verification/Registry.thy ===== *)
theory Registry
  imports Prelude "HOL-Library.AList"
begin

text \<open>
  What the process-wide registries of the backend share (\<^verbatim>\<open>billing\<close>, \<^verbatim>\<open>vcs\<close>, \<^verbatim>\<open>healthz\<close>, the
  worker's workflows): the hand-written sort of their names, and the contract of registering and
  looking up by name, as the locale \<open>name_registry\<close>.
\<close>

section \<open>Sorting by swaps\<close>

text \<open>
  The hand-written sort of \<open>Regions\<close> (and of every registry): the inner loop moves element \<open>j\<close>
  down while its predecessor is greater, the outer loop does so for every index.
\<close>

fun sift :: "nat \<Rightarrow> 'a::linorder list \<Rightarrow> 'a list" where
  "sift 0 s = s"
| "sift (Suc j) s = (if s ! j > s ! Suc j then sift j (s[j := s ! Suc j, Suc j := s ! j]) else s)"

function sort_from :: "nat \<Rightarrow> 'a::linorder list \<Rightarrow> 'a list" where
  "sort_from i s = (if i < length s then sort_from (i + 1) (sift i s) else s)"
  by pat_completeness auto

lemma length_sift [simp]: "length (sift j s) = length s"
  by (induction j s rule: sift.induct) auto

termination sort_from
  by (relation "measure (\<lambda>(i, s). length s - i)") auto

declare sort_from.simps [simp del]

definition swap_sort :: "'a::linorder list \<Rightarrow> 'a list" where
  "swap_sort s = sort_from 1 s"

lemma sort_snoc_greater: "x < y \<Longrightarrow> sorted (xs @ [y]) \<Longrightarrow> sort (xs @ [y, x]) = sort (xs @ [x]) @ [y]"
  by (rule properties_for_sort) (auto simp: sorted_append)

lemma sift_sorted:
  "sorted xs \<Longrightarrow> sift (length xs) (xs @ x # ys) = sort (xs @ [x]) @ ys"
proof (induction xs arbitrary: ys rule: rev_induct)
  case (snoc y xs)
  show ?case
  proof (cases "x < y")
    case True
    have "(xs @ y # x # ys)[length xs := x, Suc (length xs) := y] = xs @ x # y # ys"
      by (simp add: list_update_append)
    then have "sift (Suc (length xs)) (xs @ y # x # ys) = sift (length xs) (xs @ x # y # ys)"
      using True by (simp add: nth_append)
    also have "\<dots> = sort (xs @ [x]) @ y # ys" using snoc by (intro snoc.IH) (simp add: sorted_append)
    also have "\<dots> = sort (xs @ [y, x]) @ ys" using True snoc.prems by (simp add: sort_snoc_greater)
    finally show ?thesis by simp
  next
    case False
    then have "sorted (xs @ [y, x])" using snoc.prems by (auto simp: sorted_append)
    then have "sort (xs @ [y, x]) = xs @ [y, x]" by (rule sorted_sort_id)
    with False show ?thesis by (simp add: nth_append)
  qed
qed simp

lemma sort_from_sorted:
  "sorted (take i s) \<Longrightarrow> i \<le> length s \<Longrightarrow> sort_from i s = sort s"
proof (induction i s rule: sort_from.induct)
  case (1 i s)
  show ?case
  proof (cases "i < length s")
    case True
    have split: "s = take i s @ s ! i # drop (Suc i) s" using True by (rule id_take_nth_drop)
    have len: "length (take i s) = i" using True by simp
    have "sift i s = sort (take i s @ [s ! i]) @ drop (Suc i) s"
      using sift_sorted[OF 1(2), of "s ! i" "drop (Suc i) s"] split len by simp
    then have step: "sift i s = sort (take (Suc i) s) @ drop (Suc i) s"
      using True by (simp add: take_Suc_conv_app_nth)
    have "take (i + 1) (sift i s) = sort (take (Suc i) s)" using True unfolding step by simp
    then have "sort_from (i + 1) (sift i s) = sort (sift i s)" using True 1(1)[OF True] by simp
    also have "\<dots> = sort s"
    proof (rule properties_for_sort)
      have "mset (sift i s) = mset (take (Suc i) s) + mset (drop (Suc i) s)" by (simp add: step)
      also have "\<dots> = mset s" by (simp flip: mset_append)
      finally show "mset (sort s) = mset (sift i s)" by simp
    qed simp
    finally show ?thesis using True by (simp add: sort_from.simps[of i s])
  next
    case False
    with 1 show ?thesis by (subst sort_from.simps) (simp add: sorted_sort_id)
  qed
qed

lemma swap_sort_eq: "swap_sort s = sort s"
proof (cases s)
  case (Cons x xs)
  then show ?thesis unfolding swap_sort_def by (intro sort_from_sorted) auto
qed (simp add: swap_sort_def sort_from.simps)

section \<open>The contract of a registry\<close>

text \<open>
  \<open>register s a\<close> is the new registry, or \<open>None\<close> when it refuses (by a panic or an error): exactly an
  empty or a taken name. The names come back sorted, each once.
\<close>

locale name_registry =
  fixes register :: "'s \<Rightarrow> 'a \<Rightarrow> 's option"
    and lookup :: "'s \<Rightarrow> string \<Rightarrow> 'a option"
    and names :: "'s \<Rightarrow> string list"
    and name_of :: "'a \<Rightarrow> string"
    and valid :: "'s \<Rightarrow> bool"
  assumes register_None: "valid s \<Longrightarrow> register s a = None \<longleftrightarrow> name_of a = [] \<or> lookup s (name_of a) \<noteq> None"
    and register_valid: "valid s \<Longrightarrow> register s a = Some s' \<Longrightarrow> valid s'"
    and register_lookup: "valid s \<Longrightarrow> register s a = Some s' \<Longrightarrow>
      lookup s' n = (if n = name_of a then Some a else lookup s n)"
    and names_set: "valid s \<Longrightarrow> set (names s) = {n. lookup s n \<noteq> None}"
    and names_sorted: "valid s \<Longrightarrow> sorted (names s)"
    and names_distinct: "valid s \<Longrightarrow> distinct (names s)"
begin

text \<open>The names depend on what is registered only, not on the order it was registered in.\<close>

lemma names_determined:
  assumes "valid s" "valid t" "\<And>n. lookup s n = None \<longleftrightarrow> lookup t n = None"
  shows "names s = names t"
proof (rule sorted_distinct_set_unique)
  show "set (names s) = set (names t)" using assms by (simp add: names_set)
qed (use assms names_sorted names_distinct in auto)

lemma register_twice: "valid s \<Longrightarrow> register s a = Some s' \<Longrightarrow> name_of b = name_of a \<Longrightarrow> register s' b = None"
  by (simp add: register_None register_lookup register_valid)

lemma register_keeps:
  "valid s \<Longrightarrow> register s a = Some s' \<Longrightarrow> lookup s n = Some b \<Longrightarrow> lookup s' n = Some b"
proof -
  assume a: "valid s" "register s a = Some s'" "lookup s n = Some b"
  then have "lookup s (name_of a) = None" using register_None[of s a] by auto
  with a show ?thesis by (auto simp: register_lookup)
qed

text \<open>A whole boot sequence.\<close>

fun register_all :: "'s \<Rightarrow> 'a list \<Rightarrow> 's option" where
  "register_all s [] = Some s"
| "register_all s (a # as) = (case register s a of None \<Rightarrow> None | Some s' \<Rightarrow> register_all s' as)"

lemma register_all_keeps:
  assumes "valid s" "register_all s as = Some s'" "lookup s n = Some b"
  shows "lookup s' n = Some b \<and> n \<notin> name_of ` set as"
  using assms
proof (induction "as" arbitrary: s)
  case (Cons a "as")
  then obtain s1 where s1: "register s a = Some s1" "register_all s1 as = Some s'"
    by (auto split: option.splits)
  have "n \<noteq> name_of a" using s1(1) Cons.prems register_None[of s a] by auto
  moreover have "lookup s1 n = Some b" using register_keeps s1(1) Cons.prems by blast
  ultimately show ?case using Cons.IH[of s1] s1 register_valid Cons.prems(1) by auto
qed simp

lemma register_names:
  "valid s \<Longrightarrow> register s a = Some s' \<Longrightarrow> set (names s') = insert (name_of a) (set (names s))"
  using register_valid[of s a s'] by (auto simp: names_set register_lookup)

lemma register_all_None:
  assumes "valid s" "register_all s as = None"
  shows "\<not> distinct (map name_of as) \<or> [] \<in> name_of ` set as \<or> set (names s) \<inter> name_of ` set as \<noteq> {}"
  using assms
proof (induction "as" arbitrary: s)
  case (Cons a "as")
  show ?case
  proof (cases "register s a")
    case None
    then show ?thesis using Cons.prems(1) register_None[of s a] by (auto simp: names_set)
  next
    case (Some s1)
    with Cons.IH[of s1] Cons.prems register_valid register_names show ?thesis by auto
  qed
qed simp

lemma register_all_names:
  assumes "valid s" "register_all s as = Some s'"
  shows "valid s' \<and> distinct (map name_of as) \<and> set (names s') = set (names s) \<union> name_of ` set as \<and>
    {a \<in> set as. lookup s' (name_of a) \<noteq> Some a} = {}"
  using assms
proof (induction "as" arbitrary: s)
  case (Cons a "as")
  then obtain s1 where s1: "register s a = Some s1" "register_all s1 as = Some s'"
    by (auto split: option.splits)
  have v: "valid s1" using Cons.prems s1 register_valid by blast
  have l: "lookup s1 (name_of a) = Some a" using Cons.prems s1 by (simp add: register_lookup)
  have "set (names s1) = insert (name_of a) (set (names s))" using Cons.prems s1 register_names by blast
  with Cons.IH[OF v s1(2)] register_all_keeps[OF v s1(2) l] show ?case by auto
qed simp

end

end
