(* ===== verification/Pricing.thy ===== *)
theory Pricing
  imports Rules Observed Registry "HOL-Library.AList"
begin

text \<open>
  \<^verbatim>\<open>backend/internal/cost\<close>: the monthly estimate of a workload from its requests
  (\<^verbatim>\<open>pricer.go\<close>), the table of rates (\<^verbatim>\<open>static_pricer.go\<close>), the compliance controls of a detector
  (\<^verbatim>\<open>cis/cis.go\<close>) and the out-of-memory history of a workload (\<^verbatim>\<open>oomkilled/oomkilled.go\<close>), whose
  Prometheus endpoint is a parameter.
\<close>

section \<open>Rates (\<^verbatim>\<open>static_pricer.go\<close>)\<close>

record rate =
  rt_vcpuMonthlyCents :: i64
  rt_gibMonthlyCents :: i64

definition SupportedRegions :: "string list" where
  "SupportedRegions =
     [''us-east-1'', ''us-east-2'', ''us-west-2'', ''eu-central-1'', ''eu-west-1'', ''ap-south-1'', ''ap-southeast-1'']"

definition defaultRates :: "(string \<times> rate) list" where
  "defaultRates =
     [(''us-east-1'', \<lparr>rt_vcpuMonthlyCents = 3504, rt_gibMonthlyCents = 876\<rparr>),
      (''us-east-2'', \<lparr>rt_vcpuMonthlyCents = 3504, rt_gibMonthlyCents = 876\<rparr>),
      (''us-west-2'', \<lparr>rt_vcpuMonthlyCents = 3504, rt_gibMonthlyCents = 876\<rparr>),
      (''eu-central-1'', \<lparr>rt_vcpuMonthlyCents = 4380, rt_gibMonthlyCents = 1095\<rparr>),
      (''eu-west-1'', \<lparr>rt_vcpuMonthlyCents = 4205, rt_gibMonthlyCents = 1051\<rparr>),
      (''ap-south-1'', \<lparr>rt_vcpuMonthlyCents = 3329, rt_gibMonthlyCents = 832\<rparr>),
      (''ap-southeast-1'', \<lparr>rt_vcpuMonthlyCents = 4117, rt_gibMonthlyCents = 1029\<rparr>)]"

text \<open>The interface \<open>Pricer\<close>; an error is an unknown region.\<close>

datatype price_error = UnknownRegion string

record Pricer =
  VCPUPerMonthUSDCents :: "string \<Rightarrow> price_error + i64"
  GiBMemoryPerMonthUSDCents :: "string \<Rightarrow> price_error + i64"

definition static_lookup :: "(rate \<Rightarrow> i64) \<Rightarrow> (string \<times> rate) list \<Rightarrow> string \<Rightarrow> price_error + i64" where
  "static_lookup sel rates region =
     (case map_of rates region of None \<Rightarrow> Inl (UnknownRegion region) | Some r \<Rightarrow> Inr (sel r))"

definition NewStaticPricer :: Pricer where
  "NewStaticPricer =
     \<lparr>VCPUPerMonthUSDCents = static_lookup rt_vcpuMonthlyCents defaultRates,
      GiBMemoryPerMonthUSDCents = static_lookup rt_gibMonthlyCents defaultRates\<rparr>"

text \<open>\<open>Regions\<close> collects the keys in the order of the iteration and sorts them.\<close>

definition Regions :: "(string \<times> rate) list \<Rightarrow> string list" where
  "Regions rates = swap_sort (map fst rates)"

section \<open>Estimates (\<^verbatim>\<open>pricer.go\<close>)\<close>

record Estimate =
  es_Workload :: string
  es_Region :: string
  es_Replicas :: i64
  es_CPUMillicores :: i64
  es_MemoryBytes :: i64
  es_MonthlyUSDCents :: i64
  es_CPUMonthlyCents :: i64
  es_MemMonthlyCents :: i64
  es_Note :: string
  es_AccuracyBandPct :: i64
  es_UnpriceableField :: string

record Estimator =
  er_Pricer :: Pricer
  er_Region :: string
  er_AccuracyBandPct :: i64

definition bytesPerGiB :: i64 where "bytesPerGiB = 1024 * 1024 * 1024"
definition hoursPerMonth :: i64 where "hoursPerMonth = 730"

definition clampReplicas :: "i64 \<Rightarrow> i64" where
  "clampReplicas r = (if r \<le> 0 then 1 else r)"

definition estimate_note :: "string \<Rightarrow> Estimate \<Rightarrow> string" where
  "estimate_note region out =
     (let rest = '' across '' @ show_int (es_Replicas out) @ '' replica(s) at '' @ region @ '' on-demand pricing''
      in if es_CPUMonthlyCents out > 0 \<and> es_MemMonthlyCents out > 0 then ''cpu+mem requests'' @ rest
         else if es_CPUMonthlyCents out > 0 then ''cpu-only request'' @ rest
         else if es_MemMonthlyCents out > 0 then ''memory-only request'' @ rest
         else es_Note out)"

datatype estimate_error = PricingVCPU string price_error | PricingMemory string price_error

text \<open>The two priced parts of an estimate: amount, rate, replicas and the unit of the rate.\<close>

definition priced :: "i64 \<Rightarrow> i64 \<Rightarrow> i64 \<Rightarrow> i64 \<Rightarrow> i64" where
  "priced cents amount replicas unit = wrap64 (wrap64 (cents * amount) * replicas) sdiv unit"

definition price_cpu :: "Estimator \<Rightarrow> Workload \<Rightarrow> Estimate \<Rightarrow> estimate_error + Estimate" where
  "price_cpu e w out =
     (let q = rl_CPU (w_Requests w)
      in if q_Set q
         then (case VCPUPerMonthUSDCents (er_Pricer e) (er_Region e) of
                 Inl err \<Rightarrow> Inl (PricingVCPU (er_Region e) err)
               | Inr vcpu \<Rightarrow>
                   Inr (out\<lparr>es_CPUMillicores := q_Value q,
                            es_CPUMonthlyCents := priced vcpu (q_Value q) (es_Replicas out) 1000\<rparr>))
         else Inr out)"

definition price_memory :: "Estimator \<Rightarrow> Workload \<Rightarrow> Estimate \<Rightarrow> estimate_error + Estimate" where
  "price_memory e w out =
     (let q = rl_Memory (w_Requests w)
      in if q_Set q
         then (case GiBMemoryPerMonthUSDCents (er_Pricer e) (er_Region e) of
                 Inl err \<Rightarrow> Inl (PricingMemory (er_Region e) err)
               | Inr gib \<Rightarrow>
                   Inr (out\<lparr>es_MemoryBytes := q_Value q,
                            es_MemMonthlyCents := priced gib (q_Value q) (es_Replicas out) bytesPerGiB\<rparr>))
         else Inr out)"

definition Estimator_Estimate :: "Estimator \<Rightarrow> Workload \<Rightarrow> estimate_error + Estimate" where
  "Estimator_Estimate e w =
     (let band = (if er_AccuracyBandPct e \<le> 0 then 40 else er_AccuracyBandPct e);
          out = \<lparr>es_Workload = w_Name w, es_Region = er_Region e, es_Replicas = clampReplicas (w_Replicas w),
                 es_CPUMillicores = 0, es_MemoryBytes = 0, es_MonthlyUSDCents = 0, es_CPUMonthlyCents = 0,
                 es_MemMonthlyCents = 0, es_Note = [], es_AccuracyBandPct = band, es_UnpriceableField = []\<rparr>
      in if \<not> q_Set (rl_CPU (w_Requests w)) \<and> \<not> q_Set (rl_Memory (w_Requests w))
         then Inr (out\<lparr>es_UnpriceableField := ''requests.cpu+memory'',
                       es_Note := ''workload declares no resource requests; cannot estimate cost without an agent's measured baseline''\<rparr>)
         else case price_cpu e w out of
                Inl err \<Rightarrow> Inl err
              | Inr out \<Rightarrow>
                  (case price_memory e w out of
                     Inl err \<Rightarrow> Inl err
                   | Inr out \<Rightarrow>
                       let out = out\<lparr>es_MonthlyUSDCents := wrap64 (es_CPUMonthlyCents out + es_MemMonthlyCents out)\<rparr>
                       in Inr (out\<lparr>es_Note := estimate_note (er_Region e) out\<rparr>)))"

definition Total :: "Estimate list \<Rightarrow> i64" where
  "Total es = fold (\<lambda>e sum. wrap64 (sum + es_MonthlyUSDCents e)) es 0"

definition HourlyRateCents :: "i64 \<Rightarrow> i64" where
  "HourlyRateCents monthlyCents = monthlyCents sdiv hoursPerMonth"

section \<open>Compliance controls (\<^verbatim>\<open>cis.go\<close>)\<close>

definition cis_mapping :: "(string \<times> string list) list" where
  "cis_mapping =
     [(''run-as-root'', [''5.7.4'']), (''privileged-container'', [''5.2.1'']), (''host-network'', [''5.2.4'']),
      (''allow-privilege-escalation'', [''5.2.5'']), (''capabilities-not-dropped-all'', [''5.2.8'']),
      (''read-only-root-fs-missing'', [''5.7.3'']), (''image-pinned-latest'', [''5.1.4'']),
      (''missing-cpu-limit'', [''5.7.2'']), (''missing-memory-limit'', [''5.7.2''])]"

definition Controls :: "string \<Rightarrow> string list" where
  "Controls detectorID = (case map_of cis_mapping detectorID of None \<Rightarrow> [] | Some c \<Rightarrow> c)"

definition Has :: "string \<Rightarrow> bool" where
  "Has detectorID \<longleftrightarrow> map_of cis_mapping detectorID \<noteq> None"

section \<open>Out-of-memory history (\<^verbatim>\<open>oomkilled.go\<close>)\<close>

record WorkloadRef =
  wr_ClusterID :: string
  wr_Namespace :: string
  wr_Workload :: string

text \<open>The client answers an instant query at a time with an error or a count.\<close>

type_synonym QueryClient = "string \<Rightarrow> instant \<Rightarrow> string + i64"

record Reader =
  rd_Client :: QueryClient
  rd_Window :: duration

definition NewReader :: "QueryClient option \<Rightarrow> duration \<Rightarrow> string + Reader" where
  "NewReader c window =
     (case c of
        None \<Rightarrow> Inl ''oomkilled: nil QueryClient''
      | Some client \<Rightarrow>
          Inr \<lparr>rd_Client = client, rd_Window = (if window \<le> 0 then nanoseconds (7 * 24 * 3600) else window)\<rparr>)"

text \<open>The digit loop of \<open>itoa\<close> does nothing for a negative number; its buffer is empty then.\<close>

definition oom_itoa :: "i64 \<Rightarrow> string" where
  "oom_itoa i = (if i = 0 then ''0'' else digits_loop (nat i) [])"

definition windowExpr :: "duration \<Rightarrow> string" where
  "windowExpr d =
     (if d smod nanoseconds (24 * 3600) = 0 then oom_itoa (d sdiv nanoseconds (24 * 3600)) @ ''d''
      else oom_itoa (d sdiv nanoseconds 3600) @ ''h'')"

definition quote :: string where "quote = [CHR 0x22]"

definition buildQuery :: "WorkloadRef \<Rightarrow> duration \<Rightarrow> string" where
  "buildQuery w window =
     ''sum(increase(kube_pod_container_status_last_terminated_reason{cluster='' @ quote @ wr_ClusterID w @ quote @
     '',namespace='' @ quote @ wr_Namespace w @ quote @ '',pod=~'' @ quote @ wr_Workload w @ ''-.*'' @ quote @
     '',reason='' @ quote @ ''OOMKilled'' @ quote @ ''}['' @ windowExpr window @ '']))''"

definition Reader_Count :: "Reader \<Rightarrow> instant \<Rightarrow> WorkloadRef \<Rightarrow> string + i64" where
  "Reader_Count r now w =
     (if wr_ClusterID w = [] \<or> wr_Namespace w = [] \<or> wr_Workload w = []
      then Inl ''oomkilled: incomplete WorkloadRef''
      else rd_Client r (buildQuery w (rd_Window r)) now)"

definition Reader_Recent :: "Reader \<Rightarrow> instant \<Rightarrow> WorkloadRef \<Rightarrow> string + bool" where
  "Reader_Recent r now w = (case Reader_Count r now w of Inl e \<Rightarrow> Inl e | Inr n \<Rightarrow> Inr (n > 0))"

text \<open>The in-memory client: a table of results, zero for a query that was never set.\<close>

type_synonym InMemoryClient = "(string \<times> i64) list"

definition InMemoryClient_Set :: "InMemoryClient \<Rightarrow> string \<Rightarrow> i64 \<Rightarrow> InMemoryClient" where
  "InMemoryClient_Set c query n = AList.update query n c"

definition InMemoryClient_Count :: "InMemoryClient \<Rightarrow> QueryClient" where
  "InMemoryClient_Count c query atTime = Inr (case map_of c query of Some n \<Rightarrow> n | None \<Rightarrow> 0)"


section \<open>Properties of the estimates\<close>

lemma static_regions: "set SupportedRegions = fst ` set defaultRates" "Regions defaultRates = sort SupportedRegions"
proof -
  have "map fst defaultRates = SupportedRegions" by (simp add: defaultRates_def SupportedRegions_def)
  then show "set SupportedRegions = fst ` set defaultRates" "Regions defaultRates = sort SupportedRegions"
    by (simp_all add: Regions_def swap_sort_eq flip: set_map)
qed

lemma rates_bounded:
  "map_of defaultRates region = Some r \<Longrightarrow>
     0 < rt_vcpuMonthlyCents r \<and> rt_vcpuMonthlyCents r \<le> 4380 \<and> 0 < rt_gibMonthlyCents r \<and> rt_gibMonthlyCents r \<le> 1095"
  by (simp add: defaultRates_def split: if_splits) auto

lemma priced_exact:
  assumes "0 \<le> cents" "0 \<le> amount" "0 < replicas" "cents * amount * replicas < 2 ^ 63" "0 < unit"
  shows "priced cents amount replicas unit = cents * amount * replicas div unit"
proof -
  have "cents * amount * 1 \<le> cents * amount * replicas" using assms by (intro mult_left_mono) auto
  moreover have "0 \<le> cents * amount" "0 \<le> cents * amount * replicas" using assms by simp_all
  ultimately have "in_i64 (cents * amount)" "in_i64 (cents * amount * replicas)" using assms(4) by (auto simp: in_i64_def)
  then show ?thesis using assms by (simp add: priced_def)
qed

lemma priced_close:
  assumes "0 < unit"
  shows "of_int (n div unit) \<le> (of_int n / of_int unit :: rat)" "(of_int n / of_int unit :: rat) < of_int (n div unit) + 1"
  using floor_divide_of_int_eq[of n unit, where 'a = rat] by linarith+

text \<open>The exact price of a workload in a region, in cents.\<close>

definition exact_price :: "rate \<Rightarrow> Workload \<Rightarrow> rat" where
  "exact_price r w =
     (let n = clampReplicas (w_Replicas w); c = rl_CPU (w_Requests w); m = rl_Memory (w_Requests w)
      in (if q_Set c then of_int (rt_vcpuMonthlyCents r * q_Value c * n) / 1000 else 0) +
         (if q_Set m then of_int (rt_gibMonthlyCents r * q_Value m * n) / 2 ^ 30 else 0))"

definition price_in_range :: "Workload \<Rightarrow> bool" where
  "price_in_range w \<longleftrightarrow>
     (let n = clampReplicas (w_Replicas w)
      in 0 \<le> q_Value (rl_CPU (w_Requests w)) \<and> 4380 * q_Value (rl_CPU (w_Requests w)) * n < 2 ^ 62 \<and>
         0 \<le> q_Value (rl_Memory (w_Requests w)) \<and> 1095 * q_Value (rl_Memory (w_Requests w)) * n < 2 ^ 62)"

lemma rate_product:
  assumes "0 \<le> cents" "cents \<le> top_rate" "0 \<le> v" "0 < n" "top_rate * v * n < 2 ^ 62"
  shows "0 \<le> cents * v * n" "cents * v * n < (2 ^ 62 :: int)"
proof -
  have "cents * (v * n) \<le> top_rate * (v * n)" using assms by (intro mult_right_mono) auto
  then show "cents * v * n < 2 ^ 62" using assms(5) by (simp add: mult.assoc)
qed (use assms in simp)

text \<open>
  For a workload with quantities in range and a region of the table the estimate succeeds; it is
  never above the exact price and less than two cents below it, names what could not be priced only
  when neither request is set, and claims an accuracy band of 40 percent unless it was given one.
  An unknown region is an error exactly when there is something to price.
\<close>

lemma estimate_exact:
  assumes "er_Pricer e = NewStaticPricer"
  shows "(map_of defaultRates (er_Region e) = Some r \<and> price_in_range w \<longrightarrow>
      (\<exists>out. Estimator_Estimate e w = Inr out \<and>
         of_int (es_MonthlyUSDCents out) \<le> exact_price r w \<and> exact_price r w < of_int (es_MonthlyUSDCents out) + 2 \<and>
         (es_UnpriceableField out \<noteq> [] \<longleftrightarrow> \<not> q_Set (rl_CPU (w_Requests w)) \<and> \<not> q_Set (rl_Memory (w_Requests w))) \<and>
         es_AccuracyBandPct out = (if er_AccuracyBandPct e \<le> 0 then 40 else er_AccuracyBandPct e))) \<and>
    (map_of defaultRates (er_Region e) = None \<longrightarrow>
      ((\<exists>err. Estimator_Estimate e w = Inl err) \<longleftrightarrow> q_Set (rl_CPU (w_Requests w)) \<or> q_Set (rl_Memory (w_Requests w))))"
proof (intro conjI impI)
  assume "map_of defaultRates (er_Region e) = None"
  then show "(\<exists>err. Estimator_Estimate e w = Inl err) \<longleftrightarrow>
      q_Set (rl_CPU (w_Requests w)) \<or> q_Set (rl_Memory (w_Requests w))"
    using assms by (auto simp: Estimator_Estimate_def price_cpu_def price_memory_def NewStaticPricer_def
        static_lookup_def Let_def)
next
  assume r: "map_of defaultRates (er_Region e) = Some r \<and> price_in_range w"
  let ?c = "rl_CPU (w_Requests w)" and ?m = "rl_Memory (w_Requests w)" and ?n = "clampReplicas (w_Replicas w)"
  let ?cpu = "rt_vcpuMonthlyCents r * q_Value ?c * ?n" and ?mem = "rt_gibMonthlyCents r * q_Value ?m * ?n"
  have n: "0 < ?n" by (simp add: clampReplicas_def)
  have range: "0 \<le> q_Value ?c" "4380 * q_Value ?c * ?n < 2 ^ 62" "0 \<le> q_Value ?m" "1095 * q_Value ?m * ?n < 2 ^ 62"
    using r by (simp_all add: price_in_range_def Let_def)
  have rates: "0 < rt_vcpuMonthlyCents r" "rt_vcpuMonthlyCents r \<le> 4380" "0 < rt_gibMonthlyCents r" "rt_gibMonthlyCents r \<le> 1095"
    using rates_bounded r by auto
  have cpu: "0 \<le> ?cpu" "?cpu < 2 ^ 62" and mem: "0 \<le> ?mem" "?mem < 2 ^ 62"
    by (rule rate_product[OF less_imp_le[OF rates(1)] rates(2) range(1) n range(2)]
        rate_product[OF less_imp_le[OF rates(3)] rates(4) range(3) n range(4)])+
  have pc: "priced (rt_vcpuMonthlyCents r) (q_Value ?c) ?n 1000 = ?cpu div 1000"
    and pm: "priced (rt_gibMonthlyCents r) (q_Value ?m) ?n bytesPerGiB = ?mem div 2 ^ 30"
    using cpu mem rates range n by (simp_all add: priced_exact bytesPerGiB_def)
  have small: "0 \<le> ?cpu div 1000" "?cpu div 1000 < 2 ^ 62" "0 \<le> ?mem div 2 ^ 30" "?mem div 2 ^ 30 < 2 ^ 62"
    using cpu mem by (auto intro: le_less_trans[OF zdiv_mono2[of _ 1]] simp: pos_imp_zdiv_nonneg_iff)
  show "\<exists>out. Estimator_Estimate e w = Inr out \<and>
      of_int (es_MonthlyUSDCents out) \<le> exact_price r w \<and> exact_price r w < of_int (es_MonthlyUSDCents out) + 2 \<and>
      (es_UnpriceableField out \<noteq> [] \<longleftrightarrow> \<not> q_Set ?c \<and> \<not> q_Set ?m) \<and>
      es_AccuracyBandPct out = (if er_AccuracyBandPct e \<le> 0 then 40 else er_AccuracyBandPct e)"
    using assms r small priced_close[of 1000 ?cpu] priced_close[of "2 ^ 30" ?mem]
    by (simp add: Estimator_Estimate_def price_cpu_def price_memory_def NewStaticPricer_def static_lookup_def
        pc pm exact_price_def in_i64_def Let_def)
qed


definition priced_workload :: Workload where
  "priced_workload =
     \<lparr>w_Name = ''web'', w_Kind = [], w_Requests = \<lparr>rl_CPU = \<lparr>q_Value = 250, q_Set = True, q_Original = ''250m''\<rparr>,
        rl_Memory = \<lparr>q_Value = 536870912, q_Set = True, q_Original = ''512Mi''\<rparr>\<rparr>, w_Limits = empty_resources,
      w_Image = empty_image, w_Replicas = 3, w_HasHPA = False, w_Security = empty_security\<rparr>"

theorem estimate_exact_witness:
  "\<exists>out. Estimator_Estimate \<lparr>er_Pricer = NewStaticPricer, er_Region = ''us-east-1'', er_AccuracyBandPct = 0\<rparr> priced_workload = Inr out \<and>
     of_int (es_MonthlyUSDCents out) \<le> (3942 :: rat) \<and> 3942 < (of_int (es_MonthlyUSDCents out) + 2 :: rat) \<and>
     es_AccuracyBandPct out = 40"
proof -
  let ?e = "\<lparr>er_Pricer = NewStaticPricer, er_Region = ''us-east-1'', er_AccuracyBandPct = 0\<rparr>"
    and ?r = "\<lparr>rt_vcpuMonthlyCents = 3504, rt_gibMonthlyCents = 876\<rparr>"
  have "map_of defaultRates (er_Region ?e) = Some ?r" by (simp add: defaultRates_def)
  moreover have "price_in_range priced_workload" "exact_price ?r priced_workload = 3942"
    by (simp_all add: price_in_range_def exact_price_def priced_workload_def clampReplicas_def)
  ultimately show ?thesis using estimate_exact[of ?e ?r priced_workload] by auto
qed

text \<open>Every detector with a compliance control is a registered detector of the security section.\<close>

lemma controls_security: "Has d \<Longrightarrow> \<exists>det \<in> set All. d_ID det = d \<and> d_Category det = CategorySecurity"
  unfolding Has_def cis_mapping_def
  by (auto simp: All_def security_detector_defs cost_detector_defs split: if_splits)

text \<open>A window of less than an hour asks Prometheus for a range of zero hours.\<close>

lemma windowExpr_short: "0 < d \<Longrightarrow> d < 3600 * 10 ^ 9 \<Longrightarrow> windowExpr d = ''0h''"
  by (simp add: windowExpr_def nanoseconds_def oom_itoa_def)

text \<open>The in-memory client returns what was set last, and counts nothing else.\<close>

lemma InMemoryClient_roundtrip:
  "InMemoryClient_Count (InMemoryClient_Set c q n) q' t = (if q' = q then Inr n else InMemoryClient_Count c q' t)"
  by (simp add: InMemoryClient_Count_def InMemoryClient_Set_def AList.update_conv')

end
