(* ===== verification/Prom_Cache.thy ===== *)
theory Prom_Cache
  imports Go_Float Go_Time "HOL-Library.AList"
begin

text \<open>
  \<^verbatim>\<open>agent/prom/cache.go\<close>: the cache in front of a Prometheus client. Callers of the same query share
  one request: the first becomes the leader, the others wait for its answer, and the answer is kept
  until it expires. The type of answers is left open, so both kinds of query are covered. The
  mutex makes \<open>acquire\<close> and \<open>release\<close> atomic; everything between them interleaves. A Go map is an
  association list here, and where the code ranges over it any order of the list may come up.
\<close>

section \<open>Operations\<close>

record 'r cacheEntry =
  ce_expiresAt :: instant
  ce_answer :: 'r

record 'r CachingClient =
  cc_InstantTTL :: duration
  cc_RangeTTL :: duration
  cc_MaxEntries :: i64
  cc_entries :: "(string \<times> 'r cacheEntry) list"
  cc_inflight :: "(string \<times> nat) list"

definition NewCachingClient :: "duration \<Rightarrow> duration \<Rightarrow> 'r CachingClient" where
  "NewCachingClient instantTTL rangeTTL =
     \<lparr>cc_InstantTTL = (if instantTTL \<le> 0 then 60 * 1000000000 else instantTTL),
      cc_RangeTTL = (if rangeTTL \<le> 0 then 24 * 3600 * 1000000000 else rangeTTL),
      cc_MaxEntries = 1024, cc_entries = [], cc_inflight = []\<rparr>"

datatype 'r acquired = Hit 'r | Join nat | Lead nat

text \<open>\<open>n\<close> is the identity of the call object that a new leader allocates.\<close>

definition acquire :: "nat \<Rightarrow> instant \<Rightarrow> string \<Rightarrow> 'r CachingClient \<Rightarrow> 'r CachingClient \<times> 'r acquired" where
  "acquire n now key c =
     (case map_of (cc_entries c) key of
        Some e \<Rightarrow>
          if \<not> now > ce_expiresAt e then (c, Hit (ce_answer e))
          else let c = c\<lparr>cc_entries := AList.delete key (cc_entries c)\<rparr>
               in (case map_of (cc_inflight c) key of
                     Some existing \<Rightarrow> (c, Join existing)
                   | None \<Rightarrow> (c\<lparr>cc_inflight := AList.update key n (cc_inflight c)\<rparr>, Lead n))
      | None \<Rightarrow>
          (case map_of (cc_inflight c) key of
             Some existing \<Rightarrow> (c, Join existing)
           | None \<Rightarrow> (c\<lparr>cc_inflight := AList.update key n (cc_inflight c)\<rparr>, Lead n)))"

fun oldest_loop :: "string \<Rightarrow> instant \<Rightarrow> (string \<times> 'r cacheEntry) list \<Rightarrow> string" where
  "oldest_loop oldestKey oldest [] = oldestKey"
| "oldest_loop oldestKey oldest ((k, v) # es) =
     (if oldestKey = [] \<or> ce_expiresAt v < oldest then oldest_loop k (ce_expiresAt v) es
      else oldest_loop oldestKey oldest es)"

definition storeLocked :: "string \<Rightarrow> 'r cacheEntry \<Rightarrow> 'r CachingClient \<Rightarrow> 'r CachingClient" where
  "storeLocked key e c =
     (let es = cc_entries c;
          es = (if int (length es) \<ge> cc_MaxEntries c
                then let oldestKey = oldest_loop [] 0 es
                     in if oldestKey \<noteq> [] then AList.delete oldestKey es else es
                else es)
      in c\<lparr>cc_entries := AList.update key e es\<rparr>)"

definition release :: "string \<Rightarrow> 'r cacheEntry \<Rightarrow> 'r CachingClient \<Rightarrow> 'r CachingClient" where
  "release key e c = storeLocked key e (c\<lparr>cc_inflight := AList.delete key (cc_inflight c)\<rparr>)"

text \<open>
  Keys. \<open>None\<close> is the runtime panic of a division by zero; the number of whole seconds of a duration
  goes through a floating point value.
\<close>

definition duration_seconds :: "duration \<Rightarrow> f64" where
  "duration_seconds d =
     f64_add (f64_of_int (d sdiv 1000000000)) (f64_div (f64_of_int (d smod 1000000000)) (Fin 1000000000))"

definition instant_seconds :: "instant \<Rightarrow> int" where
  "instant_seconds t = t div 1000000000"

definition bucketKey :: "(f64 \<Rightarrow> i64) \<Rightarrow> (int \<Rightarrow> string) \<Rightarrow> instant \<Rightarrow> duration \<Rightarrow> string option" where
  "bucketKey conv rfc3339 t ttl =
     (if ttl \<le> 0 then Some (rfc3339 (instant_seconds t))
      else let n = f64_to_i64 conv (duration_seconds ttl)
           in if n = 0 then None
              else Some (rfc3339 (instant_seconds (unix_time (wrap64 (Unix t - Unix t smod n)) 0))))"

definition query_key :: "(f64 \<Rightarrow> i64) \<Rightarrow> (int \<Rightarrow> string) \<Rightarrow> 'r CachingClient \<Rightarrow> string \<Rightarrow> instant \<Rightarrow> string option" where
  "query_key conv rfc3339 c promql t =
     map_option (\<lambda>b. ''q:'' @ promql @ ''@'' @ b) (bucketKey conv rfc3339 t (cc_InstantTTL c))"

definition query_range_key :: "(int \<Rightarrow> string) \<Rightarrow> string \<Rightarrow> instant \<Rightarrow> instant \<Rightarrow> duration \<Rightarrow> string" where
  "query_range_key rfc3339 promql start finish stp =
     ''qr:'' @ promql @ ''|'' @ rfc3339 (instant_seconds start) @ ''|'' @ rfc3339 (instant_seconds finish) @ ''|'' @ duration_string stp"

section \<open>Concurrent callers\<close>

text \<open>
  A world of callers: the cache, the calls that are finished with their answers, the leaders that
  are out with the client, and the callers that wait for a call.
\<close>

record 'r world =
  wd_cache :: "'r CachingClient"
  wd_next :: nat
  wd_done :: "nat \<Rightarrow> 'r option"
  wd_leading :: "(string \<times> nat) list"
  wd_waiting :: "nat list"

definition initial :: "'r CachingClient \<Rightarrow> 'r world" where
  "initial c = \<lparr>wd_cache = c, wd_next = 0, wd_done = Map.empty, wd_leading = [], wd_waiting = []\<rparr>"

datatype 'r cache_action = Acquire string "'r acquired" | Release string nat 'r | Wake nat 'r

inductive step :: "'r world \<Rightarrow> 'r cache_action \<Rightarrow> 'r world \<Rightarrow> bool" where
  hit: "\<lbrakk>key \<noteq> []; acquire (wd_next w) now key (wd_cache w) = (c, Hit r)\<rbrakk>
     \<Longrightarrow> step w (Acquire key (Hit r)) (w\<lparr>wd_cache := c\<rparr>)"
| join: "\<lbrakk>key \<noteq> []; acquire (wd_next w) now key (wd_cache w) = (c, Join i)\<rbrakk>
     \<Longrightarrow> step w (Acquire key (Join i)) (w\<lparr>wd_cache := c, wd_waiting := i # wd_waiting w\<rparr>)"
| lead: "\<lbrakk>key \<noteq> []; acquire (wd_next w) now key (wd_cache w) = (c, Lead i)\<rbrakk>
     \<Longrightarrow> step w (Acquire key (Lead i))
           (w\<lparr>wd_cache := c, wd_next := Suc (wd_next w), wd_leading := (key, i) # wd_leading w\<rparr>)"
| finish: "\<lbrakk>(key, i) \<in> set (wd_leading w); mset es = mset (cc_entries (wd_cache w))\<rbrakk>
     \<Longrightarrow> step w (Release key i r)
           (w\<lparr>wd_cache := release key \<lparr>ce_expiresAt = t, ce_answer = r\<rparr> ((wd_cache w)\<lparr>cc_entries := es\<rparr>),
              wd_done := (wd_done w)(i \<mapsto> r), wd_leading := remove1 (key, i) (wd_leading w)\<rparr>)"
| wake: "\<lbrakk>i \<in> set (wd_waiting w); wd_done w i = Some r\<rbrakk>
     \<Longrightarrow> step w (Wake i r) (w\<lparr>wd_waiting := remove1 i (wd_waiting w)\<rparr>)"

inductive_cases stepE: "step w a w'"

inductive reaches :: "'r world \<Rightarrow> 'r world \<Rightarrow> bool" where
  refl: "reaches w w"
| trans: "reaches w w' \<Longrightarrow> step w' a w'' \<Longrightarrow> reaches w w''"

section \<open>The invariant\<close>

text \<open>The keys of an association list, and how the operations change them.\<close>

abbreviation keys :: "(string \<times> 'b) list \<Rightarrow> string list" where
  "keys es \<equiv> map fst es"

lemma keys_fresh: "k \<notin> set (keys es) \<Longrightarrow> AList.update k v es = es @ [(k, v)]"
  by (induction es) auto

lemma length_removeAll: "distinct ks \<Longrightarrow> k \<in> set ks \<Longrightarrow> Suc (length (removeAll k ks)) = length ks"
  by (simp add: distinct_remove1_removeAll[symmetric] length_remove1)
    (metis Suc_pred length_pos_if_in_set)

lemma length_delete:
  "distinct (keys es) \<Longrightarrow> k \<in> set (keys es) \<Longrightarrow> Suc (length (AList.delete k es)) = length es"
  using length_removeAll[of "keys es" k] by (metis AList.delete_keys length_map)

lemma mset_delete:
  "distinct (keys es) \<Longrightarrow> (k, v) \<in> set es \<Longrightarrow> mset (AList.delete k es) = mset es - {#(k, v)#}"
proof (induction es)
  case (Cons x es)
  show ?case
  proof (cases "x = (k, v)")
    case True
    with Cons.prems have "k \<notin> set (keys es)" by simp
    then have "AList.delete k es = es" by (simp add: AList.delete_id)
    with True show ?thesis by simp
  next
    case False
    with Cons.prems have "fst x \<noteq> k" by (force simp: image_iff)
    with False Cons show ?thesis by (cases x) auto
  qed
qed simp

text \<open>The key the loop ends with has the least expiry of all entries.\<close>

lemma oldest_loop_least:
  assumes "k0 \<noteq> []" "[] \<notin> set (keys es)"
  shows "\<exists>v. (oldest_loop k0 t0 es, v) \<in> insert (k0, t0) ((\<lambda>(k, e). (k, ce_expiresAt e)) ` set es) \<and>
    v \<le> t0 \<and> (\<forall>x \<in> set es. v \<le> ce_expiresAt (snd x))"
  using assms
proof (induction es arbitrary: k0 t0)
  case (Cons x es)
  obtain k e where x: "x = (k, e)" by (cases x)
  define k1 t1 where "k1 = (if ce_expiresAt e < t0 then k else k0)" and "t1 = min (ce_expiresAt e) t0"
  have loop: "oldest_loop k0 t0 (x # es) = oldest_loop k1 t1 es"
    using Cons.prems by (simp add: x k1_def t1_def)
  have "k1 \<noteq> []" "[] \<notin> set (keys es)" using Cons.prems by (auto simp: x k1_def)
  from Cons.IH[OF this, of t1] obtain v where
    v: "(oldest_loop k1 t1 es, v) \<in> insert (k1, t1) ((\<lambda>(k, e). (k, ce_expiresAt e)) ` set es)"
      "v \<le> t1" "\<forall>x \<in> set es. v \<le> ce_expiresAt (snd x)" by blast
  have "(k1, t1) \<in> insert (k0, t0) ((\<lambda>(k, e). (k, ce_expiresAt e)) ` set (x # es))"
    by (simp add: x k1_def t1_def)
  with v show ?case unfolding loop by (intro exI[of _ v]) (auto simp: x t1_def)
qed simp

lemma oldest_is_least:
  assumes "es \<noteq> []" "[] \<notin> set (keys es)"
  shows "\<exists>e. (oldest_loop [] 0 es, e) \<in> set es \<and> (\<forall>x \<in> set es. ce_expiresAt e \<le> ce_expiresAt (snd x))"
proof -
  obtain k e rest where es: "es = (k, e) # rest" using assms(1) by (cases es) auto
  then have "k \<noteq> []" "[] \<notin> set (keys rest)" using assms(2) by auto
  moreover have loop: "oldest_loop [] 0 es = oldest_loop k (ce_expiresAt e) rest" by (simp add: es)
  ultimately obtain v where
    "(oldest_loop [] 0 es, v) \<in> insert (k, ce_expiresAt e) ((\<lambda>(k, e). (k, ce_expiresAt e)) ` set rest)"
    "v \<le> ce_expiresAt e" "\<forall>x \<in> set rest. v \<le> ce_expiresAt (snd x)"
    using oldest_loop_least[of k rest "ce_expiresAt e"] unfolding loop by blast
  then show ?thesis by (auto simp: es)
qed

definition cache_ok :: "'r CachingClient \<Rightarrow> bool" where
  "cache_ok c \<longleftrightarrow>
     1 \<le> cc_MaxEntries c \<and> int (length (cc_entries c)) \<le> cc_MaxEntries c \<and>
     distinct (keys (cc_entries c)) \<and> distinct (keys (cc_inflight c)) \<and>
     [] \<notin> set (keys (cc_entries c)) \<and> [] \<notin> set (keys (cc_inflight c)) \<and>
     set (keys (cc_entries c)) \<inter> set (keys (cc_inflight c)) = {}"

lemma storeLocked_entries:
  assumes "distinct (keys (cc_entries c))" "[] \<notin> set (keys (cc_entries c))" "key \<notin> set (keys (cc_entries c))"
    "1 \<le> cc_MaxEntries c" "int (length (cc_entries c)) \<le> cc_MaxEntries c"
  shows "\<exists>ks. keys (cc_entries (storeLocked key e c)) = ks @ [key] \<and> set ks \<subseteq> set (keys (cc_entries c)) \<and>
    distinct ks \<and> int (length ks) + 1 \<le> cc_MaxEntries c"
proof (cases "int (length (cc_entries c)) \<ge> cc_MaxEntries c")
  case True
  define k where "k = oldest_loop [] 0 (cc_entries c)"
  have "cc_entries c \<noteq> []" using True assms(4) by auto
  then obtain x where "(k, x) \<in> set (cc_entries c)" using oldest_is_least[of "cc_entries c"] assms(2) unfolding k_def by blast
  then have k: "k \<in> set (keys (cc_entries c))" by force
  with assms(2) have "k \<noteq> []" by metis
  then have "keys (cc_entries (storeLocked key e c)) = removeAll k (keys (cc_entries c)) @ [key]"
    using True assms(3) by (simp add: storeLocked_def Let_def AList.update_keys AList.delete_keys flip: k_def)
  with length_removeAll[OF assms(1) k] assms(1,5) show ?thesis
    by (intro exI[of _ "removeAll k (keys (cc_entries c))"]) (auto simp: distinct_removeAll)
next
  case False
  then show ?thesis using assms by (simp add: storeLocked_def Let_def AList.update_keys)
qed

lemma release_fields:
  "cc_inflight (release key e c) = AList.delete key (cc_inflight c)"
  "cc_MaxEntries (release key e c) = cc_MaxEntries c"
  "cc_entries (release key e c) = cc_entries (storeLocked key e c)"
  by (simp_all add: release_def storeLocked_def Let_def)

lemma release_ok:
  assumes "cache_ok c" "key \<in> set (keys (cc_inflight c))"
  shows "cache_ok (release key e c)"
proof -
  have key: "key \<notin> set (keys (cc_entries c))" "key \<noteq> []" using assms unfolding cache_ok_def by (blast, metis)
  with assms(1) storeLocked_entries[of c key e] obtain ks where
    "keys (cc_entries (release key e c)) = ks @ [key]" "set ks \<subseteq> set (keys (cc_entries c))" "distinct ks"
      "int (length ks) + 1 \<le> cc_MaxEntries c"
    unfolding cache_ok_def release_fields by blast
  moreover from this(1) have "length (cc_entries (release key e c)) = length ks + 1"
    by (metis length_append_singleton length_map Suc_eq_plus1)
  moreover have "keys (cc_inflight (release key e c)) = removeAll key (keys (cc_inflight c))"
    by (simp add: release_fields AList.delete_keys)
  ultimately show ?thesis
    using assms(1) key unfolding cache_ok_def release_fields(2) by (auto simp: distinct_removeAll)
qed

lemma acquire_cases:
  assumes "acquire n now key c = (c', out)"
  obtains (hit) e where "c' = c" "out = Hit (ce_answer e)" "map_of (cc_entries c) key = Some e" "now \<le> ce_expiresAt e"
  | (join) i where "c' = c\<lparr>cc_entries := AList.delete key (cc_entries c)\<rparr>" "out = Join i" "map_of (cc_inflight c) key = Some i"
  | (lead) "c' = c\<lparr>cc_entries := AList.delete key (cc_entries c), cc_inflight := AList.update key n (cc_inflight c)\<rparr>"
      "out = Lead n" "key \<notin> set (keys (cc_inflight c))"
proof -
  have "map_of (cc_entries c) key = None \<Longrightarrow> AList.delete key (cc_entries c) = cc_entries c"
    by (simp add: AList.delete_id map_of_eq_None_iff)
  moreover have "c\<lparr>cc_entries := cc_entries c\<rparr> = c" by simp
  ultimately show ?thesis
    using assms that
    by (auto simp: acquire_def Let_def map_of_eq_None_iff not_less split: option.splits if_splits)
qed

lemma acquire_ok:
  assumes "cache_ok c" "key \<noteq> []" "acquire n now key c = (c', out)"
  shows "cache_ok c'"
  using assms(3)
proof (cases rule: acquire_cases)
  case (join i)
  have "length (AList.delete key (cc_entries c)) \<le> length (cc_entries c)" by (rule AList.length_delete_le)
  with join assms(1) show ?thesis by (auto simp: cache_ok_def AList.delete_keys distinct_removeAll)
next
  case lead
  have "length (AList.delete key (cc_entries c)) \<le> length (cc_entries c)" by (rule AList.length_delete_le)
  with lead assms(1,2) show ?thesis by (auto simp: cache_ok_def AList.delete_keys AList.update_keys distinct_removeAll)
qed (simp add: assms(1))

definition calls_ok :: "'r world \<Rightarrow> bool" where
  "calls_ok w \<longleftrightarrow>
     mset (wd_leading w) = mset (cc_inflight (wd_cache w)) \<and>
     (\<forall>(key, i) \<in> set (wd_leading w). i < wd_next w \<and> wd_done w i = None) \<and>
     (\<forall>i \<ge> wd_next w. wd_done w i = None) \<and>
     distinct (map snd (wd_leading w)) \<and>
     (\<forall>i \<in> set (wd_waiting w). i \<in> snd ` set (wd_leading w) \<or> wd_done w i \<noteq> None)"

definition world_ok :: "'r world \<Rightarrow> bool" where
  "world_ok w \<longleftrightarrow> cache_ok (wd_cache w) \<and> calls_ok w"

lemma initial_ok: "world_ok (initial (NewCachingClient a b))"
  by (simp add: world_ok_def cache_ok_def calls_ok_def initial_def NewCachingClient_def)

lemma leading_set: "calls_ok w \<Longrightarrow> set (wd_leading w) = set (cc_inflight (wd_cache w))"
  unfolding calls_ok_def by (metis mset_eq_setD)

lemma step_ok_acquire:
  assumes "world_ok w" "key \<noteq> []" "acquire (wd_next w) now key (wd_cache w) = (c, out)"
  shows "out = Hit r \<Longrightarrow> world_ok (w\<lparr>wd_cache := c\<rparr>)"
    "out = Join i \<Longrightarrow> world_ok (w\<lparr>wd_cache := c, wd_waiting := i # wd_waiting w\<rparr>)"
    "out = Lead i \<Longrightarrow> world_ok (w\<lparr>wd_cache := c, wd_next := Suc (wd_next w), wd_leading := (key, i) # wd_leading w\<rparr>)"
proof -
  have c: "cache_ok c" using acquire_ok[OF _ assms(2,3)] assms(1) by (simp add: world_ok_def)
  have w: "calls_ok w" using assms(1) by (simp add: world_ok_def)
  show "world_ok (w\<lparr>wd_cache := c\<rparr>)" if "out = Hit r"
    using assms(3) c w that by (cases rule: acquire_cases) (auto simp: world_ok_def calls_ok_def)
  show "world_ok (w\<lparr>wd_cache := c, wd_waiting := i # wd_waiting w\<rparr>)" if out: "out = Join i"
    using assms(3)
  proof (cases rule: acquire_cases)
    case (join j)
    then have "(key, i) \<in> set (wd_leading w)" using leading_set[OF w] out by (auto dest: map_of_SomeD)
    then have "i \<in> snd ` set (wd_leading w)" by force
    with join c w show ?thesis by (auto simp: world_ok_def calls_ok_def)
  qed (use out in auto)
  show "world_ok (w\<lparr>wd_cache := c, wd_next := Suc (wd_next w), wd_leading := (key, i) # wd_leading w\<rparr>)"
    if out: "out = Lead i"
    using assms(3)
  proof (cases rule: acquire_cases)
    case lead
    then have "mset (cc_inflight c) = add_mset (key, i) (mset (cc_inflight (wd_cache w)))" using out by (simp add: keys_fresh)
    moreover have "wd_next w \<notin> snd ` set (wd_leading w)" using w by (auto simp: calls_ok_def)
    ultimately show ?thesis using lead out c w by (fastforce simp: world_ok_def calls_ok_def)
  qed (use out in auto)
qed

lemma step_ok_release:
  assumes "world_ok w" "(key, i) \<in> set (wd_leading w)" "mset es = mset (cc_entries (wd_cache w))"
  shows "world_ok (w\<lparr>wd_cache := release key e ((wd_cache w)\<lparr>cc_entries := es\<rparr>),
    wd_done := (wd_done w)(i \<mapsto> r), wd_leading := remove1 (key, i) (wd_leading w)\<rparr>)"
proof -
  let ?c = "(wd_cache w)\<lparr>cc_entries := es\<rparr>"
  have w: "calls_ok w" and c: "cache_ok (wd_cache w)" using assms(1) by (simp_all add: world_ok_def)
  have inflight: "(key, i) \<in> set (cc_inflight (wd_cache w))" using assms(2) leading_set[OF w] by simp
  have "mset (keys es) = mset (keys (cc_entries (wd_cache w)))" using assms(3) by simp
  from mset_eq_setD[OF this] mset_eq_imp_distinct_iff[OF this]
  have same: "set (keys es) = set (keys (cc_entries (wd_cache w)))"
    "distinct (keys es) = distinct (keys (cc_entries (wd_cache w)))" "length es = length (cc_entries (wd_cache w))"
    using mset_eq_length[OF assms(3)] by simp_all
  have "cache_ok ?c" using c same unfolding cache_ok_def by simp
  then have "cache_ok (release key e ?c)" using release_ok[of ?c key e] inflight by force
  moreover have "mset (remove1 (key, i) (wd_leading w)) = mset (AList.delete key (cc_inflight (wd_cache w)))"
    using w mset_delete[OF _ inflight] c by (simp add: calls_ok_def cache_ok_def)
  moreover have "distinct (wd_leading w)" using w unfolding calls_ok_def by (metis distinct_map)
  then have lead: "set (remove1 (key, i) (wd_leading w)) = set (wd_leading w) - {(key, i)}" by simp
  moreover have fresh: "i \<notin> snd ` (set (wd_leading w) - {(key, i)})"
    using w assms(2) unfolding calls_ok_def distinct_map by (force simp: inj_on_def)
  moreover have "distinct (map snd (remove1 (key, i) (wd_leading w)))"
    using w \<open>distinct (wd_leading w)\<close> unfolding calls_ok_def distinct_map lead
    by (auto intro: inj_on_subset)
  moreover have "j < wd_next w \<and> ((wd_done w)(i \<mapsto> r)) j = None"
    if kj: "(k, j) \<in> set (wd_leading w) - {(key, i)}" for k j
  proof -
    have "j \<noteq> i" using fresh kj by force
    moreover have "j < wd_next w \<and> wd_done w j = None" using w kj by (force simp: calls_ok_def)
    ultimately show ?thesis by simp
  qed
  then have "\<forall>(k, j) \<in> set (wd_leading w) - {(key, i)}. j < wd_next w \<and> ((wd_done w)(i \<mapsto> r)) j = None"
    by blast
  moreover have "i < wd_next w" using w assms(2) by (force simp: calls_ok_def)
  then have "\<forall>j \<ge> wd_next w. ((wd_done w)(i \<mapsto> r)) j = None" using w by (simp add: calls_ok_def)
  moreover have "j \<in> snd ` (set (wd_leading w) - {(key, i)}) \<or> ((wd_done w)(i \<mapsto> r)) j \<noteq> None"
    if j: "j \<in> set (wd_waiting w)" for j
  proof (cases "j = i \<or> wd_done w j \<noteq> None")
    case False
    then have "j \<in> snd ` set (wd_leading w)" using w j by (auto simp: calls_ok_def)
    then obtain k where "(k, j) \<in> set (wd_leading w) - {(key, i)}" using False by force
    then show ?thesis by (metis image_eqI snd_conv)
  qed auto
  ultimately show ?thesis
    unfolding world_ok_def calls_ok_def by (simp add: release_fields(1))
qed

lemma step_ok: "step w a w' \<Longrightarrow> world_ok w \<Longrightarrow> world_ok w'"
proof (induction rule: step.induct)
  case (hit key w now c r)
  then show ?case using step_ok_acquire(1) by metis
next
  case (join key w now c i)
  then show ?case using step_ok_acquire(2) by metis
next
  case (lead key w now c i)
  then show ?case using step_ok_acquire(3) by metis
next
  case (finish key i w es r t)
  then show ?case using step_ok_release by metis
next
  case (wake i w r)
  then show ?case by (auto simp: world_ok_def calls_ok_def dest: set_remove1_subset[THEN subsetD])
qed

lemma reaches_ok: "reaches w w' \<Longrightarrow> world_ok w \<Longrightarrow> world_ok w'"
  by (induction rule: reaches.induct) (auto dest: step_ok)

section \<open>Properties of the cache\<close>

lemma acquire_max: "cc_MaxEntries (fst (acquire n now key c)) = cc_MaxEntries c"
  by (simp add: acquire_def Let_def split: option.split)

lemma step_max: "step w a w' \<Longrightarrow> cc_MaxEntries (wd_cache w') = cc_MaxEntries (wd_cache w)"
  by (erule step.cases) (auto simp: release_fields dest: arg_cong[of _ _ "\<lambda>x. cc_MaxEntries (fst x)"] simp: acquire_max)

lemma reaches_max: "reaches w w' \<Longrightarrow> cc_MaxEntries (wd_cache w') = cc_MaxEntries (wd_cache w)"
  by (induction rule: reaches.induct) (auto dest: step_max)

lemma reached_ok: "reaches (initial (NewCachingClient a b)) w \<Longrightarrow> world_ok w"
  using reaches_ok initial_ok by blast

text \<open>An answer is found under its key until it expires, whatever the store had to evict.\<close>

lemma release_acquire:
  "now \<le> ce_expiresAt e \<Longrightarrow> acquire n now key (release key e c) = (release key e c, Hit (ce_answer e))"
  by (simp add: acquire_def release_def storeLocked_def Let_def AList.update_conv)

text \<open>
  C18. In every reachable state, however callers interleave, no key has two leaders, a key with a
  leader has no entry, the entries have distinct keys and there are at most 1024 of them.
\<close>

theorem single_flight:
  assumes "reaches (initial (NewCachingClient a b)) w"
  shows "distinct (map fst (wd_leading w)) \<and>
    fst ` set (wd_leading w) \<inter> fst ` set (cc_entries (wd_cache w)) = {} \<and>
    distinct (map fst (cc_entries (wd_cache w))) \<and> length (cc_entries (wd_cache w)) \<le> 1024"
proof -
  have ok: "cache_ok (wd_cache w)" "calls_ok w" using reached_ok[OF assms] by (simp_all add: world_ok_def)
  have "mset (map fst (wd_leading w)) = mset (keys (cc_inflight (wd_cache w)))"
    using ok(2) by (simp add: calls_ok_def)
  then have "distinct (map fst (wd_leading w))" using ok(1) mset_eq_imp_distinct_iff unfolding cache_ok_def by metis
  moreover have "cc_MaxEntries (wd_cache w) = 1024"
    using reaches_max[OF assms] by (simp add: initial_def NewCachingClient_def)
  ultimately show ?thesis using ok leading_set[OF ok(2)] unfolding cache_ok_def by auto
qed

text \<open>
  C19. No waiter is left behind: in every reachable state the call a caller waits for has its answer,
  and the caller can go on with it, or its leader is still out, and whatever answer the leader comes
  back with, the caller can go on with exactly that answer right afterwards.
\<close>

theorem waiters_return:
  assumes "reaches (initial (NewCachingClient a b)) w" "i \<in> set (wd_waiting w)"
  shows "(\<exists>r w'. wd_done w i = Some r \<and> step w (Wake i r) w') \<or>
    (\<exists>key. (key, i) \<in> set (wd_leading w) \<and> (\<forall>r. \<exists>w1 w2. step w (Release key i r) w1 \<and> step w1 (Wake i r) w2))"
proof (cases "wd_done w i")
  case None
  then obtain key where key: "(key, i) \<in> set (wd_leading w)"
    using reached_ok[OF assms(1)] assms(2) by (force simp: world_ok_def calls_ok_def)
  have "\<exists>w1 w2. step w (Release key i r) w1 \<and> step w1 (Wake i r) w2" for r
  proof -
    let ?w1 = "w\<lparr>wd_cache := release key \<lparr>ce_expiresAt = 0, ce_answer = r\<rparr> ((wd_cache w)\<lparr>cc_entries := cc_entries (wd_cache w)\<rparr>),
      wd_done := (wd_done w)(i \<mapsto> r), wd_leading := remove1 (key, i) (wd_leading w)\<rparr>"
    have "step w (Release key i r) ?w1" using key by (rule step.finish) simp
    moreover have "step ?w1 (Wake i r) (?w1\<lparr>wd_waiting := remove1 i (wd_waiting ?w1)\<rparr>)"
      by (rule step.wake) (simp_all add: assms(2))
    ultimately show ?thesis by blast
  qed
  with key show ?thesis by blast
next
  case (Some r)
  with assms(2) have "step w (Wake i r) (w\<lparr>wd_waiting := remove1 i (wd_waiting w)\<rparr>)" by (intro step.wake)
  with Some show ?thesis by blast
qed

text \<open>Two callers of one query: the first leads, the second waits for it.\<close>

definition two_callers :: "nat world" where
  "two_callers = \<lparr>wd_cache = (NewCachingClient 0 0)\<lparr>cc_inflight := [(''q'', 0)]\<rparr>, wd_next = 1,
     wd_done = Map.empty, wd_leading = [(''q'', 0)], wd_waiting = [0]\<rparr>"

lemma two_callers_reached: "reaches (initial (NewCachingClient 0 0)) two_callers"
proof -
  let ?w0 = "initial (NewCachingClient 0 0) :: nat world"
  let ?c = "(NewCachingClient 0 0)\<lparr>cc_inflight := [(''q'', 0)]\<rparr> :: nat CachingClient"
  let ?w1 = "?w0\<lparr>wd_cache := ?c, wd_next := Suc (wd_next ?w0), wd_leading := (''q'', 0) # wd_leading ?w0\<rparr>"
  have s1: "step ?w0 (Acquire ''q'' (Lead 0)) ?w1"
    by (rule step.lead[where now = 0]) (simp_all add: acquire_def initial_def NewCachingClient_def)
  have s2: "step ?w1 (Acquire ''q'' (Join 0)) (?w1\<lparr>wd_cache := ?c, wd_waiting := 0 # wd_waiting ?w1\<rparr>)"
    by (rule step.join[where now = 0]) (simp_all add: acquire_def NewCachingClient_def)
  have "two_callers = ?w1\<lparr>wd_cache := ?c, wd_waiting := 0 # wd_waiting ?w1\<rparr>"
    by (simp add: two_callers_def initial_def)
  then show ?thesis using reaches.trans[OF reaches.trans[OF reaches.refl s1] s2] by (simp only:)
qed

theorem single_flight_witness: "distinct (map fst (wd_leading two_callers)) \<and> wd_leading two_callers \<noteq> []"
  using single_flight[OF two_callers_reached] by (simp add: two_callers_def)

theorem waiters_return_witness:
  "\<exists>key. (key, 0) \<in> set (wd_leading two_callers) \<and>
    (\<forall>r. \<exists>w1 w2. step two_callers (Release key 0 r) w1 \<and> step w1 (Wake 0 r) w2)"
proof -
  have "0 \<in> set (wd_waiting two_callers)" "wd_done two_callers 0 = None" by (simp_all add: two_callers_def)
  with waiters_return[OF two_callers_reached, of 0] show ?thesis by simp
qed

text \<open>With a lifetime below a second the key of an instant query divides by zero.\<close>

lemma short_ttl_panics: "bucketKey conv rfc3339 t 500000000 = None"
proof -
  have r: "round64 (1 / 2) = 1 / 2" using round64_exact[of 1 "- 1"] by (simp add: power_int_minus)
  have le: "1 / 2 \<le> (2 powi 1000 :: rat)" using powi2_le_iff[of "- 1" 1000] by (simp add: power_int_minus)
  have "f64_div (f64_of_int 500000000) (Fin 1000000000) = Fin (1 / 2)"
    using le by (simp add: to_f64_Fin r)
  then have "duration_seconds 500000000 = Fin (1 / 2)"
    using le by (simp add: duration_seconds_def to_f64_Fin r)
  moreover have "\<lfloor>1 / 2 :: rat\<rfloor> = 0" by (simp add: floor_eq_iff)
  ultimately show ?thesis by (simp add: bucketKey_def f64_to_i64_def rat_trunc_def in_i64_def Let_def)
qed

end
