(* ===== verification/Go_Base64.thy ===== *)
theory Go_Base64
  imports Go_Strings
begin

text \<open>
  Go's \<^verbatim>\<open>encoding/base64\<close> as the signed tokens and the receipts use it: \<open>RawURLEncoding\<close>, the URL
  alphabet without padding. A byte slice is a \<^typ>\<open>string\<close>. The decoder is the library's lenient one:
  line feeds and carriage returns are skipped wherever they stand, an \<open>=\<close> or any other character
  outside the alphabet is an error, a group of one character is an error, and the unused low bits of
  a last group of two or three characters are ignored. \<open>None\<close> is a \<open>CorruptInputError\<close>.
\<close>

definition b64_alphabet :: string where
  "b64_alphabet = ''ABCDEFGHIJKLMNOPQRSTUVWXYZabcdefghijklmnopqrstuvwxyz0123456789-_''"

definition b64_char :: "nat \<Rightarrow> char" where
  "b64_char n = b64_alphabet ! n"

definition b64_val :: "char \<Rightarrow> nat option" where
  "b64_val c = index_of [c] b64_alphabet"

abbreviation byte :: "char \<Rightarrow> nat" where
  "byte c \<equiv> of_char c"

fun EncodeToString :: "string \<Rightarrow> string" where
  "EncodeToString [] = []"
| "EncodeToString [a] = (let v = byte a * 16 in [b64_char (v div 64), b64_char (v mod 64)])"
| "EncodeToString [a, b] =
     (let v = (byte a * 256 + byte b) * 4
      in [b64_char (v div 4096), b64_char (v div 64 mod 64), b64_char (v mod 64)])"
| "EncodeToString (a # b # c # s) =
     (let v = (byte a * 256 + byte b) * 256 + byte c
      in [b64_char (v div 262144), b64_char (v div 4096 mod 64), b64_char (v div 64 mod 64),
          b64_char (v mod 64)] @ EncodeToString s)"

fun decode_quanta :: "nat list \<Rightarrow> string option" where
  "decode_quanta [] = Some []"
| "decode_quanta [w] = None"
| "decode_quanta [w, x] = (let v = w * 64 + x in Some [char_of (v div 16)])"
| "decode_quanta [w, x, y] =
     (let v = (w * 64 + x) * 64 + y in Some [char_of (v div 1024), char_of (v div 4 mod 256)])"
| "decode_quanta (w # x # y # z # s) =
     (let v = ((w * 64 + x) * 64 + y) * 64 + z
      in map_option (\<lambda>r. [char_of (v div 65536), char_of (v div 256 mod 256), char_of (v mod 256)] @ r)
           (decode_quanta s))"

fun b64_vals :: "string \<Rightarrow> nat list option" where
  "b64_vals [] = Some []"
| "b64_vals (c # s) =
     (if c = CHR 0x0A \<or> c = CHR 0x0D then b64_vals s
      else case b64_val c of None \<Rightarrow> None | Some n \<Rightarrow> map_option ((#) n) (b64_vals s))"

definition DecodeString :: "string \<Rightarrow> string option" where
  "DecodeString s = (case b64_vals s of None \<Rightarrow> None | Some ns \<Rightarrow> decode_quanta ns)"

text \<open>The alphabet is a bijection between six-bit values and its characters.\<close>

lemma b64_alphabet_table:
  "list_all (\<lambda>n. b64_val (b64_char n) = Some n \<and> b64_char n \<noteq> CHR 0x0A \<and> b64_char n \<noteq> CHR 0x0D
                \<and> b64_char n \<noteq> CHR ''.'') [0..<64]"
  by code_simp

lemma b64_char_facts:
  assumes "n < 64"
  shows "b64_val (b64_char n) = Some n" "b64_char n \<noteq> CHR 0x0A" "b64_char n \<noteq> CHR 0x0D"
    "b64_char n \<noteq> CHR ''.''"
  using b64_alphabet_table assms by (auto simp: list_all_iff)

lemma b64_vals_char [simp]: "n < 64 \<Longrightarrow> b64_vals (b64_char n # s) = map_option ((#) n) (b64_vals s)"
  by (simp add: b64_char_facts)

lemma byte_less [simp]: "byte c < 256"
  using of_char_mod_256[of c] mod_less_divisor[of 256 "of_char c"] by simp

fun sextets :: "string \<Rightarrow> nat list" where
  "sextets [] = []"
| "sextets [a] = (let v = byte a * 16 in [v div 64, v mod 64])"
| "sextets [a, b] = (let v = (byte a * 256 + byte b) * 4 in [v div 4096, v div 64 mod 64, v mod 64])"
| "sextets (a # b # c # s) =
     (let v = (byte a * 256 + byte b) * 256 + byte c
      in [v div 262144, v div 4096 mod 64, v div 64 mod 64, v mod 64] @ sextets s)"

lemma EncodeToString_sextets: "EncodeToString s = map b64_char (sextets s)"
  by (induction s rule: EncodeToString.induct) (simp_all add: Let_def)

lemma sextets_less: "n \<in> set (sextets s) \<Longrightarrow> n < 64"
proof (induction s rule: sextets.induct)
  case (2 a)
  then show ?case using byte_less[of a] by (auto simp: Let_def simp del: byte_less)
next
  case (3 a b)
  then show ?case using byte_less[of a] byte_less[of b] by (auto simp: Let_def simp del: byte_less)
next
  case (4 a b c s)
  then show ?case
    using byte_less[of a] byte_less[of b] byte_less[of c] by (auto simp: Let_def simp del: byte_less)
qed simp

lemma b64_vals_map: "(\<And>n. n \<in> set ns \<Longrightarrow> n < 64) \<Longrightarrow> b64_vals (map b64_char ns) = Some ns"
  by (induction ns) (simp_all del: b64_vals.simps(2))

lemma group_div:
  fixes v :: nat
  shows "v div 262144 * 64 + v div 4096 mod 64 = v div 4096" "v div 4096 * 64 + v div 64 mod 64 = v div 64"
    "v div 64 * 64 + v mod 64 = v"
proof -
  have "v div 262144 = v div 4096 div 64" "v div 4096 = v div 64 div 64"
    by (simp_all flip: div_mult2_eq)
  then show "v div 262144 * 64 + v div 4096 mod 64 = v div 4096"
    "v div 4096 * 64 + v div 64 mod 64 = v div 64" "v div 64 * 64 + v mod 64 = v"
    by simp_all
qed

lemma quantum3:
  fixes a b c :: nat
  assumes "b < 256" "c < 256"
  defines "v \<equiv> (a * 256 + b) * 256 + c"
  shows "v div 65536 = a" "v div 256 mod 256 = b" "v mod 256 = c"
proof -
  have "v div 256 = a * 256 + b" using assms by simp
  moreover have "v div 65536 = v div 256 div 256" by (simp flip: div_mult2_eq)
  ultimately show "v div 65536 = a" "v div 256 mod 256 = b" using assms by simp_all
  show "v mod 256 = c" unfolding v_def mod_mult_self3 using assms by simp
qed

lemma quantum2:
  fixes a b :: nat
  assumes "b < 256"
  defines "v \<equiv> (a * 256 + b) * 4"
  shows "v div 1024 = a" "v div 4 mod 256 = b"
proof -
  have "v div 4 = a * 256 + b" using assms by simp
  moreover have "v div 1024 = v div 4 div 256" by (simp flip: div_mult2_eq)
  ultimately show "v div 1024 = a" "v div 4 mod 256 = b" using assms by simp_all
qed

lemma decode_quanta_sextets: "decode_quanta (sextets s) = Some s"
proof (induction s rule: sextets.induct)
  case (2 a)
  have "byte a * 16 div 64 * 64 + byte a * 16 mod 64 = byte a * 16" by presburger
  then show ?case by (simp add: Let_def)
next
  case (3 a b)
  show ?case unfolding sextets.simps decode_quanta.simps Let_def group_div quantum2[OF byte_less] by simp
next
  case (4 a b c s)
  have "decode_quanta (sextets (a # b # c # s)) = map_option ((@) [a, b, c]) (decode_quanta (sextets s))"
    unfolding sextets.simps decode_quanta.simps Let_def append.simps group_div
      quantum3[OF byte_less byte_less] by simp
  with 4 show ?case by simp
qed simp

theorem base64_roundtrip [simp]: "DecodeString (EncodeToString s) = Some s"
  by (simp add: DecodeString_def EncodeToString_sextets b64_vals_map sextets_less decode_quanta_sextets)

lemma EncodeToString_no_dot: "CHR ''.'' \<notin> set (EncodeToString s)"
  using b64_char_facts(4) by (force simp: EncodeToString_sextets dest: sextets_less)

text \<open>\<open>strings.Cut\<close> at a one-character separator.\<close>

fun cut_at :: "char \<Rightarrow> string \<Rightarrow> (string \<times> string) option" where
  "cut_at d [] = None"
| "cut_at d (c # s) =
     (if c = d then Some ([], s) else map_option (\<lambda>(a, b). (c # a, b)) (cut_at d s))"

lemma cut_at_append: "d \<notin> set a \<Longrightarrow> cut_at d (a @ d # b) = Some (a, b)"
  by (induction a) auto

lemma cut_at_Some: "cut_at d s = Some (a, b) \<longleftrightarrow> s = a @ d # b \<and> d \<notin> set a"
proof
  show "cut_at d s = Some (a, b) \<Longrightarrow> s = a @ d # b \<and> d \<notin> set a"
    by (induction s arbitrary: a) (auto split: if_splits)
qed (use cut_at_append in auto)

lemma cut_at_None: "cut_at d s = None \<longleftrightarrow> d \<notin> set s"
  by (induction s) auto

lemma cut_signed [simp]:
  "cut_at (CHR ''.'') (EncodeToString p @ CHR ''.'' # s) = Some (EncodeToString p, s)"
  by (simp add: cut_at_append EncodeToString_no_dot)

end
