(* ===== verification/Go_Date.thy ===== *)
theory Go_Date
  imports Go_Time
begin

text \<open>
  \<open>Time.Format\<close> in UTC for the layouts the backend uses: the date \<^verbatim>\<open>2006-01-02\<close>, \<^verbatim>\<open>2006-01-02 15:04 UTC\<close>
  and \<open>RFC3339\<close>. The proleptic Gregorian date of a day is computed with the year starting in March;
  day 0 is 1 January of the year 1.
\<close>

definition day_of :: "instant \<Rightarrow> int" where
  "day_of t = t div (86400 * 1000000000)"

definition second_of_day :: "instant \<Rightarrow> int" where
  "second_of_day t = t div 1000000000 mod 86400"

definition civil :: "int \<Rightarrow> int \<times> int \<times> int" where
  "civil n =
     (let z = n + 306;
          era = z div 146097;
          doe = z mod 146097;
          yoe = (doe - doe div 1460 + doe div 36524 - doe div 146096) div 365;
          doy = doe - (365 * yoe + yoe div 4 - yoe div 100);
          mp = (5 * doy + 2) div 153;
          d = doy - (153 * mp + 2) div 5 + 1;
          m = (if mp < 10 then mp + 3 else mp - 9);
          y = yoe + era * 400 + (if m \<le> 2 then 1 else 0)
      in (y, m, d))"

definition pad4 :: "int \<Rightarrow> string" where
  "pad4 y =
     (let s = show_nat (nat \<bar>y\<bar>)
      in (if y < 0 then ''-'' else []) @ replicate (4 - length s) (CHR ''0'') @ s)"

definition format_date :: "instant \<Rightarrow> string" where
  "format_date t = (case civil (day_of t) of (y, m, d) \<Rightarrow> pad4 y @ ''-'' @ pad2 m @ ''-'' @ pad2 d)"

definition format_minute_utc :: "instant \<Rightarrow> string" where
  "format_minute_utc t =
     format_date t @ '' '' @ pad2 (second_of_day t div 3600) @ '':'' @
     pad2 (second_of_day t div 60 mod 60) @ '' UTC''"

definition format_rfc3339 :: "instant \<Rightarrow> string" where
  "format_rfc3339 t =
     format_date t @ ''T'' @ pad2 (second_of_day t div 3600) @ '':'' @
     pad2 (second_of_day t div 60 mod 60) @ '':'' @ pad2 (second_of_day t mod 60) @ ''Z''"

text \<open>The zero time, the epoch, a leap day and the first day after a century that is not one.\<close>

lemma format_samples:
  "format_rfc3339 0 = ''0001-01-01T00:00:00Z''"
  "format_rfc3339 (nanoseconds 62135596800) = ''1970-01-01T00:00:00Z''"
  "format_rfc3339 (nanoseconds (62135596800 + 951782399)) = ''2000-02-28T23:59:59Z''"
  "format_minute_utc (nanoseconds (62135596800 + 951825600)) = ''2000-02-29 12:00 UTC''"
  "format_date (nanoseconds (62135596800 + 4107542400)) = ''2100-03-01''"
  by code_simp+

end
