(* ===== verification/Http.thy ===== *)
theory Http
  imports Tenancy Go_Strings Go_Strconv Go_Time "HOL-Library.AList"
begin

text \<open>
  Requests and responses of the HTTP API, the error envelope (\<^verbatim>\<open>platform/httperr/httperr.go\<close>), the body
  caps (\<^verbatim>\<open>platform/config/httpcaps.go\<close>), the tenant extractors (\<^verbatim>\<open>agent/mtls/mtls.go\<close> and
  \<^verbatim>\<open>cmd/api/main.go\<close>) and the middleware stack of \<^verbatim>\<open>cmd/api/main.go\<close>.

  A request is a record of what the handlers read: header, query and path values are functions that
  return the empty string when the value is absent, as \<open>Get\<close> and \<open>PathValue\<close> do. A response is its
  status, its headers and its body, which is an error envelope, a JSON value of the handler's own
  type or a text.
\<close>

record URI =
  u_Scheme :: string
  u_Host :: string
  u_Path :: string

record Request =
  rq_Method :: string
  rq_Path :: string
  rq_Host :: string
  rq_PathValue :: "string \<Rightarrow> string"
  rq_Header :: "string \<Rightarrow> string"
  rq_Query :: "string \<Rightarrow> string"
  rq_Cookie :: "string \<Rightarrow> string option"
  rq_TLS :: bool
  rq_PeerCertificates :: "URI list list"
  rq_Body :: string
  rq_Tenant :: "TenantContext option"
  rq_RequestID :: string

section \<open>The error envelope (\<^verbatim>\<open>platform/httperr/httperr.go\<close>)\<close>

datatype Detail = DStr string | DInt int | DStrs "string list"

record HttpError =
  he_Code :: string
  he_Message :: string
  he_StatusCode :: int
  he_RequestID :: string
  he_Details :: "(string \<times> Detail) list"

datatype 'b Body = ErrorEnvelope HttpError | JsonBody 'b | TextBody string

record 'b Response =
  rs_Status :: int
  rs_Header :: "(string \<times> string) list"
  rs_Body :: "'b Body"

text \<open>Setting a header replaces the value it had.\<close>

definition set_header :: "string \<Rightarrow> string \<Rightarrow> 'b Response \<Rightarrow> 'b Response" where
  "set_header k v r = r\<lparr>rs_Header := AList.update k v (rs_Header r)\<rparr>"

definition CodeBadRequest :: string where "CodeBadRequest = ''BAD_REQUEST''"
definition CodeInvalidJSON :: string where "CodeInvalidJSON = ''INVALID_JSON''"
definition CodeMissingField :: string where "CodeMissingField = ''MISSING_FIELD''"
definition CodeUnauthorized :: string where "CodeUnauthorized = ''UNAUTHORIZED''"
definition CodeForbidden :: string where "CodeForbidden = ''FORBIDDEN''"
definition CodeNotFound :: string where "CodeNotFound = ''NOT_FOUND''"
definition CodeGone :: string where "CodeGone = ''GONE''"
definition CodeMethodNotAllowed :: string where "CodeMethodNotAllowed = ''METHOD_NOT_ALLOWED''"
definition CodeRequestBodyTooLarge :: string where
  "CodeRequestBodyTooLarge = ''REQUEST_BODY_TOO_LARGE''"
definition CodeConflict :: string where "CodeConflict = ''CONFLICT''"
definition CodeInternalError :: string where "CodeInternalError = ''INTERNAL_ERROR''"
definition CodeUpstreamError :: string where "CodeUpstreamError = ''UPSTREAM_ERROR''"
definition CodeServiceUnavailable :: string where "CodeServiceUnavailable = ''SERVICE_UNAVAILABLE''"

definition WriteWithDetails ::
  "Request \<Rightarrow> int \<Rightarrow> string \<Rightarrow> string \<Rightarrow> (string \<times> Detail) list \<Rightarrow> 'b Response" where
  "WriteWithDetails r status code message details =
     \<lparr>rs_Status = status,
      rs_Header = (''Content-Type'', ''application/json; charset=utf-8'') #
        (if rq_RequestID r \<noteq> [] then [(''X-Request-ID'', rq_RequestID r)] else []),
      rs_Body = ErrorEnvelope \<lparr>he_Code = code, he_Message = message, he_StatusCode = status,
                   he_RequestID = rq_RequestID r, he_Details = details\<rparr>\<rparr>"

definition Http_Write :: "Request \<Rightarrow> int \<Rightarrow> string \<Rightarrow> string \<Rightarrow> 'b Response" where
  "Http_Write r status code message = WriteWithDetails r status code message []"

definition BadRequest :: "Request \<Rightarrow> string \<Rightarrow> 'b Response" where
  "BadRequest r msg = Http_Write r 400 CodeBadRequest msg"

definition redactDecoderError :: "string \<Rightarrow> string" where
  "redactDecoderError s =
     (if length s > length ''json: '' \<and> take (length ''json: '') s = ''json: ''
      then drop (length ''json: '') s else s)"

text \<open>Every caller passes a non-nil error; the argument is its text.\<close>

definition InvalidJSON :: "Request \<Rightarrow> string \<Rightarrow> 'b Response" where
  "InvalidJSON r err =
     Http_Write r 400 CodeInvalidJSON (''request body is not valid JSON: '' @ redactDecoderError err)"

text \<open>The field names are constants of the handlers, for which \<open>%q\<close> only adds the quotes.\<close>

definition MissingField :: "Request \<Rightarrow> string \<Rightarrow> 'b Response" where
  "MissingField r field =
     WriteWithDetails r 400 CodeMissingField
       (''required field '' @ [CHR 0x22] @ field @ [CHR 0x22] @ '' is missing'') [(''field'', DStr field)]"

definition Unauthorized :: "Request \<Rightarrow> string \<Rightarrow> 'b Response" where
  "Unauthorized r msg =
     Http_Write r 401 CodeUnauthorized (if msg = [] then ''tenant context required'' else msg)"

definition Forbidden :: "Request \<Rightarrow> string \<Rightarrow> 'b Response" where
  "Forbidden r msg = Http_Write r 403 CodeForbidden msg"

definition NotFound :: "Request \<Rightarrow> string \<Rightarrow> 'b Response" where
  "NotFound r resource = Http_Write r 404 CodeNotFound (resource @ '' not found'')"

definition Gone :: "Request \<Rightarrow> string \<Rightarrow> 'b Response" where
  "Gone r resource = Http_Write r 410 CodeGone (resource @ '' expired'')"

definition MethodNotAllowed :: "Request \<Rightarrow> string \<Rightarrow> 'b Response" where
  "MethodNotAllowed r allowed =
     set_header ''Allow'' allowed
       (Http_Write r 405 CodeMethodNotAllowed
          (''method '' @ rq_Method r @ '' not allowed; expected '' @ allowed))"

definition BodyTooLarge :: "Request \<Rightarrow> int \<Rightarrow> 'b Response" where
  "BodyTooLarge r maxBytes =
     WriteWithDetails r 413 CodeRequestBodyTooLarge
       (''request body exceeds '' @ show_int maxBytes @ '' bytes'') [(''max_bytes'', DInt maxBytes)]"

definition Conflict :: "Request \<Rightarrow> string \<Rightarrow> 'b Response" where
  "Conflict r msg = Http_Write r 409 CodeConflict msg"

definition Internal :: "Request \<Rightarrow> string \<Rightarrow> 'b Response" where
  "Internal r msg =
     Http_Write r 500 CodeInternalError (if msg = [] then ''internal server error'' else msg)"

definition Upstream :: "Request \<Rightarrow> string \<Rightarrow> 'b Response" where
  "Upstream r msg = Http_Write r 502 CodeUpstreamError msg"

definition ServiceUnavailable :: "Request \<Rightarrow> string \<Rightarrow> 'b Response" where
  "ServiceUnavailable r msg = Http_Write r 503 CodeServiceUnavailable msg"

text \<open>The log line is left out.\<close>

definition LogAndInternal :: "Request \<Rightarrow> 'b Response" where
  "LogAndInternal r = Internal r []"

named_theorems http_errors

lemmas [http_errors] = BadRequest_def InvalidJSON_def MissingField_def Unauthorized_def Forbidden_def
  NotFound_def Gone_def MethodNotAllowed_def BodyTooLarge_def Conflict_def Internal_def Upstream_def
  ServiceUnavailable_def LogAndInternal_def Http_Write_def WriteWithDetails_def set_header_def

text \<open>Every error answer carries an envelope that repeats the status and the request id.\<close>

definition is_error :: "int \<Rightarrow> 'b Response \<Rightarrow> bool" where
  "is_error status resp \<longleftrightarrow>
     rs_Status resp = status \<and> (case rs_Body resp of ErrorEnvelope e \<Rightarrow> he_StatusCode e = status | _ \<Rightarrow> False)"

lemma is_error_WriteWithDetails [simp]:
  "is_error s (WriteWithDetails r status code msg det) \<longleftrightarrow> s = status"
  by (auto simp: is_error_def WriteWithDetails_def)

lemma is_error_set_header [simp]: "is_error s (set_header k v resp) = is_error s resp"
  by (simp add: is_error_def set_header_def)

lemma is_error_helpers [simp]:
  "is_error s (BadRequest r m) \<longleftrightarrow> s = 400" "is_error s (InvalidJSON r m) \<longleftrightarrow> s = 400"
  "is_error s (MissingField r m) \<longleftrightarrow> s = 400" "is_error s (Unauthorized r m) \<longleftrightarrow> s = 401"
  "is_error s (NotFound r m) \<longleftrightarrow> s = 404" "is_error s (Gone r m) \<longleftrightarrow> s = 410"
  "is_error s (MethodNotAllowed r m) \<longleftrightarrow> s = 405" "is_error s (BodyTooLarge r n) \<longleftrightarrow> s = 413"
  "is_error s (Internal r m) \<longleftrightarrow> s = 500" "is_error s (Upstream r m) \<longleftrightarrow> s = 502"
  "is_error s (LogAndInternal r) \<longleftrightarrow> s = 500"
  by (simp_all add: BadRequest_def InvalidJSON_def MissingField_def Unauthorized_def NotFound_def Gone_def
      MethodNotAllowed_def BodyTooLarge_def Internal_def Upstream_def LogAndInternal_def Http_Write_def)

text \<open>A JSON answer of a handler.\<close>

definition json_response :: "int \<Rightarrow> 'b \<Rightarrow> 'b Response" where
  "json_response status b =
     \<lparr>rs_Status = status, rs_Header = [(''Content-Type'', ''application/json'')], rs_Body = JsonBody b\<rparr>"

lemma is_error_json [simp]: "\<not> is_error s (json_response status b)"
  by (simp add: is_error_def json_response_def)

section \<open>Reading a capped body\<close>

definition GitHubWebhookMaxBytes :: int where "GitHubWebhookMaxBytes = 8 * 2 ^ 20"
definition IngestMaxBytes :: int where "IngestMaxBytes = 16 * 2 ^ 20"
definition SandboxAnalyzeMaxBytes :: int where "SandboxAnalyzeMaxBytes = 2 ^ 20"
definition PRApplyFixMaxBytes :: int where "PRApplyFixMaxBytes = 2 ^ 20"
definition BillingSpikeWebhookMaxBytes :: int where "BillingSpikeWebhookMaxBytes = 64 * 2 ^ 10"
definition SessionIssueMaxBytes :: int where "SessionIssueMaxBytes = 16 * 2 ^ 10"
definition OnboardingTransitionMaxBytes :: int where "OnboardingTransitionMaxBytes = 4 * 2 ^ 10"

text \<open>\<open>io.ReadAll\<close> over a \<open>MaxBytesReader\<close>; \<open>None\<close> is the \<open>MaxBytesError\<close>.\<close>

definition ReadAllCapped :: "int \<Rightarrow> string \<Rightarrow> string option" where
  "ReadAllCapped cap body = (if int (length body) \<le> cap then Some body else None)"

text \<open>
  A JSON decoder reads until the first value is complete: it succeeds, it meets an error in what it
  has read, or it needs more input than there is (\<open>NeedsMore\<close> with the text of its end-of-file
  error). Over a \<open>MaxBytesReader\<close> it sees at most \<open>cap\<close> bytes, and needing more when the body is
  longer than that is the \<open>MaxBytesError\<close>.
\<close>

datatype 'a json_result = Decoded 'a | JsonError string | NeedsMore string

datatype 'a capped = CappedOk 'a | CappedTooLarge | CappedInvalid string

definition DecodeCapped :: "(string \<Rightarrow> 'a json_result) \<Rightarrow> int \<Rightarrow> string \<Rightarrow> 'a capped" where
  "DecodeCapped decode cap body =
     (case decode (take (nat cap) body) of
        Decoded x \<Rightarrow> CappedOk x
      | JsonError e \<Rightarrow> CappedInvalid e
      | NeedsMore e \<Rightarrow> if int (length body) > cap then CappedTooLarge else CappedInvalid e)"

lemma DecodeCapped_small:
  "int (length body) \<le> cap \<Longrightarrow> DecodeCapped decode cap body \<noteq> CappedTooLarge"
  by (auto simp: DecodeCapped_def split: json_result.splits)

section \<open>Tenant extraction\<close>

definition Trust :: string where "Trust = ''optiqor.dev''"
definition URIPrefix :: string where "URIPrefix = ''/tenant/''"

datatype mtls_error = ErrNoClientCert | ErrNoSPIFFEUSAN | ErrWrongTrust | ErrMalformedSPIFFE

text \<open>
  \<open>strings.EqualFold\<close> against the trust domain: no letter of \<^const>\<open>Trust\<close> has a non-ASCII case variant.
\<close>

definition tenantIDFromURI :: "URI \<Rightarrow> mtls_error + string" where
  "tenantIDFromURI u =
     (if u_Scheme u \<noteq> ''spiffe'' then Inl ErrNoSPIFFEUSAN
      else if map lower (u_Host u) \<noteq> Trust then Inl ErrWrongTrust
      else if take (length URIPrefix) (u_Path u) \<noteq> URIPrefix then Inl ErrMalformedSPIFFE
      else let tid = drop (length URIPrefix) (u_Path u)
           in if tid = [] \<or> CHR ''/'' \<in> set tid then Inl ErrMalformedSPIFFE else Inr tid)"

fun tenantIDFromCert :: "URI list \<Rightarrow> mtls_error + string" where
  "tenantIDFromCert [] = Inl ErrNoSPIFFEUSAN"
| "tenantIDFromCert (u # us) =
     (case tenantIDFromURI u of Inr tid \<Rightarrow> Inr tid | Inl _ \<Rightarrow> tenantIDFromCert us)"

definition ExtractTenant :: "Request \<Rightarrow> mtls_error + TenantContext" where
  "ExtractTenant r =
     (if \<not> rq_TLS r \<or> rq_PeerCertificates r = [] then Inl ErrNoClientCert
      else case tenantIDFromCert (hd (rq_PeerCertificates r)) of
             Inl e \<Rightarrow> Inl e
           | Inr tid \<Rightarrow> Inr \<lparr>tc_TenantID = tid, tc_WorkspaceID = [], tc_ClusterID = [], tc_Namespace = []\<rparr>)"

text \<open>An extractor gives the tenant, or \<open>None\<close> for an error.\<close>

type_synonym TenantExtractor = "Request \<Rightarrow> TenantContext option"

definition HeaderTenantExtractor :: TenantExtractor where
  "HeaderTenantExtractor r =
     (let tid = rq_Header r ''X-Optiqor-Tenant''
      in if tid = [] then None
         else Some \<lparr>tc_TenantID = tid, tc_WorkspaceID = rq_Header r ''X-Optiqor-Workspace'',
                    tc_ClusterID = rq_Header r ''X-Optiqor-Cluster'',
                    tc_Namespace = rq_Header r ''X-Optiqor-Namespace''\<rparr>)"

type_synonym Env = string

definition Config_EnvProd :: Env where "Config_EnvProd = ''prod''"

definition MTLSTenantExtractor :: "Env \<Rightarrow> TenantExtractor" where
  "MTLSTenantExtractor env r =
     (case ExtractTenant r of
        Inr t \<Rightarrow> Some t
      | Inl _ \<Rightarrow> if env = Config_EnvProd then None else HeaderTenantExtractor r)"

end
