(* ===== verification/Receipts.thy ===== *)
theory Receipts
  imports Go_Base64 Go_Date Http
begin

text \<open>
  \<^verbatim>\<open>backend/internal/receipts\<close>: the signed claim that a fix saved money. \<^verbatim>\<open>receipts.go\<close> and
  \<^verbatim>\<open>canonical.go\<close> sign and verify, \<^verbatim>\<open>kms/kms.go\<close> signs through a key service, and
  \<^verbatim>\<open>worker/workflows/receipt_issue.go\<close> signs and stores.

  The primitives are parameters, in two records: the signature schemes and SHA-256 (\<open>Crypto\<close>), and the
  JSON codec of a receipt (\<open>Receipt_Codec\<close>): \<open>rc_Encode\<close> is the encoder's output with its trailing
  newline, \<open>None\<close> for its error (a year outside 0 to 9999), and \<open>rc_Decode\<close> the strict decoder.
\<close>

record Receipt =
  rc_ID :: string
  rc_TenantID :: string
  rc_Workload :: string
  rc_ApplyFixID :: string
  rc_ObservedFromUTC :: instant
  rc_ObservedToUTC :: instant
  rc_PredictedSavingsUSDCents :: i64
  rc_RealisedSavingsUSDCents :: i64
  rc_CloudBillSource :: string
  rc_IssuerKeyID :: string
  rc_IssuedAtUTC :: instant

datatype crypto_key = Ed25519Key string | ECDSAKey string

record Crypto =
  cr_ed25519_Sign :: "string \<Rightarrow> string \<Rightarrow> string"
  cr_ed25519_Verify :: "string \<Rightarrow> string \<Rightarrow> string \<Rightarrow> bool"
  cr_ecdsa_VerifyASN1 :: "string \<Rightarrow> string \<Rightarrow> string \<Rightarrow> bool"
  cr_sha256 :: "string \<Rightarrow> string"

record Receipt_Codec =
  rc_Encode :: "Receipt \<Rightarrow> string option"
  rc_Decode :: "string \<Rightarrow> Receipt option"

datatype receipt_error =
  MissingID | MissingTenantID | ReceiptMissingApplyFixID | MissingIssuerKeyID | WindowNotSet | WindowReversed
| IssuedAtNotSet | EmptyKeyID | PrivateKeySize nat | CanonicalError | CanonicalEmpty
| ReceiptMalformed | ReceiptSignatureDecode | ReceiptPayloadDecode | ReceiptPayloadUnmarshal
| NotAlgoRegistry string | NonECDSAKey string | NoPublicKey string | ReceiptErrSignature
| PublicKeyPanic | NilKMSClient | KeyIDWithoutAlgorithm string | KMSSign string

definition Receipt_Validate :: "Receipt \<Rightarrow> receipt_error option" where
  "Receipt_Validate r =
     (if rc_ID r = [] then Some MissingID
      else if rc_TenantID r = [] then Some MissingTenantID
      else if rc_ApplyFixID r = [] then Some ReceiptMissingApplyFixID
      else if rc_IssuerKeyID r = [] then Some MissingIssuerKeyID
      else if rc_ObservedFromUTC r = 0 \<or> rc_ObservedToUTC r = 0 then Some WindowNotSet
      else if \<not> rc_ObservedToUTC r > rc_ObservedFromUTC r then Some WindowReversed
      else if rc_IssuedAtUTC r = 0 then Some IssuedAtNotSet
      else None)"

text \<open>\<^verbatim>\<open>canonical.go\<close>\<close>

definition Canonical :: "Receipt_Codec \<Rightarrow> Receipt \<Rightarrow> receipt_error + string" where
  "Canonical cd r =
     (case rc_Encode cd r of
        None \<Rightarrow> Inl CanonicalError
      | Some buf \<Rightarrow>
          let out = trim_right {CHR 0x0A} buf
          in if out = [] then Inl CanonicalEmpty else Inr out)"

definition wire :: "string \<Rightarrow> string \<Rightarrow> string" where
  "wire sig payload = EncodeToString sig @ ''.'' @ EncodeToString payload"

section \<open>The Ed25519 issuer\<close>

record Receipt_Issuer =
  ri_keyID :: string
  ri_privateKey :: string

definition Receipt_NewIssuer :: "string \<Rightarrow> string \<Rightarrow> receipt_error + Receipt_Issuer" where
  "Receipt_NewIssuer keyID priv =
     (if keyID = [] then Inl EmptyKeyID
      else if length priv \<noteq> 64 then Inl (PrivateKeySize (length priv))
      else Inr \<lparr>ri_keyID = keyID, ri_privateKey = priv\<rparr>)"

definition Receipt_Sign :: "Crypto \<Rightarrow> Receipt_Codec \<Rightarrow> Receipt_Issuer \<Rightarrow> Receipt \<Rightarrow> receipt_error + string" where
  "Receipt_Sign cr cd i r0 =
     (let r = r0\<lparr>rc_IssuerKeyID := ri_keyID i\<rparr>
      in case Receipt_Validate r of
           Some e \<Rightarrow> Inl e
         | None \<Rightarrow>
             (case Canonical cd r of
                Inl e \<Rightarrow> Inl e
              | Inr payload \<Rightarrow> Inr (wire (cr_ed25519_Sign cr (ri_privateKey i) payload) payload)))"

section \<open>The key-service signer (\<^verbatim>\<open>kms/kms.go\<close>)\<close>

text \<open>A client maps a key id and a digest to a signature, or an error.\<close>

type_synonym KMSClient = "string \<Rightarrow> string \<Rightarrow> string + string"

record KMS_Signer =
  ks_KeyID :: string
  ks_Client :: KMSClient

definition ecdsa_tag :: string where "ecdsa_tag = ''ecdsa-p256''"

definition KMS_NewSigner :: "string \<Rightarrow> KMSClient option \<Rightarrow> receipt_error + KMS_Signer" where
  "KMS_NewSigner keyID client =
     (if keyID = [] then Inl EmptyKeyID
      else case client of
             None \<Rightarrow> Inl NilKMSClient
           | Some c \<Rightarrow>
               if \<not> contains keyID ecdsa_tag then Inl (KeyIDWithoutAlgorithm keyID)
               else Inr \<lparr>ks_KeyID = keyID, ks_Client = c\<rparr>)"

definition KMS_SignContext ::
  "Crypto \<Rightarrow> Receipt_Codec \<Rightarrow> KMS_Signer \<Rightarrow> Receipt \<Rightarrow> receipt_error + string" where
  "KMS_SignContext cr cd s r0 =
     (let r = r0\<lparr>rc_IssuerKeyID := ks_KeyID s\<rparr>
      in case Receipt_Validate r of
           Some e \<Rightarrow> Inl e
         | None \<Rightarrow>
             (case Canonical cd r of
                Inl e \<Rightarrow> Inl e
              | Inr payload \<Rightarrow>
                  (case ks_Client s (ks_KeyID s) (cr_sha256 cr payload) of
                     Inl err \<Rightarrow> Inl (KMSSign err)
                   | Inr sig \<Rightarrow> Inr (wire sig payload))))"

text \<open>The test double: the calls it recorded, and the signature it makes up.\<close>

record FakeKMS =
  fk_Err :: "string option"
  fk_Calls :: "(string \<times> string) list"

definition FakeKMS_Sign :: "(string \<Rightarrow> string) \<Rightarrow> FakeKMS \<Rightarrow> string \<Rightarrow> string \<Rightarrow> FakeKMS \<times> (string + string)" where
  "FakeKMS_Sign sha256 f keyID digest =
     (case fk_Err f of
        Some e \<Rightarrow> (f, Inl e)
      | None \<Rightarrow>
          (f\<lparr>fk_Calls := fk_Calls f @ [(keyID, digest)]\<rparr>,
           Inr (''FAKE-ECDSA-SIG/'' @ sha256 (''fake-kms:'' @ keyID @ '':'' @ digest))))"

section \<open>Verification\<close>

text \<open>A registry, and its algorithm-aware lookup where it has one.\<close>

record Key_Registry =
  rg_PublicKey :: "string \<Rightarrow> string option"
  rg_PublicKeyAny :: "(string \<Rightarrow> crypto_key option) option"

type_synonym StaticRegistry = "string \<rightharpoonup> string"

definition StaticRegistry_Add :: "StaticRegistry \<Rightarrow> string \<Rightarrow> string \<Rightarrow> StaticRegistry" where
  "StaticRegistry_Add s keyID pub = s(keyID \<mapsto> pub)"

definition static_registry :: "StaticRegistry \<Rightarrow> Key_Registry" where
  "static_registry s = \<lparr>rg_PublicKey = s, rg_PublicKeyAny = None\<rparr>"

text \<open>
  The dispatch on the key id's algorithm tag. \<open>ed25519.Verify\<close> panics on a public key that is not 32
  bytes long.
\<close>

definition check_signature ::
  "Crypto \<Rightarrow> Key_Registry \<Rightarrow> Receipt \<Rightarrow> string \<Rightarrow> string \<Rightarrow> receipt_error + Receipt" where
  "check_signature cr reg r payload sig =
     (let keyID = rc_IssuerKeyID r
      in if contains keyID ecdsa_tag
         then case rg_PublicKeyAny reg of
                None \<Rightarrow> Inl (NotAlgoRegistry keyID)
              | Some lookup \<Rightarrow>
                  (case lookup keyID of
                     None \<Rightarrow> Inl (NoPublicKey keyID)
                   | Some (Ed25519Key _) \<Rightarrow> Inl (NonECDSAKey keyID)
                   | Some (ECDSAKey pub) \<Rightarrow>
                       if \<not> cr_ecdsa_VerifyASN1 cr pub (cr_sha256 cr payload) sig then Inl ReceiptErrSignature
                       else Inr r)
         else case rg_PublicKey reg keyID of
                None \<Rightarrow> Inl (NoPublicKey keyID)
              | Some pub \<Rightarrow>
                  if length pub \<noteq> 32 then Inl PublicKeyPanic
                  else if \<not> cr_ed25519_Verify cr pub payload sig then Inl ReceiptErrSignature
                  else Inr r)"

definition Receipt_Verify :: "Crypto \<Rightarrow> Receipt_Codec \<Rightarrow> Key_Registry \<Rightarrow> string \<Rightarrow> receipt_error + Receipt" where
  "Receipt_Verify cr cd reg signed =
     (case cut_at (CHR ''.'') signed of
        None \<Rightarrow> Inl ReceiptMalformed
      | Some (sigB64, payloadB64) \<Rightarrow>
          (case DecodeString sigB64 of
             None \<Rightarrow> Inl ReceiptSignatureDecode
           | Some sig \<Rightarrow>
               (case DecodeString payloadB64 of
                  None \<Rightarrow> Inl ReceiptPayloadDecode
                | Some payload \<Rightarrow>
                    (case rc_Decode cd payload of
                       None \<Rightarrow> Inl ReceiptPayloadUnmarshal
                     | Some r \<Rightarrow>
                         (case Receipt_Validate r of
                            Some e \<Rightarrow> Inl e
                          | None \<Rightarrow> check_signature cr reg r payload sig)))))"

section \<open>The interface of the signers\<close>

text \<open>
  Both signers set the key id, validate, make the canonical bytes and sign those: \<open>raw\<close> is what differs.
  A codec that reads back what it wrote turns verification of a signed receipt into the signature
  check.
\<close>

locale receipt_signer =
  fixes cd :: Receipt_Codec
    and keyID :: string
    and raw :: "string \<Rightarrow> string option"
    and sign :: "Receipt \<Rightarrow> receipt_error + string"
  assumes sign_Inr: "sign r = Inr w \<longleftrightarrow>
    (\<exists>payload sig. Receipt_Validate (r\<lparr>rc_IssuerKeyID := keyID\<rparr>) = None \<and>
       Canonical cd (r\<lparr>rc_IssuerKeyID := keyID\<rparr>) = Inr payload \<and> raw payload = Some sig \<and> w = wire sig payload)"
begin

lemma verify_signed:
  assumes "sign r = Inr w"
    and "\<And>payload. Canonical cd (r\<lparr>rc_IssuerKeyID := keyID\<rparr>) = Inr payload \<Longrightarrow>
           rc_Decode cd payload = Some (r\<lparr>rc_IssuerKeyID := keyID\<rparr>)"
  obtains payload sig where "Canonical cd (r\<lparr>rc_IssuerKeyID := keyID\<rparr>) = Inr payload"
    "raw payload = Some sig" "w = wire sig payload"
    "Receipt_Verify cr cd reg w = check_signature cr reg (r\<lparr>rc_IssuerKeyID := keyID\<rparr>) payload sig"
proof -
  from assms(1) obtain payload sig where p: "Receipt_Validate (r\<lparr>rc_IssuerKeyID := keyID\<rparr>) = None"
    "Canonical cd (r\<lparr>rc_IssuerKeyID := keyID\<rparr>) = Inr payload" "raw payload = Some sig" "w = wire sig payload"
    unfolding sign_Inr by blast
  with assms(2)[OF p(2)]
  have "Receipt_Verify cr cd reg w = check_signature cr reg (r\<lparr>rc_IssuerKeyID := keyID\<rparr>) payload sig"
    by (simp add: Receipt_Verify_def wire_def)
  with p that show thesis by blast
qed

lemma signed_valid: "sign r = Inr w \<Longrightarrow> Receipt_Validate (r\<lparr>rc_IssuerKeyID := keyID\<rparr>) = None"
  unfolding sign_Inr by blast

end

interpretation ed25519: receipt_signer cd "ri_keyID i"
    "\<lambda>payload. Some (cr_ed25519_Sign cr (ri_privateKey i) payload)" "Receipt_Sign cr cd i" for cr cd i
  by unfold_locales (auto simp: Receipt_Sign_def Let_def split: option.splits sum.splits)

interpretation kms: receipt_signer cd "ks_KeyID s"
    "\<lambda>payload. case ks_Client s (ks_KeyID s) (cr_sha256 cr payload) of Inl _ \<Rightarrow> None | Inr sig \<Rightarrow> Some sig"
    "KMS_SignContext cr cd s" for cr cd s
  by unfold_locales (auto simp: KMS_SignContext_def Let_def split: option.splits sum.splits)

section \<open>Storing and issuing\<close>

text \<open>\<^verbatim>\<open>handler.go\<close>: the in-memory store maps an id to the signed text and the receipt.\<close>

type_synonym Receipt_Store = "string \<rightharpoonup> string \<times> Receipt"

datatype store_error = ErrReceiptNotFound | EmptyReceiptID | StoreFailure string

definition Receipt_Save :: "Receipt_Store \<Rightarrow> string \<Rightarrow> string \<Rightarrow> Receipt \<Rightarrow> store_error + Receipt_Store" where
  "Receipt_Save m rid signed r = (if rid = [] then Inl EmptyReceiptID else Inr (m(rid \<mapsto> (signed, r))))"

definition Receipt_Store_Get :: "Receipt_Store \<Rightarrow> string \<Rightarrow> store_error + string \<times> Receipt" where
  "Receipt_Store_Get m rid = (case m rid of None \<Rightarrow> Inl ErrReceiptNotFound | Some e \<Rightarrow> Inr e)"

text \<open>
  \<^verbatim>\<open>receipt_issue.go\<close>. \<open>unmarshal\<close> reads the receipt out of the job's JSON payload; the issuer and the
  store may be missing.
\<close>

datatype receipt_issue_error =
  NilIssuer | NilStore | IssueDecode | IssueSign receipt_error | IssueSave store_error

definition ReceiptIssue_Execute ::
  "Crypto \<Rightarrow> Receipt_Codec \<Rightarrow> (string \<Rightarrow> Receipt option) \<Rightarrow> Receipt_Issuer option \<Rightarrow>
   Receipt_Store option \<Rightarrow> instant \<Rightarrow> string \<Rightarrow> receipt_issue_error + Receipt_Store" where
  "ReceiptIssue_Execute cr cd unmarshal issuer store now payload =
     (case issuer of
        None \<Rightarrow> Inl NilIssuer
      | Some i \<Rightarrow>
          (case store of
             None \<Rightarrow> Inl NilStore
           | Some m \<Rightarrow>
               (case unmarshal payload of
                  None \<Rightarrow> Inl IssueDecode
                | Some p \<Rightarrow>
                    let r = (if rc_IssuedAtUTC p = 0 then p\<lparr>rc_IssuedAtUTC := now\<rparr> else p)
                    in case Receipt_Sign cr cd i r of
                         Inl e \<Rightarrow> Inl (IssueSign e)
                       | Inr signed \<Rightarrow>
                           (case Receipt_Save m (rc_ID r) signed r of
                              Inl e \<Rightarrow> Inl (IssueSave e)
                            | Inr m' \<Rightarrow> Inr m'))))"

section \<open>Properties\<close>

lemma key_id_fixed: "(r :: Receipt) = r\<lparr>rc_IssuerKeyID := k\<rparr> \<longleftrightarrow> rc_IssuerKeyID r = k"
  by (cases r) auto

lemma check_signature_Inr:
  "check_signature cr reg r payload sig = Inr r' \<longleftrightarrow>
     r' = r \<and>
     (if contains (rc_IssuerKeyID r) ecdsa_tag
      then \<exists>lookup pub. rg_PublicKeyAny reg = Some lookup \<and> lookup (rc_IssuerKeyID r) = Some (ECDSAKey pub) \<and>
             cr_ecdsa_VerifyASN1 cr pub (cr_sha256 cr payload) sig
      else \<exists>pub. rg_PublicKey reg (rc_IssuerKeyID r) = Some pub \<and> length pub = 32 \<and>
             cr_ed25519_Verify cr pub payload sig)"
  by (auto simp: check_signature_def Let_def split: option.splits crypto_key.splits)

lemma Receipt_Verify_Inr:
  "Receipt_Verify cr cd reg signed = Inr r \<longleftrightarrow>
     (\<exists>s64 p64 sig payload. cut_at (CHR ''.'') signed = Some (s64, p64) \<and> DecodeString s64 = Some sig \<and>
        DecodeString p64 = Some payload \<and> rc_Decode cd payload = Some r \<and> Receipt_Validate r = None \<and>
        check_signature cr reg r payload sig = Inr r)"
  by (auto simp: Receipt_Verify_def check_signature_Inr split: option.splits)

text \<open>
  C25. A verified receipt is signed and complete: if a text verifies, then its halves decode to a
  signature and a payload, the payload is the receipt returned, every required field is set and the
  observed window is not empty, and the signature checks against the key registered for the receipt's
  own key id, under ECDSA exactly when the id names it.
\<close>

theorem verified_receipt_signed:
  assumes "Receipt_Verify cr cd reg signed = Inr r"
  shows "\<exists>s64 p64 sig payload.
    signed = s64 @ CHR ''.'' # p64 \<and> DecodeString s64 = Some sig \<and> DecodeString p64 = Some payload \<and>
    rc_Decode cd payload = Some r \<and>
    rc_ID r \<noteq> [] \<and> rc_TenantID r \<noteq> [] \<and> rc_ApplyFixID r \<noteq> [] \<and> rc_IssuedAtUTC r \<noteq> 0 \<and>
    rc_ObservedFromUTC r < rc_ObservedToUTC r \<and>
    (if contains (rc_IssuerKeyID r) ''ecdsa-p256''
     then \<exists>lookup pub. rg_PublicKeyAny reg = Some lookup \<and> lookup (rc_IssuerKeyID r) = Some (ECDSAKey pub) \<and>
            cr_ecdsa_VerifyASN1 cr pub (cr_sha256 cr payload) sig
     else \<exists>pub. rg_PublicKey reg (rc_IssuerKeyID r) = Some pub \<and> cr_ed25519_Verify cr pub payload sig)"
proof -
  from assms obtain s64 p64 sig payload where w: "cut_at (CHR ''.'') signed = Some (s64, p64)"
    "DecodeString s64 = Some sig" "DecodeString p64 = Some payload" "rc_Decode cd payload = Some r"
    "Receipt_Validate r = None" "check_signature cr reg r payload sig = Inr r"
    unfolding Receipt_Verify_Inr by blast
  have "rc_ID r \<noteq> [] \<and> rc_TenantID r \<noteq> [] \<and> rc_ApplyFixID r \<noteq> [] \<and> rc_IssuedAtUTC r \<noteq> 0 \<and>
    rc_ObservedFromUTC r < rc_ObservedToUTC r"
    using w(5) by (auto simp: Receipt_Validate_def split: if_splits)
  moreover have "signed = s64 @ CHR ''.'' # p64" using w(1) by (simp add: cut_at_Some)
  moreover have "if contains (rc_IssuerKeyID r) ''ecdsa-p256''
     then \<exists>lookup pub. rg_PublicKeyAny reg = Some lookup \<and> lookup (rc_IssuerKeyID r) = Some (ECDSAKey pub) \<and>
            cr_ecdsa_VerifyASN1 cr pub (cr_sha256 cr payload) sig
     else \<exists>pub. rg_PublicKey reg (rc_IssuerKeyID r) = Some pub \<and> cr_ed25519_Verify cr pub payload sig"
    using w(6) unfolding check_signature_Inr ecdsa_tag_def by (auto split: if_splits)
  ultimately show ?thesis using w by blast
qed

lemma signed_receipt_check:
  assumes "Receipt_NewIssuer keyID priv = Inr i" and "Receipt_Sign cr cd i r = Inr signed"
    and "\<And>m. cr_ed25519_Verify cr pub m (cr_ed25519_Sign cr priv m)" and "length pub = 32"
    and "\<And>p. Canonical cd (r\<lparr>rc_IssuerKeyID := keyID\<rparr>) = Inr p \<Longrightarrow>
           rc_Decode cd p = Some (r\<lparr>rc_IssuerKeyID := keyID\<rparr>)"
  shows "Receipt_Verify cr cd (static_registry (StaticRegistry_Add reg keyID pub)) signed =
    (if contains keyID ''ecdsa-p256'' then Inl (NotAlgoRegistry keyID)
     else Inr (r\<lparr>rc_IssuerKeyID := keyID\<rparr>))"
proof -
  have i: "ri_keyID i = keyID" "ri_privateKey i = priv"
    using assms(1) by (auto simp: Receipt_NewIssuer_def split: if_splits)
  let ?reg = "static_registry (StaticRegistry_Add reg keyID pub)"
  obtain payload sig where p: "sig = cr_ed25519_Sign cr priv payload"
    "Receipt_Verify cr cd ?reg signed = check_signature cr ?reg (r\<lparr>rc_IssuerKeyID := keyID\<rparr>) payload sig"
    using ed25519.verify_signed[OF assms(2), of cr ?reg] assms(5) i by (metis option.inject)
  then show ?thesis using assms(3,4)
    by (simp add: check_signature_def static_registry_def StaticRegistry_Add_def ecdsa_tag_def)
qed

text \<open>
  Issue and verify: a receipt the Ed25519 issuer signed verifies, to the receipt with the issuer's
  key id in it, against a registry in which the issuer's public key was added, whatever else the
  registry holds; except that an issuer whose key id contains the ECDSA tag, which nothing forbids,
  signs receipts the registry can never verify. The key pair and the codec have to be the real ones.
\<close>

lemma signed_receipt_verifies:
  assumes "Receipt_NewIssuer keyID priv = Inr i" and "Receipt_Sign cr cd i r = Inr signed"
    and "\<And>m. cr_ed25519_Verify cr pub m (cr_ed25519_Sign cr priv m)" and "length pub = 32"
    and "\<And>p. Canonical cd (r\<lparr>rc_IssuerKeyID := keyID\<rparr>) = Inr p \<Longrightarrow>
           rc_Decode cd p = Some (r\<lparr>rc_IssuerKeyID := keyID\<rparr>)"
  shows "Receipt_Verify cr cd (static_registry (StaticRegistry_Add reg keyID pub)) signed =
    (if contains keyID ''ecdsa-p256'' then Inl (NotAlgoRegistry keyID)
     else Inr (r\<lparr>rc_IssuerKeyID := keyID\<rparr>))"
  using signed_receipt_check[OF assms] .

text \<open>The same through the key service, whose signer insists on the tag.\<close>

lemma kms_receipt_verifies:
  assumes "KMS_NewSigner keyID (Some client) = Inr s" and "KMS_SignContext cr cd s r = Inr signed"
    and "rg_PublicKeyAny reg = Some lookup" and "lookup keyID = Some (ECDSAKey pub)"
    and "\<And>d sig. client keyID d = Inr sig \<Longrightarrow> cr_ecdsa_VerifyASN1 cr pub d sig"
    and "\<And>p. Canonical cd (r\<lparr>rc_IssuerKeyID := keyID\<rparr>) = Inr p \<Longrightarrow>
           rc_Decode cd p = Some (r\<lparr>rc_IssuerKeyID := keyID\<rparr>)"
  shows "Receipt_Verify cr cd reg signed = Inr (r\<lparr>rc_IssuerKeyID := keyID\<rparr>)"
proof -
  have s: "ks_KeyID s = keyID" "ks_Client s = client" "contains keyID ecdsa_tag"
    using assms(1) by (auto simp: KMS_NewSigner_def split: if_splits)
  have dec: "rc_Decode cd p = Some (r\<lparr>rc_IssuerKeyID := ks_KeyID s\<rparr>)"
    if "Canonical cd (r\<lparr>rc_IssuerKeyID := ks_KeyID s\<rparr>) = Inr p" for p
    using assms(6) s that by simp
  obtain payload sig where
    "(case ks_Client s (ks_KeyID s) (cr_sha256 cr payload) of Inl _ \<Rightarrow> None | Inr sig \<Rightarrow> Some sig) = Some sig"
    "Receipt_Verify cr cd reg signed = check_signature cr reg (r\<lparr>rc_IssuerKeyID := ks_KeyID s\<rparr>) payload sig"
    by (rule kms.verify_signed[OF assms(2) dec])
  with s assms(3-5) show ?thesis by (simp add: check_signature_def split: sum.splits)
qed

text \<open>
  Issuing stores a receipt that differs from the signed one: the workflow keeps the receipt as the
  job gave it, with the issue time filled in, beside the signed text, but signing sets the issuer's
  key id on a copy. Whenever the job's key id is not the issuer's, as when it is left empty for the
  issuer to fill, the stored receipt names another issuer key than the payload that was signed.
\<close>

lemma issued_receipt_keeps_job_key_id:
  assumes "ReceiptIssue_Execute cr cd unmarshal (Some i) (Some m) now raw = Inr m'"
  shows "\<exists>p r signed payload. unmarshal raw = Some p \<and>
    r = (if rc_IssuedAtUTC p = 0 then p\<lparr>rc_IssuedAtUTC := now\<rparr> else p) \<and>
    m' = m(rc_ID p \<mapsto> (signed, r)) \<and>
    Canonical cd (r\<lparr>rc_IssuerKeyID := ri_keyID i\<rparr>) = Inr payload \<and>
    signed = wire (cr_ed25519_Sign cr (ri_privateKey i) payload) payload \<and>
    (rc_IssuerKeyID p = ri_keyID i \<longleftrightarrow> r = r\<lparr>rc_IssuerKeyID := ri_keyID i\<rparr>)"
proof -
  from assms obtain p signed where p: "unmarshal raw = Some p"
    "Receipt_Sign cr cd i (if rc_IssuedAtUTC p = 0 then p\<lparr>rc_IssuedAtUTC := now\<rparr> else p) = Inr signed"
    "m' = m(rc_ID p \<mapsto> (signed, if rc_IssuedAtUTC p = 0 then p\<lparr>rc_IssuedAtUTC := now\<rparr> else p))"
    by (auto simp: ReceiptIssue_Execute_def Receipt_Save_def Let_def split: option.splits sum.splits if_splits)
  let ?r = "if rc_IssuedAtUTC p = 0 then p\<lparr>rc_IssuedAtUTC := now\<rparr> else p"
  from p(2) obtain payload where "Canonical cd (?r\<lparr>rc_IssuerKeyID := ri_keyID i\<rparr>) = Inr payload"
    "signed = wire (cr_ed25519_Sign cr (ri_privateKey i) payload) payload"
    unfolding ed25519.sign_Inr by blast
  moreover have "rc_IssuerKeyID p = ri_keyID i \<longleftrightarrow> ?r = ?r\<lparr>rc_IssuerKeyID := ri_keyID i\<rparr>"
    unfolding key_id_fixed by simp
  ultimately show ?thesis using p
    by (intro exI[of _ p] exI[of _ ?r] exI[of _ signed] exI[of _ payload] conjI) simp_all
qed

section \<open>Concrete instances\<close>

definition sample_receipt :: Receipt where
  "sample_receipt =
     \<lparr>rc_ID = ''r1'', rc_TenantID = ''t1'', rc_Workload = ''web'', rc_ApplyFixID = ''f1'', rc_ObservedFromUTC = 1,
      rc_ObservedToUTC = 2, rc_PredictedSavingsUSDCents = 100, rc_RealisedSavingsUSDCents = 90,
      rc_CloudBillSource = ''cur'', rc_IssuerKeyID = [], rc_IssuedAtUTC = 3\<rparr>"

definition sample_crypto :: Crypto where
  "sample_crypto =
     \<lparr>cr_ed25519_Sign = (\<lambda>_ m. m), cr_ed25519_Verify = (\<lambda>_ m sig. sig = m),
      cr_ecdsa_VerifyASN1 = (\<lambda>_ _ _. False), cr_sha256 = (\<lambda>m. m)\<rparr>"

definition sample_codec :: Receipt_Codec where
  "sample_codec =
     \<lparr>rc_Encode = (\<lambda>r. if rc_IssuerKeyID r = ''k1'' then Some (''{}'' @ [CHR 0x0A]) else None),
      rc_Decode = (\<lambda>s. if s = ''{}'' then Some (sample_receipt\<lparr>rc_IssuerKeyID := ''k1''\<rparr>) else None)\<rparr>"

definition sample_issuer :: Receipt_Issuer where
  "sample_issuer = \<lparr>ri_keyID = ''k1'', ri_privateKey = replicate 64 CHR ''p''\<rparr>"

lemma sample_NewIssuer: "Receipt_NewIssuer ''k1'' (replicate 64 CHR ''p'') = Inr sample_issuer"
  by (simp add: Receipt_NewIssuer_def sample_issuer_def)

lemma sample_Canonical:
  "Canonical sample_codec (sample_receipt\<lparr>rc_IssuerKeyID := ''k1''\<rparr>) = Inr ''{}''"
  by (simp add: Canonical_def sample_codec_def trim_right_def Let_def)

lemma sample_Sign:
  "Receipt_Sign sample_crypto sample_codec sample_issuer sample_receipt = Inr (wire ''{}'' ''{}'')"
  using sample_Canonical
  by (simp add: Receipt_Sign_def sample_issuer_def Receipt_Validate_def sample_receipt_def sample_crypto_def)

lemma signed_receipt_verifies_witness:
  "Receipt_Verify sample_crypto sample_codec
     (static_registry (StaticRegistry_Add Map.empty ''k1'' (replicate 32 CHR ''q''))) (wire ''{}'' ''{}'') =
   Inr (sample_receipt\<lparr>rc_IssuerKeyID := ''k1''\<rparr>)"
proof -
  have "\<not> contains ''k1'' ''ecdsa-p256''" by (simp add: contains_def)
  moreover have "rc_Decode sample_codec ''{}'' = Some (sample_receipt\<lparr>rc_IssuerKeyID := ''k1''\<rparr>)"
    by (simp add: sample_codec_def)
  ultimately show ?thesis
    using signed_receipt_verifies[OF sample_NewIssuer sample_Sign, of "replicate 32 CHR ''q''" Map.empty]
      sample_Canonical
    by (simp add: sample_crypto_def)
qed

lemma verified_receipt_signed_witness:
  "rc_ObservedFromUTC sample_receipt < rc_ObservedToUTC sample_receipt"
proof -
  let ?reg = "\<lparr>rg_PublicKey = [''k1'' \<mapsto> replicate 32 CHR ''q''], rg_PublicKeyAny = None\<rparr>"
  have "Receipt_Verify sample_crypto sample_codec ?reg (wire ''{}'' ''{}'') =
    Inr (sample_receipt\<lparr>rc_IssuerKeyID := ''k1''\<rparr>)"
    unfolding Receipt_Verify_Inr wire_def append_Cons append_Nil cut_signed
    by (simp add: sample_codec_def Receipt_Validate_def sample_receipt_def
        check_signature_def ecdsa_tag_def contains_def sample_crypto_def del: EncodeToString.simps)
  from verified_receipt_signed[OF this] show ?thesis by (elim exE conjE) simp
qed

lemma issued_receipt_keeps_job_key_id_witness:
  "\<exists>m' signed. ReceiptIssue_Execute sample_crypto sample_codec (\<lambda>_. Some sample_receipt) (Some sample_issuer)
     (Some Map.empty) 9 ''job'' = Inr m' \<and> m' ''r1'' = Some (signed, sample_receipt) \<and>
     rc_IssuerKeyID sample_receipt \<noteq> ri_keyID sample_issuer"
proof -
  have x: "ReceiptIssue_Execute sample_crypto sample_codec (\<lambda>_. Some sample_receipt) (Some sample_issuer)
     (Some Map.empty) 9 ''job'' = Inr [''r1'' \<mapsto> (wire ''{}'' ''{}'', sample_receipt)]"
    using sample_Sign by (simp add: ReceiptIssue_Execute_def Receipt_Save_def sample_receipt_def)
  from issued_receipt_keeps_job_key_id[OF x] x show ?thesis
    by (auto simp: sample_receipt_def sample_issuer_def)
qed

end
