(* ===== verification/Receipts_Http.thy ===== *)
theory Receipts_Http
  imports Receipts
begin

text \<open>
  \<^verbatim>\<open>backend/internal/receipts/handler.go\<close>: the public receipt routes. The HTML template is outside; a
  page is the view it is executed on. \<open>pretty\<close> is \<open>json.MarshalIndent\<close> on a receipt.
\<close>

record VerifyResponse =
  vr_Receipt :: Receipt
  vr_Signed :: string
  vr_Verified :: bool
  vr_IssuerKeyID :: string
  vr_VerifierNotice :: string

record verifyView =
  vv_ID :: string
  vv_TenantID :: string
  vv_Workload :: string
  vv_ApplyFixID :: string
  vv_Observed :: string
  vv_Predicted :: string
  vv_Realised :: string
  vv_CloudBill :: string
  vv_IssuerKeyID :: string
  vv_IssuedAtUTC :: string
  vv_Verified :: bool
  vv_Signature :: string
  vv_PayloadB64 :: string
  vv_PayloadJSON :: string
  vv_Disclosure :: string

datatype receipts_body = ReceiptJson VerifyResponse | VerifyPage verifyView

section \<open>Amounts\<close>

fun comma_loop :: "string \<Rightarrow> string" where
  "comma_loop s = (if length s \<le> 3 then s else take 3 s @ '','' @ comma_loop (drop 3 s))"

declare comma_loop.simps [simp del]

definition withCommas :: "i64 \<Rightarrow> string" where
  "withCommas n =
     (let s = show_int n
      in if length s \<le> 3 then s
         else let rem = length s mod 3
              in (if rem > 0 then take rem s @ (if length s > rem then '','' else []) else []) @
                 comma_loop (drop rem s))"

definition fmtCentsUSD :: "i64 \<Rightarrow> string" where
  "fmtCentsUSD cents0 =
     (let sign = (if cents0 < 0 then ''-'' else []);
          cents = (if cents0 < 0 then wrap64 (- cents0) else cents0);
          d = cents sdiv 100;
          rem = cents smod 100
      in sign @ ''$'' @ withCommas d @ ''.'' @ pad2 rem)"

section \<open>Escaping (\<open>template.HTMLEscapeString\<close>)\<close>

text \<open>NUL becomes U+FFFD.\<close>

definition html_escape_char :: "char \<Rightarrow> string" where
  "html_escape_char c =
     (if c = CHR 0x00 then [CHR 0xEF, CHR 0xBF, CHR 0xBD]
      else if c = CHR 0x22 then ''&#34;''
      else if c = CHR 0x27 then ''&#39;''
      else if c = CHR ''&'' then ''&amp;''
      else if c = CHR ''<'' then ''&lt;''
      else if c = CHR ''>'' then ''&gt;''
      else [c])"

definition HTMLEscapeString :: "string \<Rightarrow> string" where
  "HTMLEscapeString s = concat (map html_escape_char s)"

text \<open>The page is fixed text around the escaped id; \<open>before\<close> and \<open>after\<close> stand for that text.\<close>

definition notFoundPage :: "string \<Rightarrow> string \<Rightarrow> string \<Rightarrow> string" where
  "notFoundPage before after rid = before @ HTMLEscapeString rid @ after"

section \<open>Handlers\<close>

record receipts_env =
  re_Crypto :: Crypto
  re_Codec :: Receipt_Codec
  re_Pretty :: "Receipt \<Rightarrow> string"
  re_PageBefore :: string
  re_PageAfter :: string

record Receipts_Handler =
  rh_Store :: "string \<Rightarrow> store_error + string \<times> Receipt"
  rh_Registry :: "Key_Registry option"

definition verify_now :: "receipts_env \<Rightarrow> Receipts_Handler \<Rightarrow> string \<Rightarrow> bool" where
  "verify_now env h signed =
     (case rh_Registry h of
        None \<Rightarrow> False
      | Some reg \<Rightarrow> (case Receipt_Verify (re_Crypto env) (re_Codec env) reg signed of Inr _ \<Rightarrow> True | Inl _ \<Rightarrow> False))"

definition Receipts_Get :: "receipts_env \<Rightarrow> Receipts_Handler \<Rightarrow> Request \<Rightarrow> receipts_body Response" where
  "Receipts_Get env h r =
     (if rq_Method r \<noteq> ''GET'' then MethodNotAllowed r ''GET''
      else let rid = rq_PathValue r ''id''
           in if rid = [] then MissingField r ''id''
              else case rh_Store h rid of
                     Inl ErrReceiptNotFound \<Rightarrow> NotFound r ''receipt''
                   | Inl _ \<Rightarrow> Internal r ''could not load receipt''
                   | Inr (signed, parsed) \<Rightarrow>
                       json_response 200 (ReceiptJson
                         \<lparr>vr_Receipt = parsed, vr_Signed = signed, vr_Verified = verify_now env h signed,
                          vr_IssuerKeyID = rc_IssuerKeyID parsed,
                          vr_VerifierNotice = ''Verification keys are published at https://optiqor.dev/keys''\<rparr>))"

definition arrow :: string where
  "arrow = [CHR 0xE2, CHR 0x86, CHR 0x92]"

definition verify_view :: "receipts_env \<Rightarrow> Receipts_Handler \<Rightarrow> string \<Rightarrow> Receipt \<Rightarrow> verifyView" where
  "verify_view env h signed parsed =
     \<lparr>vv_ID = rc_ID parsed, vv_TenantID = rc_TenantID parsed, vv_Workload = rc_Workload parsed,
      vv_ApplyFixID = rc_ApplyFixID parsed,
      vv_Observed = format_date (rc_ObservedFromUTC parsed) @ '' '' @ arrow @ '' '' @
        format_date (rc_ObservedToUTC parsed),
      vv_Predicted = fmtCentsUSD (rc_PredictedSavingsUSDCents parsed),
      vv_Realised = fmtCentsUSD (rc_RealisedSavingsUSDCents parsed),
      vv_CloudBill = rc_CloudBillSource parsed, vv_IssuerKeyID = rc_IssuerKeyID parsed,
      vv_IssuedAtUTC = format_minute_utc (rc_IssuedAtUTC parsed),
      vv_Verified = verify_now env h signed,
      vv_Signature = (case cut_at (CHR ''.'') signed of None \<Rightarrow> signed | Some (a, _) \<Rightarrow> a),
      vv_PayloadB64 = (case cut_at (CHR ''.'') signed of None \<Rightarrow> [] | Some (_, b) \<Rightarrow> b),
      vv_PayloadJSON = re_Pretty env parsed,
      vv_Disclosure = ''Agent accuracy: '' @ [CHR 0xC2, CHR 0xB1] @
        ''15%. Backed by 30 days of Prometheus + your AWS bill.''\<rparr>"

definition html_headers :: "(string \<times> string) list" where
  "html_headers = [(''Content-Type'', ''text/html; charset=utf-8'')]"

definition Receipts_Verify :: "receipts_env \<Rightarrow> Receipts_Handler \<Rightarrow> Request \<Rightarrow> receipts_body Response" where
  "Receipts_Verify env h r =
     (if rq_Method r \<noteq> ''GET'' then MethodNotAllowed r ''GET''
      else let rid = rq_PathValue r ''id''
           in if rid = [] then MissingField r ''id''
              else case rh_Store h rid of
                     Inl ErrReceiptNotFound \<Rightarrow>
                       \<lparr>rs_Status = 404, rs_Header = html_headers,
                        rs_Body = TextBody (notFoundPage (re_PageBefore env) (re_PageAfter env) rid)\<rparr>
                   | Inl _ \<Rightarrow> Internal r ''could not load receipt''
                   | Inr (signed, parsed) \<Rightarrow>
                       \<lparr>rs_Status = 200, rs_Header = html_headers,
                        rs_Body = JsonBody (VerifyPage (verify_view env h signed parsed))\<rparr>)"

section \<open>Properties\<close>

lemma filter_take_drop: "filter P (take k s) @ filter P (drop k s) = filter P s"
  by (metis append_take_drop_id filter_append)

lemma comma_loop_digits: "filter (\<lambda>c. c \<noteq> CHR '','') (comma_loop s) = filter (\<lambda>c. c \<noteq> CHR '','') s"
proof (induction s rule: comma_loop.induct)
  case (1 s)
  then show ?case by (subst comma_loop.simps) (simp add: filter_take_drop)
qed

lemma show_int_no_comma: "filter (\<lambda>c. c \<noteq> CHR '','') (show_int n) = show_int n"
  by (rule filter_True) (auto simp: show_int_def is_digit_def dest: show_nat_digits)

text \<open>Grouping only inserts commas.\<close>

lemma withCommas_digits: "filter (\<lambda>c. c \<noteq> CHR '','') (withCommas n) = show_int n"
  by (simp add: withCommas_def Let_def comma_loop_digits show_int_no_comma filter_take_drop)

text \<open>The smallest amount has no positive counterpart, so its sign is printed three times.\<close>

lemma fmtCentsUSD_min: "fmtCentsUSD (- (2 ^ 63)) = ''-$-92,233,720,368,547,758.-8''"
  by (simp add: fmtCentsUSD_def withCommas_def comma_loop.simps pad2_def show_int_def show_nat.simps
      digit_char_def wrap64_def signed_divide_int_def signed_modulo_int_def Let_def)
    code_simp

lemma HTMLEscapeString_safe:
  "{CHR 0x00, CHR 0x22, CHR 0x27, CHR ''<'', CHR ''>''} \<inter> set (HTMLEscapeString s) = {}"
  by (induction s) (auto simp: HTMLEscapeString_def html_escape_char_def split: if_splits)

lemma Receipts_Get_found:
  "rq_Method r = ''GET'' \<Longrightarrow> rq_PathValue r ''id'' = rid \<Longrightarrow> rid \<noteq> [] \<Longrightarrow> rh_Store h rid = Inr (signed, parsed) \<Longrightarrow>
   Receipts_Get env h r = json_response 200 (ReceiptJson
     \<lparr>vr_Receipt = parsed, vr_Signed = signed, vr_Verified = verify_now env h signed,
      vr_IssuerKeyID = rc_IssuerKeyID parsed,
      vr_VerifierNotice = ''Verification keys are published at https://optiqor.dev/keys''\<rparr>)"
  by (simp add: Receipts_Get_def)

text \<open>
  From the job to the public answer: a receipt job that succeeds makes the receipt available under
  its id, and the route answers 200 and verified, as long as the registry holds the issuer's public key
  and the key id does not name ECDSA. But the answer's receipt and issuer key id are the job's, not the
  signed ones: a job that leaves the key id for the issuer to fill is shown as verified with an empty
  key id.
\<close>

lemma issued_receipt_served:
  assumes "ReceiptIssue_Execute (re_Crypto env) (re_Codec env) unmarshal (Some i) (Some m) now job = Inr m'"
    and "Receipt_NewIssuer keyID priv = Inr i"
    and "\<And>x. cr_ed25519_Verify (re_Crypto env) pub x (cr_ed25519_Sign (re_Crypto env) priv x)" "length pub = 32"
    and "\<And>p. Canonical (re_Codec env) (j\<lparr>rc_IssuerKeyID := keyID\<rparr>) = Inr p \<Longrightarrow>
           rc_Decode (re_Codec env) p = Some (j\<lparr>rc_IssuerKeyID := keyID\<rparr>)"
    and "unmarshal job = Some j" "rc_IssuedAtUTC j \<noteq> 0"
    and "rq_Method r = ''GET''" "rq_PathValue r ''id'' = rc_ID j"
    and "\<not> contains keyID ''ecdsa-p256''"
  shows "\<exists>signed.
    Receipts_Get env \<lparr>rh_Store = Receipt_Store_Get m',
        rh_Registry = Some (static_registry (StaticRegistry_Add reg keyID pub))\<rparr> r =
      json_response 200 (ReceiptJson \<lparr>vr_Receipt = j, vr_Signed = signed, vr_Verified = True,
        vr_IssuerKeyID = rc_IssuerKeyID j,
        vr_VerifierNotice = ''Verification keys are published at https://optiqor.dev/keys''\<rparr>) \<and>
    Receipt_Verify (re_Crypto env) (re_Codec env) (static_registry (StaticRegistry_Add reg keyID pub)) signed =
      Inr (j\<lparr>rc_IssuerKeyID := keyID\<rparr>)"
proof -
  let ?reg = "static_registry (StaticRegistry_Add reg keyID pub)"
  from assms(1,6,7) obtain signed where s: "Receipt_Sign (re_Crypto env) (re_Codec env) i j = Inr signed"
    "m' = m(rc_ID j \<mapsto> (signed, j))" "rc_ID j \<noteq> []"
    by (auto simp: ReceiptIssue_Execute_def Receipt_Save_def Let_def split: sum.splits if_splits)
  have v: "Receipt_Verify (re_Crypto env) (re_Codec env) ?reg signed = Inr (j\<lparr>rc_IssuerKeyID := keyID\<rparr>)"
    using signed_receipt_check[OF assms(2) s(1) assms(3,4,5)] assms(10) by simp
  with s assms(8,9) show ?thesis
    by (intro exI[of _ signed] conjI) (simp_all add: Receipts_Get_found Receipt_Store_Get_def verify_now_def)
qed

definition sample_receipts_env :: receipts_env where
  "sample_receipts_env =
     \<lparr>re_Crypto = sample_crypto, re_Codec = sample_codec, re_Pretty = (\<lambda>_. []), re_PageBefore = [],
      re_PageAfter = []\<rparr>"

definition sample_get :: Request where
  "sample_get =
     \<lparr>rq_Method = ''GET'', rq_Path = ''/v1/receipts/r1'', rq_Host = ''api'', rq_PathValue = (\<lambda>_. ''r1''),
      rq_Header = (\<lambda>_. []), rq_Query = (\<lambda>_. []), rq_Cookie = (\<lambda>_. None), rq_TLS = True,
      rq_PeerCertificates = [], rq_Body = [], rq_Tenant = None, rq_RequestID = []\<rparr>"

lemma issued_receipt_served_witness:
  "\<exists>signed. Receipts_Get sample_receipts_env
     \<lparr>rh_Store = Receipt_Store_Get [''r1'' \<mapsto> (wire ''{}'' ''{}'', sample_receipt)],
      rh_Registry = Some (static_registry (StaticRegistry_Add Map.empty ''k1'' (replicate 32 CHR ''q'')))\<rparr>
     sample_get =
   json_response 200 (ReceiptJson \<lparr>vr_Receipt = sample_receipt, vr_Signed = signed, vr_Verified = True,
        vr_IssuerKeyID = [],
        vr_VerifierNotice = ''Verification keys are published at https://optiqor.dev/keys''\<rparr>)"
proof -
  have x: "ReceiptIssue_Execute sample_crypto sample_codec (\<lambda>_. Some sample_receipt) (Some sample_issuer)
     (Some Map.empty) 9 ''job'' = Inr [''r1'' \<mapsto> (wire ''{}'' ''{}'', sample_receipt)]"
    using sample_Sign by (simp add: ReceiptIssue_Execute_def Receipt_Save_def sample_receipt_def)
  have "\<not> contains ''k1'' ''ecdsa-p256''" by (simp add: contains_def)
  moreover have "rc_Decode sample_codec ''{}'' = Some (sample_receipt\<lparr>rc_IssuerKeyID := ''k1''\<rparr>)"
    by (simp add: sample_codec_def)
  moreover have "rc_ID sample_receipt = ''r1''" "rc_IssuedAtUTC sample_receipt \<noteq> 0"
    "rc_IssuerKeyID sample_receipt = []" "rq_Method sample_get = ''GET''"
    "rq_PathValue sample_get ''id'' = ''r1''" "re_Crypto sample_receipts_env = sample_crypto"
    "re_Codec sample_receipts_env = sample_codec"
    by (simp_all add: sample_receipt_def sample_get_def sample_receipts_env_def)
  moreover have "cr_ed25519_Verify sample_crypto pub y (cr_ed25519_Sign sample_crypto priv y)" for pub priv y
    by (simp add: sample_crypto_def)
  ultimately show ?thesis
    using issued_receipt_served[where env = sample_receipts_env and unmarshal = "\<lambda>_. Some sample_receipt"
        and i = sample_issuer and m = Map.empty and now = 9 and job = "''job''" and j = sample_receipt
        and m' = "[''r1'' \<mapsto> (wire ''{}'' ''{}'', sample_receipt)]" and pub = "replicate 32 CHR ''q''"
        and r = sample_get and reg = Map.empty, OF _ sample_NewIssuer]
      x sample_Canonical
    by auto
qed

end
