(* ===== verification/Session.thy ===== *)
theory Session
  imports Go_Base64 Go_Date Http
begin

text \<open>
  \<^verbatim>\<open>backend/internal/auth\<close>: the dashboard's sessions, as compact HS256 tokens (\<^verbatim>\<open>session.go\<close>), and the two
  routes that issue and report them (\<^verbatim>\<open>handler.go\<close>). HMAC-SHA256 and the JSON codec of the claims are
  parameters: \<open>se_Alg\<close> reads the algorithm out of a header, \<open>se_Marshal\<close> and \<open>se_Unmarshal\<close> write and read
  claims.
\<close>

record Session =
  ss_TenantID :: string
  ss_WorkspaceID :: string
  ss_Subject :: string
  ss_Name :: string
  ss_IssuedAt :: instant
  ss_ExpiresAt :: instant

record jwtClaims =
  jc_TenantID :: string
  jc_WorkspaceID :: string
  jc_Subject :: string
  jc_Name :: string
  jc_IssuedAt :: i64
  jc_ExpiresAt :: i64

record session_env =
  se_HMAC :: "string \<Rightarrow> string \<Rightarrow> string"
  se_Alg :: "string \<Rightarrow> string option"
  se_Marshal :: "jwtClaims \<Rightarrow> string"
  se_Unmarshal :: "string \<Rightarrow> jwtClaims option"

datatype session_error =
  SessionMissingTid | SessionMissingSub | SessionMissingExp
| SegmentCount nat | SignatureMismatch | HeaderDecode | HeaderUnmarshal | UnsupportedAlg string
| SessionPayloadDecode | SessionPayloadUnmarshal | InvalidSession session_error | SessionExpired instant

definition Session_Valid :: "Session \<Rightarrow> session_error option" where
  "Session_Valid s =
     (if ss_TenantID s = [] then Some SessionMissingTid
      else if ss_Subject s = [] then Some SessionMissingSub
      else if ss_ExpiresAt s = 0 then Some SessionMissingExp
      else None)"

text \<open>A signer is its secret; \<open>None\<close> is the panic on an empty one.\<close>

type_synonym Session_Signer = string

definition Session_NewSigner :: "string \<Rightarrow> Session_Signer option" where
  "Session_NewSigner secret = (if secret = [] then None else Some secret)"

definition jwt_header :: string where
  "jwt_header = ''{'' @ [CHR 0x22] @ ''alg'' @ [CHR 0x22] @ '':'' @ [CHR 0x22] @ ''HS256'' @ [CHR 0x22] @ '','' @
     [CHR 0x22] @ ''typ'' @ [CHR 0x22] @ '':'' @ [CHR 0x22] @ ''JWT'' @ [CHR 0x22] @ ''}''"

definition session_mac :: "session_env \<Rightarrow> Session_Signer \<Rightarrow> string \<Rightarrow> string" where
  "session_mac env g input = EncodeToString (se_HMAC env g input)"

definition claims_of :: "Session \<Rightarrow> jwtClaims" where
  "claims_of s =
     \<lparr>jc_TenantID = ss_TenantID s, jc_WorkspaceID = ss_WorkspaceID s, jc_Subject = ss_Subject s,
      jc_Name = ss_Name s, jc_IssuedAt = Unix (ss_IssuedAt s), jc_ExpiresAt = Unix (ss_ExpiresAt s)\<rparr>"

definition Session_Issue :: "session_env \<Rightarrow> Session_Signer \<Rightarrow> Session \<Rightarrow> session_error + string" where
  "Session_Issue env g s =
     (case Session_Valid s of
        Some e \<Rightarrow> Inl e
      | None \<Rightarrow>
          let h = EncodeToString jwt_header;
              p = EncodeToString (se_Marshal env (claims_of s));
              signed = h @ ''.'' @ p
          in Inr (signed @ ''.'' @ session_mac env g signed))"

text \<open>\<open>time.Unix(sec, 0)\<close>.\<close>

definition from_unix :: "i64 \<Rightarrow> instant" where
  "from_unix sec = unix_time sec 0"

definition session_of :: "jwtClaims \<Rightarrow> Session" where
  "session_of c =
     \<lparr>ss_TenantID = jc_TenantID c, ss_WorkspaceID = jc_WorkspaceID c, ss_Subject = jc_Subject c,
      ss_Name = jc_Name c, ss_IssuedAt = from_unix (jc_IssuedAt c), ss_ExpiresAt = from_unix (jc_ExpiresAt c)\<rparr>"

definition check_claims :: "instant \<Rightarrow> jwtClaims \<Rightarrow> session_error + Session" where
  "check_claims now c =
     (let s = session_of c
      in case Session_Valid s of
           Some e \<Rightarrow> Inl (InvalidSession e)
         | None \<Rightarrow> if now > ss_ExpiresAt s then Inl (SessionExpired (ss_ExpiresAt s)) else Inr s)"

text \<open>Every error of \<open>Verify\<close> wraps \<open>ErrInvalidToken\<close>.\<close>

definition Session_Verify ::
  "session_env \<Rightarrow> Session_Signer \<Rightarrow> instant \<Rightarrow> string \<Rightarrow> session_error + Session" where
  "Session_Verify env g now token =
     (case split_on (CHR ''.'') token of
        [h, p, sig] \<Rightarrow>
          if session_mac env g (h @ ''.'' @ p) \<noteq> sig then Inl SignatureMismatch
          else (case DecodeString h of
                  None \<Rightarrow> Inl HeaderDecode
                | Some headerBytes \<Rightarrow>
                    (case se_Alg env headerBytes of
                       None \<Rightarrow> Inl HeaderUnmarshal
                     | Some alg \<Rightarrow>
                         if alg \<noteq> ''HS256'' then Inl (UnsupportedAlg alg)
                         else (case DecodeString p of
                                 None \<Rightarrow> Inl SessionPayloadDecode
                               | Some payload \<Rightarrow>
                                   (case se_Unmarshal env payload of
                                      None \<Rightarrow> Inl SessionPayloadUnmarshal
                                    | Some c \<Rightarrow> check_claims now c))))
      | parts \<Rightarrow> Inl (SegmentCount (length parts)))"

section \<open>The routes (\<^verbatim>\<open>handler.go\<close>)\<close>

definition CookieName :: string where "CookieName = ''optiqor_session''"
definition SessionTTL :: duration where "SessionTTL = nanoseconds (12 * 3600)"

record WhoamiResponse =
  wr_TenantID :: string
  wr_WorkspaceID :: string
  wr_Subject :: string
  wr_Name :: string
  wr_Source :: string
  wr_ExpiresAt :: string

record IssueRequest =
  ir_Subject :: string
  ir_Name :: string
  ir_TenantID :: string
  ir_WorkspaceID :: string

record IssueResponse =
  is_Token :: string
  is_ExpiresAt :: string

record Cookie =
  ck_Name :: string
  ck_Value :: string
  ck_Path :: string
  ck_Expires :: instant
  ck_HttpOnly :: bool
  ck_Secure :: bool
  ck_SameSiteLax :: bool

text \<open>
  Each lookup that fails falls through to the next: the error of a bearer token is always an
  \<open>ErrInvalidToken\<close>, so the early return after it is never taken.
\<close>

definition cookie_session ::
  "session_env \<Rightarrow> Session_Signer \<Rightarrow> instant \<Rightarrow> Request \<Rightarrow> Session option" where
  "cookie_session env g now r =
     (case rq_Cookie r CookieName of
        Some v \<Rightarrow> if v = [] then None
                  else (case Session_Verify env g now v of Inr s \<Rightarrow> Some s | Inl _ \<Rightarrow> None)
      | None \<Rightarrow> None)"

definition sessionFromRequest ::
  "session_env \<Rightarrow> Session_Signer option \<Rightarrow> instant \<Rightarrow> Request \<Rightarrow> Session option" where
  "sessionFromRequest env signer now r =
     (case signer of
        None \<Rightarrow> None
      | Some g \<Rightarrow>
          let bearer = rq_Header r ''Authorization''
          in if take (length ''Bearer '') bearer = ''Bearer ''
             then (case Session_Verify env g now (trim_space (trim_prefix bearer ''Bearer '')) of
                     Inr s \<Rightarrow> Some s
                   | Inl _ \<Rightarrow> cookie_session env g now r)
             else cookie_session env g now r)"

definition Whoami ::
  "session_env \<Rightarrow> Session_Signer option \<Rightarrow> instant \<Rightarrow> Request \<Rightarrow> WhoamiResponse Response" where
  "Whoami env signer now r =
     (case sessionFromRequest env signer now r of
        Some s \<Rightarrow>
          json_response 200
            \<lparr>wr_TenantID = ss_TenantID s, wr_WorkspaceID = ss_WorkspaceID s, wr_Subject = ss_Subject s,
             wr_Name = ss_Name s, wr_Source = ''jwt'', wr_ExpiresAt = format_rfc3339 (ss_ExpiresAt s)\<rparr>
      | None \<Rightarrow>
          (case FromContext (rq_Tenant r) of
             Some t \<Rightarrow>
               json_response 200
                 \<lparr>wr_TenantID = tc_TenantID t, wr_WorkspaceID = tc_WorkspaceID t, wr_Subject = [], wr_Name = [],
                  wr_Source = ''header'', wr_ExpiresAt = []\<rparr>
           | None \<Rightarrow>
               Unauthorized r (''no session '' @ em_dash @ '' sign in to issue one via POST /v1/session/issue'')))"

text \<open>The answer and the cookie it sets. \<open>decode\<close> is the strict decoder of the request body.\<close>

definition Session_Handler_Issue ::
  "session_env \<Rightarrow> (string \<Rightarrow> IssueRequest json_result) \<Rightarrow> Session_Signer \<Rightarrow> instant \<Rightarrow> Request \<Rightarrow>
   Cookie option \<times> IssueResponse Response" where
  "Session_Handler_Issue env decode g now r =
     (case DecodeCapped decode SessionIssueMaxBytes (rq_Body r) of
        CappedTooLarge \<Rightarrow> (None, BodyTooLarge r SessionIssueMaxBytes)
      | CappedInvalid e \<Rightarrow> (None, InvalidJSON r e)
      | CappedOk req \<Rightarrow>
          if ir_Subject req = [] then (None, MissingField r ''subject'')
          else if ir_TenantID req = [] then (None, MissingField r ''tenant_id'')
          else
            let s = \<lparr>ss_TenantID = ir_TenantID req, ss_WorkspaceID = ir_WorkspaceID req,
                     ss_Subject = ir_Subject req, ss_Name = ir_Name req, ss_IssuedAt = now,
                     ss_ExpiresAt = now + SessionTTL\<rparr>
            in case Session_Issue env g s of
                 Inl _ \<Rightarrow> (None, Internal r ''could not issue session'')
               | Inr token \<Rightarrow>
                   (Some \<lparr>ck_Name = CookieName, ck_Value = token, ck_Path = ''/'', ck_Expires = ss_ExpiresAt s,
                          ck_HttpOnly = True, ck_Secure = rq_TLS r, ck_SameSiteLax = True\<rparr>,
                    json_response 200 \<lparr>is_Token = token, is_ExpiresAt = format_rfc3339 (ss_ExpiresAt s)\<rparr>))"

section \<open>Properties\<close>

text \<open>A token carries whole seconds: the session that comes back has its times cut to the second.\<close>

definition to_second :: "instant \<Rightarrow> instant" where
  "to_second t = t div 1000000000 * 1000000000"

definition truncated :: "Session \<Rightarrow> Session" where
  "truncated s = s\<lparr>ss_IssuedAt := to_second (ss_IssuedAt s), ss_ExpiresAt := to_second (ss_ExpiresAt s)\<rparr>"

lemma from_unix_Unix: "sane_time t \<Longrightarrow> from_unix (Unix t) = to_second t"
  by (auto simp: from_unix_def unix_time_def Unix_exact to_second_def nanoseconds_def wrap64_id in_i64_def sane_time_def)

lemma session_of_claims_of:
  "sane_time (ss_IssuedAt s) \<Longrightarrow> sane_time (ss_ExpiresAt s) \<Longrightarrow> session_of (claims_of s) = truncated s"
  by (simp add: session_of_def claims_of_def truncated_def from_unix_Unix)

lemma split_jwt:
  assumes "CHR ''.'' \<notin> set m"
  shows "split_on (CHR ''.'') (EncodeToString h @ CHR ''.'' # EncodeToString p @ CHR ''.'' # m) =
    [EncodeToString h, EncodeToString p, m]"
  using assms by (simp add: split_on_append split_on_no_sep EncodeToString_no_dot)

lemma Session_Issue_Inr:
  "Session_Issue env g s = Inr token \<longleftrightarrow> Session_Valid s = None \<and>
     token = (let p = EncodeToString (se_Marshal env (claims_of s))
              in EncodeToString jwt_header @ CHR ''.'' # p @ CHR ''.'' #
                 session_mac env g (EncodeToString jwt_header @ CHR ''.'' # p))"
  by (auto simp: Session_Issue_def Let_def split: option.splits)

text \<open>The codec writes the header it reads back, and the claims it reads back.\<close>

definition session_codec_ok :: "session_env \<Rightarrow> Session \<Rightarrow> bool" where
  "session_codec_ok env s \<longleftrightarrow>
     se_Alg env jwt_header = Some ''HS256'' \<and>
     se_Unmarshal env (se_Marshal env (claims_of s)) = Some (claims_of s)"

lemma Session_Verify_issued:
  assumes "Session_Issue env g s = Inr token" "session_codec_ok env s"
  shows "Session_Verify env g now token = check_claims now (claims_of s)"
  using assms unfolding Session_Issue_Inr Let_def session_codec_ok_def
  by (simp add: Session_Verify_def split_jwt session_mac_def EncodeToString_no_dot)

lemma check_claims_of:
  assumes "Session_Valid s = None" "sane_time (ss_IssuedAt s)" "sane_time (ss_ExpiresAt s)"
    "1000000000 \<le> ss_ExpiresAt s"
  shows "check_claims now (claims_of s) =
    (if to_second (ss_ExpiresAt s) < now then Inl (SessionExpired (to_second (ss_ExpiresAt s)))
     else Inr (truncated s))"
proof -
  have "0 < ss_ExpiresAt s div 1000000000" using assms(4) by (simp add: pos_imp_zdiv_pos_iff)
  then have "to_second (ss_ExpiresAt s) \<noteq> 0" by (simp add: to_second_def)
  then have "Session_Valid (truncated s) = None"
    using assms(1) by (auto simp: Session_Valid_def truncated_def split: if_splits)
  then show ?thesis
    by (simp add: check_claims_def session_of_claims_of[OF assms(2,3)] Let_def) (simp add: truncated_def)
qed

lemma Session_Verify_Inr:
  "Session_Verify env g now token = Inr s \<longleftrightarrow>
     (\<exists>h p hb pb c. split_on (CHR ''.'') token = [h, p, session_mac env g (h @ CHR ''.'' # p)] \<and>
        DecodeString h = Some hb \<and> se_Alg env hb = Some ''HS256'' \<and> DecodeString p = Some pb \<and>
        se_Unmarshal env pb = Some c \<and> check_claims now c = Inr s)"
  by (auto simp: Session_Verify_def split: list.splits option.splits if_splits)

lemma check_claims_Inr:
  "check_claims now c = Inr s \<longleftrightarrow>
     s = session_of c \<and> ss_TenantID s \<noteq> [] \<and> ss_Subject s \<noteq> [] \<and> ss_ExpiresAt s \<noteq> 0 \<and> now \<le> ss_ExpiresAt s"
  by (auto simp: check_claims_def Session_Valid_def Let_def split: option.splits if_splits)

text \<open>
  C24. No session without the secret: a token is accepted only if it has three segments, the third is the
  MAC of the first two under the signer's secret, its header names HS256 (so a token that claims no
  algorithm never passes), its claims name a tenant and a subject, and it has not expired.
\<close>

theorem accepted_session_signed:
  assumes "Session_Verify env g now token = Inr s"
  shows "\<exists>h p hb pb c. token = h @ CHR ''.'' # p @ CHR ''.'' # EncodeToString (se_HMAC env g (h @ CHR ''.'' # p)) \<and>
      DecodeString h = Some hb \<and> se_Alg env hb = Some ''HS256'' \<and>
      DecodeString p = Some pb \<and> se_Unmarshal env pb = Some c \<and> s = session_of c \<and>
      ss_TenantID s \<noteq> [] \<and> ss_Subject s \<noteq> [] \<and> now \<le> ss_ExpiresAt s"
proof -
  from assms obtain h p hb pb c where w: "split_on (CHR ''.'') token = [h, p, session_mac env g (h @ CHR ''.'' # p)]"
    "DecodeString h = Some hb" "se_Alg env hb = Some ''HS256''" "DecodeString p = Some pb"
    "se_Unmarshal env pb = Some c" "check_claims now c = Inr s"
    unfolding Session_Verify_Inr by blast
  have "token = h @ CHR ''.'' # p @ CHR ''.'' # EncodeToString (se_HMAC env g (h @ CHR ''.'' # p))"
    using join_split_on[of "CHR ''.''" token] w(1) by (simp add: session_mac_def)
  moreover have "s = session_of c \<and> ss_TenantID s \<noteq> [] \<and> ss_Subject s \<noteq> [] \<and> now \<le> ss_ExpiresAt s"
    using w(6) unfolding check_claims_Inr by blast
  ultimately show ?thesis using w by blast
qed

lemma EncodeToString_alphabet: "set (EncodeToString s) \<subseteq> set b64_alphabet"
proof -
  have "length b64_alphabet = 64" by (simp add: b64_alphabet_def)
  then show ?thesis by (auto simp: EncodeToString_sextets b64_char_def dest: sextets_less)
qed

lemma alphabet_no_space: "set (CHR ''.'' # b64_alphabet) \<inter> set (map hd space_seqs) = {}"
  by code_simp

lemma session_token_trim: "Session_Issue env g s = Inr token \<Longrightarrow> trim_space token = token \<and> token \<noteq> []"
  using EncodeToString_alphabet alphabet_no_space
  by (intro conjI trim_space_id) (force simp: Session_Issue_Inr Let_def session_mac_def)+

lemma sessionFromRequest_token:
  assumes "Session_Issue env g s = Inr token" "Session_Verify env g now token = Inr s'"
    and "rq_Header r ''Authorization'' = ''Bearer '' @ token \<or>
         rq_Header r ''Authorization'' = [] \<and> rq_Cookie r CookieName = Some token"
  shows "sessionFromRequest env (Some g) now r = Some s'"
  using assms session_token_trim[OF assms(1)]
  by (auto simp: sessionFromRequest_def cookie_session_def trim_prefix_def Let_def)

definition requested_session :: "IssueRequest \<Rightarrow> instant \<Rightarrow> Session" where
  "requested_session req now =
     \<lparr>ss_TenantID = ir_TenantID req, ss_WorkspaceID = ir_WorkspaceID req, ss_Subject = ir_Subject req,
      ss_Name = ir_Name req, ss_IssuedAt = now, ss_ExpiresAt = now + SessionTTL\<rparr>"

lemma Session_Handler_Issue_cookie:
  assumes "Session_Handler_Issue env decode g now r = (Some ck, resp)"
  obtains req where "DecodeCapped decode SessionIssueMaxBytes (rq_Body r) = CappedOk req"
    "Session_Issue env g (requested_session req now) = Inr (ck_Value ck)" "ir_Subject req \<noteq> []"
    "ir_TenantID req \<noteq> []"
  using assms
  by (auto simp: Session_Handler_Issue_def requested_session_def Let_def
      split: capped.splits if_splits sum.splits)

text \<open>
  Issue, then ask: a session the route issued, presented as the bearer token or, without one, as the
  cookie, is reported back with the tenant, workspace, subject and name the request asked for, until
  the second its twelve hours are over. Nothing but the request's body decides which tenant that is.
\<close>

lemma issued_session_reported:
  assumes "Session_Handler_Issue env decode g now r = (Some ck, resp)"
    and "DecodeCapped decode SessionIssueMaxBytes (rq_Body r) = CappedOk req"
    and "session_codec_ok env (requested_session req now)"
    and "sane_time now" "sane_time (now + SessionTTL)"
    and "later \<le> to_second (now + SessionTTL)"
    and "rq_Header r' ''Authorization'' = ''Bearer '' @ ck_Value ck \<or>
         rq_Header r' ''Authorization'' = [] \<and> rq_Cookie r' CookieName = Some (ck_Value ck)"
  shows "Whoami env (Some g) later r' = json_response 200
    \<lparr>wr_TenantID = ir_TenantID req, wr_WorkspaceID = ir_WorkspaceID req, wr_Subject = ir_Subject req,
     wr_Name = ir_Name req, wr_Source = ''jwt'', wr_ExpiresAt = format_rfc3339 (to_second (now + SessionTTL))\<rparr>"
proof -
  let ?s = "requested_session req now"
  have i: "Session_Issue env g ?s = Inr (ck_Value ck)"
    using assms(1,2) by (auto elim!: Session_Handler_Issue_cookie)
  have "0 \<le> now" using assms(4) by (simp add: sane_time_def)
  moreover have "Session_Valid ?s = None" using i by (simp add: Session_Issue_Inr)
  ultimately have "Session_Verify env g later (ck_Value ck) = Inr (truncated ?s)"
    using Session_Verify_issued[OF i assms(3)] check_claims_of[of ?s later] assms(4-6)
    by (simp add: requested_session_def SessionTTL_def nanoseconds_def)
  from sessionFromRequest_token[OF i this assms(7)] show ?thesis
    by (simp add: Whoami_def truncated_def requested_session_def)
qed

definition sample_claims :: jwtClaims where
  "sample_claims =
     \<lparr>jc_TenantID = ''t1'', jc_WorkspaceID = [], jc_Subject = ''u1'', jc_Name = ''U'',
      jc_IssuedAt = 1764403200, jc_ExpiresAt = 1764446400\<rparr>"

definition sample_session_env :: session_env where
  "sample_session_env =
     \<lparr>se_HMAC = (\<lambda>k m. k @ m), se_Alg = (\<lambda>h. if h = jwt_header then Some ''HS256'' else None),
      se_Marshal = (\<lambda>_. ''{}''), se_Unmarshal = (\<lambda>_. Some sample_claims)\<rparr>"

definition sample_issue_request :: IssueRequest where
  "sample_issue_request = \<lparr>ir_Subject = ''u1'', ir_Name = ''U'', ir_TenantID = ''t1'', ir_WorkspaceID = []\<rparr>"

definition blank_request :: Request where
  "blank_request =
     \<lparr>rq_Method = ''GET'', rq_Path = ''/'', rq_Host = ''api'', rq_PathValue = (\<lambda>_. []), rq_Header = (\<lambda>_. []),
      rq_Query = (\<lambda>_. []), rq_Cookie = (\<lambda>_. None), rq_TLS = True, rq_PeerCertificates = [], rq_Body = [],
      rq_Tenant = None, rq_RequestID = []\<rparr>"

definition sample_session_issue :: "Cookie option \<times> IssueResponse Response" where
  "sample_session_issue =
     Session_Handler_Issue sample_session_env (\<lambda>_. Decoded sample_issue_request) ''secret''
       (nanoseconds 63900000000) blank_request"

lemma sample_requested:
  "claims_of (requested_session sample_issue_request (nanoseconds 63900000000)) = sample_claims"
  by (simp add: claims_of_def requested_session_def sample_issue_request_def sample_claims_def SessionTTL_def
      Unix_def nanoseconds_def wrap64_def)

lemma sample_issue_cookie: "\<exists>ck resp. sample_session_issue = (Some ck, resp)"
  by (simp add: sample_session_issue_def Session_Handler_Issue_def DecodeCapped_def sample_issue_request_def
      Session_Issue_def Session_Valid_def SessionTTL_def nanoseconds_def Let_def)

lemma issued_session_reported_witness:
  "\<exists>token. Whoami sample_session_env (Some ''secret'') (nanoseconds 63900043200)
     (blank_request\<lparr>rq_Cookie := (\<lambda>_. Some token)\<rparr>) =
   json_response 200 \<lparr>wr_TenantID = ''t1'', wr_WorkspaceID = [], wr_Subject = ''u1'', wr_Name = ''U'',
     wr_Source = ''jwt'', wr_ExpiresAt = format_rfc3339 (nanoseconds 63900043200)\<rparr>"
proof -
  obtain ck resp where "sample_session_issue = (Some ck, resp)" using sample_issue_cookie by blast
  then have i: "Session_Handler_Issue sample_session_env (\<lambda>_. Decoded sample_issue_request) ''secret''
       (nanoseconds 63900000000) blank_request = (Some ck, resp)"
    by (simp add: sample_session_issue_def)
  have "session_codec_ok sample_session_env (requested_session sample_issue_request (nanoseconds 63900000000))"
    by (simp add: session_codec_ok_def sample_requested) (simp add: sample_session_env_def)
  with issued_session_reported[OF i, of sample_issue_request "nanoseconds 63900043200"
      "blank_request\<lparr>rq_Cookie := (\<lambda>_. Some (ck_Value ck))\<rparr>"]
  show ?thesis
    by (intro exI[of _ "ck_Value ck"])
      (simp add: DecodeCapped_def sane_time_def SessionTTL_def nanoseconds_def to_second_def
        sample_issue_request_def blank_request_def)
qed

lemma accepted_session_signed_witness: "ss_TenantID (session_of sample_claims) \<noteq> []"
proof -
  let ?s = "requested_session sample_issue_request (nanoseconds 63900000000)"
  obtain token where t: "Session_Issue sample_session_env ''secret'' ?s = Inr token"
    by (simp add: Session_Issue_def Session_Valid_def requested_session_def sample_issue_request_def
        SessionTTL_def nanoseconds_def Let_def)
  have "session_codec_ok sample_session_env ?s"
    by (simp add: session_codec_ok_def sample_requested) (simp add: sample_session_env_def)
  from Session_Verify_issued[OF t this, of "nanoseconds 63900000000"]
  have "Session_Verify sample_session_env ''secret'' (nanoseconds 63900000000) token = Inr (session_of sample_claims)"
    by (simp add: sample_requested check_claims_Inr)
      (simp add: session_of_def sample_claims_def from_unix_def unix_time_def nanoseconds_def wrap64_id in_i64_def)
  from accepted_session_signed[OF this] show ?thesis by blast
qed

end
