(* ===== verification/Tokens.thy ===== *)
theory Tokens
  imports Go_Base64 Go_Time
begin

text \<open>
  \<^verbatim>\<open>backend/internal/applyfix/token/token.go\<close>: the short-lived signed tokens the service presents to
  the in-cluster agent. HMAC-SHA256 (\<open>hmac secret message\<close>) and the JSON codec of a token are
  parameters: \<open>marshal\<close> is \<open>json.Marshal\<close>, which always succeeds on a token, and \<open>unmarshal\<close> is
  \<open>json.Unmarshal\<close> into a zero token, \<open>None\<close> on an error. The clock is an argument.
\<close>

record Token =
  tk_TenantID :: string
  tk_ApplyFixID :: string
  tk_Audience :: string
  tk_IssuedAt :: i64
  tk_ExpiresAt :: i64

datatype token_error =
  SecretTooShort nat | TTLNotPositive | FieldsRequired
| TokenMalformed | PayloadDecode | SignatureDecode | TokenErrSignature | PayloadUnmarshal
| AudienceMismatch string string | TokenErrExpired | IssuedInFuture

record Token_Issuer =
  ti_secret :: string
  ti_ttl :: duration

definition Token_NewIssuer :: "string \<Rightarrow> duration \<Rightarrow> token_error + Token_Issuer" where
  "Token_NewIssuer secret ttl =
     (if length secret < 32 then Inl (SecretTooShort (length secret))
      else if ttl \<le> 0 then Inl TTLNotPositive
      else Inr \<lparr>ti_secret = secret, ti_ttl = ttl\<rparr>)"

definition Token_Issue ::
  "(string \<Rightarrow> string \<Rightarrow> string) \<Rightarrow> (Token \<Rightarrow> string) \<Rightarrow> Token_Issuer \<Rightarrow> instant \<Rightarrow>
   string \<Rightarrow> string \<Rightarrow> string \<Rightarrow> token_error + string" where
  "Token_Issue hmac marshal i now tenantID applyFixID audience =
     (if tenantID = [] \<or> applyFixID = [] \<or> audience = [] then Inl FieldsRequired
      else
        let tok = \<lparr>tk_TenantID = tenantID, tk_ApplyFixID = applyFixID, tk_Audience = audience,
                   tk_IssuedAt = Unix now, tk_ExpiresAt = Unix (now + ti_ttl i)\<rparr>;
            payload = marshal tok;
            sig = hmac (ti_secret i) payload
        in Inr (EncodeToString payload @ ''.'' @ EncodeToString sig))"

record Token_Verifier =
  tv_secret :: string

definition Token_NewVerifier :: "string \<Rightarrow> token_error + Token_Verifier" where
  "Token_NewVerifier secret =
     (if length secret < 32 then Inl (SecretTooShort (length secret))
      else Inr \<lparr>tv_secret = secret\<rparr>)"

definition Token_check :: "Token \<Rightarrow> instant \<Rightarrow> string \<Rightarrow> token_error + Token" where
  "Token_check tok now expectedAudience =
     (if expectedAudience \<noteq> [] \<and> tk_Audience tok \<noteq> expectedAudience
      then Inl (AudienceMismatch (tk_Audience tok) expectedAudience)
      else if tk_ExpiresAt tok \<le> Unix now then Inl TokenErrExpired
      else if tk_IssuedAt tok > wrap64 (Unix now + 60) then Inl IssuedInFuture
      else Inr tok)"

definition Token_Verify ::
  "(string \<Rightarrow> string \<Rightarrow> string) \<Rightarrow> (string \<Rightarrow> Token option) \<Rightarrow> Token_Verifier \<Rightarrow> instant \<Rightarrow>
   string \<Rightarrow> string \<Rightarrow> token_error + Token" where
  "Token_Verify hmac unmarshal v now signed expectedAudience =
     (case cut_at (CHR ''.'') signed of
        None \<Rightarrow> Inl TokenMalformed
      | Some (payloadB64, sigB64) \<Rightarrow>
          (case DecodeString payloadB64 of
             None \<Rightarrow> Inl PayloadDecode
           | Some payload \<Rightarrow>
               (case DecodeString sigB64 of
                  None \<Rightarrow> Inl SignatureDecode
                | Some sig \<Rightarrow>
                    if sig \<noteq> hmac (tv_secret v) payload then Inl TokenErrSignature
                    else case unmarshal payload of
                           None \<Rightarrow> Inl PayloadUnmarshal
                         | Some tok \<Rightarrow> Token_check tok now expectedAudience)))"

section \<open>What a verified token is\<close>

lemma Token_Verify_encoded:
  "Token_Verify hmac unmarshal v now (EncodeToString p @ CHR ''.'' # EncodeToString sig) aud =
     (if sig \<noteq> hmac (tv_secret v) p then Inl TokenErrSignature
      else case unmarshal p of None \<Rightarrow> Inl PayloadUnmarshal | Some tok \<Rightarrow> Token_check tok now aud)"
  by (simp add: Token_Verify_def)

lemma Token_check_Inr:
  "Token_check tok now aud = Inr t \<longleftrightarrow>
     t = tok \<and> (aud = [] \<or> tk_Audience tok = aud) \<and> Unix now < tk_ExpiresAt tok \<and>
     tk_IssuedAt tok \<le> wrap64 (Unix now + 60)"
  by (auto simp: Token_check_def)

lemma Token_Verify_Inr:
  "Token_Verify hmac unmarshal v now signed aud = Inr tok \<longleftrightarrow>
     (\<exists>p64 s64 payload. cut_at (CHR ''.'') signed = Some (p64, s64) \<and> DecodeString p64 = Some payload \<and>
        DecodeString s64 = Some (hmac (tv_secret v) payload) \<and> unmarshal payload = Some tok \<and>
        Token_check tok now aud = Inr tok)"
  by (auto simp: Token_Verify_def Token_check_Inr split: option.splits if_splits)

text \<open>
  The interface of the tokens with a MAC: a text is accepted exactly when its second half is the MAC of
  its first and the payload passes the token's own checks. \<open>ident\<close> tokens share it.
\<close>

locale mac_token =
  fixes mac :: "string \<Rightarrow> string"
    and accept :: "string \<Rightarrow> 't \<Rightarrow> bool"
    and verify :: "string \<Rightarrow> 'e + 't"
  assumes verify_Inr: "verify signed = Inr tok \<longleftrightarrow>
    (\<exists>p64 s64 payload. cut_at (CHR ''.'') signed = Some (p64, s64) \<and> DecodeString p64 = Some payload \<and>
       DecodeString s64 = Some (mac payload) \<and> accept payload tok)"
begin

lemma accepts_signed: "accept p tok \<Longrightarrow> verify (EncodeToString p @ CHR ''.'' # EncodeToString (mac p)) = Inr tok"
  unfolding verify_Inr by (intro exI[of _ "EncodeToString p"] exI[of _ "EncodeToString (mac p)"] exI[of _ p]) simp

lemma rejects_forged: "sig \<noteq> mac p \<Longrightarrow> verify (EncodeToString p @ CHR ''.'' # EncodeToString sig) \<noteq> Inr tok"
  unfolding verify_Inr by auto

lemma accepted_signed:
  assumes "verify signed = Inr tok"
  obtains p64 s64 payload where "signed = p64 @ CHR ''.'' # s64" "DecodeString p64 = Some payload"
    "DecodeString s64 = Some (mac payload)" "accept payload tok"
  using assms unfolding verify_Inr cut_at_Some by blast

end

interpretation apply_fix: mac_token "hmac (tv_secret v)"
    "\<lambda>payload tok. unmarshal payload = Some tok \<and> Token_check tok now aud = Inr tok"
    "\<lambda>signed. Token_Verify hmac unmarshal v now signed aud" for hmac unmarshal v now aud
  by unfold_locales (simp add: Token_Verify_Inr)

text \<open>
  A token the issuer signed, presented at a time \<open>later\<close> to a verifier with the same
  secret: it is accepted exactly while the second has not reached the expiry and, if the verifier's
  clock is behind, is at most a minute behind the issuer's. The codec has to read back what it wrote,
  which \<open>encoding/json\<close> does for strings of valid UTF-8.
\<close>

definition issued_token :: "Token_Issuer \<Rightarrow> instant \<Rightarrow> string \<Rightarrow> string \<Rightarrow> string \<Rightarrow> Token" where
  "issued_token i now tenantID applyFixID audience =
     \<lparr>tk_TenantID = tenantID, tk_ApplyFixID = applyFixID, tk_Audience = audience,
      tk_IssuedAt = Unix now, tk_ExpiresAt = Unix (now + ti_ttl i)\<rparr>"

lemma Token_Issue_Inr:
  "Token_Issue hmac marshal i now t f a = Inr signed \<longleftrightarrow>
     t \<noteq> [] \<and> f \<noteq> [] \<and> a \<noteq> [] \<and>
     signed = (let payload = marshal (issued_token i now t f a)
               in EncodeToString payload @ CHR ''.'' # EncodeToString (hmac (ti_secret i) payload))"
  by (auto simp: Token_Issue_def issued_token_def Let_def)

text \<open>
  C23. A token that is issued verifies: a verifier with the issuer's secret gives exactly the issued
  token back while its clock has not reached the expiry second and is at most sixty seconds behind
  the issue; from the expiry second on it answers \<open>ErrExpired\<close>, and before that window \<open>issued in the
  future\<close>.
\<close>

theorem issued_token_verifies:
  assumes "Token_Issue hmac marshal i issued tenant fix aud = Inr signed"
    and "unmarshal (marshal (issued_token i issued tenant fix aud)) = Some (issued_token i issued tenant fix aud)"
    and "tv_secret v = ti_secret i"
  shows "Token_Verify hmac unmarshal v now signed aud =
    (if Unix (issued + ti_ttl i) \<le> Unix now then Inl TokenErrExpired
     else if wrap64 (Unix now + 60) < Unix issued then Inl IssuedInFuture
     else Inr (issued_token i issued tenant fix aud))"
  using assms
  by (auto simp: Token_Issue_Inr Let_def Token_Verify_encoded) (simp_all add: Token_check_def issued_token_def)

text \<open>
  C22. A verified token was signed: whatever text is presented, if it verifies then its payload half
  decodes to bytes whose MAC under the verifier's secret is its signature half, the token returned is
  what those bytes say, it is addressed to the expected audience and it is inside its validity. A
  secret shorter than 32 bytes makes no verifier.
\<close>

theorem verified_token_signed:
  assumes "Token_NewVerifier secret = Inr v" and "Token_Verify hmac unmarshal v now signed aud = Inr tok"
  shows "32 \<le> length secret \<and>
    (\<exists>p64 s64 payload. signed = p64 @ CHR ''.'' # s64 \<and> DecodeString p64 = Some payload \<and>
       DecodeString s64 = Some (hmac secret payload) \<and> unmarshal payload = Some tok) \<and>
    (aud = [] \<or> tk_Audience tok = aud) \<and> Unix now < tk_ExpiresAt tok \<and>
    tk_IssuedAt tok \<le> wrap64 (Unix now + 60)"
proof -
  have v: "32 \<le> length secret" "tv_secret v = secret"
    using assms(1) by (auto simp: Token_NewVerifier_def split: if_splits)
  from assms(2) obtain p64 s64 payload where "signed = p64 @ CHR ''.'' # s64"
    "DecodeString p64 = Some payload" "DecodeString s64 = Some (hmac (tv_secret v) payload)"
    "unmarshal payload = Some tok \<and> Token_check tok now aud = Inr tok"
    by (rule apply_fix.accepted_signed)
  with v show ?thesis unfolding Token_check_Inr by blast
qed

text \<open>
  A concrete instance: the codec writes the audience and the two times and reads them back; the MAC
  is the secret followed by the payload.
\<close>

definition sample_token :: Token where
  "sample_token = issued_token \<lparr>ti_secret = replicate 32 CHR ''k'', ti_ttl = nanoseconds 300\<rparr>
     (nanoseconds 63900000000) ''t1'' ''f1'' ''dryrun''"

definition sample_unmarshal :: "string \<Rightarrow> Token option" where
  "sample_unmarshal s = (if s = ''{}'' then Some sample_token else None)"

lemma issued_token_verifies_witness:
  "Token_Verify (@) sample_unmarshal \<lparr>tv_secret = replicate 32 CHR ''k''\<rparr> (nanoseconds 63900000299)
     (EncodeToString ''{}'' @ CHR ''.'' # EncodeToString (replicate 32 CHR ''k'' @ ''{}'')) ''dryrun'' =
   Inr sample_token"
proof -
  let ?i = "\<lparr>ti_secret = replicate 32 CHR ''k'', ti_ttl = nanoseconds 300\<rparr>"
  have "Token_Issue (@) (\<lambda>_. ''{}'') ?i (nanoseconds 63900000000) ''t1'' ''f1'' ''dryrun'' =
    Inr (EncodeToString ''{}'' @ CHR ''.'' # EncodeToString (replicate 32 CHR ''k'' @ ''{}''))"
    by (simp add: Token_Issue_def Let_def)
  from issued_token_verifies[OF this, of sample_unmarshal "\<lparr>tv_secret = replicate 32 CHR ''k''\<rparr>"
      "nanoseconds 63900000299"]
  show ?thesis
    by (simp add: sample_unmarshal_def sample_token_def Unix_def nanoseconds_def wrap64_def)
qed

lemma verified_token_signed_witness:
  "Unix (nanoseconds 63900000299) < tk_ExpiresAt sample_token"
proof -
  let ?k = "replicate 32 CHR ''k''"
  have v: "Token_NewVerifier ?k = Inr \<lparr>tv_secret = ?k\<rparr>" by (simp add: Token_NewVerifier_def)
  have "Token_Verify (@) sample_unmarshal \<lparr>tv_secret = ?k\<rparr> (nanoseconds 63900000299)
     (EncodeToString ''{}'' @ CHR ''.'' # EncodeToString (?k @ ''{}'')) ''dryrun'' = Inr sample_token"
    unfolding Token_Verify_encoded
    by (simp add: sample_unmarshal_def sample_token_def issued_token_def Token_check_def
        Unix_def nanoseconds_def wrap64_def)
  from verified_token_signed[OF v this] show ?thesis by simp
qed

end
