(* ===== verification/Ident.thy ===== *)
theory Ident
  imports Tokens
begin

text \<open>
  \<^verbatim>\<open>backend/internal/agent/ident/ident.go\<close>: the short-lived token the in-cluster agent attaches to every
  snapshot. HMAC-SHA256 and the JSON codec are parameters, as for the apply-fix tokens.
\<close>

definition MaxTTL :: duration where "MaxTTL = nanoseconds (15 * 60)"

record Ident_Token =
  it_TenantID :: string
  it_ClusterID :: string
  it_BatchID :: string
  it_Audience :: string
  it_IssuedAt :: i64
  it_ExpiresAt :: i64

datatype ident_error =
  ErrMalformedToken | ErrBadSignature | IdentErrExpired | ErrNotYetValid | ErrShortSecret | ErrAudience
| TTLOutOfRange | IdentFieldsRequired

text \<open>The text of an error, as the handler quotes it.\<close>

fun ident_error_text :: "ident_error \<Rightarrow> string" where
  "ident_error_text ErrMalformedToken = ''ident: malformed token''"
| "ident_error_text ErrBadSignature = ''ident: signature mismatch''"
| "ident_error_text IdentErrExpired = ''ident: token expired''"
| "ident_error_text ErrNotYetValid = ''ident: token not yet valid (iat in future)''"
| "ident_error_text ErrShortSecret = ''ident: secret must be at least 32 bytes''"
| "ident_error_text ErrAudience = ''ident: audience mismatch''"
| "ident_error_text TTLOutOfRange = ''ident: ttl must be in (0, 15m0s]''"
| "ident_error_text IdentFieldsRequired = ''ident: tenant_id and aud are required''"

record Ident_Issuer =
  ii_secret :: string
  ii_ttl :: duration

definition Ident_NewIssuer :: "string \<Rightarrow> duration \<Rightarrow> ident_error + Ident_Issuer" where
  "Ident_NewIssuer secret ttl =
     (if length secret < 32 then Inl ErrShortSecret
      else if ttl \<le> 0 \<or> ttl > MaxTTL then Inl TTLOutOfRange
      else Inr \<lparr>ii_secret = secret, ii_ttl = ttl\<rparr>)"

definition Ident_Issue ::
  "(string \<Rightarrow> string \<Rightarrow> string) \<Rightarrow> (Ident_Token \<Rightarrow> string) \<Rightarrow> Ident_Issuer \<Rightarrow> instant \<Rightarrow>
   string \<Rightarrow> string \<Rightarrow> string \<Rightarrow> string \<Rightarrow> ident_error + string" where
  "Ident_Issue hmac marshal i now tenantID clusterID batchID audience =
     (if tenantID = [] \<or> audience = [] then Inl IdentFieldsRequired
      else
        let tok = \<lparr>it_TenantID = tenantID, it_ClusterID = clusterID, it_BatchID = batchID,
                   it_Audience = audience, it_IssuedAt = Unix now, it_ExpiresAt = Unix (now + ii_ttl i)\<rparr>;
            body = marshal tok;
            sig = hmac (ii_secret i) body
        in Inr (EncodeToString body @ ''.'' @ EncodeToString sig))"

record Ident_Verifier =
  iv_secret :: string
  iv_skew :: duration

definition Ident_NewVerifier :: "string \<Rightarrow> ident_error + Ident_Verifier" where
  "Ident_NewVerifier secret =
     (if length secret < 32 then Inl ErrShortSecret
      else Inr \<lparr>iv_secret = secret, iv_skew = nanoseconds 30\<rparr>)"

definition skew_seconds :: "Ident_Verifier \<Rightarrow> i64" where
  "skew_seconds v = iv_skew v sdiv 1000000000"

definition Ident_check :: "Ident_Verifier \<Rightarrow> Ident_Token \<Rightarrow> instant \<Rightarrow> string \<Rightarrow> ident_error + Ident_Token" where
  "Ident_check v tok now expectedAudience =
     (if expectedAudience \<noteq> [] \<and> it_Audience tok \<noteq> expectedAudience then Inl ErrAudience
      else if it_IssuedAt tok > wrap64 (Unix now + skew_seconds v) then Inl ErrNotYetValid
      else if wrap64 (it_ExpiresAt tok + skew_seconds v) < Unix now then Inl IdentErrExpired
      else Inr tok)"

text \<open>\<open>SplitN(wire, ".", 2)\<close> has two parts exactly when there is a dot.\<close>

definition Ident_Verify ::
  "(string \<Rightarrow> string \<Rightarrow> string) \<Rightarrow> (string \<Rightarrow> Ident_Token option) \<Rightarrow> Ident_Verifier \<Rightarrow> instant \<Rightarrow>
   string \<Rightarrow> string \<Rightarrow> ident_error + Ident_Token" where
  "Ident_Verify hmac unmarshal v now wire expectedAudience =
     (case cut_at (CHR ''.'') wire of
        None \<Rightarrow> Inl ErrMalformedToken
      | Some (body64, sig64) \<Rightarrow>
          (case DecodeString body64 of
             None \<Rightarrow> Inl ErrMalformedToken
           | Some body \<Rightarrow>
               (case DecodeString sig64 of
                  None \<Rightarrow> Inl ErrMalformedToken
                | Some sig \<Rightarrow>
                    if sig \<noteq> hmac (iv_secret v) body then Inl ErrBadSignature
                    else case unmarshal body of
                           None \<Rightarrow> Inl ErrMalformedToken
                         | Some tok \<Rightarrow> Ident_check v tok now expectedAudience)))"

section \<open>Properties\<close>

lemma Ident_check_Inr:
  "Ident_check v tok now aud = Inr t \<longleftrightarrow>
     t = tok \<and> (aud = [] \<or> it_Audience tok = aud) \<and> it_IssuedAt tok \<le> wrap64 (Unix now + skew_seconds v) \<and>
     Unix now \<le> wrap64 (it_ExpiresAt tok + skew_seconds v)"
  by (auto simp: Ident_check_def)

interpretation ident: mac_token "hmac (iv_secret v)"
    "\<lambda>body tok. unmarshal body = Some tok \<and> Ident_check v tok now aud = Inr tok"
    "\<lambda>wire. Ident_Verify hmac unmarshal v now wire aud" for hmac unmarshal v now aud
  by unfold_locales
    (auto simp: Ident_Verify_def Ident_check_Inr split: option.splits if_splits)

definition issued_ident :: "Ident_Issuer \<Rightarrow> instant \<Rightarrow> string \<Rightarrow> string \<Rightarrow> string \<Rightarrow> string \<Rightarrow> Ident_Token" where
  "issued_ident i now tenantID clusterID batchID audience =
     \<lparr>it_TenantID = tenantID, it_ClusterID = clusterID, it_BatchID = batchID,
      it_Audience = audience, it_IssuedAt = Unix now, it_ExpiresAt = Unix (now + ii_ttl i)\<rparr>"

lemma Ident_Issue_Inr:
  "Ident_Issue hmac marshal i now t c b a = Inr wire \<longleftrightarrow>
     t \<noteq> [] \<and> a \<noteq> [] \<and>
     wire = (let body = marshal (issued_ident i now t c b a)
             in EncodeToString body @ CHR ''.'' # EncodeToString (hmac (ii_secret i) body))"
  by (auto simp: Ident_Issue_def issued_ident_def Let_def)

lemma Unix_sane:
  assumes "sane_time t" "0 \<le> k" "k \<le> 900"
  shows "Unix t = t div 1000000000 - 62135596800" "in_i64 (Unix t + 30)" "in_i64 (Unix t + k + 30)"
proof -
  show u: "Unix t = t div 1000000000 - 62135596800" using assms(1) by (rule Unix_exact)
  have "0 \<le> t div 1000000000" "t div 1000000000 < 2 ^ 62" using assms(1) by (auto simp: sane_time_def)
  then show "in_i64 (Unix t + 30)" "in_i64 (Unix t + k + 30)" using assms(2,3) unfolding u
    by (auto simp: in_i64_def)
qed

lemma Unix_later:
  assumes "sane_time t" "0 < d" "d \<le> MaxTTL"
  obtains k where "0 \<le> k" "k \<le> 900" "Unix (t + d) = Unix t + k"
proof -
  have "t div 1000000000 \<le> (t + d) div 1000000000" using assms by (intro zdiv_mono1) auto
  moreover have "(t + d) div 1000000000 \<le> (t + 900 * 1000000000) div 1000000000"
    using assms by (intro zdiv_mono1) (auto simp: MaxTTL_def nanoseconds_def)
  moreover have "(t + 900 * 1000000000) div 1000000000 = t div 1000000000 + 900" by simp
  ultimately obtain k where k: "(t + d) div 1000000000 = t div 1000000000 + k" "0 \<le> k" "k \<le> 900"
    by (intro that[of "(t + d) div 1000000000 - t div 1000000000"]) auto
  have "Unix (t + d) = wrap64 (Unix t + k)" unfolding Unix_def k(1) by (simp add: algebra_simps)
  also have "\<dots> = Unix t + k"
    using Unix_sane(1)[OF assms(1) k(2,3)] assms(1) k by (auto simp: sane_time_def in_i64_def)
  finally show thesis using that k by blast
qed

lemma issued_ident_verifies:
  assumes "Ident_NewIssuer secret ttl = Inr i" and "Ident_NewVerifier secret = Inr v"
    and "Ident_Issue hmac marshal i issued tenant cluster batch aud = Inr wire"
    and "unmarshal (marshal (issued_ident i issued tenant cluster batch aud)) =
           Some (issued_ident i issued tenant cluster batch aud)"
    and "sane_time issued" "sane_time now"
  shows "Ident_Verify hmac unmarshal v now wire aud = Inr (issued_ident i issued tenant cluster batch aud) \<longleftrightarrow>
      Unix issued - 30 \<le> Unix now \<and> Unix now \<le> Unix (issued + ttl) + 30"
    and "Unix issued \<le> Unix (issued + ttl)" "Unix (issued + ttl) \<le> Unix issued + 900"
proof -
  have i: "ii_secret i = secret" "ii_ttl i = ttl" "0 < ttl" "ttl \<le> MaxTTL"
    using assms(1) by (auto simp: Ident_NewIssuer_def split: if_splits)
  have v: "iv_secret v = secret" "skew_seconds v = 30"
    using assms(2) by (auto simp: Ident_NewVerifier_def skew_seconds_def nanoseconds_def split: if_splits)
  let ?tok = "issued_ident i issued tenant cluster batch aud"
  obtain k where k: "0 \<le> k" "k \<le> 900" "Unix (issued + ttl) = Unix issued + k"
    using Unix_later[OF assms(5) i(3,4)] .
  then show "Unix issued \<le> Unix (issued + ttl)" "Unix (issued + ttl) \<le> Unix issued + 900" by simp_all
  have w: "wrap64 (Unix now + 30) = Unix now + 30" "wrap64 (Unix issued + k + 30) = Unix issued + k + 30"
    using Unix_sane[OF assms(6), of 0] Unix_sane(3)[OF assms(5) k(1,2)] by simp_all
  have acc: "Ident_check v ?tok now aud = Inr ?tok \<longleftrightarrow>
      Unix issued - 30 \<le> Unix now \<and> Unix now \<le> Unix (issued + ttl) + 30"
    using k w v i by (auto simp: Ident_check_Inr issued_ident_def)
  have "wire = EncodeToString (marshal ?tok) @ CHR ''.'' # EncodeToString (hmac (iv_secret v) (marshal ?tok))"
    using assms(3) i v by (simp add: Ident_Issue_Inr Let_def)
  then have "Ident_Verify hmac unmarshal v now wire aud = Ident_check v ?tok now aud"
    using assms(4) by (simp add: Ident_Verify_def)
  with acc show "Ident_Verify hmac unmarshal v now wire aud = Inr ?tok \<longleftrightarrow>
      Unix issued - 30 \<le> Unix now \<and> Unix now \<le> Unix (issued + ttl) + 30" by simp
qed

text \<open>
  The life of an agent token: a token the agent issues is accepted, and comes back as issued, from
  thirty seconds before its issue to thirty seconds after its expiry, and at no other time; so it is
  accepted for at most 960 seconds, a minute more than the fifteen the package promises.
\<close>

lemma agent_token_lifetime:
  assumes "Ident_NewIssuer secret ttl = Inr i" and "Ident_NewVerifier secret = Inr v"
    and "Ident_Issue hmac marshal i issued tenant cluster batch aud = Inr wire"
    and "unmarshal (marshal (issued_ident i issued tenant cluster batch aud)) =
           Some (issued_ident i issued tenant cluster batch aud)"
    and "sane_time issued" "sane_time now"
  shows "(Ident_Verify hmac unmarshal v now wire aud = Inr (issued_ident i issued tenant cluster batch aud) \<longleftrightarrow>
      Unix issued - 30 \<le> Unix now \<and> Unix now \<le> Unix (issued + ttl) + 30) \<and>
    Unix (issued + ttl) + 30 \<le> (Unix issued - 30) + 960"
  using issued_ident_verifies[where marshal = marshal and unmarshal = unmarshal, OF assms] by auto

lemma agent_token_lifetime_witness:
  "\<exists>wire. Ident_Verify (@) (\<lambda>_. Some (issued_ident \<lparr>ii_secret = replicate 32 CHR ''k'', ii_ttl = MaxTTL\<rparr>
       (nanoseconds 63900000000) ''t1'' ''c1'' ''b1'' ''agent-snapshot''))
     \<lparr>iv_secret = replicate 32 CHR ''k'', iv_skew = nanoseconds 30\<rparr> (nanoseconds 63900000930) wire
     ''agent-snapshot'' =
   Inr (issued_ident \<lparr>ii_secret = replicate 32 CHR ''k'', ii_ttl = MaxTTL\<rparr>
       (nanoseconds 63900000000) ''t1'' ''c1'' ''b1'' ''agent-snapshot'')"
proof -
  let ?k = "replicate 32 CHR ''k''"
  let ?i = "\<lparr>ii_secret = ?k, ii_ttl = MaxTTL\<rparr>"
  let ?t = "issued_ident ?i (nanoseconds 63900000000) ''t1'' ''c1'' ''b1'' ''agent-snapshot''"
  have i: "Ident_NewIssuer ?k MaxTTL = Inr ?i" by (simp add: Ident_NewIssuer_def MaxTTL_def nanoseconds_def)
  have v: "Ident_NewVerifier ?k = Inr \<lparr>iv_secret = ?k, iv_skew = nanoseconds 30\<rparr>"
    by (simp add: Ident_NewVerifier_def)
  have w: "\<exists>wire. Ident_Issue (@) (\<lambda>_. ''{}'') ?i (nanoseconds 63900000000) ''t1'' ''c1'' ''b1''
      ''agent-snapshot'' = Inr wire"
    by (simp add: Ident_Issue_def Let_def)
  then obtain wire where w: "Ident_Issue (@) (\<lambda>_. ''{}'') ?i (nanoseconds 63900000000) ''t1'' ''c1'' ''b1''
      ''agent-snapshot'' = Inr wire" ..
  have "Unix (nanoseconds 63900000000) - 30 \<le> Unix (nanoseconds 63900000930)"
    "Unix (nanoseconds 63900000930) \<le> Unix (nanoseconds 63900000000 + MaxTTL) + 30"
    by (simp_all add: Unix_def nanoseconds_def MaxTTL_def wrap64_def)
  then show ?thesis
    using agent_token_lifetime[OF i v w, of "\<lambda>_. Some ?t" "nanoseconds 63900000930"]
    by (auto simp: sane_time_def nanoseconds_def)
qed

end
