(* ===== verification/Ingestion.thy ===== *)
theory Ingestion
  imports Ident Http Go_Float
begin

text \<open>
  \<^verbatim>\<open>backend/internal/ingestion\<close>: the parsers of Prometheus matrices and billing rows (\<^verbatim>\<open>ingestion.go\<close>), the
  ingest route (\<^verbatim>\<open>handler.go\<close>) and the agent's snapshot route (\<^verbatim>\<open>agent_snapshot.go\<close>). The JSON and CSV
  readers and \<open>time.Parse\<close> are parameters; the sinks are parameters too, and every call of one is an
  event of the handler.
\<close>

section \<open>Prometheus matrices\<close>

record PromSample =
  ps_At :: instant
  ps_Value :: f64

record PromSeries =
  px_Metric :: "(string \<times> string) list"
  px_Samples :: "PromSample list"

text \<open>What \<open>encoding/json\<close> puts into an \<open>any\<close>, as far as the type switch can see.\<close>

datatype json_any = AnyFloat f64 | AnyString string | AnyOther

record promMatrixEntry =
  me_Metric :: "(string \<times> string) list"
  me_Values :: "(json_any \<times> json_any) list"

record promResponse =
  pr_Status :: string
  pr_ResultType :: string
  pr_Result :: "string list"

datatype prom_error =
  PromDecode string | ErrPromBadStatus string | ErrPromUnsupportedType string
| MatrixEntry nat | ExpectedFloatTs nat nat | ExpectedStringValue nat nat | ParseValue nat nat string

text \<open>The error carries the indices of the entry and the pair; \<open>conv\<close> is \<open>int64\<close> outside its range.\<close>

definition promPairToSample ::
  "(f64 \<Rightarrow> i64) \<Rightarrow> nat \<Rightarrow> nat \<Rightarrow> json_any \<times> json_any \<Rightarrow> prom_error + PromSample" where
  "promPairToSample conv i j p =
     (case fst p of
        AnyFloat tsRaw \<Rightarrow>
          (case snd p of
             AnyString valStr \<Rightarrow>
               (case parse_float valStr of
                  Inl _ \<Rightarrow> Inl (ParseValue i j valStr)
                | Inr v \<Rightarrow>
                    let sec = f64_to_i64 conv tsRaw;
                        nsec = f64_to_i64 conv (f64_mul (f64_sub tsRaw (f64_of_int sec)) (Fin 1000000000))
                    in Inr \<lparr>ps_At = unix_time sec nsec, ps_Value = v\<rparr>)
           | _ \<Rightarrow> Inl (ExpectedStringValue i j))
      | _ \<Rightarrow> Inl (ExpectedFloatTs i j))"

fun prom_samples ::
  "(f64 \<Rightarrow> i64) \<Rightarrow> nat \<Rightarrow> nat \<Rightarrow> (json_any \<times> json_any) list \<Rightarrow> prom_error + PromSample list" where
  "prom_samples conv i j [] = Inr []"
| "prom_samples conv i j (p # ps) =
     (case promPairToSample conv i j p of
        Inl e \<Rightarrow> Inl e
      | Inr s \<Rightarrow> (case prom_samples conv i (Suc j) ps of Inl e \<Rightarrow> Inl e | Inr ss \<Rightarrow> Inr (s # ss)))"

definition before :: "PromSample \<Rightarrow> PromSample \<Rightarrow> bool" where
  "before a b \<longleftrightarrow> ps_At a < ps_At b"

fun prom_matrix ::
  "(f64 \<Rightarrow> i64) \<Rightarrow> (string \<Rightarrow> promMatrixEntry option) \<Rightarrow> nat \<Rightarrow> string list \<Rightarrow> prom_error + PromSeries list" where
  "prom_matrix conv unmarshal i [] = Inr []"
| "prom_matrix conv unmarshal i (rmsg # rs) =
     (case unmarshal rmsg of
        None \<Rightarrow> Inl (MatrixEntry i)
      | Some entry \<Rightarrow>
          (case prom_samples conv i 0 (me_Values entry) of
             Inl e \<Rightarrow> Inl e
           | Inr samples \<Rightarrow>
               (case prom_matrix conv unmarshal (Suc i) rs of
                  Inl e \<Rightarrow> Inl e
                | Inr out \<Rightarrow>
                    Inr (\<lparr>px_Metric = me_Metric entry, px_Samples = stable_sort before samples\<rparr> # out))))"

definition ParsePrometheusMatrix ::
  "(f64 \<Rightarrow> i64) \<Rightarrow> (string \<Rightarrow> string + promResponse) \<Rightarrow> (string \<Rightarrow> promMatrixEntry option) \<Rightarrow> string \<Rightarrow>
   prom_error + PromSeries list" where
  "ParsePrometheusMatrix conv decode unmarshal body =
     (case decode body of
        Inl e \<Rightarrow> Inl (PromDecode e)
      | Inr raw \<Rightarrow>
          if pr_Status raw \<noteq> ''success'' then Inl (ErrPromBadStatus (pr_Status raw))
          else if pr_ResultType raw \<noteq> ''matrix'' then Inl (ErrPromUnsupportedType (pr_ResultType raw))
          else prom_matrix conv unmarshal 0 (pr_Result raw))"

section \<open>Billing rows\<close>

record CURRow =
  cu_UsageStartUTC :: instant
  cu_UsageEndUTC :: instant
  cu_ServiceCode :: string
  cu_UsageType :: string
  cu_Region :: string
  cu_ResourceID :: string
  cu_UsageQuantity :: f64
  cu_UnblendedCostUSD :: f64

datatype cur_error =
  CurHeader string | CurHeaderMissing string | CurRead nat string | CurStart nat string | CurEnd nat string
| CurUsage nat string | CurCost nat string | CurPanic

definition requiredCURColumns :: "string list" where
  "requiredCURColumns =
     [''lineItem/UsageStartDate'', ''lineItem/UsageEndDate'', ''lineItem/ProductCode'', ''lineItem/UsageType'',
      ''lineItem/UsageAmount'', ''lineItem/UnblendedCost'', ''product/region'']"

text \<open>A column's index, \<open>None\<close> when it is missing; of two columns with one name the last counts.\<close>

fun have_column :: "string \<Rightarrow> nat \<Rightarrow> string list \<Rightarrow> nat option" where
  "have_column c i [] = None"
| "have_column c i (h # hs) =
     (case have_column c (Suc i) hs of
        Some k \<Rightarrow> Some k
      | None \<Rightarrow> if trim_space h = c then Some i else None)"

record curIndex =
  ci_start :: nat
  ci_end :: nat
  ci_service :: nat
  ci_usageType :: nat
  ci_region :: nat
  ci_resourceID :: "nat option"
  ci_usage :: nat
  ci_unblendedCost :: nat

definition col_index :: "string list \<Rightarrow> string \<Rightarrow> nat" where
  "col_index header c = (case have_column c 0 header of Some k \<Rightarrow> k | None \<Rightarrow> 0)"

definition indexCURHeader :: "string list \<Rightarrow> cur_error + curIndex" where
  "indexCURHeader header =
     (let ix = col_index header
      in case find (\<lambda>c. have_column c 0 header = None) requiredCURColumns of
           Some c \<Rightarrow> Inl (CurHeaderMissing c)
         | None \<Rightarrow>
             Inr \<lparr>ci_start = ix ''lineItem/UsageStartDate'', ci_end = ix ''lineItem/UsageEndDate'',
                  ci_service = ix ''lineItem/ProductCode'', ci_usageType = ix ''lineItem/UsageType'',
                  ci_region = ix ''product/region'', ci_resourceID = have_column ''lineItem/ResourceId'' 0 header,
                  ci_usage = ix ''lineItem/UsageAmount'', ci_unblendedCost = ix ''lineItem/UnblendedCost''\<rparr>)"

text \<open>An index into a record; an index past its end is the run-time panic.\<close>

definition field :: "string list \<Rightarrow> nat \<Rightarrow> cur_error + string" where
  "field rec i = (if i < length rec then Inr (rec ! i) else Inl CurPanic)"

fun bind_sum :: "'e + 'a \<Rightarrow> ('a \<Rightarrow> 'e + 'b) \<Rightarrow> 'e + 'b" where
  "bind_sum (Inl e) f = Inl e"
| "bind_sum (Inr x) f = f x"

definition decodeCURRow ::
  "(string \<Rightarrow> instant option) \<Rightarrow> string list \<Rightarrow> curIndex \<Rightarrow> nat \<Rightarrow> cur_error + CURRow" where
  "decodeCURRow parse rec idx row =
     bind_sum (field rec (ci_start idx)) (\<lambda>s0.
       case parse s0 of None \<Rightarrow> Inl (CurStart row s0) | Some start \<Rightarrow>
     bind_sum (field rec (ci_end idx)) (\<lambda>e0.
       case parse e0 of None \<Rightarrow> Inl (CurEnd row e0) | Some fin \<Rightarrow>
     bind_sum (field rec (ci_usage idx)) (\<lambda>u0.
       case parse_float u0 of Inl _ \<Rightarrow> Inl (CurUsage row u0) | Inr usage \<Rightarrow>
     bind_sum (field rec (ci_unblendedCost idx)) (\<lambda>c0.
       case parse_float c0 of Inl _ \<Rightarrow> Inl (CurCost row c0) | Inr cost \<Rightarrow>
     bind_sum (field rec (ci_service idx)) (\<lambda>service.
     bind_sum (field rec (ci_usageType idx)) (\<lambda>usageType.
     bind_sum (field rec (ci_region idx)) (\<lambda>region.
     bind_sum (case ci_resourceID idx of None \<Rightarrow> Inr [] | Some k \<Rightarrow> field rec k) (\<lambda>resource.
       Inr \<lparr>cu_UsageStartUTC = start, cu_UsageEndUTC = fin, cu_ServiceCode = service,
            cu_UsageType = usageType, cu_Region = region, cu_ResourceID = resource,
            cu_UsageQuantity = usage, cu_UnblendedCostUSD = cost\<rparr>))))))))"

text \<open>The records a CSV reader delivers: rows, or the error that ends them.\<close>

type_synonym csv = "(string + string list) list"

fun cur_rows ::
  "(string \<Rightarrow> instant option) \<Rightarrow> curIndex \<Rightarrow> nat \<Rightarrow> csv \<Rightarrow> cur_error + CURRow list" where
  "cur_rows parse idx row [] = Inr []"
| "cur_rows parse idx row (Inl e # rest) = Inl (CurRead row e)"
| "cur_rows parse idx row (Inr rec # rest) =
     (case decodeCURRow parse rec idx row of
        Inl e \<Rightarrow> Inl e
      | Inr r \<Rightarrow> (case cur_rows parse idx (Suc row) rest of Inl e \<Rightarrow> Inl e | Inr rs \<Rightarrow> Inr (r # rs)))"

definition ParseCURRows :: "(string \<Rightarrow> instant option) \<Rightarrow> (string \<Rightarrow> csv) \<Rightarrow> string \<Rightarrow> cur_error + CURRow list" where
  "ParseCURRows parse read body =
     (case read body of
        [] \<Rightarrow> Inr []
      | Inl e # _ \<Rightarrow> Inl (CurHeader e)
      | Inr header # rest \<Rightarrow>
          (case indexCURHeader header of Inl e \<Rightarrow> Inl e | Inr idx \<Rightarrow> cur_rows parse idx 0 rest))"

section \<open>The ingest route (\<^verbatim>\<open>handler.go\<close>)\<close>

record IngestRequest =
  iq_Tenant :: string
  iq_ClusterID :: string
  iq_PrometheusJSON :: string
  iq_CURRowsCSV :: string

record IngestResponse =
  ip_PromSeries :: nat
  ip_CURRows :: nat

record ingest_env =
  ge_Decode :: "string \<Rightarrow> IngestRequest json_result"
  ge_Conv :: "f64 \<Rightarrow> i64"
  ge_PromDecode :: "string \<Rightarrow> string + promResponse"
  ge_PromUnmarshal :: "string \<Rightarrow> promMatrixEntry option"
  ge_PromErrorText :: "prom_error \<Rightarrow> string"
  ge_CSV :: "string \<Rightarrow> csv"
  ge_ParseTime :: "string \<Rightarrow> instant option"
  ge_CurErrorText :: "cur_error \<Rightarrow> string"

text \<open>A sink returns whether it failed.\<close>

record Ingest_Handler =
  ih_PromSink :: "(TenantContext \<Rightarrow> PromSeries list \<Rightarrow> bool) option"
  ih_CURSink :: "(TenantContext \<Rightarrow> CURRow list \<Rightarrow> bool) option"

datatype ingest_event = PromSunk TenantContext "PromSeries list" | CURSunk TenantContext "CURRow list"

definition ErrEmptyIngest :: string where
  "ErrEmptyIngest = ''ingestion: empty request, supply prometheus_json or cur_rows_csv''"

text \<open>One half of the body: \<open>None\<close> when it is absent or stored, with what was stored.\<close>

definition ingest_prom ::
  "ingest_env \<Rightarrow> Ingest_Handler \<Rightarrow> Request \<Rightarrow> TenantContext \<Rightarrow> string \<Rightarrow>
   ingest_event list \<times> (IngestResponse Response + nat)" where
  "ingest_prom env h r t body =
     (if body = [] then ([], Inr 0)
      else case ParsePrometheusMatrix (ge_Conv env) (ge_PromDecode env) (ge_PromUnmarshal env) body of
             Inl e \<Rightarrow>
               ([], Inl (WriteWithDetails r 400 ''PROMETHEUS_PARSE_ERROR''
                  (''could not parse prometheus_json: '' @ ge_PromErrorText env e)
                  [(''hint'', DStr ''expect a Prometheus query_range matrix response body'')]))
           | Inr series \<Rightarrow>
               (case ih_PromSink h of
                  None \<Rightarrow> ([], Inr (length series))
                | Some sink \<Rightarrow>
                    ([PromSunk t series],
                     if sink t series then Inl (Internal r ''could not persist Prometheus series'')
                     else Inr (length series))))"

definition ingest_cur ::
  "ingest_env \<Rightarrow> Ingest_Handler \<Rightarrow> Request \<Rightarrow> TenantContext \<Rightarrow> string \<Rightarrow>
   ingest_event list \<times> (IngestResponse Response + nat)" where
  "ingest_cur env h r t body =
     (if body = [] then ([], Inr 0)
      else case ParseCURRows (ge_ParseTime env) (ge_CSV env) body of
             Inl e \<Rightarrow>
               ([], Inl (WriteWithDetails r 400 ''CUR_PARSE_ERROR''
                  (''could not parse cur_rows_csv: '' @ ge_CurErrorText env e)
                  [(''hint'', DStr ''expect AWS CUR rows in canonical CSV order'')]))
           | Inr rows \<Rightarrow>
               (case ih_CURSink h of
                  None \<Rightarrow> ([], Inr (length rows))
                | Some sink \<Rightarrow>
                    ([CURSunk t rows],
                     if sink t rows then Inl (Internal r ''could not persist CUR rows'')
                     else Inr (length rows))))"

definition Ingest ::
  "ingest_env \<Rightarrow> Ingest_Handler \<Rightarrow> Request \<Rightarrow> ingest_event list \<times> IngestResponse Response" where
  "Ingest env h r =
     (if rq_Method r \<noteq> ''POST'' then ([], MethodNotAllowed r ''POST'')
      else case FromContext (rq_Tenant r) of
             None \<Rightarrow>
               ([], Unauthorized r
                  (''tenant context required '' @ em_dash @ '' agents authenticate via mTLS SPIFFE id''))
           | Some t0 \<Rightarrow>
               (case DecodeCapped (ge_Decode env) IngestMaxBytes (rq_Body r) of
                  CappedTooLarge \<Rightarrow> ([], BodyTooLarge r IngestMaxBytes)
                | CappedInvalid e \<Rightarrow> ([], InvalidJSON r e)
                | CappedOk req \<Rightarrow>
                    if iq_Tenant req \<noteq> [] \<and> iq_Tenant req \<noteq> tc_TenantID t0
                    then ([], WriteWithDetails r 400 ''TENANT_MISMATCH''
                            ''tenant in body does not match the authenticated tenant context''
                            [(''body_tenant'', DStr (iq_Tenant req)), (''context_tenant'', DStr (tc_TenantID t0))])
                    else
                      let t = (if iq_ClusterID req \<noteq> [] then t0\<lparr>tc_ClusterID := iq_ClusterID req\<rparr> else t0)
                      in if iq_PrometheusJSON req = [] \<and> iq_CURRowsCSV req = []
                         then ([], BadRequest r ErrEmptyIngest)
                         else (case ingest_prom env h r t (iq_PrometheusJSON req) of
                                 (es, Inl resp) \<Rightarrow> (es, resp)
                               | (es, Inr series) \<Rightarrow>
                                   (case ingest_cur env h r t (iq_CURRowsCSV req) of
                                      (es', Inl resp) \<Rightarrow> (es @ es', resp)
                                    | (es', Inr rows) \<Rightarrow>
                                        (es @ es', json_response 200 \<lparr>ip_PromSeries = series, ip_CURRows = rows\<rparr>)))))"

section \<open>The snapshot route (\<^verbatim>\<open>agent_snapshot.go\<close>)\<close>

record WorkloadSnap =
  ws_Namespace :: string
  ws_Kind :: string
  ws_Name :: string

record EventSnap =
  es_Namespace :: string
  es_PodName :: string
  es_Reason :: string
  es_Type :: string
  es_Count :: i64
  es_LastSeen :: instant
  es_Message :: string

record HPASnap =
  hs_Namespace :: string
  hs_Name :: string
  hs_MinReplicas :: i64
  hs_MaxReplicas :: i64
  hs_CurrentReplicas :: i64

record PolicySnap =
  os_Namespace :: string
  os_HasPDB :: bool
  os_HasQuota :: bool
  os_HasLimitRng :: bool

record NodePoolSnap =
  np_Name :: string
  np_NodeCountCurrent :: i64
  np_ConsolidationMode :: string
  np_Requirements :: "(string \<times> string list) list"

record PromSampleSnap =
  pn_Namespace :: string
  pn_Kind :: string
  pn_Name :: string
  pn_CPUUsageCores :: f64
  pn_MemoryWorking :: i64
  pn_OOMKilledCount :: i64
  pn_At :: instant

record AgentHealthSnap =
  ah_Version :: string
  ah_DataFreshnessSeconds :: i64

record AgentSnapshot =
  as_BatchID :: string
  as_CapturedAt :: instant
  as_ClusterID :: string
  as_AgentVersion :: string
  as_Workloads :: "WorkloadSnap list"
  as_Events :: "EventSnap list"
  as_HPAs :: "HPASnap list"
  as_Policies :: "PolicySnap list"
  as_NodePools :: "NodePoolSnap list"
  as_ProvisionerClass :: string
  as_PromSamples :: "PromSampleSnap list"
  as_Health :: "AgentHealthSnap option"

record AgentSnapshotResponse =
  ar_Accepted :: bool
  ar_BatchID :: string
  ar_WorkloadsObs :: nat
  ar_EventsObs :: nat
  ar_HPAsObs :: nat
  ar_PromObs :: nat

definition AgentSnapshotAudience :: string where "AgentSnapshotAudience = ''agent-snapshot''"
definition TokenHeader :: string where "TokenHeader = ''X-Optiqor-Agent-Token''"

text \<open>The sink returns whether it failed.\<close>

record AgentSnapshotHandler =
  sh_Verifier :: "Ident_Verifier option"
  sh_Sink :: "(TenantContext \<Rightarrow> AgentSnapshot \<Rightarrow> bool) option"

datatype snapshot_event = Persisted TenantContext AgentSnapshot

definition accept_snapshot ::
  "AgentSnapshotHandler \<Rightarrow> Request \<Rightarrow> TenantContext \<Rightarrow> Ident_Token \<Rightarrow> AgentSnapshot \<Rightarrow>
   snapshot_event list \<times> AgentSnapshotResponse Response" where
  "accept_snapshot h r t tok snap =
     (if as_ClusterID snap = [] \<or> as_BatchID snap = [] then ([], MissingField r ''cluster_id and batch_id'')
      else if it_ClusterID tok \<noteq> [] \<and> it_ClusterID tok \<noteq> as_ClusterID snap
      then ([], WriteWithDetails r 400 ''CLUSTER_MISMATCH''
              ''snapshot.cluster_id does not match the token-bound cluster''
              [(''token_cluster'', DStr (it_ClusterID tok)), (''snap_cluster'', DStr (as_ClusterID snap))])
      else
        let done = json_response 202
              \<lparr>ar_Accepted = True, ar_BatchID = as_BatchID snap, ar_WorkloadsObs = length (as_Workloads snap),
               ar_EventsObs = length (as_Events snap), ar_HPAsObs = length (as_HPAs snap),
               ar_PromObs = length (as_PromSamples snap)\<rparr>
        in case sh_Sink h of
             None \<Rightarrow> ([], done)
           | Some sink \<Rightarrow>
               let t' = t\<lparr>tc_ClusterID := as_ClusterID snap\<rparr>
               in ([Persisted t' snap],
                   if sink t' snap then Internal r ''could not persist agent snapshot'' else done))"

text \<open>HMAC and the token's JSON are the parameters of \<^verbatim>\<open>ident.go\<close>; \<open>now\<close> is the verifier's clock.\<close>

definition AgentSnapshot_Snapshot ::
  "(string \<Rightarrow> string \<Rightarrow> string) \<Rightarrow> (string \<Rightarrow> Ident_Token option) \<Rightarrow> instant \<Rightarrow> AgentSnapshotHandler \<Rightarrow> (string \<Rightarrow> AgentSnapshot json_result) \<Rightarrow> Request \<Rightarrow>
   snapshot_event list \<times> AgentSnapshotResponse Response" where
  "AgentSnapshot_Snapshot hmac unmarshal now h decode r =
     (if rq_Method r \<noteq> ''POST'' then ([], MethodNotAllowed r ''POST'')
      else case FromContext (rq_Tenant r) of
             None \<Rightarrow>
               ([], Unauthorized r
                  (''tenant context required '' @ em_dash @ '' agent must present mTLS client cert''))
           | Some t \<Rightarrow>
               if rq_Header r TokenHeader = [] then ([], Unauthorized r (''missing '' @ TokenHeader @ '' header''))
               else case sh_Verifier h of
                      None \<Rightarrow> ([], Internal r ''agent token verifier not configured'')
                    | Some v \<Rightarrow>
                        (case Ident_Verify hmac unmarshal v now (rq_Header r TokenHeader) AgentSnapshotAudience of
                           Inl e \<Rightarrow> ([], Unauthorized r (''agent token: '' @ ident_error_text e))
                         | Inr tok \<Rightarrow>
                             if it_TenantID tok \<noteq> tc_TenantID t
                             then ([], WriteWithDetails r 401 CodeUnauthorized
                                     ''agent token tenant does not match mTLS tenant''
                                     [(''cert_tenant'', DStr (tc_TenantID t)),
                                      (''token_tenant'', DStr (it_TenantID tok))])
                             else (case DecodeCapped decode IngestMaxBytes (rq_Body r) of
                                     CappedTooLarge \<Rightarrow> ([], BodyTooLarge r IngestMaxBytes)
                                   | CappedInvalid e \<Rightarrow> ([], InvalidJSON r e)
                                   | CappedOk snap \<Rightarrow> accept_snapshot h r t tok snap)))"

section \<open>Properties\<close>

lemma prom_samples_length: "prom_samples conv i j ps = Inr ss \<Longrightarrow> length ss = length ps"
  by (induction ps arbitrary: j ss) (auto split: sum.splits)

interpretation sample_order: less_order before
  by unfold_locales (auto simp: before_def)

text \<open>The entries and the series correspond, and each series is its entry's samples in time order.\<close>

definition series_of :: "promMatrixEntry \<Rightarrow> PromSeries \<Rightarrow> bool" where
  "series_of e x \<longleftrightarrow> px_Metric x = me_Metric e \<and> length (px_Samples x) = length (me_Values e) \<and>
     sorted_by before (px_Samples x)"

lemma prom_matrix_series:
  "prom_matrix conv unmarshal i rs = Inr out \<Longrightarrow>
   \<exists>entries. map unmarshal rs = map Some entries \<and> list_all2 series_of entries out"
proof (induction rs arbitrary: i out)
  case (Cons rmsg rs)
  then obtain entry samples rest where e: "unmarshal rmsg = Some entry"
    "prom_samples conv i 0 (me_Values entry) = Inr samples" "prom_matrix conv unmarshal (Suc i) rs = Inr rest"
    "out = \<lparr>px_Metric = me_Metric entry, px_Samples = stable_sort before samples\<rparr> # rest"
    by (auto split: option.splits sum.splits)
  from Cons.IH[OF e(3)] obtain entries where "map unmarshal rs = map Some entries"
    "list_all2 series_of entries rest" by blast
  moreover have "series_of entry \<lparr>px_Metric = me_Metric entry, px_Samples = stable_sort before samples\<rparr>"
    using e(2) by (simp add: series_of_def prom_samples_length sample_order.sorted_stable_sort)
  ultimately show ?case using e by (intro exI[of _ "entry # entries"]) simp
qed simp

text \<open>
  A parsed matrix: when the parser succeeds the body said success and matrix, and the series are
  those of the entries, in their order, each with its entry's labels, one sample for every pair and the
  samples in time order.
\<close>

lemma parsed_matrix_sorted:
  assumes "ParsePrometheusMatrix conv decode unmarshal body = Inr out"
  shows "\<exists>raw entries. decode body = Inr raw \<and> pr_Status raw = ''success'' \<and> pr_ResultType raw = ''matrix'' \<and>
    map unmarshal (pr_Result raw) = map Some entries \<and>
    list_all2 (\<lambda>e x. px_Metric x = me_Metric e \<and> length (px_Samples x) = length (me_Values e) \<and>
      sorted (map ps_At (px_Samples x))) entries out"
proof -
  have sorted: "sorted_by before ss \<Longrightarrow> sorted (map ps_At ss)" for ss
    by (induction ss) (auto simp: before_def not_less)
  from assms obtain raw where "decode body = Inr raw" "pr_Status raw = ''success''" "pr_ResultType raw = ''matrix''"
    "prom_matrix conv unmarshal 0 (pr_Result raw) = Inr out"
    by (auto simp: ParsePrometheusMatrix_def split: sum.splits if_splits)
  moreover from prom_matrix_series[OF this(4)] obtain entries where
    "map unmarshal (pr_Result raw) = map Some entries" "list_all2 series_of entries out" by blast
  moreover from this(2) have "list_all2 (\<lambda>e x. px_Metric x = me_Metric e \<and>
      length (px_Samples x) = length (me_Values e) \<and> sorted (map ps_At (px_Samples x))) entries out"
    by (rule list_all2_mono) (use sorted in \<open>auto simp: series_of_def\<close>)
  ultimately show ?thesis by blast
qed

definition csv_rectangular :: "csv \<Rightarrow> bool" where
  "csv_rectangular c \<longleftrightarrow>
     (case c of Inr header # rest \<Rightarrow> list_all (\<lambda>x. case x of Inl _ \<Rightarrow> True | Inr rec \<Rightarrow> length rec = length header) rest
      | _ \<Rightarrow> True)"

lemma have_column_less: "have_column c i hs = Some k \<Longrightarrow> k < i + length hs"
  by (induction hs arbitrary: i) (fastforce split: option.splits if_splits)+

definition index_fits :: "curIndex \<Rightarrow> nat \<Rightarrow> bool" where
  "index_fits idx n \<longleftrightarrow>
     list_all (\<lambda>f. f idx < n) [ci_start, ci_end, ci_service, ci_usageType, ci_region, ci_usage, ci_unblendedCost] \<and>
     (case ci_resourceID idx of None \<Rightarrow> True | Some k \<Rightarrow> k < n)"

lemma indexCURHeader_fits:
  assumes "indexCURHeader header = Inr idx"
  shows "index_fits idx (length header)"
proof -
  have none: "find (\<lambda>c. have_column c 0 header = None) requiredCURColumns = None"
    using assms by (auto simp: indexCURHeader_def Let_def split: option.splits)
  have ix: "col_index header c < length header" if "c \<in> set requiredCURColumns" for c
    using none that have_column_less[of c 0 header]
    by (auto simp: find_None_iff col_index_def split: option.splits)
  have "case have_column ''lineItem/ResourceId'' 0 header of None \<Rightarrow> True | Some k \<Rightarrow> k < length header"
    using have_column_less[of "''lineItem/ResourceId''" 0 header] by (simp split: option.splits)
  moreover have "list_all (\<lambda>c. col_index header c < length header) requiredCURColumns"
    using ix by (simp add: list_all_iff)
  note cols = this[unfolded requiredCURColumns_def list.pred_inject]
  ultimately show ?thesis
    using assms cols unfolding indexCURHeader_def Let_def none option.case by (clarsimp simp: index_fits_def)
qed

lemma decodeCURRow_no_panic:
  assumes "index_fits idx (length rec)"
  shows "decodeCURRow parse rec idx row \<noteq> Inl CurPanic"
  using assms
  by (auto simp: decodeCURRow_def index_fits_def field_def split: option.splits sum.splits)

lemma cur_rows_no_panic:
  assumes "index_fits idx n"
    and "list_all (\<lambda>x. case x of Inl _ \<Rightarrow> True | Inr rec \<Rightarrow> length rec = n) rest"
  shows "cur_rows parse idx row rest \<noteq> Inl CurPanic"
  using assms(2)
proof (induction rest arbitrary: row)
  case (Cons x rest)
  show ?case
  proof (cases x)
    case (Inr rec)
    with Cons assms(1) decodeCURRow_no_panic[of idx rec parse row] show ?thesis
      by (auto split: sum.splits)
  qed simp
qed simp

lemma cur_rows_length: "cur_rows parse idx row rest = Inr rs \<Longrightarrow> length rs = length rest"
proof (induction rest arbitrary: row rs)
  case (Cons x rest)
  then show ?case by (cases x) (auto split: sum.splits)
qed simp

text \<open>
  C32. Billing rows never panic: the CSV reader promises that every record has as many fields as the
  header, and then no index of the row decoder is out of range, whatever the header and the cells; and
  a successful parse has one row for every record after the header.
\<close>

theorem cur_rows_total:
  assumes "csv_rectangular (read body)"
  shows "ParseCURRows parse read body \<noteq> Inl CurPanic \<and>
    (case ParseCURRows parse read body of Inl _ \<Rightarrow> True | Inr rows \<Rightarrow> length rows = length (read body) - 1)"
proof (cases "read body")
  case (Cons x rest)
  show ?thesis
  proof (cases x)
    case (Inr header)
    show ?thesis
    proof (cases "indexCURHeader header")
      case (Inl e)
      then have "e \<noteq> CurPanic" by (auto simp: indexCURHeader_def Let_def split: option.splits)
      with Inl Inr Cons show ?thesis by (simp add: ParseCURRows_def)
    next
      case (Inr idx)
      with Cons \<open>x = Inr header\<close> assms cur_rows_no_panic[OF indexCURHeader_fits[OF Inr], of rest parse 0]
      show ?thesis
        by (auto simp: ParseCURRows_def csv_rectangular_def split: sum.splits dest: cur_rows_length)
    qed
  qed (simp add: Cons ParseCURRows_def)
qed (simp add: ParseCURRows_def)

fun event_tenant :: "ingest_event \<Rightarrow> TenantContext" where
  "event_tenant (PromSunk t _) = t"
| "event_tenant (CURSunk t _) = t"

lemma ingest_prom_tenant: "set (map event_tenant (fst (ingest_prom env h r t body))) \<subseteq> {t}"
  by (auto simp: ingest_prom_def split: sum.splits option.splits)

lemma ingest_cur_tenant: "set (map event_tenant (fst (ingest_cur env h r t body))) \<subseteq> {t}"
  by (auto simp: ingest_cur_def split: sum.splits option.splits)

lemmas ingest_tenant = ingest_prom_tenant ingest_cur_tenant

text \<open>The scope an ingest request is stored under.\<close>

definition ingest_scope :: "TenantContext \<Rightarrow> IngestRequest \<Rightarrow> TenantContext" where
  "ingest_scope t req = (if iq_ClusterID req \<noteq> [] then t\<lparr>tc_ClusterID := iq_ClusterID req\<rparr> else t)"

text \<open>
  What ingestion stores is stored for the authenticated tenant: every sink call carries the tenant of
  the request's context, and a body that names another tenant reaches no sink. The cluster is not bound
  that way: the comment says a body that does not match the context is rejected, but a cluster id in
  the body replaces the context's.
\<close>

lemma ingest_scoped:
  assumes "Ingest env h r = (es, resp)" and "es \<noteq> []"
  shows "\<exists>t req. FromContext (rq_Tenant r) = Some t \<and>
    DecodeCapped (ge_Decode env) IngestMaxBytes (rq_Body r) = CappedOk req \<and>
    (iq_Tenant req = [] \<or> iq_Tenant req = tc_TenantID t) \<and>
    set (map event_tenant es) = {if iq_ClusterID req \<noteq> [] then t\<lparr>tc_ClusterID := iq_ClusterID req\<rparr> else t}"
proof -
  from assms obtain t req where t: "FromContext (rq_Tenant r) = Some t"
    and req: "DecodeCapped (ge_Decode env) IngestMaxBytes (rq_Body r) = CappedOk req"
    and ok: "iq_Tenant req = [] \<or> iq_Tenant req = tc_TenantID t"
    by (auto simp: Ingest_def split: if_splits option.splits capped.splits)
  let ?p = "ingest_prom env h r (ingest_scope t req) (iq_PrometheusJSON req)"
  let ?c = "ingest_cur env h r (ingest_scope t req) (iq_CURRowsCSV req)"
  have "set es \<subseteq> set (fst ?p) \<union> set (fst ?c)"
    using assms t req ok unfolding Ingest_def ingest_scope_def
    by (auto simp: Let_def split: if_splits prod.splits sum.splits)
  then have "event_tenant ` set es \<subseteq> event_tenant ` set (fst ?p) \<union> event_tenant ` set (fst ?c)" by blast
  also have "\<dots> \<subseteq> {ingest_scope t req}"
    using ingest_tenant[of env h r "ingest_scope t req"] by (simp add: image_subset_iff)
  finally have "set (map event_tenant es) = {ingest_scope t req}" using assms(2) by (cases es) auto
  with t req ok show ?thesis unfolding ingest_scope_def by blast
qed

text \<open>
  C26. A snapshot is stored only for an agent that proved who it is: the sink runs at most once, and only
  for a request whose context has a tenant and whose token carries the MAC of its payload under the
  verifier's secret, is meant for snapshots, is inside its validity and names that tenant, and only for
  a complete snapshot; if the token names a cluster, the snapshot is from that cluster, and a token that
  names none opens every cluster of the tenant. It is stored under that tenant and the snapshot's
  cluster.
\<close>

theorem snapshot_authenticated:
  assumes "AgentSnapshot_Snapshot hmac unmarshal now h decode r = (es, resp)" and "es \<noteq> []"
  shows "\<exists>t v p64 s64 payload tok snap. es = [Persisted (t\<lparr>tc_ClusterID := as_ClusterID snap\<rparr>) snap] \<and>
    rq_Method r = ''POST'' \<and> FromContext (rq_Tenant r) = Some t \<and> sh_Verifier h = Some v \<and>
    rq_Header r ''X-Optiqor-Agent-Token'' = p64 @ CHR ''.'' # s64 \<and> DecodeString p64 = Some payload \<and>
    DecodeString s64 = Some (hmac (iv_secret v) payload) \<and> unmarshal payload = Some tok \<and>
    it_Audience tok = ''agent-snapshot'' \<and> it_TenantID tok = tc_TenantID t \<and>
    it_IssuedAt tok \<le> wrap64 (Unix now + skew_seconds v) \<and> Unix now \<le> wrap64 (it_ExpiresAt tok + skew_seconds v) \<and>
    DecodeCapped decode IngestMaxBytes (rq_Body r) = CappedOk snap \<and>
    as_ClusterID snap \<noteq> [] \<and> as_BatchID snap \<noteq> [] \<and>
    (it_ClusterID tok = [] \<or> it_ClusterID tok = as_ClusterID snap)"
proof -
  from assms obtain t v tok snap where m: "rq_Method r = ''POST''" "FromContext (rq_Tenant r) = Some t"
    "sh_Verifier h = Some v" "it_TenantID tok = tc_TenantID t"
    "DecodeCapped decode IngestMaxBytes (rq_Body r) = CappedOk snap"
    and tok: "Ident_Verify hmac unmarshal v now (rq_Header r TokenHeader) AgentSnapshotAudience = Inr tok"
    and a: "accept_snapshot h r t tok snap = (es, resp)"
    unfolding AgentSnapshot_Snapshot_def
    by (simp split: if_split_asm option.split_asm sum.split_asm capped.split_asm)
  from a assms(2) have e: "es = [Persisted (t\<lparr>tc_ClusterID := as_ClusterID snap\<rparr>) snap]"
    "as_ClusterID snap \<noteq> []" "as_BatchID snap \<noteq> []"
    "it_ClusterID tok = [] \<or> it_ClusterID tok = as_ClusterID snap"
    by (auto simp: accept_snapshot_def Let_def split: if_splits option.splits)
  from tok obtain p64 s64 payload where "rq_Header r TokenHeader = p64 @ CHR ''.'' # s64"
    "DecodeString p64 = Some payload" "DecodeString s64 = Some (hmac (iv_secret v) payload)"
    "unmarshal payload = Some tok" "Ident_check v tok now AgentSnapshotAudience = Inr tok"
    by (rule ident.accepted_signed) blast
  with m e show ?thesis unfolding TokenHeader_def AgentSnapshotAudience_def Ident_check_Inr
    by (intro exI[of _ t] exI[of _ v] exI[of _ p64] exI[of _ s64] exI[of _ payload] exI[of _ tok] exI[of _ snap]) simp
qed

text \<open>A token without a cluster is accepted for a snapshot of any cluster.\<close>

lemma clusterless_token_any_cluster:
  "it_ClusterID tok = [] \<Longrightarrow> as_ClusterID snap \<noteq> [] \<Longrightarrow> as_BatchID snap \<noteq> [] \<Longrightarrow> sh_Sink h = Some sink \<Longrightarrow>
     fst (accept_snapshot h r t tok snap) = [Persisted (t\<lparr>tc_ClusterID := as_ClusterID snap\<rparr>) snap]"
  by (simp add: accept_snapshot_def Let_def)

section \<open>Concrete instances\<close>

definition tenant_of :: "string \<Rightarrow> TenantContext" where
  "tenant_of tid = \<lparr>tc_TenantID = tid, tc_WorkspaceID = [], tc_ClusterID = ''c0'', tc_Namespace = []\<rparr>"

definition sample_post :: Request where
  "sample_post =
     \<lparr>rq_Method = ''POST'', rq_Path = ''/v1/ingest'', rq_Host = ''api'', rq_PathValue = (\<lambda>_. []),
      rq_Header = (\<lambda>_. ''token''), rq_Query = (\<lambda>_. []), rq_Cookie = (\<lambda>_. None), rq_TLS = True,
      rq_PeerCertificates = [], rq_Body = [], rq_Tenant = Some (tenant_of ''t1''), rq_RequestID = []\<rparr>"

definition sample_response :: promResponse where
  "sample_response = \<lparr>pr_Status = ''success'', pr_ResultType = ''matrix'', pr_Result = [''m'']\<rparr>"

definition sample_ingest_env :: ingest_env where
  "sample_ingest_env =
     \<lparr>ge_Decode = (\<lambda>_. Decoded \<lparr>iq_Tenant = [], iq_ClusterID = ''c9'', iq_PrometheusJSON = ''p'', iq_CURRowsCSV = []\<rparr>),
      ge_Conv = amd64_conv, ge_PromDecode = (\<lambda>_. Inr sample_response),
      ge_PromUnmarshal = (\<lambda>_. Some \<lparr>me_Metric = [], me_Values = []\<rparr>), ge_PromErrorText = (\<lambda>_. []),
      ge_CSV = (\<lambda>_. []), ge_ParseTime = (\<lambda>_. None), ge_CurErrorText = (\<lambda>_. [])\<rparr>"

lemma sample_matrix:
  "ParsePrometheusMatrix amd64_conv (\<lambda>_. Inr sample_response) (\<lambda>_. Some \<lparr>me_Metric = [], me_Values = []\<rparr>) b =
   Inr [\<lparr>px_Metric = [], px_Samples = []\<rparr>]"
  by (simp add: ParsePrometheusMatrix_def sample_response_def)

lemma parsed_matrix_sorted_witness: "pr_ResultType sample_response = ''matrix''"
  using parsed_matrix_sorted[OF sample_matrix] by auto

definition sample_sink :: Ingest_Handler where
  "sample_sink = \<lparr>ih_PromSink = Some (\<lambda>_ _. False), ih_CURSink = None\<rparr>"

lemma ingest_scoped_witness:
  "\<exists>es resp. Ingest sample_ingest_env sample_sink sample_post = (es, resp) \<and>
     set (map event_tenant es) = {(tenant_of ''t1'')\<lparr>tc_ClusterID := ''c9''\<rparr>}"
proof -
  have "\<exists>resp. Ingest sample_ingest_env sample_sink sample_post =
    ([PromSunk ((tenant_of ''t1'')\<lparr>tc_ClusterID := ''c9''\<rparr>) [\<lparr>px_Metric = [], px_Samples = []\<rparr>]], resp)"
    using sample_matrix
    by (simp add: Ingest_def sample_post_def FromContext_def Tenant_Validate_def tenant_of_def DecodeCapped_def
        sample_ingest_env_def ingest_prom_def ingest_cur_def sample_sink_def Let_def)
  then obtain resp where i: "Ingest sample_ingest_env sample_sink sample_post =
    ([PromSunk ((tenant_of ''t1'')\<lparr>tc_ClusterID := ''c9''\<rparr>) [\<lparr>px_Metric = [], px_Samples = []\<rparr>]], resp)" ..
  from ingest_scoped[OF i] i show ?thesis by auto
qed

lemma cur_rows_total_witness:
  "ParseCURRows (\<lambda>_. None) (\<lambda>_. [Inr [''a''], Inr [''1'']]) [] \<noteq> Inl CurPanic"
  using cur_rows_total[of "\<lambda>_. [Inr [''a''], Inr [''1'']]" "[]" "\<lambda>_. None"]
  by (simp add: csv_rectangular_def)

definition sample_snapshot :: AgentSnapshot where
  "sample_snapshot =
     \<lparr>as_BatchID = ''b1'', as_CapturedAt = 0, as_ClusterID = ''c1'', as_AgentVersion = [], as_Workloads = [],
      as_Events = [], as_HPAs = [], as_Policies = [], as_NodePools = [], as_ProvisionerClass = [],
      as_PromSamples = [], as_Health = None\<rparr>"

definition sample_bound_token :: Ident_Token where
  "sample_bound_token = \<lparr>it_TenantID = ''t1'', it_ClusterID = ''c1'', it_BatchID = [], it_Audience = ''agent-snapshot'',
     it_IssuedAt = 0, it_ExpiresAt = 900\<rparr>"

definition sample_agent_post :: Request where
  "sample_agent_post = sample_post\<lparr>rq_Header := (\<lambda>_. EncodeToString ''{}'' @ CHR ''.'' # EncodeToString ''k{}'')\<rparr>"

definition sample_snapshot_handler :: AgentSnapshotHandler where
  "sample_snapshot_handler =
     \<lparr>sh_Verifier = Some \<lparr>iv_secret = ''k'', iv_skew = nanoseconds 30\<rparr>, sh_Sink = Some (\<lambda>_ _. False)\<rparr>"

lemma snapshot_authenticated_witness:
  "\<exists>es resp. AgentSnapshot_Snapshot (@) (\<lambda>_. Some sample_bound_token) (nanoseconds 62135596801) sample_snapshot_handler
     (\<lambda>_. Decoded sample_snapshot) sample_agent_post = (es, resp) \<and>
     es = [Persisted ((tenant_of ''t1'')\<lparr>tc_ClusterID := ''c1''\<rparr>) sample_snapshot]"
proof -
  let ?s = "AgentSnapshot_Snapshot (@) (\<lambda>_. Some sample_bound_token) (nanoseconds 62135596801) sample_snapshot_handler
     (\<lambda>_. Decoded sample_snapshot) sample_agent_post"
  obtain es resp where i: "?s = (es, resp)" by fastforce
  let ?v = "\<lparr>iv_secret = ''k'', iv_skew = nanoseconds 30\<rparr>"
  have "Ident_check ?v sample_bound_token (nanoseconds 62135596801) AgentSnapshotAudience = Inr sample_bound_token"
    by (simp add: Ident_check_def sample_bound_token_def AgentSnapshotAudience_def Unix_def nanoseconds_def skew_seconds_def
        wrap64_def)
  then have v: "Ident_Verify (@) (\<lambda>_. Some sample_bound_token) ?v (nanoseconds 62135596801)
      (EncodeToString ''{}'' @ CHR ''.'' # EncodeToString (iv_secret ?v @ ''{}'')) AgentSnapshotAudience = Inr sample_bound_token"
    by (intro ident.accepts_signed) simp
  have r: "rq_Header sample_agent_post TokenHeader = EncodeToString ''{}'' @ CHR ''.'' # EncodeToString (iv_secret ?v @ ''{}'')"
    "rq_Header sample_agent_post TokenHeader \<noteq> []" "rq_Method sample_agent_post = ''POST''"
    "rq_Tenant sample_agent_post = Some (tenant_of ''t1'')" "rq_Body sample_agent_post = []"
    unfolding sample_agent_post_def sample_post_def by simp_all
  have "es \<noteq> []"
    using i v[folded r(1)] r(2-5)
    by (auto simp: AgentSnapshot_Snapshot_def accept_snapshot_def sample_snapshot_def
        sample_snapshot_handler_def sample_bound_token_def FromContext_def Tenant_Validate_def tenant_of_def DecodeCapped_def Let_def)
  then show ?thesis using snapshot_authenticated[OF i] i r(4)
    by (auto simp: DecodeCapped_def FromContext_def sample_snapshot_def split: if_splits)
qed

end
