(* ===== verification/Billing.thy ===== *)
theory Billing
  imports Registry Http Go_Float
begin

text \<open>
  \<^verbatim>\<open>backend/internal/billing\<close>: the registry of cost sources (\<^verbatim>\<open>billing.go\<close>), the two stub sources
  (\<^verbatim>\<open>aws.go\<close>, \<^verbatim>\<open>capacity.go\<close>) and the cost-spike webhook (\<^verbatim>\<open>spike_handler.go\<close>).
\<close>

type_synonym Tier = string
type_synonym Cloud = string

definition TierCloud :: Tier where "TierCloud = ''cloud''"
definition TierCapacity :: Tier where "TierCapacity = ''capacity''"
definition CloudAWS :: Cloud where "CloudAWS = ''aws''"

record Billing_Window =
  bw_Start :: instant
  bw_End :: instant

text \<open>\<open>True\<close> when there is no error.\<close>

definition Window_Validate :: "Billing_Window \<Rightarrow> bool" where
  "Window_Validate w \<longleftrightarrow> \<not> (bw_End w < bw_Start w \<or> bw_End w = bw_Start w)"

record LineItem =
  li_ClusterID :: string
  li_WorkloadID :: string
  li_Resource :: string
  li_UsageQty :: f64
  li_UnitUSDCents :: i64
  li_TotalUSDCents :: i64
  li_Currency :: string

record Billing_Result =
  br_Source :: string
  br_Cloud :: Cloud
  br_Tier :: Tier
  br_Window :: Billing_Window
  br_Items :: "LineItem list"
  br_Currency :: string

definition TotalUSDCents :: "Billing_Result \<Rightarrow> i64" where
  "TotalUSDCents r =
     foldl (\<lambda>sum it. if li_Currency it \<noteq> [] \<and> li_Currency it \<noteq> ''USD'' then sum
                     else wrap64 (sum + li_TotalUSDCents it)) 0 (br_Items r)"

datatype billing_error = BillingErrNoTenant | InvalidWindow | ErrNotImplemented

record Billing_Source =
  bs_Name :: string
  bs_Cloud :: Cloud
  bs_Tier :: Tier
  bs_Query :: "TenantContext \<Rightarrow> Billing_Window \<Rightarrow> billing_error + Billing_Result"

text \<open>The two stubs: the scope and the window are checked before anything else.\<close>

definition stub_query :: "TenantContext \<Rightarrow> Billing_Window \<Rightarrow> billing_error + Billing_Result" where
  "stub_query t w =
     (if \<not> Tenant_Validate t then Inl BillingErrNoTenant
      else if \<not> Window_Validate w then Inl InvalidWindow
      else Inl ErrNotImplemented)"

definition AWSCUR :: Billing_Source where
  "AWSCUR = \<lparr>bs_Name = ''aws-cur'', bs_Cloud = CloudAWS, bs_Tier = TierCloud, bs_Query = stub_query\<rparr>"

definition Capacity :: Billing_Source where
  "Capacity = \<lparr>bs_Name = ''capacity'', bs_Cloud = [], bs_Tier = TierCapacity, bs_Query = stub_query\<rparr>"

section \<open>The registry\<close>

text \<open>The sources by name; \<open>None\<close> of \<open>Register\<close> is the panic.\<close>

type_synonym Billing_Registry = "(string \<times> Billing_Source) list"

definition Billing_Register :: "Billing_Registry \<Rightarrow> Billing_Source \<Rightarrow> Billing_Registry option" where
  "Billing_Register r s =
     (if bs_Name s = [] then None
      else if map_of r (bs_Name s) \<noteq> None then None
      else Some (AList.update (bs_Name s) s r))"

definition Billing_Lookup :: "Billing_Registry \<Rightarrow> string \<Rightarrow> Billing_Source option" where
  "Billing_Lookup r n = map_of r n"

definition Billing_Names :: "Billing_Registry \<Rightarrow> string list" where
  "Billing_Names r = swap_sort (map fst r)"

interpretation billing: name_registry Billing_Register Billing_Lookup Billing_Names bs_Name
    "\<lambda>r. distinct (map fst r)"
  by unfold_locales
    (auto simp: Billing_Register_def Billing_Lookup_def Billing_Names_def swap_sort_eq AList.update_conv'
      distinct_update map_of_eq_None_iff split: if_splits)

section \<open>The cost-spike webhook (\<^verbatim>\<open>spike_handler.go\<close>)\<close>

record SpikeEnvelope =
  sp_Tenant :: string
  sp_WorkloadID :: string
  sp_ObservedDeltaUSD :: f64
  sp_ObservedAtUTC :: instant
  sp_LikelyPRCommitSHA :: string
  sp_LikelyPRURL :: string

datatype spike_event = Dispatched TenantContext SpikeEnvelope

text \<open>The answer's body is the fixed acknowledgement. The dispatcher returns whether it failed.\<close>

datatype spike_body = SpikeAccepted

definition Spike_Receive ::
  "(TenantContext \<Rightarrow> SpikeEnvelope \<Rightarrow> bool) option \<Rightarrow> (string \<Rightarrow> SpikeEnvelope json_result) \<Rightarrow> Request \<Rightarrow>
   spike_event list \<times> spike_body Response" where
  "Spike_Receive dispatcher decode r =
     (if rq_Method r \<noteq> ''POST'' then ([], MethodNotAllowed r ''POST'')
      else case dispatcher of
             None \<Rightarrow> ([], Internal r ''cost-spike dispatcher not configured'')
           | Some dispatch \<Rightarrow>
               (case DecodeCapped decode BillingSpikeWebhookMaxBytes (rq_Body r) of
                  CappedTooLarge \<Rightarrow> ([], BodyTooLarge r BillingSpikeWebhookMaxBytes)
                | CappedInvalid e \<Rightarrow> ([], InvalidJSON r e)
                | CappedOk env \<Rightarrow>
                    if sp_Tenant env = [] then ([], MissingField r ''tenant'')
                    else if sp_WorkloadID env = [] then ([], MissingField r ''workload_id'')
                    else
                      let t = \<lparr>tc_TenantID = sp_Tenant env, tc_WorkspaceID = [], tc_ClusterID = [], tc_Namespace = []\<rparr>
                      in ([Dispatched t env],
                          if dispatch t env then Upstream r ''could not dispatch cost-spike workflow''
                          else set_header ''Retry-After'' ''5'' (json_response 202 SpikeAccepted))))"

section \<open>Properties\<close>

lemma TotalUSDCents_sum:
  "TotalUSDCents r =
     wrap64 (sum_list (map li_TotalUSDCents
       (filter (\<lambda>it. li_Currency it = [] \<or> li_Currency it = ''USD'') (br_Items r))))"
proof -
  have "foldl (\<lambda>sum it. if li_Currency it \<noteq> [] \<and> li_Currency it \<noteq> ''USD'' then sum
                     else wrap64 (sum + li_TotalUSDCents it)) (wrap64 a) its =
     wrap64 (a + sum_list (map li_TotalUSDCents
       (filter (\<lambda>it. li_Currency it = [] \<or> li_Currency it = ''USD'') its)))" for a its
    by (induction its arbitrary: a) (auto simp: add.assoc)
  from this[of 0 "br_Items r"] show ?thesis by (simp add: TotalUSDCents_def wrap64_def)
qed

text \<open>
  Registering cost sources: whatever the order, the names come out sorted and each registered source
  is found under its name; a second source of the same name, or one without a name, is refused.
\<close>

lemma billing_boot:
  "(case billing.register_all [] ss of
      None \<Rightarrow> \<not> distinct (map bs_Name ss) \<or> [] \<in> set (map bs_Name ss)
    | Some r \<Rightarrow> Billing_Names r = sort (map bs_Name ss) \<and> distinct (map bs_Name ss) \<and>
        {s \<in> set ss. Billing_Lookup r (bs_Name s) \<noteq> Some s} = {})"
proof (cases "billing.register_all [] ss")
  case None
  then show ?thesis using billing.register_all_None[of "[]" ss] by (auto simp: Billing_Names_def swap_sort_eq)
next
  case (Some r)
  have r: "distinct (map fst r)" "distinct (map bs_Name ss)" "set (Billing_Names r) = bs_Name ` set ss"
    "{s \<in> set ss. Billing_Lookup r (bs_Name s) \<noteq> Some s} = {}"
    using billing.register_all_names[OF _ Some] by (auto simp: Billing_Names_def swap_sort_eq)
  have "Billing_Names r = sort (map bs_Name ss)"
    by (rule sorted_distinct_set_unique)
      (use r in \<open>auto simp: billing.names_sorted billing.names_distinct\<close>)
  with r Some show ?thesis by simp
qed

end
