(* ===== verification/Vcs.thy ===== *)
theory Vcs
  imports Registry Http Go_Date
begin

text \<open>
  \<^verbatim>\<open>backend/internal/vcs\<close>: the registry of source-control providers (\<^verbatim>\<open>vcs.go\<close>) and the GitHub source
  (\<^verbatim>\<open>github.go\<close>), whose webhook check is complete and whose two write operations are stubs. HMAC-SHA256
  is a parameter.
\<close>

type_synonym Provider = string

definition ProviderGitHub :: Provider where "ProviderGitHub = ''github''"

record Repo =
  rp_Provider :: Provider
  rp_Owner :: string
  rp_Name :: string

definition Repo_String :: "Repo \<Rightarrow> string" where
  "Repo_String r = rp_Provider r @ '':'' @ rp_Owner r @ ''/'' @ rp_Name r"

record VCS_PullRequest =
  pq_Repo :: Repo
  pq_Number :: i64
  pq_URL :: string
  pq_Title :: string
  pq_BaseBranch :: string
  pq_HeadBranch :: string
  pq_Author :: string
  pq_State :: string

record VCS_Comment =
  vc_ID :: string
  vc_Body :: string

record OpenPRRequest =
  op_Repo :: Repo
  op_BaseBranch :: string
  op_HeadBranch :: string
  op_Title :: string
  op_Body :: string
  op_FilePatches :: "(string \<times> string) list"
  op_Labels :: "string list"

datatype vcs_error = VCSNotImplemented | ErrInvalidSignature | ProviderNotRegistered Provider

record VCS_Source =
  vs_Provider :: Provider
  vs_VerifyWebhook :: "string \<Rightarrow> string \<Rightarrow> string \<Rightarrow> vcs_error option"
  vs_PostComment :: "VCS_PullRequest \<Rightarrow> VCS_Comment \<Rightarrow> vcs_error + VCS_Comment"
  vs_OpenPR :: "OpenPRRequest \<Rightarrow> vcs_error + VCS_PullRequest"

section \<open>The registry\<close>

type_synonym VCS_Registry = "(Provider \<times> VCS_Source) list"

definition VCS_Register :: "VCS_Registry \<Rightarrow> VCS_Source \<Rightarrow> VCS_Registry option" where
  "VCS_Register r s =
     (if vs_Provider s = [] then None
      else if map_of r (vs_Provider s) \<noteq> None then None
      else Some (AList.update (vs_Provider s) s r))"

definition VCS_Lookup :: "VCS_Registry \<Rightarrow> Provider \<Rightarrow> vcs_error + VCS_Source" where
  "VCS_Lookup r p = (case map_of r p of None \<Rightarrow> Inl (ProviderNotRegistered p) | Some s \<Rightarrow> Inr s)"

definition Providers :: "VCS_Registry \<Rightarrow> Provider list" where
  "Providers r = swap_sort (map fst r)"

lemma VCS_Lookup_map_of: "(case VCS_Lookup r p of Inl _ \<Rightarrow> None | Inr s \<Rightarrow> Some s) = map_of r p"
  by (simp add: VCS_Lookup_def split: option.splits)

interpretation vcs: name_registry VCS_Register
    "\<lambda>r p. case VCS_Lookup r p of Inl _ \<Rightarrow> None | Inr s \<Rightarrow> Some s" Providers vs_Provider
    "\<lambda>r. distinct (map fst r)"
  unfolding VCS_Lookup_map_of
  by unfold_locales
    (auto simp: VCS_Register_def Providers_def swap_sort_eq AList.update_conv'
      distinct_update map_of_eq_None_iff split: if_splits)

section \<open>GitHub (\<^verbatim>\<open>github.go\<close>)\<close>

text \<open>\<open>hex.DecodeString\<close>: either case, an even number of digits.\<close>

definition hex_val :: "char \<Rightarrow> nat option" where
  "hex_val c =
     (if CHR ''0'' \<le> c \<and> c \<le> CHR ''9'' then Some (of_char c - 48)
      else if CHR ''a'' \<le> c \<and> c \<le> CHR ''f'' then Some (of_char c - 87)
      else if CHR ''A'' \<le> c \<and> c \<le> CHR ''F'' then Some (of_char c - 55)
      else None)"

fun hex_decode :: "string \<Rightarrow> string option" where
  "hex_decode [] = Some []"
| "hex_decode [c] = None"
| "hex_decode (a # b # s) =
     (case hex_val a of
        None \<Rightarrow> None
      | Some x \<Rightarrow>
          (case hex_val b of
             None \<Rightarrow> None
           | Some y \<Rightarrow> map_option ((#) (char_of (16 * x + y))) (hex_decode s)))"

definition hex_digit :: "nat \<Rightarrow> char" where
  "hex_digit n = (if n < 10 then char_of (48 + n) else char_of (87 + n))"

definition hex_encode :: "string \<Rightarrow> string" where
  "hex_encode s = concat (map (\<lambda>c. [hex_digit (of_char c div 16), hex_digit (of_char c mod 16)]) s)"

definition VerifyWebhook ::
  "(string \<Rightarrow> string \<Rightarrow> string) \<Rightarrow> string \<Rightarrow> string \<Rightarrow> string \<Rightarrow> vcs_error option" where
  "VerifyWebhook hmac secret signatureHeader body =
     (if take (length ''sha256='') signatureHeader \<noteq> ''sha256='' then Some ErrInvalidSignature
      else case hex_decode (trim_prefix signatureHeader ''sha256='') of
             None \<Rightarrow> Some ErrInvalidSignature
           | Some got \<Rightarrow> if got \<noteq> hmac secret body then Some ErrInvalidSignature else None)"

definition GitHub :: "(string \<Rightarrow> string \<Rightarrow> string) \<Rightarrow> VCS_Source" where
  "GitHub hmac =
     \<lparr>vs_Provider = ProviderGitHub, vs_VerifyWebhook = VerifyWebhook hmac,
      vs_PostComment = (\<lambda>_ _. Inl VCSNotImplemented), vs_OpenPR = (\<lambda>_. Inl VCSNotImplemented)\<rparr>"

section \<open>Properties\<close>

lemma hex_table:
  "list_all (\<lambda>n. hex_val (hex_digit n) = Some n) [0..<16]"
  by code_simp

lemma hex_val_digit [simp]: "n < 16 \<Longrightarrow> hex_val (hex_digit n) = Some n"
  using hex_table by (simp add: list_all_iff)

lemma hex_roundtrip [simp]: "hex_decode (hex_encode s) = Some s"
proof (induction s)
  case (Cons c s)
  have "(of_char c :: nat) < 256" using of_char_mod_256[of c] mod_less_divisor[of 256 "of_char c"] by simp
  then have "(of_char c :: nat) div 16 < 16" by (simp add: less_mult_imp_div_less)
  moreover have "16 * (of_char c div 16) + of_char c mod 16 = (of_char c :: nat)" by simp
  ultimately show ?case using Cons by (simp add: hex_encode_def)
qed (simp add: hex_encode_def)

text \<open>A header is accepted exactly when it is \<open>sha256=\<close> and a hexadecimal spelling of the body's MAC.\<close>

lemma VerifyWebhook_iff:
  "VerifyWebhook hmac secret hdr body = None \<longleftrightarrow>
     (\<exists>h. hdr = ''sha256='' @ h \<and> hex_decode h = Some (hmac secret body))"
proof -
  have split: "hdr = ''sha256='' @ h \<longleftrightarrow>
      take (length ''sha256='') hdr = ''sha256='' \<and> drop (length ''sha256='') hdr = h" for h
    by (metis append_eq_conv_conj)
  show ?thesis unfolding split VerifyWebhook_def trim_prefix_def
    by (simp split: option.splits)
qed

end
