(* ===== verification/Middleware.thy ===== *)
theory Middleware
  imports Http
begin

text \<open>
  The middleware of \<^verbatim>\<open>cmd/api/main.go\<close>. A handler maps a request to the events it causes and an
  outcome: a response, or a panic before anything was written. The events of the stack itself are the
  access-log line, the request counter and the panic report; \<open>Domain\<close> carries those of the handlers.
\<close>

datatype log_level = LevelDebug | LevelInfo | LevelWarn | LevelError

datatype 'b outcome = Responded "'b Response" | Panicked

datatype 'e api_event =
  Domain 'e
| AccessLogged log_level string string int
| RequestCounted
| PanicReported string string

type_synonym ('e, 'b) handler = "Request \<Rightarrow> 'e api_event list \<times> 'b outcome"

section \<open>Tenant scope\<close>

definition requireTenant :: "TenantExtractor \<Rightarrow> ('e, 'b) handler \<Rightarrow> ('e, 'b) handler" where
  "requireTenant extract next r =
     (case extract r of
        None \<Rightarrow> ([], Responded (Unauthorized r
          (''tenant required '' @ em_dash @ '' set X-Optiqor-Tenant header or attach a session JWT'')))
      | Some t \<Rightarrow>
          if \<not> Tenant_Validate t
          then ([], Responded (WriteWithDetails r 401 CodeUnauthorized
                  ''invalid tenant context: tenancy: no tenant in context''
                  [(''hint'', DStr ''tenant id must be a non-empty UUID'')]))
          else next (r\<lparr>rq_Tenant := WithContext (rq_Tenant r) t\<rparr>))"

section \<open>Request id, panic recovery, access log\<close>

text \<open>\<open>newID\<close> is the id \<open>newRequestID\<close> draws; it is never empty.\<close>

definition withRequestID :: "string \<Rightarrow> ('e, 'b) handler \<Rightarrow> ('e, 'b) handler" where
  "withRequestID newID next r =
     (let rid = (if rq_Header r ''X-Request-ID'' = [] then newID else rq_Header r ''X-Request-ID'')
      in case next (r\<lparr>rq_RequestID := (if rid = [] then rq_RequestID r else rid)\<rparr>) of
           (es, Responded resp) \<Rightarrow>
             (es, Responded (if map_of (rs_Header resp) ''X-Request-ID'' = None
                             then set_header ''X-Request-ID'' rid resp else resp))
         | (es, Panicked) \<Rightarrow> (es, Panicked))"

definition withPanicRecovery :: "('e, 'b) handler \<Rightarrow> ('e, 'b) handler" where
  "withPanicRecovery next r =
     (case next r of
        (es, Responded resp) \<Rightarrow> (es, Responded resp)
      | (es, Panicked) \<Rightarrow> (es @ [PanicReported (rq_Path r) (rq_Method r)], Responded (Internal r [])))"

definition access_level :: "int \<Rightarrow> duration \<Rightarrow> log_level" where
  "access_level status dur =
     (if status \<ge> 500 then LevelError
      else if status \<ge> 400 then LevelWarn
      else if dur < 200 * 1000000 then LevelDebug
      else LevelInfo)"

text \<open>\<open>dur\<close> is the time the handler took.\<close>

definition withAccessLog :: "duration \<Rightarrow> ('e, 'b) handler \<Rightarrow> ('e, 'b) handler" where
  "withAccessLog dur next r =
     (case next r of
        (es, Responded resp) \<Rightarrow>
          (es @ [AccessLogged (access_level (rs_Status resp) dur) (rq_Method r) (rq_Path r) (rs_Status resp),
                 RequestCounted],
           Responded resp)
      | (es, Panicked) \<Rightarrow> (es, Panicked))"

text \<open>The order \<open>run\<close> wraps the mux in.\<close>

definition api_handler :: "string \<Rightarrow> duration \<Rightarrow> ('e, 'b) handler \<Rightarrow> ('e, 'b) handler" where
  "api_handler newID dur mux = withRequestID newID (withPanicRecovery (withAccessLog dur mux))"

text \<open>The order the comment on \<open>withPanicRecovery\<close> describes.\<close>

definition api_handler_as_documented :: "string \<Rightarrow> duration \<Rightarrow> ('e, 'b) handler \<Rightarrow> ('e, 'b) handler" where
  "api_handler_as_documented newID dur mux =
     withRequestID newID (withAccessLog dur (withPanicRecovery mux))"

section \<open>The admin gate of the profiler\<close>

definition subtleConstantTimeEq :: "string \<Rightarrow> string \<Rightarrow> i64" where
  "subtleConstantTimeEq a b = (if length a \<noteq> length b then 0 else if a = b then 1 else 0)"

definition requireAdmin :: "string \<Rightarrow> ('e, 'b) handler \<Rightarrow> ('e, 'b) handler" where
  "requireAdmin token h r =
     (if subtleConstantTimeEq (rq_Header r ''X-Admin-Token'') token \<noteq> 1
      then ([], Responded (Unauthorized r ''X-Admin-Token header missing or invalid''))
      else h r)"

section \<open>Properties\<close>

lemma requireAdmin_iff:
  "requireAdmin token h r =
     (if rq_Header r ''X-Admin-Token'' = token then h r
      else ([], Responded (Unauthorized r ''X-Admin-Token header missing or invalid'')))"
  by (auto simp: requireAdmin_def subtleConstantTimeEq_def)

lemma requireTenant_None:
  "extract r = None \<Longrightarrow> \<exists>resp. requireTenant extract next r = ([], Responded resp) \<and> is_error 401 resp"
  by (simp add: requireTenant_def)

lemma tenantIDFromCert_Inr:
  "tenantIDFromCert us = Inr tid \<Longrightarrow> \<exists>u \<in> set us. tenantIDFromURI u = Inr tid"
  by (induction us) (auto split: sum.splits)

lemma tenantIDFromURI_Inr:
  "tenantIDFromURI u = Inr tid \<longleftrightarrow>
     u_Scheme u = ''spiffe'' \<and> map lower (u_Host u) = Trust \<and> u_Path u = URIPrefix @ tid \<and>
     tid \<noteq> [] \<and> CHR ''/'' \<notin> set tid"
proof -
  have "take (length URIPrefix) p = URIPrefix \<and> drop (length URIPrefix) p = tid \<longleftrightarrow> p = URIPrefix @ tid" for p
    by (metis append_take_drop_id append_eq_conv_conj)
  then show ?thesis by (auto simp: tenantIDFromURI_def Let_def)
qed

lemma ExtractTenant_Inr:
  assumes "ExtractTenant r = Inr t"
  obtains u where "rq_PeerCertificates r \<noteq> []" "u \<in> set (hd (rq_PeerCertificates r))"
    "tenantIDFromURI u = Inr (tc_TenantID t)" "rq_TLS r"
proof -
  from assms have "rq_TLS r" "rq_PeerCertificates r \<noteq> []"
    "tenantIDFromCert (hd (rq_PeerCertificates r)) = Inr (tc_TenantID t)"
    by (auto simp: ExtractTenant_def split: if_splits sum.splits)
  with that tenantIDFromCert_Inr show ?thesis by blast
qed

text \<open>
  C27. In production the agent route takes its tenant from the verified client certificate only: if the
  wrapped handler has any effect or gives an answer other than 401, the request came over TLS with a
  certificate, one of whose first certificate's URIs is a SPIFFE id of the trust domain with the tenant
  as the one segment after \<open>/tenant/\<close>, and the handler ran with exactly that tenant and nothing else
  in its context. No header can change it. The server of \<^verbatim>\<open>main.go\<close> listens without TLS, so that as it
  is wired the route answers every request in production with 401.
\<close>

theorem prod_agent_tenant_from_certificate:
  assumes "requireTenant (MTLSTenantExtractor Config_EnvProd) next r = (es, out)"
    and "es \<noteq> [] \<or> out = Panicked \<or> (\<exists>resp. out = Responded resp \<and> rs_Status resp \<noteq> 401)"
  shows "\<exists>cert rest u tid. rq_TLS r \<and> rq_PeerCertificates r = cert # rest \<and> u \<in> set cert \<and> u_Scheme u = ''spiffe'' \<and>
    map lower (u_Host u) = ''optiqor.dev'' \<and> u_Path u = ''/tenant/'' @ tid \<and> tid \<noteq> [] \<and>
    CHR ''/'' \<notin> set tid \<and>
    (es, out) = next (r\<lparr>rq_Tenant :=
      Some \<lparr>tc_TenantID = tid, tc_WorkspaceID = [], tc_ClusterID = [], tc_Namespace = []\<rparr>\<rparr>)"
proof -
  have "ExtractTenant r \<noteq> Inl e" for e
  proof
    assume "ExtractTenant r = Inl e"
    then have "MTLSTenantExtractor Config_EnvProd r = None" by (simp add: MTLSTenantExtractor_def)
    with requireTenant_None[of "MTLSTenantExtractor Config_EnvProd" r "next"] assms show False
      by (auto simp: is_error_def)
  qed
  then obtain t where t: "ExtractTenant r = Inr t" by (metis obj_sumE)
  then obtain u where u: "rq_PeerCertificates r \<noteq> []" "u \<in> set (hd (rq_PeerCertificates r))"
    "tenantIDFromURI u = Inr (tc_TenantID t)" "rq_TLS r" by (rule ExtractTenant_Inr)
  obtain cert rest where cert: "rq_PeerCertificates r = cert # rest" using u(1) by (cases "rq_PeerCertificates r") auto
  have bare: "t = \<lparr>tc_TenantID = tc_TenantID t, tc_WorkspaceID = [], tc_ClusterID = [], tc_Namespace = []\<rparr>"
    using t by (auto simp: ExtractTenant_def split: if_splits sum.splits)
  from u(3) have "Tenant_Validate t" by (simp add: tenantIDFromURI_Inr Tenant_Validate_def)
  with t assms(1) have "(es, out) = next (r\<lparr>rq_Tenant := Some t\<rparr>)"
    by (simp add: requireTenant_def MTLSTenantExtractor_def WithContext_def)
  with u cert bare show ?thesis unfolding tenantIDFromURI_Inr Trust_def URIPrefix_def
    by (intro exI[of _ cert] exI[of _ rest] exI[of _ u] exI[of _ "tc_TenantID t"]) simp
qed

lemma plain_request_refused:
  assumes "\<not> rq_TLS r" "rq_Header r ''X-Optiqor-Tenant'' = []"
  shows "\<exists>resp. requireTenant (MTLSTenantExtractor env) next r = ([], Responded resp) \<and> is_error 401 resp"
  using assms by (intro requireTenant_None) (simp add: MTLSTenantExtractor_def ExtractTenant_def HeaderTenantExtractor_def)

lemma plain_request_refused_prod:
  "\<not> rq_TLS r \<Longrightarrow> \<exists>resp. requireTenant (MTLSTenantExtractor Config_EnvProd) next r = ([], Responded resp) \<and> is_error 401 resp"
  by (intro requireTenant_None) (simp add: MTLSTenantExtractor_def ExtractTenant_def)

definition sample_request :: Request where
  "sample_request =
     \<lparr>rq_Method = ''POST'', rq_Path = ''/v1/agent/snapshot'', rq_Host = ''api'', rq_PathValue = (\<lambda>_. []),
      rq_Header = (\<lambda>h. if h = ''X-Optiqor-Tenant'' then ''other'' else []), rq_Query = (\<lambda>_. []),
      rq_Cookie = (\<lambda>_. None), rq_TLS = True,
      rq_PeerCertificates = [[\<lparr>u_Scheme = ''spiffe'', u_Host = ''optiqor.dev'', u_Path = ''/tenant/t1''\<rparr>]],
      rq_Body = [], rq_Tenant = None, rq_RequestID = []\<rparr>"

lemma prod_agent_tenant_from_certificate_witness:
  "\<exists>u \<in> set (hd (rq_PeerCertificates sample_request)). u_Scheme u = ''spiffe''"
proof -
  let ?echo = "(\<lambda>r. ([], Responded (json_response 202 (rq_Tenant r)))) :: (unit, TenantContext option) handler"
  have "requireTenant (MTLSTenantExtractor Config_EnvProd) ?echo sample_request =
    ([], Responded (json_response 202 (Some \<lparr>tc_TenantID = ''t1'', tc_WorkspaceID = [], tc_ClusterID = [],
       tc_Namespace = []\<rparr>)))"
    by (simp add: requireTenant_def MTLSTenantExtractor_def ExtractTenant_def tenantIDFromURI_def
        sample_request_def Trust_def URIPrefix_def lower_def Tenant_Validate_def WithContext_def Let_def)
  from prod_agent_tenant_from_certificate[OF this] show ?thesis
    by (auto simp: json_response_def)
qed

lemma withAccessLog_Panicked: "mux r = (es, Panicked) \<Longrightarrow> withAccessLog dur mux r = (es, Panicked)"
  by (simp add: withAccessLog_def)

lemma api_handler_cases:
  "\<exists>es resp. api_handler newID dur mux r = (es, Responded resp)"
  by (auto simp: api_handler_def withRequestID_def withPanicRecovery_def Let_def
      split: prod.splits outcome.splits)

definition request_id :: "string \<Rightarrow> Request \<Rightarrow> string" where
  "request_id newID r =
     (if rq_Header r ''X-Request-ID'' = [] then newID else rq_Header r ''X-Request-ID'')"

text \<open>
  A panicking handler: the stack always answers, the answer is the 500 envelope with the request's
  id, in the body and as a header, and the panic is reported. But the access log wraps the mux inside
  the recovery, not outside as its comment says: the panic passes through it, so neither the access-log
  line nor the request counter sees the 500. In the documented order both would.
\<close>

lemma panic_skips_access_log:
  assumes "mux (r\<lparr>rq_RequestID := request_id newID r\<rparr>) = (es, Panicked)" and "newID \<noteq> []"
  defines "rid \<equiv> request_id newID r"
  defines "answer \<equiv> set_header ''X-Request-ID'' rid (Internal (r\<lparr>rq_RequestID := rid\<rparr>) [])"
  shows "api_handler newID dur mux r =
      (es @ [PanicReported (rq_Path r) (rq_Method r)], Responded answer) \<and>
    api_handler_as_documented newID dur mux r =
      (es @ [PanicReported (rq_Path r) (rq_Method r),
             AccessLogged LevelError (rq_Method r) (rq_Path r) 500, RequestCounted], Responded answer) \<and>
    is_error 500 answer"
proof -
  have "rid \<noteq> []" using assms(2) by (simp add: rid_def request_id_def)
  then show ?thesis using assms(1)
    by (simp add: api_handler_def api_handler_as_documented_def withRequestID_def withPanicRecovery_def
        withAccessLog_def Let_def rid_def answer_def request_id_def access_level_def
        Internal_def Http_Write_def WriteWithDetails_def set_header_def is_error_def
        cong: if_cong)
qed

lemma panic_skips_access_log_witness:
  "\<exists>resp. api_handler ''abc'' 0 (\<lambda>r. ([], Panicked)) sample_request =
     ([PanicReported ''/v1/agent/snapshot'' ''POST''] :: unit api_event list, Responded (resp :: unit Response))"
  using panic_skips_access_log[where mux = "(\<lambda>r. ([], Panicked)) :: (unit, unit) handler" and r = sample_request and newID = "''abc''"
      and es = "[]" and dur = 0]
  by (auto simp: sample_request_def)

end
