(* ===== verification/Attribution.thy ===== *)
theory Attribution
  imports Vcs Middleware
begin

text \<open>
  From a GitHub webhook to the record of a merged fix: the route and its dispatch (\<^verbatim>\<open>cmd/api/main.go\<close>),
  the parser of the event (\<^verbatim>\<open>applyfix/attribution/event.go\<close>), the handler of a merge
  (\<^verbatim>\<open>attribution.go\<close>) and its poster (\<^verbatim>\<open>poster_vcs.go\<close>). The JSON decoder, the tenant resolver and the
  store are parameters.
\<close>

record MergedEvent =
  mg_Provider :: string
  mg_InstallationID :: i64
  mg_RepoOwner :: string
  mg_RepoName :: string
  mg_PRNumber :: i64
  mg_MergedAt :: instant

record Attribution_Row =
  aw_ID :: string
  aw_TenantID :: string
  aw_PRURL :: string
  aw_Workload :: string
  aw_Title :: string
  aw_MonthlySavingsUSDCents :: i64

section \<open>The event\<close>

text \<open>The fields the parser's anonymous struct reads.\<close>

record github_payload =
  gp_Action :: string
  gp_Number :: i64
  gp_Merged :: bool
  gp_MergedAt :: instant
  gp_RepoName :: string
  gp_OwnerLogin :: string
  gp_InstallationID :: i64

datatype attribution_error =
  AttrParse | ErrNotMerged | MissingRepoFields | ErrNilDependency | IncompleteEvent
| ResolveTenant string | BadTenant | AttrLookup string | AttrPost vcs_error | AttrMark string

definition ParseGitHub :: "(string \<Rightarrow> github_payload option) \<Rightarrow> string \<Rightarrow> attribution_error + MergedEvent" where
  "ParseGitHub unmarshal body =
     (case unmarshal body of
        None \<Rightarrow> Inl AttrParse
      | Some p \<Rightarrow>
          if gp_Action p \<noteq> ''closed'' \<or> \<not> gp_Merged p then Inl ErrNotMerged
          else if gp_OwnerLogin p = [] \<or> gp_RepoName p = [] \<or> gp_Number p = 0 then Inl MissingRepoFields
          else Inr \<lparr>mg_Provider = ''github'', mg_InstallationID = gp_InstallationID p, mg_RepoOwner = gp_OwnerLogin p,
                    mg_RepoName = gp_RepoName p, mg_PRNumber = gp_Number p, mg_MergedAt = gp_MergedAt p\<rparr>)"

section \<open>The comment\<close>

definition attr_fmtUSD :: "i64 \<Rightarrow> string" where
  "attr_fmtUSD cents =
     (if cents = 0 then ''$0''
      else let d = cents sdiv 100; c = cents smod 100
           in if c = 0 then ''$'' @ show_int d else ''$'' @ show_int d @ ''.'' @ pad2 c)"

definition nl :: string where "nl = [CHR 0x0A]"

definition middot :: string where "middot = [CHR 0xC2, CHR 0xB7]"

definition FormatComment :: "Attribution_Row \<Rightarrow> instant \<Rightarrow> string" where
  "FormatComment r mergedAt =
     ''## Apply Fix merged'' @ nl @ nl @
     (if aw_MonthlySavingsUSDCents r > 0
      then ''Expected savings: **'' @ attr_fmtUSD (aw_MonthlySavingsUSDCents r) @ '' / month** '' @ middot @ '' ~'' @
           attr_fmtUSD (wrap64 (aw_MonthlySavingsUSDCents r * 12)) @ '' / year.'' @ nl @ nl
      else ''Expected savings: pending Receipt issuance.'' @ nl @ nl) @
     (if aw_Workload r \<noteq> [] then ''Workload: '' @ [CHR 0x60] @ aw_Workload r @ [CHR 0x60] @ nl else []) @
     (if aw_Title r \<noteq> [] then ''Finding: '' @ aw_Title r @ nl else []) @
     ''Merged at: '' @ format_rfc3339 mergedAt @ nl @ nl @
     ''A signed Receipt comparing predicted vs realised savings against your AWS bill arrives 30 days from merge. '' @
     ''If post-merge metrics breach the 7-day baseline, the Auto-Rollback watchdog opens a revert PR.'' @ nl @ nl @
     ''<sub>optiqor.dev '' @ em_dash @ '' cost attribution follow-up</sub>'' @ nl"

section \<open>The merge\<close>

record Attribution_Handler =
  at_Resolver :: "(string \<Rightarrow> i64 \<Rightarrow> string + string) option"
  at_Lookup :: "(TenantContext \<Rightarrow> string \<Rightarrow> i64 \<Rightarrow> string + Attribution_Row) option"
  at_MarkMerged :: "TenantContext \<Rightarrow> string \<Rightarrow> instant \<Rightarrow> string option"
  at_Poster :: "(TenantContext \<Rightarrow> string \<Rightarrow> string \<Rightarrow> i64 \<Rightarrow> string \<Rightarrow> vcs_error option) option"

datatype attribution_event =
  Resolved string i64
| LookedUp TenantContext string i64
| Posted TenantContext string string i64 string "vcs_error option"
| Marked TenantContext string instant

text \<open>
  The calls made, in order, and the error; a call to the poster is recorded with the error it returned,
  \<open>None\<close> when the comment was posted. \<open>now\<close> is used when the event has no merge time.
\<close>

definition OnMerged ::
  "Attribution_Handler \<Rightarrow> instant \<Rightarrow> MergedEvent \<Rightarrow> attribution_event list \<times> attribution_error option" where
  "OnMerged h now ev =
     (case (at_Resolver h, at_Lookup h, at_Poster h) of
        (Some resolve, Some look, Some post) \<Rightarrow>
          if mg_PRNumber ev \<le> 0 \<or> mg_RepoOwner ev = [] \<or> mg_RepoName ev = [] then ([], Some IncompleteEvent)
          else
            let e1 = Resolved (mg_Provider ev) (mg_InstallationID ev)
            in case resolve (mg_Provider ev) (mg_InstallationID ev) of
                 Inl err \<Rightarrow> ([e1], Some (ResolveTenant err))
               | Inr tenantID \<Rightarrow>
                   let t = \<lparr>tc_TenantID = tenantID, tc_WorkspaceID = [], tc_ClusterID = [], tc_Namespace = []\<rparr>
                   in if \<not> Tenant_Validate t then ([e1], Some BadTenant)
                      else
                        let repo = mg_RepoOwner ev @ ''/'' @ mg_RepoName ev;
                            e2 = LookedUp t repo (mg_PRNumber ev)
                        in case look t repo (mg_PRNumber ev) of
                             Inl err \<Rightarrow> ([e1, e2], Some (AttrLookup err))
                           | Inr row \<Rightarrow>
                               let mergedAt = (if mg_MergedAt ev = 0 then now else mg_MergedAt ev);
                                   body = FormatComment row mergedAt;
                                   posted = post t (mg_RepoOwner ev) (mg_RepoName ev) (mg_PRNumber ev) body;
                                   e3 = Posted t (mg_RepoOwner ev) (mg_RepoName ev) (mg_PRNumber ev) body posted
                               in case posted of
                                    Some err \<Rightarrow> ([e1, e2, e3], Some (AttrPost err))
                                  | None \<Rightarrow>
                                      (case at_MarkMerged h t (aw_ID row) mergedAt of
                                         Some err \<Rightarrow>
                                           ([e1, e2, e3, Marked t (aw_ID row) mergedAt], Some (AttrMark err))
                                       | None \<Rightarrow> ([e1, e2, e3, Marked t (aw_ID row) mergedAt], None))
      | _ \<Rightarrow> ([], Some ErrNilDependency))"

text \<open>\<^verbatim>\<open>poster_vcs.go\<close>\<close>

definition VCSPoster_Post ::
  "VCS_Source \<Rightarrow> TenantContext \<Rightarrow> string \<Rightarrow> string \<Rightarrow> i64 \<Rightarrow> string \<Rightarrow> vcs_error option" where
  "VCSPoster_Post source t owner nm prNumber body =
     (let pr = \<lparr>pq_Repo = \<lparr>rp_Provider = vs_Provider source, rp_Owner = owner, rp_Name = nm\<rparr>,
                pq_Number = prNumber, pq_URL = [], pq_Title = [], pq_BaseBranch = [], pq_HeadBranch = [],
                pq_Author = [], pq_State = []\<rparr>
      in case vs_PostComment source pr \<lparr>vc_ID = [], vc_Body = body\<rparr> of Inl e \<Rightarrow> Some e | Inr _ \<Rightarrow> None)"

section \<open>The webhook route (\<^verbatim>\<open>cmd/api/main.go\<close>)\<close>

text \<open>Errors of the dispatch are logged and dropped.\<close>

definition dispatchGitHubEvent ::
  "(string \<Rightarrow> github_payload option) \<Rightarrow> Attribution_Handler option \<Rightarrow> instant \<Rightarrow> string \<Rightarrow> string \<Rightarrow>
   attribution_event list" where
  "dispatchGitHubEvent unmarshal attribution now event body =
     (if event \<noteq> ''pull_request'' then []
      else case attribution of
             None \<Rightarrow> []
           | Some h \<Rightarrow>
               (case ParseGitHub unmarshal body of
                  Inl _ \<Rightarrow> []
                | Inr ev \<Rightarrow> fst (OnMerged h now ev)))"

record webhook_ack =
  wa_Event :: string
  wa_Delivery :: string

definition webhooks_github ::
  "(string \<Rightarrow> string \<Rightarrow> string) \<Rightarrow> (string \<Rightarrow> github_payload option) \<Rightarrow> string \<Rightarrow> Attribution_Handler option \<Rightarrow>
   instant \<Rightarrow> Request \<Rightarrow> attribution_event list \<times> webhook_ack Response" where
  "webhooks_github hmac unmarshal webhookSecret attribution now r =
     (case ReadAllCapped GitHubWebhookMaxBytes (rq_Body r) of
        None \<Rightarrow> ([], BodyTooLarge r GitHubWebhookMaxBytes)
      | Some body \<Rightarrow>
          if webhookSecret \<noteq> [] \<and>
             VerifyWebhook hmac webhookSecret (rq_Header r ''X-Hub-Signature-256'') body \<noteq> None
          then ([], Unauthorized r ''invalid webhook signature'')
          else
            let event = rq_Header r ''X-GitHub-Event''
            in (dispatchGitHubEvent unmarshal attribution now event body,
                set_header ''Retry-After'' ''5''
                  (json_response 202 \<lparr>wa_Event = event, wa_Delivery = rq_Header r ''X-GitHub-Delivery''\<rparr>)))"

text \<open>The handler production builds around the GitHub source (\<^verbatim>\<open>cmd/api/routes.go\<close>).\<close>

definition buildAttributionHandler ::
  "(string \<Rightarrow> string \<Rightarrow> string) \<Rightarrow> (string \<Rightarrow> i64 \<Rightarrow> string + string) \<Rightarrow>
   (TenantContext \<Rightarrow> string \<Rightarrow> i64 \<Rightarrow> string + Attribution_Row) \<Rightarrow>
   (TenantContext \<Rightarrow> string \<Rightarrow> instant \<Rightarrow> string option) \<Rightarrow> bool \<Rightarrow> Attribution_Handler option" where
  "buildAttributionHandler hmac resolver look mark pool =
     (if \<not> pool then None
      else Some \<lparr>at_Resolver = Some resolver, at_Lookup = Some look, at_MarkMerged = mark,
                 at_Poster = Some (VCSPoster_Post (GitHub hmac))\<rparr>)"

section \<open>Properties\<close>

fun is_marked :: "attribution_event \<Rightarrow> bool" where
  "is_marked (Marked _ _ _) = True"
| "is_marked _ = False"

text \<open>
  The shape of a run that marks a fix: resolve, look up, post without an error, mark, for one tenant.
\<close>

definition merge_calls :: "MergedEvent \<Rightarrow> TenantContext \<Rightarrow> Attribution_Row \<Rightarrow> instant \<Rightarrow> attribution_event list" where
  "merge_calls ev t row at' =
     [Resolved (mg_Provider ev) (mg_InstallationID ev),
      LookedUp t (mg_RepoOwner ev @ ''/'' @ mg_RepoName ev) (mg_PRNumber ev),
      Posted t (mg_RepoOwner ev) (mg_RepoName ev) (mg_PRNumber ev) (FormatComment row at') None,
      Marked t (aw_ID row) at']"

lemma OnMerged_complete:
  assumes "OnMerged h now ev = (es, err)" and "\<exists>e \<in> set es. is_marked e"
  obtains t row at' post where "es = merge_calls ev t row at'" "tc_TenantID t \<noteq> []" "at_Poster h = Some post"
    "post t (mg_RepoOwner ev) (mg_RepoName ev) (mg_PRNumber ev) (FormatComment row at') = None"
    "at' = (if mg_MergedAt ev = 0 then now else mg_MergedAt ev)"
proof -
  obtain resolve look post where d: "at_Resolver h = Some resolve" "at_Lookup h = Some look" "at_Poster h = Some post"
    using assms by (auto simp: OnMerged_def split: option.splits)
  note m = assms[unfolded OnMerged_def d prod.case option.case Let_def]
  have guard: "\<not> (mg_PRNumber ev \<le> 0 \<or> mg_RepoOwner ev = [] \<or> mg_RepoName ev = [])"
    using m by (auto split: if_splits)
  obtain tenantID where r: "resolve (mg_Provider ev) (mg_InstallationID ev) = Inr tenantID"
    using m guard by (cases "resolve (mg_Provider ev) (mg_InstallationID ev)") auto
  let ?t = "\<lparr>tc_TenantID = tenantID, tc_WorkspaceID = [], tc_ClusterID = [], tc_Namespace = []\<rparr>"
  have v: "Tenant_Validate ?t" using m guard r by (auto split: if_splits)
  obtain row where l: "look ?t (mg_RepoOwner ev @ ''/'' @ mg_RepoName ev) (mg_PRNumber ev) = Inr row"
    using m guard r v by (cases "look ?t (mg_RepoOwner ev @ ''/'' @ mg_RepoName ev) (mg_PRNumber ev)") auto
  let ?at = "if mg_MergedAt ev = 0 then now else mg_MergedAt ev"
  have p: "post ?t (mg_RepoOwner ev) (mg_RepoName ev) (mg_PRNumber ev) (FormatComment row ?at) = None"
    using m guard r v l by (auto split: option.splits)
  have "es = merge_calls ev ?t row ?at"
    using m guard r v l p by (auto simp: merge_calls_def split: option.splits)
  then show thesis using that v d(3) p by (auto simp: Tenant_Validate_def)
qed

lemma OnMerged_marks_after_post:
  assumes "OnMerged h now ev = (es, err)"
  shows "list_all (\<lambda>e. \<not> is_marked e) es \<or> (\<exists>t row. es = merge_calls ev t row (if mg_MergedAt ev = 0 then now else mg_MergedAt ev))"
proof (cases "\<exists>e \<in> set es. is_marked e")
  case True
  obtain t row at' where "es = merge_calls ev t row at'" "at' = (if mg_MergedAt ev = 0 then now else mg_MergedAt ev)"
    by (rule OnMerged_complete[OF assms True])
  then show ?thesis by blast
qed (simp add: list_all_iff)


text \<open>
  As production wires it, no merge is ever recorded: the poster it builds goes through the GitHub
  source, whose comment operation is a stub that always fails, and a failed post ends the run before the
  fix is marked, whatever the resolver, the store and the event are.
\<close>

lemma production_never_marks:
  "list_all (\<lambda>e. \<not> is_marked e)
     (fst (webhooks_github hmac unmarshal secret (buildAttributionHandler hmac resolver look mark pool) now r))"
proof -
  have post: "VCSPoster_Post (GitHub hmac) t a b c d \<noteq> None" for t a b c d
    by (simp add: VCSPoster_Post_def GitHub_def)
  have "list_all (\<lambda>e. \<not> is_marked e) (fst (OnMerged h now ev))"
    if "buildAttributionHandler hmac resolver look mark pool = Some h" for h ev
  proof (rule ccontr)
    assume "\<not> ?thesis"
    then have m: "\<exists>e \<in> set (fst (OnMerged h now ev)). is_marked e" by (simp add: list_all_iff)
    have "at_Poster h = Some (VCSPoster_Post (GitHub hmac))"
      using that by (auto simp: buildAttributionHandler_def split: if_splits)
    moreover obtain t row at' p where "at_Poster h = Some p"
      "p t (mg_RepoOwner ev) (mg_RepoName ev) (mg_PRNumber ev) (FormatComment row at') = None"
      by (rule OnMerged_complete[OF surjective_pairing m])
    ultimately show False using post by simp
  qed
  then show ?thesis
    by (auto simp: webhooks_github_def dispatchGitHubEvent_def Let_def split: option.splits sum.splits if_splits)
qed

section \<open>Concrete instance\<close>

definition sample_payload :: github_payload where
  "sample_payload =
     \<lparr>gp_Action = ''closed'', gp_Number = 7, gp_Merged = True, gp_MergedAt = 5, gp_RepoName = ''shop'',
      gp_OwnerLogin = ''acme'', gp_InstallationID = 3\<rparr>"

definition sample_attribution :: Attribution_Handler where
  "sample_attribution =
     \<lparr>at_Resolver = Some (\<lambda>_ _. Inr ''t1''),
      at_Lookup = Some (\<lambda>_ _ _. Inr \<lparr>aw_ID = ''f1'', aw_TenantID = ''t1'', aw_PRURL = [], aw_Workload = [], aw_Title = [],
        aw_MonthlySavingsUSDCents = 0\<rparr>),
      at_MarkMerged = (\<lambda>_ _ _. None), at_Poster = Some (\<lambda>_ _ _ _ _. None)\<rparr>"

definition sample_webhook :: Request where
  "sample_webhook = sample_request\<lparr>rq_Body := ''{}'', rq_Header := (\<lambda>h.
     if h = ''X-Hub-Signature-256'' then ''sha256='' @ hex_encode ''k{}''
     else if h = ''X-GitHub-Event'' then ''pull_request'' else [])\<rparr>"


end
