(* ===== verification/Worker.thy ===== *)
theory Worker
  imports Registry Tenancy Onboarding Rollback
begin

text \<open>
  \<^verbatim>\<open>backend/internal/worker\<close>: the in-memory dispatcher (\<^verbatim>\<open>dispatcher.go\<close>), one call at a time as functions and
  with concurrent callers as a step relation, and three workflows (\<^verbatim>\<open>workflows/cost_spike.go\<close>,
  \<^verbatim>\<open>onboarding_nudge.go\<close>, \<^verbatim>\<open>rollback_watchdog.go\<close>). Payload decoders, notifiers and the onboarding source
  are parameters.
\<close>

section \<open>Queues\<close>

type_synonym QueueClass = string

definition QueueDefault :: QueueClass where "QueueDefault = ''default''"
definition QueuePriority :: QueueClass where "QueuePriority = ''priority''"

definition SupportedQueues :: "QueueClass list" where
  "SupportedQueues = [QueueDefault, QueuePriority]"

definition QueueName :: "string \<Rightarrow> QueueClass \<Rightarrow> string" where
  "QueueName tenantID cls = ''tenant-'' @ tenantID @ ''-'' @ cls"

fun class_loop :: "QueueClass \<Rightarrow> QueueClass list \<Rightarrow> bool" where
  "class_loop c [] = False"
| "class_loop c (k # ks) = (if c = k then True else class_loop c ks)"

definition validClass :: "QueueClass \<Rightarrow> bool" where
  "validClass c = class_loop c SupportedQueues"

section \<open>The dispatcher\<close>

record 'e Workflow =
  wf_Name :: string
  wf_Execute :: "TenantContext option \<Rightarrow> TenantContext \<Rightarrow> string \<Rightarrow> 'e option"

record 'e InMemory =
  im_workflows :: "(string \<times> 'e Workflow) list"
  im_draining :: bool

datatype 'e worker_error =
  EmptyWorkflow | ErrDuplicateWorkflow string | WorkerErrNoTenant | UnknownQueueClass QueueClass | ErrDraining
| ErrUnknownWorkflow string | WorkflowFailed 'e

definition NewInMemory :: "'e InMemory" where
  "NewInMemory = \<lparr>im_workflows = [], im_draining = False\<rparr>"

definition Worker_Register :: "'e InMemory \<Rightarrow> 'e Workflow \<Rightarrow> 'e worker_error + 'e InMemory" where
  "Worker_Register d w =
     (if wf_Name w = [] then Inl EmptyWorkflow
      else if map_of (im_workflows d) (wf_Name w) \<noteq> None then Inl (ErrDuplicateWorkflow (wf_Name w))
      else Inr (d\<lparr>im_workflows := AList.update (wf_Name w) w (im_workflows d)\<rparr>))"

text \<open>The error, \<open>None\<close> for success; the workflow runs in the scope of the tenant it is given.\<close>

definition Submit ::
  "'e InMemory \<Rightarrow> TenantContext option \<Rightarrow> TenantContext \<Rightarrow> QueueClass \<Rightarrow> string \<Rightarrow> string \<Rightarrow> 'e worker_error option" where
  "Submit d ctx t cls nm payload =
     (if \<not> Tenant_Validate t then Some WorkerErrNoTenant
      else if \<not> validClass cls then Some (UnknownQueueClass cls)
      else if im_draining d then Some ErrDraining
      else case map_of (im_workflows d) nm of
             None \<Rightarrow> Some (ErrUnknownWorkflow nm)
           | Some w \<Rightarrow> map_option WorkflowFailed (wf_Execute w (WithContext ctx t) t payload))"

definition Worker_Workflows :: "'e InMemory \<Rightarrow> string list" where
  "Worker_Workflows d = swap_sort (map fst (im_workflows d))"

interpretation workflows: name_registry
    "\<lambda>d w. case Worker_Register d w of Inl _ \<Rightarrow> None | Inr d' \<Rightarrow> Some d'"
    "\<lambda>d. map_of (im_workflows d)" Worker_Workflows wf_Name "\<lambda>d. distinct (map fst (im_workflows d))"
  by unfold_locales
    (auto simp: Worker_Register_def Worker_Workflows_def swap_sort_eq AList.update_conv'
      distinct_update map_of_eq_None_iff split: if_splits)

section \<open>Submitting while draining\<close>

text \<open>
  \<open>Submit\<close> checks the flag under the read lock, gives the lock back, and only then adds itself to the wait
  group; \<open>Drain\<close> sets the flag and waits for the group to be empty. A thread of \<open>Submit\<close> is before the
  check, between the check and the add, running its workflow, or over; the wait group is a counter.
\<close>

datatype submit_pc = Calling | Checked | Running | Finished | Refused
datatype drain_pc = NotDraining | Waiting | Drained

record drain_state =
  ds_threads :: "submit_pc list"
  ds_draining :: bool
  ds_wg :: nat
  ds_drain :: drain_pc

definition drain_init :: "nat \<Rightarrow> drain_state" where
  "drain_init n = \<lparr>ds_threads = replicate n Calling, ds_draining = False, ds_wg = 0, ds_drain = NotDraining\<rparr>"

inductive drain_step :: "drain_state \<Rightarrow> drain_state \<Rightarrow> bool" where
  check_ok: "i < length (ds_threads s) \<Longrightarrow> ds_threads s ! i = Calling \<Longrightarrow> \<not> ds_draining s \<Longrightarrow>
    drain_step s (s\<lparr>ds_threads := (ds_threads s)[i := Checked]\<rparr>)"
| check_refused: "i < length (ds_threads s) \<Longrightarrow> ds_threads s ! i = Calling \<Longrightarrow> ds_draining s \<Longrightarrow>
    drain_step s (s\<lparr>ds_threads := (ds_threads s)[i := Refused]\<rparr>)"
| wg_add: "i < length (ds_threads s) \<Longrightarrow> ds_threads s ! i = Checked \<Longrightarrow>
    drain_step s (s\<lparr>ds_threads := (ds_threads s)[i := Running], ds_wg := ds_wg s + 1\<rparr>)"
| wg_done: "i < length (ds_threads s) \<Longrightarrow> ds_threads s ! i = Running \<Longrightarrow>
    drain_step s (s\<lparr>ds_threads := (ds_threads s)[i := Finished], ds_wg := ds_wg s - 1\<rparr>)"
| drain_begin: "ds_drain s = NotDraining \<Longrightarrow>
    drain_step s (s\<lparr>ds_draining := True, ds_drain := Waiting\<rparr>)"
| drain_return: "ds_drain s = Waiting \<Longrightarrow> ds_wg s = 0 \<Longrightarrow> drain_step s (s\<lparr>ds_drain := Drained\<rparr>)"

inductive_cases drain_stepE: "drain_step s s'"

abbreviation drain_steps :: "drain_state \<Rightarrow> drain_state \<Rightarrow> bool" where
  "drain_steps \<equiv> drain_step\<^sup>*\<^sup>*"

text \<open>The threads past the check that are not over.\<close>

definition in_flight :: "drain_state \<Rightarrow> nat set" where
  "in_flight s = {i. i < length (ds_threads s) \<and> ds_threads s ! i \<in> {Checked, Running}}"

definition running :: "drain_state \<Rightarrow> nat set" where
  "running s = {i. i < length (ds_threads s) \<and> ds_threads s ! i = Running}"

definition drain_inv :: "drain_state \<Rightarrow> bool" where
  "drain_inv s \<longleftrightarrow> ds_wg s = card (running s) \<and> (ds_drain s \<noteq> NotDraining \<longrightarrow> ds_draining s)"

lemma running_empty: "Running \<notin> set (ds_threads s) \<Longrightarrow> running s = {}"
  by (auto simp: running_def in_set_conv_nth)

lemma running_update:
  assumes "i < length (ds_threads s)"
  shows "running (s\<lparr>ds_threads := (ds_threads s)[i := pc], ds_wg := w\<rparr>) =
    (if pc = Running then insert i (running s) else running s - {i})"
  using assms by (auto simp: running_def nth_list_update)

lemma running_update':
  "i < length (ds_threads s) \<Longrightarrow> running (s\<lparr>ds_threads := (ds_threads s)[i := pc]\<rparr>) =
    (if pc = Running then insert i (running s) else running s - {i})"
  by (auto simp: running_def nth_list_update)

lemma finite_running [simp]: "finite (running s)"
  by (rule finite_subset[of _ "{..<length (ds_threads s)}"]) (auto simp: running_def)

lemma drain_step_inv: "drain_step s s' \<Longrightarrow> drain_inv s \<Longrightarrow> drain_inv s'"
proof (induction rule: drain_step.induct)
  case (wg_add i s)
  then have "i \<notin> running s" by (simp add: running_def)
  with wg_add show ?case by (simp add: drain_inv_def running_update)
next
  case (wg_done i s)
  then have "i \<in> running s" by (simp add: running_def)
  with wg_done show ?case by (simp add: drain_inv_def running_update)
next
  case (check_ok i s)
  then have "i \<notin> running s" by (simp add: running_def)
  with check_ok show ?case by (simp add: drain_inv_def running_update')
next
  case (check_refused i s)
  then have "i \<notin> running s" by (simp add: running_def)
  with check_refused show ?case by (simp add: drain_inv_def running_update')
qed (simp_all add: drain_inv_def running_def)

lemma drain_steps_inv: "drain_steps s s' \<Longrightarrow> drain_inv s \<Longrightarrow> drain_inv s'"
  by (induction rule: rtranclp_induct) (auto intro: drain_step_inv)

lemma drain_init_inv: "drain_inv (drain_init n)"
  by (auto simp: drain_inv_def drain_init_def running_def intro: sym card_eq_0_iff[THEN iffD2])

lemma in_flight_shrinks:
  "drain_step s s' \<Longrightarrow> ds_draining s \<Longrightarrow> in_flight s' \<subseteq> in_flight s \<and> ds_draining s'"
  by (induction rule: drain_step.induct) (auto simp: in_flight_def nth_list_update split: if_splits)

lemma in_flight_shrinks_steps:
  assumes "drain_steps s s'" "ds_draining s"
  shows "in_flight s' \<subseteq> in_flight s"
proof -
  have "in_flight s' \<subseteq> in_flight s \<and> ds_draining s'"
    using assms(1) by induction (use assms(2) in_flight_shrinks in blast)+
  then show ?thesis by blast
qed

text \<open>
  Draining refuses what comes after it: once the flag is set no further submission gets past the
  check, so the workflows in flight only become fewer; and if no thread is between the check and the
  add when the wait group is found empty, nothing runs from then on.
\<close>

lemma drain_quiesces:
  assumes "drain_steps (drain_init n) s" and "ds_drain s = Waiting" "ds_wg s = 0"
    and "Checked \<notin> set (ds_threads s)" and "drain_steps (s\<lparr>ds_drain := Drained\<rparr>) s'"
  shows "in_flight s' = {}"
proof -
  have inv: "drain_inv s" using drain_steps_inv[OF assms(1) drain_init_inv] .
  with assms(2,3) have "running s = {}" "ds_draining s" by (auto simp: drain_inv_def)
  moreover have "in_flight s = running s"
    using assms(4) by (auto simp: in_flight_def running_def in_set_conv_nth)
  ultimately have "in_flight (s\<lparr>ds_drain := Drained\<rparr>) = {}" by (simp add: in_flight_def)
  with in_flight_shrinks_steps[OF assms(5)] \<open>ds_draining s\<close> show ?thesis by auto
qed

text \<open>
  Draining can miss a submission: \<open>Drain\<close> promises to wait for the calls in flight, but a call that
  has passed the check and not yet added itself to the wait group is not counted. There is a run in
  which \<open>Drain\<close> has returned and a workflow is running.
\<close>

lemma drain_misses_submission:
  "\<exists>s. drain_steps (drain_init (Suc n)) s \<and> ds_drain s = Drained \<and> running s = {0}"
proof -
  let ?s0 = "drain_init (Suc n)"
  let ?s1 = "?s0\<lparr>ds_threads := (ds_threads ?s0)[0 := Checked]\<rparr>"
  let ?s2 = "?s1\<lparr>ds_draining := True, ds_drain := Waiting\<rparr>"
  let ?s3 = "?s2\<lparr>ds_drain := Drained\<rparr>"
  let ?s4 = "?s3\<lparr>ds_threads := (ds_threads ?s3)[0 := Running], ds_wg := ds_wg ?s3 + 1\<rparr>"
  have "drain_step ?s0 ?s1" by (rule check_ok) (simp_all add: drain_init_def)
  moreover have "drain_step ?s1 ?s2" by (rule drain_begin) (simp add: drain_init_def)
  moreover have "drain_step ?s2 ?s3" by (rule drain_return) (simp_all add: drain_init_def)
  moreover have "drain_step ?s3 ?s4" by (rule wg_add) (simp_all add: drain_init_def)
  ultimately have "drain_steps ?s0 ?s4" by (meson converse_rtranclp_into_rtranclp rtranclp.rtrancl_refl)
  moreover have "Running \<notin> set (ds_threads ?s3)" by (simp add: drain_init_def)
  then have "running ?s3 = {}" by (rule running_empty)
  then have "running ?s4 = {0}" by (subst running_update) (simp_all add: drain_init_def)
  ultimately show ?thesis by (intro exI[of _ ?s4]) simp
qed

lemma drain_quiesces_witness: "in_flight ((drain_init 1)\<lparr>ds_draining := True, ds_drain := Drained\<rparr>) = {}"
proof -
  let ?s = "(drain_init 1)\<lparr>ds_draining := True, ds_drain := Waiting\<rparr>"
  have "drain_step (drain_init 1) ?s" by (rule drain_begin) (simp add: drain_init_def)
  then have "drain_steps (drain_init 1) ?s" by (rule r_into_rtranclp)
  then show ?thesis
    using drain_quiesces[of 1 ?s "?s\<lparr>ds_drain := Drained\<rparr>"] by (simp add: drain_init_def)
qed

text \<open>
  Queues do not cross tenants: for the supported classes the queue name determines the tenant and
  the class, whatever characters the tenant id has.
\<close>

lemma queue_names_isolate:
  assumes "validClass c" "validClass c'"
  shows "QueueName t c = QueueName t' c' \<longleftrightarrow> t = t' \<and> c = c'"
proof
  assume "QueueName t c = QueueName t' c'"
  then have eq: "t @ ''-'' @ c = t' @ ''-'' @ c'" by (simp add: QueueName_def)
  have cs: "c = QueueDefault \<or> c = QueuePriority" "c' = QueueDefault \<or> c' = QueuePriority"
    using assms by (auto simp: validClass_def SupportedQueues_def split: if_splits)
  then have "c \<noteq> [] \<and> c' \<noteq> []" by (auto simp: QueueDefault_def QueuePriority_def)
  then have "last c = last c'" using arg_cong[OF eq, of last] by simp
  then have "c = c'" using cs by (auto simp: QueueDefault_def QueuePriority_def)
  with eq show "t = t' \<and> c = c'" by simp
qed simp

lemma queue_names_isolate_witness: "QueueName ''a-default'' ''priority'' \<noteq> QueueName ''a'' ''default''"
  using queue_names_isolate[of "''priority''" "''default''" "''a-default''" "''a''"]
  by (simp add: validClass_def SupportedQueues_def QueueDefault_def QueuePriority_def)

section \<open>Cost spikes (\<^verbatim>\<open>cost_spike.go\<close>)\<close>

record SpikeEvent =
  se_WorkloadID :: string
  se_ObservedDeltaUSD :: f64
  se_ObservedAt :: instant
  se_LikelyPRCommitSHA :: string
  se_LikelyPRURL :: string

record CostSpikePayload =
  cp_WorkloadID :: string
  cp_ObservedDeltaUSD :: f64
  cp_ObservedAt :: instant
  cp_MinDeltaThreshold :: f64
  cp_LikelyPRCommitSHA :: string
  cp_LikelyPRURL :: string

datatype workflow_error = NilDependency | PayloadError | LoadState string | DecideError rollback_error | NotifyError string

datatype workflow_call =
  NotifySpike TenantContext SpikeEvent
| OpenRollback TenantContext string string

text \<open>A notifier returns its error. The calls made, and the error.\<close>

definition CostSpike_Execute ::
  "(TenantContext \<Rightarrow> SpikeEvent \<Rightarrow> string option) option \<Rightarrow> (string \<Rightarrow> CostSpikePayload option) \<Rightarrow>
   TenantContext \<Rightarrow> string \<Rightarrow> workflow_call list \<times> workflow_error option" where
  "CostSpike_Execute notifier decode t raw =
     (case notifier of
        None \<Rightarrow> ([], Some NilDependency)
      | Some notify \<Rightarrow>
          (case decode raw of
             None \<Rightarrow> ([], Some PayloadError)
           | Some p \<Rightarrow>
               if f64_lt (cp_ObservedDeltaUSD p) (cp_MinDeltaThreshold p) then ([], None)
               else
                 let ev = \<lparr>se_WorkloadID = cp_WorkloadID p, se_ObservedDeltaUSD = cp_ObservedDeltaUSD p,
                           se_ObservedAt = cp_ObservedAt p, se_LikelyPRCommitSHA = cp_LikelyPRCommitSHA p,
                           se_LikelyPRURL = cp_LikelyPRURL p\<rparr>
                 in ([NotifySpike t ev], map_option NotifyError (notify t ev))))"

section \<open>Rollbacks (\<^verbatim>\<open>rollback_watchdog.go\<close>)\<close>

record RollbackWatchdogPayload =
  rw_State :: Rollback_State
  rw_Snapshot :: Snapshot
  rw_Now :: instant

definition RollbackWatchdog_Execute ::
  "(TenantContext \<Rightarrow> string \<Rightarrow> string \<Rightarrow> string option) option \<Rightarrow> (string \<Rightarrow> RollbackWatchdogPayload option) \<Rightarrow>
   instant \<Rightarrow> TenantContext \<Rightarrow> string \<Rightarrow> workflow_call list \<times> workflow_error option" where
  "RollbackWatchdog_Execute initiator decode clock t raw =
     (case initiator of
        None \<Rightarrow> ([], Some NilDependency)
      | Some openRollback \<Rightarrow>
          (case decode raw of
             None \<Rightarrow> ([], Some PayloadError)
           | Some p \<Rightarrow>
               let now = (if rw_Now p = 0 then clock else rw_Now p)
               in case Decide (rw_State p) (rw_Snapshot p) now of
                    Inl e \<Rightarrow> ([], Some (DecideError e))
                  | Inr d \<Rightarrow>
                      if de_Action d = ActionRollback
                      then ([OpenRollback t (rb_ApplyFixID (rw_State p)) (de_Reason d)],
                            map_option NotifyError (openRollback t (rb_ApplyFixID (rw_State p)) (de_Reason d)))
                      else ([], None)))"

section \<open>Nudges (\<^verbatim>\<open>onboarding_nudge.go\<close>)\<close>

type_synonym NudgeChannel = string
type_synonym NudgeReason = string

definition NudgeChannelEmail :: NudgeChannel where "NudgeChannelEmail = ''email''"
definition NudgeChannelInApp :: NudgeChannel where "NudgeChannelInApp = ''in_app''"
definition NudgeChannelCSMSlack :: NudgeChannel where "NudgeChannelCSMSlack = ''csm_slack''"

definition NudgeReason24hNoVCS :: NudgeReason where "NudgeReason24hNoVCS = ''24h_no_vcs''"
definition NudgeReason72hNoAgent :: NudgeReason where "NudgeReason72hNoAgent = ''72h_no_agent''"
definition NudgeReason7dNoApplyFix :: NudgeReason where "NudgeReason7dNoApplyFix = ''7d_no_apply_fix''"

lemmas nudge_reasons = NudgeReason24hNoVCS_def NudgeReason72hNoAgent_def NudgeReason7dNoApplyFix_def

text \<open>One case of the switch: stuck at a stage for at least \<open>window\<close>.\<close>

definition stuck_at ::
  "Stage list \<Rightarrow> duration \<Rightarrow> NudgeChannel \<Rightarrow> Onboarding_State \<Rightarrow> instant \<Rightarrow> (Stage \<times> instant \<times> NudgeChannel) option" where
  "stuck_at stages window channel st now =
     (if ob_Current st \<notin> set stages then None
      else case ob_Reached st (ob_Current st) of
             None \<Rightarrow> None
           | Some t \<Rightarrow> if time_sub now t < window then None else Some (ob_Current st, t, channel))"

definition shouldFire ::
  "NudgeReason \<Rightarrow> Onboarding_State \<Rightarrow> instant \<Rightarrow> (Stage \<times> instant \<times> NudgeChannel) option" where
  "shouldFire reason st now =
     (if reason = NudgeReason24hNoVCS
      then stuck_at [StageSignedUp] (nanoseconds (24 * 3600)) NudgeChannelEmail st now
      else if reason = NudgeReason72hNoAgent
      then stuck_at [StageRepoSelected, StageFirstPRAnalyzed] (nanoseconds (72 * 3600)) NudgeChannelInApp st now
      else if reason = NudgeReason7dNoApplyFix
      then stuck_at [StageAgentInstalled] (nanoseconds (7 * 24 * 3600)) NudgeChannelCSMSlack st now
      else None)"

record OnboardingNudgePayload =
  on_Reason :: NudgeReason
  on_DashboardURL :: string
  on_Now :: instant

record NudgeEvent =
  ne_Tenant :: TenantContext
  ne_Reason :: NudgeReason
  ne_Channel :: NudgeChannel
  ne_Stage :: Stage
  ne_StuckSince :: instant
  ne_Now :: instant
  ne_DashboardURL :: string

definition OnboardingNudge_Execute ::
  "(string \<Rightarrow> string + Onboarding_State) option \<Rightarrow> (NudgeEvent \<Rightarrow> string option) option \<Rightarrow>
   (string \<Rightarrow> OnboardingNudgePayload option) \<Rightarrow> instant \<Rightarrow> TenantContext \<Rightarrow> string \<Rightarrow>
   NudgeEvent list \<times> workflow_error option" where
  "OnboardingNudge_Execute source notifier decode clock t raw =
     (case source of
        None \<Rightarrow> ([], Some NilDependency)
      | Some get \<Rightarrow>
          (case notifier of
             None \<Rightarrow> ([], Some NilDependency)
           | Some notify \<Rightarrow>
               (case decode raw of
                  None \<Rightarrow> ([], Some PayloadError)
                | Some p \<Rightarrow>
                    let now = (if on_Now p = 0 then clock else on_Now p)
                    in case get (tc_TenantID t) of
                         Inl e \<Rightarrow> ([], Some (LoadState e))
                       | Inr st \<Rightarrow>
                           (case shouldFire (on_Reason p) st now of
                              None \<Rightarrow> ([], None)
                            | Some (stage, since, channel) \<Rightarrow>
                                let ev = \<lparr>ne_Tenant = t, ne_Reason = on_Reason p, ne_Channel = channel, ne_Stage = stage,
                                          ne_StuckSince = since, ne_Now = now, ne_DashboardURL = on_DashboardURL p\<rparr>
                                in ([ev], map_option NotifyError (notify ev))))))"

lemma stuck_at_Some:
  "stuck_at stages window channel st now = Some (stage, since, ch) \<longleftrightarrow>
     stage = ob_Current st \<and> stage \<in> set stages \<and> ob_Reached st stage = Some since \<and> window \<le> time_sub now since \<and>
     ch = channel"
  by (auto simp: stuck_at_def split: option.splits)

text \<open>
  A watchdog job opens a rollback exactly when the watchdog decides to: at most one call, for the
  job's own fix and tenant, and only while the watch is open, inside its seven days, on a snapshot above
  a bound of its kind.
\<close>

lemma watchdog_job_rolls_back:
  assumes "decode raw = Some p" and "Rollback_Validate (rw_State p) = None"
    and "now = (if rw_Now p = 0 then clock else rw_Now p)"
  shows "fst (RollbackWatchdog_Execute (Some initiator) decode clock t raw) =
    (if \<not> rb_Closed (rw_State p) \<and> now < rb_MergedAt (rw_State p) + Window \<and>
        (\<exists>b \<in> set (rb_Bounds (rw_State p)). bd_Kind b = sn_Kind (rw_Snapshot p) \<and>
           f64_lt (bd_RealMax b) (sn_Value (rw_Snapshot p)))
     then [OpenRollback t (rb_ApplyFixID (rw_State p)) ''metric crossed the predicted upper bound'']
     else [])"
  using assms by (auto simp: RollbackWatchdog_Execute_def Decide_def Let_def action_consts crossing_iff)

definition sample_watchdog :: RollbackWatchdogPayload where
  "sample_watchdog =
     \<lparr>rw_State = \<lparr>rb_ApplyFixID = ''f1'', rb_MergedAt = 1,
        rb_Bounds = [\<lparr>bd_Kind = SignalErrorRate, bd_RealMax = Fin 10, bd_Baseline = Fin 5\<rparr>], rb_Closed = False\<rparr>,
      rw_Snapshot = \<lparr>sn_Kind = SignalErrorRate, sn_Value = Fin 11, sn_ObservedAt = 2\<rparr>, rw_Now = 2\<rparr>"

lemma watchdog_job_rolls_back_witness:
  "fst (RollbackWatchdog_Execute (Some (\<lambda>_ _ _. None)) (\<lambda>_. Some sample_watchdog) 0
     \<lparr>tc_TenantID = ''t1'', tc_WorkspaceID = [], tc_ClusterID = [], tc_Namespace = []\<rparr> ''job'') =
   [OpenRollback \<lparr>tc_TenantID = ''t1'', tc_WorkspaceID = [], tc_ClusterID = [], tc_Namespace = []\<rparr> ''f1''
      ''metric crossed the predicted upper bound'']"
  by (subst watchdog_job_rolls_back[where p = sample_watchdog and now = 2])
    (simp_all add: sample_watchdog_def Rollback_Validate_def Window_def nanoseconds_def)

end
