(* ===== verification/Graph.thy ===== *)
theory Graph
  imports Tenancy
begin

text \<open>
  \<^verbatim>\<open>backend/internal/agent/graph/graph.go\<close>: which workload stands behind which service, and which
  has live traffic. The informer caches behind the \<^verbatim>\<open>Reader\<close> are a parameter. A Go map is the list of
  its entries, and \<open>visit n\<close> is the order in which the \<open>n\<close>-th loop over it sees them.
\<close>

section \<open>Data\<close>

record WorkloadKey =
  wk_Namespace :: string
  wk_Kind :: string
  wk_Name :: string

type_synonym label_map = "(string \<times> string) list"

record Graph_Service =
  gs_Namespace :: string
  gs_Name :: string
  gs_Selector :: label_map

record EndpointSlice =
  ep_Namespace :: string
  ep_Service :: string
  ep_ReadyAddresses :: i64

record Edge =
  ed_From :: WorkloadKey
  ed_To :: WorkloadKey
  ed_Via :: string

record Graph_Snapshot =
  gn_CapturedAt :: i64
  gn_Workloads :: "WorkloadKey list"
  gn_Edges :: "Edge list"
  gn_Liveness :: "WorkloadKey \<rightharpoonup> bool"

type_synonym workload_labels = "(WorkloadKey \<times> label_map) list"

record Graph_Reader =
  gr_Services :: "TenantContext \<Rightarrow> string + Graph_Service list"
  gr_Endpoints :: "TenantContext \<Rightarrow> string + EndpointSlice list"
  gr_WorkloadLabels :: "TenantContext \<Rightarrow> string + workload_labels"

section \<open>Building the snapshot\<close>

definition label :: "label_map \<Rightarrow> string \<Rightarrow> string" where
  "label hv k = (case map_of hv k of Some v \<Rightarrow> v | None \<Rightarrow> [])"

fun matchAll :: "label_map \<Rightarrow> label_map \<Rightarrow> bool" where
  "matchAll hv [] = True"
| "matchAll hv ((k, v) # want) = (if label hv k \<noteq> v then False else matchAll hv want)"

definition workloadLess :: "WorkloadKey \<Rightarrow> WorkloadKey \<Rightarrow> bool" where
  "workloadLess a b =
     (if wk_Namespace a \<noteq> wk_Namespace b then wk_Namespace a < wk_Namespace b
      else if wk_Kind a \<noteq> wk_Kind b then wk_Kind a < wk_Kind b
      else wk_Name a < wk_Name b)"

definition edgeLess :: "Edge \<Rightarrow> Edge \<Rightarrow> bool" where
  "edgeLess a b =
     (if wk_Namespace (ed_From a) \<noteq> wk_Namespace (ed_From b) then wk_Namespace (ed_From a) < wk_Namespace (ed_From b)
      else if wk_Name (ed_From a) \<noteq> wk_Name (ed_From b) then wk_Name (ed_From a) < wk_Name (ed_From b)
      else ed_Via a < ed_Via b)"

definition service_key :: "string \<Rightarrow> string \<Rightarrow> string" where
  "service_key ns name = ns @ ''/'' @ name"

fun liveByNamespaceService :: "(string \<rightharpoonup> bool) \<Rightarrow> EndpointSlice list \<Rightarrow> (string \<rightharpoonup> bool)" where
  "liveByNamespaceService m [] = m"
| "liveByNamespaceService m (e # es) =
     (let key = service_key (ep_Namespace e) (ep_Service e)
      in liveByNamespaceService
           (if ep_ReadyAddresses e > 0 then m(key \<mapsto> True)
            else if m key = None then m(key \<mapsto> False) else m) es)"

definition edge_of :: "Graph_Service \<Rightarrow> WorkloadKey \<Rightarrow> Edge" where
  "edge_of svc w =
     \<lparr>ed_From = w,
      ed_To = \<lparr>wk_Namespace = gs_Namespace svc, wk_Kind = ''Service'', wk_Name = gs_Name svc\<rparr>,
      ed_Via = gs_Name svc\<rparr>"

fun link_workloads :: "bool \<Rightarrow> Graph_Service \<Rightarrow> workload_labels \<Rightarrow> Graph_Snapshot \<Rightarrow> Graph_Snapshot" where
  "link_workloads live svc [] snap = snap"
| "link_workloads live svc ((w, l) # ls) snap =
     (if wk_Namespace w \<noteq> gs_Namespace svc then link_workloads live svc ls snap
      else if \<not> matchAll l (gs_Selector svc) then link_workloads live svc ls snap
      else let snap = (if live then snap\<lparr>gn_Liveness := (gn_Liveness snap)(w \<mapsto> True)\<rparr> else snap)
           in link_workloads live svc ls (snap\<lparr>gn_Edges := gn_Edges snap @ [edge_of svc w]\<rparr>))"

fun link_services ::
  "(nat \<Rightarrow> workload_labels \<Rightarrow> workload_labels) \<Rightarrow> nat \<Rightarrow> (string \<rightharpoonup> bool) \<Rightarrow> workload_labels \<Rightarrow>
   Graph_Service list \<Rightarrow> Graph_Snapshot \<Rightarrow> Graph_Snapshot" where
  "link_services visit n liveBy labels [] snap = snap"
| "link_services visit n liveBy labels (svc # svcs) snap =
     (if gs_Selector svc = [] then link_services visit (Suc n) liveBy labels svcs snap
      else let live = (liveBy (service_key (gs_Namespace svc) (gs_Name svc)) = Some True)
           in link_services visit (Suc n) liveBy labels svcs (link_workloads live svc (visit n labels) snap))"

definition Graph_Build ::
  "(nat \<Rightarrow> workload_labels \<Rightarrow> workload_labels) \<Rightarrow> Graph_Reader \<Rightarrow> TenantContext \<Rightarrow> i64 \<Rightarrow> string + Graph_Snapshot" where
  "Graph_Build visit r t capturedAt =
     (case gr_WorkloadLabels r t of Inl err \<Rightarrow> Inl err | Inr labels \<Rightarrow>
      case gr_Services r t of Inl err \<Rightarrow> Inl err | Inr svcs \<Rightarrow>
      case gr_Endpoints r t of Inl err \<Rightarrow> Inl err | Inr eps \<Rightarrow>
        let liveBy = liveByNamespaceService Map.empty eps;
            seen = map fst (visit 0 labels);
            snap = \<lparr>gn_CapturedAt = capturedAt, gn_Workloads = stable_sort workloadLess seen, gn_Edges = [],
                    gn_Liveness = map_of (map (\<lambda>w. (w, False)) seen)\<rparr>;
            snap = link_services visit 1 liveBy labels svcs snap
        in Inr (snap\<lparr>gn_Edges := stable_sort edgeLess (gn_Edges snap)\<rparr>))"

section \<open>The orders\<close>

interpretation workload_order: less_order workloadLess
  by unfold_locales (auto simp: workloadLess_def split: if_splits)

interpretation edge_order: less_order edgeLess
  by unfold_locales (auto simp: edgeLess_def split: if_splits)

lemma workloadLess_total: "a \<noteq> b \<Longrightarrow> workloadLess a b \<or> workloadLess b a"
  by (cases a; cases b) (auto simp: workloadLess_def)

section \<open>What the snapshot says\<close>

lemma matchAll_iff: "matchAll hv want \<longleftrightarrow> (\<forall>(k, v) \<in> set want. label hv k = v)"
  by (induction hv want rule: matchAll.induct) auto

text \<open>A service selects a workload of its namespace whose labels have every pair of its selector.\<close>

definition service_selects :: "Graph_Service \<Rightarrow> WorkloadKey \<times> label_map \<Rightarrow> bool" where
  "service_selects svc p \<longleftrightarrow> gs_Selector svc \<noteq> [] \<and> wk_Namespace (fst p) = gs_Namespace svc \<and>
     (\<forall>(k, v) \<in> set (gs_Selector svc). label (snd p) k = v)"

definition has_ready :: "EndpointSlice list \<Rightarrow> Graph_Service \<Rightarrow> bool" where
  "has_ready eps svc \<longleftrightarrow>
     (\<exists>e \<in> set eps. ep_Namespace e = gs_Namespace svc \<and> ep_Service e = gs_Name svc \<and> 0 < ep_ReadyAddresses e)"

lemma service_key_inj:
  "CHR ''/'' \<notin> set ns \<Longrightarrow> CHR ''/'' \<notin> set ns' \<Longrightarrow> service_key ns n = service_key ns' n' \<longleftrightarrow> ns = ns' \<and> n = n'"
  using append_sep_inj[of "CHR ''/''" ns ns' n n'] by (simp add: service_key_def)

lemma liveByNamespaceService_True:
  "liveByNamespaceService m eps key = Some True \<longleftrightarrow>
     m key = Some True \<or> (\<exists>e \<in> set eps. service_key (ep_Namespace e) (ep_Service e) = key \<and> 0 < ep_ReadyAddresses e)"
  by (induction m eps rule: liveByNamespaceService.induct) (auto simp: Let_def split: if_splits)

lemma service_selects_matchAll:
  "gs_Selector svc \<noteq> [] \<Longrightarrow>
   service_selects svc (w, l) \<longleftrightarrow> wk_Namespace w = gs_Namespace svc \<and> matchAll l (gs_Selector svc)"
  by (simp add: service_selects_def matchAll_iff)

lemma link_workloads_result:
  assumes "gs_Selector svc \<noteq> []"
  shows "gn_Liveness (link_workloads live svc ls snap) =
      (\<lambda>w. if live \<and> (\<exists>l. (w, l) \<in> set ls \<and> service_selects svc (w, l)) then Some True else gn_Liveness snap w)"
    and "gn_Edges (link_workloads live svc ls snap) =
      gn_Edges snap @ map (edge_of svc \<circ> fst) (filter (service_selects svc) ls)"
    and "gn_Workloads (link_workloads live svc ls snap) = gn_Workloads snap"
  using assms by (induction live svc ls snap rule: link_workloads.induct)
    (auto simp: service_selects_matchAll fun_eq_iff Let_def)

definition live_in :: "(string \<rightharpoonup> bool) \<Rightarrow> Graph_Service \<Rightarrow> bool" where
  "live_in liveBy svc \<longleftrightarrow> liveBy (service_key (gs_Namespace svc) (gs_Name svc)) = Some True"

lemma link_services_result:
  assumes "\<And>n. mset (visit n labels) = mset labels"
  shows "gn_Liveness (link_services visit n liveBy labels svcs snap) =
      (\<lambda>w. if \<exists>svc \<in> set svcs. live_in liveBy svc \<and> (\<exists>l. (w, l) \<in> set labels \<and> service_selects svc (w, l)) then Some True
           else gn_Liveness snap w) \<and>
    mset (gn_Edges (link_services visit n liveBy labels svcs snap)) = mset (gn_Edges snap) +
      mset (concat (map (\<lambda>svc. map (edge_of svc \<circ> fst) (filter (service_selects svc) labels)) svcs)) \<and>
    gn_Workloads (link_services visit n liveBy labels svcs snap) = gn_Workloads snap"
proof (induction svcs arbitrary: n snap)
  case (Cons svc svcs)
  have vis: "set (visit n labels) = set labels"
    "image_mset f (filter_mset P (mset (visit n labels))) = image_mset f (filter_mset P (mset labels))" for f P
    using assms(1) by (auto dest: mset_eq_setD)
  show ?case
  proof (cases "gs_Selector svc = []")
    case True
    then have no: "\<not> service_selects svc p" for p by (simp add: service_selects_def)
    with Cons[of "Suc n" snap] True show ?thesis by (auto simp: fun_eq_iff)
  next
    case False
    let ?s = "link_workloads (live_in liveBy svc) svc (visit n labels) snap"
    have step: "link_services visit n liveBy labels (svc # svcs) snap = link_services visit (Suc n) liveBy labels svcs ?s"
      using False by (simp add: live_in_def)
    have "gn_Liveness ?s = (\<lambda>w. if live_in liveBy svc \<and> (\<exists>l. (w, l) \<in> set labels \<and> service_selects svc (w, l))
        then Some True else gn_Liveness snap w)"
      and "mset (gn_Edges ?s) = mset (gn_Edges snap) + mset (map (edge_of svc \<circ> fst) (filter (service_selects svc) labels))"
      and "gn_Workloads ?s = gn_Workloads snap"
      by (simp_all add: link_workloads_result[OF False] vis)
    with Cons[of "Suc n" ?s] show ?thesis unfolding step by (auto simp: fun_eq_iff comp_def)
  qed
qed simp

definition well_named :: "Graph_Service list \<Rightarrow> EndpointSlice list \<Rightarrow> bool" where
  "well_named svcs eps \<longleftrightarrow> list_all (\<lambda>s. CHR ''/'' \<notin> set (gs_Namespace s)) svcs \<and>
     list_all (\<lambda>e. CHR ''/'' \<notin> set (ep_Namespace e)) eps"

lemma well_named_live:
  assumes "well_named svcs eps" "svc \<in> set svcs"
  shows "live_in (liveByNamespaceService Map.empty eps) svc \<longleftrightarrow> has_ready eps svc"
  using assms service_key_inj
  by (auto simp: live_in_def liveByNamespaceService_True has_ready_def well_named_def list_all_iff)

lemma map_of_False: "map_of (map (\<lambda>w. (w, False)) ws) = (\<lambda>w. if w \<in> set ws then Some False else None)"
  by (induction ws) auto

text \<open>
  C34. The graph is what the cluster says: whatever order the map loops take, the workloads are those
  with labels in their one sorted order, a workload is live exactly when a service that selects it has
  a ready endpoint, and the edges are exactly one per service and selected workload.
\<close>

theorem graph_exact:
  assumes "gr_WorkloadLabels r t = Inr labels" "gr_Services r t = Inr svcs" "gr_Endpoints r t = Inr eps"
    and "\<And>n. mset (visit n labels) = mset labels" and "well_named svcs eps"
  shows "\<exists>snap. Graph_Build visit r t capturedAt = Inr snap \<and>
    gn_Workloads snap = stable_sort workloadLess (map fst labels) \<and> sorted_by workloadLess (gn_Workloads snap) \<and>
    gn_Liveness snap = (\<lambda>w. if w \<in> fst ` set labels
      then Some (\<exists>svc \<in> set svcs. \<exists>l. (w, l) \<in> set labels \<and> service_selects svc (w, l) \<and> has_ready eps svc)
      else None) \<and>
    mset (gn_Edges snap) =
      mset (concat (map (\<lambda>svc. map (edge_of svc \<circ> fst) (filter (service_selects svc) labels)) svcs)) \<and>
    sorted_by edgeLess (gn_Edges snap)"
proof -
  let ?live = "liveByNamespaceService Map.empty eps"
  let ?init = "\<lparr>gn_CapturedAt = capturedAt, gn_Workloads = stable_sort workloadLess (map fst (visit 0 labels)),
     gn_Edges = [], gn_Liveness = map_of (map (\<lambda>w. (w, False)) (map fst (visit 0 labels)))\<rparr>"
  let ?s = "link_services visit 1 ?live labels svcs ?init"
  have build: "Graph_Build visit r t capturedAt = Inr (?s\<lparr>gn_Edges := stable_sort edgeLess (gn_Edges ?s)\<rparr>)"
    using assms(1-3) by (simp add: Graph_Build_def Let_def)
  have mseq: "mset (map fst (visit 0 labels)) = mset (map fst labels)"
    using assms(4)[of 0] by (metis mset_map)
  have ws: "stable_sort workloadLess (map fst (visit 0 labels)) = stable_sort workloadLess (map fst labels)"
    by (rule workload_order.stable_sort_unique)
      (use mseq workloadLess_total workload_order.sorted_stable_sort in \<open>auto simp del: mset_map\<close>)
  have seen: "set (visit 0 labels) = set labels" using assms(4)[of 0] by (rule mset_eq_setD)
  note res = link_services_result[of visit labels 1 ?live svcs ?init, OF assms(4)]
  have live: "(\<exists>svc \<in> set svcs. live_in ?live svc \<and> (\<exists>l. (w, l) \<in> set labels \<and> service_selects svc (w, l))) \<longleftrightarrow>
      (\<exists>svc \<in> set svcs. \<exists>l. (w, l) \<in> set labels \<and> service_selects svc (w, l) \<and> has_ready eps svc)" for w
    using well_named_live[OF assms(5)] by blast
  have base: "gn_Liveness ?init w = (if w \<in> fst ` set labels then Some False else None)" for w
    using seen by (simp only: Graph_Snapshot.simps map_of_False set_map)
  have "gn_Liveness ?s = (\<lambda>w. if w \<in> fst ` set labels
      then Some (\<exists>svc \<in> set svcs. \<exists>l. (w, l) \<in> set labels \<and> service_selects svc (w, l) \<and> has_ready eps svc)
      else None)"
    unfolding res[THEN conjunct1] live base by (force simp: fun_eq_iff)
  with build res ws show ?thesis
    by (simp add: workload_order.sorted_stable_sort edge_order.sorted_stable_sort)
qed

text \<open>
  The edges have no total order, though the comment on \<open>Build\<close> promises one: the kind is not compared.
  A deployment and a stateful set of one name behind one service come out in the order the map loop
  happened to see them.
\<close>

definition twins :: workload_labels where
  "twins = map (\<lambda>k. (\<lparr>wk_Namespace = ''shop'', wk_Kind = k, wk_Name = ''db''\<rparr>, [(''app'', ''db'')]))
     [''Deployment'', ''StatefulSet'']"

definition twins_service :: Graph_Service where
  "twins_service = \<lparr>gs_Namespace = ''shop'', gs_Name = ''db'', gs_Selector = [(''app'', ''db'')]\<rparr>"

definition twins_endpoint :: EndpointSlice where
  "twins_endpoint = \<lparr>ep_Namespace = ''shop'', ep_Service = ''db'', ep_ReadyAddresses = 1\<rparr>"

definition twins_reader :: Graph_Reader where
  "twins_reader = \<lparr>gr_Services = (\<lambda>_. Inr [twins_service]), gr_Endpoints = (\<lambda>_. Inr [twins_endpoint]),
     gr_WorkloadLabels = (\<lambda>_. Inr twins)\<rparr>"

lemmas twins_defs = twins_reader_def twins_def twins_service_def twins_endpoint_def

lemma edge_order_open:
  "map_sum id gn_Edges (Graph_Build (\<lambda>_ ls. ls) twins_reader t 0) \<noteq>
   map_sum id gn_Edges (Graph_Build (\<lambda>_ ls. rev ls) twins_reader t 0)"
  by (simp add: Graph_Build_def twins_defs Let_def label_def edge_of_def edgeLess_def)

text \<open>A selector that asks for an empty value also selects workloads without the label.\<close>

lemma empty_value_selects_absent: "matchAll [] [(''tier'', [])]"
  by (simp add: label_def)

theorem graph_exact_witness:
  "\<exists>snap. Graph_Build (\<lambda>_ ls. rev ls) twins_reader \<lparr>tc_TenantID = ''t'', tc_WorkspaceID = [], tc_ClusterID = [], tc_Namespace = []\<rparr> 7 =
      Inr snap \<and> map wk_Kind (gn_Workloads snap) = [''Deployment'', ''StatefulSet''] \<and>
    gn_Liveness snap \<lparr>wk_Namespace = ''shop'', wk_Kind = ''StatefulSet'', wk_Name = ''db''\<rparr> = Some True \<and>
    length (gn_Edges snap) = 2"
proof -
  let ?t = "\<lparr>tc_TenantID = ''t'', tc_WorkspaceID = [], tc_ClusterID = [], tc_Namespace = []\<rparr>"
  have selects: "service_selects twins_service p" if "p \<in> set twins" for p
    using that by (auto simp: service_selects_def twins_defs label_def)
  obtain snap where s: "Graph_Build (\<lambda>_ ls. rev ls) twins_reader ?t 7 = Inr snap"
      "gn_Workloads snap = stable_sort workloadLess (map fst twins)"
      "gn_Liveness snap = (\<lambda>w. if w \<in> fst ` set twins
        then Some (\<exists>svc \<in> set [twins_service]. \<exists>l. (w, l) \<in> set twins \<and> service_selects svc (w, l) \<and>
          has_ready [twins_endpoint] svc) else None)"
      "mset (gn_Edges snap) =
        mset (concat (map (\<lambda>svc. map (edge_of svc \<circ> fst) (filter (service_selects svc) twins)) [twins_service]))"
    using graph_exact[of twins_reader ?t twins "[twins_service]" "[twins_endpoint]" "\<lambda>_ ls. rev ls" 7]
    by (auto simp: twins_reader_def well_named_def twins_service_def twins_endpoint_def)
  have "filter (service_selects twins_service) twins = twins" using selects by simp
  with mset_eq_length[OF s(4)] have "length (gn_Edges snap) = 2" by (simp add: twins_def)
  moreover have "map wk_Kind (gn_Workloads snap) = [''Deployment'', ''StatefulSet'']"
    unfolding s(2) twins_def by code_simp
  moreover have "has_ready [twins_endpoint] twins_service"
    by (simp add: has_ready_def twins_defs)
  ultimately show ?thesis
    using s(1,3) selects by (auto simp: twins_def)
qed

end
