(* ===== verification/Prom_Client.thy ===== *)
theory Prom_Client
  imports Go_Float Go_Strconv Go_Strings Go_Time
begin

text \<open>
  \<^verbatim>\<open>backend/internal/agent/prom\<close>: the client of a Prometheus server (\<^verbatim>\<open>prom.go\<close>) and how it
  authenticates (\<^verbatim>\<open>auth.go\<close>). The network, the file system, the JSON codec, URL encoding, the decimal
  printing of a \<^verbatim>\<open>float64\<close> and TLS are parameters; the latency an observer is told is left out.
\<close>

section \<open>Data\<close>

record Sample =
  sm_Labels :: "(string \<times> string) list"
  sm_Value :: f64
  sm_At :: instant

record Prom_Range =
  rn_Start :: instant
  rn_End :: instant
  rn_Step :: duration

record Point =
  pt_At :: instant
  pt_Value :: f64

record Series =
  se_Labels :: "(string \<times> string) list"
  se_Points :: "Point list"

text \<open>Raw JSON values stay text.\<close>

record instantResult =
  iz_Metric :: "(string \<times> string) list"
  iz_Value :: "string list"

record instantResponse =
  in_Status :: string
  in_ResultType :: string
  in_Result :: "instantResult list"
  in_Error :: string

record rangeResult =
  rz_Metric :: "(string \<times> string) list"
  rz_Values :: "string list list"

record rangeResponse =
  rr_Status :: string
  rr_ResultType :: string
  rr_Result :: "rangeResult list"
  rr_Error :: string

datatype prom_client_error =
  PcBuild string | PcAuth string | PcTransport string | PcHttp int string | PcRead string
| PcDecode string | PcApi string | PcResultType string | PcNoStep | PcEmptyRange

record Prom_Lib =
  pl_Instant :: "string \<Rightarrow> string + instantResponse"
  pl_Range :: "string \<Rightarrow> string + rangeResponse"
  pl_Float :: "string \<Rightarrow> f64 option"
  pl_String :: "string \<Rightarrow> string option"
  pl_Conv :: "f64 \<Rightarrow> i64"
  pl_Encode :: "(string \<times> string) list \<Rightarrow> string"
  pl_FormatFloat :: "f64 \<Rightarrow> string"
  pl_NewRequest :: "string \<Rightarrow> string option"

section \<open>Authentication (\<^verbatim>\<open>auth.go\<close>)\<close>

type_synonym AuthMode = string

definition AuthNone :: AuthMode where "AuthNone = ''none''"
definition AuthBearer :: AuthMode where "AuthBearer = ''bearer''"
definition AuthBasic :: AuthMode where "AuthBasic = ''basic''"
definition AuthSAToken :: AuthMode where "AuthSAToken = ''sa_token''"
definition AuthMTLS :: AuthMode where "AuthMTLS = ''mtls''"

lemmas auth_modes = AuthNone_def AuthBearer_def AuthBasic_def AuthSAToken_def AuthMTLS_def

record AuthConfig =
  ac_Mode :: AuthMode
  ac_BearerToken :: string
  ac_BearerFile :: string
  ac_Username :: string
  ac_Password :: string
  ac_SATokenFile :: string
  ac_ClientCertFile :: string
  ac_ClientKeyFile :: string
  ac_CABundleFile :: string
  ac_TokenRefresh :: duration

record fileTokenAuth =
  fa_path :: string
  fa_scheme :: string
  fa_refresh :: duration
  fa_cached :: string
  fa_cachedAt :: instant
  fa_cachedErr :: "string option"

definition newFileTokenAuth :: "string \<Rightarrow> string \<Rightarrow> duration \<Rightarrow> fileTokenAuth" where
  "newFileTokenAuth path scheme refresh =
     \<lparr>fa_path = path, fa_scheme = scheme, fa_refresh = refresh, fa_cached = [], fa_cachedAt = 0, fa_cachedErr = None\<rparr>"

datatype Authenticator =
  NoopAuth | MtlsAuth | HeaderAuth string string | BasicAuth string string | FileAuth fileTokenAuth

definition NewAuthenticator :: "AuthConfig \<Rightarrow> string + Authenticator" where
  "NewAuthenticator cfg =
     (let mode = (if ac_Mode cfg = [] then AuthNone else ac_Mode cfg);
          refresh = (if ac_TokenRefresh cfg \<le> 0 then nanoseconds 60 else ac_TokenRefresh cfg)
      in if mode = AuthNone then Inr NoopAuth
         else if mode = AuthBearer
         then if ac_BearerToken cfg = [] \<and> ac_BearerFile cfg = []
              then Inl ''prom/auth: bearer requires BearerToken or BearerFile''
              else if ac_BearerFile cfg \<noteq> [] then Inr (FileAuth (newFileTokenAuth (ac_BearerFile cfg) ''Bearer'' refresh))
              else Inr (HeaderAuth ''Authorization'' (''Bearer '' @ ac_BearerToken cfg))
         else if mode = AuthBasic
         then if ac_Username cfg = [] then Inl ''prom/auth: basic requires Username''
              else Inr (BasicAuth (ac_Username cfg) (ac_Password cfg))
         else if mode = AuthSAToken
         then Inr (FileAuth (newFileTokenAuth
                (if ac_SATokenFile cfg = [] then ''/var/run/secrets/kubernetes.io/serviceaccount/token'' else ac_SATokenFile cfg)
                ''Bearer'' refresh))
         else if mode = AuthMTLS
         then if ac_ClientCertFile cfg = [] \<or> ac_ClientKeyFile cfg = []
              then Inl ''prom/auth: mtls requires ClientCertFile + ClientKeyFile''
              else Inr MtlsAuth
         else Inl (''prom/auth: unknown mode '' @ mode))"

definition IsMTLS :: "Authenticator \<Rightarrow> bool" where
  "IsMTLS a \<longleftrightarrow> a = MtlsAuth"

text \<open>TLS: loading a key pair, reading a file, and the pool of the certificates in a PEM text.\<close>

record ('cert, 'pool) Tls_Lib =
  tl_LoadX509KeyPair :: "string \<Rightarrow> string \<Rightarrow> string + 'cert"
  tl_ReadFile :: "string \<Rightarrow> string + string"
  tl_AppendCertsFromPEM :: "string \<Rightarrow> 'pool option"

record ('cert, 'pool) TLS_Config =
  tf_Certificate :: 'cert
  tf_RootCAs :: "'pool option"
  tf_MinVersion :: string

definition BuildTLSConfig :: "('cert, 'pool) Tls_Lib \<Rightarrow> AuthConfig \<Rightarrow> string + ('cert, 'pool) TLS_Config" where
  "BuildTLSConfig tls cfg =
     (case tl_LoadX509KeyPair tls (ac_ClientCertFile cfg) (ac_ClientKeyFile cfg) of
        Inl err \<Rightarrow> Inl (''prom/auth: load client cert: '' @ err)
      | Inr cert \<Rightarrow>
          let out = \<lparr>tf_Certificate = cert, tf_RootCAs = None, tf_MinVersion = ''TLS12''\<rparr>
          in if ac_CABundleFile cfg \<noteq> []
             then case tl_ReadFile tls (ac_CABundleFile cfg) of
                    Inl err \<Rightarrow> Inl (''prom/auth: read CA bundle: '' @ err)
                  | Inr pem \<Rightarrow> (case tl_AppendCertsFromPEM tls pem of
                                  None \<Rightarrow> Inl ''prom/auth: CA bundle has no PEM blocks''
                                | Some pool \<Rightarrow> Inr (out\<lparr>tf_RootCAs := Some pool\<rparr>))
             else Inr out)"

text \<open>
  The token under the two locks: the quick look under the read lock, and the refresh under the write
  lock, which looks again first. Other calls may come between the two.
\<close>

definition token_fast :: "fileTokenAuth \<Rightarrow> instant \<Rightarrow> (string + string) option" where
  "token_fast f now =
     (if fa_cached f \<noteq> [] \<and> time_sub now (fa_cachedAt f) < fa_refresh f then Some (Inr (fa_cached f))
      else case fa_cachedErr f of
             Some err \<Rightarrow> if time_sub now (fa_cachedAt f) < fa_refresh f then Some (Inl err) else None
           | None \<Rightarrow> None)"

definition token_slow :: "fileTokenAuth \<Rightarrow> instant \<Rightarrow> (string \<Rightarrow> string + string) \<Rightarrow> fileTokenAuth \<times> (string + string)" where
  "token_slow f now readFile =
     (if fa_cached f \<noteq> [] \<and> time_sub now (fa_cachedAt f) < fa_refresh f then (f, Inr (fa_cached f))
      else case readFile (fa_path f) of
             Inl err \<Rightarrow> (f\<lparr>fa_cachedErr := Some err, fa_cachedAt := now\<rparr>,
                         Inl (''prom/auth: read token '' @ fa_path f @ '': '' @ err))
           | Inr raw \<Rightarrow>
               let f = f\<lparr>fa_cached := trim_space raw, fa_cachedAt := now, fa_cachedErr := None\<rparr>
               in (f, if fa_cached f = [] then Inl (''prom/auth: token file '' @ fa_path f @ '' is empty'')
                      else Inr (fa_cached f)))"

definition file_token :: "fileTokenAuth \<Rightarrow> instant \<Rightarrow> (string \<Rightarrow> string + string) \<Rightarrow> fileTokenAuth \<times> (string + string)" where
  "file_token f now readFile =
     (case token_fast f now of Some r \<Rightarrow> (f, r) | None \<Rightarrow> token_slow f now readFile)"

text \<open>What \<open>Apply\<close> does to a request.\<close>

datatype auth_header = NoHeader | SetHeader string string | SetBasicAuth string string

definition Auth_Apply :: "Authenticator \<Rightarrow> instant \<Rightarrow> (string \<Rightarrow> string + string) \<Rightarrow> Authenticator \<times> (string + auth_header)" where
  "Auth_Apply a now readFile =
     (case a of
        NoopAuth \<Rightarrow> (a, Inr NoHeader)
      | MtlsAuth \<Rightarrow> (a, Inr NoHeader)
      | HeaderAuth h v \<Rightarrow> (a, Inr (SetHeader h v))
      | BasicAuth u p \<Rightarrow> (a, Inr (SetBasicAuth u p))
      | FileAuth f \<Rightarrow>
          let (f', r) = file_token f now readFile
          in (FileAuth f', case r of Inl err \<Rightarrow> Inl err | Inr tok \<Rightarrow> Inr (SetHeader ''Authorization'' (fa_scheme f @ '' '' @ tok))))"

section \<open>The client (\<^verbatim>\<open>prom.go\<close>)\<close>

record ('cert, 'pool) HTTPClient =
  cl_BaseURL :: string
  cl_Timeout :: duration
  cl_MaxBodyBytes :: i64
  cl_Auth :: Authenticator
  cl_TLS :: "('cert, 'pool) TLS_Config option"
  cl_Obs :: bool

type_synonym ('cert, 'pool) HTTPOption = "('cert, 'pool) HTTPClient \<Rightarrow> string + ('cert, 'pool) HTTPClient"

definition WithAuth :: "Authenticator \<Rightarrow> ('cert, 'pool) HTTPOption" where
  "WithAuth a c = Inr (c\<lparr>cl_Auth := a\<rparr>)"

definition WithObserver :: "('cert, 'pool) HTTPOption" where
  "WithObserver c = Inr (c\<lparr>cl_Obs := True\<rparr>)"

definition WithTimeout :: "duration \<Rightarrow> ('cert, 'pool) HTTPOption" where
  "WithTimeout d c = (if d \<le> 0 then Inl ''prom: timeout must be positive'' else Inr (c\<lparr>cl_Timeout := d\<rparr>))"

definition WithMaxBodyBytes :: "i64 \<Rightarrow> ('cert, 'pool) HTTPOption" where
  "WithMaxBodyBytes n c = (if n \<le> 0 then Inl ''prom: MaxBodyBytes must be positive'' else Inr (c\<lparr>cl_MaxBodyBytes := n\<rparr>))"

fun apply_options :: "('cert, 'pool) HTTPOption list \<Rightarrow> ('cert, 'pool) HTTPOption" where
  "apply_options [] c = Inr c"
| "apply_options (opt # opts) c = (case opt c of Inl err \<Rightarrow> Inl err | Inr c \<Rightarrow> apply_options opts c)"

text \<open>\<open>scheme\<close> is the scheme \<open>url.Parse\<close> finds, or its error.\<close>

definition NewHTTPClient ::
  "(string \<Rightarrow> string + string) \<Rightarrow> string \<Rightarrow> ('cert, 'pool) HTTPOption list \<Rightarrow> string + ('cert, 'pool) HTTPClient" where
  "NewHTTPClient scheme baseURL opts =
     (if trim_space baseURL = [] then Inl ''prom: empty BaseURL''
      else case scheme baseURL of
             Inl err \<Rightarrow> Inl (''prom: parse url: '' @ err)
           | Inr s \<Rightarrow>
               if s \<noteq> ''http'' \<and> s \<noteq> ''https'' then Inl (''prom: scheme '' @ s @ '' not supported'')
               else apply_options opts
                 \<lparr>cl_BaseURL = trim_right {CHR ''/''} baseURL, cl_Timeout = nanoseconds 30,
                  cl_MaxBodyBytes = 64 * 2 ^ 20, cl_Auth = NoopAuth, cl_TLS = None, cl_Obs = False\<rparr>)"

definition NewHTTPClientWithMTLS ::
  "('cert, 'pool) Tls_Lib \<Rightarrow> (string \<Rightarrow> string + string) \<Rightarrow> string \<Rightarrow> AuthConfig \<Rightarrow> ('cert, 'pool) HTTPOption list \<Rightarrow>
   string + ('cert, 'pool) HTTPClient" where
  "NewHTTPClientWithMTLS tls scheme baseURL cfg opts =
     (if ac_Mode cfg \<noteq> AuthMTLS then Inl (''prom: NewHTTPClientWithMTLS called with mode='' @ ac_Mode cfg)
      else case BuildTLSConfig tls cfg of
             Inl err \<Rightarrow> Inl err
           | Inr tlsCfg \<Rightarrow>
               (case NewHTTPClient scheme baseURL opts of
                  Inl err \<Rightarrow> Inl err
                | Inr c \<Rightarrow> Inr (c\<lparr>cl_TLS := Some tlsCfg, cl_Auth := MtlsAuth\<rparr>)))"

definition decodePair :: "Prom_Lib \<Rightarrow> string \<Rightarrow> string \<Rightarrow> (instant \<times> f64) option" where
  "decodePair lib tsRaw valRaw =
     (case pl_Float lib tsRaw of None \<Rightarrow> None | Some tsSec \<Rightarrow>
      case pl_String lib valRaw of None \<Rightarrow> None | Some raw \<Rightarrow>
      case parse_float raw of
        Inl _ \<Rightarrow> None
      | Inr v \<Rightarrow>
          let whole = f64_to_i64 (pl_Conv lib) tsSec;
              frac' = f64_to_i64 (pl_Conv lib) (f64_mul (f64_sub tsSec (f64_of_int whole)) (Fin 1000000000))
          in Some (unix_time whole frac', v))"

text \<open>A value of exactly two raw parts that both decode, or nothing.\<close>

definition value_pair :: "Prom_Lib \<Rightarrow> string list \<Rightarrow> (instant \<times> f64) option" where
  "value_pair lib xs = (case xs of [a, b] \<Rightarrow> decodePair lib a b | _ \<Rightarrow> None)"

fun instant_loop :: "Prom_Lib \<Rightarrow> instantResult list \<Rightarrow> Sample list" where
  "instant_loop lib [] = []"
| "instant_loop lib (r # rs) =
     (case value_pair lib (iz_Value r) of
        None \<Rightarrow> instant_loop lib rs
      | Some (at', v) \<Rightarrow> \<lparr>sm_Labels = iz_Metric r, sm_Value = v, sm_At = at'\<rparr> # instant_loop lib rs)"

definition parseInstant :: "Prom_Lib \<Rightarrow> string \<Rightarrow> prom_client_error + Sample list" where
  "parseInstant lib body =
     (case pl_Instant lib body of
        Inl err \<Rightarrow> Inl (PcDecode err)
      | Inr parsed \<Rightarrow>
          if in_Status parsed \<noteq> ''success'' then Inl (PcApi (in_Error parsed))
          else Inr (instant_loop lib (in_Result parsed)))"

fun points_loop :: "Prom_Lib \<Rightarrow> string list list \<Rightarrow> Point list" where
  "points_loop lib [] = []"
| "points_loop lib (p # ps) =
     (case value_pair lib p of
        None \<Rightarrow> points_loop lib ps
      | Some (at', v) \<Rightarrow> \<lparr>pt_At = at', pt_Value = v\<rparr> # points_loop lib ps)"

definition parseRange :: "Prom_Lib \<Rightarrow> string \<Rightarrow> prom_client_error + Series list" where
  "parseRange lib body =
     (case pl_Range lib body of
        Inl err \<Rightarrow> Inl (PcDecode err)
      | Inr parsed \<Rightarrow>
          if rr_Status parsed \<noteq> ''success'' then Inl (PcApi (rr_Error parsed))
          else if rr_ResultType parsed \<noteq> ''matrix'' then Inl (PcResultType (rr_ResultType parsed))
          else Inr (map (\<lambda>r. \<lparr>se_Labels = rz_Metric r, se_Points = points_loop lib (rz_Values r)\<rparr>) (rr_Result parsed)))"

definition statusBucket :: "int \<Rightarrow> string" where
  "statusBucket status =
     (if status = 401 then ''401''
      else if status = 403 then ''403''
      else if status = 404 then ''404''
      else if status = 429 then ''429''
      else if status \<ge> 500 then ''5xx''
      else if status \<ge> 400 then ''4xx''
      else show_int status)"

text \<open>
  One answer of the server: the status, the body as far as it can be read, and a read error, which a
  reader that stops earlier does not meet.
\<close>

record Reply =
  rp_Status :: int
  rp_Body :: string
  rp_ReadErr :: "string option"

text \<open>The world one attempt meets: the clock, the file system, and what sending the request gives.\<close>

record attempt =
  am_Now :: instant
  am_ReadFile :: "string \<Rightarrow> string + string"
  am_Do :: "string \<Rightarrow> auth_header \<Rightarrow> string + Reply"

type_synonym 'a query_outcome = "Authenticator \<times> string \<times> (prom_client_error + 'a)"

definition doOnce ::
  "Prom_Lib \<Rightarrow> i64 \<Rightarrow> attempt \<Rightarrow> Authenticator \<Rightarrow> string \<Rightarrow> (string \<Rightarrow> prom_client_error + 'a) \<Rightarrow> 'a query_outcome" where
  "doOnce lib maxBody w auth endpoint parse =
     (case pl_NewRequest lib endpoint of
        Some err \<Rightarrow> (auth, ''build_error'', Inl (PcBuild err))
      | None \<Rightarrow>
          let (auth, applied) = Auth_Apply auth (am_Now w) (am_ReadFile w)
          in case applied of
               Inl err \<Rightarrow> (auth, ''auth_error'', Inl (PcAuth err))
             | Inr h \<Rightarrow>
                 (case am_Do w endpoint h of
                    Inl err \<Rightarrow> (auth, ''transport_error'', Inl (PcTransport err))
                  | Inr resp \<Rightarrow>
                      if rp_Status resp \<noteq> 200
                      then (auth, statusBucket (rp_Status resp),
                            Inl (PcHttp (rp_Status resp) (trim_space (take 4096 (rp_Body resp)))))
                      else case (if length (rp_Body resp) < nat maxBody then rp_ReadErr resp else None) of
                             Some err \<Rightarrow> (auth, ''read_error'', Inl (PcRead err))
                           | None \<Rightarrow>
                               (case parse (take (nat maxBody) (rp_Body resp)) of
                                  Inl err \<Rightarrow> (auth, ''decode_error'', Inl err)
                                | Inr out \<Rightarrow> (auth, ''ok'', Inr out))))"

definition server_error :: "prom_client_error + 'a \<Rightarrow> bool" where
  "server_error r \<longleftrightarrow> (case r of Inl (PcHttp st _) \<Rightarrow> st \<ge> 500 | _ \<Rightarrow> False)"

text \<open>At most two attempts; the world of the \<open>k\<close>-th is \<open>ws k\<close>.\<close>

fun attempts ::
  "Prom_Lib \<Rightarrow> i64 \<Rightarrow> (nat \<Rightarrow> attempt) \<Rightarrow> nat \<Rightarrow> nat \<Rightarrow> string \<Rightarrow> (string \<Rightarrow> prom_client_error + 'a) \<Rightarrow> 'a query_outcome \<Rightarrow> 'a query_outcome" where
  "attempts lib maxBody ws k 0 endpoint parse last_out = last_out"
| "attempts lib maxBody ws k (Suc n) endpoint parse last_out =
     (let out = doOnce lib maxBody (ws k) (fst last_out) endpoint parse
      in if server_error (snd (snd out)) then attempts lib maxBody ws (Suc k) n endpoint parse out else out)"

definition do_query ::
  "Prom_Lib \<Rightarrow> ('cert, 'pool) HTTPClient \<Rightarrow> (nat \<Rightarrow> attempt) \<Rightarrow> string \<Rightarrow> (string \<Rightarrow> prom_client_error + 'a) \<Rightarrow> 'a query_outcome" where
  "do_query lib c ws endpoint parse =
     attempts lib (cl_MaxBodyBytes c) ws 0 2 endpoint parse (cl_Auth c, [], Inl (PcBuild []))"

definition formatTime :: "Prom_Lib \<Rightarrow> instant \<Rightarrow> string" where
  "formatTime lib t =
     pl_FormatFloat lib (f64_add (f64_of_int (Unix t)) (f64_div (f64_of_int (t mod 1000000000)) (Fin 1000000000)))"

text \<open>A query changes the authenticator's state, tells the observer, if any, and answers.\<close>

type_synonym ('cert, 'pool, 'a) queried = "('cert, 'pool) HTTPClient \<times> (string \<times> string) list \<times> (prom_client_error + 'a)"

definition finish_query :: "('cert, 'pool) HTTPClient \<Rightarrow> string \<Rightarrow> 'a query_outcome \<Rightarrow> ('cert, 'pool, 'a) queried" where
  "finish_query c kind out =
     (case out of (auth, status, r) \<Rightarrow> (c\<lparr>cl_Auth := auth\<rparr>, if cl_Obs c then [(kind, status)] else [], r))"

definition Prom_Query ::
  "Prom_Lib \<Rightarrow> ('cert, 'pool) HTTPClient \<Rightarrow> (nat \<Rightarrow> attempt) \<Rightarrow> string \<Rightarrow> instant \<Rightarrow> ('cert, 'pool, Sample list) queried" where
  "Prom_Query lib c ws promql at' =
     (let endpoint = cl_BaseURL c @ ''/api/v1/query?'' @ pl_Encode lib [(''query'', promql), (''time'', formatTime lib at')]
      in finish_query c ''query'' (do_query lib c ws endpoint (parseInstant lib)))"

definition Prom_QueryRange ::
  "Prom_Lib \<Rightarrow> ('cert, 'pool) HTTPClient \<Rightarrow> (nat \<Rightarrow> attempt) \<Rightarrow> string \<Rightarrow> Prom_Range \<Rightarrow> ('cert, 'pool, Series list) queried" where
  "Prom_QueryRange lib c ws promql r =
     (if rn_Step r \<le> 0 then (c, [], Inl PcNoStep)
      else if \<not> rn_Start r < rn_End r then (c, [], Inl PcEmptyRange)
      else let endpoint = cl_BaseURL c @ ''/api/v1/query_range?'' @
                 pl_Encode lib [(''query'', promql), (''start'', formatTime lib (rn_Start r)),
                                (''end'', formatTime lib (rn_End r)), (''step'', pl_FormatFloat lib (seconds_of (rn_Step r)))]
           in finish_query c ''query_range'' (do_query lib c ws endpoint (parseRange lib)))"

section \<open>What a query reports\<close>

lemma show_int_chars: "c \<in> set (show_int n) \<Longrightarrow> is_digit c \<or> c = CHR ''-''"
  by (auto simp: show_int_def split: if_splits dest: show_nat_digits)

lemma show_int_not_word: "show_int n \<noteq> ''ok''" "show_int n \<noteq> ''5xx''"
  using show_int_chars[of "CHR ''k''" n] show_int_chars[of "CHR ''x''" n] by (auto simp: is_digit_def)

lemma statusBucket_ok: "statusBucket st \<noteq> ''ok''"
  by (simp add: statusBucket_def show_int_not_word)

lemma statusBucket_5xx: "statusBucket st = ''5xx'' \<longleftrightarrow> 500 \<le> st"
  by (simp add: statusBucket_def show_int_not_word)

lemma doOnce_status:
  assumes "doOnce lib n w auth endpoint parse = (auth', st, r)"
    and "\<And>body n msg. parse body \<noteq> Inl (PcHttp n msg)"
  shows "(st = ''ok'' \<longleftrightarrow> (\<exists>x. r = Inr x)) \<and> (st = ''5xx'' \<longleftrightarrow> server_error r)"
  using assms
  by (auto simp: doOnce_def Let_def server_error_def statusBucket_ok statusBucket_5xx
    split: option.splits sum.splits prod.splits if_splits prom_client_error.splits)

lemma do_query_two:
  "do_query lib c ws endpoint parse =
    (let out = doOnce lib (cl_MaxBodyBytes c) (ws 0) (cl_Auth c) endpoint parse
     in if server_error (snd (snd out)) then doOnce lib (cl_MaxBodyBytes c) (ws 1) (fst out) endpoint parse else out)"
  by (simp add: do_query_def numeral_2_eq_2 Let_def)

lemma parse_no_http:
  "parseInstant lib body \<noteq> Inl (PcHttp n msg)" "parseRange lib body \<noteq> Inl (PcHttp n msg)"
  by (auto simp: parseInstant_def parseRange_def split: sum.splits)

lemma do_query_attempt:
  assumes "do_query lib c ws endpoint parse = (auth', st, r)"
  obtains w a where "doOnce lib (cl_MaxBodyBytes c) w a endpoint parse = (auth', st, r)"
  using assms by (auto simp: do_query_two Let_def split: if_splits)

lemma do_query_status:
  assumes "do_query lib c ws endpoint parse = (auth', st, r)"
    and "\<And>body n msg. parse body \<noteq> Inl (PcHttp n msg)"
  shows "(st = ''ok'' \<longleftrightarrow> (\<exists>x. r = Inr x)) \<and> (st = ''5xx'' \<longleftrightarrow> server_error r)"
proof -
  obtain w a where "doOnce lib (cl_MaxBodyBytes c) w a endpoint parse = (auth', st, r)"
    using do_query_attempt[OF assms(1)] .
  then show ?thesis by (rule doOnce_status[OF _ assms(2)])
qed

text \<open>
  What a query reports: one observation, labelled ok exactly when there are samples and 5xx exactly
  when the error is one of the server; a second request is sent exactly when the first answer was such
  an error, and then the second answer is the one that counts; the samples are the results with a pair
  of a time and a value that both decode, in their order, with the labels of their result.
\<close>

lemma query_reports:
  assumes "cl_Obs c" and "Prom_Query lib c ws promql t = (c', obs, r)"
  defines "endpoint \<equiv> cl_BaseURL c @ ''/api/v1/query?'' @ pl_Encode lib [(''query'', promql), (''time'', formatTime lib t)]"
  defines "first \<equiv> doOnce lib (cl_MaxBodyBytes c) (ws 0) (cl_Auth c) endpoint (parseInstant lib)"
  shows "(\<exists>st. obs = [(''query'', st)] \<and> (st = ''ok'' \<longleftrightarrow> (\<exists>samples. r = Inr samples)) \<and> (st = ''5xx'' \<longleftrightarrow> server_error r)) \<and>
    r = snd (snd (if server_error (snd (snd first))
                  then doOnce lib (cl_MaxBodyBytes c) (ws 1) (fst first) endpoint (parseInstant lib) else first)) \<and>
    (\<forall>samples. r = Inr samples \<longrightarrow> (\<exists>body parsed. pl_Instant lib body = Inr parsed \<and> in_Status parsed = ''success'' \<and>
       samples = List.map_filter (\<lambda>x. map_option (\<lambda>(at', v). \<lparr>sm_Labels = iz_Metric x, sm_Value = v, sm_At = at'\<rparr>)
         (value_pair lib (iz_Value x))) (in_Result parsed)))"
proof -
  obtain auth' st where out: "do_query lib c ws endpoint (parseInstant lib) = (auth', st, r)" and "obs = [(''query'', st)]"
    using assms(1,2) by (auto simp: Prom_Query_def finish_query_def endpoint_def Let_def split: prod.splits)
  moreover have "r = snd (snd (if server_error (snd (snd first))
      then doOnce lib (cl_MaxBodyBytes c) (ws 1) (fst first) endpoint (parseInstant lib) else first))"
    using out by (simp add: do_query_two first_def Let_def split: if_splits)
  moreover have "\<exists>body parsed. pl_Instant lib body = Inr parsed \<and> in_Status parsed = ''success'' \<and>
       samples = List.map_filter (\<lambda>x. map_option (\<lambda>(at', v). \<lparr>sm_Labels = iz_Metric x, sm_Value = v, sm_At = at'\<rparr>)
         (value_pair lib (iz_Value x))) (in_Result parsed)" if "r = Inr samples" for samples
  proof -
    have "instant_loop lib rs = List.map_filter (\<lambda>x. map_option (\<lambda>(at', v).
        \<lparr>sm_Labels = iz_Metric x, sm_Value = v, sm_At = at'\<rparr>) (value_pair lib (iz_Value x))) rs" for rs
      by (induction rs) (auto simp: List.map_filter_simps split: option.splits)
    moreover obtain w a where "doOnce lib (cl_MaxBodyBytes c) w a endpoint (parseInstant lib) = (auth', st, r)"
      using do_query_attempt[OF out] .
    with that obtain body where "parseInstant lib body = Inr samples"
      by (auto simp: doOnce_def Let_def split: option.splits sum.splits prod.splits if_splits)
    ultimately show ?thesis by (auto simp: parseInstant_def split: sum.splits if_splits)
  qed
  ultimately show ?thesis
    using do_query_status[OF out parse_no_http(1)] by blast
qed

section \<open>Tokens from a file\<close>

definition plain_refresh :: "fileTokenAuth \<Rightarrow> bool" where
  "plain_refresh f \<longleftrightarrow> 0 < fa_refresh f \<and> fa_refresh f < 2 ^ 63"

lemma file_token_due:
  assumes "plain_refresh f" "fa_cachedAt f + fa_refresh f \<le> now"
  shows "file_token f now rd = token_slow f now rd"
  using assms time_sub_less_iff[of "fa_refresh f" now "fa_cachedAt f"]
  by (simp add: file_token_def token_fast_def plain_refresh_def split: option.splits)

text \<open>
  A failed refresh is forgotten: when a token is cached and reading the file again fails, that one
  call reports the failure, but the failure has moved the time of the cache, so every call of the next
  refresh period hands the old token out as if it had been read, without looking at the file and
  without an error, though the error is kept for exactly this; and then it happens again, so a token
  that can no longer be read is used forever.
\<close>

lemma stale_token_served:
  assumes "plain_refresh f" "fa_cached f = tok" "tok \<noteq> []"
    and "fa_cachedAt f + fa_refresh f \<le> now" "rd (fa_path f) = Inl err"
  shows "\<exists>f'. file_token f now rd = (f', Inl (''prom/auth: read token '' @ fa_path f @ '': '' @ err)) \<and>
    (\<forall>later rd'. later < now + fa_refresh f \<longrightarrow> file_token f' later rd' = (f', Inr tok)) \<and>
    plain_refresh f' \<and> fa_cached f' = tok \<and> fa_path f' = fa_path f \<and> fa_cachedAt f' + fa_refresh f' = now + fa_refresh f"
proof -
  have "\<not> time_sub now (fa_cachedAt f) < fa_refresh f"
    using assms time_sub_less_iff[of "fa_refresh f" now "fa_cachedAt f"] by (simp add: plain_refresh_def)
  moreover have "time_sub later now < fa_refresh f" if "later < now + fa_refresh f" for later
    using assms that time_sub_less_iff[of "fa_refresh f" later now] by (simp add: plain_refresh_def)
  moreover have "file_token f now rd = token_slow f now rd"
    using assms(1,4) by (rule file_token_due)
  ultimately show ?thesis
    using assms by (intro exI[of _ "f\<lparr>fa_cachedErr := Some err, fa_cachedAt := now\<rparr>"])
      (auto simp: token_slow_def file_token_def token_fast_def plain_refresh_def)
qed

theorem stale_token_served_witness:
  "\<exists>f'. file_token ((newFileTokenAuth ''/token'' ''Bearer'' 60)\<lparr>fa_cached := ''old''\<rparr>) 100 (\<lambda>_. Inl ''no such file'') =
      (f', Inl (''prom/auth: read token /token: no such file'')) \<and>
    file_token f' 150 (\<lambda>_. Inr ''new'') = (f', Inr ''old'')"
  using stale_token_served[of "(newFileTokenAuth ''/token'' ''Bearer'' 60)\<lparr>fa_cached := ''old''\<rparr>" "''old''" 100 "\<lambda>_. Inl ''no such file''" "''no such file''"]
  by (auto simp: newFileTokenAuth_def plain_refresh_def)

definition sample_lib :: Prom_Lib where
  "sample_lib = \<lparr>pl_Instant = (\<lambda>_. Inr \<lparr>in_Status = ''success'', in_ResultType = ''vector'',
       in_Result = [\<lparr>iz_Metric = [(''pod'', ''a'')], iz_Value = [''1'', ''2'']\<rparr>], in_Error = []\<rparr>),
     pl_Range = (\<lambda>_. Inl []), pl_Float = (\<lambda>_. Some (Fin 1)), pl_String = Some, pl_Conv = (\<lambda>_. 0),
     pl_Encode = (\<lambda>_. []), pl_FormatFloat = (\<lambda>_. []), pl_NewRequest = (\<lambda>_. None)\<rparr>"

definition sample_client :: "(string, string) HTTPClient" where
  "sample_client = \<lparr>cl_BaseURL = ''http://p'', cl_Timeout = 30, cl_MaxBodyBytes = 64, cl_Auth = NoopAuth, cl_TLS = None, cl_Obs = True\<rparr>"

theorem query_reports_witness:
  "\<exists>c' st r. Prom_Query sample_lib sample_client
      (\<lambda>k. \<lparr>am_Now = 0, am_ReadFile = Inr, am_Do = (\<lambda>_ _. Inr \<lparr>rp_Status = (if k = 0 then 503 else 200), rp_Body = [], rp_ReadErr = None\<rparr>)\<rparr>)
      ''up'' 0 = (c', [(''query'', st)], r) \<and> (st = ''ok'' \<longleftrightarrow> (\<exists>samples. r = Inr samples))"
proof -
  let ?ws = "\<lambda>k. \<lparr>am_Now = 0, am_ReadFile = Inr, am_Do = (\<lambda>_ _. Inr \<lparr>rp_Status = (if k = 0 then 503 else 200), rp_Body = [], rp_ReadErr = None\<rparr>)\<rparr>"
  obtain c' obs r where q: "Prom_Query sample_lib sample_client ?ws ''up'' 0 = (c', obs, r)"
    by (metis prod_cases3)
  have "cl_Obs sample_client" by (simp add: sample_client_def)
  from query_reports[OF this q] q show ?thesis by blast
qed

end
