(* ===== verification/Cluster.thy ===== *)
theory Cluster
  imports Validator Operators Tenancy Go_Strings Go_Time "HOL-Library.AList"
begin

text \<open>
  \<^verbatim>\<open>backend/internal/agent/cluster\<close>, the readers over the informer caches: events, autoscalers,
  policies, workloads and owners (\<^verbatim>\<open>events.go\<close>, \<^verbatim>\<open>hpa.go\<close>, \<^verbatim>\<open>policy.go\<close>, \<^verbatim>\<open>workloads.go\<close>,
  \<^verbatim>\<open>snapshot.go\<close>, \<^verbatim>\<open>owner.go\<close>). A cache is what client-go's indexer answers: the list of its items
  and the items of a namespace, where \<open>None\<close> is an item of another type or nil. The label-selector
  library, the quantities of apimachinery and the dynamic client are parameters.
\<close>

record 'a Indexer =
  ix_List :: "'a option list"
  ix_ByIndex :: "string \<Rightarrow> string + 'a option list"

record K8s_WorkloadRef =
  kr_ClusterID :: string
  kr_Namespace :: string
  kr_Kind :: string
  kr_Name :: string

section \<open>Events (\<^verbatim>\<open>events.go\<close>)\<close>

record K8s_Event =
  ke_Namespace :: string
  ke_Kind :: string
  ke_Name :: string
  ke_Reason :: string
  ke_Type :: string
  ke_Count :: i64
  ke_FirstTimestamp :: instant
  ke_LastTimestamp :: instant
  ke_EventTime :: instant
  ke_CreationTimestamp :: instant
  ke_Message :: string

record Agent_Event =
  ae_Workload :: K8s_WorkloadRef
  ae_Reason :: string
  ae_Type :: string
  ae_Count :: i64
  ae_FirstSeen :: instant
  ae_LastSeen :: instant
  ae_Message :: string

text \<open>\<open>strings.LastIndex\<close> of one character; \<open>None\<close> is the result -1.\<close>

fun last_index :: "char \<Rightarrow> string \<Rightarrow> nat option" where
  "last_index c [] = None"
| "last_index c (x # xs) =
     (case last_index c xs of Some i \<Rightarrow> Some (Suc i) | None \<Rightarrow> if x = c then Some 0 else None)"

fun strip_loop :: "nat \<Rightarrow> string \<Rightarrow> string \<Rightarrow> bool" where
  "strip_loop 0 stripped want = False"
| "strip_loop (Suc n) stripped want =
     (case last_index (CHR ''-'') stripped of
        None \<Rightarrow> False
      | Some 0 \<Rightarrow> False
      | Some dash \<Rightarrow> let stripped = take dash stripped
                     in if stripped = want then True else strip_loop n stripped want)"

definition matchesWorkloadName :: "string \<Rightarrow> string \<Rightarrow> bool" where
  "matchesWorkloadName involved want = (if involved = want then True else strip_loop 2 involved want)"

definition event_last :: "K8s_Event \<Rightarrow> instant" where
  "event_last ev =
     (let last = ke_LastTimestamp ev;
          last = (if last = 0 then ke_EventTime ev else last)
      in if last = 0 then ke_CreationTimestamp ev else last)"

text \<open>
  \<open>strings.EqualFold\<close>, as far as a comparison with an ASCII text can see it: ASCII letters, the Kelvin
  sign and the long s.
\<close>

fun fold_case :: "string \<Rightarrow> string" where
  "fold_case [] = []"
| "fold_case (c # s) =
     (if c = CHR 0xC5 \<and> take 1 s = [CHR 0xBF] then CHR ''s'' # fold_case (drop 1 s)
      else if c = CHR 0xE2 \<and> take 2 s = [CHR 0x84, CHR 0xAA] then CHR ''k'' # fold_case (drop 2 s)
      else if 65 \<le> (of_char c :: nat) \<and> (of_char c :: nat) \<le> 90
      then char_of ((of_char c :: nat) + 32) # fold_case s
      else c # fold_case s)"

definition equal_fold :: "string \<Rightarrow> string \<Rightarrow> bool" where
  "equal_fold s t \<longleftrightarrow> fold_case s = fold_case t"

fun recent_loop :: "K8s_WorkloadRef \<Rightarrow> instant \<Rightarrow> K8s_Event option list \<Rightarrow> Agent_Event list" where
  "recent_loop w since [] = []"
| "recent_loop w since (None # items) = recent_loop w since items"
| "recent_loop w since (Some ev # items) =
     (if ke_Namespace ev \<noteq> kr_Namespace w then recent_loop w since items
      else if kr_Kind w \<noteq> [] \<and> \<not> equal_fold (ke_Kind ev) (kr_Kind w) then recent_loop w since items
      else if kr_Name w \<noteq> [] \<and> \<not> matchesWorkloadName (ke_Name ev) (kr_Name w) then recent_loop w since items
      else let last = event_last ev
           in if since \<noteq> 0 \<and> last < since then recent_loop w since items
              else \<lparr>ae_Workload = w, ae_Reason = ke_Reason ev, ae_Type = ke_Type ev, ae_Count = ke_Count ev,
                    ae_FirstSeen = (if ke_FirstTimestamp ev = 0 then last else ke_FirstTimestamp ev),
                    ae_LastSeen = last, ae_Message = ke_Message ev\<rparr> # recent_loop w since items)"

definition Events_Recent :: "K8s_Event Indexer option \<Rightarrow> K8s_WorkloadRef \<Rightarrow> instant \<Rightarrow> Agent_Event list" where
  "Events_Recent ix w since = (case ix of None \<Rightarrow> [] | Some x \<Rightarrow> recent_loop w since (ix_List x))"

section \<open>Autoscalers (\<^verbatim>\<open>hpa.go\<close>)\<close>

record MetricSpec =
  ms_Type :: string
  ms_Resource :: "(string \<times> i64 option) option"

record HPA_Condition =
  hc_Type :: string
  hc_Status :: string

record K8s_HPA =
  kh_Namespace :: string
  kh_TargetKind :: string
  kh_TargetName :: string
  kh_MinReplicas :: "i64 option"
  kh_MaxReplicas :: i64
  kh_CurrentReplicas :: i64
  kh_Metrics :: "MetricSpec list"
  kh_Conditions :: "HPA_Condition list"

record HPAState =
  hz_MinReplicas :: i64
  hz_MaxReplicas :: i64
  hz_CurrentReplicas :: i64
  hz_TargetCPUUtil :: i64
  hz_TargetMemoryUtil :: i64
  hz_ConditionsHealthy :: bool

definition intOrZero :: "i64 option \<Rightarrow> i64" where
  "intOrZero p = (case p of None \<Rightarrow> 0 | Some v \<Rightarrow> v)"

fun targetUtil :: "MetricSpec list \<Rightarrow> string \<Rightarrow> string \<Rightarrow> i64" where
  "targetUtil [] kind name = 0"
| "targetUtil (m # ms) kind name =
     (case ms_Resource m of
        None \<Rightarrow> targetUtil ms kind name
      | Some (rname, util) \<Rightarrow>
          if ms_Type m \<noteq> kind then targetUtil ms kind name
          else if rname \<noteq> name then targetUtil ms kind name
          else case util of None \<Rightarrow> targetUtil ms kind name | Some u \<Rightarrow> u)"

fun conditionsHealthy :: "HPA_Condition list \<Rightarrow> bool" where
  "conditionsHealthy [] = True"
| "conditionsHealthy (c # cs) =
     (if hc_Type c \<in> {''AbleToScale'', ''ScalingActive''} \<and> hc_Status c \<noteq> ''True'' then False
      else conditionsHealthy cs)"

fun hpa_loop :: "K8s_WorkloadRef \<Rightarrow> K8s_HPA option list \<Rightarrow> HPAState option" where
  "hpa_loop w [] = None"
| "hpa_loop w (None # items) = hpa_loop w items"
| "hpa_loop w (Some hpa # items) =
     (if kh_TargetKind hpa \<noteq> kr_Kind w \<or> kh_TargetName hpa \<noteq> kr_Name w then hpa_loop w items
      else Some \<lparr>hz_MinReplicas = intOrZero (kh_MinReplicas hpa), hz_MaxReplicas = kh_MaxReplicas hpa,
                 hz_CurrentReplicas = kh_CurrentReplicas hpa,
                 hz_TargetCPUUtil = targetUtil (kh_Metrics hpa) ''Resource'' ''cpu'',
                 hz_TargetMemoryUtil = targetUtil (kh_Metrics hpa) ''Resource'' ''memory'',
                 hz_ConditionsHealthy = conditionsHealthy (kh_Conditions hpa)\<rparr>)"

definition HPA_Get :: "K8s_HPA Indexer option \<Rightarrow> K8s_WorkloadRef \<Rightarrow> string + HPAState option" where
  "HPA_Get ix w =
     (case ix of
        None \<Rightarrow> Inr None
      | Some x \<Rightarrow> (case ix_ByIndex x (kr_Namespace w) of
                     Inl err \<Rightarrow> Inl (''cluster/hpa: index lookup: '' @ err)
                   | Inr items \<Rightarrow> Inr (hpa_loop w items)))"

section \<open>Policies (\<^verbatim>\<open>policy.go\<close>)\<close>

text \<open>A quantity of apimachinery is what its two readings give; a missing entry is the zero quantity.\<close>

record K8s_Quantity =
  kq_MilliValue :: i64
  kq_Value :: i64

type_synonym resource_list = "string \<rightharpoonup> K8s_Quantity"

definition resource_at :: "resource_list \<Rightarrow> string \<Rightarrow> K8s_Quantity" where
  "resource_at m k = (case m k of Some q \<Rightarrow> q | None \<Rightarrow> \<lparr>kq_MilliValue = 0, kq_Value = 0\<rparr>)"

definition resourceMillicores :: "K8s_Quantity \<Rightarrow> i64" where
  "resourceMillicores q = kq_MilliValue q"

definition resourceBytes :: "K8s_Quantity \<Rightarrow> i64" where
  "resourceBytes q = kq_Value q"

record IntOrString =
  io_Type :: i64
  io_IntVal :: i64

record K8s_PDB =
  kp_Namespace :: string
  kp_MinAvailable :: "IntOrString option"
  kp_MaxUnavailable :: "IntOrString option"
  kp_Selector :: "(string \<times> string) list option"
  kp_CurrentHealthy :: i64

record K8s_Quota =
  kt_Namespace :: string
  kt_Hard :: resource_list
  kt_Used :: resource_list

record LimitRangeItem =
  li_Type :: string
  li_Max :: resource_list
  li_Min :: resource_list

record K8s_LimitRange =
  kl_Namespace :: string
  kl_Limits :: "LimitRangeItem list"

record PolicySnapshot =
  pp_PDB :: "PDB option"
  pp_Quota :: "ResourceQuota option"
  pp_LimitRange :: "LimitRange option"

text \<open>The label-selector library of apimachinery.\<close>

record 'sel Labels_Lib =
  ll_Parse :: "string \<Rightarrow> 'sel option"
  ll_Empty :: "'sel \<Rightarrow> bool"
  ll_Matches :: "'sel \<Rightarrow> (string \<times> string) list \<Rightarrow> bool"

record PolicyR =
  py_pdbIdx :: "K8s_PDB Indexer option"
  py_quotaIdx :: "K8s_Quota Indexer option"
  py_limitIdx :: "K8s_LimitRange Indexer option"

text \<open>The map of a selector is given in the order the loop visits it.\<close>

fun formatSelector_loop :: "string \<Rightarrow> (string \<times> string) list \<Rightarrow> string" where
  "formatSelector_loop out [] = out"
| "formatSelector_loop out ((k, v) # m) =
     formatSelector_loop ((if out \<noteq> [] then out @ '','' else out) @ k @ ''='' @ v) m"

definition formatSelector :: "(string \<times> string) list \<Rightarrow> string" where
  "formatSelector m = formatSelector_loop [] m"

definition pdbSelectorAcceptsWorkload :: "'sel Labels_Lib \<Rightarrow> K8s_PDB \<Rightarrow> K8s_WorkloadRef \<Rightarrow> bool" where
  "pdbSelectorAcceptsWorkload lib pdb w =
     (case kp_Selector pdb of
        None \<Rightarrow> True
      | Some m \<Rightarrow>
          (case ll_Parse lib (formatSelector m) of
             None \<Rightarrow> True
           | Some sel \<Rightarrow> if ll_Empty lib sel then True
                          else ll_Matches lib sel [(''app'', kr_Name w), (''app.kubernetes.io/name'', kr_Name w)]))"

definition int_value :: "IntOrString option \<Rightarrow> i64" where
  "int_value v = (case v of Some x \<Rightarrow> if io_Type x = 0 then io_IntVal x else 0 | None \<Rightarrow> 0)"

fun pdb_loop :: "'sel Labels_Lib \<Rightarrow> K8s_WorkloadRef \<Rightarrow> K8s_PDB option list \<Rightarrow> PDB option" where
  "pdb_loop lib w [] = None"
| "pdb_loop lib w (None # items) = pdb_loop lib w items"
| "pdb_loop lib w (Some pdb # items) =
     (if \<not> pdbSelectorAcceptsWorkload lib pdb w then pdb_loop lib w items
      else Some \<lparr>pdb_MinAvailable = int_value (kp_MinAvailable pdb),
                 pdb_MaxUnavailable = int_value (kp_MaxUnavailable pdb),
                 pdb_CurrentReplicas = kp_CurrentHealthy pdb\<rparr>)"

definition firstPDBForWorkload :: "'sel Labels_Lib \<Rightarrow> PolicyR \<Rightarrow> K8s_WorkloadRef \<Rightarrow> string + PDB option" where
  "firstPDBForWorkload lib r w =
     (case py_pdbIdx r of
        None \<Rightarrow> Inr None
      | Some x \<Rightarrow> (case ix_ByIndex x (kr_Namespace w) of
                     Inl err \<Rightarrow> Inl (''cluster/pdb: index lookup: '' @ err)
                   | Inr items \<Rightarrow> Inr (pdb_loop lib w items)))"

fun quota_loop :: "ResourceQuota \<Rightarrow> K8s_Quota option list \<Rightarrow> ResourceQuota" where
  "quota_loop agg [] = agg"
| "quota_loop agg (None # items) = quota_loop agg items"
| "quota_loop agg (Some q # items) =
     quota_loop \<lparr>rq_CPUMillicores = wrap64 (rq_CPUMillicores agg + resourceMillicores (resource_at (kt_Hard q) ''limits.cpu'')),
                 rq_MemoryBytes = wrap64 (rq_MemoryBytes agg + resourceBytes (resource_at (kt_Hard q) ''limits.memory'')),
                 rq_UsedCPUMilli = wrap64 (rq_UsedCPUMilli agg + resourceMillicores (resource_at (kt_Used q) ''limits.cpu'')),
                 rq_UsedMemoryB = wrap64 (rq_UsedMemoryB agg + resourceBytes (resource_at (kt_Used q) ''limits.memory''))\<rparr>
       items"

definition namespaceQuota :: "PolicyR \<Rightarrow> string \<Rightarrow> string + ResourceQuota option" where
  "namespaceQuota r ns =
     (case py_quotaIdx r of
        None \<Rightarrow> Inr None
      | Some x \<Rightarrow> (case ix_ByIndex x ns of
                     Inl err \<Rightarrow> Inl (''cluster/quota: index lookup: '' @ err)
                   | Inr items \<Rightarrow>
                       if items = [] then Inr None
                       else Inr (Some (quota_loop \<lparr>rq_CPUMillicores = 0, rq_MemoryBytes = 0, rq_UsedCPUMilli = 0,
                                                   rq_UsedMemoryB = 0\<rparr> items))))"

text \<open>One pass over the items of one limit range; the flag says whether an item was seen before.\<close>

fun limit_items :: "LimitRange \<times> bool \<Rightarrow> LimitRangeItem list \<Rightarrow> LimitRange \<times> bool" where
  "limit_items st [] = st"
| "limit_items (out, found) (item # items) =
     (if li_Type item \<noteq> ''Container'' then limit_items (out, found) items
      else let cpuMax = resourceMillicores (resource_at (li_Max item) ''cpu'');
               memMax = resourceBytes (resource_at (li_Max item) ''memory'');
               cpuMin = resourceMillicores (resource_at (li_Min item) ''cpu'');
               memMin = resourceBytes (resource_at (li_Min item) ''memory'');
               out = (if \<not> found \<or> (cpuMax > 0 \<and> cpuMax < lr_MaxCPUMillicores out)
                      then out\<lparr>lr_MaxCPUMillicores := cpuMax\<rparr> else out);
               out = (if \<not> found \<or> (memMax > 0 \<and> memMax < lr_MaxMemoryBytes out)
                      then out\<lparr>lr_MaxMemoryBytes := memMax\<rparr> else out);
               out = (if \<not> found \<or> cpuMin > lr_MinCPUMillicores out then out\<lparr>lr_MinCPUMillicores := cpuMin\<rparr> else out);
               out = (if \<not> found \<or> memMin > lr_MinMemoryBytes out then out\<lparr>lr_MinMemoryBytes := memMin\<rparr> else out)
           in limit_items (out, True) items)"

fun limit_loop :: "LimitRange \<times> bool \<Rightarrow> K8s_LimitRange option list \<Rightarrow> LimitRange \<times> bool" where
  "limit_loop st [] = st"
| "limit_loop st (None # items) = limit_loop st items"
| "limit_loop st (Some l # items) = limit_loop (limit_items st (kl_Limits l)) items"

definition no_limits :: LimitRange where
  "no_limits = \<lparr>lr_MaxCPUMillicores = 0, lr_MaxMemoryBytes = 0, lr_MinCPUMillicores = 0, lr_MinMemoryBytes = 0\<rparr>"

definition namespaceLimitRange :: "PolicyR \<Rightarrow> string \<Rightarrow> string + LimitRange option" where
  "namespaceLimitRange r ns =
     (case py_limitIdx r of
        None \<Rightarrow> Inr None
      | Some x \<Rightarrow> (case ix_ByIndex x ns of
                     Inl err \<Rightarrow> Inl (''cluster/limitrange: index lookup: '' @ err)
                   | Inr items \<Rightarrow> let (out, found) = limit_loop (no_limits, False) items
                                   in Inr (if \<not> found then None else Some out)))"

definition Policy_Snapshot :: "'sel Labels_Lib \<Rightarrow> PolicyR \<Rightarrow> K8s_WorkloadRef \<Rightarrow> string + PolicySnapshot" where
  "Policy_Snapshot lib r w =
     (case firstPDBForWorkload lib r w of Inl err \<Rightarrow> Inl err | Inr pdb \<Rightarrow>
      case namespaceQuota r (kr_Namespace w) of Inl err \<Rightarrow> Inl err | Inr quota \<Rightarrow>
      case namespaceLimitRange r (kr_Namespace w) of Inl err \<Rightarrow> Inl err | Inr limit \<Rightarrow>
        Inr \<lparr>pp_PDB = pdb, pp_Quota = quota, pp_LimitRange = limit\<rparr>)"

section \<open>Workloads and owners (\<^verbatim>\<open>workloads.go\<close>, \<^verbatim>\<open>owner.go\<close>)\<close>

record K8s_OwnerRef =
  ko_APIVersion :: string
  ko_Kind :: string
  ko_Name :: string
  ko_Controller :: "bool option"

record K8s_Object =
  kb_Namespace :: string
  kb_Name :: string
  kb_OwnerReferences :: "K8s_OwnerRef list"

record Cluster_WorkloadRef =
  cw_Namespace :: string
  cw_Kind :: string
  cw_Name :: string

record WorkloadIndex =
  wi_deployments :: "K8s_Object Indexer option"
  wi_statefulSets :: "K8s_Object Indexer option"
  wi_daemonSets :: "K8s_Object Indexer option"
  wi_replicaSets :: "K8s_Object Indexer option"
  wi_pods :: "K8s_Object Indexer option"

definition cached :: "'a Indexer option \<Rightarrow> 'a list" where
  "cached ix = (case ix of None \<Rightarrow> [] | Some x \<Rightarrow> List.map_filter id (ix_List x))"

definition refs_of :: "string \<Rightarrow> K8s_Object Indexer option \<Rightarrow> Cluster_WorkloadRef list" where
  "refs_of kind ix = map (\<lambda>d. \<lparr>cw_Namespace = kb_Namespace d, cw_Kind = kind, cw_Name = kb_Name d\<rparr>) (cached ix)"

definition ListWorkloads :: "WorkloadIndex option \<Rightarrow> Cluster_WorkloadRef list" where
  "ListWorkloads idx =
     (case idx of
        None \<Rightarrow> []
      | Some i \<Rightarrow> refs_of ''Deployment'' (wi_deployments i) @ refs_of ''StatefulSet'' (wi_statefulSets i) @
                  refs_of ''DaemonSet'' (wi_daemonSets i))"

definition is_controller :: "K8s_OwnerRef \<Rightarrow> bool" where
  "is_controller o' \<longleftrightarrow> ko_Controller o' = Some True"

definition object_key :: "string \<Rightarrow> string \<Rightarrow> string" where
  "object_key ns name = ns @ ''/'' @ name"

fun rsByName :: "(string \<rightharpoonup> string) \<Rightarrow> K8s_Object list \<Rightarrow> (string \<rightharpoonup> string)" where
  "rsByName m [] = m"
| "rsByName m (rs # rss) =
     rsByName (case find (\<lambda>w. is_controller w \<and> ko_Kind w = ''Deployment'') (kb_OwnerReferences rs) of
                 None \<Rightarrow> m
               | Some owner \<Rightarrow> m(object_key (kb_Namespace rs) (kb_Name rs) \<mapsto> ko_Name owner)) rss"

definition pod_controller :: "(string \<rightharpoonup> string) \<Rightarrow> K8s_Object \<Rightarrow> Cluster_WorkloadRef option" where
  "pod_controller rsBy pod =
     (case find is_controller (kb_OwnerReferences pod) of
        None \<Rightarrow> None
      | Some owner \<Rightarrow>
          if ko_Kind owner \<in> {''StatefulSet'', ''DaemonSet''}
          then Some \<lparr>cw_Namespace = kb_Namespace pod, cw_Kind = ko_Kind owner, cw_Name = ko_Name owner\<rparr>
          else if ko_Kind owner = ''ReplicaSet''
          then case rsBy (object_key (kb_Namespace pod) (ko_Name owner)) of
                 Some deploy \<Rightarrow> Some \<lparr>cw_Namespace = kb_Namespace pod, cw_Kind = ''Deployment'', cw_Name = deploy\<rparr>
               | None \<Rightarrow> Some \<lparr>cw_Namespace = kb_Namespace pod, cw_Kind = ''ReplicaSet'', cw_Name = ko_Name owner\<rparr>
          else None)"

text \<open>The keys are pairs of a namespace and a pod's name.\<close>

fun pod_loop ::
  "(string \<rightharpoonup> string) \<Rightarrow> (string \<times> string \<rightharpoonup> Cluster_WorkloadRef) \<Rightarrow> K8s_Object list \<Rightarrow>
   (string \<times> string \<rightharpoonup> Cluster_WorkloadRef)" where
  "pod_loop rsBy out [] = out"
| "pod_loop rsBy out (pod # pods) =
     pod_loop rsBy (case pod_controller rsBy pod of
                      None \<Rightarrow> out
                    | Some w \<Rightarrow> out((kb_Namespace pod, kb_Name pod) \<mapsto> w)) pods"

definition PodOwners :: "WorkloadIndex option \<Rightarrow> (string \<times> string \<rightharpoonup> Cluster_WorkloadRef)" where
  "PodOwners idx =
     (case idx of
        None \<Rightarrow> Map.empty
      | Some i \<Rightarrow> pod_loop (rsByName Map.empty (cached (wi_replicaSets i))) Map.empty (cached (wi_pods i)))"

definition builtinResources :: "string \<rightharpoonup> string" where
  "builtinResources = map_of
     [(''Deployment'', ''deployments''), (''StatefulSet'', ''statefulsets''), (''DaemonSet'', ''daemonsets''),
      (''ReplicaSet'', ''replicasets''), (''Job'', ''jobs''), (''CronJob'', ''cronjobs''), (''Pod'', ''pods''),
      (''ReplicationController'', ''replicationcontrollers'')]"

definition lowerKind :: "string \<Rightarrow> string" where
  "lowerKind s = map (\<lambda>c. if 65 \<le> (of_char c :: nat) \<and> (of_char c :: nat) \<le> 90
                           then char_of ((of_char c :: nat) + 32) else c) s"

definition endsIn :: "string \<Rightarrow> string \<Rightarrow> bool" where
  "endsIn s suf = (if length s < length suf then False else drop (length s - length suf) s = suf)"

definition isVowel :: "char \<Rightarrow> bool" where
  "isVowel c \<longleftrightarrow> c \<in> set ''aeiou''"

definition pluralise :: "string \<Rightarrow> string" where
  "pluralise kind =
     (let lower = lowerKind kind
      in if endsIn lower ''s'' \<or> endsIn lower ''x'' \<or> endsIn lower ''ch'' \<or> endsIn lower ''sh'' then lower @ ''es''
         else if endsIn lower ''y'' \<and> 1 < length lower \<and> \<not> isVowel (lower ! (length lower - 2))
         then take (length lower - 1) lower @ ''ies''
         else lower @ ''s'')"

text \<open>The group and version apimachinery reads in an API version, and the resource.\<close>

definition guessGVR :: "(string \<Rightarrow> 'gv option) \<Rightarrow> string \<Rightarrow> string \<Rightarrow> ('gv \<times> string) option" where
  "guessGVR parse apiVersion kind =
     (case parse apiVersion of
        None \<Rightarrow> None
      | Some gv \<Rightarrow> Some (gv, case builtinResources kind of Some res \<Rightarrow> res | None \<Rightarrow> pluralise kind))"

text \<open>The dynamic client's \<open>Get\<close> of a resource, a namespace and a name; \<open>None\<close> is an error or nil.\<close>

type_synonym 'gv dynamic_get = "'gv \<times> string \<Rightarrow> string \<Rightarrow> string \<Rightarrow> K8s_OwnerRef list option"

definition no_owner :: "OwnerRef \<times> bool" where
  "no_owner = (\<lparr>or_APIVersion = [], or_Kind = [], or_Name = [], or_Controller = False\<rparr>, False)"

definition Resolve :: "(string \<Rightarrow> 'gv option) \<Rightarrow> 'gv dynamic_get option \<Rightarrow> string \<Rightarrow> OwnerRef \<Rightarrow> OwnerRef \<times> bool" where
  "Resolve parse client namespace ref =
     (case client of None \<Rightarrow> no_owner | Some get \<Rightarrow>
      case guessGVR parse (or_APIVersion ref) (or_Kind ref) of None \<Rightarrow> no_owner | Some gvr \<Rightarrow>
      case get gvr namespace (or_Name ref) of None \<Rightarrow> no_owner | Some owners \<Rightarrow>
      case find is_controller owners of
        None \<Rightarrow> no_owner
      | Some w \<Rightarrow> (\<lparr>or_APIVersion = ko_APIVersion w, or_Kind = ko_Kind w, or_Name = ko_Name w, or_Controller = True\<rparr>, True))"

definition AsCallback :: "(string \<Rightarrow> 'gv option) \<Rightarrow> 'gv dynamic_get option \<Rightarrow> string \<Rightarrow> resolver" where
  "AsCallback parse client namespace = Resolve parse client namespace"

section \<open>Summaries for the snapshot (\<^verbatim>\<open>snapshot.go\<close>)\<close>

record EventSummary =
  ey_Namespace :: string
  ey_PodName :: string
  ey_Reason :: string
  ey_Type :: string
  ey_Count :: i64
  ey_LastSeen :: instant
  ey_Message :: string

record HPASummary =
  hy_Namespace :: string
  hy_Name :: string
  hy_MinReplicas :: i64
  hy_MaxReplicas :: i64
  hy_CurrentReplicas :: i64

record PolicySummary =
  pm_Namespace :: string
  pm_HasPDB :: bool
  pm_HasQuota :: bool
  pm_HasLimitRng :: bool

definition event_summary :: "K8s_Event \<Rightarrow> EventSummary" where
  "event_summary ev =
     \<lparr>ey_Namespace = ke_Namespace ev, ey_PodName = ke_Name ev, ey_Reason = ke_Reason ev, ey_Type = ke_Type ev,
      ey_Count = ke_Count ev, ey_LastSeen = event_last ev, ey_Message = ke_Message ev\<rparr>"

fun drain_events :: "instant \<Rightarrow> i64 \<Rightarrow> EventSummary list \<Rightarrow> K8s_Event option list \<Rightarrow> EventSummary list" where
  "drain_events since limit out [] = out"
| "drain_events since limit out (None # items) = drain_events since limit out items"
| "drain_events since limit out (Some ev # items) =
     (if since \<noteq> 0 \<and> event_last ev < since then drain_events since limit out items
      else let out = out @ [event_summary ev]
           in if int (length out) \<ge> limit then out else drain_events since limit out items)"

definition DrainEvents :: "K8s_Event Indexer option \<Rightarrow> instant \<Rightarrow> i64 \<Rightarrow> EventSummary list" where
  "DrainEvents ix since limit =
     (case ix of
        None \<Rightarrow> []
      | Some x \<Rightarrow> let limit = (if limit \<le> 0 then 100 else limit) in drain_events since limit [] (ix_List x))"

definition ListHPAs :: "K8s_HPA Indexer option \<Rightarrow> HPASummary list" where
  "ListHPAs ix = map (\<lambda>hpa. \<lparr>hy_Namespace = kh_Namespace hpa, hy_Name = kh_TargetName hpa,
      hy_MinReplicas = intOrZero (kh_MinReplicas hpa), hy_MaxReplicas = kh_MaxReplicas hpa,
      hy_CurrentReplicas = kh_CurrentReplicas hpa\<rparr>) (cached ix)"

type_synonym summaries = "(string \<times> PolicySummary) list"

definition ensure :: "summaries \<Rightarrow> string \<Rightarrow> PolicySummary" where
  "ensure m ns = (case map_of m ns of
     Some p \<Rightarrow> p
   | None \<Rightarrow> \<lparr>pm_Namespace = ns, pm_HasPDB = False, pm_HasQuota = False, pm_HasLimitRng = False\<rparr>)"

fun mark_loop :: "(PolicySummary \<Rightarrow> PolicySummary) \<Rightarrow> summaries \<Rightarrow> string list \<Rightarrow> summaries" where
  "mark_loop f m [] = m"
| "mark_loop f m (ns # nss) = mark_loop f (AList.update ns (f (ensure m ns)) m) nss"

text \<open>\<open>visit\<close> is the order of the last loop over the map.\<close>

definition ListPolicySummary :: "(summaries \<Rightarrow> summaries) \<Rightarrow> PolicyR option \<Rightarrow> PolicySummary list" where
  "ListPolicySummary visit r =
     (case r of
        None \<Rightarrow> []
      | Some p \<Rightarrow>
          let byNs = mark_loop (\<lambda>s. s\<lparr>pm_HasPDB := True\<rparr>) [] (map kp_Namespace (cached (py_pdbIdx p)));
              byNs = mark_loop (\<lambda>s. s\<lparr>pm_HasQuota := True\<rparr>) byNs (map kt_Namespace (cached (py_quotaIdx p)));
              byNs = mark_loop (\<lambda>s. s\<lparr>pm_HasLimitRng := True\<rparr>) byNs (map kl_Namespace (cached (py_limitIdx p)))
          in map snd (visit byNs))"

section \<open>Which events belong to a workload\<close>

lemma last_index_None: "last_index c s = None \<longleftrightarrow> c \<notin> set s"
  by (induction s) (auto split: option.splits)

lemma last_index_append: "c \<notin> set t \<Longrightarrow> last_index c (s @ c # t) = Some (length s)"
  by (induction s) (auto simp: last_index_None[THEN iffD2])

lemma last_index_Some: "last_index c s = Some i \<Longrightarrow> \<exists>t. s = take i s @ c # t \<and> c \<notin> set t \<and> i < length s"
proof (induction s arbitrary: i)
  case (Cons x xs)
  show ?case
  proof (cases "last_index c xs")
    case None
    with Cons.prems show ?thesis by (auto simp: last_index_None split: if_splits)
  next
    case (Some j)
    with Cons show ?thesis by auto
  qed
qed simp

text \<open>Removing one segment: the text before the last dash, unless that dash comes first.\<close>

lemma strip_loop_Suc:
  "strip_loop (Suc n) s want \<longleftrightarrow>
     (\<exists>a x. s = a @ CHR ''-'' # x \<and> CHR ''-'' \<notin> set x \<and> a \<noteq> [] \<and> (a = want \<or> strip_loop n a want))"
proof
  assume "strip_loop (Suc n) s want"
  then obtain i where i: "last_index (CHR ''-'') s = Some i" "i \<noteq> 0" "take i s = want \<or> strip_loop n (take i s) want"
    by (auto simp: Let_def split: option.splits nat.splits if_splits)
  from last_index_Some[OF i(1)] obtain x where "s = take i s @ CHR ''-'' # x" "CHR ''-'' \<notin> set x" "i < length s" by blast
  with i show "\<exists>a x. s = a @ CHR ''-'' # x \<and> CHR ''-'' \<notin> set x \<and> a \<noteq> [] \<and> (a = want \<or> strip_loop n a want)"
    by (intro exI[of _ "take i s"] exI[of _ x]) auto
next
  assume "\<exists>a x. s = a @ CHR ''-'' # x \<and> CHR ''-'' \<notin> set x \<and> a \<noteq> [] \<and> (a = want \<or> strip_loop n a want)"
  then obtain a x where a: "s = a @ CHR ''-'' # x" "CHR ''-'' \<notin> set x" "a \<noteq> []" "a = want \<or> strip_loop n a want" by blast
  then have "last_index (CHR ''-'') s = Some (length a)" by (simp add: last_index_append)
  with a show "strip_loop (Suc n) s want" by (cases "length a") auto
qed

lemma matchesWorkloadName_iff:
  "matchesWorkloadName involved want \<longleftrightarrow> involved = want \<or>
     want \<noteq> [] \<and> (\<exists>x. CHR ''-'' \<notin> set x \<and>
       (involved = want @ CHR ''-'' # x \<or> (\<exists>y. CHR ''-'' \<notin> set y \<and> involved = want @ CHR ''-'' # y @ CHR ''-'' # x)))"
    (is "_ \<longleftrightarrow> ?rhs")
proof -
  have "strip_loop 2 involved want" if "want \<noteq> []" "CHR ''-'' \<notin> set x" "CHR ''-'' \<notin> set y"
      "involved = want @ CHR ''-'' # y @ CHR ''-'' # x" for x y
    unfolding numeral_2_eq_2 strip_loop_Suc using that
    by (intro exI[of _ "want @ CHR ''-'' # y"] exI[of _ x]) auto
  moreover have "strip_loop 2 involved want" if "want \<noteq> []" "CHR ''-'' \<notin> set x" "involved = want @ CHR ''-'' # x" for x
    unfolding numeral_2_eq_2 strip_loop_Suc using that by blast
  moreover have "?rhs" if "strip_loop 2 involved want"
    using that unfolding numeral_2_eq_2 strip_loop_Suc by auto
  ultimately show ?thesis unfolding matchesWorkloadName_def by auto
qed

definition agent_event :: "K8s_WorkloadRef \<Rightarrow> K8s_Event \<Rightarrow> Agent_Event" where
  "agent_event w ev =
     \<lparr>ae_Workload = w, ae_Reason = ke_Reason ev, ae_Type = ke_Type ev, ae_Count = ke_Count ev,
      ae_FirstSeen = (if ke_FirstTimestamp ev = 0 then event_last ev else ke_FirstTimestamp ev),
      ae_LastSeen = event_last ev, ae_Message = ke_Message ev\<rparr>"

definition concerns :: "K8s_WorkloadRef \<Rightarrow> instant \<Rightarrow> K8s_Event \<Rightarrow> bool" where
  "concerns w since ev \<longleftrightarrow> ke_Namespace ev = kr_Namespace w \<and>
     (kr_Kind w = [] \<or> equal_fold (ke_Kind ev) (kr_Kind w)) \<and>
     (kr_Name w = [] \<or> matchesWorkloadName (ke_Name ev) (kr_Name w)) \<and> (since = 0 \<or> since \<le> event_last ev)"

lemma recent_loop_filter:
  "recent_loop w since items = map (agent_event w) (filter (concerns w since) (List.map_filter id items))"
  by (induction w since items rule: recent_loop.induct)
    (auto simp: concerns_def agent_event_def List.map_filter_simps Let_def)

text \<open>
  The comment on \<open>matchesWorkloadName\<close> has it cover the pod events of a deployment, but a pod's event is
  about the kind \<open>Pod\<close>, and \<open>Recent\<close> drops it before its name is looked at: a reference to a
  deployment finds no pod event, however it is named.
\<close>

lemma deployment_sees_no_pod_event:
  assumes "list_all (\<lambda>ev. ke_Kind ev = ''Pod'') (cached (Some ix))" and "kr_Kind w = ''Deployment''"
  shows "Events_Recent (Some ix) w since = []"
proof -
  have "\<not> equal_fold ''Pod'' ''Deployment''" by (simp add: equal_fold_def)
  with assms show ?thesis
    by (auto simp: Events_Recent_def recent_loop_filter cached_def concerns_def list_all_iff filter_empty_conv)
qed

text \<open>And a name that extends another by a dash and a word is taken for it.\<close>

lemma foreign_pod_matches: "matchesWorkloadName ''api-gateway-0'' ''api''"
  unfolding matchesWorkloadName_iff by (intro disjI2 conjI exI[of _ "''0''"] exI[of _ "''gateway''"]) auto

section \<open>Events and workloads in a snapshot\<close>

lemma drain_events_take:
  "int (length out) < limit \<Longrightarrow> drain_events since limit out items =
    out @ take (nat limit - length out)
      (map event_summary (filter (\<lambda>ev. since = 0 \<or> since \<le> event_last ev) (List.map_filter id items)))"
proof (induction since limit out items rule: drain_events.induct)
  case (3 since limit out ev items)
  show ?case
  proof (cases "since \<noteq> 0 \<and> event_last ev < since")
    case False
    have len: "nat limit - length out = Suc (nat limit - Suc (length out))" using 3(3) by linarith
    show ?thesis
    proof (cases "limit \<le> int (length (out @ [event_summary ev]))")
      case True
      with len 3(3) False show ?thesis by (auto simp: List.map_filter_simps)
    next
      case notfull: False
      with 3 False len show ?thesis by (auto simp: List.map_filter_simps)
    qed
  qed (use 3 in \<open>auto simp: List.map_filter_simps\<close>)
qed (auto simp: List.map_filter_simps)

text \<open>
  A drain keeps the first events of the cache that are new enough, in the cache's order, where its
  comment promises the most recent ones: a hundred old events hide a new one.
\<close>

lemma DrainEvents_first:
  "DrainEvents (Some ix) since limit = take (if limit \<le> 0 then 100 else nat limit)
     (map event_summary (filter (\<lambda>ev. since = 0 \<or> since \<le> event_last ev) (cached (Some ix))))"
  by (simp add: DrainEvents_def drain_events_take cached_def Let_def)

text \<open>The list of workloads is not sorted, though its comment says so.\<close>

lemma ListWorkloads_unsorted:
  "\<exists>idx. map cw_Kind (ListWorkloads (Some idx)) = [''StatefulSet'', ''DaemonSet'']"
proof -
  let ?one = "Some \<lparr>ix_List = [Some \<lparr>kb_Namespace = ''a'', kb_Name = ''b'', kb_OwnerReferences = []\<rparr>], ix_ByIndex = (\<lambda>_. Inr [])\<rparr>"
  show ?thesis
    by (rule exI[of _ "\<lparr>wi_deployments = None, wi_statefulSets = ?one, wi_daemonSets = ?one, wi_replicaSets = None, wi_pods = None\<rparr>"])
      (simp add: ListWorkloads_def refs_of_def cached_def List.map_filter_simps)
qed

section \<open>The owner of a pod\<close>

lemma object_key_inj:
  "CHR ''/'' \<notin> set ns \<Longrightarrow> CHR ''/'' \<notin> set ns' \<Longrightarrow> object_key ns n = object_key ns' n' \<longleftrightarrow> ns = ns' \<and> n = n'"
  using append_sep_inj[of "CHR ''/''" ns ns' n n'] by (simp add: object_key_def)

lemma rsByName_other:
  "key \<notin> (\<lambda>rs. object_key (kb_Namespace rs) (kb_Name rs)) ` set rss \<Longrightarrow> rsByName m rss key = m key"
  by (induction m rss rule: rsByName.induct) (auto split: option.splits)

lemma rsByName_found:
  assumes "distinct (map (\<lambda>rs. object_key (kb_Namespace rs) (kb_Name rs)) rss)" "rs \<in> set rss"
    and "find (\<lambda>w. is_controller w \<and> ko_Kind w = ''Deployment'') (kb_OwnerReferences rs) = Some d"
  shows "rsByName m rss (object_key (kb_Namespace rs) (kb_Name rs)) = Some (ko_Name d)"
  using assms by (induction m rss rule: rsByName.induct) (auto simp: rsByName_other)

lemma pod_loop_other:
  "key \<notin> (\<lambda>p. (kb_Namespace p, kb_Name p)) ` set pods \<Longrightarrow> pod_loop rsBy out pods key = out key"
  by (induction rsBy out pods rule: pod_loop.induct) (auto split: option.splits)

lemma pod_loop_found:
  "distinct (map (\<lambda>p. (kb_Namespace p, kb_Name p)) pods) \<Longrightarrow> p \<in> set pods \<Longrightarrow>
   out (kb_Namespace p, kb_Name p) = None \<Longrightarrow>
   pod_loop rsBy out pods (kb_Namespace p, kb_Name p) = pod_controller rsBy p"
proof (induction rsBy out pods rule: pod_loop.induct)
  case (2 rsBy out pod pods)
  show ?case
  proof (cases "p \<in> set pods")
    case True
    then have "(kb_Namespace p, kb_Name p) \<noteq> (kb_Namespace pod, kb_Name pod)" using "2.prems"(1) by (auto simp: image_iff)
    with 2 True show ?thesis by (auto split: option.splits)
  next
    case False
    with "2.prems" show ?thesis by (auto simp: pod_loop_other split: option.splits)
  qed
qed simp

definition unique_names :: "K8s_Object list \<Rightarrow> bool" where
  "unique_names xs \<longleftrightarrow> distinct (map (\<lambda>x. (kb_Namespace x, kb_Name x)) xs) \<and>
     list_all (\<lambda>x. CHR ''/'' \<notin> set (kb_Namespace x)) xs"

lemma unique_names_keys:
  assumes "unique_names xs"
  shows "distinct (map (\<lambda>x. object_key (kb_Namespace x) (kb_Name x)) xs)"
  using assms by (induction xs) (auto simp: unique_names_def object_key_inj list_all_iff)

text \<open>
  The pods of a deployment are attributed to it: a pod whose controller is a replica set that the
  cache has, and whose controller is a deployment, counts for that deployment, in its own namespace;
  a pod of a stateful or daemon set counts for that set.
\<close>

lemma pod_of_workload:
  assumes "unique_names (cached (wi_replicaSets i))" "unique_names (cached (wi_pods i))"
    and "p \<in> set (cached (wi_pods i))" "find is_controller (kb_OwnerReferences p) = Some c"
  shows "(rs \<in> set (cached (wi_replicaSets i)) \<and> ko_Kind c = ''ReplicaSet'' \<and> kb_Name rs = ko_Name c \<and>
      kb_Namespace rs = kb_Namespace p \<and>
      find (\<lambda>w. is_controller w \<and> ko_Kind w = ''Deployment'') (kb_OwnerReferences rs) = Some d \<longrightarrow>
      PodOwners (Some i) (kb_Namespace p, kb_Name p) =
        Some \<lparr>cw_Namespace = kb_Namespace p, cw_Kind = ''Deployment'', cw_Name = ko_Name d\<rparr>) \<and>
    (ko_Kind c \<in> {''StatefulSet'', ''DaemonSet''} \<longrightarrow>
      PodOwners (Some i) (kb_Namespace p, kb_Name p) =
        Some \<lparr>cw_Namespace = kb_Namespace p, cw_Kind = ko_Kind c, cw_Name = ko_Name c\<rparr>)"
proof -
  let ?rs = "rsByName Map.empty (cached (wi_replicaSets i))"
  have pod: "PodOwners (Some i) (kb_Namespace p, kb_Name p) = pod_controller ?rs p"
    using pod_loop_found assms(2,3) by (simp add: PodOwners_def unique_names_def)
  have "?rs (object_key (kb_Namespace rs) (kb_Name rs)) = Some (ko_Name d)"
    if "rs \<in> set (cached (wi_replicaSets i))"
      "find (\<lambda>w. is_controller w \<and> ko_Kind w = ''Deployment'') (kb_OwnerReferences rs) = Some d"
    using rsByName_found[OF unique_names_keys[OF assms(1)] that] .
  then show ?thesis unfolding pod by (auto simp: pod_controller_def assms(4))
qed

section \<open>The narrowest limits\<close>

definition container_items :: "K8s_LimitRange option list \<Rightarrow> LimitRangeItem list" where
  "container_items items = filter (\<lambda>i. li_Type i = ''Container'') (concat (map kl_Limits (List.map_filter id items)))"

definition item_limits :: "LimitRangeItem \<Rightarrow> LimitRange" where
  "item_limits i =
     \<lparr>lr_MaxCPUMillicores = kq_MilliValue (resource_at (li_Max i) ''cpu''),
      lr_MaxMemoryBytes = kq_Value (resource_at (li_Max i) ''memory''),
      lr_MinCPUMillicores = kq_MilliValue (resource_at (li_Min i) ''cpu''),
      lr_MinMemoryBytes = kq_Value (resource_at (li_Min i) ''memory'')\<rparr>"

definition narrow :: "LimitRange \<Rightarrow> LimitRange \<Rightarrow> LimitRange" where
  "narrow out x =
     \<lparr>lr_MaxCPUMillicores = (if 0 < lr_MaxCPUMillicores x \<and> lr_MaxCPUMillicores x < lr_MaxCPUMillicores out
                              then lr_MaxCPUMillicores x else lr_MaxCPUMillicores out),
      lr_MaxMemoryBytes = (if 0 < lr_MaxMemoryBytes x \<and> lr_MaxMemoryBytes x < lr_MaxMemoryBytes out
                            then lr_MaxMemoryBytes x else lr_MaxMemoryBytes out),
      lr_MinCPUMillicores = max (lr_MinCPUMillicores out) (lr_MinCPUMillicores x),
      lr_MinMemoryBytes = max (lr_MinMemoryBytes out) (lr_MinMemoryBytes x)\<rparr>"

lemma limit_items_found:
  "limit_items (out, True) items =
    (foldl narrow out (map item_limits (filter (\<lambda>i. li_Type i = ''Container'') items)), True)"
proof (induction items arbitrary: out)
  case (Cons item items)
  show ?case
  proof (cases "li_Type item = ''Container''")
    case True
    have "limit_items (out, True) (item # items) = limit_items (narrow out (item_limits item), True) items"
      by (cases out) (simp add: True narrow_def item_limits_def resourceMillicores_def resourceBytes_def Let_def max_def)
    with Cons True show ?thesis by simp
  qed (use Cons in simp)
qed simp

lemma limit_loop_found:
  "limit_loop (out, True) items = (foldl narrow out (map item_limits (container_items items)), True)"
proof (induction items arbitrary: out)
  case (Cons x items)
  then show ?case by (cases x) (simp_all add: container_items_def List.map_filter_simps limit_items_found)
qed (simp add: container_items_def List.map_filter_simps)

lemma limit_items_start:
  "limit_items (no_limits, False) items =
    (case filter (\<lambda>i. li_Type i = ''Container'') items of [] \<Rightarrow> (no_limits, False)
     | i # is \<Rightarrow> (foldl narrow (item_limits i) (map item_limits is), True))"
proof (induction items)
  case (Cons item items)
  show ?case
  proof (cases "li_Type item = ''Container''")
    case True
    have "limit_items (no_limits, False) (item # items) = limit_items (item_limits item, True) items"
      by (simp add: True no_limits_def item_limits_def resourceMillicores_def resourceBytes_def Let_def)
    with True show ?thesis by (simp add: limit_items_found)
  qed (use Cons in simp)
qed simp

lemma limit_loop_start:
  "limit_loop (no_limits, False) items =
    (case container_items items of [] \<Rightarrow> (no_limits, False)
     | i # is \<Rightarrow> (foldl narrow (item_limits i) (map item_limits is), True))"
proof (induction items)
  case (Cons x items)
  show ?case
  proof (cases x)
    case (Some l)
    show ?thesis
    proof (cases "filter (\<lambda>i. li_Type i = ''Container'') (kl_Limits l)")
      case Nil
      with Some Cons show ?thesis
        by (simp add: limit_items_start container_items_def List.map_filter_simps)
    next
      case (Cons i rest)
      with Some show ?thesis
        by (simp add: limit_items_start limit_loop_found container_items_def List.map_filter_simps)
    qed
  qed (use Cons in \<open>simp add: container_items_def List.map_filter_simps\<close>)
qed (simp add: container_items_def List.map_filter_simps)

text \<open>The candidate under one set of limits, and what the validator's check makes of it.\<close>

definition with_limits :: "LimitRange \<Rightarrow> Candidate \<Rightarrow> Candidate" where
  "with_limits lr c = c\<lparr>ca_Signals := (ca_Signals c)\<lparr>cs_LimitRange := Some lr\<rparr>\<rparr>"

definition above :: "i64 \<Rightarrow> i64 \<Rightarrow> bool" where
  "above v m \<longleftrightarrow> 0 < v \<and> 0 < m \<and> m < v"

definition below :: "i64 \<Rightarrow> i64 \<Rightarrow> bool" where
  "below v m \<longleftrightarrow> 0 < v \<and> 0 < m \<and> v < m"

definition in_limits :: "LimitRange \<Rightarrow> Candidate \<Rightarrow> bool" where
  "in_limits lr c \<longleftrightarrow>
     \<not> above (cq_Millicores (ca_ProposedCPU c)) (lr_MaxCPUMillicores lr) \<and>
     \<not> below (cq_Millicores (ca_ProposedCPU c)) (lr_MinCPUMillicores lr) \<and>
     \<not> above (cq_Bytes (ca_ProposedMemory c)) (lr_MaxMemoryBytes lr) \<and>
     \<not> below (cq_Bytes (ca_ProposedMemory c)) (lr_MinMemoryBytes lr)"

lemma LimitRangeCheck_in_limits: "LimitRangeCheck_Check (with_limits lr c) = Inr None \<longleftrightarrow> in_limits lr c"
  by (auto simp: LimitRangeCheck_Check_def with_limits_def in_limits_def above_def below_def Let_def)

lemma above_narrow:
  "0 < m \<Longrightarrow> above v (if 0 < x \<and> x < m then x else m) \<longleftrightarrow> above v m \<or> above v x"
  by (auto simp: above_def)

lemma below_max: "below v (max a b) \<longleftrightarrow> below v a \<or> below v b"
  by (auto simp: below_def max_def)

lemma narrow_in_limits:
  assumes "0 < lr_MaxCPUMillicores out" "0 < lr_MaxMemoryBytes out"
  shows "in_limits (narrow out x) c \<longleftrightarrow> in_limits out c \<and> in_limits x c"
    and "0 < lr_MaxCPUMillicores (narrow out x)" "0 < lr_MaxMemoryBytes (narrow out x)"
  using assms by (auto simp: in_limits_def narrow_def above_narrow below_max)

lemma foldl_narrow_in_limits:
  assumes "0 < lr_MaxCPUMillicores out" "0 < lr_MaxMemoryBytes out"
  shows "in_limits (foldl narrow out xs) c \<longleftrightarrow> in_limits out c \<and> (\<forall>x \<in> set xs. in_limits x c)"
  using assms by (induction xs arbitrary: out) (auto simp: narrow_in_limits)

text \<open>
  C33. The limits of a namespace: when the first container entry states both maxima, a candidate passes
  the validator's check against the reader's summary exactly when it passes it against every container
  entry of every limit range of the namespace. Without that the summary forgets: an entry that states
  no maximum, seen first, hides every maximum that follows.
\<close>

theorem limit_range_narrowest:
  assumes "py_limitIdx r = Some x" "ix_ByIndex x ns = Inr items"
    and "container_items items = i # is"
    and "0 < kq_MilliValue (resource_at (li_Max i) ''cpu'')" "0 < kq_Value (resource_at (li_Max i) ''memory'')"
  shows "\<exists>lr. namespaceLimitRange r ns = Inr (Some lr) \<and>
    (LimitRangeCheck_Check (with_limits lr c) = Inr None \<longleftrightarrow>
     (\<forall>item \<in> set (container_items items). LimitRangeCheck_Check (with_limits (item_limits item) c) = Inr None))"
proof -
  have pos: "0 < lr_MaxCPUMillicores (item_limits i)" "0 < lr_MaxMemoryBytes (item_limits i)"
    using assms(4,5) by (simp_all add: item_limits_def)
  have "namespaceLimitRange r ns = Inr (Some (foldl narrow (item_limits i) (map item_limits is)))"
    using assms by (simp add: namespaceLimitRange_def limit_loop_start)
  then show ?thesis
    unfolding LimitRangeCheck_in_limits using foldl_narrow_in_limits[OF pos, of "map item_limits is" c] assms(3) by simp
qed

definition item_max :: "resource_list \<Rightarrow> LimitRangeItem" where
  "item_max m = \<lparr>li_Type = ''Container'', li_Max = m, li_Min = Map.empty\<rparr>"

lemma later_maximum_ignored:
  "limit_loop (no_limits, False) [Some \<lparr>kl_Namespace = ns, kl_Limits = [item_max Map.empty, item_max m]\<rparr>] = (no_limits, True)"
  unfolding limit_loop_start container_items_def
  by (simp add: List.map_filter_simps item_max_def narrow_def no_limits_def item_limits_def)
    (simp add: resource_at_def)

section \<open>Which policies a namespace has\<close>

lemma mark_loop_keys: "distinct (map fst m) \<Longrightarrow> distinct (map fst (mark_loop f m nss))"
  by (induction f m nss rule: mark_loop.induct) (auto simp: distinct_update)

lemma mark_loop_map_of:
  assumes "\<And>s. f (f s) = f s"
  shows "map_of (mark_loop f m nss) ns = (if ns \<in> set nss then Some (f (ensure m ns)) else map_of m ns)"
proof (induction nss arbitrary: m)
  case (Cons n nss)
  have "ensure (AList.update n (f (ensure m n)) m) ns = (if ns = n then f (ensure m n) else ensure m ns)"
    by (simp add: ensure_def AList.update_conv')
  with Cons show ?case by (auto simp: AList.update_conv' assms)
qed simp

definition policy_row :: "PolicyR \<Rightarrow> string \<Rightarrow> PolicySummary" where
  "policy_row p ns = \<lparr>pm_Namespace = ns, pm_HasPDB = (ns \<in> kp_Namespace ` set (cached (py_pdbIdx p))),
     pm_HasQuota = (ns \<in> kt_Namespace ` set (cached (py_quotaIdx p))),
     pm_HasLimitRng = (ns \<in> kl_Namespace ` set (cached (py_limitIdx p)))\<rparr>"

text \<open>
  The summary has one row per namespace with any of the three policies, and its flags say which.
\<close>

lemma policy_summary_exact:
  assumes "\<And>m. mset (visit m) = mset m"
  shows "distinct (map pm_Namespace (ListPolicySummary visit (Some p))) \<and>
    set (ListPolicySummary visit (Some p)) = policy_row p ` (kp_Namespace ` set (cached (py_pdbIdx p)) \<union>
      kt_Namespace ` set (cached (py_quotaIdx p)) \<union> kl_Namespace ` set (cached (py_limitIdx p)))"
proof -
  define a where "a = mark_loop (\<lambda>s. s\<lparr>pm_HasPDB := True\<rparr>) [] (map kp_Namespace (cached (py_pdbIdx p)))"
  define b where "b = mark_loop (\<lambda>s. s\<lparr>pm_HasQuota := True\<rparr>) a (map kt_Namespace (cached (py_quotaIdx p)))"
  define m where "m = mark_loop (\<lambda>s. s\<lparr>pm_HasLimitRng := True\<rparr>) b (map kl_Namespace (cached (py_limitIdx p)))"
  let ?ns = "kp_Namespace ` set (cached (py_pdbIdx p)) \<union> kt_Namespace ` set (cached (py_quotaIdx p)) \<union>
    kl_Namespace ` set (cached (py_limitIdx p))"
  have keys: "distinct (map fst m)" by (simp add: m_def b_def a_def mark_loop_keys)
  have row: "map_of m ns = (if ns \<in> ?ns then Some (policy_row p ns) else None)" for ns
    unfolding m_def b_def a_def by (simp add: mark_loop_map_of ensure_def policy_row_def)
  have entries: "m' \<in> set m \<longleftrightarrow> fst m' \<in> ?ns \<and> snd m' = policy_row p (fst m')" for m'
    using map_of_eq_Some_iff[OF keys, of "fst m'" "snd m'"] row[of "fst m'"] by (auto split: if_splits)
  have out: "ListPolicySummary visit (Some p) = map snd (visit m)"
    by (simp add: ListPolicySummary_def m_def b_def a_def Let_def)
  have same: "set (visit m) = set m" using assms[of m] by (rule mset_eq_setD)
  have "map pm_Namespace (map snd (visit m)) = map fst (visit m)"
    using entries same by (auto simp: policy_row_def)
  moreover have "distinct (map fst (visit m))"
    using keys assms[of m] by (metis mset_eq_imp_distinct_iff mset_map)
  moreover have "snd ` set (visit m) = policy_row p ` ?ns"
  proof (intro set_eqI iffI)
    fix x assume "x \<in> snd ` set (visit m)"
    then obtain e where "e \<in> set m" "x = snd e" using same by blast
    then show "x \<in> policy_row p ` ?ns" using entries[of e] by blast
  next
    fix x assume "x \<in> policy_row p ` ?ns"
    then obtain ns where "ns \<in> ?ns" "x = policy_row p ns" by blast
    then have "(ns, x) \<in> set (visit m)" unfolding same entries by simp
    then show "x \<in> snd ` set (visit m)" by force
  qed
  ultimately show ?thesis unfolding out by (simp only: set_map simp_thms)
qed

section \<open>Owners through the dynamic client\<close>

text \<open>
  A failed lookup makes a workload look unmanaged: with the owner's answer, the workload is classed
  by the foreign controller behind its built-in owner; when the same lookup fails, it is classed as
  direct, which lets fixes through, where the comment on \<open>Resolve\<close> promises the conservative class.
\<close>

lemma lookup_error_counts_as_direct:
  assumes "controllingOwner (ow_Owners w) = Some ref" "or_Kind ref \<in> builtIn"
    and "guessGVR parse (or_APIVersion ref) (or_Kind ref) = Some gvr"
    and "find is_controller owners = Some k" "ko_Kind k \<notin> builtIn" "ko_Kind k \<noteq> []"
    and "owner_key ref \<noteq> ko_APIVersion k @ ''/'' @ ko_Kind k @ ''/'' @ ko_Name k"
  shows "(get gvr ns (or_Name ref) = Some owners \<longrightarrow>
      Operator_Classify w (AsCallback parse (Some get) ns) =
        \<lparr>cl_Direct = False, cl_Operator = apiGroup (ko_APIVersion k) @ ''/'' @ ko_Kind k\<rparr>) \<and>
    (get gvr ns (or_Name ref) = None \<longrightarrow>
      Operator_Classify w (AsCallback parse (Some get) ns) = direct)"
proof -
  let ?R = "AsCallback parse (Some get) ns"
  let ?k = "\<lparr>or_APIVersion = ko_APIVersion k, or_Kind = ko_Kind k, or_Name = ko_Name k, or_Controller = True\<rparr>"
  have walk: "Operator_Classify w ?R = classify_loop ?R 16 [] ref"
    using assms(1) by (simp add: Operator_Classify_def)
  have found: "classify_loop R (Suc (Suc n)) [] ref = \<lparr>cl_Direct = False, cl_Operator = apiGroup (ko_APIVersion k) @ ''/'' @ ko_Kind k\<rparr>"
    if "R ref = (?k, True)" for R n
    using assms(2,5-7) that by (simp add: Let_def owner_key_def)
  have lost: "classify_loop R (Suc n) [] ref = direct" if "R ref = no_owner" for R n
    using assms(2) that by (simp add: Let_def no_owner_def)
  have "get gvr ns (or_Name ref) = Some owners \<Longrightarrow> ?R ref = (?k, True)"
    and "get gvr ns (or_Name ref) = None \<Longrightarrow> ?R ref = no_owner"
    using assms(3,4) by (simp_all add: AsCallback_def Resolve_def)
  with found[of ?R 14] lost[of ?R 15] show ?thesis unfolding walk by simp
qed

definition two_ranges :: "K8s_LimitRange Indexer" where
  "two_ranges =
     \<lparr>ix_List = [],
      ix_ByIndex = (\<lambda>ns. Inr (map (\<lambda>(cpu, mem). Some \<lparr>kl_Namespace = ns, kl_Limits = [item_max
        [''cpu'' \<mapsto> \<lparr>kq_MilliValue = cpu, kq_Value = 0\<rparr>, ''memory'' \<mapsto> \<lparr>kq_MilliValue = 0, kq_Value = mem\<rparr>]]\<rparr>)
        [(2000, 900), (1000, 1800)]))\<rparr>"

definition asks :: "i64 \<Rightarrow> Candidate" where
  "asks cpu = \<lparr>ca_WorkloadID = ''w'', ca_DetectorID = ''d'', ca_Title = [],
     ca_ProposedCPU = \<lparr>cq_Millicores = cpu, cq_Bytes = 0\<rparr>, ca_ProposedMemory = \<lparr>cq_Millicores = 0, cq_Bytes = 700\<rparr>,
     ca_ProposedReplicas = 0, ca_MonthlyUSDCents = 0,
     ca_Signals = \<lparr>cs_PDB = None, cs_Quota = None, cs_LimitRange = None, cs_HPA = None, cs_OOMRecent = False, cs_Dependents = []\<rparr>\<rparr>"

theorem limit_range_narrowest_witness:
  "\<exists>lr. namespaceLimitRange \<lparr>py_pdbIdx = None, py_quotaIdx = None, py_limitIdx = Some two_ranges\<rparr> ''web'' = Inr (Some lr) \<and>
    LimitRangeCheck_Check (with_limits lr (asks 1500)) \<noteq> Inr None"
proof -
  let ?items = "map (\<lambda>(cpu, mem). Some \<lparr>kl_Namespace = ''web'', kl_Limits = [item_max
        [''cpu'' \<mapsto> \<lparr>kq_MilliValue = cpu, kq_Value = 0\<rparr>, ''memory'' \<mapsto> \<lparr>kq_MilliValue = 0, kq_Value = mem\<rparr>]]\<rparr>)
        [(2000, 900), (1000, 1800)]"
  let ?item = "\<lambda>cpu mem. item_max [''cpu'' \<mapsto> \<lparr>kq_MilliValue = cpu, kq_Value = 0\<rparr>, ''memory'' \<mapsto> \<lparr>kq_MilliValue = 0, kq_Value = mem\<rparr>]"
  have items: "container_items ?items = [?item 2000 900, ?item 1000 1800]"
    by (simp add: container_items_def List.map_filter_simps item_max_def)
  have over: "LimitRangeCheck_Check (with_limits (item_limits (?item 1000 1800)) (asks 1500)) \<noteq> Inr None"
    by (simp add: LimitRangeCheck_in_limits in_limits_def above_def item_limits_def item_max_def resource_at_def asks_def)
  have pos: "0 < kq_MilliValue (resource_at (li_Max (?item 2000 900)) ''cpu'')"
      "0 < kq_Value (resource_at (li_Max (?item 2000 900)) ''memory'')"
    by (simp_all add: item_max_def resource_at_def)
  show ?thesis
    using limit_range_narrowest[of "\<lparr>py_pdbIdx = None, py_quotaIdx = None, py_limitIdx = Some two_ranges\<rparr>" two_ranges
        "''web''" ?items, OF _ _ items pos, of "asks 1500"] over
    unfolding items by (auto simp: two_ranges_def)
qed

theorem lookup_error_counts_as_direct_witness:
  "Operator_Classify \<lparr>ow_Namespace = ''kafka'', ow_Kind = ''Pod'', ow_Name = ''broker-0'',
      ow_Owners = [\<lparr>or_APIVersion = ''apps/v1'', or_Kind = ''StatefulSet'', or_Name = ''broker'', or_Controller = True\<rparr>]\<rparr>
    (AsCallback Some (Some (\<lambda>_ _ _. None)) ''kafka'') = direct"
  using lookup_error_counts_as_direct[of
      "\<lparr>ow_Namespace = ''kafka'', ow_Kind = ''Pod'', ow_Name = ''broker-0'',
        ow_Owners = [\<lparr>or_APIVersion = ''apps/v1'', or_Kind = ''StatefulSet'', or_Name = ''broker'', or_Controller = True\<rparr>]\<rparr>"
      "\<lparr>or_APIVersion = ''apps/v1'', or_Kind = ''StatefulSet'', or_Name = ''broker'', or_Controller = True\<rparr>"
      Some "(''apps/v1'', ''statefulsets'')"
      "[\<lparr>ko_APIVersion = ''kafka.strimzi.io/v1'', ko_Kind = ''Kafka'', ko_Name = ''broker'', ko_Controller = Some True\<rparr>]"
      "\<lparr>ko_APIVersion = ''kafka.strimzi.io/v1'', ko_Kind = ''Kafka'', ko_Name = ''broker'', ko_Controller = Some True\<rparr>"
      "\<lambda>_ _ _. None" "''kafka''"]
  by (simp add: controllingOwner_def builtIn_def guessGVR_def builtinResources_def is_controller_def owner_key_def)

end
