(* ===== verification/Scraper.thy ===== *)
theory Scraper
  imports Prom_Client Cluster
begin

text \<open>
  \<^verbatim>\<open>agent/prom/scraper.go\<close> and the queries of \<^verbatim>\<open>canonical.go\<close>: the samples of three queries, summed per
  workload over the pods the index of owners attributes to it. The client is a parameter; the map
  of rows is an association list, and \<open>visit\<close> is the order in which the last loop sees it.
\<close>

section \<open>The queries (\<^verbatim>\<open>canonical.go\<close>)\<close>

record QueryProfile =
  qp_CPURate :: string
  qp_MemoryWorking :: string
  qp_OOMKilledIncrease :: string
  qp_OOMWindow :: duration

definition quoted :: "string \<Rightarrow> string" where
  "quoted s = [CHR 0x22] @ s @ [CHR 0x22]"

definition container_filter :: string where
  "container_filter = ''{container!='' @ quoted ''POD'' @ '',container!='' @ quoted [] @ ''}''"

definition Canonical_CPURate :: string where
  "Canonical_CPURate = ''sum by (namespace,pod) (rate(container_cpu_usage_seconds_total'' @ container_filter @ ''[5m]))''"

definition Canonical_MemoryWorkingSet :: string where
  "Canonical_MemoryWorkingSet = ''sum by (namespace,pod) (container_memory_working_set_bytes'' @ container_filter @ '')''"

definition Canonical_OOMKilledIncrease :: string where
  "Canonical_OOMKilledIncrease =
     ''sum by (namespace,pod) (increase(kube_pod_container_status_last_terminated_reason{reason='' @
     quoted ''OOMKilled'' @ ''}[7d]))''"

definition DefaultProfile :: QueryProfile where
  "DefaultProfile =
     \<lparr>qp_CPURate = Canonical_CPURate, qp_MemoryWorking = Canonical_MemoryWorkingSet,
      qp_OOMKilledIncrease = Canonical_OOMKilledIncrease, qp_OOMWindow = nanoseconds (7 * 24 * 3600)\<rparr>"

definition HistoricalRange :: "instant \<Rightarrow> Prom_Range" where
  "HistoricalRange now = \<lparr>rn_Start = now - nanoseconds (30 * 24 * 3600), rn_End = now, rn_Step = nanoseconds 3600\<rparr>"

section \<open>Scraping\<close>

record Prom_WorkloadKey =
  pw_Namespace :: string
  pw_Kind :: string
  pw_Name :: string

record PodKey =
  pk_Namespace :: string
  pk_Pod :: string

record WorkloadObservation =
  ob_Namespace :: string
  ob_Kind :: string
  ob_Name :: string
  ob_CPUUsageCores :: f64
  ob_MemoryWorking :: f64
  ob_OOMKilledCount :: i64
  ob_At :: instant

type_synonym owners = "PodKey \<rightharpoonup> Prom_WorkloadKey"

type_synonym prom_query = "string \<Rightarrow> instant \<Rightarrow> string + Sample list"

record Scraper =
  sc_Client :: "prom_query option"
  sc_Profile :: QueryProfile
  sc_owners :: owners

definition NewScraper :: "prom_query \<Rightarrow> owners \<Rightarrow> Scraper" where
  "NewScraper client owners = \<lparr>sc_Client = Some client, sc_Profile = DefaultProfile, sc_owners = owners\<rparr>"

definition SetPodOwners :: "owners \<Rightarrow> Scraper \<Rightarrow> Scraper" where
  "SetPodOwners owners s = s\<lparr>sc_owners := owners\<rparr>"

definition label_value :: "(string \<times> string) list \<Rightarrow> string \<Rightarrow> string" where
  "label_value ls k = (case map_of ls k of Some v \<Rightarrow> v | None \<Rightarrow> [])"

definition ownerFor :: "owners \<Rightarrow> Sample \<Rightarrow> Prom_WorkloadKey option" where
  "ownerFor owners sm =
     owners \<lparr>pk_Namespace = label_value (sm_Labels sm) ''namespace'', pk_Pod = label_value (sm_Labels sm) ''pod''\<rparr>"

definition fresh_row :: "Prom_WorkloadKey \<Rightarrow> instant \<Rightarrow> WorkloadObservation" where
  "fresh_row wk t =
     \<lparr>ob_Namespace = pw_Namespace wk, ob_Kind = pw_Kind wk, ob_Name = pw_Name wk, ob_CPUUsageCores = Fin 0,
      ob_MemoryWorking = Fin 0, ob_OOMKilledCount = 0, ob_At = t\<rparr>"

type_synonym rows = "(Prom_WorkloadKey \<times> WorkloadObservation) list"

fun apply_samples ::
  "owners \<Rightarrow> (WorkloadObservation \<Rightarrow> f64 \<Rightarrow> WorkloadObservation) \<Rightarrow> Sample list \<Rightarrow> rows \<Rightarrow> rows" where
  "apply_samples owners set_value [] m = m"
| "apply_samples owners set_value (sm # sms) m =
     (case ownerFor owners sm of
        None \<Rightarrow> apply_samples owners set_value sms m
      | Some wk \<Rightarrow>
          let obs = (case map_of m wk of Some w \<Rightarrow> w | None \<Rightarrow> fresh_row wk (sm_At sm))
          in apply_samples owners set_value sms (AList.update wk (set_value obs (sm_Value sm)) m))"

definition add_cpu :: "WorkloadObservation \<Rightarrow> f64 \<Rightarrow> WorkloadObservation" where
  "add_cpu w v = w\<lparr>ob_CPUUsageCores := f64_add (ob_CPUUsageCores w) v\<rparr>"

definition add_memory :: "WorkloadObservation \<Rightarrow> f64 \<Rightarrow> WorkloadObservation" where
  "add_memory w v = w\<lparr>ob_MemoryWorking := f64_add (ob_MemoryWorking w) v\<rparr>"

definition add_oom :: "(f64 \<Rightarrow> i64) \<Rightarrow> WorkloadObservation \<Rightarrow> f64 \<Rightarrow> WorkloadObservation" where
  "add_oom conv w v = w\<lparr>ob_OOMKilledCount := wrap64 (ob_OOMKilledCount w + f64_to_i64 conv v)\<rparr>"

definition row_less :: "WorkloadObservation \<Rightarrow> WorkloadObservation \<Rightarrow> bool" where
  "row_less a b =
     (if ob_Namespace a \<noteq> ob_Namespace b then ob_Namespace a < ob_Namespace b
      else if ob_Kind a \<noteq> ob_Kind b then ob_Kind a < ob_Kind b
      else ob_Name a < ob_Name b)"

text \<open>One query's effect on the rows and the last error.\<close>

definition run_query ::
  "prom_query \<Rightarrow> owners \<Rightarrow> instant \<Rightarrow> string \<Rightarrow> (WorkloadObservation \<Rightarrow> f64 \<Rightarrow> WorkloadObservation) \<Rightarrow>
   rows \<times> string option \<Rightarrow> rows \<times> string option" where
  "run_query query owners now promql set_value st =
     (case query promql now of
        Inl err \<Rightarrow> (fst st, Some err)
      | Inr samples \<Rightarrow> (apply_samples owners set_value samples (fst st), snd st))"

definition Scrape ::
  "(f64 \<Rightarrow> i64) \<Rightarrow> (rows \<Rightarrow> rows) \<Rightarrow> Scraper \<Rightarrow> instant \<Rightarrow> WorkloadObservation list \<times> string option" where
  "Scrape conv visit s now =
     (case sc_Client s of
        None \<Rightarrow> ([], None)
      | Some query \<Rightarrow>
          let st = run_query query (sc_owners s) now (qp_CPURate (sc_Profile s)) add_cpu ([], None);
              st = run_query query (sc_owners s) now (qp_MemoryWorking (sc_Profile s)) add_memory st;
              (byWorkload, lastErr) = run_query query (sc_owners s) now (qp_OOMKilledIncrease (sc_Profile s)) (add_oom conv) st;
              out = map (\<lambda>(_, w). if ob_At w = 0 then w\<lparr>ob_At := now\<rparr> else w) (visit byWorkload)
          in (stable_sort row_less out, lastErr))"

section \<open>What a scrape returns\<close>

interpretation row_order: less_order row_less
  by unfold_locales (auto simp: row_less_def split: if_splits)

definition row_key :: "WorkloadObservation \<Rightarrow> Prom_WorkloadKey" where
  "row_key w = \<lparr>pw_Namespace = ob_Namespace w, pw_Kind = ob_Kind w, pw_Name = ob_Name w\<rparr>"

lemma row_less_total: "row_key a \<noteq> row_key b \<Longrightarrow> row_less a b \<or> row_less b a"
  by (auto simp: row_less_def row_key_def)

text \<open>The samples of a query that belong to a workload.\<close>

definition owned :: "owners \<Rightarrow> Prom_WorkloadKey \<Rightarrow> Sample list \<Rightarrow> Sample list" where
  "owned owners wk sms = filter (\<lambda>sm. ownerFor owners sm = Some wk) sms"

definition row_or :: "Prom_WorkloadKey \<Rightarrow> Sample list \<Rightarrow> WorkloadObservation option \<Rightarrow> WorkloadObservation" where
  "row_or wk sms w = (case w of Some w \<Rightarrow> w | None \<Rightarrow> fresh_row wk (sm_At (hd sms)))"

lemma apply_samples_map_of:
  "map_of (apply_samples owners f sms m) wk =
    (if owned owners wk sms = [] then map_of m wk
     else Some (foldl (\<lambda>w sm. f w (sm_Value sm)) (row_or wk (owned owners wk sms) (map_of m wk)) (owned owners wk sms)))"
proof (induction owners f sms m rule: apply_samples.induct)
  case (2 owners f sm sms m)
  show ?case
  proof (cases "ownerFor owners sm")
    case None
    with 2 show ?thesis by (simp add: owned_def)
  next
    case (Some k)
    let ?v = "f (row_or k [sm] (map_of m k)) (sm_Value sm)"
    have obs: "(case map_of m k of None \<Rightarrow> fresh_row k (sm_At sm) | Some w \<Rightarrow> w) = row_or k [sm] (map_of m k)"
      by (simp add: row_or_def list.sel(1) split: option.split)
    have step: "apply_samples owners f (sm # sms) m = apply_samples owners f sms (AList.update k ?v m)"
      by (simp add: Some obs)
    have IH: "map_of (apply_samples owners f sms (AList.update k ?v m)) wk =
        (if owned owners wk sms = [] then map_of (AList.update k ?v m) wk
         else Some (foldl (\<lambda>w sm. f w (sm_Value sm)) (row_or wk (owned owners wk sms) (map_of (AList.update k ?v m) wk))
           (owned owners wk sms)))"
      using 2(2)[OF Some refl] unfolding obs .
    show ?thesis
    proof (cases "k = wk")
      case True
      then have own: "owned owners wk (sm # sms) = sm # owned owners wk sms" using Some by (simp add: owned_def)
      have start: "row_or wk (sm # sms') w = row_or wk [sm] w" for sms' w by (simp add: row_or_def split: option.splits)
      show ?thesis unfolding step IH own start[of "owned owners wk sms"] using True by (simp add: AList.update_conv' row_or_def)
    next
      case False
      then have "owned owners wk (sm # sms) = owned owners wk sms" using Some by (simp add: owned_def)
      with False show ?thesis unfolding step IH by (simp add: AList.update_conv')
    qed
  qed
qed (simp add: owned_def)

lemma apply_samples_keys:
  "distinct (map fst m) \<Longrightarrow> distinct (map fst (apply_samples owners f sms m))"
  by (induction owners f sms m rule: apply_samples.induct)
    (auto simp: distinct_update Let_def split: option.splits)

definition answered :: "string + Sample list \<Rightarrow> Sample list" where
  "answered r = (case r of Inl _ \<Rightarrow> [] | Inr sms \<Rightarrow> sms)"

lemma run_query_rows: "fst (run_query query owners now q f st) = apply_samples owners f (answered (query q now)) (fst st)"
  by (simp add: run_query_def answered_def split: sum.splits)

lemma run_query_error: "snd (run_query query owners now q f st) = (case query q now of Inl err \<Rightarrow> Some err | Inr _ \<Rightarrow> snd st)"
  by (simp add: run_query_def split: sum.splits)

lemma fold_cpu:
  "foldl (\<lambda>w sm. add_cpu w (sm_Value sm)) w sms = w\<lparr>ob_CPUUsageCores := foldl f64_add (ob_CPUUsageCores w) (map sm_Value sms)\<rparr>"
  by (induction sms arbitrary: w) (simp_all add: add_cpu_def)

lemma fold_memory:
  "foldl (\<lambda>w sm. add_memory w (sm_Value sm)) w sms = w\<lparr>ob_MemoryWorking := foldl f64_add (ob_MemoryWorking w) (map sm_Value sms)\<rparr>"
  by (induction sms arbitrary: w) (simp_all add: add_memory_def)

definition oom_sum :: "(f64 \<Rightarrow> i64) \<Rightarrow> i64 \<Rightarrow> f64 list \<Rightarrow> i64" where
  "oom_sum conv n vs = foldl (\<lambda>n v. wrap64 (n + f64_to_i64 conv v)) n vs"

lemma fold_oom:
  "foldl (\<lambda>w sm. add_oom conv w (sm_Value sm)) w sms = w\<lparr>ob_OOMKilledCount := oom_sum conv (ob_OOMKilledCount w) (map sm_Value sms)\<rparr>"
  by (induction sms arbitrary: w) (simp_all add: add_oom_def oom_sum_def)

text \<open>The row of a workload, from the samples of the three queries that belong to it.\<close>

definition scraped_row ::
  "(f64 \<Rightarrow> i64) \<Rightarrow> instant \<Rightarrow> Prom_WorkloadKey \<Rightarrow> Sample list \<Rightarrow> Sample list \<Rightarrow> Sample list \<Rightarrow> WorkloadObservation" where
  "scraped_row conv now wk cpu mem oom =
     (let t = sm_At (hd (cpu @ mem @ oom))
      in \<lparr>ob_Namespace = pw_Namespace wk, ob_Kind = pw_Kind wk, ob_Name = pw_Name wk,
          ob_CPUUsageCores = foldl f64_add (Fin 0) (map sm_Value cpu),
          ob_MemoryWorking = foldl f64_add (Fin 0) (map sm_Value mem),
          ob_OOMKilledCount = oom_sum conv 0 (map sm_Value oom),
          ob_At = (if t = 0 then now else t)\<rparr>)"

definition stamp_row :: "instant \<Rightarrow> WorkloadObservation \<Rightarrow> WorkloadObservation" where
  "stamp_row now w = (if ob_At w = 0 then w\<lparr>ob_At := now\<rparr> else w)"

lemma three_queries:
  "map_option (stamp_row now) (map_of (apply_samples owners (add_oom conv) oom
     (apply_samples owners add_memory mem (apply_samples owners add_cpu cpu []))) wk) =
   (if owned owners wk cpu @ owned owners wk mem @ owned owners wk oom = [] then None
    else Some (scraped_row conv now wk (owned owners wk cpu) (owned owners wk mem) (owned owners wk oom)))"
  by (cases "owned owners wk cpu = []"; cases "owned owners wk mem = []"; cases "owned owners wk oom = []")
    (simp_all add: apply_samples_map_of fold_cpu fold_memory fold_oom row_or_def fresh_row_def scraped_row_def
      stamp_row_def oom_sum_def Let_def)

lemma row_key_scraped [simp]: "row_key (scraped_row conv now wk cpu mem oom) = wk"
  by (simp add: row_key_def scraped_row_def Let_def)

lemma distinct_rows:
  assumes "distinct (map fst m)" "\<And>wk w. map_of m wk = Some w \<Longrightarrow> row_key (g w) = wk"
  shows "distinct (map row_key (map (g \<circ> snd) m))"
proof -
  have "map row_key (map (g \<circ> snd) m) = map fst m"
    using assms by (auto simp: comp_def)
  with assms(1) show ?thesis by (simp only:)
qed

text \<open>The rows of the three queries, before the last loop, and the samples of each that a workload owns.\<close>

definition scraped_map :: "(f64 \<Rightarrow> i64) \<Rightarrow> Scraper \<Rightarrow> prom_query \<Rightarrow> instant \<Rightarrow> rows" where
  "scraped_map conv s query now =
     (let sms = (\<lambda>p. answered (query (p (sc_Profile s)) now))
      in apply_samples (sc_owners s) (add_oom conv) (sms qp_OOMKilledIncrease)
           (apply_samples (sc_owners s) add_memory (sms qp_MemoryWorking)
             (apply_samples (sc_owners s) add_cpu (sms qp_CPURate) [])))"

definition owned_samples :: "Scraper \<Rightarrow> prom_query \<Rightarrow> instant \<Rightarrow> (QueryProfile \<Rightarrow> string) \<Rightarrow> Prom_WorkloadKey \<Rightarrow> Sample list" where
  "owned_samples s query now p wk = owned (sc_owners s) wk (answered (query (p (sc_Profile s)) now))"

definition scraped :: "(f64 \<Rightarrow> i64) \<Rightarrow> Scraper \<Rightarrow> prom_query \<Rightarrow> instant \<Rightarrow> Prom_WorkloadKey \<Rightarrow> WorkloadObservation option" where
  "scraped conv s query now wk =
     (let sms = (\<lambda>p. owned_samples s query now p wk)
      in if sms qp_CPURate @ sms qp_MemoryWorking @ sms qp_OOMKilledIncrease = [] then None
         else Some (scraped_row conv now wk (sms qp_CPURate) (sms qp_MemoryWorking) (sms qp_OOMKilledIncrease)))"

lemma scraped_map_row: "map_option (stamp_row now) (map_of (scraped_map conv s query now) wk) = scraped conv s query now wk"
  unfolding scraped_map_def scraped_def owned_samples_def Let_def by (rule three_queries)

lemma scraped_map_keys: "distinct (map fst (scraped_map conv s query now))"
  by (simp add: scraped_map_def apply_samples_keys Let_def)

lemma scraped_Some:
  "scraped conv s query now wk = Some w \<longleftrightarrow>
     owned_samples s query now qp_CPURate wk @ owned_samples s query now qp_MemoryWorking wk @
       owned_samples s query now qp_OOMKilledIncrease wk \<noteq> [] \<and>
     w = scraped_row conv now wk (owned_samples s query now qp_CPURate wk)
       (owned_samples s query now qp_MemoryWorking wk) (owned_samples s query now qp_OOMKilledIncrease wk)"
  by (auto simp: scraped_def Let_def)

lemma row_key_of_scraped: "scraped conv s query now wk = Some w \<Longrightarrow> row_key w = wk"
  by (auto simp: scraped_def Let_def split: if_splits)

lemma Scrape_rows:
  assumes "sc_Client s = Some query"
  shows "fst (Scrape conv visit s now) = stable_sort row_less (map (stamp_row now \<circ> snd) (visit (scraped_map conv s query now)))"
  using assms by (simp add: Scrape_def run_query_rows scraped_map_def stamp_row_def comp_def case_prod_unfold Let_def)

lemma Scrape_mset:
  assumes "sc_Client s = Some query" "\<And>m. mset (visit m) = mset m"
  shows "mset (fst (Scrape conv visit s now)) = mset (map (stamp_row now \<circ> snd) (scraped_map conv s query now))"
  using assms by (simp add: Scrape_rows)

lemma Scrape_set:
  assumes "sc_Client s = Some query" "\<And>m. mset (visit m) = mset m"
  shows "w \<in> set (fst (Scrape conv visit s now)) \<longleftrightarrow> (\<exists>wk. scraped conv s query now wk = Some w)"
proof -
  have "w \<in> set (map (stamp_row now \<circ> snd) (scraped_map conv s query now)) \<longleftrightarrow>
      (\<exists>wk. map_option (stamp_row now) (map_of (scraped_map conv s query now) wk) = Some w)"
    using scraped_map_keys[of conv s query now] by (force simp: map_of_eq_Some_iff)
  then show ?thesis using mset_eq_setD[OF Scrape_mset[OF assms]] unfolding scraped_map_row by metis
qed

text \<open>
  C35. A scrape sums up every workload once: whatever order the map is visited in, the rows are one per
  workload that owns a sample of a query that answered, strictly ordered by namespace, kind and name;
  the CPU and the memory of a row are the sums of its samples in the order of the answer, its restarts
  the sum of the truncated values, its time that of its first sample; and the error is the last one of
  the three queries. A query that fails takes nothing away from the others.
\<close>

theorem scrape_exact:
  fixes now :: instant
  assumes "sc_Client s = Some query" and "\<And>m. mset (visit m) = mset m"
  defines "cpu \<equiv> \<lambda>wk. owned (sc_owners s) wk (answered (query (qp_CPURate (sc_Profile s)) now))"
    and "mem \<equiv> \<lambda>wk. owned (sc_owners s) wk (answered (query (qp_MemoryWorking (sc_Profile s)) now))"
    and "oom \<equiv> \<lambda>wk. owned (sc_owners s) wk (answered (query (qp_OOMKilledIncrease (sc_Profile s)) now))"
  shows "sorted_by row_less (fst (Scrape conv visit s now)) \<and>
    distinct (map row_key (fst (Scrape conv visit s now))) \<and>
    set (fst (Scrape conv visit s now)) =
      {scraped_row conv now wk (cpu wk) (mem wk) (oom wk) | wk. cpu wk @ mem wk @ oom wk \<noteq> []} \<and>
    snd (Scrape conv visit s now) =
      (case query (qp_OOMKilledIncrease (sc_Profile s)) now of Inl err \<Rightarrow> Some err | Inr _ \<Rightarrow>
       case query (qp_MemoryWorking (sc_Profile s)) now of Inl err \<Rightarrow> Some err | Inr _ \<Rightarrow>
       case query (qp_CPURate (sc_Profile s)) now of Inl err \<Rightarrow> Some err | Inr _ \<Rightarrow> None)"
proof -
  have rows: "fst (Scrape conv visit s now) = stable_sort row_less (map (stamp_row now \<circ> snd) (visit (scraped_map conv s query now)))"
    using assms(1) by (rule Scrape_rows)
  have "row_key (stamp_row now w) = wk" if "map_of (scraped_map conv s query now) wk = Some w" for wk w
    using scraped_map_row[of now conv s query wk] that by (intro row_key_of_scraped[of conv s query now]) simp
  then have "distinct (map row_key (map (stamp_row now \<circ> snd) (scraped_map conv s query now)))"
    by (rule distinct_rows[OF scraped_map_keys])
  then have dist: "distinct (map row_key (fst (Scrape conv visit s now)))"
    using Scrape_mset[where conv = conv and visit = visit and now = now, OF assms(1,2)]
    by (metis mset_eq_imp_distinct_iff mset_map)
  have "snd (Scrape conv visit s now) =
      (case query (qp_OOMKilledIncrease (sc_Profile s)) now of Inl err \<Rightarrow> Some err | Inr _ \<Rightarrow>
       case query (qp_MemoryWorking (sc_Profile s)) now of Inl err \<Rightarrow> Some err | Inr _ \<Rightarrow>
       case query (qp_CPURate (sc_Profile s)) now of Inl err \<Rightarrow> Some err | Inr _ \<Rightarrow> None)"
    using assms(1) by (simp add: Scrape_def run_query_error case_prod_unfold Let_def split: sum.splits)
  moreover have "set (fst (Scrape conv visit s now)) =
      {scraped_row conv now wk (cpu wk) (mem wk) (oom wk) | wk. cpu wk @ mem wk @ oom wk \<noteq> []}"
    using Scrape_set[where conv = conv and visit = visit and now = now, OF assms(1,2)]
    unfolding scraped_Some cpu_def mem_def oom_def owned_samples_def[symmetric] by blast
  ultimately show ?thesis
    using dist unfolding rows by (simp only: row_order.sorted_stable_sort simp_thms)
qed

definition two_pods :: owners where
  "two_pods = (\<lambda>p. if pk_Pod p \<in> {''a'', ''b''} then Some \<lparr>pw_Namespace = ''web'', pw_Kind = ''Deployment'', pw_Name = ''shop''\<rparr> else None)"

definition two_samples :: "Sample list" where
  "two_samples = map (\<lambda>(pod, v). \<lparr>sm_Labels = [(''namespace'', ''web''), (''pod'', pod)], sm_Value = Fin v, sm_At = 7\<rparr>)
     [(''a'', 1), (''x'', 5), (''b'', 2)]"

theorem scrape_exact_witness:
  "\<exists>w. set (fst (Scrape (\<lambda>_. 0) rev
      (NewScraper (\<lambda>q _. if q = Canonical_MemoryWorkingSet then Inl ''down'' else Inr two_samples) two_pods) 9)) = {w} \<and>
    ob_Name w = ''shop'' \<and> ob_At w = 7"
proof -
  let ?query = "\<lambda>q (_ :: instant). if q = Canonical_MemoryWorkingSet then Inl ''down'' else Inr two_samples"
  let ?shop = "\<lparr>pw_Namespace = ''web'', pw_Kind = ''Deployment'', pw_Name = ''shop''\<rparr>"
  let ?s = "NewScraper ?query two_pods"
  have q: "sc_Client ?s = Some ?query" "sc_owners ?s = two_pods" "sc_Profile ?s = DefaultProfile"
    by (simp_all add: NewScraper_def)
  have differ: "Canonical_CPURate \<noteq> Canonical_MemoryWorkingSet" "Canonical_OOMKilledIncrease \<noteq> Canonical_MemoryWorkingSet"
    by (simp_all add: Canonical_CPURate_def Canonical_MemoryWorkingSet_def Canonical_OOMKilledIncrease_def)
  have own: "ownerFor two_pods sm = (if label_value (sm_Labels sm) ''pod'' \<in> {''a'', ''b''} then Some ?shop else None)" for sm
    by (simp add: ownerFor_def two_pods_def)
  have shop: "owned two_pods wk two_samples = (if wk = ?shop then [hd two_samples, last two_samples] else [])" for wk
    unfolding owned_def own by (auto simp: two_samples_def label_value_def)
  have none: "owned two_pods wk [] = []" for wk by (simp add: owned_def)
  have "set (fst (Scrape (\<lambda>_. 0) rev ?s 9)) =
      {scraped_row (\<lambda>_. 0) 9 wk (owned two_pods wk two_samples) [] (owned two_pods wk two_samples) | wk.
        owned two_pods wk two_samples @ [] @ owned two_pods wk two_samples \<noteq> []}"
    using scrape_exact[OF q(1), of rev "\<lambda>_. 0" 9] unfolding q
    by (simp add: answered_def DefaultProfile_def differ none)
  also have "\<dots> = {scraped_row (\<lambda>_. 0) 9 ?shop [hd two_samples, last two_samples] [] [hd two_samples, last two_samples]}"
    unfolding shop by auto
  finally show ?thesis
    by (auto simp: scraped_row_def two_samples_def)
qed

end
