(* ===== verification/Cluster_Crd.thy ===== *)
theory Cluster_Crd
  imports Cluster Go_Float Go_Strconv
begin

text \<open>
  \<^verbatim>\<open>agent/cluster/vpa.go\<close> and \<^verbatim>\<open>agent/cluster/karpenter.go\<close>: the readers of the two optional custom
  resources, and the probe of \<^verbatim>\<open>cmd/agent/probe.go\<close>. Discovery, the dynamic client and apimachinery's
  access to unstructured objects are parameters; where the code drops the error and the flag of such
  an access, the parameter gives the zero value.
\<close>

section \<open>Unstructured values\<close>

datatype any_value =
  AString string | AInt i64 | ASlice "any_value list" | AMap "(string \<times> any_value) list" | AOther

type_synonym object = "(string \<times> any_value) list"

record Unstructured =
  un_GetName :: "object \<Rightarrow> string"
  un_NestedSlice :: "object \<Rightarrow> string list \<Rightarrow> any_value list"
  un_NestedString :: "object \<Rightarrow> string list \<Rightarrow> string"
  un_NestedMap :: "object \<Rightarrow> string list \<Rightarrow> object option"
  un_NestedInt64 :: "object \<Rightarrow> string list \<Rightarrow> i64"

text \<open>Type assertions with the flag dropped: the zero value for another type.\<close>

definition any_string :: "any_value option \<Rightarrow> string" where
  "any_string v = (case v of Some (AString s) \<Rightarrow> s | _ \<Rightarrow> [])"

definition any_slice :: "any_value option \<Rightarrow> any_value list" where
  "any_slice v = (case v of Some (ASlice xs) \<Rightarrow> xs | _ \<Rightarrow> [])"

text \<open>What the API server says to a list: a kind it does not know, another error, or the items.\<close>

datatype listing = NoMatch | ListError string | Items "object list"

type_synonym discovery = "string \<Rightarrow> string list option"

definition crdPresent :: "discovery option \<Rightarrow> string \<Rightarrow> string \<Rightarrow> bool" where
  "crdPresent disc groupVersion kind =
     (case disc of
        None \<Rightarrow> False
      | Some d \<Rightarrow> (case d groupVersion of None \<Rightarrow> False | Some kinds \<Rightarrow> kind \<in> set kinds))"

section \<open>Vertical autoscalers (\<^verbatim>\<open>vpa.go\<close>)\<close>

record VPARecommendation =
  vp_Mode :: string
  vp_RecommendCPUm :: i64
  vp_RecommendMemB :: i64
  vp_UpperBoundCPUm :: i64
  vp_UpperBoundMemB :: i64
  vp_LowerBoundCPUm :: i64
  vp_LowerBoundMemB :: i64

text \<open>A reader is its client; \<open>Inr None\<close> is the nil reader of a cluster without the resource.\<close>

definition NewVPAReader :: "'c option \<Rightarrow> discovery option \<Rightarrow> string + 'c option" where
  "NewVPAReader client disc =
     (if client = None \<or> disc = None then Inl ''cluster/vpa: nil client or discovery''
      else if \<not> crdPresent disc ''autoscaling.k8s.io/v1'' ''VerticalPodAutoscaler'' then Inr None
      else Inr client)"

definition vpaTargets :: "Unstructured \<Rightarrow> object \<Rightarrow> K8s_WorkloadRef \<Rightarrow> bool" where
  "vpaTargets un u w =
     (case un_NestedMap un u [''spec'', ''targetRef''] of
        None \<Rightarrow> False
      | Some target \<Rightarrow> any_string (map_of target ''kind'') = kr_Kind w \<and> any_string (map_of target ''name'') = kr_Name w)"

fun nestedString :: "object \<Rightarrow> string list \<Rightarrow> string" where
  "nestedString cur [] = []"
| "nestedString cur [p] = (case map_of cur p of None \<Rightarrow> [] | Some v \<Rightarrow> any_string (Some v))"
| "nestedString cur (p # q # ps) =
     (case map_of cur p of Some (AMap m) \<Rightarrow> nestedString m (q # ps) | _ \<Rightarrow> [])"

definition readResourceMilli :: "(f64 \<Rightarrow> i64) \<Rightarrow> object \<Rightarrow> string list \<Rightarrow> i64" where
  "readResourceMilli conv m path =
     (let s = nestedString m path
      in if s = [] then 0
         else if has_suffix s ''m''
         then (case parse_int (trim_suffix s ''m'') of Inl _ \<Rightarrow> 0 | Inr v \<Rightarrow> v)
         else case parse_int s of
                Inr v \<Rightarrow> wrap64 (v * 1000)
              | Inl _ \<Rightarrow> (case parse_float s of Inl _ \<Rightarrow> 0 | Inr f \<Rightarrow> f64_to_i64 conv (f64_mul f (Fin 1000))))"

definition memSuffixes :: "(string \<times> i64) list" where
  "memSuffixes =
     [(''Ki'', 1024), (''Mi'', 1024 * 1024), (''Gi'', 1024 * 1024 * 1024), (''Ti'', 1024 * 1024 * 1024 * 1024),
      (''K'', 1000), (''M'', 1000 * 1000), (''G'', 1000 * 1000 * 1000), (''T'', 1000 * 1000 * 1000 * 1000)]"

text \<open>The loop over the map of suffixes, in the order \<open>sfx\<close> in which it visits them.\<close>

fun strip_suffix :: "(string \<times> i64) list \<Rightarrow> string \<Rightarrow> string \<times> i64" where
  "strip_suffix [] s = (s, 1)"
| "strip_suffix ((suf, factor) # sfx) s =
     (if has_suffix s suf then (trim_suffix s suf, factor) else strip_suffix sfx s)"

definition readResourceBytes :: "(string \<times> i64) list \<Rightarrow> object \<Rightarrow> string list \<Rightarrow> i64" where
  "readResourceBytes sfx m path =
     (let s = nestedString m path
      in if s = [] then 0
         else let (s, multiplier) = strip_suffix sfx s
              in case parse_int s of Inl _ \<Rightarrow> 0 | Inr v \<Rightarrow> wrap64 (v * multiplier))"

definition parseVPA :: "Unstructured \<Rightarrow> (f64 \<Rightarrow> i64) \<Rightarrow> (string \<times> i64) list \<Rightarrow> object \<Rightarrow> VPARecommendation" where
  "parseVPA un conv sfx u =
     (let v = un_NestedString un u [''spec'', ''updatePolicy'', ''updateMode''];
          mode = (if v \<noteq> [] then v else ''Off'');
          none = \<lparr>vp_Mode = mode, vp_RecommendCPUm = 0, vp_RecommendMemB = 0, vp_UpperBoundCPUm = 0,
                  vp_UpperBoundMemB = 0, vp_LowerBoundCPUm = 0, vp_LowerBoundMemB = 0\<rparr>
      in case un_NestedSlice un u [''status'', ''recommendation'', ''containerRecommendations''] of
           AMap c # _ \<Rightarrow>
             \<lparr>vp_Mode = mode,
              vp_RecommendCPUm = readResourceMilli conv c [''target'', ''cpu''],
              vp_RecommendMemB = readResourceBytes sfx c [''target'', ''memory''],
              vp_UpperBoundCPUm = readResourceMilli conv c [''upperBound'', ''cpu''],
              vp_UpperBoundMemB = readResourceBytes sfx c [''upperBound'', ''memory''],
              vp_LowerBoundCPUm = readResourceMilli conv c [''lowerBound'', ''cpu''],
              vp_LowerBoundMemB = readResourceBytes sfx c [''lowerBound'', ''memory'']\<rparr>
         | _ \<Rightarrow> none)"

text \<open>\<open>list\<close> is the client's answer for the namespace.\<close>

definition VPA_Get ::
  "Unstructured \<Rightarrow> (f64 \<Rightarrow> i64) \<Rightarrow> (string \<times> i64) list \<Rightarrow> (string \<Rightarrow> listing) option \<Rightarrow> K8s_WorkloadRef \<Rightarrow>
   string + VPARecommendation option" where
  "VPA_Get un conv sfx client w =
     (case client of
        None \<Rightarrow> Inr None
      | Some list \<Rightarrow>
          (case list (kr_Namespace w) of
             NoMatch \<Rightarrow> Inr None
           | ListError err \<Rightarrow> Inl (''cluster/vpa: list: '' @ err)
           | Items items \<Rightarrow> Inr (map_option (parseVPA un conv sfx) (find (\<lambda>u. vpaTargets un u w) items))))"

section \<open>Node pools (\<^verbatim>\<open>karpenter.go\<close>)\<close>

record KarpenterNodePool =
  kn_Name :: string
  kn_Disrupting :: bool
  kn_NodeCountCurrent :: i64
  kn_NodeCountLimit :: i64
  kn_Requirements :: "(string \<times> string list) list"
  kn_ConsolidationMode :: string

definition NewKarpenterReader :: "'c option \<Rightarrow> discovery option \<Rightarrow> string + 'c option" where
  "NewKarpenterReader client disc =
     (if client = None \<or> disc = None then Inl ''cluster/karpenter: nil client or discovery''
      else if \<not> crdPresent disc ''karpenter.sh/v1'' ''NodePool'' then Inr None
      else Inr client)"

fun requirements_loop :: "(string \<times> string list) list \<Rightarrow> any_value list \<Rightarrow> (string \<times> string list) list" where
  "requirements_loop out [] = out"
| "requirements_loop out (AMap m # reqs) =
     (let key = any_string (map_of m ''key''); values = any_slice (map_of m ''values'')
      in if key = [] \<or> values = [] then requirements_loop out reqs
         else requirements_loop
           (AList.update key (List.map_filter (\<lambda>v. case v of AString s \<Rightarrow> Some s | _ \<Rightarrow> None) values) out) reqs)"
| "requirements_loop out (_ # reqs) = requirements_loop out reqs"

definition disrupting_condition :: "any_value \<Rightarrow> bool" where
  "disrupting_condition v =
     (case v of
        AMap c \<Rightarrow> any_string (map_of c ''type'') = ''Disrupting'' \<and> any_string (map_of c ''status'') = ''True''
      | _ \<Rightarrow> False)"

definition parseNodePool :: "Unstructured \<Rightarrow> object \<Rightarrow> KarpenterNodePool" where
  "parseNodePool un u =
     \<lparr>kn_Name = un_GetName un u,
      kn_Disrupting = list_ex disrupting_condition (un_NestedSlice un u [''status'', ''conditions'']),
      kn_NodeCountCurrent = (let n = un_NestedInt64 un u [''status'', ''resources'', ''nodes''] in if n > 0 then n else 0),
      kn_NodeCountLimit = 0,
      kn_Requirements = requirements_loop [] (un_NestedSlice un u [''spec'', ''template'', ''spec'', ''requirements'']),
      kn_ConsolidationMode = un_NestedString un u [''spec'', ''disruption'', ''consolidationPolicy'']\<rparr>"

definition Karpenter_List :: "Unstructured \<Rightarrow> listing option \<Rightarrow> string + KarpenterNodePool list" where
  "Karpenter_List un client =
     (case client of
        None \<Rightarrow> Inr []
      | Some NoMatch \<Rightarrow> Inr []
      | Some (ListError err) \<Rightarrow> Inl (''cluster/karpenter: list: '' @ err)
      | Some (Items items) \<Rightarrow> Inr (map (parseNodePool un) items))"

text \<open>\<open>found\<close> is the answer to the list of deployments of that name in \<^verbatim>\<open>kube-system\<close>.\<close>

definition IsClusterAutoscalerPresent :: "(string + nat) option \<Rightarrow> string + bool" where
  "IsClusterAutoscalerPresent found =
     (case found of
        None \<Rightarrow> Inr False
      | Some (Inl err) \<Rightarrow> Inl (''cluster/autoscaler probe: '' @ err)
      | Some (Inr n) \<Rightarrow> Inr (0 < n))"

section \<open>Memory quantities\<close>

lemma ends_in_last: "has_suffix s (t @ [c]) \<Longrightarrow> s \<noteq> [] \<and> last s = c"
  by (metis append_is_Nil_conv has_suffixD last_appendR last_snoc list.distinct(1) append_assoc)

lemma memSuffixes_disjoint:
  assumes "(a, x) \<in> set memSuffixes" "(b, y) \<in> set memSuffixes" "has_suffix s a" "has_suffix s b"
  shows "a = b"
proof -
  obtain p where p: "s = p @ a" using has_suffixD[OF assms(3)] by metis
  obtain q where q: "s = q @ b" using has_suffixD[OF assms(4)] by metis
  from p q assms(1,2) show ?thesis
    by (auto simp: memSuffixes_def append_eq_append_conv2 Cons_eq_append_conv append_eq_Cons_conv)
qed

lemma memSuffixes_unique:
  assumes "(a, x) \<in> set memSuffixes" "(b, y) \<in> set memSuffixes" "has_suffix s a" "has_suffix s b"
  shows "(a, x) = (b, y)"
proof -
  have "distinct (map fst memSuffixes)" by (simp add: memSuffixes_def)
  with memSuffixes_disjoint[OF assms] assms(1,2) show ?thesis by (metis eq_key_imp_eq_value)
qed

lemma strip_suffix_none: "\<forall>(a, x) \<in> set sfx. \<not> has_suffix s a \<Longrightarrow> strip_suffix sfx s = (s, 1)"
  by (induction sfx s rule: strip_suffix.induct) auto

lemma strip_suffix_some:
  assumes "(a, x) \<in> set sfx" "has_suffix s a" "\<And>b y. (b, y) \<in> set sfx \<Longrightarrow> has_suffix s b \<Longrightarrow> (b, y) = (a, x)"
  shows "strip_suffix sfx s = (trim_suffix s a, x)"
  using assms
proof (induction sfx)
  case (Cons e sfx)
  obtain b y where e: "e = (b, y)" by (cases e)
  show ?case
  proof (cases "has_suffix s b")
    case True
    with Cons.prems(3)[of b y] e show ?thesis by simp
  next
    case False
    with Cons.prems(1,2) e have "(a, x) \<in> set sfx" by auto
    moreover have "(c, z) = (a, x)" if "(c, z) \<in> set sfx" "has_suffix s c" for c z
      using Cons.prems(3)[of c z] that by simp
    ultimately have "strip_suffix sfx s = (trim_suffix s a, x)" using Cons.IH Cons.prems(2) by blast
    with False e show ?thesis by simp
  qed
qed simp

lemma strip_suffix_memory:
  assumes "set sfx = set memSuffixes" "(a, x) \<in> set memSuffixes" "has_suffix s a"
  shows "strip_suffix sfx s = (trim_suffix s a, x)"
  using strip_suffix_some[of a x sfx s] memSuffixes_unique[of _ _ a x s] assms by blast

lemma unread_suffixes:
  "strip_suffix memSuffixes ''1.5Gi'' = (''1.5'', 1073741824)"
  "strip_suffix memSuffixes ''512k'' = (''512k'', 1)"
  "strip_suffix memSuffixes ''0.5'' = (''0.5'', 1)"
  by (simp_all add: memSuffixes_def has_suffix_def trim_suffix_def)

lemma unread_numbers:
  "parse_int ''1.5'' = Inl ErrSyntax" "parse_int ''512k'' = Inl ErrSyntax" "parse_int ''0.5'' = Inl ErrSyntax"
  by (simp_all add: parse_int_def parse_uint_def split_sign_def is_digit_def digit_val_def Let_def)

lemma unread_quantities:
  "nestedString m path = ''1.5Gi'' \<Longrightarrow> readResourceBytes memSuffixes m path = 0"
  "nestedString m path = ''512k'' \<Longrightarrow> readResourceBytes memSuffixes m path = 0"
  "nestedString m path = ''0.5'' \<Longrightarrow> readResourceBytes memSuffixes m path = 0"
  unfolding readResourceBytes_def Let_def by (simp_all add: unread_suffixes unread_numbers)

text \<open>
  The suffix loop does not depend on the order of its map: no text ends in two of the suffixes, so
  every order of the entries gives the same number; a count with one of them is its multiple, wrapped
  to 64 bits, and a text in none of these forms, such as one with a fraction or with Kubernetes' own
  lower-case k, is read as no recommendation at all.
\<close>

lemma memory_suffix_order:
  assumes "set sfx = set memSuffixes"
  shows "readResourceBytes sfx m path = readResourceBytes memSuffixes m path \<and>
    ((suf, factor) \<in> set memSuffixes \<and> nestedString m path = show_nat n @ suf \<and> int n < 2 ^ 63 \<longrightarrow>
      readResourceBytes sfx m path = wrap64 (int n * factor)) \<and>
    (nestedString m path \<in> {''1.5Gi'', ''512k'', ''0.5''} \<longrightarrow> readResourceBytes sfx m path = 0)"
proof -
  have eq: "strip_suffix sfx s = strip_suffix memSuffixes s" for s
  proof (cases "\<exists>(a, x) \<in> set memSuffixes. has_suffix s a")
    case True
    with strip_suffix_memory[OF assms] strip_suffix_memory[OF refl] show ?thesis by fastforce
  next
    case False
    then have no: "\<forall>(a, x) \<in> set memSuffixes. \<not> has_suffix s a" by blast
    then have "\<forall>(a, x) \<in> set sfx. \<not> has_suffix s a" unfolding assms .
    with no show ?thesis by (simp add: strip_suffix_none)
  qed
  have same: "readResourceBytes sfx m path = readResourceBytes memSuffixes m path"
    unfolding readResourceBytes_def eq ..
  moreover have "readResourceBytes memSuffixes m path = wrap64 (int n * factor)"
    if "(suf, factor) \<in> set memSuffixes" "nestedString m path = show_nat n @ suf" "int n < 2 ^ 63"
  proof -
    have "strip_suffix memSuffixes (show_nat n @ suf) = (show_nat n, factor)"
      using strip_suffix_memory[OF refl that(1)] by (simp add: trim_suffix_append)
    moreover have "parse_int (show_nat n) = Inr (int n)"
      using parse_int_digits[of "show_nat n"] that(3) by (simp add: all_digits_show_nat)
    ultimately show ?thesis using that(2) by (simp add: readResourceBytes_def)
  qed
  moreover have "readResourceBytes memSuffixes m path = 0" if "nestedString m path \<in> {''1.5Gi'', ''512k'', ''0.5''}"
    using that unread_quantities by auto
  ultimately show ?thesis by simp
qed

end
