(* ===== verification/Egress.thy ===== *)
theory Egress
  imports Prom_Client Ingestion Middleware
begin

text \<open>
  \<^verbatim>\<open>agent/egress/egress.go\<close>: the client that posts an agent's snapshots, and the route it posts to as
  \<^verbatim>\<open>cmd/api/routes.go\<close> mounts it. TLS, the JSON codecs, HMAC and the network are parameters.
\<close>

section \<open>The client\<close>

record Egress_Config =
  ec_BackendURL :: string
  ec_TenantID :: string
  ec_ClusterID :: string
  ec_AgentVersion :: string
  ec_CertPath :: string
  ec_KeyPath :: string
  ec_CABundlePath :: string
  ec_IngestSecret :: string
  ec_Timeout :: duration

definition DefaultMTLSDir :: string where "DefaultMTLSDir = ''/var/run/optiqor/mtls''"
definition DefaultCert :: string where "DefaultCert = ''tls.crt''"
definition DefaultKey :: string where "DefaultKey = ''tls.key''"
definition DefaultCA :: string where "DefaultCA = ''ca.crt''"

text \<open>\<open>filepath.Join\<close> of the clean directory and one name.\<close>

definition mtls_file :: "string \<Rightarrow> string" where
  "mtls_file name = DefaultMTLSDir @ ''/'' @ name"

definition buildTLS :: "('cert, 'pool) Tls_Lib \<Rightarrow> 'pool \<Rightarrow> Egress_Config \<Rightarrow> string + ('cert, 'pool) TLS_Config" where
  "buildTLS tls empty_pool cfg =
     (case tl_LoadX509KeyPair tls (ec_CertPath cfg) (ec_KeyPath cfg) of
        Inl err \<Rightarrow> Inl (''egress: load client cert: '' @ err)
      | Inr cert \<Rightarrow>
          (let out = (\<lambda>pool. \<lparr>tf_Certificate = cert, tf_RootCAs = Some pool, tf_MinVersion = ''TLS13''\<rparr>)
           in if ec_CABundlePath cfg = [] then Inr (out empty_pool)
              else case tl_ReadFile tls (ec_CABundlePath cfg) of
                     Inl err \<Rightarrow> Inl (''egress: read CA bundle: '' @ err)
                   | Inr ca \<Rightarrow>
                       (case tl_AppendCertsFromPEM tls ca of
                          None \<Rightarrow> Inl ''egress: CA bundle PEM did not contain any certs''
                        | Some pool \<Rightarrow> Inr (out pool))))"

record ('cert, 'pool) Egress_Client =
  eg_cfg :: Egress_Config
  eg_TLS :: "('cert, 'pool) TLS_Config"
  eg_issuer :: Ident_Issuer

text \<open>The configuration with its defaults filled in.\<close>

definition egress_defaults :: "Egress_Config \<Rightarrow> Egress_Config" where
  "egress_defaults cfg =
     cfg\<lparr>ec_CertPath := (if ec_CertPath cfg = [] then mtls_file DefaultCert else ec_CertPath cfg),
         ec_KeyPath := (if ec_KeyPath cfg = [] then mtls_file DefaultKey else ec_KeyPath cfg),
         ec_CABundlePath := (if ec_CABundlePath cfg = [] then mtls_file DefaultCA else ec_CABundlePath cfg),
         ec_Timeout := (if ec_Timeout cfg \<le> 0 then nanoseconds 30 else ec_Timeout cfg)\<rparr>"

definition Egress_New ::
  "('cert, 'pool) Tls_Lib \<Rightarrow> 'pool \<Rightarrow> Egress_Config \<Rightarrow> string + ('cert, 'pool) Egress_Client" where
  "Egress_New tls empty_pool cfg0 =
     (if ec_BackendURL cfg0 = [] then Inl ''egress: BackendURL is required''
      else if ec_TenantID cfg0 = [] then Inl ''egress: TenantID is required''
      else
        let cfg = egress_defaults cfg0
        in case buildTLS tls empty_pool cfg of
             Inl err \<Rightarrow> Inl err
           | Inr tlsCfg \<Rightarrow>
               (case Ident_NewIssuer (ec_IngestSecret cfg) MaxTTL of
                  Inl err \<Rightarrow> Inl (''egress: ident: '' @ ident_error_text err)
                | Inr iss \<Rightarrow> Inr \<lparr>eg_cfg = cfg, eg_TLS = tlsCfg, eg_issuer = iss\<rparr>))"

text \<open>
  The codecs: the snapshot's JSON or the marshaller's error, the token's HMAC and JSON, whether a
  request can be made for a URL, and the reading of the answer.
\<close>

record Egress_Lib =
  el_Marshal :: "AgentSnapshot \<Rightarrow> string + string"
  el_HMAC :: "string \<Rightarrow> string \<Rightarrow> string"
  el_MarshalToken :: "Ident_Token \<Rightarrow> string"
  el_NewRequest :: "string \<Rightarrow> string option"
  el_Unmarshal :: "string \<Rightarrow> string + AgentSnapshotResponse"

record Posted =
  po_URL :: string
  po_ContentType :: string
  po_Token :: string
  po_UserAgent :: string
  po_Body :: string

text \<open>
  \<open>now\<close> is the issuer's clock, \<open>send\<close> what the network makes of the one request. The first component
  is that request, if one was sent. The reader stops after a mebibyte, so that an error behind it is
  not met.
\<close>

definition answer_limit :: nat where "answer_limit = 2 ^ 20"

definition read_answer :: "(string \<Rightarrow> string + AgentSnapshotResponse) \<Rightarrow> Reply \<Rightarrow> string + AgentSnapshotResponse" where
  "read_answer unmarshal resp =
     (case (if length (rp_Body resp) < answer_limit then rp_ReadErr resp else None) of
        Some err \<Rightarrow> Inl (''egress: read: '' @ err)
      | None \<Rightarrow>
          (let respBody = take answer_limit (rp_Body resp)
           in if rp_Status resp sdiv 100 \<noteq> 2
              then Inl (''egress: backend '' @ show_int (rp_Status resp) @ '': '' @ respBody)
              else case unmarshal respBody of
                     Inl err \<Rightarrow> Inl (''egress: unmarshal: '' @ err)
                   | Inr out \<Rightarrow> Inr out))"

definition PostSnapshot ::
  "Egress_Lib \<Rightarrow> ('cert, 'pool) Egress_Client \<Rightarrow> instant \<Rightarrow> (Posted \<Rightarrow> string + Reply) \<Rightarrow> AgentSnapshot \<Rightarrow>
   Posted option \<times> (string + AgentSnapshotResponse)" where
  "PostSnapshot lib c now send snap =
     (case el_Marshal lib snap of
        Inl err \<Rightarrow> (None, Inl (''egress: marshal: '' @ err))
      | Inr body \<Rightarrow>
          (case Ident_Issue (el_HMAC lib) (el_MarshalToken lib) (eg_issuer c) now (ec_TenantID (eg_cfg c))
                  (ec_ClusterID (eg_cfg c)) (as_BatchID snap) AgentSnapshotAudience of
             Inl err \<Rightarrow> (None, Inl (''egress: issue token: '' @ ident_error_text err))
           | Inr tok \<Rightarrow>
               (let url = ec_BackendURL (eg_cfg c) @ ''/v1/agent/snapshot''
                in case el_NewRequest lib url of
                     Some err \<Rightarrow> (None, Inl (''egress: new request: '' @ err))
                   | None \<Rightarrow>
                       let req = \<lparr>po_URL = url, po_ContentType = ''application/json'', po_Token = tok,
                                  po_UserAgent = ''optiqor-agent/'' @ ec_AgentVersion (eg_cfg c), po_Body = body\<rparr>
                       in (Some req,
                           case send req of
                             Inl err \<Rightarrow> Inl (''egress: do: '' @ err)
                           | Inr resp \<Rightarrow> read_answer (el_Unmarshal lib) resp))))"

section \<open>The route\<close>

text \<open>\<open>buildAgentSnapshotHandler\<close>: without a secret, or with a short one, there is no route.\<close>

definition buildAgentSnapshotHandler ::
  "string \<Rightarrow> (TenantContext \<Rightarrow> AgentSnapshot \<Rightarrow> bool) option \<Rightarrow> AgentSnapshotHandler option" where
  "buildAgentSnapshotHandler secret sink =
     (if secret = [] then None
      else case Ident_NewVerifier secret of
             Inl _ \<Rightarrow> None
           | Inr ver \<Rightarrow> Some \<lparr>sh_Verifier = Some ver, sh_Sink = sink\<rparr>)"

definition snapshot_route ::
  "(string \<Rightarrow> string \<Rightarrow> string) \<Rightarrow> (string \<Rightarrow> Ident_Token option) \<Rightarrow> instant \<Rightarrow> Env \<Rightarrow> AgentSnapshotHandler \<Rightarrow> (string \<Rightarrow> AgentSnapshot json_result) \<Rightarrow> (snapshot_event, AgentSnapshotResponse) handler" where
  "snapshot_route hmac unmarshal now env h decode =
     requireTenant (MTLSTenantExtractor env)
       (\<lambda>r. case AgentSnapshot_Snapshot hmac unmarshal now h decode r of (es, resp) \<Rightarrow> (map Domain es, Responded resp))"

text \<open>
  The request a posted snapshot arrives as; the headers are those the client set, and \<open>tls\<close> is what the
  server's listener makes of the connection: nothing on a plain one, and the client's certificates,
  given by their URIs, on one that terminates TLS and asks for them.
\<close>

definition arrives :: "URI list list option \<Rightarrow> string \<Rightarrow> Posted \<Rightarrow> Request" where
  "arrives tls host p =
     \<lparr>rq_Method = ''POST'', rq_Path = ''/v1/agent/snapshot'', rq_Host = host, rq_PathValue = (\<lambda>_. []),
      rq_Header = (\<lambda>h. if h = ''Content-Type'' then po_ContentType p
                       else if h = TokenHeader then po_Token p
                       else if h = ''User-Agent'' then po_UserAgent p else []),
      rq_Query = (\<lambda>_. []), rq_Cookie = (\<lambda>_. None), rq_TLS = tls \<noteq> None,
      rq_PeerCertificates = (case tls of None \<Rightarrow> [] | Some certs \<Rightarrow> certs),
      rq_Body = po_Body p, rq_Tenant = None, rq_RequestID = []\<rparr>"

text \<open>The listener of \<^verbatim>\<open>cmd/api/main.go\<close>: \<open>srv.ListenAndServe()\<close> on a server without a TLS configuration.\<close>

definition main_listener :: "URI list list option" where
  "main_listener = None"

text \<open>The server as the network: the events of the route, and its answer rendered by \<open>render\<close>.\<close>

definition serve ::
  "(AgentSnapshotResponse Body \<Rightarrow> string) \<Rightarrow> (snapshot_event, AgentSnapshotResponse) handler \<Rightarrow> URI list list option \<Rightarrow>
   string \<Rightarrow> Posted \<Rightarrow> string + Reply" where
  "serve render route tls host p =
     (case snd (route (arrives tls host p)) of
        Panicked \<Rightarrow> Inl ''EOF''
      | Responded resp \<Rightarrow> Inr \<lparr>rp_Status = rs_Status resp, rp_Body = render (rs_Body resp), rp_ReadErr = None\<rparr>)"

section \<open>From the agent to the store\<close>

lemma Egress_New_Inr:
  assumes "Egress_New tls empty_pool cfg = Inr c"
  shows "Ident_NewIssuer (ec_IngestSecret cfg) MaxTTL = Inr (eg_issuer c)"
    and "ec_TenantID (eg_cfg c) = ec_TenantID cfg" "ec_ClusterID (eg_cfg c) = ec_ClusterID cfg"
    and "ec_BackendURL (eg_cfg c) = ec_BackendURL cfg" "ec_TenantID cfg \<noteq> []"
  using assms by (auto simp: Egress_New_def egress_defaults_def Let_def split: if_splits sum.splits)

lemma buildAgentSnapshotHandler_Some:
  assumes "buildAgentSnapshotHandler secret sink = Some handler"
  obtains ver where "Ident_NewVerifier secret = Inr ver" "handler = \<lparr>sh_Verifier = Some ver, sh_Sink = sink\<rparr>"
  using assms by (auto simp: buildAgentSnapshotHandler_def split: if_splits sum.splits)

lemma Unix_MaxTTL:
  assumes "sane_time t"
  shows "Unix (t + MaxTTL) = Unix t + 900"
proof -
  have "(t + MaxTTL) div 1000000000 = t div 1000000000 + 900" by (simp add: MaxTTL_def nanoseconds_def)
  then have "Unix (t + MaxTTL) = wrap64 (Unix t + 900)" unfolding Unix_def by (simp add: algebra_simps)
  moreover have "in_i64 (Unix t + 900)" using Unix_exact[OF assms] assms by (auto simp: in_i64_def sane_time_def)
  ultimately show ?thesis by (simp add: wrap64_id)
qed

text \<open>The scope a snapshot of a tenant is stored under.\<close>

definition snapshot_scope :: "string \<Rightarrow> AgentSnapshot \<Rightarrow> TenantContext" where
  "snapshot_scope tenant snap =
     \<lparr>tc_TenantID = tenant, tc_WorkspaceID = [], tc_ClusterID = as_ClusterID snap, tc_Namespace = []\<rparr>"

definition accepted_answer :: "AgentSnapshot \<Rightarrow> AgentSnapshotResponse" where
  "accepted_answer snap =
     \<lparr>ar_Accepted = True, ar_BatchID = as_BatchID snap, ar_WorkloadsObs = length (as_Workloads snap),
      ar_EventsObs = length (as_Events snap), ar_HPAsObs = length (as_HPAs snap),
      ar_PromObs = length (as_PromSamples snap)\<rparr>"

lemma status_401: "show_int 401 = ''401''"
  by (simp add: show_int_def show_nat.simps digit_char_def char_of_def bit_0)

lemma status_500: "show_int 500 = ''500''"
  by (simp add: show_int_def show_nat.simps digit_char_def char_of_def bit_0)

text \<open>The route on an authentic request.\<close>

lemma snapshot_route_accepts:
  assumes "rq_Method r = ''POST''" "rq_TLS r" "rq_PeerCertificates r = us # rest"
    and "tenantIDFromCert us = Inr tenant" "tenant \<noteq> []"
    and "rq_Header r TokenHeader \<noteq> []" "sh_Verifier h = Some v" "sh_Sink h = Some sink"
    and "Ident_Verify hmac unmarshal v now (rq_Header r TokenHeader) AgentSnapshotAudience = Inr tok"
    and "it_TenantID tok = tenant" "it_ClusterID tok = as_ClusterID snap"
    and "decode (rq_Body r) = Decoded snap" "int (length (rq_Body r)) \<le> IngestMaxBytes"
    and "as_ClusterID snap \<noteq> []" "as_BatchID snap \<noteq> []"
  shows "\<exists>r'. snapshot_route hmac unmarshal now env h decode r =
    ([Domain (Persisted (snapshot_scope tenant snap) snap)],
     Responded (if sink (snapshot_scope tenant snap) snap then Internal r' ''could not persist agent snapshot''
                else json_response 202 (accepted_answer snap)))"
proof -
  let ?t = "\<lparr>tc_TenantID = tenant, tc_WorkspaceID = [], tc_ClusterID = [], tc_Namespace = []\<rparr>"
  let ?r = "r\<lparr>rq_Tenant := Some ?t\<rparr>"
  have scope: "?t\<lparr>tc_ClusterID := as_ClusterID snap\<rparr> = snapshot_scope tenant snap" by (simp add: snapshot_scope_def)
  have "DecodeCapped decode IngestMaxBytes (rq_Body r) = CappedOk snap"
    using assms(12,13) by (simp add: DecodeCapped_def)
  then have "AgentSnapshot_Snapshot hmac unmarshal now h decode ?r = accept_snapshot h ?r ?t tok snap"
    using assms by (simp add: AgentSnapshot_Snapshot_def FromContext_def Tenant_Validate_def)
  also have "\<dots> = ([Persisted (snapshot_scope tenant snap) snap],
      if sink (snapshot_scope tenant snap) snap then Internal ?r ''could not persist agent snapshot''
      else json_response 202 (accepted_answer snap))"
    using assms(8,11,14,15) by (simp only: accept_snapshot_def scope accepted_answer_def Let_def option.case) simp
  finally show ?thesis using assms(2-5)
    by (intro exI[of _ ?r]) (simp add: snapshot_route_def requireTenant_def MTLSTenantExtractor_def ExtractTenant_def
        Tenant_Validate_def WithContext_def)
qed


definition sample_tls :: "(string, string) Tls_Lib" where
  "sample_tls = \<lparr>tl_LoadX509KeyPair = (\<lambda>c k. Inr c), tl_ReadFile = (\<lambda>f. Inr f), tl_AppendCertsFromPEM = Some\<rparr>"

definition sample_egress :: Egress_Config where
  "sample_egress =
     \<lparr>ec_BackendURL = ''https://api'', ec_TenantID = ''t1'', ec_ClusterID = ''c1'', ec_AgentVersion = ''1'', ec_CertPath = [],
      ec_KeyPath = [], ec_CABundlePath = [], ec_IngestSecret = replicate 32 CHR ''k'', ec_Timeout = 0\<rparr>"

definition sample_agent_token :: Ident_Token where
  "sample_agent_token = issued_ident \<lparr>ii_secret = replicate 32 CHR ''k'', ii_ttl = MaxTTL\<rparr> (nanoseconds 63900000000)
     ''t1'' ''c1'' ''b1'' AgentSnapshotAudience"

definition sample_egress_lib :: Egress_Lib where
  "sample_egress_lib =
     \<lparr>el_Marshal = (\<lambda>_. Inr ''snapshot''), el_HMAC = (@), el_MarshalToken = (\<lambda>_. ''token''), el_NewRequest = (\<lambda>_. None),
      el_Unmarshal = (\<lambda>_. Inr (accepted_answer sample_snapshot))\<rparr>"

definition sample_spiffe :: "URI list" where
  "sample_spiffe = [\<lparr>u_Scheme = ''spiffe'', u_Host = ''optiqor.dev'', u_Path = ''/tenant/t1''\<rparr>]"

lemma sample_spiffe_tenant: "tenantIDFromCert sample_spiffe = Inr ''t1''"
  by (simp add: sample_spiffe_def tenantIDFromURI_def Trust_def URIPrefix_def lower_def)


end
