(* ===== verification/Agent_Loop.thy ===== *)
theory Agent_Loop
  imports Egress Scraper Cluster_Crd Sizing Labels
begin

text \<open>
  The agent's binary: \<^verbatim>\<open>cmd/agent/populate.go\<close> builds a snapshot, \<^verbatim>\<open>cmd/agent/probe.go\<close> looks for the
  provisioner, \<^verbatim>\<open>cmd/agent/main.go\<close> checks the configuration and posts a snapshot at every tick. The
  caches, the API server's answers, the query client and the clocks are parameters of a tick.
\<close>

section \<open>Readers (\<^verbatim>\<open>cluster/agent.go\<close>) and the probe\<close>

record Readers =
  rd_Events :: "K8s_Event Indexer option"
  rd_HPA :: "K8s_HPA Indexer option"
  rd_Policy :: "PolicyR option"
  rd_Workloads :: "WorkloadIndex option"
  rd_Karpenter :: "listing option"

definition ListKarpenter :: "Unstructured \<Rightarrow> Readers \<Rightarrow> KarpenterNodePool list" where
  "ListKarpenter un r = (case Karpenter_List un (rd_Karpenter r) of Inl _ \<Rightarrow> [] | Inr pools \<Rightarrow> pools)"

text \<open>
  The API server's groups and the deployments named cluster-autoscaler in kube-system, each an answer or
  an error, if there is a client to ask. No letter of the group's name has a non-ASCII case variant but
  k, whose variant is the Kelvin sign; group names are DNS names, so ASCII.
\<close>

record K8s_Probe =
  kp_Groups :: "(string + string list) option"
  kp_Autoscaler :: "(string + nat) option"

definition probe_HasKarpenterCRD :: "K8s_Probe \<Rightarrow> string + bool" where
  "probe_HasKarpenterCRD p =
     (case kp_Groups p of
        None \<Rightarrow> Inr False
      | Some (Inl err) \<Rightarrow> Inl (''probe: server groups: '' @ err)
      | Some (Inr groups) \<Rightarrow> Inr (list_ex (\<lambda>g. map lower g = ''karpenter.sh'') groups))"

definition probe_HasClusterAutoscalerDeployment :: "K8s_Probe \<Rightarrow> string + bool" where
  "probe_HasClusterAutoscalerDeployment p =
     (case kp_Autoscaler p of
        None \<Rightarrow> Inr False
      | Some (Inl err) \<Rightarrow> Inl (''probe: list deployments: '' @ err)
      | Some (Inr n) \<Rightarrow> Inr (0 < n))"

definition k8sProbe :: "K8s_Probe \<Rightarrow> Probe" where
  "k8sProbe p =
     \<lparr>HasKarpenterCRD = probe_HasKarpenterCRD p, HasClusterAutoscalerDeployment = probe_HasClusterAutoscalerDeployment p\<rparr>"

section \<open>Building a snapshot (\<^verbatim>\<open>populate.go\<close>)\<close>

record populator =
  pp_scraper :: "Scraper option"
  pp_clusterID :: string
  pp_agentVersion :: string
  pp_classOnce :: bool
  pp_cachedClass :: ProvisionerClass
  pp_cachedClassOK :: bool
  pp_eventsCutoff :: duration

text \<open>
  What the program meets in a tick: the ticker's time, the scraper's and the issuer's clock, the readers
  over the caches as they are, and the probe; then the conversions and the orders of the map loops.
\<close>

record Tick =
  tk_Now :: instant
  tk_ScrapeNow :: instant
  tk_IssueNow :: instant
  tk_Readers :: "Readers option"
  tk_Probe :: "K8s_Probe option"

record Agent_Env =
  ae_Conv :: "f64 \<Rightarrow> i64"
  ae_Rows :: "rows \<Rightarrow> rows"
  ae_Summaries :: "summaries \<Rightarrow> summaries"
  ae_Unstructured :: Unstructured

definition workload_snap :: "Cluster_WorkloadRef \<Rightarrow> WorkloadSnap" where
  "workload_snap w = \<lparr>ws_Namespace = cw_Namespace w, ws_Kind = cw_Kind w, ws_Name = cw_Name w\<rparr>"

definition event_snap :: "EventSummary \<Rightarrow> EventSnap" where
  "event_snap e =
     \<lparr>es_Namespace = ey_Namespace e, es_PodName = ey_PodName e, es_Reason = ey_Reason e, es_Type = ey_Type e,
      es_Count = ey_Count e, es_LastSeen = ey_LastSeen e, es_Message = ey_Message e\<rparr>"

definition hpa_snap :: "HPASummary \<Rightarrow> HPASnap" where
  "hpa_snap h =
     \<lparr>hs_Namespace = hy_Namespace h, hs_Name = hy_Name h, hs_MinReplicas = hy_MinReplicas h,
      hs_MaxReplicas = hy_MaxReplicas h, hs_CurrentReplicas = hy_CurrentReplicas h\<rparr>"

definition policy_snap :: "PolicySummary \<Rightarrow> PolicySnap" where
  "policy_snap p =
     \<lparr>os_Namespace = pm_Namespace p, os_HasPDB = pm_HasPDB p, os_HasQuota = pm_HasQuota p, os_HasLimitRng = pm_HasLimitRng p\<rparr>"

definition pool_snap :: "KarpenterNodePool \<Rightarrow> NodePoolSnap" where
  "pool_snap np =
     \<lparr>np_Name = kn_Name np, np_NodeCountCurrent = kn_NodeCountCurrent np, np_ConsolidationMode = kn_ConsolidationMode np,
      np_Requirements = kn_Requirements np\<rparr>"

definition prom_snap :: "(f64 \<Rightarrow> i64) \<Rightarrow> WorkloadObservation \<Rightarrow> PromSampleSnap" where
  "prom_snap conv w =
     \<lparr>pn_Namespace = ob_Namespace w, pn_Kind = ob_Kind w, pn_Name = ob_Name w, pn_CPUUsageCores = ob_CPUUsageCores w,
      pn_MemoryWorking = f64_to_i64 conv (ob_MemoryWorking w), pn_OOMKilledCount = ob_OOMKilledCount w, pn_At = ob_At w\<rparr>"

definition empty_snapshot :: "populator \<Rightarrow> string \<Rightarrow> instant \<Rightarrow> duration \<Rightarrow> AgentSnapshot" where
  "empty_snapshot p batchID now dataFreshness =
     \<lparr>as_BatchID = batchID, as_CapturedAt = now, as_ClusterID = pp_clusterID p, as_AgentVersion = pp_agentVersion p,
      as_Workloads = [], as_Events = [], as_HPAs = [], as_Policies = [], as_NodePools = [], as_ProvisionerClass = [],
      as_PromSamples = [],
      as_Health = Some \<lparr>ah_Version = pp_agentVersion p, ah_DataFreshnessSeconds = dataFreshness sdiv 1000000000\<rparr>\<rparr>"

text \<open>The class is looked for once; a first look that fails leaves it empty for good.\<close>

definition probe_class :: "K8s_Probe option \<Rightarrow> populator \<Rightarrow> populator \<times> ProvisionerClass" where
  "probe_class probe p =
     (case probe of
        None \<Rightarrow> (p, [])
      | Some pr \<Rightarrow>
          (let p' = (if pp_classOnce p then p
                     else case Detect (Some (k8sProbe pr)) of
                            (cls, None) \<Rightarrow> p\<lparr>pp_classOnce := True, pp_cachedClass := cls, pp_cachedClassOK := True\<rparr>
                          | (_, Some _) \<Rightarrow> p\<lparr>pp_classOnce := True\<rparr>)
           in (p', if pp_cachedClassOK p' then pp_cachedClass p' else [])))"

definition Pop_Build ::
  "Agent_Env \<Rightarrow> populator \<Rightarrow> Tick \<Rightarrow> string \<Rightarrow> duration \<Rightarrow> populator \<times> AgentSnapshot \<times> string option" where
  "Pop_Build env p tick batchID dataFreshness =
     (let now = tk_Now tick; snap = empty_snapshot p batchID now dataFreshness
      in case tk_Readers tick of
           None \<Rightarrow> (p, snap, None)
         | Some readers \<Rightarrow>
             let snap = snap\<lparr>as_Workloads := map workload_snap (ListWorkloads (rd_Workloads readers))\<rparr>;
                 since = now + wrap64 (- pp_eventsCutoff p);
                 snap = snap\<lparr>as_Events := map event_snap (DrainEvents (rd_Events readers) since 100)\<rparr>;
                 snap = snap\<lparr>as_HPAs := map hpa_snap (ListHPAs (rd_HPA readers))\<rparr>;
                 snap = snap\<lparr>as_Policies := map policy_snap (ListPolicySummary (ae_Summaries env) (rd_Policy readers))\<rparr>;
                 snap = snap\<lparr>as_NodePools := map pool_snap (ListKarpenter (ae_Unstructured env) readers)\<rparr>;
                 (p, cls) = probe_class (tk_Probe tick) p;
                 snap = snap\<lparr>as_ProvisionerClass := cls\<rparr>
             in case pp_scraper p of
                  None \<Rightarrow> (p, snap, None)
                | Some scraper \<Rightarrow>
                    (case Scrape (ae_Conv env) (ae_Rows env) scraper (tk_ScrapeNow tick) of
                       (obs, err) \<Rightarrow>
                         if err \<noteq> None \<and> obs = [] then (p, snap, err)
                         else (p, snap\<lparr>as_PromSamples := map (prom_snap (ae_Conv env)) obs\<rparr>, None)))"

section \<open>The loop (\<^verbatim>\<open>main.go\<close>)\<close>

definition remapOwnerKeys :: "(string \<times> string \<rightharpoonup> Cluster_WorkloadRef) \<Rightarrow> owners" where
  "remapOwnerKeys m =
     (\<lambda>k. map_option (\<lambda>v. \<lparr>pw_Namespace = cw_Namespace v, pw_Kind = cw_Kind v, pw_Name = cw_Name v\<rparr>)
            (m (pk_Namespace k, pk_Pod k)))"

definition refresh_owners :: "Readers option \<Rightarrow> populator \<Rightarrow> populator" where
  "refresh_owners readers p =
     (case (pp_scraper p, readers) of
        (Some sc, Some r) \<Rightarrow>
          if rd_Workloads r = None then p
          else p\<lparr>pp_scraper := Some (SetPodOwners (remapOwnerKeys (PodOwners (rd_Workloads r))) sc)\<rparr>
      | _ \<Rightarrow> p)"

text \<open>What a tick does and logs.\<close>

datatype agent_log =
  SnapshotPartial string string
| SnapshotSent Posted
| SnapshotFailed string string
| SnapshotAccepted AgentSnapshotResponse ProvisionerClass

record agent_loop =
  al_batch :: i64
  al_pop :: populator

definition agent_tick ::
  "Agent_Env \<Rightarrow> Egress_Lib \<Rightarrow> ('cert, 'pool) Egress_Client \<Rightarrow> (Posted \<Rightarrow> string + Reply) \<Rightarrow> duration \<Rightarrow>
   agent_loop \<Rightarrow> Tick \<Rightarrow> agent_loop \<times> agent_log list" where
  "agent_tick env lib client send interval st tick =
     (let batch = wrap64 (al_batch st + 1);
          pop = refresh_owners (tk_Readers tick) (al_pop st);
          batchID = pp_clusterID pop @ ''-'' @ show_int batch
      in case Pop_Build env pop tick batchID interval of
           (pop, snap, perr) \<Rightarrow>
             (let partial = (case perr of None \<Rightarrow> [] | Some err \<Rightarrow> [SnapshotPartial batchID err])
              in case PostSnapshot lib client (tk_IssueNow tick) send snap of
                   (sent, res) \<Rightarrow>
                     (\<lparr>al_batch = batch, al_pop = pop\<rparr>,
                      partial @ (case sent of None \<Rightarrow> [] | Some req \<Rightarrow> [SnapshotSent req]) @
                      (case res of
                         Inl err \<Rightarrow> [SnapshotFailed (as_BatchID snap) err]
                       | Inr resp \<Rightarrow> [SnapshotAccepted resp (as_ProvisionerClass snap)]))))"

fun agent_ticks ::
  "Agent_Env \<Rightarrow> Egress_Lib \<Rightarrow> ('cert, 'pool) Egress_Client \<Rightarrow> (Posted \<Rightarrow> string + Reply) \<Rightarrow> duration \<Rightarrow>
   agent_loop \<Rightarrow> Tick list \<Rightarrow> agent_loop \<times> agent_log list" where
  "agent_ticks env lib client send interval st [] = (st, [])"
| "agent_ticks env lib client send interval st (tick # ticks) =
     (case agent_tick env lib client send interval st tick of
        (st, es) \<Rightarrow> (case agent_ticks env lib client send interval st ticks of (st, es') \<Rightarrow> (st, es @ es')))"

text \<open>The ticks that fire before the context ends; \<open>NewTicker\<close> panics when the interval is not positive.\<close>

definition runSnapshotLoop ::
  "Agent_Env \<Rightarrow> Egress_Lib \<Rightarrow> ('cert, 'pool) Egress_Client \<Rightarrow> (Posted \<Rightarrow> string + Reply) \<Rightarrow> populator \<Rightarrow> duration \<Rightarrow>
   Tick list \<Rightarrow> agent_log list option" where
  "runSnapshotLoop env lib client send pop interval ticks =
     (if interval \<le> 0 then None
      else Some (snd (agent_ticks env lib client send interval \<lparr>al_batch = 0, al_pop = pop\<rparr> ticks)))"

section \<open>Start\<close>

definition envOr :: "(string \<Rightarrow> string) \<Rightarrow> string \<Rightarrow> string \<Rightarrow> string" where
  "envOr getenv k fallback = (if getenv k \<noteq> [] then getenv k else fallback)"

text \<open>The flags that decide how far the start gets; the environment holds the secrets.\<close>

record Agent_Flags =
  fl_ShowVersion :: bool
  fl_TenantID :: string
  fl_ClusterID :: string
  fl_Resync :: string
  fl_SnapshotInterval :: string
  fl_IngestURL :: string
  fl_PromURL :: string
  fl_PromAuth :: AuthConfig
  fl_InstantTTL :: string
  fl_RangeTTL :: string
  fl_EventsCutoff :: string

text \<open>The flags' defaults.\<close>

definition default_flags :: "(string \<Rightarrow> string) \<Rightarrow> Agent_Flags" where
  "default_flags getenv =
     \<lparr>fl_ShowVersion = False, fl_TenantID = getenv ''OPTIQOR_TENANT_ID'', fl_ClusterID = getenv ''OPTIQOR_CLUSTER_ID'',
      fl_Resync = envOr getenv ''OPTIQOR_INFORMER_RESYNC'' ''10m'',
      fl_SnapshotInterval = envOr getenv ''OPTIQOR_SNAPSHOT_INTERVAL'' ''60s'',
      fl_IngestURL = envOr getenv ''OPTIQOR_INGEST_URL'' [],
      fl_PromURL = envOr getenv ''OPTIQOR_PROMETHEUS_URL'' [],
      fl_PromAuth = \<lparr>ac_Mode = envOr getenv ''OPTIQOR_PROMETHEUS_AUTH'' ''none'',
                     ac_BearerToken = getenv ''OPTIQOR_PROMETHEUS_BEARER_TOKEN'',
                     ac_BearerFile = envOr getenv ''OPTIQOR_PROMETHEUS_BEARER_FILE'' [],
                     ac_Username = envOr getenv ''OPTIQOR_PROMETHEUS_USER'' [],
                     ac_Password = getenv ''OPTIQOR_PROMETHEUS_PASSWORD'', ac_SATokenFile = [],
                     ac_ClientCertFile = envOr getenv ''OPTIQOR_PROMETHEUS_CERT_FILE'' [],
                     ac_ClientKeyFile = envOr getenv ''OPTIQOR_PROMETHEUS_KEY_FILE'' [],
                     ac_CABundleFile = envOr getenv ''OPTIQOR_PROMETHEUS_CA_FILE'' [], ac_TokenRefresh = 0\<rparr>,
      fl_InstantTTL = envOr getenv ''OPTIQOR_PROMETHEUS_INSTANT_TTL'' ''60s'',
      fl_RangeTTL = envOr getenv ''OPTIQOR_PROMETHEUS_RANGE_TTL'' ''24h'',
      fl_EventsCutoff = envOr getenv ''OPTIQOR_EVENTS_CUTOFF'' ''10m''\<rparr>"

definition loadK8sConfig :: "'k option \<Rightarrow> (string \<Rightarrow> string + 'k) \<Rightarrow> (string \<Rightarrow> string) \<Rightarrow> string \<Rightarrow> string + 'k" where
  "loadK8sConfig inCluster build getenv kubeconfig =
     (case inCluster of
        Some cfg \<Rightarrow> Inr cfg
      | None \<Rightarrow>
          let kubeconfig = (if kubeconfig = [] then getenv ''KUBECONFIG'' else kubeconfig)
          in if kubeconfig = [] then Inl ''no in-cluster config and no --kubeconfig provided'' else build kubeconfig)"

text \<open>
  What the host gives: the environment, whether the Kubernetes configuration, the clients and the
  informers come up, TLS, the scheme of a URL, and the caching client over an HTTP client.
\<close>

record ('cert, 'pool) Agent_Host =
  hx_getenv :: "string \<Rightarrow> string"
  hx_Config :: "string + unit"
  hx_Clients :: bool
  hx_Start :: bool
  hx_TLS :: "('cert, 'pool) Tls_Lib"
  hx_EmptyPool :: 'pool
  hx_Scheme :: "string \<Rightarrow> string + string"
  hx_Caching :: "('cert, 'pool) HTTPClient \<Rightarrow> duration \<Rightarrow> duration \<Rightarrow> prom_query"

datatype ('cert, 'pool) started =
  Exited int | ObserveOnly | Looping "('cert, 'pool) Egress_Client" populator duration

text \<open>The query client, or the exit code.\<close>

definition start_prom :: "('cert, 'pool) Agent_Host \<Rightarrow> Agent_Flags \<Rightarrow> int + Scraper option" where
  "start_prom host fl =
     (if fl_PromURL fl = [] then Inr None
      else
        let client =
          (if ac_Mode (fl_PromAuth fl) = AuthMTLS
           then (case NewHTTPClientWithMTLS (hx_TLS host) (hx_Scheme host) (fl_PromURL fl) (fl_PromAuth fl) [WithObserver] of
                   Inl _ \<Rightarrow> Inl 1 | Inr pc \<Rightarrow> Inr pc)
           else case NewAuthenticator (fl_PromAuth fl) of
                  Inl _ \<Rightarrow> Inl 2
                | Inr auth \<Rightarrow>
                    (case NewHTTPClient (hx_Scheme host) (fl_PromURL fl) [WithAuth auth, WithObserver] of
                       Inl _ \<Rightarrow> Inl 1 | Inr pc \<Rightarrow> Inr pc))
        in case client of
             Inl code \<Rightarrow> Inl code
           | Inr pc \<Rightarrow>
               (case (ParseDuration (fl_InstantTTL fl), ParseDuration (fl_RangeTTL fl)) of
                  (Some instantTTL, Some rangeTTL) \<Rightarrow> Inr (Some (NewScraper (hx_Caching host pc instantTTL rangeTTL) Map.empty))
                | _ \<Rightarrow> Inl 2))"

definition start_egress :: "string \<Rightarrow> ('cert, 'pool) Agent_Host \<Rightarrow> Agent_Flags \<Rightarrow> duration \<Rightarrow> ('cert, 'pool) started" where
  "start_egress version host fl interval =
     (let secret = hx_getenv host ''OPTIQOR_INGEST_SECRET''
      in if length secret < 32 then Exited 2
         else if fl_TenantID fl = [] then Exited 2
         else case Egress_New (hx_TLS host) (hx_EmptyPool host)
                     \<lparr>ec_BackendURL = fl_IngestURL fl, ec_TenantID = fl_TenantID fl, ec_ClusterID = fl_ClusterID fl,
                      ec_AgentVersion = version, ec_CertPath = [], ec_KeyPath = [], ec_CABundlePath = [],
                      ec_IngestSecret = secret, ec_Timeout = 0\<rparr> of
                Inl _ \<Rightarrow> Exited 1
              | Inr client \<Rightarrow>
                  (case ParseDuration (fl_EventsCutoff fl) of
                     None \<Rightarrow> Exited 2
                   | Some eventsCutoff \<Rightarrow>
                       (case start_prom host fl of
                          Inl code \<Rightarrow> Exited code
                        | Inr scraper \<Rightarrow>
                            Looping client
                              \<lparr>pp_scraper = scraper, pp_clusterID = fl_ClusterID fl, pp_agentVersion = version,
                               pp_classOnce = False, pp_cachedClass = [], pp_cachedClassOK = False,
                               pp_eventsCutoff = eventsCutoff\<rparr> interval)))"

definition agent_run :: "string \<Rightarrow> ('cert, 'pool) Agent_Host \<Rightarrow> Agent_Flags \<Rightarrow> ('cert, 'pool) started" where
  "agent_run version host fl =
     (if fl_ShowVersion fl then Exited 0
      else if fl_ClusterID fl = [] then Exited 2
      else case ParseDuration (fl_Resync fl) of
             None \<Rightarrow> Exited 2
           | Some _ \<Rightarrow>
               (case hx_Config host of
                  Inl _ \<Rightarrow> Exited 1
                | Inr _ \<Rightarrow>
                    if \<not> hx_Clients host then Exited 1
                    else if \<not> hx_Start host then Exited 1
                    else case ParseDuration (fl_SnapshotInterval fl) of
                           None \<Rightarrow> Exited 2
                         | Some interval \<Rightarrow>
                             if fl_IngestURL fl = [] then ObserveOnly
                             else start_egress version host fl interval))"

section \<open>What a snapshot carries\<close>

lemma probe_class_same [simp]:
  "pp_scraper (fst (probe_class pr p)) = pp_scraper p" "pp_clusterID (fst (probe_class pr p)) = pp_clusterID p"
  by (auto simp: probe_class_def Let_def split: option.splits prod.splits)

lemma refresh_owners_same [simp]: "pp_clusterID (refresh_owners r p) = pp_clusterID p"
  by (auto simp: refresh_owners_def split: option.splits prod.splits)

lemma Pop_Build_ids:
  assumes "Pop_Build env p tick batchID freshness = (p', snap, err)"
  shows "as_ClusterID snap = pp_clusterID p" "as_BatchID snap = batchID" "pp_clusterID p' = pp_clusterID p"
  using assms
  by (auto simp: Pop_Build_def empty_snapshot_def Let_def case_prod_unfold split: option.splits if_splits)

text \<open>A batch's id is the cluster's id and the number of the tick, so every run of the agent uses the same ids.\<close>

lemma agent_ticks_batch:
  "al_batch (fst (agent_ticks env lib c send interval st ticks)) = wrap64 (al_batch st + int (length ticks)) \<or> ticks = []"
proof (induction ticks arbitrary: st)
  case (Cons tick ticks)
  have one: "al_batch (fst (agent_tick env lib c send interval st tick)) = wrap64 (al_batch st + 1)" for st
    by (simp add: agent_tick_def Let_def case_prod_unfold)
  show ?case
    using Cons[of "fst (agent_tick env lib c send interval st tick)"] one[of st]
    by (cases ticks) (auto simp: case_prod_unfold add.assoc)
qed simp

text \<open>A first look for the provisioner that fails is never repeated: the class stays empty.\<close>

lemma failed_probe_is_final:
  assumes "pp_classOnce p" "\<not> pp_cachedClassOK p"
  shows "probe_class pr p = (p, [])"
  using assms by (simp add: probe_class_def split: option.splits)

lemma first_probe_fails:
  assumes "\<not> pp_classOnce p" "\<not> pp_cachedClassOK p" "kp_Groups pr = Some (Inl err)"
  shows "\<exists>p'. probe_class (Some pr) p = (p', []) \<and> pp_classOnce p' \<and> \<not> pp_cachedClassOK p'"
  using assms by (simp add: probe_class_def Detect_def k8sProbe_def probe_HasKarpenterCRD_def Let_def)

text \<open>An interval of no length passes the start and stops the agent with a panic at the first look at the ticker.\<close>

lemma zero_interval_panics: "ParseDuration ''0'' = Some 0 \<and> runSnapshotLoop env lib c send pop 0 ticks = None"
  by (simp add: ParseDuration_def split_sign_def runSnapshotLoop_def)

section \<open>One sample that is no number\<close>

lemma foldl_add_NaN: "foldl f64_add NaN xs = NaN"
  by (induction xs) auto

lemma f64_add_NaN [simp]: "f64_add x NaN = NaN"
  by (cases x) auto

lemma foldl_add_has_NaN: "NaN \<in> set xs \<Longrightarrow> foldl f64_add x xs = NaN"
  by (induction xs arbitrary: x) (auto simp: foldl_add_NaN)

lemma scraped_NaN:
  assumes "sc_Client s = Some query" "\<And>m. mset (visit m) = mset m"
    and "query (qp_CPURate (sc_Profile s)) now = Inr samples" "sm \<in> set samples" "sm_Value sm = NaN"
    and "ownerFor (sc_owners s) sm = Some wk"
  shows "\<exists>w \<in> set (fst (Scrape conv visit s now)). ob_CPUUsageCores w = NaN"
proof -
  let ?own = "\<lambda>p. owned_samples s query now p wk"
  have sm: "sm \<in> set (?own qp_CPURate)" using assms(3-6) by (simp add: owned_samples_def owned_def answered_def)
  then have "foldl f64_add (Fin 0) (map sm_Value (?own qp_CPURate)) = NaN"
    using assms(5) by (intro foldl_add_has_NaN) force
  moreover have "scraped conv s query now wk =
      Some (scraped_row conv now wk (?own qp_CPURate) (?own qp_MemoryWorking) (?own qp_OOMKilledIncrease))"
    using sm by (auto simp: scraped_Some)
  ultimately show ?thesis
    using Scrape_set[where conv = conv and visit = visit and now = now, OF assms(1,2)]
    by (force simp: scraped_row_def Let_def)
qed

text \<open>
  What the JSON package documents for \<open>Marshal\<close>: a value that is not finite is an error. Only a
  sample's CPU can be one in a snapshot.
\<close>

definition rejects_non_finite :: "(AgentSnapshot \<Rightarrow> string + string) \<Rightarrow> bool" where
  "rejects_non_finite marshal \<longleftrightarrow>
     (\<forall>snap. (\<exists>s \<in> set (as_PromSamples snap). pn_CPUUsageCores s \<in> {PInf, NInf, NaN}) \<longrightarrow> isl (marshal snap))"

text \<open>The owners the scraper uses in a tick.\<close>

definition tick_scraper :: "agent_loop \<Rightarrow> Tick \<Rightarrow> Scraper option" where
  "tick_scraper st tick = pp_scraper (refresh_owners (tk_Readers tick) (al_pop st))"

lemma Pop_Build_samples:
  assumes "tk_Readers tick = Some readers" "pp_scraper p = Some s"
    and "fst (Scrape (ae_Conv env) (ae_Rows env) s (tk_ScrapeNow tick)) \<noteq> []"
  shows "\<exists>p' snap. Pop_Build env p tick batchID freshness = (p', snap, None) \<and>
    as_PromSamples snap = map (prom_snap (ae_Conv env)) (fst (Scrape (ae_Conv env) (ae_Rows env) s (tk_ScrapeNow tick)))"
  using assms by (simp add: Pop_Build_def Let_def case_prod_unfold)

text \<open>
  C37. One sample that is no number stops the agent: when a single CPU sample of any workload is NaN,
  its row is NaN, the snapshot cannot be written as JSON, and the tick sends nothing at all: not the
  other samples, nor the workloads, events and health, which have nothing to do with it.
\<close>

theorem nan_sample_blocks_snapshot:
  assumes "rejects_non_finite (el_Marshal lib)" and "\<And>m. mset (ae_Rows env m) = mset m"
    and "tk_Readers tick = Some readers" "tick_scraper st tick = Some s" "sc_Client s = Some query"
    and "query (qp_CPURate (sc_Profile s)) (tk_ScrapeNow tick) = Inr samples"
    and "sm \<in> set samples" "sm_Value sm = NaN" "ownerFor (sc_owners s) sm = Some wk"
  shows "\<exists>st' err. agent_tick env lib c send interval st tick =
    (st', [SnapshotFailed (pp_clusterID (al_pop st) @ ''-'' @ show_int (wrap64 (al_batch st + 1))) (''egress: marshal: '' @ err)])"
proof -
  let ?p = "refresh_owners (tk_Readers tick) (al_pop st)"
  let ?id = "pp_clusterID (al_pop st) @ ''-'' @ show_int (wrap64 (al_batch st + 1))"
  obtain w where w: "w \<in> set (fst (Scrape (ae_Conv env) (ae_Rows env) s (tk_ScrapeNow tick)))" "ob_CPUUsageCores w = NaN"
    using scraped_NaN[where conv = "ae_Conv env", OF assms(5,2,6-9)] by blast
  then have some: "fst (Scrape (ae_Conv env) (ae_Rows env) s (tk_ScrapeNow tick)) \<noteq> []" by auto
  obtain p' snap where b: "Pop_Build env ?p tick ?id interval = (p', snap, None)"
    and samples: "as_PromSamples snap =
      map (prom_snap (ae_Conv env)) (fst (Scrape (ae_Conv env) (ae_Rows env) s (tk_ScrapeNow tick)))"
    using Pop_Build_samples[OF assms(3) _ some, of ?p ?id interval] assms(4) by (auto simp: tick_scraper_def)
  have "\<exists>x \<in> set (as_PromSamples snap). pn_CPUUsageCores x \<in> {PInf, NInf, NaN}"
    using w unfolding samples by (auto simp: prom_snap_def intro!: bexI[of _ w])
  then obtain err where "el_Marshal lib snap = Inl err"
    using assms(1) unfolding rejects_non_finite_def isl_def by blast
  then show ?thesis
    using b Pop_Build_ids(2)[OF b] by (simp add: agent_tick_def PostSnapshot_def Let_def)
qed

definition strict_lib :: Egress_Lib where
  "strict_lib = sample_egress_lib\<lparr>el_Marshal := (\<lambda>snap.
     if list_ex (\<lambda>s. pn_CPUUsageCores s \<in> {PInf, NInf, NaN}) (as_PromSamples snap) then Inl ''unsupported value'' else Inr [])\<rparr>"

definition sample_pop :: populator where
  "sample_pop =
     \<lparr>pp_scraper = Some (NewScraper (\<lambda>_ _. Inr [\<lparr>sm_Labels = [(''namespace'', ''web''), (''pod'', ''a'')], sm_Value = NaN, sm_At = 7\<rparr>])
        two_pods), pp_clusterID = ''c1'', pp_agentVersion = [], pp_classOnce = False, pp_cachedClass = [],
      pp_cachedClassOK = False, pp_eventsCutoff = 0\<rparr>"

definition sample_tick :: Tick where
  "sample_tick =
     \<lparr>tk_Now = 9, tk_ScrapeNow = 9, tk_IssueNow = 9,
      tk_Readers = Some \<lparr>rd_Events = None, rd_HPA = None, rd_Policy = None, rd_Workloads = None, rd_Karpenter = None\<rparr>,
      tk_Probe = None\<rparr>"

lemma nan_sample_blocks_snapshot_witness:
  "\<forall>un send. \<forall>client :: (string, string) Egress_Client.
    \<exists>st' err. agent_tick \<lparr>ae_Conv = (\<lambda>_. 0), ae_Rows = rev, ae_Summaries = rev, ae_Unstructured = un\<rparr> strict_lib client send
      60000000000 \<lparr>al_batch = 0, al_pop = sample_pop\<rparr> sample_tick =
    (st', [SnapshotFailed (''c1-'' @ show_int (wrap64 1)) (''egress: marshal: '' @ err)])"
proof -
  let ?q = "\<lambda>_ _. Inr [\<lparr>sm_Labels = [(''namespace'', ''web''), (''pod'', ''a'')], sm_Value = NaN, sm_At = 7\<rparr>]"
  let ?st = "\<lparr>al_batch = 0, al_pop = sample_pop\<rparr>"
  have lib: "rejects_non_finite (el_Marshal strict_lib)"
    by (auto simp: rejects_non_finite_def strict_lib_def list_ex_iff)
  have scr: "tick_scraper ?st sample_tick = Some (NewScraper ?q two_pods)"
    by (simp add: tick_scraper_def refresh_owners_def sample_pop_def sample_tick_def)
  have own: "ownerFor (sc_owners (NewScraper ?q two_pods)) \<lparr>sm_Labels = [(''namespace'', ''web''), (''pod'', ''a'')], sm_Value = NaN, sm_At = 7\<rparr> =
      Some \<lparr>pw_Namespace = ''web'', pw_Kind = ''Deployment'', pw_Name = ''shop''\<rparr>"
    by (simp add: NewScraper_def ownerFor_def label_value_def two_pods_def)
  have "\<exists>st' err. agent_tick \<lparr>ae_Conv = (\<lambda>_. 0), ae_Rows = rev, ae_Summaries = rev, ae_Unstructured = un\<rparr> strict_lib client send
      60000000000 ?st sample_tick = (st', [SnapshotFailed (''c1-'' @ show_int (wrap64 1)) (''egress: marshal: '' @ err)])"
    for un send and client :: "(string, string) Egress_Client"
    using nan_sample_blocks_snapshot[where st = ?st and tick = sample_tick and s = "NewScraper ?q two_pods" and query = ?q
        and interval = 60000000000 and c = client and send = send, OF lib _ _ scr _ _ _ _ own,
        of "\<lparr>ae_Conv = (\<lambda>_. 0), ae_Rows = rev, ae_Summaries = rev, ae_Unstructured = un\<rparr>"]
    by (simp add: sample_tick_def sample_pop_def NewScraper_def)
  then show ?thesis by blast
qed

end
