(* ===== verification/Onboarding_Http.thy ===== *)
theory Onboarding_Http
  imports Onboarding Http Go_Date Go_Float
begin

text \<open>
  \<^verbatim>\<open>onboarding/store.go\<close> and \<^verbatim>\<open>onboarding/handler.go\<close>: the store of the tenants' states, the service over
  it and its three routes. The JSON decoder and Go's quoting of a stage in an error text are parameters.
\<close>

section \<open>The store and the service\<close>

type_synonym Onboarding_Store = "string \<rightharpoonup> Onboarding_State"

text \<open>\<open>None\<close> is \<open>ErrTenantNotFound\<close>, the one error of the in-memory store's \<open>Get\<close>.\<close>

definition Onb_Store_Get :: "Onboarding_Store \<Rightarrow> string \<Rightarrow> Onboarding_State option" where
  "Onb_Store_Get m tenantID = m tenantID"

definition Onb_Store_Put :: "Onboarding_Store \<Rightarrow> string \<Rightarrow> Onboarding_State \<Rightarrow> Onboarding_Store option" where
  "Onb_Store_Put m tenantID st = (if tenantID = [] then None else Some (m(tenantID \<mapsto> st)))"

datatype service_error = EmptyTenant | Illegal onboarding_error

definition Service_Get :: "Onboarding_Store \<Rightarrow> instant \<Rightarrow> string \<Rightarrow> Onboarding_Store \<times> (service_error + Onboarding_State)" where
  "Service_Get m now tenantID =
     (if tenantID = [] then (m, Inl EmptyTenant)
      else case Onb_Store_Get m tenantID of
             Some st \<Rightarrow> (m, Inr st)
           | None \<Rightarrow>
               (let st = Onboarding_New now
                in case Onb_Store_Put m tenantID st of None \<Rightarrow> (m, Inl EmptyTenant) | Some m' \<Rightarrow> (m', Inr st)))"

text \<open>\<open>Get\<close> reads the clock when it creates a state, and \<open>Advance\<close> gets a reading of its own.\<close>

type_synonym onboarding_clock = "instant \<times> instant"

definition Service_Transition ::
  "Onboarding_Store \<Rightarrow> onboarding_clock \<Rightarrow> string \<Rightarrow> Stage \<Rightarrow> Onboarding_Store \<times> (service_error + Onboarding_State)" where
  "Service_Transition m clk tenantID next_stage =
     (case Service_Get m (fst clk) tenantID of
        (m, Inl e) \<Rightarrow> (m, Inl e)
      | (m, Inr st) \<Rightarrow>
          (case Advance st next_stage (snd clk) of
             Inl e \<Rightarrow> (m, Inl (Illegal e))
           | Inr st' \<Rightarrow>
               (case Onb_Store_Put m tenantID st' of None \<Rightarrow> (m, Inl EmptyTenant) | Some m' \<Rightarrow> (m', Inr st'))))"

section \<open>The routes\<close>

record DurationFormatted =
  df_Seconds :: i64
  df_Label :: string

record SLOTable =
  sl_SandboxLatency :: string
  sl_InstallToFirstPR :: string
  sl_InstallToFirstReco :: string
  sl_InstallToFirstReceipt :: string

record StateResponse =
  sp_Current :: Stage
  sp_ReachedAt :: "Stage \<rightharpoonup> string"
  sp_ProgressPercent :: int
  sp_Activated :: bool
  sp_ActivationWindow :: string
  sp_TimeToReceipt :: "DurationFormatted option"
  sp_NextStage :: Stage
  sp_SLOs :: SLOTable

record Blocker =
  bk_Stage :: Stage
  bk_Reason :: string
  bk_Action :: string
  bk_Link :: string

record HealthResponse =
  hp_Current :: Stage
  hp_NextStage :: Stage
  hp_ProgressPercent :: int
  hp_Activated :: bool
  hp_ActivationWindow :: string
  hp_TimeInStage :: "DurationFormatted option"
  hp_TimeToReceipt :: "DurationFormatted option"
  hp_HealthyTTFR :: bool
  hp_Blockers :: "Blocker list"
  hp_SLOs :: SLOTable

datatype onboarding_body = StateBody StateResponse | HealthBody HealthResponse

definition SLOSandboxLatency :: duration where "SLOSandboxLatency = nanoseconds 3"
definition SLOInstallToFirstPR :: duration where "SLOInstallToFirstPR = nanoseconds (10 * 60)"
definition SLOInstallToFirstReco :: duration where "SLOInstallToFirstReco = nanoseconds (30 * 60)"

definition slo_table :: SLOTable where
  "slo_table =
     \<lparr>sl_SandboxLatency = duration_string SLOSandboxLatency, sl_InstallToFirstPR = duration_string SLOInstallToFirstPR,
      sl_InstallToFirstReco = duration_string SLOInstallToFirstReco,
      sl_InstallToFirstReceipt = duration_string SLOInstallToFirstReceipt\<rparr>"

text \<open>\<open>int64(d.Seconds())\<close>; \<open>conv\<close> is the conversion outside its range, which no duration reaches.\<close>

definition seconds_int :: "(f64 \<Rightarrow> i64) \<Rightarrow> duration \<Rightarrow> i64" where
  "seconds_int conv d = f64_to_i64 conv (seconds_of d)"

definition next_stage_of :: "Stage \<Rightarrow> Stage" where
  "next_stage_of cur =
     (let idx = Index cur in if 0 \<le> idx \<and> idx < int (length Stages) - 1 then Stages ! nat (idx + 1) else [])"

definition buildStateResponse :: "(f64 \<Rightarrow> i64) \<Rightarrow> Onboarding_State \<Rightarrow> StateResponse" where
  "buildStateResponse conv st =
     \<lparr>sp_Current = ob_Current st, sp_ReachedAt = map_option format_rfc3339 \<circ> ob_Reached st,
      sp_ProgressPercent = ProgressPercent st, sp_Activated = Activated st SLOActivationWindow,
      sp_ActivationWindow = duration_string SLOActivationWindow,
      sp_TimeToReceipt = map_option (\<lambda>d. \<lparr>df_Seconds = seconds_int conv d, df_Label = duration_string d\<rparr>) (TimeToFirstReceipt st),
      sp_NextStage = next_stage_of (ob_Current st), sp_SLOs = slo_table\<rparr>"

definition blocker :: "Stage \<Rightarrow> string \<Rightarrow> string \<Rightarrow> string \<Rightarrow> Blocker" where
  "blocker stage reason action link = \<lparr>bk_Stage = stage, bk_Reason = reason, bk_Action = action, bk_Link = link\<rparr>"

definition blockersFor :: "Stage \<Rightarrow> Blocker list" where
  "blockersFor s =
     (if s = StageSignedUp
      then [blocker StageSignedUp ''GitHub App not yet installed'' ''Install the Optiqor GitHub App''
              ''https://optiqor.dev/install/github'']
      else if s = StageVCSConnected
      then [blocker StageVCSConnected ''no repo selected for analysis'' ''Pick the chart repo Optiqor should analyze''
              ''https://optiqor.dev/install/repo'']
      else if s = StageRepoSelected
      then [blocker StageRepoSelected ''first sandbox analysis not yet run'' ''Open the sandbox and analyze a values.yaml''
              ''https://optiqor.dev/sandbox'']
      else if s = StageFirstPRAnalyzed
      then [blocker StageFirstPRAnalyzed ''agent not installed in the cluster''
              (''helm install optiqor-agent '' @ em_dash @ '' the install wizard generates the values for you'')
              ''https://optiqor.dev/install/agent'']
      else if s = StageAgentInstalled
      then [blocker StageAgentInstalled ''no Apply Fix PRs merged yet'' ''Review the open Apply Fix PRs and merge one''
              ''https://optiqor.dev/app/apply-fixes'']
      else if s = StageFirstApplyFix
      then [blocker StageFirstApplyFix ''first Receipt pending, waiting for 7-day bill window''
              ''Watch for the Receipt in the dashboard; nothing to do'' ''https://optiqor.dev/app/receipts'']
      else [])"

text \<open>\<open>d.Truncate(time.Second)\<close> of a duration that is not negative.\<close>

definition buildHealthResponse :: "(f64 \<Rightarrow> i64) \<Rightarrow> Onboarding_State \<Rightarrow> instant \<Rightarrow> HealthResponse" where
  "buildHealthResponse conv st now =
     \<lparr>hp_Current = ob_Current st, hp_NextStage = next_stage_of (ob_Current st),
      hp_ProgressPercent = ProgressPercent st, hp_Activated = Activated st SLOActivationWindow,
      hp_ActivationWindow = duration_string SLOActivationWindow,
      hp_TimeInStage = (case ob_Reached st (ob_Current st) of
         None \<Rightarrow> None
       | Some t \<Rightarrow>
           let d = time_sub now t; d = (if d < 0 then 0 else d)
           in Some \<lparr>df_Seconds = seconds_int conv d, df_Label = duration_string (d - d mod 1000000000)\<rparr>),
      hp_TimeToReceipt = map_option (\<lambda>d. \<lparr>df_Seconds = seconds_int conv d, df_Label = duration_string d\<rparr>) (TimeToFirstReceipt st),
      hp_HealthyTTFR = HealthyTimeToFirstReceipt st, hp_Blockers = blockersFor (ob_Current st), hp_SLOs = slo_table\<rparr>"

definition tenant_required :: string where
  "tenant_required = ''tenant required '' @ em_dash @ '' set X-Optiqor-Tenant or a valid session JWT''"

text \<open>
  A route maps the store, the readings of the clock by \<open>Get\<close> and after it, and a request to the store
  and the answer.
\<close>

type_synonym onboarding_route = "Onboarding_Store \<Rightarrow> onboarding_clock \<Rightarrow> Request \<Rightarrow> Onboarding_Store \<times> onboarding_body Response"

definition GetState :: "(f64 \<Rightarrow> i64) \<Rightarrow> onboarding_route" where
  "GetState conv m clk r =
     (case FromContext (rq_Tenant r) of
        None \<Rightarrow> (m, Unauthorized r tenant_required)
      | Some t \<Rightarrow>
          (case Service_Get m (fst clk) (tc_TenantID t) of
             (m, Inl _) \<Rightarrow> (m, Internal r ''could not load onboarding state'')
           | (m, Inr st) \<Rightarrow> (m, json_response 200 (StateBody (buildStateResponse conv st)))))"

definition GetHealth :: "(f64 \<Rightarrow> i64) \<Rightarrow> onboarding_route" where
  "GetHealth conv m clk r =
     (case FromContext (rq_Tenant r) of
        None \<Rightarrow> (m, Unauthorized r tenant_required)
      | Some t \<Rightarrow>
          (case Service_Get m (fst clk) (tc_TenantID t) of
             (m, Inl _) \<Rightarrow> (m, Internal r ''could not load onboarding state'')
           | (m, Inr st) \<Rightarrow> (m, json_response 200 (HealthBody (buildHealthResponse conv st (snd clk))))))"

definition illegal_text :: "(string \<Rightarrow> string) \<Rightarrow> onboarding_error \<Rightarrow> string" where
  "illegal_text quote e =
     ''onboarding: illegal stage transition: '' @
     (case e of UnknownStage s \<Rightarrow> ''unknown stage '' @ quote s | IllegalTransition a b \<Rightarrow> a @ '' -> '' @ b)"

text \<open>On an error the service returns the zero state, so the answer's \<open>current\<close> is empty.\<close>

definition Transition ::
  "(f64 \<Rightarrow> i64) \<Rightarrow> (string \<Rightarrow> string) \<Rightarrow> (string \<Rightarrow> Stage json_result) \<Rightarrow> onboarding_route" where
  "Transition conv quote decode m clk r =
     (case FromContext (rq_Tenant r) of
        None \<Rightarrow> (m, Unauthorized r tenant_required)
      | Some t \<Rightarrow>
          (case DecodeCapped decode OnboardingTransitionMaxBytes (rq_Body r) of
             CappedTooLarge \<Rightarrow> (m, BodyTooLarge r OnboardingTransitionMaxBytes)
           | CappedInvalid e \<Rightarrow> (m, InvalidJSON r e)
           | CappedOk to \<Rightarrow>
               if to = [] then (m, MissingField r ''to'')
               else case Service_Transition m clk (tc_TenantID t) to of
                      (m, Inl (Illegal e)) \<Rightarrow>
                        (m, WriteWithDetails r 409 ''ILLEGAL_TRANSITION'' (illegal_text quote e)
                              [(''current'', DStr []), (''requested'', DStr to)])
                    | (m, Inl EmptyTenant) \<Rightarrow> (m, Internal r ''could not record transition'')
                    | (m, Inr st) \<Rightarrow> (m, json_response 200 (StateBody (buildStateResponse conv st)))))"

section \<open>What requests can do to the store\<close>

datatype onboarding_call = CallState | CallHealth | CallTransition

record onboarding_env =
  oe_conv :: "f64 \<Rightarrow> i64"
  oe_quote :: "string \<Rightarrow> string"
  oe_decode :: "string \<Rightarrow> Stage json_result"

definition onboarding_serve :: "onboarding_env \<Rightarrow> onboarding_call \<Rightarrow> onboarding_route" where
  "onboarding_serve env c =
     (case c of CallState \<Rightarrow> GetState (oe_conv env) | CallHealth \<Rightarrow> GetHealth (oe_conv env)
      | CallTransition \<Rightarrow> Transition (oe_conv env) (oe_quote env) (oe_decode env))"

fun onboarding_run :: "onboarding_env \<Rightarrow> Onboarding_Store \<Rightarrow> (onboarding_call \<times> onboarding_clock \<times> Request) list \<Rightarrow> Onboarding_Store" where
  "onboarding_run env m [] = m"
| "onboarding_run env m ((c, clk, r) # calls) = onboarding_run env (fst (onboarding_serve env c m clk r)) calls"

definition tenant_of_request :: "Request \<Rightarrow> string option" where
  "tenant_of_request r = map_option tc_TenantID (FromContext (rq_Tenant r))"

definition store_ok :: "Onboarding_Store \<Rightarrow> bool" where
  "store_ok m \<longleftrightarrow> (\<forall>t st. m t = Some st \<longrightarrow> t \<noteq> [] \<and> (\<exists>t0. onboarding_inv t0 st))"

text \<open>What one call may do to the store.\<close>

definition store_step :: "string option \<Rightarrow> bool \<Rightarrow> Onboarding_Store \<Rightarrow> Onboarding_Store \<Rightarrow> bool" where
  "store_step who moving m m' \<longleftrightarrow>
     (\<forall>t. Some t \<noteq> who \<longrightarrow> m' t = m t) \<and>
     (\<forall>t st. m t = Some st \<longrightarrow> (\<exists>st'. m' t = Some st' \<and> (st' = st \<or> moving \<and> onboarding_step st st'))) \<and>
     (\<forall>t st'. m t = None \<and> m' t = Some st' \<longrightarrow> t \<noteq> [] \<and>
       (\<exists>now. st' = Onboarding_New now \<or> onboarding_step (Onboarding_New now) st'))"

lemma store_step_refl: "store_step who moving m m"
  by (auto simp: store_step_def)

lemma store_step_Get:
  "store_step (Some t) moving m (fst (Service_Get m now t))"
  by (auto simp: store_step_def Service_Get_def Onb_Store_Get_def Onb_Store_Put_def Let_def split: option.splits)

lemma store_step_put:
  "st = (case m t of None \<Rightarrow> Onboarding_New now | Some st \<Rightarrow> st) \<Longrightarrow> st' = st \<or> onboarding_step st st' \<Longrightarrow> t \<noteq> [] \<Longrightarrow>
   store_step (Some t) True m (m(t \<mapsto> st'))"
  by (auto simp: store_step_def split: option.splits)

lemma Service_Transition_store:
  assumes "t \<noteq> []" and "st = (case m t of None \<Rightarrow> Onboarding_New (fst clk) | Some st \<Rightarrow> st)"
  shows "fst (Service_Transition m clk t n) = m(t \<mapsto> (case Advance st n (snd clk) of Inl _ \<Rightarrow> st | Inr st' \<Rightarrow> st'))"
  using assms
  by (auto simp: Service_Transition_def Service_Get_def Onb_Store_Get_def Onb_Store_Put_def Let_def
      split: option.splits sum.splits)

lemma store_step_Transition:
  "store_step (Some t) True m (fst (Service_Transition m clk t n))"
proof (cases "t = []")
  case False
  then show ?thesis
    unfolding Service_Transition_store[OF False refl]
    by (intro store_step_put) (auto split: sum.splits intro: onboarding_step.advance)
qed (simp add: Service_Transition_def Service_Get_def store_step_refl)

lemma Transition_store:
  assumes "FromContext (rq_Tenant r) = Some t"
  shows "fst (Transition conv quote decode m clk r) = m \<or>
    (\<exists>n. fst (Transition conv quote decode m clk r) = fst (Service_Transition m clk (tc_TenantID t) n))"
proof (cases "DecodeCapped decode OnboardingTransitionMaxBytes (rq_Body r)")
  case (CappedOk to)
  show ?thesis
    using assms CappedOk
    by (cases "Service_Transition m clk (tc_TenantID t) to")
      (auto simp: Transition_def split: sum.splits service_error.splits intro!: exI[of _ to])
qed (use assms in \<open>auto simp: Transition_def\<close>)

lemma serve_store:
  "store_step (tenant_of_request r) (c = CallTransition) m (fst (onboarding_serve env c m clk r))"
proof (cases "FromContext (rq_Tenant r)")
  case None
  then show ?thesis
    by (cases c) (simp_all add: onboarding_serve_def GetState_def GetHealth_def Transition_def store_step_refl)
next
  case (Some t)
  note get = store_step_Get[of "tc_TenantID t" _ m "fst clk"]
  note trans = store_step_Transition[of "tc_TenantID t" m clk]
  show ?thesis
  proof (cases c)
    case CallState
    with Some get[of False] show ?thesis
      by (cases "Service_Get m (fst clk) (tc_TenantID t)") (auto simp: onboarding_serve_def GetState_def tenant_of_request_def split: sum.splits)
  next
    case CallHealth
    with Some get[of False] show ?thesis
      by (cases "Service_Get m (fst clk) (tc_TenantID t)") (auto simp: onboarding_serve_def GetHealth_def tenant_of_request_def split: sum.splits)
  next
    case CallTransition
    have "fst (Transition (oe_conv env) (oe_quote env) (oe_decode env) m clk r) = m \<or>
        (\<exists>n. fst (Transition (oe_conv env) (oe_quote env) (oe_decode env) m clk r) =
           fst (Service_Transition m clk (tc_TenantID t) n))"
      using Some by (rule Transition_store)
    with trans store_step_refl show ?thesis
      using CallTransition Some by (auto simp: onboarding_serve_def tenant_of_request_def)
  qed
qed

lemma store_step_ok:
  assumes "store_step who moving m m'" "store_ok m"
  shows "store_ok m'"
proof -
  have "t \<noteq> [] \<and> (\<exists>t0. onboarding_inv t0 st')" if st': "m' t = Some st'" for t st'
  proof (cases "m t")
    case None
    with assms(1) st' obtain now where "t \<noteq> []" "st' = Onboarding_New now \<or> onboarding_step (Onboarding_New now) st'"
      unfolding store_step_def by blast
    then show ?thesis using onboarding_inv_New onboarding_inv_step by blast
  next
    case (Some st)
    with assms(1) st' have "st' = st \<or> onboarding_step st st'" unfolding store_step_def by fastforce
    moreover from assms(2) Some have "t \<noteq> [] \<and> (\<exists>t0. onboarding_inv t0 st)" unfolding store_ok_def by blast
    ultimately show ?thesis using onboarding_inv_step by blast
  qed
  then show ?thesis unfolding store_ok_def by blast
qed

text \<open>
  C38. Requests keep every tenant's onboarding apart and moving forward: whatever the calls of the three
  routes and their order, every stored state is a state of the onboarding machine under a tenant's
  name; a tenant's state only moves along steps of the machine, so by what holds of these never back;
  and it does not change at all without a transition request under that very tenant.
\<close>

theorem onboarding_store_sound:
  assumes "onboarding_run env m calls = m'"
  shows "(store_ok m \<longrightarrow> store_ok m') \<and>
    (\<forall>t st. m t = Some st \<longrightarrow> (\<exists>st'. m' t = Some st' \<and> onboarding_step\<^sup>*\<^sup>* st st')) \<and>
    (\<forall>t. (\<forall>(c, clk, r) \<in> set calls. c = CallTransition \<longrightarrow> tenant_of_request r \<noteq> Some t) \<longrightarrow>
      m t \<noteq> None \<longrightarrow> m' t = m t)"
  using assms
proof (induction env m calls rule: onboarding_run.induct)
  case (2 env m c clk r calls)
  let ?m = "fst (onboarding_serve env c m clk r)"
  note one = serve_store[of r c m env clk]
  have IH: "(store_ok ?m \<longrightarrow> store_ok m')"
    "\<And>t st. ?m t = Some st \<Longrightarrow> \<exists>st'. m' t = Some st' \<and> onboarding_step\<^sup>*\<^sup>* st st'"
    "\<And>t. \<forall>(c, clk, r) \<in> set calls. c = CallTransition \<longrightarrow> tenant_of_request r \<noteq> Some t \<Longrightarrow> ?m t \<noteq> None \<Longrightarrow> m' t = ?m t"
    using 2 by auto
  have "\<exists>st'. m' t = Some st' \<and> onboarding_step\<^sup>*\<^sup>* st st'" if st: "m t = Some st" for t st
  proof -
    obtain st1 where "?m t = Some st1" "st1 = st \<or> onboarding_step st st1"
      using one st unfolding store_step_def by blast
    with IH(2)[OF this(1)] show ?thesis by (metis converse_rtranclp_into_rtranclp)
  qed
  moreover have "m' t = m t"
    if "\<forall>(c, clk, r) \<in> set ((c, clk, r) # calls). c = CallTransition \<longrightarrow> tenant_of_request r \<noteq> Some t" "m t \<noteq> None" for t
  proof -
    from \<open>m t \<noteq> None\<close> obtain st where st: "m t = Some st" by blast
    have "c = CallTransition \<longrightarrow> tenant_of_request r \<noteq> Some t" using that(1) by simp
    then have "?m t = m t" using one st unfolding store_step_def by metis
    with IH(3)[of t] that show ?thesis by auto
  qed
  ultimately show ?case using IH(1) store_step_ok[OF one] by blast
qed simp

definition onboarding_request :: "string \<Rightarrow> Request" where
  "onboarding_request tid =
     \<lparr>rq_Method = ''POST'', rq_Path = ''/v1/onboarding/transition'', rq_Host = ''api'', rq_PathValue = (\<lambda>_. []),
      rq_Header = (\<lambda>_. []), rq_Query = (\<lambda>_. []), rq_Cookie = (\<lambda>_. None), rq_TLS = True,
      rq_PeerCertificates = [], rq_Body = [],
      rq_Tenant = Some \<lparr>tc_TenantID = tid, tc_WorkspaceID = [], tc_ClusterID = [], tc_Namespace = []\<rparr>, rq_RequestID = []\<rparr>"

lemma onboarding_store_sound_witness:
  "\<forall>env. onboarding_run env [''a'' \<mapsto> Onboarding_New 5] [(CallTransition, (8, 9), onboarding_request ''b'')] ''a'' = Some (Onboarding_New 5)"
proof
  fix env
  have "tenant_of_request (onboarding_request ''b'') = Some ''b''"
    by (simp add: tenant_of_request_def onboarding_request_def FromContext_def Tenant_Validate_def)
  then show "onboarding_run env [''a'' \<mapsto> Onboarding_New 5] [(CallTransition, (8, 9), onboarding_request ''b'')] ''a'' = Some (Onboarding_New 5)"
    using onboarding_store_sound[OF refl, where env = env and m = "[''a'' \<mapsto> Onboarding_New 5]" and calls = "[(CallTransition, (8, 9), onboarding_request ''b'')]"]
    by (simp del: onboarding_run.simps)
qed

text \<open>A refused transition tells the caller nothing about the stage the tenant is in.\<close>

lemma illegal_transition_hides_current:
  assumes "FromContext (rq_Tenant r) = Some t" "decode (rq_Body r) = Decoded to" "to \<noteq> []"
    and "length (rq_Body r) \<le> 4096" "m (tc_TenantID t) = Some st" "Advance st to (snd clk) = Inl e"
  shows "\<exists>resp. Transition conv quote decode m clk r = (m, resp) \<and> is_error 409 resp \<and>
    (case rs_Body resp of ErrorEnvelope e \<Rightarrow> map_of (he_Details e) ''current'' = Some (DStr []) | _ \<Rightarrow> False)"
proof -
  have "tc_TenantID t \<noteq> []" using assms(1) by (auto simp: FromContext_Some Tenant_Validate_def)
  with assms show ?thesis
    by (simp add: Transition_def DecodeCapped_def OnboardingTransitionMaxBytes_def Service_Transition_def Service_Get_def
        Onb_Store_Get_def WriteWithDetails_def is_error_def)
qed

end
