(* ===== verification/Dashboard.thy ===== *)
theory Dashboard
  imports Http Go_Float Go_Strconv
begin

text \<open>
  \<^verbatim>\<open>dashboard/handler.go\<close>: the three routes the dashboard reads, and \<^verbatim>\<open>dashboard/agent_pg.go\<close> around its
  query: the freshest agent's row, a parameter, turned into what the health pill shows.
\<close>

section \<open>Sources\<close>

record SavingsSummary =
  sv_LifetimeCents :: i64
  sv_MTDCents :: i64
  sv_YTDCents :: i64
  sv_MergedCount :: i64
  sv_IsDemo :: bool
  sv_DemoDisclaimer :: string

record ApplyFix_Row =
  fx_ID :: string
  fx_Repo :: string
  fx_PRURL :: string
  fx_State :: string
  fx_MonthlyUSDCents :: i64
  fx_OpenedAt :: instant
  fx_MergedAt :: "instant option"

record AgentHealth =
  ag_Status :: string
  ag_LastCheckin :: instant
  ag_DataFreshnessSeconds :: i64
  ag_Version :: string

text \<open>A source is absent, or answers for a tenant with a value or fails.\<close>

record Dashboard_Handler =
  dh_Savings :: "(TenantContext \<Rightarrow> SavingsSummary option) option"
  dh_ApplyFixes :: "(TenantContext \<Rightarrow> string \<Rightarrow> i64 \<Rightarrow> ApplyFix_Row list option) option"
  dh_Agent :: "(TenantContext \<Rightarrow> AgentHealth option) option"

datatype dashboard_body = SavingsBody SavingsSummary | FixesBody "ApplyFix_Row list" | AgentBody AgentHealth

section \<open>Routes\<close>

definition demoSummary :: SavingsSummary where
  "demoSummary =
     \<lparr>sv_LifetimeCents = 240000, sv_MTDCents = 80000, sv_YTDCents = 240000, sv_MergedCount = 3, sv_IsDemo = True,
      sv_DemoDisclaimer = ''Demo data shown until the agent reports merged Apply Fix PRs.''\<rparr>"

definition Summary :: "Dashboard_Handler \<Rightarrow> Request \<Rightarrow> dashboard_body Response" where
  "Summary h r =
     (case FromContext (rq_Tenant r) of
        None \<Rightarrow> Unauthorized r []
      | Some t \<Rightarrow>
          (case dh_Savings h of
             None \<Rightarrow> json_response 200 (SavingsBody demoSummary)
           | Some src \<Rightarrow>
               (case src t of
                  None \<Rightarrow> Internal r ''could not compute savings summary''
                | Some out \<Rightarrow>
                    json_response 200 (SavingsBody
                      (if sv_LifetimeCents out = 0 \<and> sv_MergedCount out = 0 then demoSummary else out)))))"

definition validState :: "string \<Rightarrow> bool" where
  "validState s \<longleftrightarrow> s \<in> {''open'', ''merged'', ''closed'', ''rolled-back''}"

definition list_limit :: "string \<Rightarrow> i64" where
  "list_limit v =
     (if v = [] then 50
      else case parse_int v of Inl _ \<Rightarrow> 50 | Inr n \<Rightarrow> if 0 < n \<and> n \<le> 200 then n else 50)"

definition ListApplyFixes :: "Dashboard_Handler \<Rightarrow> Request \<Rightarrow> dashboard_body Response" where
  "ListApplyFixes h r =
     (case FromContext (rq_Tenant r) of
        None \<Rightarrow> Unauthorized r []
      | Some t \<Rightarrow>
          let state = (if rq_Query r ''state'' = [] then ''open'' else rq_Query r ''state'')
          in if \<not> validState state
             then WriteWithDetails r 400 CodeBadRequest ''invalid state filter''
                    [(''allowed'', DStrs [''open'', ''merged'', ''closed'', ''rolled-back''])]
             else let limit = list_limit (rq_Query r ''limit'')
                  in case dh_ApplyFixes h of
                       None \<Rightarrow> json_response 200 (FixesBody [])
                     | Some src \<Rightarrow>
                         (case src t state limit of
                            None \<Rightarrow> Internal r ''could not list apply fixes''
                          | Some items \<Rightarrow> json_response 200 (FixesBody items)))"

definition offline_health :: AgentHealth where
  "offline_health = \<lparr>ag_Status = ''offline'', ag_LastCheckin = 0, ag_DataFreshnessSeconds = 0, ag_Version = []\<rparr>"

definition AgentHealth_Route :: "Dashboard_Handler \<Rightarrow> Request \<Rightarrow> dashboard_body Response" where
  "AgentHealth_Route h r =
     (case FromContext (rq_Tenant r) of
        None \<Rightarrow> Unauthorized r []
      | Some t \<Rightarrow>
          (case dh_Agent h of
             None \<Rightarrow> json_response 200 (AgentBody offline_health)
           | Some src \<Rightarrow>
               (case src t of
                  None \<Rightarrow> Internal r ''could not read agent health''
                | Some out \<Rightarrow> json_response 200 (AgentBody out))))"

section \<open>The freshest agent (\<^verbatim>\<open>agent_pg.go\<close>)\<close>

record agent_row =
  aw_status :: string
  aw_lastSeen :: instant
  aw_freshness :: i64
  aw_version :: "string option"

definition recomputeFreshness :: "(f64 \<Rightarrow> i64) \<Rightarrow> instant \<Rightarrow> instant \<Rightarrow> i64 \<Rightarrow> i64" where
  "recomputeFreshness conv now lastSeen reported =
     (let wall = f64_to_i64 conv (seconds_of (time_sub now lastSeen));
          wall = (if wall < 0 then 0 else wall)
      in if wall > reported then wall else reported)"

definition degradeStatus :: "string \<Rightarrow> i64 \<Rightarrow> string" where
  "degradeStatus stored freshSeconds =
     (if freshSeconds > 6 * 3600 then ''offline''
      else if freshSeconds > 60 * 60 then (if stored = ''healthy'' then ''degraded'' else stored)
      else stored)"

text \<open>
  The pool's answer to the query under the tenant's row-level binding: an error of binding, query or
  scan, no row, or the row. The clock is read after the query.
\<close>

definition Health_Latest ::
  "(f64 \<Rightarrow> i64) \<Rightarrow> (TenantContext \<Rightarrow> string + agent_row option) option \<Rightarrow> instant \<Rightarrow> TenantContext \<Rightarrow> string + AgentHealth" where
  "Health_Latest conv pool now t =
     (case pool of
        None \<Rightarrow> Inl ''dashboard/agent_pg: nil pool''
      | Some query \<Rightarrow>
          if \<not> Tenant_Validate t then Inl ''tenancy: no tenant in context''
          else case query t of
                 Inl err \<Rightarrow> Inl err
               | Inr None \<Rightarrow> Inr offline_health
               | Inr (Some row) \<Rightarrow>
                   let live = recomputeFreshness conv now (aw_lastSeen row) (aw_freshness row)
                   in Inr \<lparr>ag_Status = degradeStatus (aw_status row) live, ag_LastCheckin = aw_lastSeen row,
                           ag_DataFreshnessSeconds = live,
                           ag_Version = (case aw_version row of None \<Rightarrow> [] | Some v \<Rightarrow> v)\<rparr>)"

section \<open>Whole seconds\<close>

lemma powi2_inverse: "(2::rat) powi e * 2 powi (- e) = 1"
  by (simp flip: power_int_add)

lemma round64_between:
  assumes "0 \<le> n" "n + 1 < 2 ^ 53" "of_int n \<le> x" "x \<le> of_int (n + 1)"
  shows "of_int n \<le> round64 x \<and> round64 x \<le> of_int (n + 1)"
proof (cases "x = 0")
  case False
  have "(0::rat) \<le> of_int n" using assms(1) by (simp only: of_int_0_le_iff)
  with False assms(3) have x: "0 < x" by linarith
  define e where "e = max (ilog2 x - 52) (- 1074)"
  have "(of_int (n + 1) :: rat) < 2 powi 53" using of_int_abs_less[of "n + 1" 53] assms(1,2) by simp
  then have "ilog2 x < 53" using assms(4) x by (intro ilog2_less) linarith+
  then have "0 \<le> - e" by (simp add: e_def)
  then obtain k where k: "(2::rat) powi (- e) = of_int k" using powi2_integral[of "- e"] by blast
  have pos: "(0::rat) < 2 powi e" by simp
  have one: "of_int k * 2 powi e = (1 :: rat)" using powi2_inverse[of e] unfolding k by (simp only: mult.commute)
  have quot: "x / 2 powi e = x * of_int k" using one pos by (metis mult.assoc mult.right_neutral nonzero_divide_eq_eq less_irrefl)
  have "(0::rat) < of_int k" using one pos by (metis zero_less_mult_pos2 zero_less_one)
  then have scaled: "of_int (n * k) \<le> x / 2 powi e" "x / 2 powi e \<le> of_int ((n + 1) * k)"
    unfolding quot of_int_mult using assms(3,4) by (simp_all only: mult_right_mono less_imp_le)
  have "of_int (n * k) \<le> (of_int (rne (x / 2 powi e)) :: rat)" "(of_int (rne (x / 2 powi e)) :: rat) \<le> of_int ((n + 1) * k)"
    using rne_ge_int[OF scaled(1)] rne_le_int[OF scaled(2)] by (simp_all only: of_int_le_iff)
  then have "of_int (n * k) * 2 powi e \<le> of_int (rne (x / 2 powi e)) * (2 powi e :: rat)"
    "of_int (rne (x / 2 powi e)) * 2 powi e \<le> of_int ((n + 1) * k) * (2 powi e :: rat)"
    using pos by (simp_all only: mult_right_mono less_imp_le)
  moreover have "round64 x = of_int (rne (x / 2 powi e)) * 2 powi e"
    using x by (simp add: round64_def e_def Let_def)
  moreover have "of_int (m * k) * 2 powi e = (of_int m :: rat)" for m
    unfolding of_int_mult mult.assoc one by (rule mult.right_neutral)
  ultimately show ?thesis by (simp only: simp_thms)
qed (use assms in \<open>simp add: round64_def\<close>)

text \<open>The whole seconds of a duration come out exact or one too many, when the nanoseconds round up.\<close>

lemma seconds_Fin:
  assumes "0 \<le> d" "d \<le> 2 ^ 63"
  shows "\<exists>y. seconds_of d = Fin y \<and> seconds_of (- d) = Fin (- y) \<and>
    of_int (d div 1000000000) \<le> y \<and> y \<le> of_int (d div 1000000000 + 1)"
proof -
  let ?q = "d div 1000000000" and ?r = "d mod 1000000000"
  have q: "0 \<le> ?q" "?q < 9223372037" using assms by auto
  have r: "0 \<le> ?r" "?r < 1000000000" by auto
  let ?f = "of_int ?r / 1000000000 :: rat"
  have f: "0 \<le> ?f" "?f \<le> 1"
  proof -
    have "(of_int ?r :: rat) \<le> of_int 1000000000" using r(2) by (simp only: of_int_le_iff less_imp_le)
    then show "?f \<le> 1" by simp
    show "0 \<le> ?f" using r(1) by simp
  qed
  have g: "0 \<le> round64 ?f" "round64 ?f \<le> 1" using round64_between[of 0 ?f] f by auto
  have small: "\<bar>x\<bar> \<le> 2 powi 1000 \<Longrightarrow> to_f64 x = Fin (round64 x)" for x by (rule to_f64_Fin)
  have big: "(9223372038 :: rat) \<le> 2 powi 1000"
  proof -
    have "(9223372038 :: rat) \<le> 2 powi 34" by simp
    also have "\<dots> \<le> 2 powi 1000" by (simp only: powi2_le_iff)
    finally show ?thesis .
  qed
  let ?x = "of_int ?q + round64 ?f"
  have qq: "(0::rat) \<le> of_int ?q" "(of_int ?q :: rat) < 9223372037"
  proof -
    show "(0::rat) \<le> of_int ?q" using q(1) by (simp only: of_int_0_le_iff)
    have "(of_int ?q :: rat) < of_int 9223372037" using q(2) by (simp only: of_int_less_iff)
    then show "(of_int ?q :: rat) < 9223372037" by simp
  qed
  have x: "of_int ?q \<le> ?x" "?x \<le> of_int (?q + 1)" using g by simp_all
  have div: "f64_div (Fin (of_int ?r)) (Fin 1000000000) = Fin (round64 ?f)"
    "f64_div (Fin (- of_int ?r)) (Fin 1000000000) = Fin (- round64 ?f)"
    using f big by (simp_all add: small round64_uminus)
  have add: "to_f64 ?x = Fin (round64 ?x)" "to_f64 (- ?x) = Fin (- round64 ?x)"
    using small[of ?x] small[of "- ?x"] g qq big by (simp_all only: round64_uminus)
  have "seconds_of d = f64_add (Fin (of_int ?q)) (f64_div (Fin (of_int ?r)) (Fin 1000000000))"
    using assms q r by (simp add: seconds_of_def)
  then have s: "seconds_of d = Fin (round64 ?x)" unfolding div using add(1) by simp
  have "seconds_of (- d) = f64_add (Fin (- of_int ?q)) (f64_div (Fin (- of_int ?r)) (Fin 1000000000))"
    using assms q r by (simp add: seconds_of_def)
  then have s': "seconds_of (- d) = Fin (- round64 ?x)" unfolding div using add(2) by simp
  have "of_int ?q \<le> round64 ?x \<and> round64 ?x \<le> of_int (?q + 1)"
    using round64_between[OF q(1) _ x] q(2) by auto
  with s s' show ?thesis by blast
qed

lemma seconds_trunc:
  assumes "0 \<le> d" "d < 2 ^ 63"
  shows "d div 1000000000 \<le> f64_to_i64 conv (seconds_of d)"
proof -
  let ?q = "d div 1000000000"
  have q: "0 \<le> ?q" "?q < 9223372037" using assms by auto
  from seconds_Fin[of d] assms obtain y where s: "seconds_of d = Fin y" and b: "of_int ?q \<le> y" "y \<le> of_int (?q + 1)"
    by auto
  have "(0::rat) \<le> of_int ?q" using q(1) by (simp only: of_int_0_le_iff)
  with b(1) have t: "rat_trunc y = \<lfloor>y\<rfloor>" by (simp add: rat_trunc_def)
  have "?q \<le> \<lfloor>y\<rfloor>" using b(1) by (simp only: le_floor_iff)
  moreover have "\<lfloor>y\<rfloor> \<le> ?q + 1" using b(2) by (metis floor_mono floor_of_int)
  moreover have "q' \<le> m \<Longrightarrow> m \<le> q' + 1 \<Longrightarrow> 0 \<le> q' \<Longrightarrow> q' < 9223372037 \<Longrightarrow> in_i64 m" for m q' :: int
    by (simp add: in_i64_def)
  note this[OF calculation(1) _ q]
  ultimately show ?thesis unfolding s f64_to_i64_def f64.case t by simp
qed

lemma seconds_trunc_neg:
  assumes "0 \<le> d" "d \<le> 2 ^ 63"
  shows "f64_to_i64 conv (seconds_of (- d)) \<le> 0"
proof -
  let ?q = "d div 1000000000"
  have q: "0 \<le> ?q" "?q < 9223372037" using assms by auto
  from seconds_Fin[OF assms] obtain y where s: "seconds_of (- d) = Fin (- y)" and b: "of_int ?q \<le> y" "y \<le> of_int (?q + 1)"
    by auto
  have "(0::rat) \<le> of_int ?q" using q(1) by (simp only: of_int_0_le_iff)
  with b(1) have y: "0 \<le> y" by linarith
  then have t: "rat_trunc (- y) = - \<lfloor>y\<rfloor>" by (simp add: rat_trunc_def ceiling_minus)
  have "0 \<le> \<lfloor>y\<rfloor>" using y by simp
  moreover have "\<lfloor>y\<rfloor> \<le> ?q + 1" using b(2) by (metis floor_mono floor_of_int)
  then have "\<lfloor>y\<rfloor> < 9223372038" using q(2) by linarith
  moreover have "0 \<le> m \<Longrightarrow> m < 9223372038 \<Longrightarrow> in_i64 (- m) \<and> - m \<le> 0" for m :: int
    by (simp add: in_i64_def)
  ultimately show ?thesis unfolding s f64_to_i64_def f64.case t by presburger
qed

section \<open>The pill does not lie\<close>

lemma recomputeFreshness_ge:
  shows "min (max 0 (now - lastSeen)) (2 ^ 63 - 1) div 1000000000 \<le> recomputeFreshness conv now lastSeen reported"
    and "reported \<le> recomputeFreshness conv now lastSeen reported"
proof -
  let ?gap = "min (max 0 (now - lastSeen)) (2 ^ 63 - 1)"
  let ?wall = "f64_to_i64 conv (seconds_of (time_sub now lastSeen))"
  have gap: "0 \<le> ?gap" "?gap < 2 ^ 63" by auto
  have "?gap div 1000000000 \<le> (if ?wall < 0 then 0 else ?wall)"
  proof (cases "lastSeen \<le> now")
    case True
    then have "time_sub now lastSeen = ?gap" by (auto simp: time_sub_def)
    with seconds_trunc[OF gap, of conv] show ?thesis by simp
  qed auto
  moreover have "g \<le> (if w < 0 then 0 else w) \<Longrightarrow> g \<le> (if (if w < 0 then 0 else w) > reported then if w < 0 then 0 else w else reported)"
    for g w :: int by auto
  ultimately show "?gap div 1000000000 \<le> recomputeFreshness conv now lastSeen reported"
    unfolding recomputeFreshness_def Let_def by blast
  show "reported \<le> recomputeFreshness conv now lastSeen reported"
    by (simp add: recomputeFreshness_def Let_def)
qed

lemma recomputeFreshness_future:
  assumes "now \<le> lastSeen"
  shows "recomputeFreshness conv now lastSeen reported = max 0 reported"
proof -
  let ?d = "min (2 ^ 63) (lastSeen - now)"
  have "time_sub now lastSeen = - ?d" "0 \<le> ?d" "?d \<le> 2 ^ 63" using assms by (auto simp: time_sub_def)
  with seconds_trunc_neg[of ?d conv] have "f64_to_i64 conv (seconds_of (time_sub now lastSeen)) \<le> 0" by (simp only:)
  then show ?thesis by (simp add: recomputeFreshness_def Let_def)
qed

text \<open>
  C39. What the health pill says of the stored row, whatever instant the row carries as last seen
  (the store writes the agent's own capture time there, so it may lie ahead of the server's clock): an
  agent is shown as healthy only if it was stored as healthy, was last seen less than 3601 seconds ago or
  in the future, and reported data no older than an hour, and as anything but offline only if both are
  within six hours and a second; the freshness shown is never below either, and is exactly the reported
  one (at least zero) for a row from the future, whose stored status then stands while the report is no
  older than an hour; and a tenant without agents is shown as offline, never as an error.
\<close>

theorem health_pill_honest:
  assumes "Tenant_Validate t" and "query t = Inr row"
  shows "\<exists>out. Health_Latest conv (Some query) now t = Inr out \<and>
    (row = None \<longrightarrow> ag_Status out = ''offline'') \<and>
    (\<forall>x. row = Some x \<longrightarrow>
      (ag_Status out = ''healthy'' \<longrightarrow>
         aw_status x = ''healthy'' \<and> now - aw_lastSeen x < nanoseconds 3601 \<and> aw_freshness x \<le> 3600) \<and>
      (ag_Status out \<noteq> ''offline'' \<longrightarrow> now - aw_lastSeen x < nanoseconds 21601 \<and> aw_freshness x \<le> 21600) \<and>
      aw_freshness x \<le> ag_DataFreshnessSeconds out \<and>
      min (max 0 (now - aw_lastSeen x)) (2 ^ 63 - 1) div 1000000000 \<le> ag_DataFreshnessSeconds out \<and>
      (now \<le> aw_lastSeen x \<longrightarrow>
         ag_DataFreshnessSeconds out = max 0 (aw_freshness x) \<and>
         (aw_freshness x \<le> 3600 \<longrightarrow> ag_Status out = aw_status x)))"
proof (cases row)
  case None
  with assms(1,2) show ?thesis by (simp add: Health_Latest_def offline_health_def)
next
  case (Some x)
  let ?live = "recomputeFreshness conv now (aw_lastSeen x) (aw_freshness x)"
  have live: "min (max 0 (now - aw_lastSeen x)) (2 ^ 63 - 1) div 1000000000 \<le> ?live" "aw_freshness x \<le> ?live"
    by (rule recomputeFreshness_ge)+
  have gap: "now - aw_lastSeen x < nanoseconds (k + 1)" if "?live \<le> k" "k < 30000" for k
  proof -
    have "min (max 0 (now - aw_lastSeen x)) (2 ^ 63 - 1) div 1000000000 < k + 1" using live(1) that(1) by linarith
    then have "min (max 0 (now - aw_lastSeen x)) (2 ^ 63 - 1) < (k + 1) * 1000000000" by simp
    then show ?thesis using that(2) by (auto simp: nanoseconds_def min_def max_def split: if_splits)
  qed
  have future: "now \<le> aw_lastSeen x \<Longrightarrow> ?live = max 0 (aw_freshness x)" by (rule recomputeFreshness_future)
  show ?thesis
    using assms(1,2) Some live gap[of 3600] gap[of 21600] future
    by (auto simp: Health_Latest_def degradeStatus_def Let_def)
qed

lemma health_pill_honest_witness:
  "\<exists>out. Health_Latest amd64_conv (Some (\<lambda>_. Inr (Some \<lparr>aw_status = ''healthy'', aw_lastSeen = 0, aw_freshness = 5,
      aw_version = None\<rparr>))) (nanoseconds 30000) \<lparr>tc_TenantID = ''t1'', tc_WorkspaceID = [], tc_ClusterID = [], tc_Namespace = []\<rparr> =
      Inr out \<and> ag_Status out = ''offline''"
proof -
  let ?t = "\<lparr>tc_TenantID = ''t1'', tc_WorkspaceID = [], tc_ClusterID = [], tc_Namespace = []\<rparr>"
  have v: "Tenant_Validate ?t" by (simp add: Tenant_Validate_def)
  show ?thesis
    using health_pill_honest[where query = "\<lambda>_. Inr (Some \<lparr>aw_status = ''healthy'', aw_lastSeen = 0, aw_freshness = 5, aw_version = None\<rparr>)"
        and now = "nanoseconds 30000" and conv = amd64_conv, OF v refl]
    by (auto simp: nanoseconds_def)
qed

lemma list_limit_range: "0 < list_limit v \<and> list_limit v \<le> 200"
  by (simp add: list_limit_def split: sum.splits)

end
