(* ===== verification/Preflight.thy ===== *)
theory Preflight
  imports Http
begin

text \<open>
  \<^verbatim>\<open>onboarding/preflight\<close>: the checks the install wizard runs against a cluster, and their route. The probe's
  answers are parameters, each a value or an error.
\<close>

section \<open>Checks\<close>

type_synonym Preflight_Status = string

definition StatusPass :: Preflight_Status where "StatusPass = ''pass''"
definition StatusWarn :: Preflight_Status where "StatusWarn = ''warn''"
definition StatusFail :: Preflight_Status where "StatusFail = ''fail''"

lemmas preflight_status = StatusPass_def StatusWarn_def StatusFail_def

record Check =
  pc_Name :: string
  pc_Status :: Preflight_Status
  pc_Detail :: string
  pc_RemediationLink :: string

record Preflight_Probe =
  pb_K8sServerVersion :: "string + string"
  pb_PrometheusReachable :: "string \<Rightarrow> string + bool"
  pb_HasKarpenterCRD :: "string + bool"
  pb_HasClusterAutoscaler :: "string + bool"
  pb_HasRBAC :: "string list \<Rightarrow> string list \<Rightarrow> string + bool"
  pb_NamespaceCount :: "string + i64"
  pb_DetectUnsupportedProvisioners :: "string + string list"

definition check :: "string \<Rightarrow> Preflight_Status \<Rightarrow> string \<Rightarrow> string \<Rightarrow> Check" where
  "check name status detail link = \<lparr>pc_Name = name, pc_Status = status, pc_Detail = detail, pc_RemediationLink = link\<rparr>"

fun atoi_loop :: "i64 \<Rightarrow> string \<Rightarrow> i64 option" where
  "atoi_loop n [] = Some n"
| "atoi_loop n (c # cs) = (if \<not> is_digit c then None else atoi_loop (wrap64 (n * 10 + digit_val c)) cs)"

definition preflight_atoi :: "string \<Rightarrow> i64 option" where
  "preflight_atoi s = (if s = [] then None else atoi_loop 0 s)"

text \<open>Only the digits; a byte of a longer UTF-8 sequence is none.\<close>

definition stripNonDigits :: "string \<Rightarrow> string" where
  "stripNonDigits s = filter is_digit s"

text \<open>The parts of \<open>SplitN(v, ".", 3)\<close> the code reads: the first two, if there are two.\<close>

definition split_version :: "string \<Rightarrow> (string \<times> string) option" where
  "split_version v =
     (case split_on (CHR ''.'') v of a # b # _ \<Rightarrow> Some (a, b) | _ \<Rightarrow> None)"

definition versionAtLeast :: "string \<Rightarrow> i64 \<Rightarrow> i64 \<Rightarrow> bool" where
  "versionAtLeast v0 wantMajor wantMinor =
     (case split_version (trim_prefix v0 ''v'') of
        None \<Rightarrow> False
      | Some (p0, p1) \<Rightarrow>
          (case preflight_atoi p0 of
             None \<Rightarrow> False
           | Some major \<Rightarrow>
               (case (case preflight_atoi (trim_suffix p1 ''+'') of
                        Some n \<Rightarrow> Some n | None \<Rightarrow> preflight_atoi (stripNonDigits p1)) of
                  None \<Rightarrow> False
                | Some minor \<Rightarrow>
                    if major > wantMajor then True
                    else if major < wantMajor then False
                    else minor \<ge> wantMinor)))"

fun preflight_itoa_loop :: "nat \<Rightarrow> nat \<Rightarrow> string \<Rightarrow> string" where
  "preflight_itoa_loop 0 n digits = digits"
| "preflight_itoa_loop (Suc fuel) n digits =
     (if n = 0 then digits else preflight_itoa_loop fuel (n div 10) (digit_char (n mod 10) # digits))"

text \<open>Negating the least number leaves it negative, and the loop over its digits does not start.\<close>

definition preflight_itoa :: "i64 \<Rightarrow> string" where
  "preflight_itoa n =
     (if n = 0 then ''0''
      else let sign = (if n < 0 then ''-'' else []); m = (if n < 0 then wrap64 (- n) else n)
           in sign @ preflight_itoa_loop 20 (nat m) [])"

definition k8sVersionCheck :: "Preflight_Probe \<Rightarrow> Check" where
  "k8sVersionCheck p =
     (case pb_K8sServerVersion p of
        Inl err \<Rightarrow> check ''Kubernetes 1.28+'' StatusFail (''could not probe apiserver: '' @ err) []
      | Inr v \<Rightarrow>
          if \<not> versionAtLeast v 1 28
          then check ''Kubernetes 1.28+'' StatusFail (''server version '' @ v @ '' is below the supported floor'')
                 ''https://optiqor.dev/runbooks/k8s-version''
          else check ''Kubernetes 1.28+'' StatusPass (''server '' @ v) [])"

definition prometheusCheck :: "Preflight_Probe \<Rightarrow> string \<Rightarrow> Check" where
  "prometheusCheck p url =
     (if url = []
      then check ''Prometheus URL'' StatusWarn
             ''no Prometheus URL supplied; agent will ship K8s state but no per-workload metrics''
             ''https://optiqor.dev/runbooks/prometheus''
      else case pb_PrometheusReachable p url of
             Inl err \<Rightarrow> check ''Prometheus reachable'' StatusFail err []
           | Inr ok \<Rightarrow>
               if \<not> ok
               then check ''Prometheus reachable'' StatusFail
                      (''could not reach '' @ url @ '' from the cluster; check Service name + namespace'')
                      ''https://optiqor.dev/runbooks/prometheus''
               else check ''Prometheus reachable'' StatusPass url [])"

definition rbacCheck :: "Preflight_Probe \<Rightarrow> Check" where
  "rbacCheck p =
     (case pb_HasRBAC p [''get'', ''list'', ''watch'']
             [''events'', ''pods'', ''deployments'', ''horizontalpodautoscalers'', ''poddisruptionbudgets''] of
        Inl err \<Rightarrow> check ''ServiceAccount RBAC'' StatusFail err []
      | Inr ok \<Rightarrow>
          if \<not> ok
          then check ''ServiceAccount RBAC'' StatusFail
                 (''the agent'' @ [CHR 39] @ ''s ServiceAccount cannot get/list/watch all six Tier-1 GVRs'')
                 ''https://optiqor.dev/runbooks/agent-rbac''
          else check ''ServiceAccount RBAC'' StatusPass ''all 6 GVRs reachable'' [])"

definition answered_yes :: "string + bool \<Rightarrow> bool" where
  "answered_yes r = (case r of Inl _ \<Rightarrow> False | Inr ok \<Rightarrow> ok)"

definition karpenterCheck :: "Preflight_Probe \<Rightarrow> Check" where
  "karpenterCheck p =
     (if answered_yes (pb_HasKarpenterCRD p)
      then check ''Karpenter detected'' StatusPass ''T1 provisioner-class will register'' []
      else check ''Karpenter detected'' StatusWarn
             ''no Karpenter NodePool CRD; agent will fall through to cluster-autoscaler / static detection'' [])"

definition autoscalerCheck :: "Preflight_Probe \<Rightarrow> Check" where
  "autoscalerCheck p =
     (if answered_yes (pb_HasClusterAutoscaler p)
      then check ''cluster-autoscaler detected'' StatusPass ''T2 provisioner-class will register'' []
      else check ''cluster-autoscaler detected'' StatusWarn ''no Deployment named cluster-autoscaler in kube-system'' [])"

definition unsupportedProvisionerCheck :: "Preflight_Probe \<Rightarrow> Check" where
  "unsupportedProvisionerCheck p =
     (case pb_DetectUnsupportedProvisioners p of
        Inl err \<Rightarrow> check ''Unsupported provisioner gate'' StatusWarn
                     (''could not probe for unsupported provisioners: '' @ err) []
      | Inr names \<Rightarrow>
          if names = []
          then check ''Unsupported provisioner gate'' StatusPass ''no unsupported provisioner CRDs detected'' []
          else check ''Unsupported provisioner gate'' StatusFail
                 (''detected '' @ join '', '' names @
                  '': Optiqor has no Year-1 adapter for these provisioners. Year-1 supported: Karpenter, EKS MNG, EKS+CAS+ASG, standalone ASG, static node groups.'')
                 ''https://github.com/optiqor/optiqor/issues/new?labels=provisioner-adapter&template=unsupported-provisioner.md'')"

definition namespaceCountCheck :: "Preflight_Probe \<Rightarrow> Check" where
  "namespaceCountCheck p =
     (case pb_NamespaceCount p of
        Inl err \<Rightarrow> check ''Namespace footprint'' StatusWarn err []
      | Inr n \<Rightarrow> check ''Namespace footprint'' StatusPass (preflight_itoa n @ '' namespaces will be watched'') [])"

text \<open>A missing runner or probe is an error.\<close>

definition Preflight_Run :: "Preflight_Probe option \<Rightarrow> string \<Rightarrow> string + Check list" where
  "Preflight_Run probe prometheusURL =
     (case probe of
        None \<Rightarrow> Inl ''preflight: nil Probe''
      | Some p \<Rightarrow>
          Inr [k8sVersionCheck p, prometheusCheck p prometheusURL, rbacCheck p, karpenterCheck p, autoscalerCheck p,
               unsupportedProvisionerCheck p, namespaceCountCheck p])"

section \<open>The route\<close>

text \<open>
  \<open>contentLength\<close> is -1 when the body's length is not announced; such a body is not read. The decoder
  gives the Prometheus URL of the configuration.
\<close>

definition Preflight_Handler ::
  "Preflight_Probe option option \<Rightarrow> (string \<Rightarrow> string json_result) \<Rightarrow> i64 \<Rightarrow> Request \<Rightarrow> Check list Response" where
  "Preflight_Handler runner decode contentLength r =
     (if rq_Method r \<noteq> ''POST'' then MethodNotAllowed r ''POST''
      else case runner of
             None \<Rightarrow> Internal r ''preflight runner not configured''
           | Some probe \<Rightarrow>
               (let run = (\<lambda>url. case Preflight_Run probe url of
                                   Inl err \<Rightarrow> Internal r (''preflight: '' @ err)
                                 | Inr checks \<Rightarrow> json_response 200 checks)
                in if contentLength > 0
                   then case DecodeCapped decode OnboardingTransitionMaxBytes (rq_Body r) of
                          CappedTooLarge \<Rightarrow> BodyTooLarge r OnboardingTransitionMaxBytes
                        | CappedInvalid e \<Rightarrow> InvalidJSON r e
                        | CappedOk url \<Rightarrow> run url
                   else run []))"

section \<open>What the checks say\<close>

lemma atoi_loop_digits: "list_all is_digit s \<Longrightarrow> atoi_loop n s = Some (foldl (\<lambda>n c. wrap64 (n * 10 + digit_val c)) n s)"
  by (induction s arbitrary: n) auto

text \<open>The cluster passes when no check fails.\<close>

definition passes :: "Check list \<Rightarrow> bool" where
  "passes cs \<longleftrightarrow> (\<forall>c \<in> set cs. pc_Status c \<noteq> StatusFail)"

text \<open>
  The verdict of the wizard: seven checks in a fixed order, none of them failing exactly when the
  server's version is known and at least 1.28, the Prometheus URL is empty or reachable, the access
  rights are there, and the probe for unsupported provisioners found none or could not be made.
\<close>

lemma preflight_verdict:
  "\<exists>checks. Preflight_Run (Some p) url = Inr checks \<and> length checks = 7 \<and>
    (passes checks \<longleftrightarrow>
      (\<exists>v. pb_K8sServerVersion p = Inr v \<and> versionAtLeast v 1 28) \<and>
      (url = [] \<or> pb_PrometheusReachable p url = Inr True) \<and>
      pb_HasRBAC p [''get'', ''list'', ''watch'']
        [''events'', ''pods'', ''deployments'', ''horizontalpodautoscalers'', ''poddisruptionbudgets''] = Inr True \<and>
      (\<forall>names. pb_DetectUnsupportedProvisioners p = Inr names \<longrightarrow> names = []))"
proof -
  have k: "pc_Status (k8sVersionCheck p) \<noteq> StatusFail \<longleftrightarrow> (\<exists>v. pb_K8sServerVersion p = Inr v \<and> versionAtLeast v 1 28)"
    by (auto simp: k8sVersionCheck_def check_def preflight_status split: sum.splits)
  have u: "pc_Status (prometheusCheck p url) \<noteq> StatusFail \<longleftrightarrow> url = [] \<or> pb_PrometheusReachable p url = Inr True"
    by (auto simp: prometheusCheck_def check_def preflight_status split: sum.splits)
  have r: "pc_Status (rbacCheck p) \<noteq> StatusFail \<longleftrightarrow> pb_HasRBAC p [''get'', ''list'', ''watch'']
      [''events'', ''pods'', ''deployments'', ''horizontalpodautoscalers'', ''poddisruptionbudgets''] = Inr True"
    by (simp add: rbacCheck_def check_def preflight_status split: sum.splits)
  have d: "pc_Status (unsupportedProvisionerCheck p) \<noteq> StatusFail \<longleftrightarrow>
      (\<forall>names. pb_DetectUnsupportedProvisioners p = Inr names \<longrightarrow> names = [])"
    by (auto simp: unsupportedProvisionerCheck_def check_def preflight_status split: sum.splits)
  have o': "pc_Status (karpenterCheck p) \<noteq> StatusFail" "pc_Status (autoscalerCheck p) \<noteq> StatusFail"
    "pc_Status (namespaceCountCheck p) \<noteq> StatusFail"
    by (auto simp: karpenterCheck_def autoscalerCheck_def namespaceCountCheck_def check_def preflight_status split: sum.splits)
  show ?thesis
    unfolding Preflight_Run_def option.case using k u r d o' by (simp add: passes_def)
qed

text \<open>Twenty digits are enough for every number, which comes out as Go's own printing has it.\<close>

lemma preflight_itoa_loop_show: "0 < n \<Longrightarrow> n < 10 ^ k \<Longrightarrow> preflight_itoa_loop k n ds = show_nat n @ ds"
proof (induction k arbitrary: n ds)
  case (Suc k)
  show ?case
  proof (cases "n < 10")
    case True
    then have "n div 10 = 0" "n mod 10 = n" by simp_all
    moreover have "preflight_itoa_loop k 0 xs = xs" for xs by (cases k) simp_all
    ultimately show ?thesis using Suc.prems True by (simp add: show_nat.simps[of n])
  next
    case False
    then have "preflight_itoa_loop k (n div 10) (digit_char (n mod 10) # ds) = show_nat (n div 10) @ digit_char (n mod 10) # ds"
      using Suc.prems by (intro Suc.IH) auto
    with Suc.prems False show ?thesis by (simp add: show_nat.simps[of n])
  qed
qed simp

text \<open>
  Printing a count ends, and prints the count: for every 64-bit number the digit loop has emptied its
  number after at most twenty rounds, whatever further rounds it were given, and the text is the decimal
  one. The one exception is the least number, whose negation is itself: it is printed as a bare sign.
\<close>

lemma preflight_itoa_ends:
  assumes "in_i64 n"
  shows "(\<forall>fuel \<ge> 20. preflight_itoa_loop fuel (nat \<bar>n\<bar>) [] = preflight_itoa_loop 20 (nat \<bar>n\<bar>) []) \<and>
         preflight_itoa n = (if n = - (2 ^ 63) then ''-'' else show_int n)"
proof -
  have "preflight_itoa_loop fuel (nat \<bar>n\<bar>) [] = (if n = 0 then [] else show_nat (nat \<bar>n\<bar>))" if "20 \<le> fuel" for fuel
  proof (cases "n = 0")
    case True
    then show ?thesis by (cases fuel) simp_all
  next
    case False
    have "\<bar>n\<bar> < 10 ^ 20" using assms by (auto simp: in_i64_def)
    then have "nat \<bar>n\<bar> < 10 ^ 20" by simp
    also have "\<dots> \<le> (10 :: nat) ^ fuel" using that by (intro power_increasing) simp_all
    finally show ?thesis using False by (simp add: preflight_itoa_loop_show)
  qed
  then have "\<forall>fuel \<ge> 20. preflight_itoa_loop fuel (nat \<bar>n\<bar>) [] = preflight_itoa_loop 20 (nat \<bar>n\<bar>) []"
    by simp
  moreover have "preflight_itoa n = (if n = - (2 ^ 63) then ''-'' else show_int n)"
  proof (cases "n = - (2 ^ 63)")
    case True
    then have "wrap64 (- n) = n" by (simp add: wrap64_def)
    moreover have "preflight_itoa_loop 20 0 [] = []" by (simp add: numeral_eq_Suc)
    ultimately show ?thesis using True by (simp add: preflight_itoa_def)
  next
    case False
    with assms show ?thesis
      by (cases "n = 0"; cases "n < 0")
        (simp_all add: preflight_itoa_def show_int_def preflight_itoa_loop_show wrap64_id in_i64_def show_nat_0 Let_def)
  qed
  ultimately show ?thesis ..
qed

lemma preflight_itoa_ends_witness: "preflight_itoa (- (2 ^ 63)) = ''-''"
  using preflight_itoa_ends[of "- (2 ^ 63)"] by (simp add: in_i64_def)

text \<open>A probe that fails is a warning, not a failure.\<close>

lemma failed_probe_passes:
  "pb_DetectUnsupportedProvisioners p = Inl err \<Longrightarrow> pc_Status (unsupportedProvisionerCheck p) = StatusWarn"
  by (simp add: unsupportedProvisionerCheck_def check_def)

end
