(* ===== verification/Html_View.thy ===== *)
theory Html_View
  imports Report Prwriter Go_Date
begin

text \<open>
  \<^verbatim>\<open>pkg/htmlrender/htmlrender.go\<close>: the view the HTML report's template is filled with. The execution of
  the template is a parameter; \<open>Render\<close>'s own part, the single line feed at the end, is not.
\<close>

section \<open>Money and counts\<close>

text \<open>The groups of three, after a first group of \<open>length s mod 3\<close> digits.\<close>

fun comma_groups :: "string \<Rightarrow> string" where
  "comma_groups (a # b # c # d # s) = a # b # c # CHR '','' # comma_groups (d # s)"
| "comma_groups s = s"

definition html_withCommas :: "i64 \<Rightarrow> string" where
  "html_withCommas n =
     (let s = show_int n
      in if length s \<le> 3 then s
         else let r = length s mod 3
              in if r > 0 then take r s @ (if length s > r then '','' else []) @ comma_groups (drop r s)
                 else comma_groups s)"

text \<open>Negating the least number leaves it as it is.\<close>

definition html_fmtUSD :: "i64 \<Rightarrow> string" where
  "html_fmtUSD cents =
     (let sign = (if cents < 0 then ''-'' else []);
          c = (if cents < 0 then wrap64 (- cents) else cents);
          dollars = c sdiv 100; r = c smod 100
      in if r = 0 then sign @ ''$'' @ html_withCommas dollars
         else sign @ ''$'' @ html_withCommas dollars @ ''.'' @ pad2 r)"

definition pluralised :: "i64 \<Rightarrow> string \<Rightarrow> string" where
  "pluralised n base = (if n = 1 then show_int n @ '' '' @ base else show_int n @ '' '' @ base @ ''s'')"

section \<open>The view\<close>

datatype Html_Mode = ModeSandbox | ModeAgent

record Html_Data =
  hd_Source :: string
  hd_Workloads :: i64
  hd_Findings :: "Finding list"
  hd_ShareURL :: string
  hd_GeneratedAt :: instant
  hd_Mode :: Html_Mode
  hd_PageTitle :: string

record totalsView =
  tv_MonthlyUSD :: string
  tv_AnnualUSD :: string
  tv_HasSavings :: bool
  tv_WorkloadsLabel :: string

record findingView =
  fv_Severity :: string
  fv_SeverityCls :: string
  fv_Workload :: string
  fv_Title :: string
  fv_Detail :: string
  fv_HasSavings :: bool
  fv_SavingsUSD :: string
  fv_Confidence :: string
  fv_ConfidenceCls :: string

record html_view =
  vw_Title :: string
  vw_Source :: string
  vw_Workloads :: i64
  vw_GeneratedAtISO :: string
  vw_ShareURL :: string
  vw_HasShareURL :: bool
  vw_AccuracyDisclosure :: string
  vw_Mode :: string
  vw_Totals :: totalsView
  vw_Cost :: "findingView list"
  vw_Security :: "findingView list"
  vw_HasCost :: bool
  vw_HasSecurity :: bool
  vw_Clean :: bool

definition html_plus_minus :: string where "html_plus_minus = [CHR 0xC2, CHR 0xB1]"

definition AccuracyDisclosure :: string where
  "AccuracyDisclosure =
     ''Sandbox accuracy: '' @ html_plus_minus @ ''40%. Install the Optiqor agent for exact numbers (optiqor.dev/get).''"

definition firstNonEmpty :: "string \<Rightarrow> string \<Rightarrow> string" where
  "firstNonEmpty a b = (if a \<noteq> [] then a else b)"

definition accuracyFor :: "Html_Mode \<Rightarrow> string" where
  "accuracyFor m =
     (if m = ModeAgent
      then ''Agent accuracy: '' @ html_plus_minus @ ''15%. Backed by 30 days of Prometheus + your AWS bill.''
      else AccuracyDisclosure)"

definition modeLabel :: "Html_Mode \<Rightarrow> string" where
  "modeLabel m = (if m = ModeAgent then ''agent'' else ''sandbox'')"

text \<open>\<open>now\<close> stands in for a zero time; truncating to the minute drops the seconds.\<close>

definition html_stamp :: "instant \<Rightarrow> instant \<Rightarrow> string" where
  "html_stamp now t = (let t = (if t = 0 then now else t) in format_rfc3339 (t - t mod 60000000000))"

definition titleOrDefault :: "Html_Data \<Rightarrow> string" where
  "titleOrDefault d =
     (if hd_PageTitle d \<noteq> [] then hd_PageTitle d
      else ''Optiqor '' @ em_dash @ '' '' @ firstNonEmpty (hd_Source d) ''analysis'')"

definition toView :: "Finding \<Rightarrow> findingView" where
  "toView f =
     \<lparr>fv_Severity = f_Severity f, fv_SeverityCls = ''sev-'' @ to_lower (f_Severity f), fv_Workload = f_Workload f,
      fv_Title = f_Title f, fv_Detail = f_Detail f, fv_HasSavings = f_MonthlyUSDCents f > 0,
      fv_SavingsUSD = (if f_MonthlyUSDCents f > 0 then html_fmtUSD (f_MonthlyUSDCents f) else []),
      fv_Confidence = f_Confidence f, fv_ConfidenceCls = ''conf-'' @ to_lower (f_Confidence f)\<rparr>"

fun html_split_loop :: "Finding list \<Rightarrow> Finding list \<Rightarrow> Finding list \<Rightarrow> Finding list \<times> Finding list" where
  "html_split_loop cost sec [] = (cost, sec)"
| "html_split_loop cost sec (f # fs) =
     (if f_Category f = CategorySecurity then html_split_loop cost (sec @ [f]) fs
      else html_split_loop (cost @ [f]) sec fs)"

definition html_less :: "Finding \<Rightarrow> Finding \<Rightarrow> bool" where
  "html_less a b =
     (if (f_MonthlyUSDCents a > 0) \<noteq> (f_MonthlyUSDCents b > 0) then f_MonthlyUSDCents a > 0
      else if f_MonthlyUSDCents a \<noteq> f_MonthlyUSDCents b then f_MonthlyUSDCents a > f_MonthlyUSDCents b
      else if f_Workload a \<noteq> f_Workload b then f_Workload a < f_Workload b
      else f_DetectorID a < f_DetectorID b)"

definition html_sortCost :: "Finding list \<Rightarrow> Finding list" where
  "html_sortCost fs = stable_sort html_less fs"

definition total_cents :: "Finding list \<Rightarrow> i64" where
  "total_cents fs = foldl (\<lambda>sum f. wrap64 (sum + f_MonthlyUSDCents f)) 0 fs"

definition buildView :: "instant \<Rightarrow> Html_Data \<Rightarrow> html_view" where
  "buildView now d =
     (let (cost, sec) = html_split_loop [] [] (hd_Findings d);
          cost = html_sortCost cost;
          totalCents = total_cents (hd_Findings d)
      in \<lparr>vw_Title = titleOrDefault d, vw_Source = firstNonEmpty (hd_Source d) ''(stdin)'', vw_Workloads = hd_Workloads d,
          vw_GeneratedAtISO = html_stamp now (hd_GeneratedAt d), vw_ShareURL = hd_ShareURL d,
          vw_HasShareURL = hd_ShareURL d \<noteq> [], vw_AccuracyDisclosure = accuracyFor (hd_Mode d),
          vw_Mode = modeLabel (hd_Mode d),
          vw_Totals = \<lparr>tv_MonthlyUSD = html_fmtUSD totalCents, tv_AnnualUSD = html_fmtUSD (wrap64 (totalCents * 12)),
                       tv_HasSavings = totalCents > 0, tv_WorkloadsLabel = pluralised (hd_Workloads d) ''workload''\<rparr>,
          vw_Cost = map toView cost, vw_Security = map toView sec, vw_HasCost = cost \<noteq> [], vw_HasSecurity = sec \<noteq> [],
          vw_Clean = (cost = [] \<and> sec = [])\<rparr>)"

text \<open>\<open>exec\<close> is the template's execution.\<close>

definition RenderString :: "(html_view \<Rightarrow> string + string) \<Rightarrow> instant \<Rightarrow> Html_Data \<Rightarrow> string + string" where
  "RenderString exec now d =
     (case exec (buildView now d) of
        Inl err \<Rightarrow> Inl (''htmlrender: '' @ err)
      | Inr out \<Rightarrow> Inr (trim_right {CHR 0x0A} out @ [CHR 0x0A]))"

section \<open>What the report shows\<close>

lemma html_split_filter:
  "html_split_loop cost sec fs =
     (cost @ filter (\<lambda>f. f_Category f \<noteq> CategorySecurity) fs, sec @ filter (\<lambda>f. f_Category f = CategorySecurity) fs)"
  by (induction fs arbitrary: cost sec) auto

text \<open>The order of the HTML report is the one of the pull request's comment.\<close>

lemma html_less_pr: "html_less = pr_less"
  by (intro ext) (auto simp: html_less_def pr_less_def)

lemma html_split_pr: "html_split_loop = pr_split_loop"
proof (intro ext)
  fix cost sec fs
  show "html_split_loop cost sec fs = pr_split_loop cost sec fs"
    by (induction fs arbitrary: cost sec) auto
qed

lemma comma_groups_digits: "filter (\<lambda>c. c \<noteq> CHR '','') (comma_groups s) = filter (\<lambda>c. c \<noteq> CHR '','') s"
  by (induction s rule: comma_groups.induct) auto

text \<open>Removing the separators gives the number back.\<close>

lemma html_withCommas_digits:
  assumes "0 \<le> n"
  shows "filter (\<lambda>c. c \<noteq> CHR '','') (html_withCommas n) = show_int n"
proof -
  have "c \<noteq> CHR '',''" if "c \<in> set (show_int n)" for c
    using that assms show_nat_digits[of c "nat n"] by (auto simp: show_int_def is_digit_def)
  then have all: "filter (\<lambda>c. c \<noteq> CHR '','') (show_int n) = show_int n" by (simp add: filter_id_conv)
  have "filter (\<lambda>c. c \<noteq> CHR '','') (take k (show_int n)) @ filter (\<lambda>c. c \<noteq> CHR '','') (drop k (show_int n)) = show_int n" for k
    unfolding filter_append[symmetric] append_take_drop_id all ..
  then show ?thesis using all by (simp add: html_withCommas_def comma_groups_digits Let_def)
qed

text \<open>
  The view of a report: the findings are divided by category, the costs in the order of the pull
  request's comment, the security ones as they came; the totals sum over all of them, and the banner
  for a clean chart is there exactly when there is none.
\<close>

lemma html_view_exact:
  "vw_Cost (buildView now d) =
      map toView (stable_sort pr_less (filter (\<lambda>f. f_Category f \<noteq> CategorySecurity) (hd_Findings d))) \<and>
   vw_Security (buildView now d) = map toView (filter (\<lambda>f. f_Category f = CategorySecurity) (hd_Findings d)) \<and>
   (vw_Clean (buildView now d) \<longleftrightarrow> hd_Findings d = []) \<and>
   tv_MonthlyUSD (vw_Totals (buildView now d)) = html_fmtUSD (wrap64 (\<Sum>f \<leftarrow> hd_Findings d. f_MonthlyUSDCents f))"
proof -
  have sum: "total_cents fs = wrap64 (\<Sum>f \<leftarrow> fs. f_MonthlyUSDCents f)" for fs
    using foldl_wrap64[of 0 f_MonthlyUSDCents fs] by (simp add: total_cents_def in_i64_def)
  have none: "(filter (\<lambda>f. f_Category f \<noteq> CategorySecurity) fs = [] \<and> filter (\<lambda>f. f_Category f = CategorySecurity) fs = []) \<longleftrightarrow> fs = []"
    for fs :: "Finding list" by (induction fs) auto
  have nil: "stable_sort pr_less fs = [] \<longleftrightarrow> fs = []" for fs by (metis length_0_conv length_stable_sort)
  show ?thesis
    using none by (simp add: buildView_def html_split_filter html_sortCost_def html_less_pr sum nil Let_def)
qed

end
