(* ===== verification/Sandbox.thy ===== *)
theory Sandbox
  imports Analyze Html_View Http Pricing Vcs
begin

text \<open>
  \<^verbatim>\<open>backend/internal/sandbox\<close>: the public analysis route, the store of shared analyses and the route that
  serves them. The YAML and JSON codecs, SHA-256 and the HTML template are parameters.
\<close>

section \<open>The store (\<^verbatim>\<open>store.go\<close>)\<close>

record SharedAnalysis =
  sa_Hash :: string
  sa_Body :: string
  sa_MediaType :: string
  sa_Source :: string
  sa_Workloads :: i64
  sa_Findings :: "Finding list"
  sa_CreatedAt :: instant
  sa_ExpiresAt :: instant

type_synonym Sandbox_Store = "string \<rightharpoonup> SharedAnalysis"

datatype share_error = ShareNotFound | ShareExpired

definition Sandbox_Put :: "SharedAnalysis \<Rightarrow> Sandbox_Store \<Rightarrow> Sandbox_Store option" where
  "Sandbox_Put sa m = (if sa_Hash sa = [] then None else Some (m(sa_Hash sa \<mapsto> sa)))"

definition Sandbox_Get :: "instant \<Rightarrow> string \<Rightarrow> Sandbox_Store \<Rightarrow> share_error + SharedAnalysis" where
  "Sandbox_Get now hash m =
     (case m hash of
        None \<Rightarrow> Inl ShareNotFound
      | Some sa \<Rightarrow> if sa_ExpiresAt sa \<noteq> 0 \<and> now > sa_ExpiresAt sa then Inl ShareExpired else Inr sa)"

section \<open>Analysing\<close>

definition ShareTTL :: duration where "ShareTTL = nanoseconds (30 * 24 * 3600)"

record AnalyzeResponse =
  an_AccuracyDisclosure :: string
  an_Source :: string
  an_Workloads :: i64
  an_Findings :: "Finding list"
  an_CostFindings :: "Finding list"
  an_SecurityFindingsBonus :: "Finding list"
  an_MonthlySavingsUSD :: f64
  an_AnnualSavingsUSD :: f64
  an_CostEstimates :: "Estimate list"
  an_ShareHash :: string
  an_ShareURL :: string

record Sandbox_Handler =
  sn_Detectors :: "Detector list"
  sn_Pricer :: "Pricer option"
  sn_Region :: string
  sn_PublicBaseURL :: string

record sandbox_env =
  sx_Unmarshal :: "string \<Rightarrow> string + node"
  sx_Conv :: "f64 \<Rightarrow> i64"
  sx_ParseErrorText :: "parse_error \<Rightarrow> string"
  sx_SHA256 :: "string \<Rightarrow> string"
  sx_Marshal :: "AnalyzeResponse \<Rightarrow> string + string"
  sx_Exec :: "html_view \<Rightarrow> string + string"

fun sandbox_split_loop :: "Finding list \<Rightarrow> Finding list \<Rightarrow> Finding list \<Rightarrow> Finding list \<times> Finding list" where
  "sandbox_split_loop costF secF [] = (costF, secF)"
| "sandbox_split_loop costF secF (f # fs) =
     (if f_Category f = CategorySecurity then sandbox_split_loop costF (secF @ [f]) fs
      else sandbox_split_loop (costF @ [f]) secF fs)"

definition totalSavingsCents :: "Finding list \<Rightarrow> i64" where
  "totalSavingsCents fs = foldl (\<lambda>sum f. wrap64 (sum + f_MonthlyUSDCents f)) 0 fs"

definition hashBytes :: "(string \<Rightarrow> string) \<Rightarrow> string \<Rightarrow> string" where
  "hashBytes sha256 b = hex_encode (take 12 (sha256 b))"

definition canonicalYAML :: "string \<Rightarrow> string" where
  "canonicalYAML b = trim_right {CHR 0x0A, CHR 0x09, CHR '' ''} b"

definition publicURL :: "Sandbox_Handler \<Rightarrow> Request \<Rightarrow> string" where
  "publicURL h r =
     (if sn_PublicBaseURL h \<noteq> [] then trim_right {CHR ''/''} (sn_PublicBaseURL h)
      else
        let proto = rq_Header r ''X-Forwarded-Proto'';
            scheme = (if proto \<noteq> [] then proto else if rq_TLS r then ''https'' else ''http'');
            fh = rq_Header r ''X-Forwarded-Host'';
            host = (if fh \<noteq> [] then fh else rq_Host r)
        in scheme @ ''://'' @ host)"

fun estimates :: "Estimator \<Rightarrow> Workload list \<Rightarrow> Estimate list option" where
  "estimates est [] = Some []"
| "estimates est (wl # ws) =
     (case Estimator_Estimate est wl of
        Inl _ \<Rightarrow> None
      | Inr e \<Rightarrow> (case estimates est ws of None \<Rightarrow> None | Some es \<Rightarrow> Some (e # es)))"

definition cost_estimates :: "Sandbox_Handler \<Rightarrow> Workload list \<Rightarrow> Estimate list option" where
  "cost_estimates h ws =
     (case sn_Pricer h of
        None \<Rightarrow> Some []
      | Some p \<Rightarrow>
          if sn_Region h = [] then Some []
          else estimates \<lparr>er_Pricer = p, er_Region = sn_Region h, er_AccuracyBandPct = 40\<rparr> ws)"

definition analysis_of ::
  "sandbox_env \<Rightarrow> Sandbox_Handler \<Rightarrow> Request \<Rightarrow> Workload list \<Rightarrow> Estimate list \<Rightarrow> AnalyzeResponse" where
  "analysis_of env h r ws costEsts =
     (let findings = Run ws (if sn_Detectors h = [] then All else sn_Detectors h);
          (costF, secF) = sandbox_split_loop [] [] findings;
          hash = hashBytes (sx_SHA256 env) (canonicalYAML (rq_Body r))
      in \<lparr>an_AccuracyDisclosure = AccuracyDisclosure, an_Source = ''sandbox'', an_Workloads = int (length ws),
          an_Findings = findings, an_CostFindings = costF, an_SecurityFindingsBonus = secF,
          an_MonthlySavingsUSD = f64_div (f64_of_int (totalSavingsCents findings)) (Fin 100),
          an_AnnualSavingsUSD = f64_div (f64_of_int (wrap64 (totalSavingsCents findings * 12))) (Fin 100),
          an_CostEstimates = costEsts, an_ShareHash = hash, an_ShareURL = publicURL h r @ ''/r/'' @ hash\<rparr>)"

definition share_of :: "AnalyzeResponse \<Rightarrow> string \<Rightarrow> instant \<Rightarrow> SharedAnalysis" where
  "share_of resp out now =
     \<lparr>sa_Hash = an_ShareHash resp, sa_Body = out, sa_MediaType = ''application/json'', sa_Source = an_Source resp,
      sa_Workloads = an_Workloads resp, sa_Findings = an_Findings resp, sa_CreatedAt = now,
      sa_ExpiresAt = now + ShareTTL\<rparr>"

text \<open>
  The whole body is at hand, so the one error of reading it is its size. The store is optional; a write
  that fails is logged only.
\<close>

definition raw_response :: "int \<Rightarrow> string \<Rightarrow> string \<Rightarrow> unit Response" where
  "raw_response status media body =
     \<lparr>rs_Status = status, rs_Header = [(''Content-Type'', media)], rs_Body = TextBody body\<rparr>"

definition Sandbox_Analyze ::
  "sandbox_env \<Rightarrow> Sandbox_Handler \<Rightarrow> Sandbox_Store option \<Rightarrow> instant \<Rightarrow> Request \<Rightarrow> Sandbox_Store option \<times> unit Response" where
  "Sandbox_Analyze env h store now r =
     (if rq_Method r \<noteq> ''POST'' then (store, MethodNotAllowed r ''POST'')
      else case ReadAllCapped SandboxAnalyzeMaxBytes (rq_Body r) of
             None \<Rightarrow> (store, BodyTooLarge r SandboxAnalyzeMaxBytes)
           | Some body \<Rightarrow>
               (case ParseValues (sx_Unmarshal env) (sx_Conv env) (Inr body) of
                  Inl err \<Rightarrow>
                    (store, WriteWithDetails r 400 ''PARSE_ERROR''
                       (''could not parse values.yaml: parser: '' @ sx_ParseErrorText env err)
                       [(''hint'', DStr ''make sure the body is a single Helm values.yaml document'')])
                | Inr ws \<Rightarrow>
                    (case cost_estimates h ws of
                       None \<Rightarrow> (store, LogAndInternal r)
                     | Some costEsts \<Rightarrow>
                         let resp = analysis_of env h r ws costEsts
                         in case sx_Marshal env resp of
                              Inl _ \<Rightarrow> (store, LogAndInternal r)
                            | Inr out \<Rightarrow>
                                (case store of
                                   None \<Rightarrow> None
                                 | Some m \<Rightarrow> (case Sandbox_Put (share_of resp out now) m of None \<Rightarrow> Some m | Some m' \<Rightarrow> Some m'),
                                 raw_response 200 ''application/json'' out))))"

section \<open>Sharing\<close>

definition wantsJSON :: "Request \<Rightarrow> bool" where
  "wantsJSON r \<longleftrightarrow> rq_Query r ''format'' = ''json'' \<or> contains (rq_Header r ''Accept'') ''application/json''"

definition escape_char :: "char \<Rightarrow> string" where
  "escape_char c =
     (if c = CHR ''&'' then ''&amp;'' else if c = CHR 0x27 then ''&#39;'' else if c = CHR ''<'' then ''&lt;''
      else if c = CHR ''>'' then ''&gt;'' else if c = CHR 0x22 then ''&#34;'' else [c])"

definition EscapeString :: "string \<Rightarrow> string" where
  "EscapeString s = concat (map escape_char s)"

text \<open>The page: \<open>style\<close> stands for the style sheet, fixed text in the source.\<close>

definition sharePage :: "string \<Rightarrow> string \<Rightarrow> string \<Rightarrow> string \<Rightarrow> string" where
  "sharePage style title body hash =
     ''<!doctype html><html><head><meta charset='' @ [CHR 0x22] @ ''utf-8'' @ [CHR 0x22] @ ''><title>'' @ title @
     '' '' @ em_dash @ '' Optiqor</title>'' @ style @ ''</head><body><h1>'' @ title @ ''</h1><p class='' @ [CHR 0x22] @
     ''muted'' @ [CHR 0x22] @ ''>'' @ body @ ''</p><a class='' @ [CHR 0x22] @ ''cta'' @ [CHR 0x22] @ '' href='' @ [CHR 0x22] @
     ''/sandbox'' @ [CHR 0x22] @ ''>Open the sandbox '' @ [CHR 0xE2, CHR 0x86, CHR 0x92] @ ''</a><div class='' @ [CHR 0x22] @
     ''hash'' @ [CHR 0x22] @ ''>share: <code>'' @ EscapeString hash @ ''</code></div></body></html>''"

definition renderNotFoundHTML :: "string \<Rightarrow> string \<Rightarrow> unit Response" where
  "renderNotFoundHTML style hash =
     raw_response 404 ''text/html; charset=utf-8'' (sharePage style ''Share not found''
       ''We could not find an analysis at this URL. The hash may be mistyped, or the share never existed.'' hash)"

definition renderExpiredHTML :: "string \<Rightarrow> string \<Rightarrow> unit Response" where
  "renderExpiredHTML style hash =
     set_header ''Cache-Control'' ''no-store'' (raw_response 410 ''text/html; charset=utf-8'' (sharePage style ''Share expired''
       ''This analysis was shared more than 30 days ago and has aged out. Re-run the analyzer to mint a fresh URL.'' hash))"

text \<open>A template that fails leaves an empty page under status 200.\<close>

definition Sandbox_Share ::
  "sandbox_env \<Rightarrow> string \<Rightarrow> Sandbox_Handler \<Rightarrow> Sandbox_Store option \<Rightarrow> instant \<Rightarrow> Request \<Rightarrow> unit Response" where
  "Sandbox_Share env style h store now r =
     (if rq_Method r \<noteq> ''GET'' then MethodNotAllowed r ''GET''
      else let hash = rq_PathValue r ''hash''
           in if hash = [] then MissingField r ''hash''
              else case store of
                     None \<Rightarrow> LogAndInternal r
                   | Some m \<Rightarrow>
                       (case Sandbox_Get now hash m of
                          Inl ShareExpired \<Rightarrow>
                            if wantsJSON r then Gone r ''shared analysis'' else renderExpiredHTML style hash
                        | Inl ShareNotFound \<Rightarrow>
                            if wantsJSON r then NotFound r ''shared analysis'' else renderNotFoundHTML style hash
                        | Inr sa \<Rightarrow>
                            if wantsJSON r then raw_response 200 (sa_MediaType sa) (sa_Body sa)
                            else raw_response 200 ''text/html; charset=utf-8''
                              (case RenderString (sx_Exec env) now
                                      \<lparr>hd_Source = sa_Source sa, hd_Workloads = sa_Workloads sa, hd_Findings = sa_Findings sa,
                                       hd_ShareURL = publicURL h r @ ''/r/'' @ sa_Hash sa, hd_GeneratedAt = sa_CreatedAt sa,
                                       hd_Mode = ModeSandbox, hd_PageTitle = []\<rparr> of
                                 Inl _ \<Rightarrow> [] | Inr page \<Rightarrow> page)))"

section \<open>What the two routes promise\<close>

lemma error_status [simp]:
  "rs_Status (LogAndInternal r) = 500" "rs_Status (MethodNotAllowed r allowed) = 405"
  "rs_Status (BodyTooLarge r n) = 413" "rs_Status (WriteWithDetails r s c msg det) = s"
  "rs_Status (raw_response s mt b) = s"
  by (simp_all add: LogAndInternal_def Internal_def MethodNotAllowed_def BodyTooLarge_def Http_Write_def
      WriteWithDetails_def set_header_def raw_response_def)

text \<open>What a successful analysis is made of.\<close>

lemma Analyze_ok:
  assumes "Sandbox_Analyze env h (Some m) now r = (store', resp)" and "rs_Status resp = 200"
  obtains ws costEsts out where
    "rq_Method r = ''POST''"
    "ParseValues (sx_Unmarshal env) (sx_Conv env) (Inr (rq_Body r)) = Inr ws"
    "cost_estimates h ws = Some costEsts"
    "sx_Marshal env (analysis_of env h r ws costEsts) = Inr out"
    "resp = raw_response 200 ''application/json'' out"
    "store' = (case Sandbox_Put (share_of (analysis_of env h r ws costEsts) out now) m of
                 None \<Rightarrow> Some m | Some m' \<Rightarrow> Some m')"
  using assms
  by (auto simp: Sandbox_Analyze_def ReadAllCapped_def Let_def split: if_splits sum.splits option.splits)

lemma share_hash [simp]:
  "an_ShareHash (analysis_of env h r ws es) = hashBytes (sx_SHA256 env) (canonicalYAML (rq_Body r))"
  "sa_Hash (share_of resp out now) = an_ShareHash resp"
  "sa_Body (share_of resp out now) = out" "sa_MediaType (share_of resp out now) = ''application/json''"
  "sa_ExpiresAt (share_of resp out now) = now + ShareTTL"
  by (simp_all add: analysis_of_def share_of_def Let_def split: prod.splits)

lemma hashBytes_not_Nil: "sha256 b \<noteq> [] \<Longrightarrow> hashBytes sha256 b \<noteq> []"
  by (cases "sha256 b") (auto simp: hashBytes_def hex_encode_def)

lemma Analyze_stores:
  assumes ok: "Sandbox_Analyze env h (Some m) now r = (store', resp)" "rs_Status resp = 200"
    and digest: "\<And>b. length (sx_SHA256 env b) = 32"
  obtains ws es out where
    "hashBytes (sx_SHA256 env) (canonicalYAML (rq_Body r)) \<noteq> []"
    "sx_Marshal env (analysis_of env h r ws es) = Inr out"
    "resp = raw_response 200 ''application/json'' out"
    "store' = Some (m(hashBytes (sx_SHA256 env) (canonicalYAML (rq_Body r)) \<mapsto> share_of (analysis_of env h r ws es) out now))"
proof -
  obtain ws es out where *: "sx_Marshal env (analysis_of env h r ws es) = Inr out"
    "resp = raw_response 200 ''application/json'' out"
    "store' = (case Sandbox_Put (share_of (analysis_of env h r ws es) out now) m of None \<Rightarrow> Some m | Some m' \<Rightarrow> Some m')"
    by (rule Analyze_ok [OF ok])
  have ne: "hashBytes (sx_SHA256 env) (canonicalYAML (rq_Body r)) \<noteq> []"
    by (rule hashBytes_not_Nil) (metis digest length_0_conv zero_neq_numeral)
  show ?thesis
    by (rule that [OF ne *(1,2)]) (use * ne in \<open>simp add: Sandbox_Put_def\<close>)
qed

text \<open>
  Without a configured base URL the link inside a stored analysis names the host the last request
  claimed in \<open>X-Forwarded-Host\<close>: whoever posts the same values again replaces the shared answer by one
  whose link points to a host of their choice.
\<close>

lemma repost_redirects_share:
  assumes "Sandbox_Analyze env h (Some m) now q = (Some m', resp)" "rs_Status resp = 200"
    and "\<And>b. length (sx_SHA256 env b) = 32"
    and "sn_PublicBaseURL h = []" "rq_Header q ''X-Forwarded-Proto'' \<noteq> []" "rq_Header q ''X-Forwarded-Host'' \<noteq> []"
    and "canonicalYAML (rq_Body q) = canonicalYAML yaml"
  shows "\<exists>sa a. m' (hashBytes (sx_SHA256 env) (canonicalYAML yaml)) = Some sa \<and> sx_Marshal env a = Inr (sa_Body sa) \<and>
           an_ShareURL a = rq_Header q ''X-Forwarded-Proto'' @ ''://'' @ rq_Header q ''X-Forwarded-Host'' @ ''/r/'' @
             hashBytes (sx_SHA256 env) (canonicalYAML yaml)"
proof -
  obtain ws es out where "sx_Marshal env (analysis_of env h q ws es) = Inr out"
    "m' = m(hashBytes (sx_SHA256 env) (canonicalYAML (rq_Body q)) \<mapsto> share_of (analysis_of env h q ws es) out now)"
    using Analyze_stores [OF assms(1-3)] by (metis option.inject)
  moreover have "an_ShareURL (analysis_of env h q ws es) = publicURL h q @ ''/r/'' @ an_ShareHash (analysis_of env h q ws es)"
    by (simp add: analysis_of_def Let_def split: prod.splits)
  ultimately show ?thesis
    using assms(4-) by (intro exI [of _ "share_of (analysis_of env h q ws es) out now"] exI [of _ "analysis_of env h q ws es"])
      (simp add: publicURL_def)
qed

text \<open>Requests of other values, whatever they answer, leave a shared analysis alone.\<close>

definition later_analyses ::
  "sandbox_env \<Rightarrow> (Sandbox_Handler \<times> instant \<times> Request) list \<Rightarrow> Sandbox_Store option \<Rightarrow> Sandbox_Store option" where
  "later_analyses env posts store = fold (\<lambda>(h, t, p) st. fst (Sandbox_Analyze env h st t p)) posts store"

lemma Analyze_other_hash:
  assumes "hash \<noteq> hashBytes (sx_SHA256 env) (canonicalYAML (rq_Body p))"
  shows "\<exists>m'. fst (Sandbox_Analyze env h (Some m) t p) = Some m' \<and> m' hash = m hash"
proof -
  obtain store' resp where run: "Sandbox_Analyze env h (Some m) t p = (store', resp)" by (rule prod.exhaust)
  show ?thesis
  proof (cases "rs_Status resp = 200")
    case True
    with Analyze_ok [OF run] obtain ws es out where
      "store' = (case Sandbox_Put (share_of (analysis_of env h p ws es) out t) m of None \<Rightarrow> Some m | Some m' \<Rightarrow> Some m')"
      by metis
    with run assms show ?thesis by (simp add: Sandbox_Put_def)
  next
    case False
    with run show ?thesis
      by (auto simp: Sandbox_Analyze_def Let_def split: if_splits sum.splits option.splits)
  qed
qed

lemma later_analyses_other_hash:
  assumes "\<forall>(h, t, p) \<in> set posts. hash \<noteq> hashBytes (sx_SHA256 env) (canonicalYAML (rq_Body p))"
  shows "\<exists>m'. later_analyses env posts (Some m) = Some m' \<and> m' hash = m hash"
  using assms
proof (induction posts arbitrary: m)
  case (Cons post posts)
  obtain h t p where post: "post = (h, t, p)" by (cases post)
  with Cons.prems have "hash \<noteq> hashBytes (sx_SHA256 env) (canonicalYAML (rq_Body p))" by simp
  then obtain m1 where "fst (Sandbox_Analyze env h (Some m) t p) = Some m1" "m1 hash = m hash"
    using Analyze_other_hash by blast
  moreover obtain m2 where "later_analyses env posts (Some m1) = Some m2" "m2 hash = m1 hash"
    using Cons by auto
  ultimately show ?case by (simp add: later_analyses_def post)
qed (simp add: later_analyses_def)

text \<open>
  C40. The share link a successful analysis returns works. The store gains exactly the entry of the body's
  hash: every other link is answered as before. However many analyses of other values follow, until the
  thirtieth day is over a caller who asks that link for JSON gets the very answer the analyst got, byte
  for byte, and any other caller a page under status 200; after it the first gets the error 410 Gone and
  the second the page that says so. A later analysis of the same values replaces the entry.
\<close>

theorem shared_analysis_served:
  fixes env :: sandbox_env
  defines "link \<equiv> \<lambda>r. hashBytes (sx_SHA256 env) (canonicalYAML (rq_Body r))"
  assumes ok: "Sandbox_Analyze env h (Some m) now r = (store', resp)" "rs_Status resp = 200"
    and digest: "\<And>b. length (sx_SHA256 env b) = 32" and clock: "0 \<le> now"
    and others: "\<forall>(h', t, p) \<in> set posts. link r \<noteq> link p"
  shows "(\<exists>m'. store' = Some m' \<and> (\<forall>hash. hash \<noteq> link r \<longrightarrow> m' hash = m hash)) \<and>
         (\<forall>style h' later q. rq_Method q = ''GET'' \<and> rq_PathValue q ''hash'' = link r \<longrightarrow>
           (let answer = Sandbox_Share env style h' (later_analyses env posts store') later q
            in if later \<le> now + ShareTTL
               then if wantsJSON q then answer = resp
                    else rs_Status answer = 200 \<and> rs_Header answer = [(''Content-Type'', ''text/html; charset=utf-8'')]
               else answer = (if wantsJSON q then Gone q ''shared analysis'' else renderExpiredHTML style (link r))))"
proof -
  obtain ws es out where *: "link r \<noteq> []" "resp = raw_response 200 ''application/json'' out"
    "store' = Some (m(link r \<mapsto> share_of (analysis_of env h r ws es) out now))"
    using Analyze_stores [OF ok digest] unfolding link_def by metis
  obtain m2 where "later_analyses env posts store' = Some m2" "m2 (link r) = Some (share_of (analysis_of env h r ws es) out now)"
    using later_analyses_other_hash [of posts "link r" env "m(link r \<mapsto> share_of (analysis_of env h r ws es) out now)"] others
    unfolding link_def *(3) by auto
  moreover have "now + ShareTTL \<noteq> 0"
    using clock by (simp add: ShareTTL_def nanoseconds_def)
  ultimately show ?thesis
    using * by (auto simp: Sandbox_Share_def Sandbox_Get_def raw_response_def Let_def)
qed

text \<open>So an expired link is answered with 410, under either media type.\<close>

lemma expired_link_gone:
  assumes "m hash = Some sa" "hash \<noteq> []" "sa_ExpiresAt sa \<noteq> 0" "sa_ExpiresAt sa < later"
    and "rq_Method q = ''GET''" "rq_PathValue q ''hash'' = hash"
  shows "rs_Status (Sandbox_Share env style h (Some m) later q) = 410"
  using assms by (simp add: Sandbox_Share_def Sandbox_Get_def Gone_def Http_Write_def renderExpiredHTML_def set_header_def raw_response_def)

definition sample_sandbox_env :: sandbox_env where
  "sample_sandbox_env =
     \<lparr>sx_Unmarshal = \<lambda>_. Inr (Node DocumentNode [] [Node MappingNode [] []]), sx_Conv = \<lambda>_. 0, sx_ParseErrorText = \<lambda>_. [],
      sx_SHA256 = \<lambda>_. replicate 32 CHR ''A'', sx_Marshal = \<lambda>a. Inr (an_ShareURL a), sx_Exec = \<lambda>_. Inr []\<rparr>"

definition sample_sandbox :: Sandbox_Handler where
  "sample_sandbox = \<lparr>sn_Detectors = [], sn_Pricer = None, sn_Region = [], sn_PublicBaseURL = ''https://optiqor.dev''\<rparr>"

definition sample_analyze :: Request where
  "sample_analyze =
     \<lparr>rq_Method = ''POST'', rq_Path = ''/v1/analyze'', rq_Host = ''api'', rq_PathValue = (\<lambda>_. []), rq_Header = (\<lambda>_. []),
      rq_Query = (\<lambda>_. []), rq_Cookie = (\<lambda>_. None), rq_TLS = True, rq_PeerCertificates = [], rq_Body = ''{}'',
      rq_Tenant = None, rq_RequestID = []\<rparr>"

lemma sample_analyze_ok: "rs_Status (snd (Sandbox_Analyze sample_sandbox_env sample_sandbox (Some Map.empty) 0 sample_analyze)) = 200"
  by (simp add: Sandbox_Analyze_def sample_analyze_def sample_sandbox_env_def sample_sandbox_def cost_estimates_def
      ReadAllCapped_def SandboxAnalyzeMaxBytes_def ParseValues_def Let_def)

lemma shared_analysis_served_witness:
  "\<exists>m'. fst (Sandbox_Analyze sample_sandbox_env sample_sandbox (Some Map.empty) 0 sample_analyze) = Some m' \<and> m' ''other'' = None"
proof -
  have digest: "length (sx_SHA256 sample_sandbox_env b) = 32" for b
    by (simp add: sample_sandbox_env_def)
  have "length (hex_encode s) = 2 * length s" for s
    by (induction s) (simp_all add: hex_encode_def)
  then have "length (hashBytes (sx_SHA256 sample_sandbox_env) (canonicalYAML (rq_Body sample_analyze))) = 24"
    by (simp add: hashBytes_def digest)
  then have "hashBytes (sx_SHA256 sample_sandbox_env) (canonicalYAML (rq_Body sample_analyze)) \<noteq> ''other''"
    by auto
  with shared_analysis_served [where posts = "[]", THEN conjunct1, OF prod.collapse [symmetric] sample_analyze_ok digest order.refl]
  show ?thesis by fastforce
qed

end
