(* ===== verification/Go_Utf8.thy ===== *)
theory Go_Utf8
  imports Go_Regexp Go_Strings
begin

text \<open>
  Runes and bytes: what \<open>[]rune(s)\<close> and \<open>string(rs)\<close> do, and \<^verbatim>\<open>strings.Fields\<close>. A string is its bytes;
  \<^const>\<open>runes\<close> decodes it, an invalid byte being one replacement rune.
\<close>

definition scalar :: "nat \<Rightarrow> bool" where
  "scalar r \<longleftrightarrow> r < 0xD800 \<or> 0xE000 \<le> r \<and> r < 0x110000"

definition utf8_bytes :: "nat \<Rightarrow> nat list" where
  "utf8_bytes r =
     (if r < 0x80 then [r]
      else if r < 0x800 then [0xC0 + r div 64, 0x80 + r mod 64]
      else if \<not> scalar r then [0xEF, 0xBF, 0xBD]
      else if r < 0x10000 then [0xE0 + r div 4096, 0x80 + r div 64 mod 64, 0x80 + r mod 64]
      else [0xF0 + r div 262144, 0x80 + r div 4096 mod 64, 0x80 + r div 64 mod 64, 0x80 + r mod 64])"

definition glyph :: "nat \<Rightarrow> string" where
  "glyph r = map char_of (utf8_bytes r)"

definition string_of_runes :: "nat list \<Rightarrow> string" where
  "string_of_runes rs = concat (map glyph rs)"

text \<open>\<^verbatim>\<open>unicode.IsSpace\<close>.\<close>

definition unicode_space :: "nat \<Rightarrow> bool" where
  "unicode_space r \<longleftrightarrow> 0x09 \<le> r \<and> r \<le> 0x0D \<or> 0x2000 \<le> r \<and> r \<le> 0x200A \<or>
     r \<in> {0x20, 0x85, 0xA0, 0x1680, 0x2028, 0x2029, 0x202F, 0x205F, 0x3000}"

text \<open>\<^verbatim>\<open>strings.Fields\<close>: the pieces between white space, byte for byte.\<close>

function fields_loop :: "string \<Rightarrow> string \<Rightarrow> string list" where
  "fields_loop cur [] = (if cur = [] then [] else [cur])"
| "fields_loop cur (c # s) =
     (let (r, n) = decode_rune (map of_char (c # s))
      in if unicode_space r then (if cur = [] then [] else [cur]) @ fields_loop [] (drop n s)
         else fields_loop (cur @ c # take n s) (drop n s))"
  by pat_completeness auto
termination by (relation "measure (length \<circ> snd)") auto

definition Fields :: "string \<Rightarrow> string list" where
  "Fields s = fields_loop [] s"

section \<open>Decoding what was encoded\<close>

lemma scalar_below: "r < 0xD800 \<Longrightarrow> scalar r"
  and scalar_above: "0xE000 \<le> r \<Longrightarrow> r < 0x110000 \<Longrightarrow> scalar r"
  by (simp_all add: scalar_def)

lemma scalar2: "a \<le> 0xDF \<Longrightarrow> cont b \<Longrightarrow> scalar ((a - 0xC0) * 64 + (b - 0x80))"
  unfolding cont_def by (rule scalar_below) linarith

lemma scalar3:
  assumes "0xE0 \<le> a" "a \<le> 0xEF" "cont b" "cont c" "a = 0xED \<longrightarrow> b \<le> 0x9F"
  shows "scalar ((a - 0xE0) * 4096 + (b - 0x80) * 64 + (c - 0x80))"
proof -
  obtain x y z where *: "a = 0xE0 + x" "b = 0x80 + y" "c = 0x80 + z" "y < 64" "z < 64" "x < 16"
    using assms by (auto simp: cont_def le_iff_add)
  have "scalar (x * 4096 + y * 64 + z)"
  proof -
    consider "x < 13" | "x = 13" "y < 32" | "14 \<le> x" using assms(5) * by linarith
    then show ?thesis
    proof cases
      case 3
      with * show ?thesis by (intro scalar_above) linarith+
    qed (intro scalar_below, use * in linarith)+
  qed
  with * show ?thesis by simp
qed

lemma scalar4:
  assumes "0xF0 \<le> a" "a \<le> 0xF4" "cont b" "cont c" "cont d" "a = 0xF0 \<longrightarrow> 0x90 \<le> b" "a = 0xF4 \<longrightarrow> b \<le> 0x8F"
  shows "scalar ((a - 0xF0) * 262144 + (b - 0x80) * 4096 + (c - 0x80) * 64 + (d - 0x80))"
proof -
  obtain x y z w where *: "a = 0xF0 + x" "b = 0x80 + y" "c = 0x80 + z" "d = 0x80 + w"
    "y < 64" "z < 64" "w < 64" "x < 5"
    using assms by (auto simp: cont_def le_iff_add)
  have "16 \<le> y + 16 * x" "x * 64 + y < 272" using assms(6,7) * by auto
  then have "scalar (x * 262144 + y * 4096 + z * 64 + w)"
    by (intro scalar_above) (use * in linarith)+
  with * show ?thesis by simp
qed

lemma decode_rune_scalar: "scalar (fst (decode_rune s))"
proof -
  have "scalar 0xFFFD" "a < 0x80 \<Longrightarrow> scalar a" for a by (simp_all add: scalar_def)
  then show ?thesis
    by (cases s) (simp_all add: decode_rune.simps Let_def scalar2 scalar3 scalar4 split: list.split)
qed

lemma decode_scalar: "r \<in> set (decode s) \<Longrightarrow> scalar r"
proof (induction s rule: decode.induct)
  case (2 a s)
  obtain q n where qn: "decode_rune (a # s) = (q, n)" by fastforce
  then have "scalar q" using decode_rune_scalar[of "a # s"] by simp
  then show ?case using 2 qn by auto
qed simp

lemma runes_scalar: "list_all scalar (runes s)"
  unfolding runes_def list_all_iff by (blast intro: decode_scalar)

lemma base64_digits:
  fixes r :: nat
  shows "r = r div 4096 * 4096 + r div 64 mod 64 * 64 + r mod 64"
    and "r = r div 262144 * 262144 + r div 4096 mod 64 * 4096 + r div 64 mod 64 * 64 + r mod 64"
proof -
  have "r = r div 64 * 64 + r mod 64" "r div 64 = r div 4096 * 64 + r div 64 mod 64"
    "r div 4096 = r div 262144 * 64 + r div 4096 mod 64"
    using div_mult_mod_eq[of "r div 64" 64] div_mult_mod_eq[of "r div 4096" 64]
    by (simp_all add: div_mult2_eq[symmetric])
  then show "r = r div 4096 * 4096 + r div 64 mod 64 * 64 + r mod 64"
    and "r = r div 262144 * 262144 + r div 4096 mod 64 * 4096 + r div 64 mod 64 * 64 + r mod 64"
    by linarith+
qed

lemma decode_utf8_bytes: "scalar r \<Longrightarrow> decode (utf8_bytes r @ s) = r # decode s"
proof -
  assume r: "scalar r"
  consider "r < 0x80" | "0x80 \<le> r" "r < 0x800" | "0x800 \<le> r" "r < 0x10000" | "0x10000 \<le> r" by linarith
  then show ?thesis
  proof cases
    case 1
    then show ?thesis by (simp add: utf8_bytes_def decode_rune.simps)
  next
    case 2
    then have "0xC2 \<le> 0xC0 + r div 64" "0xC0 + r div 64 \<le> 0xDF" by auto
    with 2 show ?thesis by (simp add: utf8_bytes_def decode_rune.simps cont_def)
  next
    case 3
    define x y z where "x = r div 4096" and "y = r div 64 mod 64" and "z = r mod 64"
    have "utf8_bytes r = [0xE0 + x, 0x80 + y, 0x80 + z]"
      using r 3 by (simp add: utf8_bytes_def x_def y_def z_def)
    moreover have "r = x * 4096 + y * 64 + z"
      unfolding x_def y_def z_def by (rule base64_digits)
    moreover have "y < 64" "z < 64" "x \<le> 15" using 3 by (auto simp: x_def y_def z_def)
    moreover have "x = 0 \<longrightarrow> 0x20 \<le> y" using 3 calculation(2-5) by linarith
    moreover have "x = 13 \<longrightarrow> y \<le> 0x1F"
      using r calculation(2-5) unfolding scalar_def by linarith
    ultimately show ?thesis by (simp add: decode_rune.simps cont_def)
  next
    case 4
    define x y z w where "x = r div 262144" and "y = r div 4096 mod 64" and "z = r div 64 mod 64" and "w = r mod 64"
    have "utf8_bytes r = [0xF0 + x, 0x80 + y, 0x80 + z, 0x80 + w]" using r 4
      by (simp add: utf8_bytes_def x_def y_def z_def w_def)
    moreover have "r = x * 262144 + y * 4096 + z * 64 + w"
      unfolding x_def y_def z_def w_def by (rule base64_digits)
    moreover have "y < 64" "z < 64" "w < 64" by (simp_all add: y_def z_def w_def)
    moreover have "r < 0x110000" using r 4 unfolding scalar_def by linarith
    moreover have "x \<le> 4" "x = 0 \<longrightarrow> 0x10 \<le> y" "x = 4 \<longrightarrow> y \<le> 0x0F"
      using 4 calculation(2-6) by linarith+
    ultimately show ?thesis by (simp add: decode_rune.simps cont_def)
  qed
qed

lemma utf8_bytes_small: "scalar r \<Longrightarrow> b \<in> set (utf8_bytes r) \<Longrightarrow> b < 256"
  by (auto simp: utf8_bytes_def scalar_def split: if_splits)

lemma of_char_glyph: "scalar r \<Longrightarrow> map of_char (glyph r) = utf8_bytes r"
  unfolding glyph_def map_map comp_def by (rule map_idI) (simp add: utf8_bytes_small)

lemma runes_glyph [simp]: "scalar r \<Longrightarrow> runes (glyph r @ s) = r # runes s"
  by (simp add: runes_def of_char_glyph decode_utf8_bytes)

lemma runes_Nil [simp]: "runes [] = []"
  by (simp add: runes_def)

lemma runes_string_append: "list_all scalar rs \<Longrightarrow> runes (string_of_runes rs @ s) = rs @ runes s"
  by (induction rs) (simp_all add: string_of_runes_def)

lemma runes_string: "list_all scalar rs \<Longrightarrow> runes (string_of_runes rs) = rs"
  using runes_string_append[of rs "[]"] by simp

text \<open>Whatever stands before it, an ASCII byte is a rune of its own.\<close>

lemma decode_rune_before_ascii:
  "a < 0x80 \<Longrightarrow> decode_rune (x # s @ a # t) = decode_rune (x # s) \<and> snd (decode_rune (x # s)) \<le> length s"
  by (auto simp: decode_rune.simps Let_def cont_def split: list.splits)

lemma decode_before_ascii: "a < 0x80 \<Longrightarrow> decode (s @ a # t) = decode s @ decode (a # t)"
proof (induction s rule: decode.induct)
  case (2 x s)
  obtain r n where rn: "decode_rune (x # s) = (r, n)" by fastforce
  have *: "decode_rune (x # s @ a # t) = (r, n)" "n \<le> length s"
    using decode_rune_before_ascii[OF "2.prems", of x s t] rn by auto
  have "decode (x # s @ a # t) = r # decode (drop n s @ a # t)"
    using * by simp
  also have "\<dots> = r # decode (drop n s) @ decode (a # t)"
    using "2.IH"[OF refl _ "2.prems"] rn by simp
  finally show ?case using rn by simp
qed simp

lemma runes_before_ascii: "(of_char c :: nat) < 0x80 \<Longrightarrow> runes (s @ c # t) = runes s @ runes (c # t)"
  by (simp add: runes_def decode_before_ascii)

lemma runes_ascii_char: "(of_char c :: nat) < 0x80 \<Longrightarrow> runes (c # t) = of_char c # runes t"
  by (simp add: runes_def decode_rune.simps)

end
