(* ===== verification/Terminal.thy ===== *)
theory Terminal
  imports Html_View Go_Utf8
begin

text \<open>
  The terminal report: \<^verbatim>\<open>internal/render/style/style.go\<close> and the writers of \<^verbatim>\<open>internal/render/text.go\<close>.
  How \<^verbatim>\<open>lipgloss\<close> renders a text in a style is a parameter, once for the coloured theme and once for the
  plain one; the conversion of floats is the parameter \<open>conv\<close>. The writers return what they write.
\<close>

section \<open>The theme (\<^verbatim>\<open>style.go\<close>)\<close>

text \<open>\<open>Chipless\<close> is a badge's style turned into plain text of the badge's colour.\<close>

datatype style =
    StBrand | StBrandMark | StTagline | StHeaderBorder | StCardBorder | StBarFilled | StBarEmpty | StBarOverflow
  | StSectionPrimary | StSectionBonus | StSectionSubtle | StSevHigh | StSevMed | StSevLow | StSevInfo
  | StConfHigh | StConfMed | StConfLow | StWorkload | StTitle | StDetail | StSavings | StBigSavings | StNoSavings
  | StMuted | StDivider | StDisclosure | StCallToLink | StOK | Chipless style

record Theme =
  th_UseColor :: bool
  th_Render :: "style \<Rightarrow> string \<Rightarrow> string"

definition NewTheme :: "(bool \<Rightarrow> style \<Rightarrow> string \<Rightarrow> string) \<Rightarrow> bool \<Rightarrow> Theme" where
  "NewTheme lipgloss useColor = \<lparr>th_UseColor = useColor, th_Render = lipgloss useColor\<rparr>"

definition BrandGlyph :: string where "BrandGlyph = glyph 0x25D0"

definition style_repeat :: "string \<Rightarrow> int \<Rightarrow> string" where
  "style_repeat s n = (if n \<le> 0 then [] else concat (replicate (nat n) s))"

definition Hyperlink :: "Theme \<Rightarrow> string \<Rightarrow> string \<Rightarrow> string" where
  "Hyperlink t label url =
     (if \<not> th_UseColor t then label @ '' ('' @ url @ '')''
      else CHR 0x1B # '']8;;'' @ url @ [CHR 0x1B, CHR 0x5C] @ label @ CHR 0x1B # '']8;;'' @ [CHR 0x1B, CHR 0x5C])"

definition DividerLine :: "Theme \<Rightarrow> int \<Rightarrow> string" where
  "DividerLine t width =
     (let width = (if width \<le> 0 then 64 else width) in th_Render t StDivider (style_repeat (glyph 0x2500) width))"

definition SignalBar :: "(f64 \<Rightarrow> i64) \<Rightarrow> Theme \<Rightarrow> f64 \<Rightarrow> f64 \<Rightarrow> int \<Rightarrow> string" where
  "SignalBar conv t present want width =
     (let width = (if width \<le> 0 then 20 else width)
      in if f64_le want (Fin 0) then th_Render t StBarEmpty (style_repeat (glyph 0x2591) width)
         else
           let ratio = f64_div present want;
               ratio = (if f64_lt ratio (Fin 0) then Fin 0 else ratio)
           in if f64_le ratio (Fin 1)
              then
                let filled = f64_to_i64 conv (f64_add (f64_mul ratio (f64_of_int width)) (Fin (1 / 2)));
                    filled = (if filled > width then width else filled)
                in th_Render t StBarFilled (style_repeat (glyph 0x2588) filled) @
                   th_Render t StBarEmpty (style_repeat (glyph 0x2591) (width - filled))
              else th_Render t StBarOverflow (style_repeat (glyph 0x2588) width))"

definition SectionRule :: "Theme \<Rightarrow> string \<Rightarrow> int \<Rightarrow> style \<Rightarrow> string" where
  "SectionRule t label width accent =
     (let width = (if width \<le> 0 then 64 else width);
          text = glyph 0x2501 @ glyph 0x2501 @ '' '' @ label @ '' '';
          remaining = width - int (length (runes text));
          remaining = (if remaining < 4 then 4 else remaining)
      in th_Render t accent text @ th_Render t accent (style_repeat (glyph 0x2501) remaining))"

definition SeverityBadge :: "Theme \<Rightarrow> string \<Rightarrow> string" where
  "SeverityBadge t sev =
     (if sev = ''HIGH'' then th_Render t StSevHigh '' HIGH ''
      else if sev = ''MED'' then th_Render t StSevMed '' MED  ''
      else if sev = ''LOW'' then th_Render t StSevLow '' LOW  ''
      else th_Render t StSevInfo '' INFO '')"

definition dots :: "nat \<Rightarrow> nat \<Rightarrow> string" where
  "dots full hollow = concat (replicate full (glyph 0x25CF)) @ concat (replicate hollow (glyph 0x25CB))"

definition ConfidenceDots :: "Theme \<Rightarrow> string \<Rightarrow> string" where
  "ConfidenceDots t conf =
     (if conf = ''high'' then th_Render t StConfHigh (dots 3 0) @ '' '' @ th_Render t StMuted ''high''
      else if conf = ''medium''
      then th_Render t StConfMed (dots 2 0) @ th_Render t StMuted (dots 0 1) @ '' '' @ th_Render t StMuted ''medium''
      else if conf = ''low''
      then th_Render t StConfLow (dots 1 0) @ th_Render t StMuted (dots 0 2) @ '' '' @ th_Render t StMuted ''low''
      else th_Render t StMuted (dots 0 3 @ '' unknown''))"

definition ConfidenceGlyph :: "Theme \<Rightarrow> string \<Rightarrow> string" where
  "ConfidenceGlyph t conf =
     (if conf = ''high'' then th_Render t StConfHigh (dots 3 0)
      else if conf = ''medium'' then th_Render t StConfMed (dots 2 0) @ th_Render t StMuted (dots 0 1)
      else if conf = ''low'' then th_Render t StConfLow (dots 1 0) @ th_Render t StMuted (dots 0 2)
      else th_Render t StMuted (dots 0 3))"

section \<open>Measuring and cutting\<close>

text \<open>The rest of an operating system command after its bracket.\<close>

fun skip_osc :: "nat list \<Rightarrow> nat list" where
  "skip_osc [] = []"
| "skip_osc (c # r) =
     (if c = 0x07 then r
      else case r of d # r' \<Rightarrow> if c = 0x1B \<and> d = 0x5C then r' else skip_osc r | [] \<Rightarrow> skip_osc r)"

lemma length_skip_osc: "length (skip_osc r) \<le> length r"
proof (induction r rule: length_induct)
  case (1 r)
  show ?case
  proof (cases r)
    case (Cons c q)
    have "length (skip_osc q) \<le> length q" "\<And>d q'. q = d # q' \<Longrightarrow> length q' \<le> length q"
      using 1 Cons by auto
    then show ?thesis
      unfolding Cons skip_osc.simps(2) by (cases q) (auto simp del: skip_osc.simps(2))
  qed simp
qed

definition skip_csi :: "nat list \<Rightarrow> nat list" where
  "skip_csi r = drop 1 (dropWhile (\<lambda>c. c < 0x40 \<or> c > 0x7E) r)"

lemma length_skip_csi: "length (skip_csi r) \<le> length r"
  using length_dropWhile_le[of _ r] unfolding skip_csi_def by (metis diff_le_self le_trans length_drop)

function visible_loop :: "nat \<Rightarrow> nat list \<Rightarrow> nat" where
  "visible_loop n [] = n"
| "visible_loop n (c # r) =
     (if c \<noteq> 0x1B then visible_loop (Suc n) r
      else case r of
             [] \<Rightarrow> n
           | d # r' \<Rightarrow>
               if d = 0x5B then visible_loop n (skip_csi r')
               else if d = 0x5D then visible_loop n (skip_osc r')
               else visible_loop n r')"
  by pat_completeness auto
termination
  by (relation "measure (length \<circ> snd)")
    (auto simp: less_Suc_eq_le le_SucI length_skip_csi length_skip_osc)

definition visibleRuneCount :: "string \<Rightarrow> nat" where
  "visibleRuneCount s = visible_loop 0 (runes s)"

definition truncate_text :: "string \<Rightarrow> int \<Rightarrow> string" where
  "truncate_text s width =
     (if width \<le> 0 then []
      else let r = runes s
           in if int (length r) \<le> width then s
              else if width = 1 then glyph 0x2026
              else string_of_runes (take (nat (width - 1)) r) @ glyph 0x2026)"

definition spaces :: "int \<Rightarrow> string" where
  "spaces n = replicate (nat n) CHR '' ''"

definition padRight :: "string \<Rightarrow> int \<Rightarrow> string" where
  "padRight s width =
     (let r = runes s in if int (length r) \<ge> width then s else s @ spaces (width - int (length r)))"

fun wrap_loop :: "int \<Rightarrow> string \<Rightarrow> string list \<Rightarrow> string list" where
  "wrap_loop width cur [] = (if cur \<noteq> [] then [cur] else [])"
| "wrap_loop width cur (w # ws) =
     (if cur = [] then wrap_loop width w ws
      else if int (length cur) + 1 + int (length w) > width then cur # wrap_loop width w ws
      else wrap_loop width (cur @ '' '' @ w) ws)"

definition wrap :: "string \<Rightarrow> int \<Rightarrow> string list" where
  "wrap s width =
     (if width \<le> 0 \<or> int (length (runes s)) \<le> width then (if s = [] then [] else [s])
      else wrap_loop width [] (Fields s))"

section \<open>The writers (\<^verbatim>\<open>text.go\<close>)\<close>

record Text_Options =
  to_Color :: bool
  to_Width :: int
  to_Roast :: bool
  to_RoastTagline :: string
  to_RoastFooter :: string

definition BrandName :: string where "BrandName = ''optiqor''"

definition BrandTagline :: string where
  "BrandTagline = ''Helm chart cost optimization '' @ glyph 0xB7 @ '' security as a bonus''"

definition GetURL :: string where "GetURL = ''https://optiqor.dev/get''"

definition defaultWidth :: int where "defaultWidth = 78"
definition contentIndent :: string where "contentIndent = ''  ''"
definition findingIndent :: string where "findingIndent = ''    ''"
definition annualTeaserMin :: i64 where "annualTeaserMin = 100"
definition cardMinInner :: int where "cardMinInner = 50"
definition signalBarWidth :: int where "signalBarWidth = 24"

definition out_line :: "string \<Rightarrow> string" where "out_line s = s @ [CHR 0x0A]"

definition writeHeader :: "Theme \<Rightarrow> int \<Rightarrow> Text_Options \<Rightarrow> string" where
  "writeHeader t width opts =
     (let divider = DividerLine t width;
          tagline = (if to_Roast opts \<and> to_RoastTagline opts \<noteq> [] then to_RoastTagline opts else BrandTagline)
      in out_line divider @ out_line (contentIndent @ th_Render t StBrandMark BrandGlyph @ ''  '' @ th_Render t StBrand BrandName) @
         out_line (contentIndent @ th_Render t StTagline tagline) @ out_line (out_line divider))"

definition costSummaryValue :: "Theme \<Rightarrow> int \<Rightarrow> i64 \<Rightarrow> string" where
  "costSummaryValue t n monthlyCents =
     (if n = 0 then th_Render t StOK (glyph 0x2713 @ '' no cost waste detected'')
      else
        let primary = th_Render t StTitle (plural n ''optimization'' ''optimizations'')
        in if monthlyCents \<le> 0 then primary
           else
             let monthly = th_Render t StBigSavings (''save ~$'' @ formatCents monthlyCents @ ''/mo'');
                 suffix = (if monthlyCents \<ge> annualTeaserMin
                           then th_Render t StMuted ('' (~$'' @ formatCents (wrap64 (monthlyCents * 12)) @ ''/yr)'') else [])
             in primary @ th_Render t StMuted ('' '' @ glyph 0xB7 @ '' '') @ monthly @ suffix @
                th_Render t StMuted ('' '' @ glyph 0xB1 @ ''40%''))"

text \<open>The labels are ASCII, one byte to the rune.\<close>

definition writeSummary :: "Theme \<Rightarrow> Report \<Rightarrow> int \<Rightarrow> int \<Rightarrow> string" where
  "writeSummary t r costCount secCount =
     (let srcLabel = (if r_Source r = [] then ''(stdin)'' else r_Source r);
          rows =
            [(''Source'', th_Render t StWorkload srcLabel),
             (''Workloads'', th_Render t StTitle (plural (r_Workloads r) ''workload'' ''workloads'') @ th_Render t StMuted '' analyzed''),
             (''Cost'', costSummaryValue t costCount (MonthlySavingsUSDCents r))] @
            (if secCount > 0
             then [(''Security'', th_Render t StMuted (plural secCount ''finding'' ''findings'' @ '' '' @ em_dash @
                      '' bonus, surfaced while parsing''))]
             else []);
          labelWidth = foldl (\<lambda>w (label, _). max w (length label)) 0 rows
      in concat (map (\<lambda>(label, value). out_line (contentIndent @
           th_Render t StMuted (label @ replicate (labelWidth - length label) CHR '' '') @ ''   '' @ value)) rows))"

definition formatSignalLine :: "(f64 \<Rightarrow> i64) \<Rightarrow> Theme \<Rightarrow> Signal \<Rightarrow> string" where
  "formatSignalLine conv t s =
     (let label = (if s_Label s = [] then ''ratio'' else s_Label s);
          note = (if s_Note s \<noteq> [] then ''   '' @ th_Render t StMuted (s_Note s) else [])
      in th_Render t StMuted (padRight label 8) @ '' '' @ th_Render t StDetail (padRight (s_HaveDisplay s) 6) @ '' '' @
         SignalBar conv t (s_Have s) (s_Want s) signalBarWidth @ '' '' @ th_Render t StDetail (s_WantDisplay s) @ note)"

text \<open>The padding is never negative: cut text is as wide as the card.\<close>

definition cardLine :: "Theme \<Rightarrow> int \<Rightarrow> string \<Rightarrow> string" where
  "cardLine t innerWidth content =
     (let visible = int (visibleRuneCount content);
          (content, visible) = (if visible > innerWidth then (truncate_text content innerWidth, innerWidth) else (content, visible))
      in out_line (contentIndent @ th_Render t StCardBorder (glyph 0x2502) @ '' '' @ content @ spaces (innerWidth - visible) @ '' '' @
             th_Render t StCardBorder (glyph 0x2502)))"

definition label_dot :: string where "label_dot = '' '' @ glyph 0xB7 @ '' ''"

definition severity_style :: "Severity \<Rightarrow> style" where
  "severity_style sev =
     (if sev = SeverityHigh then StSevHigh else if sev = SeverityMed then StSevMed
      else if sev = SeverityLow then StSevLow else StMuted)"

definition stylizeSeverityWord :: "Theme \<Rightarrow> Severity \<Rightarrow> string \<Rightarrow> string" where
  "stylizeSeverityWord t sev label =
     (case index_of label_dot label of
        None \<Rightarrow> th_Render t StCardBorder label
      | Some i \<Rightarrow> th_Render t (Chipless (severity_style sev)) (take i label) @
                  th_Render t StCardBorder (label_dot @ drop (i + length label_dot) label))"

definition writeCardHeaderRule :: "Theme \<Rightarrow> Severity \<Rightarrow> string \<Rightarrow> string \<Rightarrow> int \<Rightarrow> string" where
  "writeCardHeaderRule t sev left right innerWidth =
     (let leftRunes = runes left; rightRunes = runes right;
          maxLeft = max 4 (innerWidth - int (length rightRunes));
          leftRunes = (if int (length leftRunes + length rightRunes) > innerWidth then take (nat maxLeft) leftRunes else leftRunes);
          gap = max 1 (innerWidth - int (length leftRunes) - int (length rightRunes))
      in out_line (contentIndent @ th_Render t StCardBorder (glyph 0x250C @ glyph 0x2500) @
             stylizeSeverityWord t sev (string_of_runes leftRunes) @
             th_Render t StCardBorder (style_repeat (glyph 0x2500) gap) @
             th_Render t StSavings (string_of_runes rightRunes) @
             th_Render t StCardBorder (glyph 0x2500 @ glyph 0x2510)))"

definition finding_title :: "Finding \<Rightarrow> string" where
  "finding_title f = (if f_Title f = [] \<and> f_DetectorID f \<noteq> [] then f_DetectorID f else f_Title f)"

definition confidence_line :: "Theme \<Rightarrow> Finding \<Rightarrow> string" where
  "confidence_line t f = th_Render t StMuted ''confidence:'' @ '' '' @ ConfidenceDots t (f_Confidence f)"

definition writeCostFindingFlat :: "(f64 \<Rightarrow> i64) \<Rightarrow> Theme \<Rightarrow> Finding \<Rightarrow> int \<Rightarrow> string" where
  "writeCostFindingFlat conv t f width =
     out_line (contentIndent @ SeverityBadge t (f_Severity f) @ ''  '' @ th_Render t StWorkload (f_Workload f) @
         (if f_MonthlyUSDCents f > 0
          then ''   '' @ th_Render t StSavings (''save ~$'' @ formatCents (f_MonthlyUSDCents f) @ ''/mo'') else [])) @
     out_line (findingIndent @ th_Render t StTitle (finding_title f)) @
     (case f_Signal f of None \<Rightarrow> [] | Some s \<Rightarrow> out_line (findingIndent @ formatSignalLine conv t s)) @
     concat (map (\<lambda>line. out_line (findingIndent @ th_Render t StDetail line)) (wrap (f_Detail f) (width - int (length findingIndent)))) @
     out_line (findingIndent @ confidence_line t f)"

definition card_left :: "Finding \<Rightarrow> string" where
  "card_left f = '' '' @ trim_space (f_Severity f) @ label_dot @ f_Workload f @ '' ''"

definition card_right :: "Finding \<Rightarrow> string" where
  "card_right f = (if f_MonthlyUSDCents f > 0 then '' save ~$'' @ formatCents (f_MonthlyUSDCents f) @ ''/mo '' else [])"

definition card_rows :: "(f64 \<Rightarrow> i64) \<Rightarrow> Theme \<Rightarrow> int \<Rightarrow> Finding \<Rightarrow> string list" where
  "card_rows conv t innerWidth f =
     [[], th_Render t StTitle (finding_title f)] @
     (case f_Signal f of None \<Rightarrow> [] | Some s \<Rightarrow> [[], formatSignalLine conv t s]) @
     [[]] @ map (th_Render t StDetail) (wrap (f_Detail f) (innerWidth - 2)) @ [[], confidence_line t f]"

definition writeCostFinding :: "(f64 \<Rightarrow> i64) \<Rightarrow> Theme \<Rightarrow> Finding \<Rightarrow> int \<Rightarrow> string" where
  "writeCostFinding conv t f width =
     (let innerWidth = width - int (length contentIndent) - 4
      in if innerWidth < cardMinInner then writeCostFindingFlat conv t f width
         else
           writeCardHeaderRule t (f_Severity f) (card_left f) (card_right f) innerWidth @
           concat (map (cardLine t innerWidth) (card_rows conv t innerWidth f)) @
           out_line (contentIndent @ th_Render t StCardBorder
                (glyph 0x2514 @ style_repeat (glyph 0x2500) (innerWidth + 2) @ glyph 0x2518)))"

definition writeCostSection :: "(f64 \<Rightarrow> i64) \<Rightarrow> Theme \<Rightarrow> int \<Rightarrow> Finding list \<Rightarrow> string" where
  "writeCostSection conv t width fs =
     out_line [] @ out_line (out_line (SectionRule t ''Cost optimizations'' width StSectionPrimary)) @
     join (out_line []) (map (\<lambda>f. writeCostFinding conv t f width) fs) @ out_line []"

definition writeSecurityFinding :: "Theme \<Rightarrow> Finding \<Rightarrow> int \<Rightarrow> string" where
  "writeSecurityFinding t f workloadColWidth =
     (let wl = truncate_text (f_Workload f) workloadColWidth;
          wlPadded = wl @ spaces (workloadColWidth - int (length (runes wl)))
      in out_line (contentIndent @ SeverityBadge t (f_Severity f) @ ''  '' @ th_Render t StWorkload wlPadded @ ''   '' @
             ConfidenceGlyph t (f_Confidence f) @ ''   '' @ th_Render t StDetail (finding_title f)))"

definition writeSecuritySection :: "Theme \<Rightarrow> int \<Rightarrow> Finding list \<Rightarrow> string" where
  "writeSecuritySection t width fs =
     (let label = ''Security findings  (bonus, '' @ show_int (int (length fs)) @ '')'';
          maxWorkload = min 24 (foldl (\<lambda>m f. max m (int (length (runes (f_Workload f))))) 0 fs)
      in out_line [] @ out_line (SectionRule t label width StSectionBonus) @
         out_line (out_line (contentIndent @ th_Render t StSectionSubtle
              ''Spotted while parsing your chart. Cost is the headline; this is a bonus.'')) @
         concat (map (\<lambda>f. writeSecurityFinding t f maxWorkload) fs) @ out_line [] @
         out_line (out_line (contentIndent @ th_Render t StMuted ''Run `optiqor audit` to focus only on these findings.'')))"

definition writeFooter :: "Theme \<Rightarrow> int \<Rightarrow> i64 \<Rightarrow> Text_Options \<Rightarrow> string" where
  "writeFooter t width totalCents opts =
     out_line (DividerLine t width) @
     (if totalCents > 0
      then out_line (contentIndent @ th_Render t StMuted ''estimated monthly savings:'' @ '' '' @
               th_Render t StBigSavings (''$'' @ formatCents totalCents @ ''/mo'') @ ''   '' @
               th_Render t StMuted (''('' @ glyph 0xB1 @ ''40%)''))
      else []) @
     out_line (contentIndent @ th_Render t StDisclosure AccuracyDisclosure) @
     out_line (contentIndent @ th_Render t StMuted (glyph 0x2192 @ '' install the agent for exact numbers:'') @ '' '' @
         Hyperlink t (th_Render t StCallToLink ''optiqor.dev/get'') GetURL) @
     (if to_Roast opts \<and> to_RoastFooter opts \<noteq> []
      then out_line (contentIndent @ th_Render t StTagline (to_RoastFooter opts)) else [])"

definition Text ::
  "(bool \<Rightarrow> style \<Rightarrow> string \<Rightarrow> string) \<Rightarrow> (f64 \<Rightarrow> i64) \<Rightarrow> Report \<Rightarrow> Text_Options \<Rightarrow> string" where
  "Text lipgloss conv r opts =
     (let t = NewTheme lipgloss (to_Color opts);
          width = (if to_Width opts \<le> 0 then defaultWidth else to_Width opts);
          (cost, security) = splitByCategory (r_Findings r)
      in writeHeader t width opts @ writeSummary t r (int (length cost)) (int (length security)) @
         (if cost = [] \<and> security = []
          then out_line [] @ out_line (out_line (contentIndent @ th_Render t StOK (glyph 0x2713 @ '' Clean. No findings.''))) @
               writeFooter t width 0 opts
          else
            (if cost \<noteq> [] then writeCostSection conv t width (sortCostForDisplay cost) else []) @
            (if security \<noteq> [] then writeSecuritySection t width security else []) @
            writeFooter t width (MonthlySavingsUSDCents r) opts))"

text \<open>The document the JSON encoder is given.\<close>

record Json_Report =
  jr_AccuracyDisclosure :: string
  jr_Source :: string
  jr_Workloads :: i64
  jr_Findings :: "Finding list"
  jr_Cost :: "Finding list"
  jr_Security :: "Finding list"
  jr_MonthlySavingsUSD :: f64
  jr_AnnualSavingsUSD :: f64

definition JSON :: "Report \<Rightarrow> Json_Report" where
  "JSON r =
     (let (cost, security) = splitByCategory (r_Findings r)
      in \<lparr>jr_AccuracyDisclosure = AccuracyDisclosure, jr_Source = r_Source r, jr_Workloads = r_Workloads r,
          jr_Findings = r_Findings r, jr_Cost = cost, jr_Security = security,
          jr_MonthlySavingsUSD = f64_div (f64_of_int (MonthlySavingsUSDCents r)) (Fin 100),
          jr_AnnualSavingsUSD = f64_div (f64_of_int (wrap64 (MonthlySavingsUSDCents r * 12))) (Fin 100)\<rparr>)"

section \<open>Text on a terminal\<close>

definition control :: "nat \<Rightarrow> bool" where
  "control r \<longleftrightarrow> r = 0x09 \<or> r = 0x0A \<or> r = 0x0D \<or> r = 0x1B"

definition plain_text :: "string \<Rightarrow> bool" where
  "plain_text s \<longleftrightarrow> (\<forall>c \<in> set s. \<not> control (of_char c))"

lemma plain_text_append [simp]: "plain_text (s @ t) \<longleftrightarrow> plain_text s \<and> plain_text t"
  and plain_text_Nil [simp]: "plain_text []"
  and plain_text_Cons [simp]: "plain_text (c # s) \<longleftrightarrow> \<not> control (of_char c) \<and> plain_text s"
  by (auto simp: plain_text_def)

lemma plain_text_concat: "plain_text (concat ss) \<longleftrightarrow> (\<forall>s \<in> set ss. plain_text s)"
  by (induction ss) auto

lemma plain_text_subset: "set s \<subseteq> set t \<Longrightarrow> plain_text t \<Longrightarrow> plain_text s"
  by (auto simp: plain_text_def)

lemma plain_text_glyph [simp]: "scalar r \<Longrightarrow> plain_text (glyph r) \<longleftrightarrow> \<not> control r"
proof -
  assume r: "scalar r"
  have "plain_text (glyph r) \<longleftrightarrow> (\<forall>b \<in> set (utf8_bytes r). \<not> control b)"
    unfolding plain_text_def of_char_glyph [OF r, symmetric] by simp
  then show ?thesis by (auto simp: utf8_bytes_def control_def)
qed

lemma plain_text_string_of_runes:
  "list_all scalar rs \<Longrightarrow> plain_text (string_of_runes rs) \<longleftrightarrow> (\<forall>r \<in> set rs. \<not> control r)"
  by (induction rs) (auto simp: string_of_runes_def)

text \<open>A rune below 0x80 is a byte of the text.\<close>

lemma decode_rune_low: "decode_rune (a # s) = (r, n) \<Longrightarrow> r < 0x80 \<Longrightarrow> r = a"
  by (auto simp: decode_rune.simps Let_def cont_def split: if_splits list.splits)

lemma decode_low: "r \<in> set (decode s) \<Longrightarrow> r < 0x80 \<Longrightarrow> r \<in> set s"
proof (induction s rule: decode.induct)
  case (2 a s)
  obtain q n where qn: "decode_rune (a # s) = (q, n)" by fastforce
  then have "r = q \<or> r \<in> set (decode (drop n s))" using "2.prems"(1) by simp
  then show ?case
    using decode_rune_low[OF qn] "2.IH"[OF qn[symmetric] refl] "2.prems"(2) by (auto dest: in_set_dropD)
qed simp

lemma plain_text_runes: "plain_text s \<Longrightarrow> r \<in> set (runes s) \<Longrightarrow> \<not> control r"
proof
  assume "plain_text s" "r \<in> set (runes s)" "control r"
  moreover have "r < 0x80" using \<open>control r\<close> by (auto simp: control_def)
  ultimately obtain c where "c \<in> set s" "r = of_char c"
    using decode_low[of r "map of_char s"] by (auto simp: runes_def)
  with \<open>plain_text s\<close> \<open>control r\<close> show False by (auto simp: plain_text_def)
qed

lemma visible_loop_plain: "0x1B \<notin> set rs \<Longrightarrow> visible_loop n rs = n + length rs"
  by (induction rs arbitrary: n) auto

lemma visibleRuneCount_plain: "plain_text s \<Longrightarrow> visibleRuneCount s = length (runes s)"
  using plain_text_runes[of s] unfolding visibleRuneCount_def
  by (subst visible_loop_plain) (auto simp: control_def)

lemma style_repeat_glyph: "style_repeat (glyph r) n = string_of_runes (replicate (nat n) r)"
  by (simp add: style_repeat_def string_of_runes_def)

lemma runes_spaces [simp]: "runes (spaces n @ s) = replicate (nat n) 0x20 @ runes s"
proof -
  have "runes (replicate k CHR '' '' @ s) = replicate k 0x20 @ runes s" for k
    by (induction k) (simp_all add: runes_ascii_char)
  then show ?thesis by (simp add: spaces_def)
qed

lemma plain_text_spaces [simp]: "plain_text (spaces n)"
  by (simp add: spaces_def plain_text_def control_def)

text \<open>
  The plain theme shows a line without tabs as it is: this is what \<^verbatim>\<open>lipgloss\<close> documents of a style
  without attributes.
\<close>

definition shows_plain :: "(bool \<Rightarrow> style \<Rightarrow> string \<Rightarrow> string) \<Rightarrow> bool" where
  "shows_plain lipgloss \<longleftrightarrow> (\<forall>st s. plain_text s \<longrightarrow> lipgloss False st s = s)"

definition plain_theme :: "(bool \<Rightarrow> style \<Rightarrow> string \<Rightarrow> string) \<Rightarrow> Theme" where
  "plain_theme lipgloss = NewTheme lipgloss False"

lemma plain_Render [simp]: "shows_plain lipgloss \<Longrightarrow> plain_text s \<Longrightarrow> th_Render (plain_theme lipgloss) st s = s"
  by (simp add: plain_theme_def NewTheme_def shows_plain_def)

definition columns :: "string \<Rightarrow> int" where
  "columns s = int (length (runes s))"

lemma box_plain: "scalar r \<Longrightarrow> 0x80 \<le> r \<Longrightarrow> plain_text (glyph r)"
  by (auto simp: control_def)

lemma box_scalar [simp]:
  "scalar 0x2500" "scalar 0x2502" "scalar 0x250C" "scalar 0x2510" "scalar 0x2514" "scalar 0x2518" "scalar 0x2026"
  "scalar 0xB7" "scalar 0x2588" "scalar 0x2591" "scalar 0x25CF" "scalar 0x25CB"
  by (simp_all add: scalar_def)

lemma not_control [simp]: "0x1B < r \<Longrightarrow> \<not> control r"
  by (auto simp: control_def)

lemma runes_prefix [simp]:
  "runes (contentIndent @ s) = 0x20 # 0x20 # runes s" "runes (CHR '' '' # s) = 0x20 # runes s"
  by (simp_all add: contentIndent_def runes_ascii_char)

lemma spaces_swap: "spaces n @ CHR '' '' # s = CHR '' '' # spaces n @ s"
  by (simp add: spaces_def replicate_app_Cons_same)

lemma columns_cardLine:
  assumes plain: "shows_plain lipgloss" and content: "plain_text content" and inner: "1 \<le> inner"
  shows "\<exists>row. cardLine (plain_theme lipgloss) inner content = out_line row \<and> columns row = inner + 6 \<and> plain_text row"
proof -
  define shown where "shown = (if columns content > inner then truncate_text content inner else content)"
  define k where "k = inner - min inner (columns content)"
  have shown: "plain_text shown \<and> int (length (runes (shown @ CHR '' '' # s))) = min inner (columns content) + 1 + columns s" for s
  proof (cases "columns content > inner")
    case True
    let ?cut = "take (nat (inner - 1)) (runes content)"
    have "list_all scalar ?cut" using runes_scalar[of content] by (auto simp: list_all_iff dest: in_set_takeD)
    moreover have "\<not> control r" if "r \<in> set ?cut" for r
      using plain_text_runes[OF content] that by (auto dest: in_set_takeD)
    moreover have "shown = (if inner = 1 then glyph 0x2026 else string_of_runes ?cut @ glyph 0x2026)"
      using True inner by (simp add: shown_def truncate_text_def columns_def Let_def)
    ultimately show ?thesis
      using True inner
      by (auto simp: columns_def runes_string_append plain_text_string_of_runes)
  next
    case False
    then show ?thesis
      using content by (simp add: shown_def columns_def runes_before_ascii[of "CHR '' ''"])
  qed
  have "cardLine (plain_theme lipgloss) inner content =
      out_line (contentIndent @ glyph 0x2502 @ '' '' @ shown @ '' '' @ spaces k @ glyph 0x2502)"
    using plain content by (auto simp: cardLine_def shown_def k_def spaces_swap visibleRuneCount_plain columns_def Let_def)
  moreover have "columns (spaces k @ glyph 0x2502) = k + 1"
    using runes_glyph[of "0x2502" "[]"] by (simp add: columns_def k_def)
  ultimately show ?thesis
    using shown[of "spaces k @ glyph 0x2502"] inner
    by (intro exI[of _ "contentIndent @ glyph 0x2502 @ '' '' @ shown @ '' '' @ spaces k @ glyph 0x2502"])
      (simp add: columns_def k_def contentIndent_def[THEN arg_cong[of _ _ plain_text]])
qed

lemma columns_glyphs: "scalar r \<Longrightarrow> runes (style_repeat (glyph r) n @ s) = replicate (nat n) r @ runes s"
  unfolding style_repeat_glyph by (rule runes_string_append) (simp add: list_all_iff)

lemma plain_glyphs: "scalar r \<Longrightarrow> \<not> control r \<Longrightarrow> plain_text (style_repeat (glyph r) n)"
  unfolding style_repeat_glyph by (subst plain_text_string_of_runes) (auto simp: list_all_iff)

lemma stylize_plain:
  assumes "shows_plain lipgloss" "plain_text label"
  shows "stylizeSeverityWord (plain_theme lipgloss) sev label = label"
proof (cases "index_of label_dot label")
  case (Some i)
  have label: "label = take i label @ label_dot @ drop (i + length label_dot) label"
    by (rule index_of_SomeD [OF Some])
  then have "plain_text (take i label)" "plain_text (label_dot @ drop (i + length label_dot) label)"
    using assms(2) by (metis plain_text_append)+
  with assms label show ?thesis
    by (simp add: stylizeSeverityWord_def Some del: plain_text_append)
qed (use assms in \<open>simp add: stylizeSeverityWord_def\<close>)

text \<open>
  The top of a card is as wide as the card when the two labels leave a column free, and wider when they
  do not: the gap is never empty, not even when the left label has been cut to make room.
\<close>

lemma columns_header:
  assumes plain: "shows_plain lipgloss" and labels: "plain_text left" "plain_text right" and inner: "0 \<le> inner"
    and left: "4 \<le> columns left"
  shows "\<exists>top. writeCardHeaderRule (plain_theme lipgloss) sev left right inner = out_line top \<and> plain_text top \<and>
           (if columns left + columns right < inner then columns top = inner + 6 else columns top > inner + 6)"
proof -
  let ?r = "runes right"
  define l where "l = (if int (length (runes left) + length ?r) > inner
                       then take (nat (max 4 (inner - int (length ?r)))) (runes left) else runes left)"
  define gap where "gap = max 1 (inner - int (length l) - int (length ?r))"
  have scal: "list_all scalar l" "list_all scalar ?r"
    using runes_scalar[of left] runes_scalar[of right] by (auto simp: l_def list_all_iff dest: in_set_takeD)
  have "plain_text (string_of_runes l)" "plain_text (string_of_runes ?r)"
    using labels scal by (auto simp: plain_text_string_of_runes l_def dest!: in_set_takeD dest: plain_text_runes split: if_splits)
  then have top: "writeCardHeaderRule (plain_theme lipgloss) sev left right inner =
      out_line (contentIndent @ (glyph 0x250C @ glyph 0x2500) @ string_of_runes l @ style_repeat (glyph 0x2500) gap @
          string_of_runes ?r @ (glyph 0x2500 @ glyph 0x2510)) \<and>
      plain_text (contentIndent @ (glyph 0x250C @ glyph 0x2500) @ string_of_runes l @ style_repeat (glyph 0x2500) gap @
          string_of_runes ?r @ (glyph 0x2500 @ glyph 0x2510))"
    using plain by (simp add: writeCardHeaderRule_def stylize_plain plain_glyphs Let_def l_def gap_def
        contentIndent_def[THEN arg_cong[of _ _ plain_text]])
  have "runes (glyph 0x2510) = [0x2510]" using runes_glyph[of "0x2510" "[]"] by simp
  then have "columns (contentIndent @ (glyph 0x250C @ glyph 0x2500) @ string_of_runes l @ style_repeat (glyph 0x2500) gap @
      string_of_runes ?r @ (glyph 0x2500 @ glyph 0x2510)) = int (length l) + gap + columns right + 6"
    using scal by (simp add: columns_def runes_string_append columns_glyphs gap_def)
  moreover have "if columns left + columns right < inner then int (length l) + gap + columns right = inner
      else int (length l) + gap + columns right > inner"
    using left by (auto simp: l_def gap_def columns_def)
  ultimately show ?thesis using top by (intro exI conjI) (auto split: if_splits)
qed

section \<open>Wrapping\<close>

lemma fields_loop_pieces: "w \<in> set (fields_loop cur s) \<Longrightarrow> w \<noteq> [] \<and> set w \<subseteq> set cur \<union> set s"
proof (induction cur s rule: fields_loop.induct)
  case (2 cur c s)
  obtain r n where rn: "decode_rune (map of_char (c # s)) = (r, n)" by fastforce
  show ?case
  proof (cases "unicode_space r")
    case True
    with "2.prems" rn consider "w = cur" "cur \<noteq> []" | "w \<in> set (fields_loop [] (drop n s))"
      by (auto split: if_splits)
    then show ?thesis
    proof cases
      case 2
      from "2.IH"(1)[OF rn[symmetric] refl True 2] show ?thesis using set_drop_subset[of n s] by auto
    qed auto
  next
    case False
    then have "w \<noteq> [] \<and> set w \<subseteq> set (cur @ c # take n s) \<union> set (drop n s)"
      using "2.IH"(2)[OF rn[symmetric] refl] "2.prems" rn by simp
    then show ?thesis using set_take_subset[of n s] set_drop_subset[of n s] by auto
  qed
qed (simp split: if_splits)

lemma Fields_pieces: "w \<in> set (Fields s) \<Longrightarrow> w \<noteq> [] \<and> set w \<subseteq> set s"
  using fields_loop_pieces[of w "[]" s] by (simp add: Fields_def)

text \<open>Words of a line that is as long as it can be.\<close>

definition fits :: "int \<Rightarrow> string list \<Rightarrow> bool" where
  "fits width g \<longleftrightarrow> g \<noteq> [] \<and> (length g = 1 \<or> int (length (join '' '' g)) \<le> width)"

definition full_before :: "int \<Rightarrow> string list \<Rightarrow> string list \<Rightarrow> bool" where
  "full_before width g h \<longleftrightarrow> int (length (join '' '' g)) + 1 + int (length (hd h)) > width"

lemma join_snoc: "g \<noteq> [] \<Longrightarrow> join sep (g @ [w]) = join sep g @ sep @ w"
  by (induction sep g rule: join.induct) (auto simp: neq_Nil_conv)

lemma join_not_Nil: "g \<noteq> [] \<Longrightarrow> (\<And>w. w \<in> set g \<Longrightarrow> w \<noteq> []) \<Longrightarrow> join sep g \<noteq> []"
  by (cases g rule: remdups_adj.cases) auto

lemma wrap_loop_groups:
  assumes "\<And>w. w \<in> set (g @ ws) \<Longrightarrow> w \<noteq> []" and "fits width g"
  shows "\<exists>gs. wrap_loop width (join '' '' g) ws = map (join '' '') gs \<and> concat gs = g @ ws \<and>
           list_all (fits width) gs \<and> successively (full_before width) gs \<and> gs \<noteq> [] \<and> hd (hd gs) = hd g"
  using assms
proof (induction ws arbitrary: g)
  case Nil
  then have "join '' '' g \<noteq> []" by (intro join_not_Nil) (auto simp: fits_def)
  then show ?case using Nil.prems by (intro exI[of _ "[g]"]) simp
next
  case (Cons w ws)
  have cur: "join '' '' g \<noteq> []" using Cons.prems by (intro join_not_Nil) (auto simp: fits_def)
  show ?case
  proof (cases "int (length (join '' '' g)) + 1 + int (length w) > width")
    case True
    from Cons.prems have "fits width [w]" "\<And>v. v \<in> set ([w] @ ws) \<Longrightarrow> v \<noteq> []" by (auto simp: fits_def)
    from Cons.IH[OF this(2,1)] obtain gs where gs: "wrap_loop width w ws = map (join '' '') gs"
      "concat gs = w # ws" "list_all (fits width) gs" "successively (full_before width) gs" "gs \<noteq> []" "hd (hd gs) = w"
      by auto
    have "full_before width g (hd gs)" using True gs(6) by (simp add: full_before_def)
    then show ?thesis
      using True cur gs Cons.prems by (intro exI[of _ "g # gs"]) (simp add: successively_Cons)
  next
    case False
    have "fits width (g @ [w])"
      using False Cons.prems(2) by (simp add: fits_def join_snoc)
    from Cons.IH[OF _ this] Cons.prems(1) obtain gs where
      "wrap_loop width (join '' '' (g @ [w])) ws = map (join '' '') gs" "concat gs = (g @ [w]) @ ws"
      "list_all (fits width) gs" "successively (full_before width) gs" "gs \<noteq> []" "hd (hd gs) = hd (g @ [w])"
      by auto
    then show ?thesis
      using False cur Cons.prems(2) unfolding fits_def[of width g]
      by (intro exI[of _ gs]) (simp add: join_snoc)
  qed
qed

text \<open>
  A text that is too wide is broken into lines that hold its words in order, none lost; a line is at most
  \<open>width\<close> bytes long unless it is a single word, and no line has room for the first word of the next.
\<close>

lemma wrap_exact:
  assumes "0 < width" "width < columns s"
  shows "\<exists>gs. wrap s width = map (join '' '') gs \<and> concat gs = Fields s \<and>
           list_all (fits width) gs \<and> successively (full_before width) gs"
proof (cases "Fields s")
  case Nil
  with assms show ?thesis by (intro exI[of _ "[]"]) (simp add: wrap_def columns_def)
next
  case (Cons w ws)
  have "fits width [w]" by (simp add: fits_def)
  moreover have "v \<noteq> []" if "v \<in> set ([w] @ ws)" for v
    using that Fields_pieces[of v s] Cons by simp
  ultimately obtain gs where "wrap_loop width w ws = map (join '' '') gs" "concat gs = w # ws"
    "list_all (fits width) gs" "successively (full_before width) gs"
    using wrap_loop_groups[of "[w]" ws width] by auto
  with assms Cons show ?thesis by (intro exI[of _ gs]) (simp add: wrap_def columns_def)
qed

lemma plain_wrap_loop:
  "line \<in> set (wrap_loop width cur ws) \<Longrightarrow> plain_text cur \<Longrightarrow> \<forall>w \<in> set ws. plain_text w \<Longrightarrow> plain_text line"
  by (induction width cur ws rule: wrap_loop.induct) (auto simp: control_def split: if_splits)

lemma plain_wrap: "plain_text s \<Longrightarrow> line \<in> set (wrap s width) \<Longrightarrow> plain_text line"
  using Fields_pieces[of _ s]
  by (auto simp: wrap_def split: if_splits elim!: plain_wrap_loop intro: plain_text_subset)

section \<open>A card is a rectangle\<close>

definition plain_signal :: "Signal \<Rightarrow> bool" where
  "plain_signal s \<longleftrightarrow> plain_text (s_Label s) \<and> plain_text (s_HaveDisplay s) \<and> plain_text (s_WantDisplay s) \<and>
     plain_text (s_Note s)"

definition plain_finding :: "Finding \<Rightarrow> bool" where
  "plain_finding f \<longleftrightarrow> plain_text (f_Title f) \<and> plain_text (f_DetectorID f) \<and> plain_text (f_Detail f) \<and>
     plain_text (f_Workload f) \<and> plain_text (trim_space (f_Severity f)) \<and> pred_option plain_signal (f_Signal f)"

lemma plain_padRight [simp]: "plain_text s \<Longrightarrow> plain_text (padRight s n)"
  by (simp add: padRight_def Let_def)

lemma plain_SignalBar: "shows_plain lipgloss \<Longrightarrow> plain_text (SignalBar conv (plain_theme lipgloss) have want n)"
  by (simp add: SignalBar_def Let_def plain_glyphs)

lemma plain_formatSignalLine:
  assumes "shows_plain lipgloss" "plain_signal s"
  shows "plain_text (formatSignalLine conv (plain_theme lipgloss) s)"
  using assms plain_SignalBar[OF assms(1)]
  by (simp add: formatSignalLine_def plain_signal_def Let_def control_def)

lemma plain_dots [simp]: "plain_text (dots a b)"
  by (simp add: dots_def plain_text_concat)

lemma plain_confidence_line: "shows_plain lipgloss \<Longrightarrow> plain_text (confidence_line (plain_theme lipgloss) f)"
  by (simp add: confidence_line_def ConfidenceDots_def control_def)

lemma plain_card_rows:
  assumes "shows_plain lipgloss" "plain_finding f" "row \<in> set (card_rows conv (plain_theme lipgloss) inner f)"
  shows "plain_text row"
  using assms plain_formatSignalLine[OF assms(1)] plain_confidence_line[OF assms(1)] plain_wrap[of "f_Detail f"]
  by (cases "f_Signal f") (auto simp: card_rows_def plain_finding_def finding_title_def split: if_splits)

lemma plain_show_int: "plain_text (show_int n)"
proof -
  have "\<not> control (of_char c)" if "c \<in> set (show_int n)" for c
  proof -
    have "is_digit c \<or> c = CHR ''-''"
      using that by (auto simp: show_int_def split: if_splits dest: show_nat_digits)
    then show ?thesis by (elim disjE) (auto simp: control_def is_digit_def)
  qed
  then show ?thesis by (simp add: plain_text_def)
qed

lemma plain_card_labels:
  "plain_finding f \<Longrightarrow> plain_text (card_left f)" "plain_text (card_right f)"
  by (simp_all add: card_left_def card_right_def label_dot_def plain_finding_def formatCents_def pad2_def plain_show_int
      control_def Let_def)

lemma columns_card_left: "4 \<le> columns (card_left f)"
proof -
  have "runes (glyph 0xB7) = [0xB7]" using runes_glyph[of "0xB7" "[]"] by simp
  then have "runes (card_left f) = 0x20 # runes (trim_space (f_Severity f)) @ 0x20 # 0xB7 # 0x20 # runes (f_Workload f @ '' '')"
    by (simp add: card_left_def label_dot_def runes_before_ascii[of "CHR '' ''"])
  then show ?thesis by (simp add: columns_def)
qed

text \<open>
  C31. In a terminal wide enough for boxes, without colour, every line of a cost finding's card is exactly
  as wide as the terminal: rows, padding and bottom rule, whatever the length of title, detail and
  signal. The line at the top is as wide too when the severity, the workload and the savings leave it a
  column; when they do not, it sticks out.
\<close>

theorem card_fills_terminal:
  assumes plain: "shows_plain lipgloss" "plain_finding f" and width: "56 \<le> width"
  shows "\<exists>top rows. writeCostFinding conv (plain_theme lipgloss) f width = concat (map out_line (top # rows)) \<and>
           list_all (\<lambda>row. columns row = width \<and> plain_text row) rows \<and> plain_text top \<and>
           (if columns (card_left f) + columns (card_right f) < width - 6 then columns top = width else columns top > width)"
proof -
  let ?t = "plain_theme lipgloss" and ?inner = "width - 6"
  obtain top where top: "writeCardHeaderRule ?t (f_Severity f) (card_left f) (card_right f) ?inner = out_line top"
    "plain_text top" "if columns (card_left f) + columns (card_right f) < ?inner then columns top = width else columns top > width"
    using columns_header[OF plain(1) plain_card_labels(1)[OF plain(2)] plain_card_labels(2)[of f] _ columns_card_left,
        of "?inner" "f_Severity f"] width by (auto split: if_splits)
  have "\<exists>rows. concat (map (cardLine ?t ?inner) cs) = concat (map out_line rows) \<and>
      list_all (\<lambda>row. columns row = width \<and> plain_text row) rows" if "\<And>c. c \<in> set cs \<Longrightarrow> plain_text c" for cs
    using that
  proof (induction cs)
    case (Cons c cs)
    obtain row where "cardLine ?t ?inner c = out_line row" "columns row = width" "plain_text row"
      using columns_cardLine[OF plain(1), of c ?inner] Cons.prems width by auto
    moreover obtain rows where "concat (map (cardLine ?t ?inner) cs) = concat (map out_line rows)"
      "list_all (\<lambda>row. columns row = width \<and> plain_text row) rows" using Cons by auto
    ultimately show ?case by (intro exI[of _ "row # rows"]) simp
  qed (intro exI[of _ "[]"], simp)
  from this[of "card_rows conv ?t ?inner f"] obtain rows where rows:
    "concat (map (cardLine ?t ?inner) (card_rows conv ?t ?inner f)) = concat (map out_line rows)"
    "list_all (\<lambda>row. columns row = width \<and> plain_text row) rows"
    using plain_card_rows[OF plain] by blast
  define bottom where "bottom = contentIndent @ glyph 0x2514 @ style_repeat (glyph 0x2500) (?inner + 2) @ glyph 0x2518"
  have "runes (glyph 0x2518) = [0x2518]" using runes_glyph[of "0x2518" "[]"] by simp
  then have "columns bottom = width" "plain_text bottom"
    using width by (simp_all add: bottom_def columns_def columns_glyphs plain_glyphs
        contentIndent_def[THEN arg_cong[of _ _ plain_text]] control_def)
  moreover have "writeCostFinding conv ?t f width = out_line top @ concat (map out_line rows) @ out_line bottom"
    using width top(1) rows(1) plain(1)
    by (simp add: writeCostFinding_def contentIndent_def[THEN arg_cong[of _ _ length]] cardMinInner_def bottom_def plain_glyphs)
  ultimately show ?thesis
    using top(2,3) rows(2) by (intro exI[of _ top] exI[of _ "rows @ [bottom]"]) (simp add: list_all_append)
qed

definition sample_finding :: Finding where
  "sample_finding = finding ''idle-workload'' ''web'' ''Idle'' ''No replica runs.'' SeverityLow ''high''"

lemma card_fills_terminal_witness:
  "\<exists>top rows. writeCostFinding (\<lambda>_. 0) (plain_theme (\<lambda>_ _ s. s)) sample_finding 78 = concat (map out_line (top # rows)) \<and>
     list_all (\<lambda>row. columns row = 78 \<and> plain_text row) rows"
proof -
  have "shows_plain (\<lambda>_ _ s. s)" by (simp add: shows_plain_def)
  moreover have "trim_space ''LOW'' = ''LOW''" by (rule trim_space_graphic) (simp_all add: graphic_def)
  then have "plain_finding sample_finding"
    by (simp add: plain_finding_def sample_finding_def finding_def SeverityLow_def control_def)
  ultimately show ?thesis
    using card_fills_terminal[of "\<lambda>_ _ s. s" sample_finding 78 "\<lambda>_. 0"] by auto
qed

text \<open>
  With colour a row too long for the card comes out too narrow: the cut counts the runes of the escape
  codes, the padding takes the cut text for as wide as the card, and the code that ends the style is lost.
\<close>

definition bold_theme :: Theme where
  "bold_theme = NewTheme (\<lambda>c st s. if c \<and> st = StTitle then [CHR 0x1B] @ ''[1m'' @ s @ [CHR 0x1B] @ ''[0m'' else s) True"

lemma coloured_row_too_narrow:
  "cardLine bold_theme 10 (th_Render bold_theme StTitle ''abcdefghijkl'') =
     out_line (contentIndent @ glyph 0x2502 @ '' '' @ [CHR 0x1B] @ ''[1mabcde'' @ glyph 0x2026 @ '' '' @ glyph 0x2502)"
  "visibleRuneCount ([CHR 0x1B] @ ''[1mabcde'' @ glyph 0x2026) = 6"
proof -
  let ?styled = "[CHR 0x1B] @ ''[1mabcdefghijkl'' @ [CHR 0x1B] @ ''[0m''"
  have "runes ?styled = map of_char ?styled" "runes ([CHR 0x1B] @ ''[1mabcde'' @ glyph 0x2026) = map of_char ([CHR 0x1B] @ ''[1mabcde'') @ [0x2026]"
    using runes_glyph[of "0x2026" "[]"] by (simp_all add: runes_ascii_char)
  moreover have ascii: "string_of_runes (map of_char s) = s" if "\<forall>c \<in> set s. (of_char c :: nat) < 0x80" for s
    using that by (induction s) (simp_all add: string_of_runes_def glyph_def utf8_bytes_def)
  have "string_of_runes (map of_char ([CHR 0x1B] @ ''[1mabcde'')) = [CHR 0x1B] @ ''[1mabcde''"
    by (rule ascii) simp
  ultimately show "cardLine bold_theme 10 (th_Render bold_theme StTitle ''abcdefghijkl'') =
     out_line (contentIndent @ glyph 0x2502 @ '' '' @ [CHR 0x1B] @ ''[1mabcde'' @ glyph 0x2026 @ '' '' @ glyph 0x2502)"
    "visibleRuneCount ([CHR 0x1B] @ ''[1mabcde'' @ glyph 0x2026) = 6"
    by (simp_all add: cardLine_def bold_theme_def NewTheme_def visibleRuneCount_def truncate_text_def skip_csi_def spaces_def Let_def)
qed

section \<open>The disclosure\<close>


text \<open>Amber on a 256-colour terminal.\<close>

definition amber_style :: "bool \<Rightarrow> style \<Rightarrow> string \<Rightarrow> string" where
  "amber_style c st s = (if c then [CHR 0x1B] @ ''[38;5;214m'' @ s @ [CHR 0x1B] @ ''[0m'' else s)"


end
