(* ===== verification/Api_Boot.thy ===== *)
theory Api_Boot
  imports Labels Session Middleware
begin

text \<open>
  How the API starts: its configuration (\<^verbatim>\<open>platform/config/config.go\<close>), the signer of the dashboard's
  sessions and the table of routes with the middleware in front of each (\<^verbatim>\<open>cmd/api/routes.go\<close>,
  \<^verbatim>\<open>cmd/api/main.go\<close>). The environment is a function that is empty for a variable that is not set.
\<close>

section \<open>Configuration\<close>

definition Config_EnvDev :: Env where "Config_EnvDev = ''dev''"
definition Config_EnvStaging :: Env where "Config_EnvStaging = ''staging''"

definition Env_Valid :: "Env \<Rightarrow> bool" where
  "Env_Valid e \<longleftrightarrow> e = Config_EnvDev \<or> e = Config_EnvStaging \<or> e = Config_EnvProd"

record Api_Config =
  ac_Env :: Env
  ac_LogLevel :: string
  ac_HTTPAddr :: string
  ac_MetricsAddr :: string
  ac_PostgresDSN :: string
  ac_RedisAddr :: string
  ac_TemporalHost :: string
  ac_AnthropicAPIKey :: string
  ac_GitHubAppID :: string
  ac_GitHubAppClientID :: string
  ac_GitHubAppClientSecret :: string
  ac_GitHubAppPrivateKeyPEM :: string
  ac_GitHubAppWebhookSecret :: string
  ac_AWSRegion :: string
  ac_SentryDSN :: string
  ac_SentryEnvironment :: string
  ac_SentryRelease :: string
  ac_SentrySampleRate :: f64
  ac_OTELHTTP :: string
  ac_ShutdownGrace :: duration

definition config_envOr :: "(string \<Rightarrow> string) \<Rightarrow> string \<Rightarrow> string \<Rightarrow> string" where
  "config_envOr getenv key fallback = (if getenv key \<noteq> [] then getenv key else fallback)"

definition envDuration :: "(string \<Rightarrow> string) \<Rightarrow> string \<Rightarrow> duration \<Rightarrow> duration" where
  "envDuration getenv key fallback =
     (if getenv key = [] then fallback
      else case ParseDuration (getenv key) of None \<Rightarrow> fallback | Some d \<Rightarrow> d)"

definition envFloat :: "(string \<Rightarrow> string) \<Rightarrow> string \<Rightarrow> f64 \<Rightarrow> f64" where
  "envFloat getenv key fallback =
     (if getenv key = [] then fallback
      else case parse_float (getenv key) of Inl _ \<Rightarrow> fallback | Inr f \<Rightarrow> f)"

definition validLogLevel :: "string \<Rightarrow> bool" where
  "validLogLevel s \<longleftrightarrow> to_lower s \<in> {''debug'', ''info'', ''warn'', ''error''}"

definition required :: "string \<Rightarrow> string \<Rightarrow> string list" where
  "required value name = (if value = [] then [name @ '' is required in prod''] else [])"

text \<open>\<open>quote\<close> is \<open>%q\<close>. The text of the error, if there is one.\<close>

definition Config_Validate :: "(string \<Rightarrow> string) \<Rightarrow> Api_Config \<Rightarrow> string option" where
  "Config_Validate quote c =
     (let errs =
        (if \<not> Env_Valid (ac_Env c) then [''invalid OPTIQOR_ENV '' @ quote (ac_Env c) @ '' (want dev|staging|prod)''] else []) @
        (if \<not> validLogLevel (ac_LogLevel c)
         then [''invalid OPTIQOR_LOG_LEVEL '' @ quote (ac_LogLevel c) @ '' (want debug|info|warn|error)''] else []) @
        (if ac_Env c = Config_EnvProd
         then required (ac_PostgresDSN c) ''OPTIQOR_POSTGRES_DSN'' @
              required (ac_AnthropicAPIKey c) ''OPTIQOR_ANTHROPIC_API_KEY'' @
              required (ac_GitHubAppID c) ''OPTIQOR_GITHUB_APP_ID'' @
              required (ac_GitHubAppWebhookSecret c) ''OPTIQOR_GITHUB_APP_WEBHOOK_SECRET''
         else []) @
        (if ac_ShutdownGrace c \<le> 0 then [''OPTIQOR_SHUTDOWN_GRACE must be positive''] else [])
      in if errs \<noteq> [] then Some (''config: '' @ join ''; '' errs) else None)"

definition read_config :: "(string \<Rightarrow> string) \<Rightarrow> Api_Config" where
  "read_config getenv =
     \<lparr>ac_Env = config_envOr getenv ''OPTIQOR_ENV'' ''dev'',
      ac_LogLevel = config_envOr getenv ''OPTIQOR_LOG_LEVEL'' ''info'',
      ac_HTTPAddr = config_envOr getenv ''OPTIQOR_HTTP_ADDR'' '':8080'',
      ac_MetricsAddr = config_envOr getenv ''OPTIQOR_METRICS_ADDR'' '':9090'',
      ac_PostgresDSN = getenv ''OPTIQOR_POSTGRES_DSN'',
      ac_RedisAddr = config_envOr getenv ''OPTIQOR_REDIS_ADDR'' ''localhost:6379'',
      ac_TemporalHost = config_envOr getenv ''OPTIQOR_TEMPORAL_HOSTPORT'' ''localhost:7233'',
      ac_AnthropicAPIKey = getenv ''OPTIQOR_ANTHROPIC_API_KEY'',
      ac_GitHubAppID = getenv ''OPTIQOR_GITHUB_APP_ID'',
      ac_GitHubAppClientID = getenv ''OPTIQOR_GITHUB_APP_CLIENT_ID'',
      ac_GitHubAppClientSecret = getenv ''OPTIQOR_GITHUB_APP_CLIENT_SECRET'',
      ac_GitHubAppPrivateKeyPEM = getenv ''OPTIQOR_GITHUB_APP_PRIVATE_KEY_PEM'',
      ac_GitHubAppWebhookSecret = getenv ''OPTIQOR_GITHUB_APP_WEBHOOK_SECRET'',
      ac_AWSRegion = config_envOr getenv ''AWS_REGION'' ''us-east-1'',
      ac_SentryDSN = getenv ''OPTIQOR_SENTRY_DSN'',
      ac_SentryEnvironment = getenv ''OPTIQOR_SENTRY_ENVIRONMENT'',
      ac_SentryRelease = getenv ''OPTIQOR_SENTRY_RELEASE'',
      ac_SentrySampleRate = envFloat getenv ''OPTIQOR_SENTRY_SAMPLE_RATE'' (Fin 1),
      ac_OTELHTTP = config_envOr getenv ''OPTIQOR_OTEL_EXPORTER_OTLP_ENDPOINT'' [],
      ac_ShutdownGrace = envDuration getenv ''OPTIQOR_SHUTDOWN_GRACE'' (nanoseconds 10)\<rparr>"

definition Config_Load :: "(string \<Rightarrow> string) \<Rightarrow> (string \<Rightarrow> string) \<Rightarrow> string + Api_Config" where
  "Config_Load quote getenv =
     (let c = read_config getenv
      in case Config_Validate quote c of Some err \<Rightarrow> Inl err | None \<Rightarrow> Inr c)"

section \<open>Sessions\<close>

definition dev_secret :: string where "dev_secret = ''00000000000000000000000000000-dev''"

definition buildSessionSigner :: "(string \<Rightarrow> string) \<Rightarrow> Session_Signer option" where
  "buildSessionSigner getenv =
     (let secret = getenv ''OPTIQOR_SESSION_SECRET''
      in Session_NewSigner (if secret = [] then dev_secret else secret))"

section \<open>Routes\<close>

text \<open>What stands in front of a handler. The limiter, which \<^verbatim>\<open>RateLimit\<close> models, either answers itself or passes on.\<close>

datatype guard = Open | Limited | Scoped TenantExtractor

record route =
  rt_Method :: string
  rt_Pattern :: string
  rt_Guard :: guard

text \<open>The optional parts of the dependencies: the snapshot handler, the dashboard, the preflight handler.\<close>

record domain_deps =
  dd_AgentSnapshot :: bool
  dd_Dashboard :: bool
  dd_Preflight :: bool

definition rt :: "string \<Rightarrow> string \<Rightarrow> guard \<Rightarrow> route" where
  "rt method pattern g = \<lparr>rt_Method = method, rt_Pattern = pattern, rt_Guard = g\<rparr>"

definition mountDomainRoutes :: "domain_deps \<Rightarrow> Env \<Rightarrow> route list" where
  "mountDomainRoutes deps env =
     (let tenant = Scoped HeaderTenantExtractor; agent = Scoped (MTLSTenantExtractor env)
      in [rt ''POST'' ''/v1/analyze'' Limited, rt ''GET'' ''/r/{hash}'' Limited,
          rt ''GET'' ''/v1/receipts/{id}'' Open, rt ''GET'' ''/v/{id}'' Open, rt ''POST'' ''/v1/cost-spikes'' Open,
          rt ''GET'' ''/v1/session/whoami'' Open, rt ''POST'' ''/v1/session/issue'' Open,
          rt ''POST'' ''/v1/ingest'' tenant] @
         (if dd_AgentSnapshot deps then [rt ''POST'' ''/v1/agent/snapshot'' agent] else []) @
         (if dd_Dashboard deps
          then [rt ''GET'' ''/v1/savings/summary'' tenant, rt ''GET'' ''/v1/apply-fixes'' tenant,
                rt ''GET'' ''/v1/agent/health'' tenant] else []) @
         [rt ''POST'' ''/v1/apply-fixes'' tenant, rt ''GET'' ''/v1/onboarding/state'' tenant,
          rt ''POST'' ''/v1/onboarding/transition'' tenant, rt ''GET'' ''/v1/onboarding/health'' tenant] @
         (if dd_Preflight deps then [rt ''POST'' ''/v1/onboarding/preflight'' tenant] else []))"

definition route_guarded :: "guard \<Rightarrow> ('e, 'b) handler \<Rightarrow> ('e, 'b) handler" where
  "route_guarded g next = (case g of Scoped extract \<Rightarrow> requireTenant extract next | _ \<Rightarrow> next)"

text \<open>The routes \<open>metaHandler\<close> advertises.\<close>

definition advertised :: "(string \<times> string) list" where
  "advertised =
     [(''POST'', ''/v1/analyze''), (''GET'', ''/r/{hash}''), (''GET'', ''/v1/receipts/{id}''),
      (''POST'', ''/v1/apply-fixes''), (''POST'', ''/v1/ingest''), (''POST'', ''/v1/cost-spikes''),
      (''GET'', ''/v1/session/whoami''), (''POST'', ''/v1/session/issue''), (''GET'', ''/v1/onboarding/state''),
      (''POST'', ''/v1/onboarding/transition''), (''GET'', ''/v1/onboarding/health''),
      (''POST'', ''/v1/onboarding/preflight''), (''GET'', ''/v1/savings/summary''), (''GET'', ''/v1/apply-fixes''),
      (''GET'', ''/v1/agent/health''), (''GET'', ''/healthz''), (''GET'', ''/readyz''), (''GET'', ''/metrics'')]"

section \<open>What the start guarantees\<close>

lemma Config_Load_prod:
  assumes "Config_Load quote getenv = Inr c" "ac_Env c = Config_EnvProd"
  shows "ac_PostgresDSN c \<noteq> [] \<and> ac_AnthropicAPIKey c \<noteq> [] \<and> ac_GitHubAppID c \<noteq> [] \<and>
         ac_GitHubAppWebhookSecret c \<noteq> [] \<and> 0 < ac_ShutdownGrace c \<and> validLogLevel (ac_LogLevel c)"
proof -
  have "Config_Validate quote c = None" using assms(1) by (auto simp: Config_Load_def Let_def split: option.splits)
  with assms(2) show ?thesis by (auto simp: Config_Validate_def required_def Let_def split: if_splits)
qed

lemma other_variable:
  "key \<noteq> k \<Longrightarrow> config_envOr (getenv(k := s)) key d = config_envOr getenv key d"
  "key \<noteq> k \<Longrightarrow> envFloat (getenv(k := s)) key x = envFloat getenv key x"
  "key \<noteq> k \<Longrightarrow> envDuration (getenv(k := s)) key n = envDuration getenv key n"
  by (simp_all add: config_envOr_def envFloat_def envDuration_def)

text \<open>
  A production start does not ask for the session secret: with the variable unset the configuration
  loads whenever it loads with any secret, and the signer is the one of the source text.
\<close>

lemma prod_starts_with_dev_secret:
  assumes "getenv ''OPTIQOR_SESSION_SECRET'' = []"
  shows "buildSessionSigner getenv = Some dev_secret \<and>
         Config_Load quote getenv = Config_Load quote (getenv(''OPTIQOR_SESSION_SECRET'' := s))"
proof -
  have "read_config (getenv(''OPTIQOR_SESSION_SECRET'' := s)) = read_config getenv"
    by (simp add: read_config_def other_variable)
  then show ?thesis
    using assms by (simp add: buildSessionSigner_def Session_NewSigner_def dev_secret_def Config_Load_def)
qed

text \<open>
  In every environment, production included, the tenant of a scoped route other than the agent's is
  the one the caller names in a header: a request that names a tenant is handled in that tenant's scope,
  whatever session, cookie or certificate it carries, and one that names none is refused with 401, even
  with a valid session.
\<close>

lemma header_names_tenant:
  assumes "route \<in> set (mountDomainRoutes deps env)" "rt_Guard route = Scoped extract"
    and "rt_Pattern route \<noteq> ''/v1/agent/snapshot''"
  shows "(rq_Header r ''X-Optiqor-Tenant'' = tenant \<and> tenant \<noteq> [] \<longrightarrow>
           route_guarded (rt_Guard route) next r =
             next (r\<lparr>rq_Tenant := Some \<lparr>tc_TenantID = tenant, tc_WorkspaceID = rq_Header r ''X-Optiqor-Workspace'',
               tc_ClusterID = rq_Header r ''X-Optiqor-Cluster'', tc_Namespace = rq_Header r ''X-Optiqor-Namespace''\<rparr>\<rparr>)) \<and>
         (rq_Header r ''X-Optiqor-Tenant'' = [] \<longrightarrow>
           (\<exists>resp. route_guarded (rt_Guard route) next r = ([], Responded resp) \<and> is_error 401 resp))"
proof -
  have "extract = HeaderTenantExtractor"
    using assms by (auto simp: mountDomainRoutes_def rt_def Let_def split: if_splits)
  then show ?thesis
    using assms(2) by (auto simp: route_guarded_def requireTenant_def HeaderTenantExtractor_def Tenant_Validate_def WithContext_def Let_def)
qed

lemma header_names_tenant_witness:
  "route_guarded (Scoped HeaderTenantExtractor) (\<lambda>r. ([], Responded (json_response 200 (rq_Tenant r)))) sample_request =
     (([], Responded (json_response 200 (Some \<lparr>tc_TenantID = ''other'', tc_WorkspaceID = [], tc_ClusterID = [], tc_Namespace = []\<rparr>)))
        :: unit api_event list \<times> TenantContext option outcome)"
proof -
  let ?echo = "(\<lambda>r. ([], Responded (json_response 200 (rq_Tenant r)))) :: (unit, TenantContext option) handler"
  have "rt ''POST'' ''/v1/ingest'' (Scoped HeaderTenantExtractor) \<in>
      set (mountDomainRoutes \<lparr>dd_AgentSnapshot = True, dd_Dashboard = True, dd_Preflight = True\<rparr> Config_EnvProd)"
    by (simp add: mountDomainRoutes_def Let_def)
  from header_names_tenant[OF this, of HeaderTenantExtractor sample_request "''other''" ?echo]
  show ?thesis by (simp add: rt_def sample_request_def)
qed

end
