(* ===== verification/Platform.thy ===== *)
theory Platform
  imports Registry Tenancy Go_Time Go_Float
begin

text \<open>
  Two small services every binary uses: the readiness checks (\<^verbatim>\<open>platform/healthz/healthz.go\<close>) and the
  feature flags (\<^verbatim>\<open>platform/featureflags/flags.go\<close>).
\<close>

section \<open>Readiness\<close>

text \<open>
  A check is what it answers to one call: no error or an error's text, and how long it took. A named
  check is a pair; a nil function is \<open>None\<close>.
\<close>

type_synonym CheckFunc = "string option \<times> duration"
type_synonym Health_Registry = "(string \<times> CheckFunc) list"

record Health_Result =
  hr_Name :: string
  hr_OK :: bool
  hr_Error :: string
  hr_Latency :: duration

text \<open>\<open>None\<close> is the panic.\<close>

definition Health_Register :: "Health_Registry \<Rightarrow> string \<Rightarrow> CheckFunc option \<Rightarrow> Health_Registry option" where
  "Health_Register r name fn =
     (case fn of
        None \<Rightarrow> None
      | Some f \<Rightarrow>
          if name = [] then None
          else if map_of r name \<noteq> None then None
          else Some (AList.update name f r))"

definition Health_Names :: "Health_Registry \<Rightarrow> string list" where
  "Health_Names r = swap_sort (map fst r)"

fun health_loop :: "Health_Registry \<Rightarrow> bool \<Rightarrow> string list \<Rightarrow> Health_Result list \<times> bool" where
  "health_loop r allOK [] = ([], allOK)"
| "health_loop r allOK (n # ns) =
     (case map_of r n of
        None \<Rightarrow> health_loop r allOK ns
      | Some (err, latency) \<Rightarrow>
          let res = \<lparr>hr_Name = n, hr_OK = err = None, hr_Error = (case err of None \<Rightarrow> [] | Some e \<Rightarrow> e), hr_Latency = latency\<rparr>;
              (rest, ok) = health_loop r (allOK \<and> err = None) ns
          in (res # rest, ok))"

definition Health_Run :: "Health_Registry \<Rightarrow> Health_Result list \<times> bool" where
  "Health_Run r = health_loop r True (Health_Names r)"

definition AlwaysOK :: CheckFunc where "AlwaysOK = (None, 0)"

interpretation health: name_registry "\<lambda>r (n, f). Health_Register r n (Some f)"
    "\<lambda>r n. map_option (Pair n) (map_of r n)" Health_Names fst "\<lambda>r. distinct (map fst r)"
  by unfold_locales
    (auto simp: Health_Register_def Health_Names_def swap_sort_eq AList.update_conv'
      distinct_update map_of_eq_None_iff split: if_splits)

lemma health_loop_results:
  assumes "set ns \<subseteq> dom (map_of r)"
  shows "map hr_Name (fst (health_loop r ok ns)) = ns \<and>
         (snd (health_loop r ok ns) \<longleftrightarrow> ok \<and> list_all hr_OK (fst (health_loop r ok ns))) \<and>
         list_all (\<lambda>res. \<exists>err. map_of r (hr_Name res) = Some (err, hr_Latency res) \<and> (hr_OK res \<longleftrightarrow> err = None))
           (fst (health_loop r ok ns))"
  using assms
proof (induction ns arbitrary: ok)
  case (Cons n ns)
  then obtain err l where n: "map_of r n = Some (err, l)" by auto
  obtain rest ok' where rest: "health_loop r (ok \<and> err = None) ns = (rest, ok')" by fastforce
  show ?case
    using Cons.IH[of "ok \<and> err = None"] Cons.prems n by (simp add: rest Let_def)
qed simp

text \<open>
  A readiness answer names every registered check once, in order of the names, with its own outcome, and
  is positive exactly when all of them are.
\<close>

lemma readiness_exact:
  assumes "distinct (map fst r)" "Health_Run r = (results, ok)"
  shows "map hr_Name results = sort (map fst r) \<and> distinct (map hr_Name results) \<and>
         (ok \<longleftrightarrow> (\<forall>(name, err, latency) \<in> set r. err = None))"
proof -
  have names: "set (Health_Names r) \<subseteq> dom (map_of r)" by (auto simp: Health_Names_def swap_sort_eq dom_map_of_conv_image_fst)
  have r: "map hr_Name results = Health_Names r" "ok \<longleftrightarrow> list_all hr_OK results"
    "list_all (\<lambda>res. \<exists>err. map_of r (hr_Name res) = Some (err, hr_Latency res) \<and> (hr_OK res \<longleftrightarrow> err = None)) results"
    using health_loop_results[OF names, of True] assms(2) by (simp_all add: Health_Run_def)
  have "list_all hr_OK results \<longleftrightarrow> (\<forall>n \<in> set (map hr_Name results). \<forall>err l. map_of r n = Some (err, l) \<longrightarrow> err = None)"
    using r(3) by (fastforce simp: list_all_iff)
  also have "\<dots> \<longleftrightarrow> (\<forall>(name, err, latency) \<in> set r. err = None)"
    using assms(1) unfolding r(1) by (auto simp: Health_Names_def swap_sort_eq dest: map_of_SomeD) (metis fst_conv imageI map_of_is_SomeI)
  finally show ?thesis
    using r(1,2) assms(1) by (simp add: Health_Names_def swap_sort_eq)
qed

section \<open>Feature flags\<close>

record 'c EvalContext =
  ev_TenantID :: string
  ev_WorkspaceID :: string
  ev_UserID :: string
  ev_Custom :: "string \<rightharpoonup> 'c"

definition EvalFromTenant :: "TenantContext \<Rightarrow> 'c EvalContext" where
  "EvalFromTenant t =
     \<lparr>ev_TenantID = tc_TenantID t, ev_WorkspaceID = tc_WorkspaceID t, ev_UserID = [], ev_Custom = Map.empty\<rparr>"

record 'c Flag_Provider =
  fp_BoolValue :: "string \<Rightarrow> bool \<Rightarrow> 'c EvalContext \<Rightarrow> bool"
  fp_StringValue :: "string \<Rightarrow> string \<Rightarrow> 'c EvalContext \<Rightarrow> string"
  fp_NumberValue :: "string \<Rightarrow> f64 \<Rightarrow> 'c EvalContext \<Rightarrow> f64"

text \<open>A client is its provider, if it has one; \<open>Set\<close> replaces it.\<close>

type_synonym 'c Flag_Client = "'c Flag_Provider option"

definition Flag_Set :: "'c Flag_Client \<Rightarrow> 'c Flag_Client \<Rightarrow> 'c Flag_Client" where
  "Flag_Set c p = p"

definition Flag_Bool :: "'c Flag_Client \<Rightarrow> string \<Rightarrow> bool \<Rightarrow> 'c EvalContext \<Rightarrow> bool" where
  "Flag_Bool c flag def e = (case c of None \<Rightarrow> def | Some p \<Rightarrow> fp_BoolValue p flag def e)"

definition Flag_String :: "'c Flag_Client \<Rightarrow> string \<Rightarrow> string \<Rightarrow> 'c EvalContext \<Rightarrow> string" where
  "Flag_String c flag def e = (case c of None \<Rightarrow> def | Some p \<Rightarrow> fp_StringValue p flag def e)"

definition Flag_Number :: "'c Flag_Client \<Rightarrow> string \<Rightarrow> f64 \<Rightarrow> 'c EvalContext \<Rightarrow> f64" where
  "Flag_Number c flag def e = (case c of None \<Rightarrow> def | Some p \<Rightarrow> fp_NumberValue p flag def e)"

definition NoopProvider :: "'c Flag_Provider" where
  "NoopProvider = \<lparr>fp_BoolValue = \<lambda>_ d _. d, fp_StringValue = \<lambda>_ d _. d, fp_NumberValue = \<lambda>_ d _. d\<rparr>"

definition StaticProvider ::
  "(string \<rightharpoonup> bool) \<Rightarrow> (string \<rightharpoonup> string) \<Rightarrow> (string \<rightharpoonup> f64) \<Rightarrow> 'c Flag_Provider" where
  "StaticProvider bools strings numbers =
     \<lparr>fp_BoolValue = \<lambda>flag d _. (case bools flag of Some v \<Rightarrow> v | None \<Rightarrow> d),
      fp_StringValue = \<lambda>flag d _. (case strings flag of Some v \<Rightarrow> v | None \<Rightarrow> d),
      fp_NumberValue = \<lambda>flag d _. (case numbers flag of Some v \<Rightarrow> v | None \<Rightarrow> d)\<rparr>"

text \<open>An outage of the flag service, as no provider or as the stand-in, cannot be told from unset flags.\<close>

lemma flags_default:
  "Flag_Bool None = Flag_Bool (Some NoopProvider)"
  "Flag_String None = Flag_String (Some NoopProvider)"
  "Flag_Number None = Flag_Number (Some NoopProvider)"
  "StaticProvider Map.empty Map.empty Map.empty = NoopProvider"
  by (auto simp: fun_eq_iff Flag_Bool_def Flag_String_def Flag_Number_def NoopProvider_def StaticProvider_def)

end
