(* ===== verification/Activation.thy ===== *)
theory Activation
  imports Onboarding Go_Float
begin

text \<open>
  \<^verbatim>\<open>metrics/activation/activation.go\<close>: the activation rate of a cohort of tenants and the percentiles of
  the time to the first receipt.
\<close>

record TenantSnapshot =
  tn_TenantID :: string
  tn_State :: Onboarding_State
  tn_CreatedAt :: instant

record Rate =
  rt_Window :: duration
  rt_Sample :: i64
  rt_Activated :: i64
  rt_Percent :: f64

definition signup_of :: "TenantSnapshot \<Rightarrow> instant" where
  "signup_of s = (case ob_Reached (tn_State s) StageSignedUp of None \<Rightarrow> tn_CreatedAt s | Some t \<Rightarrow> t)"

fun rate_loop :: "instant \<Rightarrow> instant \<Rightarrow> Rate \<Rightarrow> TenantSnapshot list \<Rightarrow> Rate" where
  "rate_loop cohortFrom now r [] = r"
| "rate_loop cohortFrom now r (s # ss) =
     (let signup = signup_of s
      in if signup < cohortFrom \<or> signup > now then rate_loop cohortFrom now r ss
         else let r = r\<lparr>rt_Sample := rt_Sample r + 1\<rparr>;
                  r = (if Activated (tn_State s) SLOActivationWindow then r\<lparr>rt_Activated := rt_Activated r + 1\<rparr> else r)
              in rate_loop cohortFrom now r ss)"

definition ActivationRate :: "TenantSnapshot list \<Rightarrow> duration \<Rightarrow> instant \<Rightarrow> Rate" where
  "ActivationRate snapshots window now =
     (let window = (if window \<le> 0 then SLOActivationWindow else window);
          r = rate_loop (now - window) now \<lparr>rt_Window = window, rt_Sample = 0, rt_Activated = 0, rt_Percent = Fin 0\<rparr> snapshots
      in if rt_Sample r > 0
         then r\<lparr>rt_Percent := f64_mul (f64_div (f64_of_int (rt_Activated r)) (f64_of_int (rt_Sample r))) (Fin 100)\<rparr>
         else r)"

record TTFR =
  tt_Sample :: i64
  tt_P50 :: duration
  tt_P90 :: duration
  tt_Max :: duration
  tt_HealthyP50 :: bool

definition act_percentile :: "(f64 \<Rightarrow> i64) \<Rightarrow> duration list \<Rightarrow> f64 \<Rightarrow> duration" where
  "act_percentile conv xs p =
     (if xs = [] then 0
      else if f64_le p (Fin 0) then xs ! 0
      else if f64_le (Fin 1) p then xs ! (length xs - 1)
      else let rank = f64_to_i64 conv (f64_add (f64_mul p (f64_of_int (int (length xs)))) (Fin (1 / 2)));
               rank = (if rank \<le> 0 then 1 else rank);
               rank = (if rank > int (length xs) then int (length xs) else rank)
           in xs ! nat (rank - 1))"

text \<open>Equal durations cannot be told apart, so the unstable sort is \<^const>\<open>sort\<close>.\<close>

definition act_TimeToFirstReceipt :: "(f64 \<Rightarrow> i64) \<Rightarrow> TenantSnapshot list \<Rightarrow> TTFR" where
  "act_TimeToFirstReceipt conv snapshots =
     (let durs = List.map_filter (\<lambda>s. TimeToFirstReceipt (tn_State s)) snapshots
      in if durs = [] then \<lparr>tt_Sample = 0, tt_P50 = 0, tt_P90 = 0, tt_Max = 0, tt_HealthyP50 = False\<rparr>
         else let durs = sort durs; p50 = act_percentile conv durs (to_f64 (1 / 2))
              in \<lparr>tt_Sample = int (length durs), tt_P50 = p50, tt_P90 = act_percentile conv durs (to_f64 (9 / 10)),
                  tt_Max = durs ! (length durs - 1), tt_HealthyP50 = p50 \<le> SLOInstallToFirstReceipt\<rparr>)"

record Activation_Report =
  ar_ComputedAt :: instant
  ar_Rate :: Rate
  ar_TTFR :: TTFR

definition Activation_Compute :: "(f64 \<Rightarrow> i64) \<Rightarrow> TenantSnapshot list \<Rightarrow> instant \<Rightarrow> Activation_Report" where
  "Activation_Compute conv snapshots now =
     \<lparr>ar_ComputedAt = now, ar_Rate = ActivationRate snapshots 0 now, ar_TTFR = act_TimeToFirstReceipt conv snapshots\<rparr>"

section \<open>What is counted\<close>

definition in_cohort :: "instant \<Rightarrow> instant \<Rightarrow> TenantSnapshot \<Rightarrow> bool" where
  "in_cohort cohortFrom now s \<longleftrightarrow> cohortFrom \<le> signup_of s \<and> signup_of s \<le> now"

lemma rate_loop_counts:
  "rate_loop cohortFrom now r ss =
     r\<lparr>rt_Sample := rt_Sample r + int (length (filter (in_cohort cohortFrom now) ss)),
       rt_Activated := rt_Activated r +
         int (length (filter (\<lambda>s. in_cohort cohortFrom now s \<and> Activated (tn_State s) SLOActivationWindow) ss))\<rparr>"
  by (induction ss arbitrary: r) (auto simp: Let_def in_cohort_def)

lemma ActivationRate_fields:
  "rt_Sample (ActivationRate ss window now) =
     rt_Sample (rate_loop (now - (if window \<le> 0 then SLOActivationWindow else window)) now
       \<lparr>rt_Window = window, rt_Sample = 0, rt_Activated = 0, rt_Percent = Fin 0\<rparr> ss)"
  "rt_Activated (ActivationRate ss window now) =
     rt_Activated (rate_loop (now - (if window \<le> 0 then SLOActivationWindow else window)) now
       \<lparr>rt_Window = window, rt_Sample = 0, rt_Activated = 0, rt_Percent = Fin 0\<rparr> ss)"
  unfolding ActivationRate_def Let_def rate_loop_counts
  by (cases "0 < length (filter (in_cohort (now - (if window \<le> 0 then SLOActivationWindow else window)) now) ss)", simp_all)+

lemma ActivationRate_counts:
  assumes "0 < window"
  shows "rt_Sample (ActivationRate ss window now) = int (length (filter (in_cohort (now - window) now) ss)) \<and>
         rt_Activated (ActivationRate ss window now) =
           int (length (filter (\<lambda>s. in_cohort (now - window) now s \<and> Activated (tn_State s) SLOActivationWindow) ss)) \<and>
         rt_Activated (ActivationRate ss window now) \<le> rt_Sample (ActivationRate ss window now)"
proof -
  have "length (filter (\<lambda>s. in_cohort (now - window) now s \<and> Activated (tn_State s) SLOActivationWindow) ss)
      \<le> length (filter (in_cohort (now - window) now) ss)"
    by (induction ss) auto
  with assms show ?thesis by (simp add: ActivationRate_fields rate_loop_counts)
qed

text \<open>The report depends on which tenants there are, not on the order of the rows.\<close>

lemma map_filter_mset: "mset (List.map_filter f xs) = image_mset (the \<circ> f) (filter_mset (\<lambda>x. f x \<noteq> None) (mset xs))"
  by (simp add: List.map_filter_def)

lemma activation_order_independent:
  assumes "mset ss = mset ss'"
  shows "Activation_Compute conv ss now = Activation_Compute conv ss' now"
proof -
  have "length (filter P ss) = length (filter P ss')" for P
    using assms by (metis mset_filter size_mset)
  then have "ActivationRate ss 0 now = ActivationRate ss' 0 now"
    by (simp add: ActivationRate_def rate_loop_counts)
  moreover have m: "mset (List.map_filter (\<lambda>s. TimeToFirstReceipt (tn_State s)) ss) =
      mset (List.map_filter (\<lambda>s. TimeToFirstReceipt (tn_State s)) ss')"
    using assms by (simp add: map_filter_mset)
  then have "sort (List.map_filter (\<lambda>s. TimeToFirstReceipt (tn_State s)) ss) =
      sort (List.map_filter (\<lambda>s. TimeToFirstReceipt (tn_State s)) ss')"
    by (metis sorted_list_of_multiset_mset)
  moreover have "List.map_filter (\<lambda>s. TimeToFirstReceipt (tn_State s)) ss = [] \<longleftrightarrow>
      List.map_filter (\<lambda>s. TimeToFirstReceipt (tn_State s)) ss' = []"
    using m by (metis mset_zero_iff)
  ultimately show ?thesis
    by (simp add: Activation_Compute_def act_TimeToFirstReceipt_def Let_def)
qed

text \<open>The median is the element of rank \<open>\<lceil>n / 2\<rceil>\<close>, for every size of the cohort and every conversion.\<close>

lemma halves_exact: "\<bar>m\<bar> < 2 ^ 53 \<Longrightarrow> to_f64 (of_int m / 2) = Fin (of_int m / 2)"
proof -
  assume m: "\<bar>m\<bar> < 2 ^ 53"
  have "\<bar>of_int m :: rat\<bar> < 2 powi 53" using of_int_abs_less[OF m] by simp
  also have "\<dots> \<le> 2 powi 1000" by (simp only: powi2_le_iff)
  finally have "\<bar>of_int m / 2 :: rat\<bar> \<le> 2 powi 1000" by simp
  then show ?thesis
    using round64_exact[OF m, of "- 1"] by (simp add: to_f64_Fin power_int_minus)
qed

lemma median_rank:
  assumes "xs \<noteq> []" "length xs < 2 ^ 52"
  shows "act_percentile conv xs (to_f64 (1 / 2)) = xs ! ((length xs - 1) div 2)"
proof -
  let ?n = "int (length xs)"
  have n: "\<bar>?n\<bar> < 2 ^ 53" "\<bar>?n + 1\<bar> < 2 ^ 53" "1 \<le> ?n" using assms by (auto simp: Suc_le_eq)
  have half: "to_f64 (1 / 2) = Fin (1 / 2)" using halves_exact[of 1] by simp
  have "f64_add (f64_mul (Fin (1 / 2)) (f64_of_int ?n)) (Fin (1 / 2)) = Fin (of_int (?n + 1) / 2)"
    using n halves_exact[of ?n] halves_exact[of "?n + 1"] by (simp add: add_divide_distrib)
  moreover have "rat_trunc (of_int (?n + 1) / 2) = (?n + 1) div 2"
    using n by (simp add: rat_trunc_def floor_divide_of_int_eq[of "?n + 1" 2, simplified])
  moreover have "in_i64 ((?n + 1) div 2)" using n unfolding in_i64_def by simp linarith
  ultimately have "f64_to_i64 conv (f64_add (f64_mul (Fin (1 / 2)) (f64_of_int ?n)) (Fin (1 / 2))) = (?n + 1) div 2"
    by (simp add: f64_to_i64_def)
  moreover have "nat ((?n + 1) div 2 - 1) = (length xs - 1) div 2" using n by linarith
  moreover have "\<not> (?n + 1) div 2 \<le> 0" "\<not> (?n + 1) div 2 > ?n" using n by linarith+
  ultimately show ?thesis
    using assms(1) half by (simp add: act_percentile_def f64_le_def Let_def)
qed

text \<open>A tenant whose sign-up was not recorded is in the cohort by its row, and can never be activated.\<close>

lemma unrecorded_signup_never_activated:
  "ob_Reached (tn_State s) StageSignedUp = None \<Longrightarrow> signup_of s = tn_CreatedAt s \<and> \<not> Activated (tn_State s) window"
  by (simp add: signup_of_def Activated_def)

text \<open>The earliest moment of the window is inside the cohort.\<close>

lemma cohort_closed_below: "signup_of s = now - window \<Longrightarrow> 0 \<le> window \<Longrightarrow> in_cohort (now - window) now s"
  by (simp add: in_cohort_def)

end
