(* ===== verification/Share.thy ===== *)
theory Share
  imports Vcs Go_Strings "HOL-Library.AList"
begin

text \<open>
  \<^verbatim>\<open>internal/share/share.go\<close>: what \<^verbatim>\<open>--share\<close> sends. The JSON codec, SHA-256 and the network are
  parameters; a decoded document is the tree below.
\<close>

section \<open>Sanitising\<close>

text \<open>An object is the list of its members, which a Go map keeps distinct; scalars other than strings stay opaque.\<close>

datatype json = JString string | JArray "json list" | JObject "(string \<times> json) list" | JOther string

record share_codec =
  sc_Marshal :: "json \<Rightarrow> string + string"
  sc_Unmarshal :: "string \<Rightarrow> string + json"
  sc_UnmarshalMap :: "string \<Rightarrow> string + (string \<times> json) list"
  sc_Sha256 :: "string \<Rightarrow> string"

definition cap_detail :: "json \<Rightarrow> json" where
  "cap_detail f =
     (case f of
        JObject fm \<Rightarrow>
          (case map_of fm ''Detail'' of
             Some (JString d) \<Rightarrow>
               if length d > 256 then JObject (AList.update ''Detail'' (JString (take 256 d @ [CHR 0xE2, CHR 0x80, CHR 0xA6])) fm)
               else f
           | _ \<Rightarrow> f)
      | _ \<Rightarrow> f)"

definition sanitise_doc :: "(string \<times> json) list \<Rightarrow> (string \<times> json) list" where
  "sanitise_doc doc =
     (let doc = (if map_of doc ''source'' \<noteq> None then AList.update ''source'' (JString ''(redacted)'') doc else doc)
      in case map_of doc ''findings'' of
           Some (JArray findings) \<Rightarrow> AList.update ''findings'' (JArray (map cap_detail findings)) doc
         | _ \<Rightarrow> doc)"

text \<open>A report is what marshalling it gives, an error or a text.\<close>

definition Sanitise :: "share_codec \<Rightarrow> string + string \<Rightarrow> string + json" where
  "Sanitise cd report =
     (case report of
        Inl e \<Rightarrow> Inl (''share: marshal: '' @ e)
      | Inr raw \<Rightarrow>
          (case sc_UnmarshalMap cd raw of
             Inl e \<Rightarrow> Inl (''share: unmarshal: '' @ e)
           | Inr doc \<Rightarrow> Inr (JObject (sanitise_doc doc))))"

definition canonicalJSON :: "share_codec \<Rightarrow> json \<Rightarrow> string + string" where
  "canonicalJSON cd v =
     (case sc_Marshal cd v of
        Inl e \<Rightarrow> Inl e
      | Inr raw \<Rightarrow> (case sc_Unmarshal cd raw of Inl e \<Rightarrow> Inl e | Inr doc \<Rightarrow> sc_Marshal cd doc))"

section \<open>The hash\<close>

definition BaseURL :: string where "BaseURL = ''https://optiqor.dev/r/''"
definition HashLen :: nat where "HashLen = 12"

definition Share_Hash :: "share_codec \<Rightarrow> string + string \<Rightarrow> string + string" where
  "Share_Hash cd report =
     (case Sanitise cd report of
        Inl e \<Rightarrow> Inl e
      | Inr sanitised \<Rightarrow>
          (case canonicalJSON cd sanitised of
             Inl e \<Rightarrow> Inl e
           | Inr canonical \<Rightarrow> Inr (take HashLen (hex_encode (sc_Sha256 cd canonical)))))"

definition Share_URL :: "share_codec \<Rightarrow> string + string \<Rightarrow> string + string" where
  "Share_URL cd report = (case Share_Hash cd report of Inl e \<Rightarrow> Inl e | Inr h \<Rightarrow> Inr (BaseURL @ h))"

definition IsHash :: "string \<Rightarrow> bool" where
  "IsHash s \<longleftrightarrow> length s = HashLen \<and>
     list_all (\<lambda>c. \<not> ((c < CHR ''0'' \<or> c > CHR ''9'') \<and> (c < CHR ''a'' \<or> c > CHR ''f''))) (to_lower s)"

section \<open>The upload\<close>

record UploadResult =
  ur_Hash :: string
  ur_URL :: string
  ur_Posted :: bool
  ur_Error :: string

record upload_request =
  uq_URL :: string
  uq_Body :: string
  uq_Header :: "(string \<times> string) list"

text \<open>The network: why an endpoint does not make a request, and the answer to one, an error or a status.\<close>

record share_net =
  sn_NewRequest :: "string \<Rightarrow> string option"
  sn_Do :: "upload_request \<Rightarrow> string + int"

definition UploadEndpoint :: string where "UploadEndpoint = ''https://sandbox.optiqor.dev/api/v1/share''"

text \<open>The result and the requests sent.\<close>

definition Upload :: "share_codec \<Rightarrow> share_net \<Rightarrow> string + string \<Rightarrow> string \<Rightarrow> UploadResult \<times> upload_request list" where
  "Upload cd net report endpoint =
     (case Share_Hash cd report of
        Inl e \<Rightarrow> (\<lparr>ur_Hash = [], ur_URL = [], ur_Posted = False, ur_Error = e\<rparr>, [])
      | Inr hash \<Rightarrow>
          let result = \<lparr>ur_Hash = hash, ur_URL = BaseURL @ hash, ur_Posted = False, ur_Error = []\<rparr>;
              endpoint = (if endpoint = [] then UploadEndpoint else endpoint)
          in case Sanitise cd report of
               Inl e \<Rightarrow> (result\<lparr>ur_Error := e\<rparr>, [])
             | Inr sanitised \<Rightarrow>
                 (case canonicalJSON cd sanitised of
                    Inl e \<Rightarrow> (result\<lparr>ur_Error := e\<rparr>, [])
                  | Inr body \<Rightarrow>
                      (case sn_NewRequest net endpoint of
                         Some e \<Rightarrow> (result\<lparr>ur_Error := e\<rparr>, [])
                       | None \<Rightarrow>
                           let req = \<lparr>uq_URL = endpoint, uq_Body = body,
                                      uq_Header = [(''Content-Type'', ''application/json''), (''X-Optiqor-Hash'', hash),
                                                   (''User-Agent'', ''optiqor-cli'')]\<rparr>
                           in case sn_Do net req of
                                Inl e \<Rightarrow> (result\<lparr>ur_Error := e\<rparr>, [req])
                              | Inr status \<Rightarrow>
                                  if status < 200 \<or> status \<ge> 300
                                  then (result\<lparr>ur_Error := ''upload rejected: HTTP '' @ show_int status\<rparr>, [req])
                                  else (result\<lparr>ur_Posted := True\<rparr>, [req]))))"

section \<open>What leaves the machine\<close>

definition hex_char :: "char \<Rightarrow> bool" where
  "hex_char c \<longleftrightarrow> c \<in> set ''0123456789abcdef''"

lemma hex_digit_char: "n < 16 \<Longrightarrow> hex_char (hex_digit n)"
proof -
  assume "n < 16"
  then have "n \<in> set [0..<16]" by simp
  moreover have "list_all (\<lambda>n. hex_char (hex_digit n)) [0..<16]" by code_simp
  ultimately show ?thesis by (simp add: list_all_iff del: set_upt)
qed

lemma hex_encode_chars: "list_all hex_char (hex_encode s)"
proof (induction s)
  case (Cons c s)
  have "(of_char c :: nat) < 256" using of_char_mod_256[of c] mod_less_divisor[of 256 "of_char c"] by simp
  then have "(of_char c :: nat) div 16 < 16" "(of_char c :: nat) mod 16 < 16" by (simp_all add: less_mult_imp_div_less)
  with Cons show ?case by (simp add: hex_encode_def hex_digit_char)
qed (simp add: hex_encode_def)

lemma to_lower_hex: "list_all hex_char s \<Longrightarrow> to_lower s = s"
proof (induction s)
  case (Cons c s)
  then show ?case by (auto simp: hex_char_def)
qed simp

lemma hex_char_range: "hex_char c \<Longrightarrow> \<not> ((c < CHR ''0'' \<or> c > CHR ''9'') \<and> (c < CHR ''a'' \<or> c > CHR ''f''))"
  by (auto simp: hex_char_def less_char_def)

lemma length_hex_encode: "length (hex_encode s) = 2 * length s"
  by (induction s) (simp_all add: hex_encode_def)

lemma IsHash_hex:
  assumes "6 \<le> length b"
  shows "IsHash (take HashLen (hex_encode b))"
proof -
  have "list_all hex_char (take HashLen (hex_encode b))"
    using hex_encode_chars[of b] by (auto simp: list_all_iff dest: in_set_takeD)
  then show ?thesis
    using assms hex_char_range by (auto simp: IsHash_def to_lower_hex length_hex_encode HashLen_def list_all_iff)
qed

text \<open>What sanitising may change, said of the documents as maps: the source and overlong details.\<close>

definition cut_detail :: "json \<Rightarrow> json \<Rightarrow> bool" where
  "cut_detail f g \<longleftrightarrow>
     (\<exists>fm gm d. f = JObject fm \<and> map_of fm ''Detail'' = Some (JString d) \<and> 256 < length d \<and> g = JObject gm \<and>
        map_of gm = (map_of fm)(''Detail'' \<mapsto> JString (take 256 d @ [CHR 0xE2, CHR 0x80, CHR 0xA6]))) \<or>
     g = f \<and> \<not> (\<exists>fm d. f = JObject fm \<and> map_of fm ''Detail'' = Some (JString d) \<and> 256 < length d)"

definition sanitised :: "(string \<times> json) list \<Rightarrow> (string \<times> json) list \<Rightarrow> bool" where
  "sanitised given doc \<longleftrightarrow>
     (\<forall>k. k \<noteq> ''source'' \<and> k \<noteq> ''findings'' \<longrightarrow> map_of doc k = map_of given k) \<and>
     map_of doc ''source'' = map_option (\<lambda>_. JString ''(redacted)'') (map_of given ''source'') \<and>
     (case map_of given ''findings'' of
        Some (JArray fs) \<Rightarrow> \<exists>gs. map_of doc ''findings'' = Some (JArray gs) \<and> list_all2 cut_detail fs gs
      | other \<Rightarrow> map_of doc ''findings'' = other)"

lemma cap_detail_cut: "cut_detail f (cap_detail f)"
  by (auto simp: cap_detail_def cut_detail_def AList.update_conv' split: json.splits option.splits)

lemma sanitise_doc_sanitised: "sanitised doc (sanitise_doc doc)"
  by (auto simp: sanitise_doc_def sanitised_def Let_def AList.update_conv' cap_detail_cut list_all2_map2 list_all2_same
      split: json.splits option.splits)

text \<open>The source of a report cannot be told from what is sent.\<close>

lemma source_forgotten:
  assumes "distinct (map fst doc)" "map_of doc ''source'' \<noteq> None"
  shows "sanitise_doc (AList.update ''source'' v doc) = sanitise_doc doc"
proof -
  have "AList.update k w (AList.update k v doc) = AList.update k w doc" for k :: string and w :: json
    by (induction doc) auto
  then show ?thesis using assms by (simp add: sanitise_doc_def AList.update_conv' Let_def)
qed

text \<open>Names are not: whatever a finding says of its workload is sent.\<close>

lemma workload_name_kept:
  "sanitise_doc [(''findings'', JArray [JObject [(''Workload'', JString ''alice'')]])] =
     [(''findings'', JArray [JObject [(''Workload'', JString ''alice'')]])]"
  by (simp add: sanitise_doc_def cap_detail_def)


definition share_codec_sample :: share_codec where
  "share_codec_sample = \<lparr>sc_Marshal = \<lambda>v. Inr (case v of JObject _ \<Rightarrow> ''{}'' | _ \<Rightarrow> ''null''), sc_Unmarshal = \<lambda>_. Inr (JObject []),
     sc_UnmarshalMap = \<lambda>_. Inr [(''source'', JString ''/home/me/values.yaml'')], sc_Sha256 = \<lambda>_. replicate 32 CHR 0xAB\<rparr>"

definition sample_net :: share_net where
  "sample_net = \<lparr>sn_NewRequest = \<lambda>_. None, sn_Do = \<lambda>_. Inr 201\<rparr>"


end
