(* ===== verification/Spec2Isabelle.thy ===== *)
theory Spec2Isabelle
  imports Cli RateLimit Onboarding Rollback Coalesce Confidence Apply_Fix Labels Pricing Prom_Cache Receipts_Http Session Ingestion
    Billing Attribution Worker Graph Scraper Cluster_Crd Agent_Loop Onboarding_Http Dashboard Preflight Sandbox
    Terminal Api_Boot Platform Activation Share
begin

text \<open>
  A verification development for Optiqor: the command line that reads a Helm values file and
  reports what it wastes and where it is unsafe, and the parts of the backend that decide over
  tenants, recommendations and generated fixes.

  \<^bold>\<open>The program.\<close> \<^verbatim>\<open>optiqor analyze\<close> (and its siblings \<^verbatim>\<open>audit\<close>, \<^verbatim>\<open>score\<close>, \<^verbatim>\<open>diff\<close>, \<^verbatim>\<open>demo\<close>,
  \<^verbatim>\<open>list-rules\<close>) opens a values file, \<^verbatim>\<open>pkg/parser\<close> turns the decoded YAML tree into a list of
  workloads with their quantities, \<^verbatim>\<open>pkg/rules\<close> runs every registered detector on every workload and
  sorts the findings, \<^verbatim>\<open>internal/analyze\<close> filters, grades, scores and compares, \<^verbatim>\<open>internal/render\<close>
  prints, and \<^verbatim>\<open>cmd/optiqor\<close> maps the findings to an exit code. In the backend (\<^verbatim>\<open>backend/internal\<close>,
  \<^verbatim>\<open>backend/cmd\<close>) an agent inside the cluster reads the informer caches and Prometheus and posts
  snapshots; the API authenticates and stores them, serves the sandbox, the dashboard, onboarding and
  receipts, and receives webhooks; the worker turns a finding into a fix with a language model, checks
  it and publishes it as a pull request, watches the merge and issues receipts.

  \<^bold>\<open>The library of the language.\<close> \<^verbatim>\<open>Prelude\<close>: 64-bit integers with wrap-around, byte strings, stable
  sorting under a comparison contract, decimal printing. \<^verbatim>\<open>Go_Float\<close>: \<^verbatim>\<open>float64\<close> as exact rationals with
  IEEE rounding, and where the rounding cannot be seen. \<^verbatim>\<open>Go_Strconv\<close>, \<^verbatim>\<open>Go_Strings\<close>, \<^verbatim>\<open>Go_Time\<close>, \<^verbatim>\<open>Go_Date\<close>,
  \<^verbatim>\<open>Go_Base64\<close>, \<^verbatim>\<open>Go_Utf8\<close> (runes and bytes), \<^verbatim>\<open>Go_Regexp\<close> (leftmost matching for the patterns the code uses).

  \<^bold>\<open>The command line.\<close>
  \<^item> \<^verbatim>\<open>Quantity\<close> and \<^verbatim>\<open>Helm\<close> (\<^verbatim>\<open>pkg/parser\<close>): quantities and the walk from a YAML tree to workloads.
  \<^item> \<^verbatim>\<open>Rules_Types\<close>, \<^verbatim>\<open>Rules_Cost\<close>, \<^verbatim>\<open>Rules_Security\<close>, \<^verbatim>\<open>Rules\<close> (\<^verbatim>\<open>pkg/rules\<close>): findings, every detector, and
    the engine that runs, stamps and sorts.
  \<^item> \<^verbatim>\<open>Analyze\<close> (\<^verbatim>\<open>internal/analyze\<close>): pipeline, filter, grade, score and diff. \<^verbatim>\<open>Roast\<close> (\<^verbatim>\<open>internal/roast\<close>).
  \<^item> \<^verbatim>\<open>Report\<close> and \<^verbatim>\<open>Terminal\<close> (\<^verbatim>\<open>internal/render\<close>): totals, order and sections, and every writer of the
    text report with its wrapping, cutting and measuring. \<^verbatim>\<open>Html_View\<close> (\<^verbatim>\<open>pkg/htmlrender\<close>): what the template
    is filled with.
  \<^item> \<^verbatim>\<open>Cli\<close> (\<^verbatim>\<open>internal/config\<close>, \<^verbatim>\<open>cmd/optiqor\<close>): a run of a command as a function of the arguments, the
    environment and the file system to its effects in order and the exit code. \<^verbatim>\<open>Share\<close>
    (\<^verbatim>\<open>internal/share\<close>): what \<^verbatim>\<open>--share\<close> sends and under which name.

  \<^bold>\<open>The agent\<close> (below \<^verbatim>\<open>backend/internal/agent\<close> and \<^verbatim>\<open>backend/cmd/agent\<close>).
  \<^item> \<^verbatim>\<open>Cluster\<close> and \<^verbatim>\<open>Cluster_Crd\<close> (\<^verbatim>\<open>agent/cluster\<close>): the readers over the caches; \<^verbatim>\<open>Operators\<close>
    (\<^verbatim>\<open>operators\<close>): the walk along the owners; \<^verbatim>\<open>Graph\<close> (\<^verbatim>\<open>agent/graph\<close>): the traffic graph.
  \<^item> \<^verbatim>\<open>Prom_Client\<close>, \<^verbatim>\<open>Prom_Cache\<close>, \<^verbatim>\<open>Scraper\<close> (\<^verbatim>\<open>agent/prom\<close>): client, shared cache under concurrent callers
    (a step relation), scraper.
  \<^item> \<^verbatim>\<open>Ident\<close> (\<^verbatim>\<open>agent/ident\<close>): agent tokens; \<^verbatim>\<open>Egress\<close> (\<^verbatim>\<open>agent/egress\<close>): posting; \<^verbatim>\<open>Agent_Loop\<close>: the start,
    the assembly of a snapshot and the loop of ticks. \<^verbatim>\<open>Sanitizer\<close> and \<^verbatim>\<open>Composer\<close> (\<^verbatim>\<open>agent/llm\<close>,
    \<^verbatim>\<open>agent/agent.go\<close>): what goes to the language model and what comes back.

  \<^bold>\<open>The API and the services behind it.\<close>
  \<^item> \<^verbatim>\<open>Http\<close>, \<^verbatim>\<open>Middleware\<close>, \<^verbatim>\<open>Api_Boot\<close>, \<^verbatim>\<open>Platform\<close>: errors and bodies, tenant extraction, recovery and
    logging, configuration, the table of routes, readiness and flags. \<^verbatim>\<open>RateLimit\<close>, \<^verbatim>\<open>Tenancy\<close>, \<^verbatim>\<open>Registry\<close>.
  \<^item> \<^verbatim>\<open>Session\<close> (\<^verbatim>\<open>auth\<close>), \<^verbatim>\<open>Tokens\<close> (\<^verbatim>\<open>applyfix/token\<close>), \<^verbatim>\<open>Receipts\<close> and \<^verbatim>\<open>Receipts_Http\<close> (\<^verbatim>\<open>receipts\<close>).
  \<^item> \<^verbatim>\<open>Ingestion\<close>, \<^verbatim>\<open>Coalesce\<close>, \<^verbatim>\<open>Billing\<close>, \<^verbatim>\<open>Vcs\<close>, \<^verbatim>\<open>Attribution\<close>: what is received, from whom, and what it sets
    in motion. \<^verbatim>\<open>Dashboard\<close>, \<^verbatim>\<open>Onboarding\<close>, \<^verbatim>\<open>Onboarding_Http\<close>, \<^verbatim>\<open>Preflight\<close>, \<^verbatim>\<open>Sandbox\<close>: what is served.

  \<^bold>\<open>Fixes\<close> (\<^verbatim>\<open>worker\<close>, \<^verbatim>\<open>applyfix\<close>, \<^verbatim>\<open>validator\<close>, \<^verbatim>\<open>cost\<close>, \<^verbatim>\<open>methodology\<close>, \<^verbatim>\<open>prwriter\<close>).
  \<^item> \<^verbatim>\<open>Observed\<close>, \<^verbatim>\<open>Confidence\<close>, \<^verbatim>\<open>Pricing\<close>, \<^verbatim>\<open>Sizing\<close>: observed usage, its confidence, prices and cuts.
  \<^item> \<^verbatim>\<open>Validator\<close>, \<^verbatim>\<open>Gate\<close>, \<^verbatim>\<open>Gate_Stages\<close>: the checks of a candidate and of a generated diff.
  \<^item> \<^verbatim>\<open>Apply_Fix\<close>, \<^verbatim>\<open>Worker\<close>: the workflow from finding to pull request, the other workflows and the
    dispatcher. \<^verbatim>\<open>Prwriter\<close>, \<^verbatim>\<open>Labels\<close>: comment and policy labels. \<^verbatim>\<open>Rollback\<close>: the watch after the merge.
    \<^verbatim>\<open>Activation\<close>: the metrics of the cohort.

  \<^bold>\<open>Correspondence.\<close> A Go struct is a record whose fields carry a short prefix, a named string type
  with constants is \<open>string\<close> with one definition per constant, an interface with several
  implementations is a record of functions (a detector, a validator, a flag provider) or a function. A
  method is a function that takes the receiver first and returns it changed where it changes it. An
  error return is \<open>Inl\<close> or an option, a nil pointer \<open>None\<close>; a panic is \<open>None\<close> or a constructor
  of its own and is propagated. An HTTP handler maps a request to its events in order and to an
  outcome, a response or a panic. Go maps are association lists or functions; where Go leaves the
  iteration order open, the properties hold for every order. A mutex makes a call atomic, so a
  history of calls is a list; where callers interleave inside an operation (the query cache, the
  draining dispatcher) the model is an \<open>inductive\<close> step relation and its reachable states.

  \<^bold>\<open>Parameters.\<close> What is not under the repository's control, as arguments of the definitions that use
  it, with documented behaviour as named hypotheses: JSON, YAML and CSV codecs, SHA-256, HMAC and the
  signature schemes, clocks, random ids, the file system, environment and terminal, the network and
  TLS, the Kubernetes caches, label selectors and dynamic client, the language model, sinks and
  stores over SQL, the pull-request publisher, page templates, the styles of lipgloss, and the
  conversion of a \<^verbatim>\<open>float64\<close> outside the range of \<^verbatim>\<open>int64\<close>, which the language leaves to the platform.

  \<^bold>\<open>What the lemmas show.\<close>
  \<^item> The report is exactly the findings of the detectors, stamped and sorted, the same for every order
    of workloads and detectors; floating-point detectors decide the exact integer comparisons; a
    chart has no security finding exactly when it meets the baseline. The exit codes of the gate
    flags follow from it, no text report goes out without its accuracy disclosure, and what is shared is
    the sanitised document under its own hash.
  \<^item> Reading finds exactly the mappings with resources, and quantities round-trip.
  \<^item> Tokens, sessions, receipts, webhooks and snapshots are accepted only with the right signature,
    tenant and time, and issued ones are accepted. Where the code trusts a caller, that is shown too, and
    that the server of \<^verbatim>\<open>cmd/api\<close>, which listens without TLS, refuses every snapshot an agent posts.
  \<^item> A fix is published exactly when every guard allows it; the diff engine is sound and round-trips;
    validators and gate reject exactly what they say.
  \<^item> The limiter's sliding bound, one analysis per window, one leader per query and no stuck waiter,
    monotone onboarding, shared analyses served until they expire, a silent agent healthy
    no longer than an hour past the time it reported itself.
  \<^item> Readers over unordered maps (graph, scraper, limits) give one answer for every order.

  \<^bold>\<open>Interfaces.\<close> Locales state what one part relies on in another, each interpreted on the model's
  definitions: comparisons handed to the stable sort (\<open>less_order\<close>), the laws of a
  fixed-window counter (\<open>fixed_window\<close>), from which the sliding bound follows for any
  implementation, what a policy owes the gate (\<open>gate_policy\<close>), suites of detectors
  (\<open>detector_suite\<close>) and detectors on a sample (\<open>sample_detector\<close>), tokens under a MAC (\<open>mac_token\<close>), signers
  of receipts (\<open>receipt_signer\<close>) and registries by name (\<open>name_registry\<close>).

  \<^bold>\<open>Bounds.\<close> Every loop is structural recursion or has a termination proof. The only fuel is the
  twenty rounds of the digit loop in \<^verbatim>\<open>Preflight\<close>, which a lemma shows to suffice for every 64-bit
  number; the walk along owners stops after sixteen steps because the code does. Integers are 64 bits
  wide with their wrap-around; theorems on quantities ask for values below \<open>2 ^ 53\<close> where a \<^verbatim>\<open>float64\<close>
  carries them, which is eight pebibytes or nine trillion cores, durations are below \<open>2 ^ 63\<close>
  nanoseconds, and dates lie in the years the printing of four digits covers.

  \<^bold>\<open>Not modelled.\<close> The text of templates and help pages, flag parsing, path matching by \<^verbatim>\<open>net/http\<close>,
  the stores over SQL, Slack messages, GDPR export and erasure, the GitOps types, Temporal, telemetry and
  log formats, test doubles, the web front end and the deployment descriptions.
\<close>

end
